(* ===== verification/Prelude.thy ===== *)
theory Prelude
  imports Main "HOL-Library.Word" "HOL-Library.AList"
begin

text \<open>
  Shared vocabulary of the development: the machine types the Go code uses, the result of a
  call that can return an error or block, Go maps that the code ranges over, and the generic
  lemmas the component theories rely on.

  \<^item> \<open>uuid\<close> is the 16 byte value of \<^verbatim>\<open>github.com/google/uuid\<close>; \<open>uuid_Nil\<close> is its zero value.
  \<^item> \<open>uint64\<close> keeps its width: additions wrap.
  \<^item> A Go map that is only read and written by key is a HOL map. A Go map that is also ranged
    over is an association list \<open>gomap\<close> with distinct keys: Go leaves the iteration order open, the
    list order stands for the order one run happens to take, and the theorems about ranged results
    speak of their sets.
\<close>

type_synonym uuid = "128 word"
type_synonym uint64 = "64 word"

abbreviation uuid_Nil :: uuid where
  "uuid_Nil \<equiv> 0"

named_theorems outcome_simps "evaluation of calls that may fail or block"
named_theorems map_simps "lookup after update, deletion and range deletion"

section \<open>Results of calls\<close>

text \<open>
  A call that mutates the world \<open>'w\<close> returns normally, returns a Go error (the mutations made
  before the error stay), or never returns because it waits for a lock its own goroutine holds.
\<close>

datatype ('err, 'w) outcome = Ok 'w | Fail 'err 'w | Stuck

fun and_then :: "('err, 'w) outcome \<Rightarrow> ('w \<Rightarrow> ('err, 'w) outcome) \<Rightarrow> ('err, 'w) outcome" where
  "and_then (Ok w) f = f w"
| "and_then (Fail e w) f = Fail e w"
| "and_then Stuck f = Stuck"

text \<open>The error is logged and dropped, the call goes on.\<close>

fun log_error :: "('err, 'w) outcome \<Rightarrow> ('err, 'w) outcome" where
  "log_error (Ok w) = Ok w"
| "log_error (Fail e w) = Ok w"
| "log_error Stuck = Stuck"

text \<open>What every result that returns satisfies.\<close>

fun returns :: "('w \<Rightarrow> bool) \<Rightarrow> ('err, 'w) outcome \<Rightarrow> bool" where
  "returns P (Ok w) = P w"
| "returns P (Fail e w) = P w"
| "returns P Stuck = True"

fun outcome_map :: "('w \<Rightarrow> 'w) \<Rightarrow> ('err, 'w) outcome \<Rightarrow> ('err, 'w) outcome" where
  "outcome_map f (Ok w) = Ok (f w)"
| "outcome_map f (Fail e w) = Fail e (f w)"
| "outcome_map f Stuck = Stuck"

lemma and_then_Ok [outcome_simps]: "and_then r f = Ok w \<longleftrightarrow> (\<exists>w'. r = Ok w' \<and> f w' = Ok w)"
  by (cases r) auto

lemma and_then_Stuck [outcome_simps]:
  "and_then r f = Stuck \<longleftrightarrow> r = Stuck \<or> (\<exists>w'. r = Ok w' \<and> f w' = Stuck)"
  by (cases r) auto

lemma and_then_assoc [outcome_simps]: "and_then (and_then r f) g = and_then r (\<lambda>w. and_then (f w) g)"
  by (cases r) auto

lemma and_then_right_Ok [simp]: "and_then r Ok = r"
  by (cases r) auto

lemma returns_and_then:
  "returns P r \<Longrightarrow> (\<And>w. P w \<Longrightarrow> returns P (f w)) \<Longrightarrow> returns P (and_then r f)"
  by (cases r) auto

lemma returns_log_error [simp]: "returns P (log_error r) = returns P r"
  by (cases r) auto

lemma returns_mono: "returns P r \<Longrightarrow> (\<And>w. P w \<Longrightarrow> Q w) \<Longrightarrow> returns Q r"
  by (cases r) auto

lemma returns_outcome_map [simp]: "returns P (outcome_map f r) = returns (\<lambda>w. P (f w)) r"
  by (cases r) auto

lemma outcome_map_Stuck [simp]: "outcome_map f r = Stuck \<longleftrightarrow> r = Stuck"
  by (cases r) auto

lemma log_error_Stuck [simp]: "log_error r = Stuck \<longleftrightarrow> r = Stuck"
  by (cases r) auto

section \<open>Go maps that are ranged over\<close>

type_synonym ('k, 'v) gomap = "('k \<times> 'v) list"

abbreviation go_get :: "('k, 'v) gomap \<Rightarrow> 'k \<Rightarrow> 'v option" where
  "go_get m k \<equiv> map_of m k"

abbreviation go_set :: "'k \<Rightarrow> 'v \<Rightarrow> ('k, 'v) gomap \<Rightarrow> ('k, 'v) gomap" where
  "go_set k v m \<equiv> AList.update k v m"

abbreviation go_del :: "'k \<Rightarrow> ('k, 'v) gomap \<Rightarrow> ('k, 'v) gomap" where
  "go_del k m \<equiv> AList.delete k m"

abbreviation go_keys :: "('k, 'v) gomap \<Rightarrow> 'k list" where
  "go_keys m \<equiv> map fst m"

definition go_distinct :: "('k, 'v) gomap \<Rightarrow> bool" where
  "go_distinct m \<longleftrightarrow> distinct (go_keys m)"

text \<open>Deleting, while ranging, every entry that satisfies \<open>P\<close>.\<close>

definition go_del_where :: "('k \<Rightarrow> 'v \<Rightarrow> bool) \<Rightarrow> ('k, 'v) gomap \<Rightarrow> ('k, 'v) gomap" where
  "go_del_where P m = filter (\<lambda>(k, v). \<not> P k v) m"

lemma go_distinct_Nil [simp]: "go_distinct []"
  by (simp add: go_distinct_def)

lemma go_distinct_set [simp]: "go_distinct m \<Longrightarrow> go_distinct (go_set k v m)"
  by (simp add: go_distinct_def distinct_update)

lemma go_distinct_del [simp]: "go_distinct m \<Longrightarrow> go_distinct (go_del k m)"
  by (simp add: go_distinct_def distinct_delete)

lemma go_distinct_del_where [simp]: "go_distinct m \<Longrightarrow> go_distinct (go_del_where P m)"
  by (simp add: go_distinct_def go_del_where_def distinct_map_filter)

lemma go_get_set [map_simps]: "go_get (go_set k v m) = (go_get m)(k \<mapsto> v)"
  by (rule update_conv')

lemma go_get_del [map_simps]: "go_get (go_del k m) = (go_get m)(k := None)"
  by (rule delete_conv')

lemma go_get_del_where [map_simps]:
  assumes "go_distinct m"
  shows "go_get (go_del_where P m) k
    = (case go_get m k of None \<Rightarrow> None | Some v \<Rightarrow> if P k v then None else Some v)"
  using assms
proof (induction m)
  case Nil
  then show ?case by (simp add: go_del_where_def)
next
  case (Cons a m)
  then show ?case
    by (cases a)
       (auto simp: go_del_where_def go_distinct_def map_of_eq_None_iff image_iff
             split: option.splits dest!: map_of_SomeD)
qed

lemma go_get_in_set: "go_distinct m \<Longrightarrow> go_get m k = Some v \<longleftrightarrow> (k, v) \<in> set m"
  by (simp add: go_distinct_def)

lemma go_all_set:
  "\<forall>(k', v') \<in> set m. P k' v' \<Longrightarrow> P k v \<Longrightarrow> \<forall>(k', v') \<in> set (go_set k v m). P k' v'"
  by (induction m) auto

section \<open>Lists of identifiers\<close>

lemma fold_invariant_set:
  assumes "I s" and "\<And>x s. x \<in> set xs \<Longrightarrow> I s \<Longrightarrow> I (f x s)"
  shows "I (fold f xs s)"
  using assms by (induction xs arbitrary: s) auto

end
