(* ===== verification/DependencyTracker.thy ===== *)
theory DependencyTracker
  imports Prelude
begin

text \<open>
  The dependency tracker of \<^verbatim>\<open>coordinator/dependencytracker\<close>: for each transaction the list of
  transactions it depends on and the list of transactions it is a prerequisite of, kept for the
  pre-assembly (single), the post-assembly and the chained dependencies.

  The nodes of a chain are structs behind pointers, one per identifier, and no operation hands a
  pointer or an unshared slice out (the getters clone), so a chain is a map from identifiers to
  node values. \<open>depends d\<close> is the dependency relation a chain stores; the chain operations are
  proved to refine set operations on it.
\<close>

record nodeLinks =
  dependsOn :: "uuid list"
  prereqOf :: "uuid list"

type_synonym dependencyChain = "uuid \<rightharpoonup> nodeLinks"

text \<open>The chained dependencies embed a chain and add two maps of their own.\<close>

record chainedDependencies =
  cd_chain :: dependencyChain
  unassembledDependencies :: "uuid \<rightharpoonup> uuid list"
  children :: "uuid \<rightharpoonup> uuid"

record dependencyTracker =
  preAssembly :: dependencyChain
  postAssembly :: dependencyChain
  chained :: chainedDependencies

section \<open>Lists as the code edits them\<close>

definition appendUnique :: "uuid list \<Rightarrow> uuid \<Rightarrow> uuid list" where
  "appendUnique ids add = (if add \<in> set ids then ids else ids @ [add])"

definition removeUUID :: "uuid list \<Rightarrow> uuid \<Rightarrow> uuid list" where
  "removeUUID ids target = filter (\<lambda>i. i \<noteq> target) ids"

lemma set_appendUnique [simp]: "set (appendUnique ids x) = insert x (set ids)"
  by (auto simp: appendUnique_def)

lemma distinct_appendUnique [simp]: "distinct (appendUnique ids x) = distinct ids"
  by (auto simp: appendUnique_def)

lemma set_removeUUID [simp]: "set (removeUUID ids x) = set ids - {x}"
  by (auto simp: removeUUID_def)

lemma distinct_removeUUID [simp]: "distinct ids \<Longrightarrow> distinct (removeUUID ids x)"
  by (simp add: removeUUID_def)

section \<open>The dependency chain\<close>

abbreviation emptyLinks :: nodeLinks where
  "emptyLinks \<equiv> \<lparr>dependsOn = [], prereqOf = []\<rparr>"

definition newDependencyChain :: dependencyChain where
  "newDependencyChain = Map.empty"

definition ensure :: "uuid \<Rightarrow> dependencyChain \<Rightarrow> dependencyChain" where
  "ensure i d = (case d i of None \<Rightarrow> d(i \<mapsto> emptyLinks) | Some n \<Rightarrow> d)"

text \<open>Writes through the node pointer of \<open>i\<close>, where \<open>i\<close> has a node.\<close>

definition updDependsOn :: "uuid \<Rightarrow> (uuid list \<Rightarrow> uuid list) \<Rightarrow> dependencyChain \<Rightarrow> dependencyChain" where
  "updDependsOn i f d =
     (case d i of None \<Rightarrow> d | Some n \<Rightarrow> d(i \<mapsto> n\<lparr>dependsOn := f (dependsOn n)\<rparr>))"

definition updPrereqOf :: "uuid \<Rightarrow> (uuid list \<Rightarrow> uuid list) \<Rightarrow> dependencyChain \<Rightarrow> dependencyChain" where
  "updPrereqOf i f d =
     (case d i of None \<Rightarrow> d | Some n \<Rightarrow> d(i \<mapsto> n\<lparr>prereqOf := f (prereqOf n)\<rparr>))"

definition GetPrerequisites :: "dependencyChain \<Rightarrow> uuid \<Rightarrow> uuid list" where
  "GetPrerequisites d i = (case d i of None \<Rightarrow> [] | Some n \<Rightarrow> dependsOn n)"

definition GetDependents :: "dependencyChain \<Rightarrow> uuid \<Rightarrow> uuid list" where
  "GetDependents d i = (case d i of None \<Rightarrow> [] | Some n \<Rightarrow> prereqOf n)"

definition HasPrerequisites :: "dependencyChain \<Rightarrow> uuid \<Rightarrow> bool" where
  "HasPrerequisites d i = (case d i of None \<Rightarrow> False | Some n \<Rightarrow> length (dependsOn n) > 0)"

definition HasDependents :: "dependencyChain \<Rightarrow> uuid \<Rightarrow> bool" where
  "HasDependents d i = (case d i of None \<Rightarrow> False | Some n \<Rightarrow> length (prereqOf n) > 0)"

fun addPrerequisitesLoop :: "uuid \<Rightarrow> uuid list \<Rightarrow> dependencyChain \<Rightarrow> dependencyChain" where
  "addPrerequisitesLoop txID [] d = d"
| "addPrerequisitesLoop txID (preReq # rest) d =
     (if preReq = txID then addPrerequisitesLoop txID rest d
      else addPrerequisitesLoop txID rest
        (updPrereqOf preReq (\<lambda>ids. appendUnique ids txID)
          (updDependsOn txID (\<lambda>ids. appendUnique ids preReq) (ensure preReq d))))"

definition AddPrerequisites :: "uuid \<Rightarrow> uuid list \<Rightarrow> dependencyChain \<Rightarrow> dependencyChain" where
  "AddPrerequisites txID prereq d = addPrerequisitesLoop txID prereq (ensure txID d)"

definition ClearPrerequisites :: "uuid \<Rightarrow> dependencyChain \<Rightarrow> dependencyChain" where
  "ClearPrerequisites txID d =
     (case d txID of
        None \<Rightarrow> d
      | Some tx \<Rightarrow>
          updDependsOn txID (\<lambda>_. [])
            (fold (\<lambda>prereqID. updPrereqOf prereqID (\<lambda>ids. removeUUID ids txID)) (dependsOn tx) d))"

definition ClearDependents :: "uuid \<Rightarrow> dependencyChain \<Rightarrow> dependencyChain" where
  "ClearDependents txID d =
     (case d txID of
        None \<Rightarrow> d
      | Some tx \<Rightarrow>
          updPrereqOf txID (\<lambda>_. [])
            (fold (\<lambda>dependentID. updDependsOn dependentID (\<lambda>ids. removeUUID ids txID)) (prereqOf tx) d))"

definition delete_tx :: "uuid \<Rightarrow> dependencyChain \<Rightarrow> dependencyChain" where
  "delete_tx transactionID d =
     (case d transactionID of
        None \<Rightarrow> d
      | Some tx \<Rightarrow>
          (fold (\<lambda>prereqID. updPrereqOf prereqID (\<lambda>ids. removeUUID ids transactionID)) (dependsOn tx)
            (fold (\<lambda>dependentID. updDependsOn dependentID (\<lambda>ids. removeUUID ids transactionID))
              (prereqOf tx) d))(transactionID := None))"

section \<open>The single chain\<close>

definition AddPrerequisite :: "uuid \<Rightarrow> uuid \<Rightarrow> dependencyChain \<Rightarrow> dependencyChain" where
  "AddPrerequisite txID prereq d =
     (if prereq = txID then d
      else updPrereqOf prereq (\<lambda>_. [txID])
             (updDependsOn txID (\<lambda>_. [prereq]) (ensure prereq (ensure txID d))))"

definition GetPrerequisite :: "dependencyChain \<Rightarrow> uuid \<Rightarrow> uuid option" where
  "GetPrerequisite d i = (case GetPrerequisites d i of [] \<Rightarrow> None | p # _ \<Rightarrow> Some p)"

definition GetDependent :: "dependencyChain \<Rightarrow> uuid \<Rightarrow> uuid option" where
  "GetDependent d i = (case GetDependents d i of [] \<Rightarrow> None | p # _ \<Rightarrow> Some p)"

definition ClearPrerequisite :: "uuid \<Rightarrow> dependencyChain \<Rightarrow> dependencyChain" where
  "ClearPrerequisite txID d = ClearPrerequisites txID d"

definition ClearDependent :: "uuid \<Rightarrow> dependencyChain \<Rightarrow> dependencyChain" where
  "ClearDependent txID d = ClearDependents txID d"

definition HasPrerequisite :: "dependencyChain \<Rightarrow> uuid \<Rightarrow> bool" where
  "HasPrerequisite d i = HasPrerequisites d i"

definition HasDependent :: "dependencyChain \<Rightarrow> uuid \<Rightarrow> bool" where
  "HasDependent d i = HasDependents d i"

section \<open>Chained dependencies\<close>

fun AddUnassembledDependencies :: "uuid \<Rightarrow> uuid list \<Rightarrow> chainedDependencies \<Rightarrow> chainedDependencies" where
  "AddUnassembledDependencies txID [] cd = cd"
| "AddUnassembledDependencies txID (u # us) cd =
     AddUnassembledDependencies txID us
       (cd\<lparr>unassembledDependencies := (unassembledDependencies cd)
          (txID \<mapsto> appendUnique (case unassembledDependencies cd txID of None \<Rightarrow> [] | Some m \<Rightarrow> m) u)\<rparr>)"

fun DeleteUnassembledDependencies :: "uuid \<Rightarrow> uuid list \<Rightarrow> chainedDependencies \<Rightarrow> chainedDependencies" where
  "DeleteUnassembledDependencies txID [] cd = cd"
| "DeleteUnassembledDependencies txID (u # us) cd =
     DeleteUnassembledDependencies txID us
       (case unassembledDependencies cd txID of
          None \<Rightarrow> cd
        | Some m \<Rightarrow> cd\<lparr>unassembledDependencies :=
            (unassembledDependencies cd)(txID \<mapsto> removeUUID m u)\<rparr>)"

definition GetUnassembledDependencies :: "chainedDependencies \<Rightarrow> uuid \<Rightarrow> uuid list option" where
  "GetUnassembledDependencies cd txID = unassembledDependencies cd txID"

definition HasUnassembledDependencies :: "chainedDependencies \<Rightarrow> uuid \<Rightarrow> bool" where
  "HasUnassembledDependencies cd txID =
     (case unassembledDependencies cd txID of None \<Rightarrow> False | Some m \<Rightarrow> length m > 0)"

definition SetChainedChild :: "uuid \<Rightarrow> uuid \<Rightarrow> chainedDependencies \<Rightarrow> chainedDependencies" where
  "SetChainedChild parentID childID cd = cd\<lparr>children := (children cd)(parentID \<mapsto> childID)\<rparr>"

definition GetChainedChild :: "chainedDependencies \<Rightarrow> uuid \<Rightarrow> uuid option" where
  "GetChainedChild cd parentID =
     (case children cd parentID of
        None \<Rightarrow> None
      | Some childID \<Rightarrow> if childID \<noteq> uuid_Nil then Some childID else None)"

definition ForgetChainedChild :: "uuid \<Rightarrow> chainedDependencies \<Rightarrow> chainedDependencies" where
  "ForgetChainedChild parentID cd = cd\<lparr>children := (children cd)(parentID := None)\<rparr>"

definition chained_Delete :: "uuid \<Rightarrow> chainedDependencies \<Rightarrow> chainedDependencies" where
  "chained_Delete i cd =
     cd\<lparr>children := (children cd)(i := None),
        unassembledDependencies := (unassembledDependencies cd)(i := None),
        cd_chain := delete_tx i (cd_chain cd)\<rparr>"

section \<open>The tracker\<close>

definition NewDependencyTracker :: dependencyTracker where
  "NewDependencyTracker =
     \<lparr>preAssembly = newDependencyChain, postAssembly = newDependencyChain,
      chained = \<lparr>cd_chain = newDependencyChain, unassembledDependencies = Map.empty,
                 children = Map.empty\<rparr>\<rparr>"

definition tracker_Delete :: "uuid \<Rightarrow> dependencyTracker \<Rightarrow> dependencyTracker" where
  "tracker_Delete txID dt =
     dt\<lparr>chained := chained_Delete txID (chained dt),
        postAssembly := delete_tx txID (postAssembly dt),
        preAssembly := delete_tx txID (preAssembly dt)\<rparr>"

section \<open>The relation a chain stores\<close>

text \<open>\<open>(x, y)\<close> in \<open>depends d\<close>: \<open>x\<close> depends on \<open>y\<close>, read off the node of \<open>x\<close>; \<open>required d\<close> is the
  same relation read off the node of \<open>y\<close>. A well-formed chain stores the same relation on both
  sides, without duplicates and without self-dependencies.\<close>

definition depends :: "dependencyChain \<Rightarrow> (uuid \<times> uuid) set" where
  "depends d = {(x, y). y \<in> set (GetPrerequisites d x)}"

definition required :: "dependencyChain \<Rightarrow> (uuid \<times> uuid) set" where
  "required d = {(x, y). x \<in> set (GetDependents d y)}"

definition chain_wf :: "dependencyChain \<Rightarrow> bool" where
  "chain_wf d \<longleftrightarrow> depends d = required d \<and> (\<forall>x. (x, x) \<notin> depends d)
     \<and> (\<forall>x. distinct (GetPrerequisites d x)) \<and> (\<forall>x. distinct (GetDependents d x))"

lemma get_ensure [simp]:
  "GetPrerequisites (ensure i d) = GetPrerequisites d"
  "GetDependents (ensure i d) = GetDependents d"
  by (auto simp: ensure_def GetPrerequisites_def GetDependents_def fun_eq_iff split: option.splits)

lemma dom_ensure [simp]: "dom (ensure i d) = insert i (dom d)"
  by (auto simp: ensure_def split: option.splits)

lemma ensure_known [simp]: "\<exists>n. ensure i d i = Some n"
  by (auto simp: ensure_def split: option.splits)

lemma get_updDependsOn [simp]:
  "GetPrerequisites (updDependsOn i f d) x
     = (if x = i \<and> i \<in> dom d then f (GetPrerequisites d x) else GetPrerequisites d x)"
  "GetDependents (updDependsOn i f d) = GetDependents d"
  by (auto simp: updDependsOn_def GetPrerequisites_def GetDependents_def fun_eq_iff split: option.splits)

lemma get_updPrereqOf [simp]:
  "GetDependents (updPrereqOf i f d) x
     = (if x = i \<and> i \<in> dom d then f (GetDependents d x) else GetDependents d x)"
  "GetPrerequisites (updPrereqOf i f d) = GetPrerequisites d"
  by (auto simp: updPrereqOf_def GetPrerequisites_def GetDependents_def fun_eq_iff split: option.splits)

lemma dom_upd [simp]:
  "dom (updDependsOn i f d) = dom d" "dom (updPrereqOf i f d) = dom d"
  by (auto simp: updDependsOn_def updPrereqOf_def split: option.splits)

lemma get_outside [simp]:
  "x \<notin> dom d \<Longrightarrow> GetPrerequisites d x = []" "x \<notin> dom d \<Longrightarrow> GetDependents d x = []"
  by (auto simp: GetPrerequisites_def GetDependents_def split: option.splits)

lemma fold_updPrereqOf [simp]:
  "GetPrerequisites (fold (\<lambda>p. updPrereqOf p (\<lambda>ids. removeUUID ids t)) ps d) = GetPrerequisites d"
  "dom (fold (\<lambda>p. updPrereqOf p (\<lambda>ids. removeUUID ids t)) ps d) = dom d"
  "GetDependents (fold (\<lambda>p. updPrereqOf p (\<lambda>ids. removeUUID ids t)) ps d) x
     = (if x \<in> set ps then removeUUID (GetDependents d x) t else GetDependents d x)"
  by (induction ps arbitrary: d) (auto simp: removeUUID_def)

lemma fold_updDependsOn [simp]:
  "GetDependents (fold (\<lambda>p. updDependsOn p (\<lambda>ids. removeUUID ids t)) ps d) = GetDependents d"
  "dom (fold (\<lambda>p. updDependsOn p (\<lambda>ids. removeUUID ids t)) ps d) = dom d"
  "GetPrerequisites (fold (\<lambda>p. updDependsOn p (\<lambda>ids. removeUUID ids t)) ps d) x
     = (if x \<in> set ps then removeUUID (GetPrerequisites d x) t else GetPrerequisites d x)"
  by (induction ps arbitrary: d) (auto simp: removeUUID_def)


lemma addPrerequisitesLoop_get:
  assumes "t \<in> dom d"
  shows "set (GetPrerequisites (addPrerequisitesLoop t ps d) x)
       = set (GetPrerequisites d x) \<union> (if x = t then set ps - {t} else {})
    \<and> set (GetDependents (addPrerequisitesLoop t ps d) x)
       = set (GetDependents d x) \<union> (if x \<in> set ps - {t} then {t} else {})
    \<and> distinct (GetPrerequisites (addPrerequisitesLoop t ps d) x) = distinct (GetPrerequisites d x)
    \<and> distinct (GetDependents (addPrerequisitesLoop t ps d) x) = distinct (GetDependents d x)"
  using assms
proof (induction ps arbitrary: d)
  case Nil
  then show ?case by simp
next
  case (Cons p ps)
  let ?d = "updPrereqOf p (\<lambda>ids. appendUnique ids t)
      (updDependsOn t (\<lambda>ids. appendUnique ids p) (ensure p d))"
  have "t \<in> dom ?d" using Cons.prems by simp
  from Cons.IH [OF this] Cons.IH [OF Cons.prems] Cons.prems show ?case
    by (cases "p = t") (simp_all, auto)
qed

lemma depends_Add: "depends (AddPrerequisites t ps d) = depends d \<union> {t} \<times> (set ps - {t})"
  by (auto simp: depends_def AddPrerequisites_def addPrerequisitesLoop_get split: if_splits)

lemma required_Add: "required (AddPrerequisites t ps d) = required d \<union> {t} \<times> (set ps - {t})"
  by (auto simp: required_def AddPrerequisites_def addPrerequisitesLoop_get split: if_splits)

lemma depends_required: "chain_wf d \<Longrightarrow> y \<in> set (GetPrerequisites d x) \<longleftrightarrow> x \<in> set (GetDependents d y)"
  by (auto simp: chain_wf_def depends_def required_def)

lemma in_depends: "(x, y) \<in> depends d \<longleftrightarrow> y \<in> set (GetPrerequisites d x)"
  by (simp add: depends_def)

lemma wf_new: "chain_wf newDependencyChain"
  by (auto simp: chain_wf_def depends_def required_def newDependencyChain_def)

lemma wf_Add: "chain_wf d \<Longrightarrow> chain_wf (AddPrerequisites t ps d)"
  unfolding chain_wf_def depends_Add required_Add
  by (auto simp: AddPrerequisites_def addPrerequisitesLoop_get)

lemma get_ClearPrerequisites:
  "GetPrerequisites (ClearPrerequisites t d) x = (if x = t then [] else GetPrerequisites d x)"
  "GetDependents (ClearPrerequisites t d) x
     = (if x \<in> set (GetPrerequisites d t) then removeUUID (GetDependents d x) t else GetDependents d x)"
  by (auto simp: ClearPrerequisites_def split: option.splits) (auto simp: GetPrerequisites_def)

lemma get_ClearDependents:
  "GetDependents (ClearDependents t d) x = (if x = t then [] else GetDependents d x)"
  "GetPrerequisites (ClearDependents t d) x
     = (if x \<in> set (GetDependents d t) then removeUUID (GetPrerequisites d x) t else GetPrerequisites d x)"
  by (auto simp: ClearDependents_def split: option.splits) (auto simp: GetDependents_def)

lemma get_delete:
  "GetPrerequisites (delete_tx t d) x = (if x = t then []
     else if x \<in> set (GetDependents d t) then removeUUID (GetPrerequisites d x) t else GetPrerequisites d x)"
  "GetDependents (delete_tx t d) x = (if x = t then []
     else if x \<in> set (GetPrerequisites d t) then removeUUID (GetDependents d x) t else GetDependents d x)"
proof -
  have upd: "GetPrerequisites (m(t := None)) x = (if x = t then [] else GetPrerequisites m x)"
    "GetDependents (m(t := None)) x = (if x = t then [] else GetDependents m x)" for m x
    by (simp_all add: GetPrerequisites_def GetDependents_def)
  show "GetPrerequisites (delete_tx t d) x = (if x = t then []
     else if x \<in> set (GetDependents d t) then removeUUID (GetPrerequisites d x) t else GetPrerequisites d x)"
    by (cases "d t") (auto simp: delete_tx_def upd GetDependents_def, simp add: GetPrerequisites_def)
  show "GetDependents (delete_tx t d) x = (if x = t then []
     else if x \<in> set (GetPrerequisites d t) then removeUUID (GetDependents d x) t else GetDependents d x)"
    by (cases "d t") (auto simp: delete_tx_def upd GetPrerequisites_def, simp add: GetDependents_def)
qed

lemma wf_irrefl: "chain_wf d \<Longrightarrow> t \<notin> set (GetPrerequisites d t)"
  by (auto simp: chain_wf_def depends_def)

lemma chain_wfI:
  assumes "\<And>x y. y \<in> set (GetPrerequisites d x) \<longleftrightarrow> x \<in> set (GetDependents d y)"
    and "\<And>x. x \<notin> set (GetPrerequisites d x)"
    and "\<And>x. distinct (GetPrerequisites d x)" and "\<And>x. distinct (GetDependents d x)"
  shows "chain_wf d"
  using assms by (auto simp: chain_wf_def depends_def required_def)

lemma wf_irrefl_dep: "chain_wf d \<Longrightarrow> t \<notin> set (GetDependents d t)"
  using depends_required wf_irrefl by blast

lemmas chain_wfD = depends_required wf_irrefl wf_irrefl_dep

lemma wf_distinct:
  "chain_wf d \<Longrightarrow> distinct (GetPrerequisites d x)" "chain_wf d \<Longrightarrow> distinct (GetDependents d x)"
  by (auto simp: chain_wf_def)

lemma wf_ClearPrerequisites: "chain_wf d \<Longrightarrow> chain_wf (ClearPrerequisites t d)"
  by (rule chain_wfI) (auto simp: get_ClearPrerequisites wf_distinct chain_wfD split: if_splits)

lemma wf_ClearDependents: "chain_wf d \<Longrightarrow> chain_wf (ClearDependents t d)"
  by (rule chain_wfI)
     (auto simp: get_ClearDependents wf_distinct chain_wfD simp flip: depends_required split: if_splits)

lemma wf_delete: "chain_wf d \<Longrightarrow> chain_wf (delete_tx t d)"
  by (rule chain_wfI) (auto simp: get_delete wf_distinct chain_wfD split: if_splits)

lemma depends_ClearPrerequisites: "depends (ClearPrerequisites t d) = depends d - {t} \<times> UNIV"
  by (auto simp: depends_def get_ClearPrerequisites split: if_splits)

lemma depends_ClearDependents: "chain_wf d \<Longrightarrow> depends (ClearDependents t d) = depends d - UNIV \<times> {t}"
  by (auto simp: depends_def get_ClearDependents chain_wfD split: if_splits)

lemma depends_delete:
  "chain_wf d \<Longrightarrow> depends (delete_tx t d) = depends d - ({t} \<times> UNIV \<union> UNIV \<times> {t})"
  by (auto simp: depends_def get_delete chain_wfD split: if_splits)

section \<open>The interface the grapher and the transactions rely on\<close>

text \<open>
  The contract of the interface \<^verbatim>\<open>DependencyChain\<close>: each operation acts on the stored relation as
  the comment beside it says, and both directions of every link agree.
\<close>

locale dependency_chain =
  fixes add :: "uuid \<Rightarrow> uuid list \<Rightarrow> 'd \<Rightarrow> 'd"
    and clear_prereqs :: "uuid \<Rightarrow> 'd \<Rightarrow> 'd"
    and clear_deps :: "uuid \<Rightarrow> 'd \<Rightarrow> 'd"
    and del :: "uuid \<Rightarrow> 'd \<Rightarrow> 'd"
    and prereqs :: "'d \<Rightarrow> uuid \<Rightarrow> uuid list"
    and deps :: "'d \<Rightarrow> uuid \<Rightarrow> uuid list"
    and rel :: "'d \<Rightarrow> (uuid \<times> uuid) set"
    and wf :: "'d \<Rightarrow> bool"
  assumes rel_prereqs: "wf d \<Longrightarrow> set (prereqs d x) = rel d `` {x}"
    and rel_deps: "wf d \<Longrightarrow> set (deps d x) = (rel d)\<inverse> `` {x}"
    and rel_add: "wf d \<Longrightarrow> rel (add t ps d) = rel d \<union> {t} \<times> (set ps - {t})"
    and rel_clear_prereqs: "wf d \<Longrightarrow> rel (clear_prereqs t d) = rel d - {t} \<times> UNIV"
    and rel_clear_deps: "wf d \<Longrightarrow> rel (clear_deps t d) = rel d - UNIV \<times> {t}"
    and rel_del: "wf d \<Longrightarrow> rel (del t d) = rel d - ({t} \<times> UNIV \<union> UNIV \<times> {t})"
    and wf_add: "wf d \<Longrightarrow> wf (add t ps d)"
    and wf_clear_prereqs: "wf d \<Longrightarrow> wf (clear_prereqs t d)"
    and wf_clear_deps: "wf d \<Longrightarrow> wf (clear_deps t d)"
    and wf_del: "wf d \<Longrightarrow> wf (del t d)"
begin

lemma del_forgets: "wf d \<Longrightarrow> t \<notin> Field (rel (del t d))"
  by (auto simp: rel_del Field_def)

lemma del_no_links:
  assumes "wf d"
  shows "t \<notin> set (prereqs (del t d) x)" and "t \<notin> set (deps (del t d) x)"
    and "prereqs (del t d) t = []" and "deps (del t d) t = []"
proof -
  have "set (prereqs (del t d) t) = {}" "set (deps (del t d) t) = {}"
    using assms by (auto simp: rel_prereqs rel_deps wf_del rel_del)
  then show "prereqs (del t d) t = []" and "deps (del t d) t = []" by auto
  show "t \<notin> set (prereqs (del t d) x)" and "t \<notin> set (deps (del t d) x)"
    using assms by (auto simp: rel_prereqs rel_deps wf_del rel_del)
qed

lemma del_is_clear_both: "wf d \<Longrightarrow> rel (del t d) = rel (clear_deps t (clear_prereqs t d))"
  by (auto simp: rel_del rel_clear_deps rel_clear_prereqs wf_clear_prereqs)

lemma add_then_del: "wf d \<Longrightarrow> rel (del t (add t ps d)) = rel (del t d)"
  by (auto simp: rel_del rel_add wf_add)

text \<open>A transaction nobody depends on yet can take any prerequisites without closing a cycle.\<close>

lemma add_acyclic:
  assumes "wf d" and "acyclic (rel d)" and "deps d t = []"
  shows "acyclic (rel (add t ps d))"
proof -
  have none: "(x, t) \<notin> rel d" for x
    using rel_deps [OF assms(1), of t] assms(3) by auto
  have enter: "(x, t) \<notin> (rel d \<union> {t} \<times> (set ps - {t}))\<^sup>+" for x
    using none by (auto elim: tranclE)
  have "(x, y) \<in> (rel d)\<^sup>+" if "(x, y) \<in> (rel d \<union> {t} \<times> (set ps - {t}))\<^sup>+" and "x \<noteq> t" for x y
    using that
  proof (induction rule: trancl_induct)
    case (base y)
    then show ?case by auto
  next
    case (step y z)
    then have "y \<noteq> t" using enter by blast
    with step show ?case by (auto intro: trancl_into_trancl)
  qed
  with enter assms(2) show ?thesis
    unfolding acyclic_def rel_add [OF assms(1)] by metis
qed

lemma del_acyclic: "wf d \<Longrightarrow> acyclic (rel d) \<Longrightarrow> acyclic (rel (del t d))"
  by (auto simp: rel_del intro: acyclic_subset)

end

lemma set_GetPrerequisites: "set (GetPrerequisites d x) = depends d `` {x}"
  by (auto simp: depends_def)

lemma set_GetDependents: "chain_wf d \<Longrightarrow> set (GetDependents d x) = (depends d)\<inverse> `` {x}"
  by (auto simp: depends_def depends_required)

interpretation chain: dependency_chain AddPrerequisites ClearPrerequisites ClearDependents delete_tx
  GetPrerequisites GetDependents depends chain_wf
  by unfold_locales
     (rule set_GetPrerequisites set_GetDependents depends_Add depends_ClearPrerequisites
       depends_ClearDependents depends_delete wf_Add wf_ClearPrerequisites wf_ClearDependents
       wf_delete | assumption)+

end
