(* ===== verification/PldTypes.thy ===== *)
theory PldTypes
  imports Prelude
begin

text \<open>
  The SDK value types the sequencer uses: identity locators \<^verbatim>\<open>identity@node\<close> with the name
  validation of \<^verbatim>\<open>pldtypes/string_validation.go\<close>, and hex strings. A Go string is a list of
  bytes (\<open>char\<close>); a rune with a code point beyond ASCII consists of bytes of 128 and more, none of
  which passes the checks, so the loop over runes is a check of each byte.
\<close>

section \<open>Name validation\<close>

abbreviation DefaultNameMaxLen :: nat where
  "DefaultNameMaxLen \<equiv> 128"

definition ascii_alnum :: "char \<Rightarrow> bool" where
  "ascii_alnum c \<longleftrightarrow>
     (let n = of_char c :: nat in
        (97 \<le> n \<and> n \<le> 122) \<or> (65 \<le> n \<and> n \<le> 90) \<or> (48 \<le> n \<and> n \<le> 57))"

definition ascii_boxed :: "char \<Rightarrow> bool" where
  "ascii_boxed c \<longleftrightarrow> c = CHR ''.'' \<or> c = CHR ''_'' \<or> c = CHR ''-''"

text \<open>The loop over the characters from position \<open>i\<close>, for a string of length \<open>n\<close>.\<close>

fun safeCharsFrom :: "nat \<Rightarrow> nat \<Rightarrow> string \<Rightarrow> bool" where
  "safeCharsFrom n i [] = True"
| "safeCharsFrom n i (c # cs) =
     (if ascii_alnum c then safeCharsFrom n (Suc i) cs
      else if i \<noteq> 0 \<and> Suc i \<noteq> n \<and> ascii_boxed c then safeCharsFrom n (Suc i) cs
      else False)"

definition ValidateSafeCharsStartEndAlphaNum :: "string \<Rightarrow> nat \<Rightarrow> bool" where
  "ValidateSafeCharsStartEndAlphaNum val maxLen \<longleftrightarrow>
     length val > 0 \<and> length val \<le> maxLen \<and> safeCharsFrom (length val) 0 val"

section \<open>Identity locators\<close>

datatype locatorError =
    MsgTypesPrivateIdentityLocatorInvalid string
  | MsgTypesPrivateIdentityReqFullyQualified string

text \<open>\<^verbatim>\<open>strings.Split\<close> with a one byte separator.\<close>

fun splitOn :: "char \<Rightarrow> string \<Rightarrow> string list" where
  "splitOn sep [] = [[]]"
| "splitOn sep (c # cs) =
     (if c = sep then [] # splitOn sep cs
      else case splitOn sep cs of [] \<Rightarrow> [[c]] | p # ps \<Rightarrow> (c # p) # ps)"

abbreviation at_sign :: char where
  "at_sign \<equiv> CHR ''@''"

definition Validate :: "string \<Rightarrow> string \<Rightarrow> bool \<Rightarrow> locatorError + (string \<times> string)" where
  "Validate pil defaultNode allowEmptyNode =
     (let check = (\<lambda>identity node0.
        if \<not> ValidateSafeCharsStartEndAlphaNum identity DefaultNameMaxLen
        then Inl (MsgTypesPrivateIdentityLocatorInvalid pil)
        else
          let node = (if node0 = [] then defaultNode else node0) in
          if node = [] then
            (if \<not> allowEmptyNode then Inl (MsgTypesPrivateIdentityReqFullyQualified pil)
             else Inr (identity, node))
          else if \<not> ValidateSafeCharsStartEndAlphaNum node DefaultNameMaxLen
          then Inl (MsgTypesPrivateIdentityLocatorInvalid pil)
          else Inr (identity, node))
      in case splitOn at_sign pil of
           [identity] \<Rightarrow> check identity []
         | [identity, node] \<Rightarrow> check identity node
         | _ \<Rightarrow> Inl (MsgTypesPrivateIdentityLocatorInvalid []))"

definition Identity :: "string \<Rightarrow> locatorError + string" where
  "Identity pil = (case Validate pil [] True of Inl e \<Rightarrow> Inl e | Inr (identity, _) \<Rightarrow> Inr identity)"

definition Node :: "string \<Rightarrow> bool \<Rightarrow> locatorError + string" where
  "Node pil allowEmptyNode =
     (case Validate pil [] allowEmptyNode of Inl e \<Rightarrow> Inl e | Inr (_, node) \<Rightarrow> Inr node)"

definition FullyQualified :: "string \<Rightarrow> string \<Rightarrow> locatorError + string" where
  "FullyQualified pil defaultNode =
     (case Validate pil defaultNode False of
        Inl e \<Rightarrow> Inl e
      | Inr (identity, node) \<Rightarrow> Inr (identity @ [at_sign] @ node))"

section \<open>Hex strings\<close>

type_synonym HexBytes = "8 word list"

definition hexDigit :: "char \<Rightarrow> nat option" where
  "hexDigit c =
     (let n = of_char c :: nat in
        if 48 \<le> n \<and> n \<le> 57 then Some (n - 48)
        else if 97 \<le> n \<and> n \<le> 102 then Some (n - 87)
        else if 65 \<le> n \<and> n \<le> 70 then Some (n - 55)
        else None)"

text \<open>\<^verbatim>\<open>hex.DecodeString\<close>: two digits per byte, an odd rest or another character is an error.\<close>

fun hexDecodeString :: "string \<Rightarrow> HexBytes option" where
  "hexDecodeString [] = Some []"
| "hexDecodeString [c] = None"
| "hexDecodeString (a # b # cs) =
     (case (hexDigit a, hexDigit b, hexDecodeString cs) of
        (Some hi, Some lo, Some rest) \<Rightarrow> Some (of_nat (16 * hi + lo) # rest)
      | _ \<Rightarrow> None)"

definition trimPrefix0x :: "string \<Rightarrow> string" where
  "trimPrefix0x s = (if take 2 s = ''0x'' then drop 2 s else s)"

definition ParseHexBytes :: "string \<Rightarrow> HexBytes option" where
  "ParseHexBytes s = hexDecodeString (trimPrefix0x s)"

definition hexChar :: "nat \<Rightarrow> char" where
  "hexChar n = (if n < 10 then char_of (n + 48) else char_of (n + 87))"

definition HexString :: "HexBytes \<Rightarrow> string" where
  "HexString bs = concat (map (\<lambda>b. [hexChar (unat b div 16), hexChar (unat b mod 16)]) bs)"

definition HexString0xPrefix :: "HexBytes \<Rightarrow> string" where
  "HexString0xPrefix bs = ''0x'' @ HexString bs"

section \<open>Lemmas\<close>

lemma hexDigit_hexChar: "n < 16 \<Longrightarrow> hexDigit (hexChar n) = Some n"
  by (auto simp: hexDigit_def hexChar_def Let_def of_char_of)

lemma hexDecode_HexString [simp]: "hexDecodeString (HexString bs) = Some bs"
proof (induction bs)
  case Nil
  then show ?case by (simp add: HexString_def)
next
  case (Cons b bs)
  have "unat b < 2 ^ LENGTH(8)" by (rule unsigned_less)
  then have "unat b < 256" by simp
  then have "unat b div 16 < 16" "unat b mod 16 < 16" by auto
  moreover have "of_nat (16 * (unat b div 16) + unat b mod 16) = b" by simp
  ultimately show ?case using Cons by (simp add: HexString_def hexDigit_hexChar)
qed

lemma splitOn_nonempty [simp]: "splitOn sep s \<noteq> []"
  by (induction s) (auto split: list.splits)

lemma splitOn_no_sep: "sep \<notin> set s \<Longrightarrow> splitOn sep s = [s]"
  by (induction s) auto

lemma splitOn_append: "sep \<notin> set s \<Longrightarrow> splitOn sep (s @ sep # t) = s # splitOn sep t"
  by (induction s) auto

lemma splitOn_parts_no_sep: "p \<in> set (splitOn sep s) \<Longrightarrow> sep \<notin> set p"
proof (induction s arbitrary: p)
  case Nil
  then show ?case by simp
next
  case (Cons c cs)
  obtain q qs where q: "splitOn sep cs = q # qs" by (cases "splitOn sep cs") auto
  with Cons show ?case by (auto split: if_splits)
qed

lemma safeChars_no_at: "safeCharsFrom n i s \<Longrightarrow> at_sign \<notin> set s"
  by (induction s arbitrary: i) (auto simp: ascii_alnum_def ascii_boxed_def split: if_splits)

lemma safe_name_no_at: "ValidateSafeCharsStartEndAlphaNum s n \<Longrightarrow> at_sign \<notin> set s"
  by (auto simp: ValidateSafeCharsStartEndAlphaNum_def dest: safeChars_no_at)

lemma safe_name_nonempty: "ValidateSafeCharsStartEndAlphaNum s n \<Longrightarrow> s \<noteq> []"
  by (auto simp: ValidateSafeCharsStartEndAlphaNum_def)

lemma Validate_Inr:
  assumes "Validate pil dflt allow = Inr (identity, node)"
  shows "ValidateSafeCharsStartEndAlphaNum identity DefaultNameMaxLen"
    and "node = [] \<or> ValidateSafeCharsStartEndAlphaNum node DefaultNameMaxLen"
    and "\<not> allow \<Longrightarrow> node \<noteq> []"
  using assms
  by (auto simp: Validate_def Let_def split: list.splits if_splits)

lemma Validate_qualified:
  assumes "ValidateSafeCharsStartEndAlphaNum identity DefaultNameMaxLen"
    and "ValidateSafeCharsStartEndAlphaNum node DefaultNameMaxLen"
  shows "Validate (identity @ [at_sign] @ node) dflt allow = Inr (identity, node)"
  using assms safe_name_no_at [OF assms(1)] safe_name_no_at [OF assms(2)] safe_name_nonempty [OF assms(2)]
  by (simp add: Validate_def splitOn_append splitOn_no_sep)

end
