(* ===== verification/StateVisibility.thy ===== *)
theory StateVisibility
  imports PldTypes
begin

text \<open>
  The state visibility tracker of \<^verbatim>\<open>coordinator/statevisibilitytracker\<close>: which nodes may hold the
  private data of each state. The protobuf messages of \<^verbatim>\<open>states.proto\<close> are records; a nil
  \<open>Labels\<close> pointer is \<open>None\<close>, and the label sets are only carried along.
\<close>

record EndorsableState =
  es_Id :: string
  es_SchemaId :: string
  es_StateDataJson :: string

record StateLabels =
  sl_Labels :: "(string \<times> string) list"
  sl_Int64Labels :: "(string \<times> int) list"

record SnapshotState =
  ss_State :: EndorsableState
  ss_AllowedNodes :: "string list"
  ss_Labels :: "StateLabels option"
  ss_Created :: int

abbreviation ss_Id :: "SnapshotState \<Rightarrow> string" where
  "ss_Id s \<equiv> es_Id (ss_State s)"

type_synonym visibilityStore = "(string, SnapshotState) gomap"

definition NewStore :: visibilityStore where
  "NewStore = []"

fun allowedNodesFromDistributionList :: "string list \<Rightarrow> string list" where
  "allowedNodesFromDistributionList [] = []"
| "allowedNodesFromDistributionList (recipient # rest) =
     (case Node recipient False of
        Inl _ \<Rightarrow> allowedNodesFromDistributionList rest
      | Inr node \<Rightarrow> node # allowedNodesFromDistributionList rest)"

definition nodeInAllowedList :: "string list \<Rightarrow> string \<Rightarrow> bool" where
  "nodeInAllowedList allowed node = (\<exists>n \<in> set allowed. n = node)"

text \<open>
  \<open>RecordAssemblyOutput\<close> builds one snapshot per state before it takes the lock; the time stamps
  come from the clock, one reading per state.
\<close>

definition snapshotOf ::
  "EndorsableState list \<Rightarrow> StateLabels option list \<Rightarrow> string list list \<Rightarrow> (nat \<Rightarrow> int) \<Rightarrow> nat
     \<Rightarrow> SnapshotState" where
  "snapshotOf states labels distributionLists now i =
     \<lparr>ss_State = states ! i,
      ss_AllowedNodes = allowedNodesFromDistributionList
        (if i < length distributionLists then distributionLists ! i else []),
      ss_Labels = (if i < length labels then labels ! i else None),
      ss_Created = now i\<rparr>"

definition RecordAssemblyOutput ::
  "EndorsableState list \<Rightarrow> StateLabels option list \<Rightarrow> string list list \<Rightarrow> (nat \<Rightarrow> int)
     \<Rightarrow> visibilityStore \<Rightarrow> visibilityStore" where
  "RecordAssemblyOutput states labels distributionLists now st =
     fold (\<lambda>snapshot. go_set (ss_Id snapshot) snapshot)
       (map (snapshotOf states labels distributionLists now) [0..<length states]) st"

definition visibleTo :: "string \<Rightarrow> SnapshotState \<Rightarrow> bool" where
  "visibleTo node snapshot \<longleftrightarrow>
     ss_Labels snapshot \<noteq> None \<and> nodeInAllowedList (ss_AllowedNodes snapshot) node"

definition GetForNode :: "string \<Rightarrow> visibilityStore \<Rightarrow> SnapshotState list" where
  "GetForNode node st = filter (visibleTo node) (map snd st)"

text \<open>\<open>RangeForNode\<close> hands each visible state to a function that accumulates a result.\<close>

definition RangeForNode :: "string \<Rightarrow> (SnapshotState \<Rightarrow> 'a \<Rightarrow> 'a) \<Rightarrow> visibilityStore \<Rightarrow> 'a \<Rightarrow> 'a" where
  "RangeForNode node fn st acc =
     fold (\<lambda>snapshot a. if visibleTo node snapshot then fn snapshot a else a) (map snd st) acc"

definition ImportIfAbsent :: "string \<Rightarrow> SnapshotState \<Rightarrow> visibilityStore \<Rightarrow> bool \<times> visibilityStore" where
  "ImportIfAbsent stateID state st =
     (case go_get st stateID of
        Some _ \<Rightarrow> (False, st)
      | None \<Rightarrow> (True, go_set stateID state st))"

definition store_Delete :: "string \<Rightarrow> visibilityStore \<Rightarrow> visibilityStore" where
  "store_Delete stateID st = go_del stateID st"

section \<open>Lemmas\<close>

lemma allowedNodes_from_recipient:
  "node \<in> set (allowedNodesFromDistributionList ds) \<longleftrightarrow> (\<exists>r \<in> set ds. Node r False = Inr node)"
  by (induction ds) (auto split: sum.splits)

lemma RangeForNode_GetForNode: "RangeForNode node fn st acc = fold fn (GetForNode node st) acc"
proof -
  have "fold (\<lambda>s a. if visibleTo node s then fn s a else a) xs acc = fold fn (filter (visibleTo node) xs) acc"
    for xs and acc :: 'a
    by (induction xs arbitrary: acc) auto
  then show ?thesis by (simp add: RangeForNode_def GetForNode_def)
qed

lemma ImportIfAbsent_get:
  "go_get (snd (ImportIfAbsent i s st)) =
     (case go_get st i of None \<Rightarrow> (go_get st)(i \<mapsto> s) | Some _ \<Rightarrow> go_get st)"
  by (auto simp: ImportIfAbsent_def map_simps split: option.splits)

lemma distinct_ImportIfAbsent [simp]: "go_distinct st \<Longrightarrow> go_distinct (snd (ImportIfAbsent i s st))"
  by (auto simp: ImportIfAbsent_def split: option.splits)

lemma distinct_Record [simp]: "go_distinct st \<Longrightarrow> go_distinct (RecordAssemblyOutput ss ls ds now st)"
  unfolding RecordAssemblyOutput_def by (rule fold_invariant_set) auto

lemma distinct_store_Delete [simp]: "go_distinct st \<Longrightarrow> go_distinct (store_Delete i st)"
  by (simp add: store_Delete_def)

text \<open>Every stored snapshot sits under its own identifier.\<close>

definition store_wf :: "visibilityStore \<Rightarrow> bool" where
  "store_wf st \<longleftrightarrow> go_distinct st \<and> (\<forall>(k, s) \<in> set st. ss_Id s = k)"

lemma set_go_set: "set (go_set k v m) \<subseteq> insert (k, v) (set m)"
  by (induction m) auto

lemma set_go_del: "set (go_del k m) \<subseteq> set m"
  by (auto simp: AList.delete_eq)

lemma store_wf_set: "store_wf st \<Longrightarrow> ss_Id s = k \<Longrightarrow> store_wf (go_set k s st)"
  using set_go_set [of k s st] by (fastforce simp: store_wf_def)

lemma store_wf_new: "store_wf NewStore"
  by (simp add: store_wf_def NewStore_def)

lemma store_wf_Record: "store_wf st \<Longrightarrow> store_wf (RecordAssemblyOutput ss ls ds now st)"
  unfolding RecordAssemblyOutput_def by (rule fold_invariant_set) (auto intro: store_wf_set)

lemma store_wf_Import: "store_wf st \<Longrightarrow> ss_Id s = i \<Longrightarrow> store_wf (snd (ImportIfAbsent i s st))"
  by (auto simp: ImportIfAbsent_def intro: store_wf_set split: option.splits)

lemma store_wf_Delete: "store_wf st \<Longrightarrow> store_wf (store_Delete i st)"
  using set_go_del [of i st] by (fastforce simp: store_wf_def store_Delete_def)

lemma GetForNode_iff:
  "go_distinct st \<Longrightarrow> s \<in> set (GetForNode node st) \<longleftrightarrow> (\<exists>k. go_get st k = Some s) \<and> visibleTo node s"
  by (force simp: GetForNode_def go_get_in_set image_iff)

text \<open>What was recorded: the last snapshot recorded for an identifier wins, others are kept.\<close>

lemma fold_go_set_get:
  "go_get (fold (\<lambda>s. go_set (f s) s) xs st) k
     = (case filter (\<lambda>s. f s = k) xs of [] \<Rightarrow> go_get st k | ys \<Rightarrow> Some (last ys))"
  by (induction xs arbitrary: st) (auto simp: map_simps split: list.splits)

end
