(* ===== verification/Grapher.thy ===== *)
theory Grapher
  imports DependencyTracker StateVisibility
begin

text \<open>
  The grapher of \<^verbatim>\<open>coordinator/grapher\<close>: which in-flight transaction mints which state, and the
  create, spend and read locks transactions hold ahead of the chain.

  A lock is one object shared by pointer between the index by transaction and the map of its type,
  and \<open>ForgetTransaction\<close> writes through the index. Locks therefore live in an explicit heap
  (\<open>lockHeap\<close>, with \<open>nextLock\<close> the next free address) and the maps hold addresses. The dependency
  tracker and the visibility store are objects the grapher shares with the transactions; the
  record holds their current value, and the transactions of the coordinator read and write them
  there.
\<close>

datatype StateLockType = SPEND | READ | CREATE

record SnapshotStateLock =
  lk_StateId :: string
  lk_Transaction :: "uuid option"
  lk_Type :: StateLockType
  lk_ConfirmedAtBlock :: "uint64 option"

record StateSnapshot =
  sn_States :: "SnapshotState list"
  sn_Locks :: "SnapshotStateLock list"

type_synonym lockPtr = nat

record grapherTX =
  gtx_ID :: uuid

record grapher =
  blockHeightTolerance :: uint64
  stateVisibilityTracker :: visibilityStore
  depTracker :: dependencyTracker
  transactionByID :: "uuid \<rightharpoonup> grapherTX"
  transactionByOutputState :: "string \<rightharpoonup> grapherTX"
  outputStatesByMinter :: "uuid \<rightharpoonup> string list"
  createLocksByStateID :: "(string, lockPtr) gomap"
  spendLocksByStateID :: "(string, lockPtr) gomap"
  readLocksByStateID :: "(string, lockPtr) gomap"
  locksByTransaction :: "uuid \<rightharpoonup> lockPtr list"
  lockHeap :: "lockPtr \<Rightarrow> SnapshotStateLock"
  nextLock :: lockPtr

datatype grapherError = MsgSequencerGrapherAddMinterAlreadyExistsError uuid string uuid

section \<open>Operations\<close>

definition NewGrapher :: "dependencyTracker \<Rightarrow> visibilityStore \<Rightarrow> uint64 \<Rightarrow> grapher" where
  "NewGrapher dt vis tolerance =
     \<lparr>blockHeightTolerance = tolerance, stateVisibilityTracker = vis, depTracker = dt,
      transactionByID = Map.empty, transactionByOutputState = Map.empty,
      outputStatesByMinter = Map.empty, createLocksByStateID = [], spendLocksByStateID = [],
      readLocksByStateID = [], locksByTransaction = Map.empty,
      lockHeap = (\<lambda>_. \<lparr>lk_StateId = [], lk_Transaction = None, lk_Type = SPEND, lk_ConfirmedAtBlock = None\<rparr>),
      nextLock = 0\<rparr>"

abbreviation grapherDeps :: "grapher \<Rightarrow> dependencyChain" where
  "grapherDeps g \<equiv> postAssembly (depTracker g)"

definition setGrapherDeps :: "(dependencyChain \<Rightarrow> dependencyChain) \<Rightarrow> grapher \<Rightarrow> grapher" where
  "setGrapherDeps f g = g\<lparr>depTracker := (depTracker g)\<lparr>postAssembly := f (grapherDeps g)\<rparr>\<rparr>"

definition addConsumer :: "uuid \<Rightarrow> grapher \<Rightarrow> grapher" where
  "addConsumer transactionID g =
     (case transactionByID g transactionID of
        None \<Rightarrow> g\<lparr>transactionByID := (transactionByID g)(transactionID \<mapsto> \<lparr>gtx_ID = transactionID\<rparr>)\<rparr>
      | Some _ \<Rightarrow> g)"

fun addMinterLoop :: "EndorsableState list \<Rightarrow> uuid \<Rightarrow> grapher \<Rightarrow> (grapherError, grapher) outcome" where
  "addMinterLoop [] transactionID g = Ok g"
| "addMinterLoop (state # states) transactionID g =
     (case transactionByOutputState g (es_Id state) of
        Some txn \<Rightarrow>
          Fail (MsgSequencerGrapherAddMinterAlreadyExistsError transactionID (es_Id state) (gtx_ID txn)) g
      | None \<Rightarrow>
          addMinterLoop states transactionID
            (g\<lparr>transactionByOutputState :=
                 (transactionByOutputState g)(es_Id state := transactionByID g transactionID),
               outputStatesByMinter := (outputStatesByMinter g)(transactionID \<mapsto>
                 (case outputStatesByMinter g transactionID of None \<Rightarrow> [] | Some ids \<Rightarrow> ids) @ [es_Id state])\<rparr>))"

definition AddMinter :: "EndorsableState list \<Rightarrow> uuid \<Rightarrow> grapher \<Rightarrow> (grapherError, grapher) outcome" where
  "AddMinter states transactionID g =
     addMinterLoop states transactionID
       (g\<lparr>transactionByID := (transactionByID g)(transactionID \<mapsto> \<lparr>gtx_ID = transactionID\<rparr>)\<rparr>)"

definition forgetTxMints :: "uuid \<Rightarrow> grapher \<Rightarrow> grapher" where
  "forgetTxMints transactionID g =
     (case outputStatesByMinter g transactionID of
        None \<Rightarrow> g
      | Some stateIDs \<Rightarrow>
          g\<lparr>transactionByOutputState := fold (\<lambda>stateID m. m(stateID := None)) stateIDs (transactionByOutputState g),
            outputStatesByMinter := (outputStatesByMinter g)(transactionID := None)\<rparr>)"

definition deleteLockEntry :: "SnapshotStateLock \<Rightarrow> grapher \<Rightarrow> grapher" where
  "deleteLockEntry lock g =
     (case lk_Type lock of
        CREATE \<Rightarrow> g\<lparr>createLocksByStateID := go_del (lk_StateId lock) (createLocksByStateID g),
                    stateVisibilityTracker := store_Delete (lk_StateId lock) (stateVisibilityTracker g)\<rparr>
      | SPEND \<Rightarrow> g\<lparr>spendLocksByStateID := go_del (lk_StateId lock) (spendLocksByStateID g)\<rparr>
      | READ \<Rightarrow> g\<lparr>readLocksByStateID := go_del (lk_StateId lock) (readLocksByStateID g)\<rparr>)"

definition txLocks :: "uuid \<Rightarrow> grapher \<Rightarrow> lockPtr list" where
  "txLocks transactionID g =
     (case locksByTransaction g transactionID of None \<Rightarrow> [] | Some ps \<Rightarrow> ps)"

definition forgetTxLocks :: "uuid \<Rightarrow> grapher \<Rightarrow> grapher" where
  "forgetTxLocks transactionID g =
     (fold (\<lambda>p g'. deleteLockEntry (lockHeap g' p) g') (txLocks transactionID g) g)
       \<lparr>locksByTransaction := (locksByTransaction g)(transactionID := None)\<rparr>"

definition ForgetTransactionAndLocks :: "uuid \<Rightarrow> grapher \<Rightarrow> grapher" where
  "ForgetTransactionAndLocks transactionID g =
     (case transactionByID g transactionID of
        None \<Rightarrow> g
      | Some _ \<Rightarrow>
          (let g1 = forgetTxLocks transactionID
                      (forgetTxMints transactionID (setGrapherDeps (delete_tx transactionID) g))
           in g1\<lparr>transactionByID := (transactionByID g1)(transactionID := None)\<rparr>))"

definition stampLock :: "uint64 \<Rightarrow> lockPtr \<Rightarrow> (lockPtr \<Rightarrow> SnapshotStateLock) \<Rightarrow> lockPtr \<Rightarrow> SnapshotStateLock" where
  "stampLock confirmedAtBlock p h =
     h(p := (h p)\<lparr>lk_Transaction := None, lk_ConfirmedAtBlock := Some confirmedAtBlock\<rparr>)"

definition ForgetTransaction :: "uuid \<Rightarrow> uint64 \<Rightarrow> grapher \<Rightarrow> grapher" where
  "ForgetTransaction transactionID confirmedAtBlock g =
     (case transactionByID g transactionID of
        None \<Rightarrow> g
      | Some _ \<Rightarrow>
          (let g1 = forgetTxMints transactionID (setGrapherDeps (delete_tx transactionID) g)
           in g1\<lparr>lockHeap := fold (stampLock confirmedAtBlock) (txLocks transactionID g1) (lockHeap g1),
                 locksByTransaction := (locksByTransaction g1)(transactionID := None),
                 transactionByID := (transactionByID g1)(transactionID := None)\<rparr>))"

definition lockExpired :: "uint64 \<Rightarrow> uint64 \<Rightarrow> SnapshotStateLock \<Rightarrow> bool" where
  "lockExpired tolerance currentBlockHeight lock \<longleftrightarrow>
     (case (lk_Transaction lock, lk_ConfirmedAtBlock lock) of
        (None, Some confirmedAtBlock) \<Rightarrow> currentBlockHeight \<ge> confirmedAtBlock + tolerance
      | _ \<Rightarrow> False)"

definition expiredEntry :: "uint64 \<Rightarrow> grapher \<Rightarrow> string \<Rightarrow> lockPtr \<Rightarrow> bool" where
  "expiredEntry currentBlockHeight g stateID p =
     lockExpired (blockHeightTolerance g) currentBlockHeight (lockHeap g p)"

definition ForgetConfirmedLocks :: "uint64 \<Rightarrow> grapher \<Rightarrow> grapher" where
  "ForgetConfirmedLocks currentBlockHeight g =
     g\<lparr>createLocksByStateID := go_del_where (expiredEntry currentBlockHeight g) (createLocksByStateID g),
       stateVisibilityTracker :=
         fold (\<lambda>(stateID, p). store_Delete stateID)
           (filter (\<lambda>(stateID, p). expiredEntry currentBlockHeight g stateID p) (createLocksByStateID g))
           (stateVisibilityTracker g),
       spendLocksByStateID := go_del_where (expiredEntry currentBlockHeight g) (spendLocksByStateID g),
       readLocksByStateID := go_del_where (expiredEntry currentBlockHeight g) (readLocksByStateID g)\<rparr>"

text \<open>The map of confirmed locks an import builds: the last confirmed lock listed for a state.\<close>

fun confirmedLocks :: "SnapshotStateLock list \<Rightarrow> (string, SnapshotStateLock) gomap
    \<Rightarrow> (string, SnapshotStateLock) gomap" where
  "confirmedLocks [] m = m"
| "confirmedLocks (lock # locks) m =
     (if lk_Transaction lock \<noteq> None then confirmedLocks locks m
      else if lk_ConfirmedAtBlock lock = None then confirmedLocks locks m
      else confirmedLocks locks (go_set (lk_StateId lock) lock m))"

definition lockMap :: "StateLockType \<Rightarrow> grapher \<Rightarrow> (string, lockPtr) gomap" where
  "lockMap t g =
     (case t of CREATE \<Rightarrow> createLocksByStateID g | SPEND \<Rightarrow> spendLocksByStateID g | READ \<Rightarrow> readLocksByStateID g)"

definition updLockMap :: "StateLockType \<Rightarrow> ((string, lockPtr) gomap \<Rightarrow> (string, lockPtr) gomap)
    \<Rightarrow> grapher \<Rightarrow> grapher" where
  "updLockMap t f g =
     (case t of
        CREATE \<Rightarrow> g\<lparr>createLocksByStateID := f (createLocksByStateID g)\<rparr>
      | SPEND \<Rightarrow> g\<lparr>spendLocksByStateID := f (spendLocksByStateID g)\<rparr>
      | READ \<Rightarrow> g\<lparr>readLocksByStateID := f (readLocksByStateID g)\<rparr>)"

definition allocLock :: "SnapshotStateLock \<Rightarrow> grapher \<Rightarrow> grapher" where
  "allocLock lock g =
     updLockMap (lk_Type lock) (go_set (lk_StateId lock) (nextLock g))
       (g\<lparr>lockHeap := (lockHeap g)(nextLock g := lock), nextLock := Suc (nextLock g)\<rparr>)"

definition importLock :: "string \<times> SnapshotStateLock \<Rightarrow> grapher \<Rightarrow> grapher" where
  "importLock e g =
     (case go_get (lockMap (lk_Type (snd e)) g) (fst e) of
        Some _ \<Rightarrow> g
      | None \<Rightarrow> allocLock (snd e) g)"

definition importState :: "(string, SnapshotStateLock) gomap \<Rightarrow> SnapshotState \<Rightarrow> visibilityStore
    \<Rightarrow> visibilityStore" where
  "importState confirmed state vis =
     (case go_get confirmed (ss_Id state) of
        None \<Rightarrow> vis
      | Some _ \<Rightarrow> snd (ImportIfAbsent (ss_Id state) state vis))"

definition ImportStatesAndLocks :: "StateSnapshot \<Rightarrow> grapher \<Rightarrow> grapher" where
  "ImportStatesAndLocks snapshot g =
     (let confirmed = confirmedLocks (sn_Locks snapshot) [];
          g1 = g\<lparr>stateVisibilityTracker :=
                  fold (importState confirmed) (sn_States snapshot) (stateVisibilityTracker g)\<rparr>
      in fold importLock confirmed g1)"

definition grapher_GetDependencies :: "uuid \<Rightarrow> grapher \<Rightarrow> uuid list" where
  "grapher_GetDependencies transactionID g =
     (case transactionByID g transactionID of
        Some _ \<Rightarrow> GetPrerequisites (grapherDeps g) transactionID
      | None \<Rightarrow> [])"

definition grapher_GetDependents :: "uuid \<Rightarrow> grapher \<Rightarrow> uuid list" where
  "grapher_GetDependents transactionID g =
     (case transactionByID g transactionID of
        Some _ \<Rightarrow> GetDependents (grapherDeps g) transactionID
      | None \<Rightarrow> [])"

text \<open>One lock taken by a transaction: a fresh object, entered into its map and the index.\<close>

definition takeLock :: "StateLockType \<Rightarrow> uuid \<Rightarrow> string \<Rightarrow> grapher \<Rightarrow> grapher" where
  "takeLock t transactionID stateID g =
     allocLock \<lparr>lk_StateId = stateID, lk_Transaction = Some transactionID, lk_Type = t,
                lk_ConfirmedAtBlock = None\<rparr>
       (g\<lparr>locksByTransaction :=
            (locksByTransaction g)(transactionID \<mapsto> txLocks transactionID g @ [nextLock g])\<rparr>)"

definition LockMintsOnCreate :: "EndorsableState list \<Rightarrow> uuid \<Rightarrow> grapher \<Rightarrow> grapher" where
  "LockMintsOnCreate states transactionID g =
     fold (\<lambda>state. takeLock CREATE transactionID (es_Id state)) states (addConsumer transactionID g)"

definition linkToMinter :: "uuid \<Rightarrow> string \<Rightarrow> grapher \<Rightarrow> grapher" where
  "linkToMinter transactionID stateID g =
     (case transactionByOutputState g stateID of
        None \<Rightarrow> g
      | Some mintedBy \<Rightarrow> setGrapherDeps (AddPrerequisites transactionID [gtx_ID mintedBy]) g)"

definition LockMintsOnReadAndSpend ::
  "EndorsableState list \<Rightarrow> EndorsableState list \<Rightarrow> uuid \<Rightarrow> grapher \<Rightarrow> grapher" where
  "LockMintsOnReadAndSpend readStates spendStates transactionID g =
     fold (\<lambda>state g'. linkToMinter transactionID (es_Id state) (takeLock SPEND transactionID (es_Id state) g'))
       spendStates
       (fold (\<lambda>state g'. linkToMinter transactionID (es_Id state) (takeLock READ transactionID (es_Id state) g'))
         readStates (addConsumer transactionID g))"

definition ExportStatesAndLocks :: "string \<Rightarrow> grapher \<Rightarrow> StateSnapshot" where
  "ExportStatesAndLocks node g =
     \<lparr>sn_States = filter (\<lambda>state. go_get (spendLocksByStateID g) (ss_Id state) = None)
                    (GetForNode node (stateVisibilityTracker g)),
      sn_Locks = map (\<lambda>(stateID, p). lockHeap g p)
                   (createLocksByStateID g @ spendLocksByStateID g @ readLocksByStateID g)\<rparr>"

definition isCandidate :: "grapher \<Rightarrow> SnapshotState \<Rightarrow> bool" where
  "isCandidate g state \<longleftrightarrow>
     go_get (createLocksByStateID g) (ss_Id state) \<noteq> None
     \<and> go_get (spendLocksByStateID g) (ss_Id state) = None"

definition SnapshotView :: "string \<Rightarrow> grapher \<Rightarrow> SnapshotState list \<times> HexBytes list" where
  "SnapshotView node g =
     (RangeForNode node (\<lambda>state candidates. if isCandidate g state then candidates @ [state] else candidates)
        (stateVisibilityTracker g) [],
      List.map_filter ParseHexBytes (go_keys (spendLocksByStateID g)))"


section \<open>What the operations read and write\<close>

named_theorems grapher_frame "fields an operation leaves alone"

lemma lockMap_cases [simp]:
  "lockMap CREATE g = createLocksByStateID g" "lockMap SPEND g = spendLocksByStateID g"
  "lockMap READ g = readLocksByStateID g"
  by (simp_all add: lockMap_def)

lemma lockMap_updLockMap [simp]:
  "lockMap t (updLockMap t' f g) = (if t = t' then f (lockMap t g) else lockMap t g)"
  by (cases t; cases t') (simp_all add: updLockMap_def)

lemma updLockMap_frame [grapher_frame]:
  "blockHeightTolerance (updLockMap t f g) = blockHeightTolerance g"
  "stateVisibilityTracker (updLockMap t f g) = stateVisibilityTracker g"
  "depTracker (updLockMap t f g) = depTracker g"
  "transactionByID (updLockMap t f g) = transactionByID g"
  "transactionByOutputState (updLockMap t f g) = transactionByOutputState g"
  "outputStatesByMinter (updLockMap t f g) = outputStatesByMinter g"
  "locksByTransaction (updLockMap t f g) = locksByTransaction g"
  "lockHeap (updLockMap t f g) = lockHeap g"
  "nextLock (updLockMap t f g) = nextLock g"
  by (cases t; simp add: updLockMap_def)+

lemma lockMap_update [simp]:
  "lockMap t (g\<lparr>lockHeap := h\<rparr>) = lockMap t g" "lockMap t (g\<lparr>nextLock := n\<rparr>) = lockMap t g"
  "lockMap t (g\<lparr>locksByTransaction := l\<rparr>) = lockMap t g"
  "lockMap t (g\<lparr>transactionByID := m\<rparr>) = lockMap t g"
  "lockMap t (g\<lparr>transactionByOutputState := o1\<rparr>) = lockMap t g"
  "lockMap t (g\<lparr>outputStatesByMinter := o2\<rparr>) = lockMap t g"
  "lockMap t (g\<lparr>stateVisibilityTracker := v\<rparr>) = lockMap t g"
  "lockMap t (g\<lparr>depTracker := d\<rparr>) = lockMap t g"
  by (cases t; simp)+

lemma allocLock_simps [simp]:
  "lockMap t (allocLock lock g)
     = (if t = lk_Type lock then go_set (lk_StateId lock) (nextLock g) (lockMap t g) else lockMap t g)"
  "lockHeap (allocLock lock g) = (lockHeap g)(nextLock g := lock)"
  "nextLock (allocLock lock g) = Suc (nextLock g)"
  by (simp_all add: allocLock_def grapher_frame)

lemma allocLock_frame [grapher_frame]:
  "blockHeightTolerance (allocLock lock g) = blockHeightTolerance g"
  "stateVisibilityTracker (allocLock lock g) = stateVisibilityTracker g"
  "depTracker (allocLock lock g) = depTracker g"
  "transactionByID (allocLock lock g) = transactionByID g"
  "transactionByOutputState (allocLock lock g) = transactionByOutputState g"
  "outputStatesByMinter (allocLock lock g) = outputStatesByMinter g"
  "locksByTransaction (allocLock lock g) = locksByTransaction g"
  by (simp_all add: allocLock_def grapher_frame)

lemma setGrapherDeps_simps [simp]:
  "grapherDeps (setGrapherDeps f g) = f (grapherDeps g)"
  "preAssembly (depTracker (setGrapherDeps f g)) = preAssembly (depTracker g)"
  "chained (depTracker (setGrapherDeps f g)) = chained (depTracker g)"
  "lockMap t (setGrapherDeps f g) = lockMap t g"
  by (simp_all add: setGrapherDeps_def)

lemma setGrapherDeps_frame [grapher_frame]:
  "blockHeightTolerance (setGrapherDeps f g) = blockHeightTolerance g"
  "stateVisibilityTracker (setGrapherDeps f g) = stateVisibilityTracker g"
  "transactionByID (setGrapherDeps f g) = transactionByID g"
  "transactionByOutputState (setGrapherDeps f g) = transactionByOutputState g"
  "outputStatesByMinter (setGrapherDeps f g) = outputStatesByMinter g"
  "locksByTransaction (setGrapherDeps f g) = locksByTransaction g"
  "lockHeap (setGrapherDeps f g) = lockHeap g"
  "nextLock (setGrapherDeps f g) = nextLock g"
  by (simp_all add: setGrapherDeps_def)

lemma deleteLockEntry_simps [simp]:
  "lockMap t (deleteLockEntry lock g)
     = (if t = lk_Type lock then go_del (lk_StateId lock) (lockMap t g) else lockMap t g)"
  "stateVisibilityTracker (deleteLockEntry lock g)
     = (if lk_Type lock = CREATE then store_Delete (lk_StateId lock) (stateVisibilityTracker g)
        else stateVisibilityTracker g)"
  by (cases "lk_Type lock"; cases t; simp add: deleteLockEntry_def)+

lemma deleteLockEntry_frame [grapher_frame]:
  "blockHeightTolerance (deleteLockEntry lock g) = blockHeightTolerance g"
  "depTracker (deleteLockEntry lock g) = depTracker g"
  "transactionByID (deleteLockEntry lock g) = transactionByID g"
  "transactionByOutputState (deleteLockEntry lock g) = transactionByOutputState g"
  "outputStatesByMinter (deleteLockEntry lock g) = outputStatesByMinter g"
  "locksByTransaction (deleteLockEntry lock g) = locksByTransaction g"
  "lockHeap (deleteLockEntry lock g) = lockHeap g"
  "nextLock (deleteLockEntry lock g) = nextLock g"
  by (cases "lk_Type lock"; simp add: deleteLockEntry_def)+

lemma deleteLockEntry_distinct:
  "go_distinct (lockMap t g) \<Longrightarrow> go_distinct (lockMap t (deleteLockEntry lock g))"
  by auto

definition deleteLockEntries :: "lockPtr list \<Rightarrow> grapher \<Rightarrow> grapher" where
  "deleteLockEntries ps g = fold (\<lambda>p g'. deleteLockEntry (lockHeap g' p) g') ps g"

lemma deleteLockEntries_frame [grapher_frame]:
  "blockHeightTolerance (deleteLockEntries ps g) = blockHeightTolerance g"
  "depTracker (deleteLockEntries ps g) = depTracker g"
  "transactionByID (deleteLockEntries ps g) = transactionByID g"
  "transactionByOutputState (deleteLockEntries ps g) = transactionByOutputState g"
  "outputStatesByMinter (deleteLockEntries ps g) = outputStatesByMinter g"
  "locksByTransaction (deleteLockEntries ps g) = locksByTransaction g"
  "lockHeap (deleteLockEntries ps g) = lockHeap g"
  "nextLock (deleteLockEntries ps g) = nextLock g"
  by (induction ps arbitrary: g) (simp_all add: deleteLockEntries_def grapher_frame)

text \<open>An entry goes exactly when its state and type are those of one of the transaction's locks.\<close>

lemma deleteLockEntries_get:
  "go_get (lockMap t (deleteLockEntries ps g)) sid =
     (if \<exists>p \<in> set ps. lk_Type (lockHeap g p) = t \<and> lk_StateId (lockHeap g p) = sid
      then None else go_get (lockMap t g) sid)"
proof (induction ps arbitrary: g)
  case Nil
  then show ?case by (simp add: deleteLockEntries_def)
next
  case (Cons p ps)
  have "deleteLockEntries (p # ps) g = deleteLockEntries ps (deleteLockEntry (lockHeap g p) g)"
    by (simp add: deleteLockEntries_def)
  then show ?case using Cons [of "deleteLockEntry (lockHeap g p) g"]
    by (auto simp: grapher_frame map_simps)
qed

lemma deleteLockEntries_distinct:
  "go_distinct (lockMap t g) \<Longrightarrow> go_distinct (lockMap t (deleteLockEntries ps g))"
  unfolding deleteLockEntries_def
  by (induction ps arbitrary: g) (simp_all add: deleteLockEntry_distinct del: deleteLockEntry_simps)

lemma deleteLockEntries_store:
  "store_wf (stateVisibilityTracker g) \<Longrightarrow> store_wf (stateVisibilityTracker (deleteLockEntries ps g))"
  by (induction ps arbitrary: g) (simp_all add: deleteLockEntries_def store_wf_Delete)

lemma forgetTxLocks_alt:
  "forgetTxLocks t g = (deleteLockEntries (txLocks t g) g)
     \<lparr>locksByTransaction := (locksByTransaction g)(t := None)\<rparr>"
  by (simp add: forgetTxLocks_def deleteLockEntries_def)

definition minted :: "uuid \<Rightarrow> grapher \<Rightarrow> string list" where
  "minted t g = (case outputStatesByMinter g t of None \<Rightarrow> [] | Some ids \<Rightarrow> ids)"

lemma minted_update [simp]:
  "minted t (g\<lparr>transactionByID := m\<rparr>) = minted t g" "minted t (g\<lparr>locksByTransaction := l\<rparr>) = minted t g"
  "minted t (g\<lparr>lockHeap := h\<rparr>) = minted t g" "minted t (g\<lparr>depTracker := d\<rparr>) = minted t g"
  "minted t (g\<lparr>stateVisibilityTracker := v\<rparr>) = minted t g"
  by (simp_all add: minted_def)

lemma fold_map_del: "fold (\<lambda>k m. m(k := None)) ks m x = (if x \<in> set ks then None else m x)"
  by (induction ks arbitrary: m) auto

lemma forgetTxMints_simps [simp]:
  "minted u (forgetTxMints t g) = (if u = t then [] else minted u g)"
  "transactionByOutputState (forgetTxMints t g) x
     = (if x \<in> set (minted t g) then None else transactionByOutputState g x)"
  "lockMap ty (forgetTxMints t g) = lockMap ty g"
  by (auto simp: forgetTxMints_def minted_def fold_map_del split: option.splits)

lemma forgetTxMints_frame [grapher_frame]:
  "blockHeightTolerance (forgetTxMints t g) = blockHeightTolerance g"
  "stateVisibilityTracker (forgetTxMints t g) = stateVisibilityTracker g"
  "depTracker (forgetTxMints t g) = depTracker g"
  "transactionByID (forgetTxMints t g) = transactionByID g"
  "locksByTransaction (forgetTxMints t g) = locksByTransaction g"
  "lockHeap (forgetTxMints t g) = lockHeap g"
  "nextLock (forgetTxMints t g) = nextLock g"
  by (auto simp: forgetTxMints_def split: option.splits)

lemma fold_stampLock:
  "fold (stampLock b) ps h p
     = (if p \<in> set ps then (h p)\<lparr>lk_Transaction := None, lk_ConfirmedAtBlock := Some b\<rparr> else h p)"
  by (induction ps arbitrary: h) (auto simp: stampLock_def)


section \<open>The invariant\<close>

text \<open>
  \<open>minters_wf\<close>: the two minter indexes agree and name known transactions only. \<open>locks_wf\<close>: every
  lock entry points to a lock of its state and type; a lock is either owned, and then listed under
  its owner, who is known, or confirmed at a block. \<open>deps_wf\<close>: dependency links are symmetric and
  join known transactions only.
\<close>

definition minters_wf :: "grapher \<Rightarrow> bool" where
  "minters_wf g \<longleftrightarrow>
     (\<forall>s tx. transactionByOutputState g s = Some tx \<longrightarrow>
        s \<in> set (minted (gtx_ID tx) g) \<and> transactionByID g (gtx_ID tx) \<noteq> None)
     \<and> (\<forall>t s. s \<in> set (minted t g) \<longrightarrow> transactionByOutputState g s = Some \<lparr>gtx_ID = t\<rparr>)
     \<and> (\<forall>t tx. transactionByID g t = Some tx \<longrightarrow> gtx_ID tx = t)"

definition entry_ok :: "grapher \<Rightarrow> StateLockType \<Rightarrow> string \<Rightarrow> lockPtr \<Rightarrow> bool" where
  "entry_ok g t sid p \<longleftrightarrow>
     p < nextLock g \<and> lk_StateId (lockHeap g p) = sid \<and> lk_Type (lockHeap g p) = t
     \<and> (\<forall>u. lk_Transaction (lockHeap g p) = Some u \<longrightarrow> p \<in> set (txLocks u g))
     \<and> (lk_Transaction (lockHeap g p) = None \<longrightarrow> lk_ConfirmedAtBlock (lockHeap g p) \<noteq> None)"

definition owned_ok :: "grapher \<Rightarrow> uuid \<Rightarrow> lockPtr \<Rightarrow> bool" where
  "owned_ok g u p \<longleftrightarrow>
     p < nextLock g \<and> lk_Transaction (lockHeap g p) = Some u \<and> transactionByID g u \<noteq> None"

definition locks_wf :: "grapher \<Rightarrow> bool" where
  "locks_wf g \<longleftrightarrow>
     (\<forall>t. go_distinct (lockMap t g))
     \<and> (\<forall>t sid p. go_get (lockMap t g) sid = Some p \<longrightarrow> entry_ok g t sid p)
     \<and> (\<forall>u p. p \<in> set (txLocks u g) \<longrightarrow> owned_ok g u p)"

definition deps_wf :: "grapher \<Rightarrow> bool" where
  "deps_wf g \<longleftrightarrow> chain_wf (grapherDeps g)
     \<and> (\<forall>x y. (x, y) \<in> depends (grapherDeps g) \<longrightarrow>
          transactionByID g x \<noteq> None \<and> transactionByID g y \<noteq> None)"

definition grapher_inv :: "grapher \<Rightarrow> bool" where
  "grapher_inv g \<longleftrightarrow> minters_wf g \<and> locks_wf g \<and> deps_wf g \<and> store_wf (stateVisibilityTracker g)"

lemma locks_wf_entry: "locks_wf g \<Longrightarrow> go_get (lockMap t g) sid = Some p \<Longrightarrow> entry_ok g t sid p"
  by (simp add: locks_wf_def)

lemma locks_wf_owned: "locks_wf g \<Longrightarrow> p \<in> set (txLocks u g) \<Longrightarrow> owned_ok g u p"
  by (simp add: locks_wf_def)

lemma locks_wf_distinct: "locks_wf g \<Longrightarrow> go_distinct (lockMap t g)"
  by (simp add: locks_wf_def)

lemma locks_wfI:
  assumes "\<And>t. go_distinct (lockMap t g)"
    and "\<And>t sid p. go_get (lockMap t g) sid = Some p \<Longrightarrow> entry_ok g t sid p"
    and "\<And>u p. p \<in> set (txLocks u g) \<Longrightarrow> owned_ok g u p"
  shows "locks_wf g"
  using assms by (simp add: locks_wf_def)

subsection \<open>Minters\<close>

lemma minters_wf_cong:
  assumes "minters_wf g" and "transactionByOutputState g' = transactionByOutputState g"
    and "outputStatesByMinter g' = outputStatesByMinter g" and "transactionByID g' = transactionByID g"
  shows "minters_wf g'"
  using assms by (simp add: minters_wf_def minted_def)

lemma minters_wf_know:
  assumes "minters_wf g"
  shows "minters_wf (g\<lparr>transactionByID := (transactionByID g)(t \<mapsto> \<lparr>gtx_ID = t\<rparr>)\<rparr>)"
  using assms by (auto simp: minters_wf_def minted_def)

lemma minters_wf_addConsumer: "minters_wf g \<Longrightarrow> minters_wf (addConsumer t g)"
  using minters_wf_know by (auto simp: addConsumer_def split: option.splits)

lemma addMinterLoop_wf:
  assumes "minters_wf g" and "transactionByID g t = Some \<lparr>gtx_ID = t\<rparr>"
  shows "returns minters_wf (addMinterLoop ss t g)"
  using assms
proof (induction ss arbitrary: g)
  case Nil
  then show ?case by simp
next
  case (Cons s ss)
  show ?case
  proof (cases "transactionByOutputState g (es_Id s)")
    case None
    let ?g = "g\<lparr>transactionByOutputState := (transactionByOutputState g)(es_Id s := transactionByID g t),
       outputStatesByMinter := (outputStatesByMinter g)(t \<mapsto>
         (case outputStatesByMinter g t of None \<Rightarrow> [] | Some ids \<Rightarrow> ids) @ [es_Id s])\<rparr>"
    have "minted u ?g = (if u = t then minted t g @ [es_Id s] else minted u g)" for u
      by (simp add: minted_def)
    then have "minters_wf ?g" using Cons.prems None by (auto simp: minters_wf_def)
    then show ?thesis using Cons.IH [of ?g] Cons.prems(2) None by simp
  next
    case (Some tx)
    then show ?thesis using Cons.prems by simp
  qed
qed

lemma addMinterLoop_frame:
  "returns (\<lambda>g'. transactionByID g' = transactionByID g \<and> locksByTransaction g' = locksByTransaction g
     \<and> lockHeap g' = lockHeap g \<and> nextLock g' = nextLock g \<and> depTracker g' = depTracker g
     \<and> stateVisibilityTracker g' = stateVisibilityTracker g
     \<and> blockHeightTolerance g' = blockHeightTolerance g \<and> (\<forall>ty. lockMap ty g' = lockMap ty g))
   (addMinterLoop ss t g)"
  by (induction ss t g rule: addMinterLoop.induct) (auto split: option.splits elim!: returns_mono)

lemma minted_iff: "minters_wf g \<Longrightarrow> s \<in> set (minted t g) \<longleftrightarrow> transactionByOutputState g s = Some \<lparr>gtx_ID = t\<rparr>"
  unfolding minters_wf_def by (metis grapherTX.select_convs(1))

lemma minters_known:
  "minters_wf g \<Longrightarrow> transactionByOutputState g s = Some tx \<Longrightarrow> transactionByID g (gtx_ID tx) \<noteq> None"
  by (auto simp: minters_wf_def)

lemma minters_wf_forgetTxMints:
  assumes "minters_wf g"
  shows "minters_wf (forgetTxMints t g)"
    and "transactionByOutputState (forgetTxMints t g) s \<noteq> Some \<lparr>gtx_ID = t\<rparr>"
    and "minters_wf (forgetTxMints t g\<lparr>transactionByID := (transactionByID g)(t := None)\<rparr>)"
proof -
  note iff = minted_iff [OF assms]
  have id: "gtx_ID tx = t \<longleftrightarrow> tx = \<lparr>gtx_ID = t\<rparr>" for tx :: grapherTX and t by (cases tx) simp
  show "minters_wf (forgetTxMints t g)"
    and "minters_wf (forgetTxMints t g\<lparr>transactionByID := (transactionByID g)(t := None)\<rparr>)"
    using assms by (auto simp: minters_wf_def grapher_frame iff id)
  show "transactionByOutputState (forgetTxMints t g) s \<noteq> Some \<lparr>gtx_ID = t\<rparr>"
    by (simp add: iff)
qed

subsection \<open>Locks\<close>

lemma locks_wf_sub:
  assumes "locks_wf g" and "\<And>t. go_distinct (lockMap t g')"
    and "\<And>t sid p. go_get (lockMap t g') sid = Some p \<Longrightarrow> go_get (lockMap t g) sid = Some p"
    and "lockHeap g' = lockHeap g" and "nextLock g' = nextLock g"
    and "locksByTransaction g' = locksByTransaction g"
    and "\<And>u. transactionByID g u \<noteq> None \<Longrightarrow> transactionByID g' u \<noteq> None"
  shows "locks_wf g'"
proof -
  have tx: "txLocks u g' = txLocks u g" for u
    by (simp add: txLocks_def assms(6))
  show ?thesis
  proof (rule locks_wfI)
    show "entry_ok g' t sid p" if "go_get (lockMap t g') sid = Some p" for t sid p
      using locks_wf_entry [OF assms(1) assms(3) [OF that]] by (simp add: entry_ok_def tx assms(4,5))
    show "owned_ok g' u p" if "p \<in> set (txLocks u g')" for u p
      using locks_wf_owned [OF assms(1), of p u] that assms(7) by (simp add: owned_ok_def tx assms(4,5))
  qed (rule assms(2))
qed

lemma locks_wf_cong:
  assumes "locks_wf g" and "\<And>t. lockMap t g' = lockMap t g" and "lockHeap g' = lockHeap g"
    and "nextLock g' = nextLock g" and "locksByTransaction g' = locksByTransaction g"
    and "\<And>u. transactionByID g u \<noteq> None \<Longrightarrow> transactionByID g' u \<noteq> None"
  shows "locks_wf g'"
  using assms(2-) locks_wf_distinct [OF assms(1)] by (intro locks_wf_sub [OF assms(1)]) simp_all

lemma txLocks_takeLock:
  "txLocks u (takeLock ty t sid g) = (if u = t then txLocks t g @ [nextLock g] else txLocks u g)"
  by (simp add: takeLock_def txLocks_def grapher_frame)

lemma takeLock_simps [simp]:
  "lockMap ty' (takeLock ty t sid g)
     = (if ty' = ty then go_set sid (nextLock g) (lockMap ty' g) else lockMap ty' g)"
  "lockHeap (takeLock ty t sid g) = (lockHeap g)(nextLock g :=
     \<lparr>lk_StateId = sid, lk_Transaction = Some t, lk_Type = ty, lk_ConfirmedAtBlock = None\<rparr>)"
  "nextLock (takeLock ty t sid g) = Suc (nextLock g)"
  by (simp_all add: takeLock_def)

lemma takeLock_frame [grapher_frame]:
  "blockHeightTolerance (takeLock ty t sid g) = blockHeightTolerance g"
  "stateVisibilityTracker (takeLock ty t sid g) = stateVisibilityTracker g"
  "depTracker (takeLock ty t sid g) = depTracker g"
  "transactionByID (takeLock ty t sid g) = transactionByID g"
  "transactionByOutputState (takeLock ty t sid g) = transactionByOutputState g"
  "outputStatesByMinter (takeLock ty t sid g) = outputStatesByMinter g"
  by (simp_all add: takeLock_def grapher_frame)

lemma locks_wf_takeLock:
  assumes "locks_wf g" and "transactionByID g t \<noteq> None"
  shows "locks_wf (takeLock ty t sid g)"
proof (rule locks_wfI)
  show "go_distinct (lockMap t' (takeLock ty t sid g))" for t'
    using locks_wf_distinct [OF assms(1)] by simp
  show "entry_ok (takeLock ty t sid g) ty' sid' p"
    if "go_get (lockMap ty' (takeLock ty t sid g)) sid' = Some p" for ty' sid' p
    using that locks_wf_entry [OF assms(1), of ty' sid' p]
    by (auto simp: entry_ok_def txLocks_takeLock map_simps split: if_splits)
  show "owned_ok (takeLock ty t sid g) u p" if "p \<in> set (txLocks u (takeLock ty t sid g))" for u p
    using that locks_wf_owned [OF assms(1), of p u] assms(2)
    by (auto simp: owned_ok_def txLocks_takeLock grapher_frame split: if_splits)
qed

lemma locks_wf_deleteLockEntries: "locks_wf g \<Longrightarrow> locks_wf (deleteLockEntries ps g)"
  by (rule locks_wf_sub)
     (simp_all add: deleteLockEntries_distinct deleteLockEntries_get grapher_frame locks_wf_distinct
       split: if_splits)

text \<open>Once its entries are gone, a transaction can be dropped from both indexes.\<close>

lemma locks_wf_dropTx:
  assumes "locks_wf g"
    and "\<And>ty sid p. go_get (lockMap ty g) sid = Some p \<Longrightarrow> lk_Transaction (lockHeap g p) \<noteq> Some t"
  shows "locks_wf (g\<lparr>locksByTransaction := (locksByTransaction g)(t := None),
                     transactionByID := (transactionByID g)(t := None)\<rparr>)" (is "locks_wf ?g")
proof -
  have tx: "txLocks u ?g = (if u = t then [] else txLocks u g)" for u
    by (simp add: txLocks_def)
  show ?thesis
  proof (rule locks_wfI)
    show "go_distinct (lockMap ty ?g)" for ty
      using locks_wf_distinct [OF assms(1)] by simp
    show "entry_ok ?g ty sid p" if "go_get (lockMap ty ?g) sid = Some p" for ty sid p
      using that locks_wf_entry [OF assms(1), of ty sid p] assms(2) [of ty sid p]
      by (auto simp: entry_ok_def tx)
    show "owned_ok ?g u p" if "p \<in> set (txLocks u ?g)" for u p
      using that locks_wf_owned [OF assms(1), of p u] by (auto simp: owned_ok_def tx split: if_splits)
  qed
qed

lemma deleteLockEntries_owner:
  assumes "locks_wf g" and "go_get (lockMap ty (deleteLockEntries (txLocks t g) g)) sid = Some p"
  shows "lk_Transaction (lockHeap g p) \<noteq> Some t"
proof
  assume t: "lk_Transaction (lockHeap g p) = Some t"
  have get: "go_get (lockMap ty g) sid = Some p"
    and none: "\<not> (\<exists>p \<in> set (txLocks t g). lk_Type (lockHeap g p) = ty \<and> lk_StateId (lockHeap g p) = sid)"
    using assms(2) unfolding deleteLockEntries_get by (auto split: if_splits)
  from locks_wf_entry [OF assms(1) get] t none show False
    by (auto simp: entry_ok_def)
qed

lemma locks_wf_stamp:
  assumes "locks_wf g"
  shows "locks_wf (g\<lparr>lockHeap := fold (stampLock b) (txLocks t g) (lockHeap g),
      locksByTransaction := (locksByTransaction g)(t := None),
      transactionByID := (transactionByID g)(t := None)\<rparr>)" (is "locks_wf ?g")
proof -
  have tx: "txLocks u ?g = (if u = t then [] else txLocks u g)" for u
    by (simp add: txLocks_def)
  show ?thesis
  proof (rule locks_wfI)
    show "go_distinct (lockMap ty ?g)" for ty
      using locks_wf_distinct [OF assms(1)] by simp
    show "entry_ok ?g ty sid p" if "go_get (lockMap ty ?g) sid = Some p" for ty sid p
      using that locks_wf_entry [OF assms(1), of ty sid p] locks_wf_owned [OF assms(1), of p t]
      by (auto simp: entry_ok_def owned_ok_def tx fold_stampLock split: if_splits)
    show "owned_ok ?g u p" if "p \<in> set (txLocks u ?g)" for u p
      using that locks_wf_owned [OF assms(1), of p u] locks_wf_owned [OF assms(1), of p t]
      by (auto simp: owned_ok_def tx fold_stampLock split: if_splits)
  qed
qed

lemma locks_wf_allocConfirmed:
  assumes "locks_wf g" and "lk_Transaction lock = None" and "lk_ConfirmedAtBlock lock \<noteq> None"
  shows "locks_wf (allocLock lock g)"
proof -
  have tx: "txLocks u (allocLock lock g) = txLocks u g" for u
    by (simp add: txLocks_def grapher_frame)
  show ?thesis
  proof (rule locks_wfI)
    show "go_distinct (lockMap ty (allocLock lock g))" for ty
      using locks_wf_distinct [OF assms(1)] by simp
    show "entry_ok (allocLock lock g) ty sid p"
      if "go_get (lockMap ty (allocLock lock g)) sid = Some p" for ty sid p
      using that locks_wf_entry [OF assms(1), of ty sid p] assms(2,3)
      by (auto simp: entry_ok_def tx map_simps split: if_splits)
    show "owned_ok (allocLock lock g) u p" if "p \<in> set (txLocks u (allocLock lock g))" for u p
      using that locks_wf_owned [OF assms(1), of p u] by (auto simp: owned_ok_def tx grapher_frame)
  qed
qed


subsection \<open>Dependencies\<close>

lemma deps_wf_cong:
  assumes "deps_wf g" and "grapherDeps g' = grapherDeps g"
    and "\<And>u. transactionByID g u \<noteq> None \<Longrightarrow> transactionByID g' u \<noteq> None"
  shows "deps_wf g'"
  using assms by (simp add: deps_wf_def)

lemma deps_wf_delete:
  assumes "deps_wf g" and "grapherDeps g' = delete_tx t (grapherDeps g)"
    and "\<And>u. u \<noteq> t \<Longrightarrow> transactionByID g' u = transactionByID g u"
  shows "deps_wf g'"
proof -
  have wf: "chain_wf (grapherDeps g)" using assms(1) by (simp add: deps_wf_def)
  have "transactionByID g' x \<noteq> None \<and> transactionByID g' y \<noteq> None"
    if "(x, y) \<in> depends (grapherDeps g')" for x y
  proof -
    from that have "(x, y) \<in> depends (grapherDeps g)" and "x \<noteq> t" and "y \<noteq> t"
      using depends_delete [OF wf, of t] by (auto simp: assms(2))
    then show ?thesis using assms(1,3) by (simp add: deps_wf_def)
  qed
  then show ?thesis using wf_delete [OF wf] by (simp add: deps_wf_def assms(2))
qed

lemma linkToMinter_frame [grapher_frame]:
  "stateVisibilityTracker (linkToMinter t sid g) = stateVisibilityTracker g"
  "transactionByID (linkToMinter t sid g) = transactionByID g"
  "transactionByOutputState (linkToMinter t sid g) = transactionByOutputState g"
  "outputStatesByMinter (linkToMinter t sid g) = outputStatesByMinter g"
  "locksByTransaction (linkToMinter t sid g) = locksByTransaction g"
  "lockHeap (linkToMinter t sid g) = lockHeap g"
  "nextLock (linkToMinter t sid g) = nextLock g"
  "lockMap ty (linkToMinter t sid g) = lockMap ty g"
  by (auto simp: linkToMinter_def grapher_frame split: option.splits)

lemma deps_wf_linkToMinter:
  assumes "deps_wf g" and "minters_wf g" and "transactionByID g t \<noteq> None"
  shows "deps_wf (linkToMinter t sid g)"
proof (cases "transactionByOutputState g sid")
  case None
  with assms show ?thesis by (simp add: linkToMinter_def)
next
  case (Some tx)
  then have "transactionByID g (gtx_ID tx) \<noteq> None" using minters_known assms(2) by blast
  then show ?thesis
    using assms(1,3) Some by (auto simp: linkToMinter_def deps_wf_def depends_Add wf_Add grapher_frame)
qed

section \<open>Every operation keeps the invariant\<close>

lemma inv_New:
  "chain_wf (postAssembly dt) \<Longrightarrow> depends (postAssembly dt) = {} \<Longrightarrow> store_wf vis \<Longrightarrow>
     grapher_inv (NewGrapher dt vis tol)"
  by (auto simp: NewGrapher_def grapher_inv_def minters_wf_def locks_wf_def deps_wf_def minted_def
      txLocks_def lockMap_def split: StateLockType.splits)

lemma inv_know:
  "grapher_inv g \<Longrightarrow> grapher_inv (g\<lparr>transactionByID := (transactionByID g)(t \<mapsto> \<lparr>gtx_ID = t\<rparr>)\<rparr>)"
  unfolding grapher_inv_def
  by (auto intro: minters_wf_know elim!: locks_wf_cong deps_wf_cong)

lemma inv_addConsumer: "grapher_inv g \<Longrightarrow> grapher_inv (addConsumer t g)"
  using inv_know by (auto simp: addConsumer_def split: option.splits)

lemma addConsumer_known [simp]: "transactionByID (addConsumer t g) t \<noteq> None"
  by (auto simp: addConsumer_def split: option.splits)

lemma addConsumer_frame [grapher_frame]:
  "stateVisibilityTracker (addConsumer t g) = stateVisibilityTracker g"
  "depTracker (addConsumer t g) = depTracker g"
  "transactionByOutputState (addConsumer t g) = transactionByOutputState g"
  "outputStatesByMinter (addConsumer t g) = outputStatesByMinter g"
  "locksByTransaction (addConsumer t g) = locksByTransaction g"
  "lockHeap (addConsumer t g) = lockHeap g"
  "nextLock (addConsumer t g) = nextLock g"
  "lockMap ty (addConsumer t g) = lockMap ty g"
  by (auto simp: addConsumer_def split: option.splits)

lemma inv_AddMinter:
  assumes "grapher_inv g"
  shows "returns grapher_inv (AddMinter ss t g)"
proof -
  let ?g = "g\<lparr>transactionByID := (transactionByID g)(t \<mapsto> \<lparr>gtx_ID = t\<rparr>)\<rparr>"
  have inv: "grapher_inv ?g" by (rule inv_know [OF assms])
  have "returns minters_wf (addMinterLoop ss t ?g)"
    using inv by (intro addMinterLoop_wf) (auto simp: grapher_inv_def)
  with addMinterLoop_frame [of ?g ss t] inv show ?thesis
    unfolding AddMinter_def
    by (cases "addMinterLoop ss t ?g")
       (auto simp: grapher_inv_def elim!: locks_wf_cong deps_wf_cong)
qed

lemma inv_takeLock:
  assumes "grapher_inv g" and "transactionByID g t \<noteq> None"
  shows "grapher_inv (takeLock ty t sid g)"
  using assms unfolding grapher_inv_def
  by (auto simp: grapher_frame intro: locks_wf_takeLock elim!: minters_wf_cong deps_wf_cong)

lemma inv_linkToMinter:
  assumes "grapher_inv g" and "transactionByID g t \<noteq> None"
  shows "grapher_inv (linkToMinter t sid g)"
  using assms unfolding grapher_inv_def
  by (auto simp: grapher_frame intro: deps_wf_linkToMinter elim!: minters_wf_cong locks_wf_cong)

lemma inv_LockMintsOnCreate: "grapher_inv g \<Longrightarrow> grapher_inv (LockMintsOnCreate ss t g)"
  unfolding LockMintsOnCreate_def
  using fold_invariant_set [where I = "\<lambda>g. grapher_inv g \<and> transactionByID g t \<noteq> None"
      and xs = ss and f = "\<lambda>s. takeLock CREATE t (es_Id s)" and s = "addConsumer t g"]
  by (auto simp: grapher_frame inv_addConsumer intro: inv_takeLock)

definition lockAndLink :: "StateLockType \<Rightarrow> uuid \<Rightarrow> EndorsableState \<Rightarrow> grapher \<Rightarrow> grapher" where
  "lockAndLink ty t state g = linkToMinter t (es_Id state) (takeLock ty t (es_Id state) g)"

lemma LockMintsOnReadAndSpend_alt:
  "LockMintsOnReadAndSpend rs ss t g
     = fold (lockAndLink SPEND t) ss (fold (lockAndLink READ t) rs (addConsumer t g))"
  unfolding LockMintsOnReadAndSpend_def lockAndLink_def ..

lemma lockAndLink_known [simp]: "transactionByID (lockAndLink ty t s g) = transactionByID g"
  by (simp add: lockAndLink_def grapher_frame)

lemma fold_lockAndLink_known [simp]:
  "transactionByID (fold (lockAndLink ty t) ss g) = transactionByID g"
  by (induction ss arbitrary: g) simp_all

lemma inv_lockAndLink:
  "grapher_inv g \<Longrightarrow> transactionByID g t \<noteq> None \<Longrightarrow> grapher_inv (lockAndLink ty t s g)"
  unfolding lockAndLink_def by (intro inv_linkToMinter inv_takeLock) (simp_all add: grapher_frame)

lemma inv_fold_lockAndLink:
  "grapher_inv g \<Longrightarrow> transactionByID g t \<noteq> None \<Longrightarrow> grapher_inv (fold (lockAndLink ty t) ss g)"
  by (induction ss arbitrary: g) (simp_all add: inv_lockAndLink)

lemma inv_LockMintsOnReadAndSpend:
  "grapher_inv g \<Longrightarrow> grapher_inv (LockMintsOnReadAndSpend rs ss t g)"
  unfolding LockMintsOnReadAndSpend_alt
  by (intro inv_fold_lockAndLink inv_addConsumer) simp_all

text \<open>The two ways to forget a known transaction, as one record each.\<close>

lemma ForgetTransactionAndLocks_alt:
  assumes "transactionByID g t \<noteq> None"
  defines "g1 \<equiv> forgetTxMints t (setGrapherDeps (delete_tx t) g)"
  shows "ForgetTransactionAndLocks t g = (deleteLockEntries (txLocks t g) g1)
     \<lparr>locksByTransaction := (locksByTransaction g)(t := None),
      transactionByID := (transactionByID g)(t := None)\<rparr>"
proof -
  have "txLocks t g1 = txLocks t g" by (simp add: g1_def txLocks_def grapher_frame)
  with assms show ?thesis
    by (auto simp: ForgetTransactionAndLocks_def forgetTxLocks_alt Let_def grapher_frame g1_def [symmetric])
       (simp add: g1_def grapher_frame)
qed

lemma ForgetTransaction_alt:
  assumes "transactionByID g t \<noteq> None"
  defines "g1 \<equiv> forgetTxMints t (setGrapherDeps (delete_tx t) g)"
  shows "ForgetTransaction t b g = g1
     \<lparr>lockHeap := fold (stampLock b) (txLocks t g) (lockHeap g),
      locksByTransaction := (locksByTransaction g)(t := None),
      transactionByID := (transactionByID g)(t := None)\<rparr>"
  using assms
  by (auto simp: ForgetTransaction_def Let_def txLocks_def grapher_frame)

lemma inv_ForgetTransactionAndLocks:
  assumes "grapher_inv g"
  shows "grapher_inv (ForgetTransactionAndLocks t g)"
proof (cases "transactionByID g t = None")
  case True
  then show ?thesis using assms by (simp add: ForgetTransactionAndLocks_def)
next
  case False
  let ?g1 = "forgetTxMints t (setGrapherDeps (delete_tx t) g)"
  let ?g2 = "deleteLockEntries (txLocks t g) ?g1"
  have g: "minters_wf g" "locks_wf g" "deps_wf g" "store_wf (stateVisibilityTracker g)"
    using assms by (auto simp: grapher_inv_def)
  have m0: "minters_wf (setGrapherDeps (delete_tx t) g)"
    by (rule minters_wf_cong [OF g(1)]) (simp_all add: grapher_frame)
  have l1: "locks_wf ?g1" by (rule locks_wf_cong [OF g(2)]) (simp_all add: grapher_frame)
  have tx: "txLocks t ?g1 = txLocks t g" by (simp add: txLocks_def grapher_frame)
  have "locks_wf (?g2\<lparr>locksByTransaction := (locksByTransaction ?g2)(t := None),
      transactionByID := (transactionByID ?g2)(t := None)\<rparr>)"
    by (rule locks_wf_dropTx [OF locks_wf_deleteLockEntries [OF l1]])
       (use deleteLockEntries_owner [OF l1] tx in \<open>auto simp: grapher_frame\<close>)
  then have "locks_wf (ForgetTransactionAndLocks t g)"
    by (simp add: ForgetTransactionAndLocks_alt [OF False] grapher_frame)
  moreover have "minters_wf (ForgetTransactionAndLocks t g)"
    by (rule minters_wf_cong [OF minters_wf_forgetTxMints(3) [OF m0, of t]])
       (simp_all add: ForgetTransactionAndLocks_alt [OF False] grapher_frame)
  moreover have "deps_wf (ForgetTransactionAndLocks t g)"
    by (rule deps_wf_delete [OF g(3), of _ t])
       (simp_all add: ForgetTransactionAndLocks_alt [OF False] grapher_frame)
  moreover have "store_wf (stateVisibilityTracker (ForgetTransactionAndLocks t g))"
    using g(4) by (simp add: ForgetTransactionAndLocks_alt [OF False] deleteLockEntries_store grapher_frame)
  ultimately show ?thesis by (simp add: grapher_inv_def)
qed

lemma inv_ForgetTransaction:
  assumes "grapher_inv g"
  shows "grapher_inv (ForgetTransaction t b g)"
proof (cases "transactionByID g t = None")
  case True
  then show ?thesis using assms by (simp add: ForgetTransaction_def)
next
  case False
  let ?g1 = "forgetTxMints t (setGrapherDeps (delete_tx t) g)"
  have g: "minters_wf g" "locks_wf g" "deps_wf g" "store_wf (stateVisibilityTracker g)"
    using assms by (auto simp: grapher_inv_def)
  have m0: "minters_wf (setGrapherDeps (delete_tx t) g)"
    by (rule minters_wf_cong [OF g(1)]) (simp_all add: grapher_frame)
  have l1: "locks_wf ?g1" by (rule locks_wf_cong [OF g(2)]) (simp_all add: grapher_frame)
  have tx: "txLocks t ?g1 = txLocks t g" by (simp add: txLocks_def grapher_frame)
  have "locks_wf (ForgetTransaction t b g)"
    using locks_wf_stamp [OF l1, of t b]
    by (simp add: ForgetTransaction_alt [OF False] grapher_frame tx)
  moreover have "minters_wf (ForgetTransaction t b g)"
    by (rule minters_wf_cong [OF minters_wf_forgetTxMints(3) [OF m0, of t]])
       (simp_all add: ForgetTransaction_alt [OF False] grapher_frame)
  moreover have "deps_wf (ForgetTransaction t b g)"
    by (rule deps_wf_delete [OF g(3), of _ t])
       (simp_all add: ForgetTransaction_alt [OF False] grapher_frame)
  moreover have "store_wf (stateVisibilityTracker (ForgetTransaction t b g))"
    using g(4) by (simp add: ForgetTransaction_alt [OF False] grapher_frame)
  ultimately show ?thesis by (simp add: grapher_inv_def)
qed


lemma lockMap_ForgetConfirmedLocks:
  "lockMap ty (ForgetConfirmedLocks h g) = go_del_where (expiredEntry h g) (lockMap ty g)"
  by (cases ty) (simp_all add: ForgetConfirmedLocks_def)

lemma inv_ForgetConfirmedLocks:
  assumes "grapher_inv g"
  shows "grapher_inv (ForgetConfirmedLocks h g)"
proof -
  have g: "minters_wf g" "locks_wf g" "deps_wf g" "store_wf (stateVisibilityTracker g)"
    using assms by (auto simp: grapher_inv_def)
  have "locks_wf (ForgetConfirmedLocks h g)"
    by (rule locks_wf_sub [OF g(2)])
       (simp_all add: lockMap_ForgetConfirmedLocks locks_wf_distinct [OF g(2)] go_get_del_where,
        simp_all add: ForgetConfirmedLocks_def split: option.splits if_splits)
  moreover have "minters_wf (ForgetConfirmedLocks h g)"
    by (rule minters_wf_cong [OF g(1)]) (simp_all add: ForgetConfirmedLocks_def)
  moreover have "deps_wf (ForgetConfirmedLocks h g)"
    by (rule deps_wf_cong [OF g(3)]) (simp_all add: ForgetConfirmedLocks_def)
  moreover have "store_wf (stateVisibilityTracker (ForgetConfirmedLocks h g))"
    unfolding ForgetConfirmedLocks_def using g(4)
    by (auto intro!: fold_invariant_set store_wf_Delete)
  ultimately show ?thesis by (simp add: grapher_inv_def)
qed

definition confirmed_ok :: "(string, SnapshotStateLock) gomap \<Rightarrow> bool" where
  "confirmed_ok m \<longleftrightarrow> go_distinct m \<and> (\<forall>(k, lock) \<in> set m. lk_StateId lock = k
     \<and> lk_Transaction lock = None \<and> lk_ConfirmedAtBlock lock \<noteq> None)"

lemma confirmed_ok_confirmedLocks: "confirmed_ok m \<Longrightarrow> confirmed_ok (confirmedLocks locks m)"
proof (induction locks m rule: confirmedLocks.induct)
  case (2 lock locks m)
  have "confirmed_ok (go_set (lk_StateId lock) lock m)"
    if "lk_Transaction lock = None" and "lk_ConfirmedAtBlock lock \<noteq> None"
    using "2.prems" that go_all_set [of m "\<lambda>k l. lk_StateId l = k \<and> lk_Transaction l = None
      \<and> lk_ConfirmedAtBlock l \<noteq> None" "lk_StateId lock" lock]
    unfolding confirmed_ok_def by simp
  then show ?case using 2 by simp
qed simp

lemma importLock_inv:
  assumes "grapher_inv g" and "lk_Transaction (snd e) = None" and "lk_ConfirmedAtBlock (snd e) \<noteq> None"
  shows "grapher_inv (importLock e g)"
proof -
  have "grapher_inv (allocLock (snd e) g)"
    using assms unfolding grapher_inv_def
    by (auto simp: grapher_frame intro: locks_wf_allocConfirmed elim!: minters_wf_cong deps_wf_cong)
  then show ?thesis using assms(1) by (auto simp: importLock_def split: option.splits)
qed

lemma inv_ImportStatesAndLocks:
  assumes "grapher_inv g"
  shows "grapher_inv (ImportStatesAndLocks sn g)"
proof -
  let ?c = "confirmedLocks (sn_Locks sn) []"
  let ?v = "fold (importState ?c) (sn_States sn) (stateVisibilityTracker g)"
  have "store_wf ?v"
    by (rule fold_invariant_set [where I = store_wf])
       (use assms in \<open>auto simp: grapher_inv_def importState_def intro: store_wf_Import split: option.splits\<close>)
  then have "grapher_inv (g\<lparr>stateVisibilityTracker := ?v\<rparr>)"
    using assms unfolding grapher_inv_def
    by (auto elim!: minters_wf_cong locks_wf_cong deps_wf_cong)
  moreover have "confirmed_ok ?c"
    by (rule confirmed_ok_confirmedLocks) (simp add: confirmed_ok_def)
  ultimately show ?thesis
    unfolding ImportStatesAndLocks_def Let_def
    by (intro fold_invariant_set [where I = grapher_inv]) (auto simp: confirmed_ok_def intro!: importLock_inv)
qed

lemma inv_recordVisibility:
  "grapher_inv g \<Longrightarrow> grapher_inv (g\<lparr>stateVisibilityTracker :=
     RecordAssemblyOutput ss ls ds now (stateVisibilityTracker g)\<rparr>)"
  unfolding grapher_inv_def
  by (auto intro: store_wf_Record elim!: minters_wf_cong locks_wf_cong deps_wf_cong)

section \<open>Reachable graphers\<close>

text \<open>
  One step is one call of the interface; a failing \<open>AddMinter\<close> leaves the state it has written.
  The visibility store is written by the transaction between \<open>AddMinter\<close> and the create locks.
\<close>

inductive grapher_step :: "grapher \<Rightarrow> grapher \<Rightarrow> bool" where
  step_AddMinter: "AddMinter ss t g = Ok g' \<Longrightarrow> grapher_step g g'"
| step_AddMinter_error: "AddMinter ss t g = Fail e g' \<Longrightarrow> grapher_step g g'"
| step_Record: "grapher_step g (g\<lparr>stateVisibilityTracker :=
     RecordAssemblyOutput ss ls ds now (stateVisibilityTracker g)\<rparr>)"
| step_LockCreate: "grapher_step g (LockMintsOnCreate ss t g)"
| step_LockReadSpend: "grapher_step g (LockMintsOnReadAndSpend rs ss t g)"
| step_ForgetAndLocks: "grapher_step g (ForgetTransactionAndLocks t g)"
| step_Forget: "grapher_step g (ForgetTransaction t b g)"
| step_Confirmed: "grapher_step g (ForgetConfirmedLocks h g)"
| step_Import: "grapher_step g (ImportStatesAndLocks sn g)"

inductive grapher_reachable :: "uint64 \<Rightarrow> grapher \<Rightarrow> bool" for tol where
  reach_new: "grapher_reachable tol (NewGrapher NewDependencyTracker NewStore tol)"
| reach_step: "grapher_reachable tol g \<Longrightarrow> grapher_step g g' \<Longrightarrow> grapher_reachable tol g'"

lemma grapher_step_inv: "grapher_step g g' \<Longrightarrow> grapher_inv g \<Longrightarrow> grapher_inv g'"
proof (induction rule: grapher_step.induct)
  case (step_AddMinter ss t g g')
  then show ?case using inv_AddMinter [of g ss t] by simp
next
  case (step_AddMinter_error ss t g e g')
  then show ?case using inv_AddMinter [of g ss t] by simp
qed (simp_all add: inv_recordVisibility inv_LockMintsOnCreate inv_LockMintsOnReadAndSpend
      inv_ForgetTransactionAndLocks inv_ForgetTransaction inv_ForgetConfirmedLocks
      inv_ImportStatesAndLocks)

lemma depends_new [simp]: "depends newDependencyChain = {}"
  by (auto simp: depends_def newDependencyChain_def GetPrerequisites_def)

lemma grapher_reachable_inv: "grapher_reachable tol g \<Longrightarrow> grapher_inv g"
  by (induction rule: grapher_reachable.induct)
     (auto simp: NewDependencyTracker_def wf_new store_wf_new intro: inv_New grapher_step_inv)

end
