(* ===== verification/GrapherProperties.thy ===== *)
theory GrapherProperties
  imports Grapher
begin

text \<open>
  What the grapher guarantees to the coordinator: the shape every reachable grapher keeps, what is
  left of a transaction once it is forgotten, when confirmed locks expire, which states an assembler
  is shown, and what survives an export to another coordinator and its import there.
\<close>

section \<open>Minting\<close>

lemma addMinterLoop_Ok:
  assumes "addMinterLoop ss t g = Ok g'" and "transactionByID g t = Some tx"
  shows "distinct (map es_Id ss) \<and> (\<forall>s \<in> set ss. transactionByOutputState g (es_Id s) = None)
    \<and> (\<forall>i. transactionByOutputState g' i
         = (if i \<in> es_Id ` set ss then Some tx else transactionByOutputState g i))"
  using assms
proof (induction ss t g rule: addMinterLoop.induct)
  case (2 s ss t g)
  let ?g = "g\<lparr>transactionByOutputState := (transactionByOutputState g)(es_Id s := transactionByID g t),
       outputStatesByMinter := (outputStatesByMinter g)(t \<mapsto>
         (case outputStatesByMinter g t of None \<Rightarrow> [] | Some ids \<Rightarrow> ids) @ [es_Id s])\<rparr>"
  from 2(2) have none: "transactionByOutputState g (es_Id s) = None"
    and rest: "addMinterLoop ss t ?g = Ok g'" by (auto split: option.splits)
  have ih: "distinct (map es_Id ss) \<and> (\<forall>s \<in> set ss. transactionByOutputState ?g (es_Id s) = None)
      \<and> (\<forall>i. transactionByOutputState g' i
           = (if i \<in> es_Id ` set ss then Some tx else transactionByOutputState ?g i))"
    by (rule "2.IH" [OF none rest]) (simp add: 2(3))
  have fresh: "es_Id x \<noteq> es_Id s" if "x \<in> set ss" for x
    using ih that 2(3) by auto
  then show ?case using ih none 2(3) by (auto simp: image_iff split: if_splits)
qed simp

lemma addMinterLoop_fails:
  assumes "addMinterLoop ss t g = Fail e g'" and "transactionByID g t = Some tx"
  shows "\<not> distinct (map es_Id ss) \<or> (\<exists>s \<in> set ss. transactionByOutputState g (es_Id s) \<noteq> None)"
  using assms
proof (induction ss t g rule: addMinterLoop.induct)
  case (2 s ss t g)
  show ?case
  proof (cases "transactionByOutputState g (es_Id s)")
    case None
    let ?g = "g\<lparr>transactionByOutputState := (transactionByOutputState g)(es_Id s := transactionByID g t),
       outputStatesByMinter := (outputStatesByMinter g)(t \<mapsto>
         (case outputStatesByMinter g t of None \<Rightarrow> [] | Some ids \<Rightarrow> ids) @ [es_Id s])\<rparr>"
    have "addMinterLoop ss t ?g = Fail e g'" using None 2(2) by simp
    then have "\<not> distinct (map es_Id ss) \<or> (\<exists>s \<in> set ss. transactionByOutputState ?g (es_Id s) \<noteq> None)"
      using "2.IH" [OF None] 2(3) by simp
    then show ?thesis by (auto simp: image_iff split: if_splits) metis
  qed auto
qed simp

lemma addMinterLoop_not_Stuck [simp]: "addMinterLoop ss t g \<noteq> Stuck"
  by (induction ss t g rule: addMinterLoop.induct) (auto split: option.splits)


section \<open>Reachable graphers and forgetting\<close>

text \<open>
  C3. Whatever sequence of calls a coordinator makes, the indexes of the grapher agree with each
  other: the minter maps mirror each other, every lock entry points to a lock of its state and type
  that is either held by a known transaction listing it or confirmed at a block, dependency links
  are symmetric and join known transactions, and every recorded state sits under its identifier.
\<close>

theorem grapher_always_consistent: "grapher_reachable tol g \<Longrightarrow> grapher_inv g"
  by (rule grapher_reachable_inv)

definition sampleState :: "string \<Rightarrow> EndorsableState" where
  "sampleState i = \<lparr>es_Id = i, es_SchemaId = ''0xaa'', es_StateDataJson = ''{}''\<rparr>"

definition sampleGrapher :: grapher where
  "sampleGrapher = LockMintsOnReadAndSpend [] [sampleState ''0x01''] 2
     (LockMintsOnCreate [sampleState ''0x01''] 1
        (NewGrapher NewDependencyTracker NewStore 10))"

lemma sampleGrapher_reachable: "grapher_reachable 10 sampleGrapher"
  unfolding sampleGrapher_def
  by (intro reach_step [OF _ step_LockReadSpend] reach_step [OF _ step_LockCreate] reach_new)

lemma sample_locks:
  "lockMap CREATE sampleGrapher = [(''0x01'', 0)]" "lockMap SPEND sampleGrapher = [(''0x01'', 1)]"
  "lockMap READ sampleGrapher = []" "txLocks 2 sampleGrapher = [1]"
  "lockHeap sampleGrapher 0 = \<lparr>lk_StateId = ''0x01'', lk_Transaction = Some 1, lk_Type = CREATE,
     lk_ConfirmedAtBlock = None\<rparr>"
  "lockHeap sampleGrapher 1 = \<lparr>lk_StateId = ''0x01'', lk_Transaction = Some 2, lk_Type = SPEND,
     lk_ConfirmedAtBlock = None\<rparr>"
  by (simp_all add: sampleGrapher_def NewGrapher_def LockMintsOnReadAndSpend_def LockMintsOnCreate_def
      addConsumer_def takeLock_def allocLock_def updLockMap_def linkToMinter_def txLocks_def sampleState_def)

theorem grapher_always_consistent_witness: "grapher_inv sampleGrapher"
  by (rule grapher_always_consistent [OF sampleGrapher_reachable])

lemma inv_parts:
  assumes "grapher_inv g"
  shows "minters_wf g" "locks_wf g" "deps_wf g" "store_wf (stateVisibilityTracker g)"
  using assms by (auto simp: grapher_inv_def)

lemma unknown_tx:
  assumes "grapher_inv g" and "transactionByID g t = None"
  shows "txLocks t g = []" "transactionByOutputState g s \<noteq> Some \<lparr>gtx_ID = t\<rparr>"
    "t \<notin> Field (depends (grapherDeps g))"
proof -
  show "txLocks t g = []"
  proof (rule ccontr)
    assume "txLocks t g \<noteq> []"
    then have "hd (txLocks t g) \<in> set (txLocks t g)" by simp
    from locks_wf_owned [OF inv_parts(2) [OF assms(1)] this] assms(2) show False
      by (simp add: owned_ok_def)
  qed
  show "transactionByOutputState g s \<noteq> Some \<lparr>gtx_ID = t\<rparr>"
    using minters_known [OF inv_parts(1) [OF assms(1)], of s "\<lparr>gtx_ID = t\<rparr>"] assms(2) by auto
  show "t \<notin> Field (depends (grapherDeps g))"
    using inv_parts(3) [OF assms(1)] assms(2) unfolding deps_wf_def Field_def by blast
qed

lemma entry_owner_unknown:
  assumes "grapher_inv g" and "transactionByID g t = None" and "go_get (lockMap ty g) sid = Some p"
  shows "lk_Transaction (lockHeap g p) \<noteq> Some t"
  using locks_wf_entry [OF inv_parts(2) [OF assms(1)] assms(3)] unknown_tx(1) [OF assms(1,2)]
  by (auto simp: entry_ok_def)

lemma ForgetTransactionAndLocks_unknown [simp]:
  "transactionByID (ForgetTransactionAndLocks t g) t = None"
  by (cases "transactionByID g t = None")
     (simp_all add: ForgetTransactionAndLocks_alt, simp add: ForgetTransactionAndLocks_def)

lemma ForgetTransaction_unknown [simp]: "transactionByID (ForgetTransaction t b g) t = None"
  by (cases "transactionByID g t = None") (simp_all add: ForgetTransaction_alt, simp add: ForgetTransaction_def)

lemma ForgetTransactionAndLocks_entries:
  assumes "grapher_inv g"
  shows "go_get (lockMap ty (ForgetTransactionAndLocks t g)) sid =
     (if \<exists>p \<in> set (txLocks t g). lk_Type (lockHeap g p) = ty \<and> lk_StateId (lockHeap g p) = sid
      then None else go_get (lockMap ty g) sid)"
proof (cases "transactionByID g t = None")
  case True
  then show ?thesis using unknown_tx(1) [OF assms True] by (simp add: ForgetTransactionAndLocks_def)
next
  case False
  then show ?thesis
    by (auto simp: ForgetTransactionAndLocks_alt deleteLockEntries_get grapher_frame)
qed

text \<open>
  C9. \<open>ForgetTransactionAndLocks\<close> leaves no trace of the transaction: no lock entry names it as owner,
  no state has it as minter, no dependency link touches it, and it is unknown; the locks that go are
  those on a state and of a type the transaction had locked, all others stay.
\<close>

theorem ForgetTransactionAndLocks_no_trace:
  fixes t :: uuid
  assumes "grapher_reachable tol g"
  defines "g' \<equiv> ForgetTransactionAndLocks t g"
  shows "transactionByID g' t = None \<and> txLocks t g' = []
    \<and> (\<forall>s. transactionByOutputState g' s \<noteq> Some \<lparr>gtx_ID = t\<rparr>)
    \<and> t \<notin> Field (depends (grapherDeps g'))
    \<and> (\<forall>ty sid p. go_get (lockMap ty g') sid = Some p \<longrightarrow> lk_Transaction (lockHeap g' p) \<noteq> Some t)
    \<and> (\<forall>ty sid. go_get (lockMap ty g') sid =
         (if \<exists>p \<in> set (txLocks t g). lk_Type (lockHeap g p) = ty \<and> lk_StateId (lockHeap g p) = sid
          then None else go_get (lockMap ty g) sid))"
proof -
  note inv = grapher_reachable_inv [OF assms(1)]
  have inv': "grapher_inv g'" unfolding g'_def by (rule inv_ForgetTransactionAndLocks [OF inv])
  have un: "transactionByID g' t = None" by (simp add: g'_def)
  show ?thesis
    using un unknown_tx [OF inv' un] entry_owner_unknown [OF inv' un]
      ForgetTransactionAndLocks_entries [OF inv, of _ t] by (simp add: g'_def)
qed

theorem ForgetTransactionAndLocks_no_trace_witness:
  "go_get (lockMap SPEND (ForgetTransactionAndLocks 2 sampleGrapher)) ''0x01'' = None
   \<and> go_get (lockMap CREATE (ForgetTransactionAndLocks 2 sampleGrapher)) ''0x01'' = Some 0"
  using ForgetTransactionAndLocks_no_trace [OF sampleGrapher_reachable, where t = 2]
  by (simp add: sample_locks del: lockMap_cases One_nat_def)

text \<open>
  C11. \<open>ForgetTransaction\<close>, used on confirmation, keeps every lock entry and only rewrites the lock
  objects of that transaction, through the pointers shared with the maps: they lose their owner and
  are stamped with the confirmation block. Everything else about the transaction is forgotten.
\<close>

theorem ForgetTransaction_keeps_locks_confirmed:
  fixes t :: uuid and b :: uint64
  assumes "grapher_reachable tol g"
  defines "g' \<equiv> ForgetTransaction t b g"
  shows "transactionByID g' t = None \<and> txLocks t g' = []
    \<and> (\<forall>s. transactionByOutputState g' s \<noteq> Some \<lparr>gtx_ID = t\<rparr>)
    \<and> t \<notin> Field (depends (grapherDeps g'))
    \<and> (\<forall>ty. lockMap ty g' = lockMap ty g)
    \<and> (\<forall>ty sid p. go_get (lockMap ty g) sid = Some p \<longrightarrow>
         lockHeap g' p = (if lk_Transaction (lockHeap g p) = Some t
            then (lockHeap g p)\<lparr>lk_Transaction := None, lk_ConfirmedAtBlock := Some b\<rparr>
            else lockHeap g p))"
proof -
  note inv = grapher_reachable_inv [OF assms(1)]
  have inv': "grapher_inv g'" unfolding g'_def by (rule inv_ForgetTransaction [OF inv])
  have un: "transactionByID g' t = None" by (simp add: g'_def)
  have maps: "lockMap ty g' = lockMap ty g" for ty
    by (cases "transactionByID g t = None")
       (simp_all add: g'_def ForgetTransaction_alt, simp add: ForgetTransaction_def)
  have "lockHeap g' = fold (stampLock b) (txLocks t g) (lockHeap g)"
  proof (cases "transactionByID g t = None")
    case True
    then show ?thesis using unknown_tx(1) [OF inv True] by (simp add: g'_def ForgetTransaction_def)
  next
    case False
    then show ?thesis by (simp add: g'_def ForgetTransaction_alt)
  qed
  then have heap: "lockHeap g' p = (if p \<in> set (txLocks t g)
      then (lockHeap g p)\<lparr>lk_Transaction := None, lk_ConfirmedAtBlock := Some b\<rparr> else lockHeap g p)" for p
    by (simp add: fold_stampLock)
  have "p \<in> set (txLocks t g) \<longleftrightarrow> lk_Transaction (lockHeap g p) = Some t"
    if "go_get (lockMap ty g) sid = Some p" for ty sid p
    using locks_wf_entry [OF inv_parts(2) [OF inv] that] locks_wf_owned [OF inv_parts(2) [OF inv], of p t]
    by (auto simp: entry_ok_def owned_ok_def)
  then show ?thesis using un unknown_tx [OF inv' un] maps heap by auto
qed

theorem ForgetTransaction_keeps_locks_confirmed_witness:
  "lockMap SPEND (ForgetTransaction 2 77 sampleGrapher) = [(''0x01'', 1)]
   \<and> lockHeap (ForgetTransaction 2 77 sampleGrapher) 1
       = \<lparr>lk_StateId = ''0x01'', lk_Transaction = None, lk_Type = SPEND, lk_ConfirmedAtBlock = Some 77\<rparr>"
  using ForgetTransaction_keeps_locks_confirmed [OF sampleGrapher_reachable, where t = 2 and b = 77]
    sample_locks
  by (auto dest!: spec [of _ SPEND] simp del: lockMap_cases)

section \<open>Expiry of confirmed locks\<close>

lemma fold_store_Delete:
  "go_get (fold (\<lambda>(stateID, p). store_Delete stateID) es vis) k
     = (if k \<in> fst ` set es then None else go_get vis k)"
  by (induction es arbitrary: vis) (auto simp: store_Delete_def map_simps)

text \<open>
  C29. \<open>ForgetConfirmedLocks\<close> deletes exactly the entries whose lock has no owner and was confirmed
  at least the tolerance ago, the sum taken in 64 bits; a lock a transaction holds never expires.
  When a create lock expires, the private data recorded for its state goes with it, and no other.
\<close>

theorem ForgetConfirmedLocks_exact:
  fixes h :: uint64
  assumes "grapher_reachable tol g"
  defines "g' \<equiv> ForgetConfirmedLocks h g"
    and "expired \<equiv> \<lambda>ty sid. \<exists>p c. go_get (lockMap ty g) sid = Some p
       \<and> lk_Transaction (lockHeap g p) = None \<and> lk_ConfirmedAtBlock (lockHeap g p) = Some c
       \<and> c + blockHeightTolerance g \<le> h"
  shows "(\<forall>ty sid. go_get (lockMap ty g') sid
            = (if expired ty sid then None else go_get (lockMap ty g) sid))
    \<and> (\<forall>sid. go_get (stateVisibilityTracker g') sid
            = (if expired CREATE sid then None else go_get (stateVisibilityTracker g) sid))
    \<and> lockHeap g' = lockHeap g \<and> grapherDeps g' = grapherDeps g"
proof -
  note wf = inv_parts(2) [OF grapher_reachable_inv [OF assms(1)]]
  have exp: "expired ty sid \<longleftrightarrow> (\<exists>p. go_get (lockMap ty g) sid = Some p \<and> expiredEntry h g sid p)" for ty sid
    by (cases "go_get (lockMap ty g) sid")
       (auto simp: expired_def expiredEntry_def lockExpired_def split: option.splits)
  have "go_get (lockMap ty g') sid = (if expired ty sid then None else go_get (lockMap ty g) sid)" for ty sid
    unfolding g'_def lockMap_ForgetConfirmedLocks go_get_del_where [OF locks_wf_distinct [OF wf]] exp
    by (auto split: option.splits)
  moreover have "sid \<in> fst ` set (filter (\<lambda>(stateID, p). expiredEntry h g stateID p) (createLocksByStateID g))
      \<longleftrightarrow> expired CREATE sid" for sid
    using go_get_in_set [OF locks_wf_distinct [OF wf, of CREATE], of sid] unfolding exp by force
  then have "go_get (stateVisibilityTracker g') sid
      = (if expired CREATE sid then None else go_get (stateVisibilityTracker g) sid)" for sid
    by (simp add: g'_def ForgetConfirmedLocks_def fold_store_Delete)
  ultimately show ?thesis by (simp add: g'_def ForgetConfirmedLocks_def)
qed

definition confirmedGrapher :: grapher where
  "confirmedGrapher = ForgetTransaction 2 77 sampleGrapher"

lemma confirmedGrapher_reachable: "grapher_reachable 10 confirmedGrapher"
  unfolding confirmedGrapher_def by (rule reach_step [OF sampleGrapher_reachable step_Forget])

lemma confirmed_locks:
  "lockMap CREATE confirmedGrapher = [(''0x01'', 0)]" "lockMap SPEND confirmedGrapher = [(''0x01'', 1)]"
  "lockMap READ confirmedGrapher = []" "blockHeightTolerance confirmedGrapher = 10"
  "lockHeap confirmedGrapher 0 = \<lparr>lk_StateId = ''0x01'', lk_Transaction = Some 1, lk_Type = CREATE,
     lk_ConfirmedAtBlock = None\<rparr>"
  "lockHeap confirmedGrapher 1 = \<lparr>lk_StateId = ''0x01'', lk_Transaction = None, lk_Type = SPEND,
     lk_ConfirmedAtBlock = Some 77\<rparr>"
  by (simp_all add: confirmedGrapher_def ForgetTransaction_def Let_def forgetTxMints_def setGrapherDeps_def
      stampLock_def sampleGrapher_def NewGrapher_def LockMintsOnReadAndSpend_def LockMintsOnCreate_def
      addConsumer_def takeLock_def allocLock_def updLockMap_def linkToMinter_def txLocks_def sampleState_def)

theorem ForgetConfirmedLocks_exact_witness:
  "go_get (lockMap SPEND (ForgetConfirmedLocks 87 confirmedGrapher)) ''0x01'' = None
   \<and> go_get (lockMap SPEND (ForgetConfirmedLocks 86 confirmedGrapher)) ''0x01'' = Some 1
   \<and> go_get (lockMap CREATE (ForgetConfirmedLocks 87 confirmedGrapher)) ''0x01'' = Some 0"
  using ForgetConfirmedLocks_exact [OF confirmedGrapher_reachable, where h = 87]
    ForgetConfirmedLocks_exact [OF confirmedGrapher_reachable, where h = 86]
  by (simp add: confirmed_locks del: lockMap_cases One_nat_def)

section \<open>What an assembler sees\<close>

lemma fold_collect: "fold (\<lambda>s acc. if P s then acc @ [s] else acc) xs acc = acc @ filter P xs"
  by (induction xs arbitrary: acc) auto

lemma SnapshotView_alt:
  "SnapshotView node g = (filter (isCandidate g) (GetForNode node (stateVisibilityTracker g)),
     List.map_filter ParseHexBytes (go_keys (spendLocksByStateID g)))"
  by (simp add: SnapshotView_def RangeForNode_GetForNode fold_collect)

lemma lockAndLink_map:
  "lockMap ty' (lockAndLink ty t s g)
     = (if ty' = ty then go_set (es_Id s) (nextLock g) (lockMap ty' g) else lockMap ty' g)"
  by (simp add: lockAndLink_def grapher_frame)

lemma lockAndLink_locked:
  "go_get (lockMap ty' (fold (lockAndLink ty t) ss g)) sid \<noteq> None
     \<longleftrightarrow> go_get (lockMap ty' g) sid \<noteq> None \<or> (ty' = ty \<and> sid \<in> es_Id ` set ss)"
  by (induction ss arbitrary: g) (auto simp: lockAndLink_map map_simps simp del: lockMap_cases)

lemma spent_after_lock:
  "go_get (spendLocksByStateID (LockMintsOnReadAndSpend rs ss t g)) sid \<noteq> None
     \<longleftrightarrow> go_get (spendLocksByStateID g) sid \<noteq> None \<or> sid \<in> es_Id ` set ss"
proof -
  have "go_get (lockMap SPEND (LockMintsOnReadAndSpend rs ss t g)) sid \<noteq> None
     \<longleftrightarrow> go_get (lockMap SPEND g) sid \<noteq> None \<or> sid \<in> es_Id ` set ss"
    unfolding LockMintsOnReadAndSpend_alt lockAndLink_locked by (simp add: grapher_frame del: lockMap_cases)
  then show ?thesis by simp
qed

lemma map_filter_iff: "y \<in> set (List.map_filter f xs) \<longleftrightarrow> (\<exists>x \<in> set xs. f x = Some y)"
  by (force simp: List.map_filter_def)

text \<open>
  A state is offered to the assembler on a node exactly when the grapher holds its private data,
  its label set is known, the node is on its distribution list, an in-flight or recently confirmed
  transaction created it and none has locked it for spending; the identifiers reported as spent are
  the spend locked ones that parse as hex.
\<close>

theorem SnapshotView_candidates:
  assumes "grapher_reachable tol g"
  shows "(\<forall>s. s \<in> set (fst (SnapshotView node g)) \<longleftrightarrow>
       go_get (stateVisibilityTracker g) (ss_Id s) = Some s \<and> ss_Labels s \<noteq> None
       \<and> node \<in> set (ss_AllowedNodes s) \<and> go_get (createLocksByStateID g) (ss_Id s) \<noteq> None
       \<and> go_get (spendLocksByStateID g) (ss_Id s) = None)
    \<and> (\<forall>b. b \<in> set (snd (SnapshotView node g)) \<longleftrightarrow>
       (\<exists>sid. go_get (spendLocksByStateID g) sid \<noteq> None \<and> ParseHexBytes sid = Some b))"
proof (intro conjI allI)
  fix s b
  have st: "go_distinct (stateVisibilityTracker g)"
    and id: "\<And>k. go_get (stateVisibilityTracker g) k = Some s \<Longrightarrow> ss_Id s = k"
    using inv_parts(4) [OF grapher_reachable_inv [OF assms]] by (auto simp: store_wf_def dest!: map_of_SomeD)
  show "s \<in> set (fst (SnapshotView node g)) \<longleftrightarrow>
       go_get (stateVisibilityTracker g) (ss_Id s) = Some s \<and> ss_Labels s \<noteq> None
       \<and> node \<in> set (ss_AllowedNodes s) \<and> go_get (createLocksByStateID g) (ss_Id s) \<noteq> None
       \<and> go_get (spendLocksByStateID g) (ss_Id s) = None"
    unfolding SnapshotView_alt fst_conv set_filter mem_Collect_eq GetForNode_iff [OF st] isCandidate_def
      visibleTo_def nodeInAllowedList_def
    using id by blast
  show "b \<in> set (snd (SnapshotView node g)) \<longleftrightarrow>
       (\<exists>sid. go_get (spendLocksByStateID g) sid \<noteq> None \<and> ParseHexBytes sid = Some b)"
    unfolding SnapshotView_alt snd_conv map_filter_iff by (auto simp: map_of_eq_None_iff)
qed

definition recordedState :: SnapshotState where
  "recordedState = \<lparr>ss_State = sampleState ''0x01'', ss_AllowedNodes = [''n1''],
     ss_Labels = Some \<lparr>sl_Labels = [], sl_Int64Labels = []\<rparr>, ss_Created = 5\<rparr>"

definition visibleGrapher :: grapher where
  "visibleGrapher = LockMintsOnCreate [sampleState ''0x01''] 1
     ((NewGrapher NewDependencyTracker NewStore 10)\<lparr>stateVisibilityTracker :=
        RecordAssemblyOutput [sampleState ''0x01''] [Some \<lparr>sl_Labels = [], sl_Int64Labels = []\<rparr>] [[''bob@n1'']] (\<lambda>_. 5) NewStore\<rparr>)"

lemma visibleGrapher_reachable: "grapher_reachable 10 visibleGrapher"
proof -
  have "grapher_step (NewGrapher NewDependencyTracker NewStore 10)
      ((NewGrapher NewDependencyTracker NewStore 10)\<lparr>stateVisibilityTracker :=
        RecordAssemblyOutput [sampleState ''0x01''] [Some \<lparr>sl_Labels = [], sl_Int64Labels = []\<rparr>] [[''bob@n1'']] (\<lambda>_. 5)
          (stateVisibilityTracker (NewGrapher NewDependencyTracker NewStore 10))\<rparr>)"
    by (rule step_Record)
  then show ?thesis unfolding visibleGrapher_def
    by (intro reach_step [OF reach_step [OF reach_new] step_LockCreate]) (simp add: NewGrapher_def)
qed

lemma visible_fields:
  "stateVisibilityTracker visibleGrapher = [(''0x01'', recordedState)]"
  "createLocksByStateID visibleGrapher = [(''0x01'', 0)]" "spendLocksByStateID visibleGrapher = []"
proof -
  have "Node ''bob@n1'' False = Inr ''n1''" by code_simp
  then show "stateVisibilityTracker visibleGrapher = [(''0x01'', recordedState)]"
    by (simp add: visibleGrapher_def LockMintsOnCreate_def grapher_frame RecordAssemblyOutput_def
        snapshotOf_def NewStore_def recordedState_def sampleState_def)
  show "createLocksByStateID visibleGrapher = [(''0x01'', 0)]" "spendLocksByStateID visibleGrapher = []"
    by (simp_all add: visibleGrapher_def LockMintsOnCreate_def NewGrapher_def addConsumer_def takeLock_def
        allocLock_def updLockMap_def sampleState_def)
qed

theorem SnapshotView_candidates_witness:
  "recordedState \<in> set (fst (SnapshotView ''n1'' visibleGrapher))
   \<and> recordedState \<notin> set (fst (SnapshotView ''n2'' visibleGrapher))"
  using SnapshotView_candidates [OF visibleGrapher_reachable, of "''n1''"]
    SnapshotView_candidates [OF visibleGrapher_reachable, of "''n2''"]
  by (simp add: visible_fields) (simp add: recordedState_def sampleState_def)

text \<open>
  C26. Once a transaction has locked a state for spending, no node is offered that state any more,
  and its identifier is reported as spent to every assembler, whatever was locked before.
\<close>

theorem spend_lock_hides_state:
  fixes g :: grapher and t :: uuid and readStates :: "EndorsableState list"
  assumes "s \<in> set spendStates"
  defines "g' \<equiv> LockMintsOnReadAndSpend readStates spendStates t g"
  shows "(\<forall>x \<in> set (fst (SnapshotView node g')). ss_Id x \<noteq> es_Id s)
    \<and> (\<forall>b. ParseHexBytes (es_Id s) = Some b \<longrightarrow> b \<in> set (snd (SnapshotView node g')))"
proof -
  have sp: "go_get (spendLocksByStateID g') (es_Id s) \<noteq> None"
    unfolding g'_def spent_after_lock using assms(1) by simp
  then have "es_Id s \<in> set (go_keys (spendLocksByStateID g'))" by (auto simp: map_of_eq_None_iff)
  moreover have "ss_Id x \<noteq> es_Id s" if "x \<in> set (fst (SnapshotView node g'))" for x
    using that sp unfolding SnapshotView_alt by (auto simp: isCandidate_def)
  ultimately show ?thesis unfolding SnapshotView_alt snd_conv map_filter_iff by (metis fst_conv SnapshotView_alt)
qed

theorem spend_lock_hides_state_witness:
  "[1] \<in> set (snd (SnapshotView ''n1'' (LockMintsOnReadAndSpend [] [sampleState ''0x01''] 2 visibleGrapher)))"
proof -
  have "ParseHexBytes ''0x01'' = Some [1]" by code_simp
  then show ?thesis
    using spend_lock_hides_state [where s = "sampleState ''0x01''" and spendStates = "[sampleState ''0x01'']"
      and readStates = "[]" and t = 2 and g = visibleGrapher and node = "''n1''"]
    by (simp add: sampleState_def)
qed

section \<open>Dependencies through states\<close>

lemma lockAndLink_minters [simp]:
  "transactionByOutputState (lockAndLink ty t s g) = transactionByOutputState g"
  by (simp add: lockAndLink_def grapher_frame)

lemma depends_lockAndLink:
  "depends (grapherDeps (fold (lockAndLink ty t) ss g)) = depends (grapherDeps g)
     \<union> {(t, gtx_ID m) | m s. s \<in> set ss \<and> transactionByOutputState g (es_Id s) = Some m \<and> gtx_ID m \<noteq> t}"
proof (induction ss arbitrary: g)
  case (Cons s ss)
  have "depends (grapherDeps (lockAndLink ty t s g)) = depends (grapherDeps g)
     \<union> {(t, gtx_ID m) | m. transactionByOutputState g (es_Id s) = Some m \<and> gtx_ID m \<noteq> t}"
    by (auto simp: lockAndLink_def linkToMinter_def grapher_frame depends_Add split: option.splits)
  then show ?case using Cons [of "lockAndLink ty t s g"] by auto
qed simp

lemma depends_LockMintsOnReadAndSpend:
  "depends (grapherDeps (LockMintsOnReadAndSpend rs ss t g)) = depends (grapherDeps g)
     \<union> {(t, gtx_ID m) | m s. s \<in> set rs \<union> set ss
          \<and> transactionByOutputState g (es_Id s) = Some m \<and> gtx_ID m \<noteq> t}"
proof -
  have minters: "transactionByOutputState (fold (lockAndLink ty t) xs h) = transactionByOutputState h"
    for ty xs h by (induction xs arbitrary: h) simp_all
  show ?thesis
    unfolding LockMintsOnReadAndSpend_alt depends_lockAndLink minters by (auto simp: grapher_frame)
qed

text \<open>
  Reading or spending a state an in-flight transaction mints makes its minter a prerequisite of
  the consumer, and adds no other dependency; locking for a transaction nothing depends on yet
  never closes a cycle, so prerequisites can always be ordered.
\<close>

theorem LockMintsOnReadAndSpend_dependencies:
  fixes t :: uuid and readStates :: "EndorsableState list" and spendStates :: "EndorsableState list"
  assumes "grapher_reachable tol g" and "acyclic (depends (grapherDeps g))"
    and "GetDependents (grapherDeps g) t = []"
  defines "g' \<equiv> LockMintsOnReadAndSpend readStates spendStates t g"
  shows "depends (grapherDeps g') = depends (grapherDeps g)
     \<union> {(t, gtx_ID m) | m s. s \<in> set readStates \<union> set spendStates
          \<and> transactionByOutputState g (es_Id s) = Some m \<and> gtx_ID m \<noteq> t}
    \<and> acyclic (depends (grapherDeps g'))"
proof -
  have wf: "chain_wf (grapherDeps g)"
    using inv_parts(3) [OF grapher_reachable_inv [OF assms(1)]] by (simp add: deps_wf_def)
  let ?ms = "List.map_filter (\<lambda>s. map_option gtx_ID (transactionByOutputState g (es_Id s)))
    (readStates @ spendStates)"
  have eq: "depends (grapherDeps g') = depends (AddPrerequisites t ?ms (grapherDeps g))"
    unfolding g'_def depends_LockMintsOnReadAndSpend depends_Add by (auto simp: map_filter_iff) blast+
  show ?thesis
    using chain.add_acyclic [OF wf assms(2,3), of ?ms] eq
    by (simp add: g'_def depends_LockMintsOnReadAndSpend)
qed

definition mintedGrapher :: grapher where
  "mintedGrapher = (case AddMinter [sampleState ''0x01''] 1 (NewGrapher NewDependencyTracker NewStore 10) of
     Ok g \<Rightarrow> g | Fail e g \<Rightarrow> g | Stuck \<Rightarrow> NewGrapher NewDependencyTracker NewStore 10)"

lemma minted_fields:
  "transactionByOutputState mintedGrapher = [''0x01'' \<mapsto> \<lparr>gtx_ID = 1\<rparr>]"
  "depends (grapherDeps mintedGrapher) = {}"
  "GetDependents (grapherDeps mintedGrapher) 2 = []"
  by (simp_all add: mintedGrapher_def AddMinter_def NewGrapher_def NewDependencyTracker_def sampleState_def
      GetDependents_def) (simp add: newDependencyChain_def)

lemma mintedGrapher_reachable: "grapher_reachable 10 mintedGrapher"
proof -
  have "AddMinter [sampleState ''0x01''] 1 (NewGrapher NewDependencyTracker NewStore 10) = Ok mintedGrapher"
    by (simp add: mintedGrapher_def AddMinter_def NewGrapher_def)
  then show ?thesis by (intro reach_step [OF reach_new step_AddMinter])
qed

theorem LockMintsOnReadAndSpend_dependencies_witness:
  "depends (grapherDeps (LockMintsOnReadAndSpend [] [sampleState ''0x01''] 2 mintedGrapher)) = {(2, 1)}"
  using LockMintsOnReadAndSpend_dependencies [OF mintedGrapher_reachable, where t = 2 and readStates = "[]"
      and spendStates = "[sampleState ''0x01'']"]
  by (simp add: minted_fields sampleState_def acyclic_def)

section \<open>Export and import\<close>

lemma ex_lockType: "(\<exists>ty. P ty) \<longleftrightarrow> P CREATE \<or> P SPEND \<or> P READ"
  by (metis StateLockType.exhaust)

text \<open>
  An export discloses the private data of a state only to a node on its distribution list and
  only while the state is not locked for spending; it carries every lock of the grapher.
\<close>

theorem ExportStatesAndLocks_discloses:
  assumes "grapher_reachable tol g"
  shows "(\<forall>s. s \<in> set (sn_States (ExportStatesAndLocks node g)) \<longleftrightarrow>
       go_get (stateVisibilityTracker g) (ss_Id s) = Some s \<and> ss_Labels s \<noteq> None
       \<and> node \<in> set (ss_AllowedNodes s) \<and> go_get (spendLocksByStateID g) (ss_Id s) = None)
    \<and> set (sn_Locks (ExportStatesAndLocks node g))
       = {lockHeap g p | ty sid p. go_get (lockMap ty g) sid = Some p}"
proof (intro conjI allI)
  note inv = grapher_reachable_inv [OF assms]
  have st: "go_distinct (stateVisibilityTracker g)"
    and id: "\<And>s k. go_get (stateVisibilityTracker g) k = Some s \<Longrightarrow> ss_Id s = k"
    using inv_parts(4) [OF inv] by (auto simp: store_wf_def dest!: map_of_SomeD)
  show "s \<in> set (sn_States (ExportStatesAndLocks node g)) \<longleftrightarrow>
       go_get (stateVisibilityTracker g) (ss_Id s) = Some s \<and> ss_Labels s \<noteq> None
       \<and> node \<in> set (ss_AllowedNodes s) \<and> go_get (spendLocksByStateID g) (ss_Id s) = None" for s
    unfolding ExportStatesAndLocks_def StateSnapshot.select_convs set_filter mem_Collect_eq
      GetForNode_iff [OF st] visibleTo_def nodeInAllowedList_def
    using id by blast
  note get = go_get_in_set [OF locks_wf_distinct [OF inv_parts(2) [OF inv]]]
  have "{lockHeap g p | ty sid p. go_get (lockMap ty g) sid = Some p}
     = {l. \<exists>ty. \<exists>sid p. l = lockHeap g p \<and> (sid, p) \<in> set (lockMap ty g)}"
    unfolding get by blast
  then show "set (sn_Locks (ExportStatesAndLocks node g))
       = {lockHeap g p | ty sid p. go_get (lockMap ty g) sid = Some p}"
    unfolding ex_lockType by (auto simp: ExportStatesAndLocks_def)
qed

theorem ExportStatesAndLocks_discloses_witness:
  "recordedState \<in> set (sn_States (ExportStatesAndLocks ''n1'' visibleGrapher))
   \<and> recordedState \<notin> set (sn_States (ExportStatesAndLocks ''n2'' visibleGrapher))"
  using ExportStatesAndLocks_discloses [OF visibleGrapher_reachable, of "''n1''"]
    ExportStatesAndLocks_discloses [OF visibleGrapher_reachable, of "''n2''"]
  by (simp add: visible_fields) (simp add: recordedState_def sampleState_def)

text \<open>The entries of \<open>g\<close>, which came from \<open>g0\<close> by importing locks of the map \<open>c\<close>.\<close>

definition imported :: "(string, SnapshotStateLock) gomap \<Rightarrow> grapher \<Rightarrow> grapher \<Rightarrow> bool" where
  "imported c g0 g \<longleftrightarrow> nextLock g0 \<le> nextLock g
     \<and> (\<forall>p < nextLock g0. lockHeap g p = lockHeap g0 p)
     \<and> (\<forall>ty sid p. go_get (lockMap ty g0) sid = Some p \<longrightarrow> go_get (lockMap ty g) sid = Some p)
     \<and> (\<forall>ty sid p. go_get (lockMap ty g) sid = Some p \<longrightarrow> go_get (lockMap ty g0) sid = Some p
          \<or> p < nextLock g \<and> (sid, lockHeap g p) \<in> set c \<and> lk_Type (lockHeap g p) = ty)"

lemma imported_refl: "imported c g0 g0"
  by (simp add: imported_def)

lemma imported_step:
  assumes "imported c g0 g" and "(sid, lock) \<in> set c" and "lk_StateId lock = sid"
  shows "imported c g0 (importLock (sid, lock) g)"
proof (cases "go_get (lockMap (lk_Type lock) g) sid")
  case None
  then have eq: "importLock (sid, lock) g = allocLock lock g" by (simp add: importLock_def)
  show ?thesis
    unfolding eq imported_def
  proof (intro conjI allI impI)
    show "nextLock g0 \<le> nextLock (allocLock lock g)" using assms(1) by (simp add: imported_def)
    show "lockHeap (allocLock lock g) p = lockHeap g0 p" if "p < nextLock g0" for p
      using assms(1) that by (simp add: imported_def)
    show "go_get (lockMap ty (allocLock lock g)) i = Some p" if "go_get (lockMap ty g0) i = Some p" for ty i p
      using assms(1,3) that None by (force simp: imported_def map_simps)
    show "go_get (lockMap ty g0) i = Some p \<or> p < nextLock (allocLock lock g)
        \<and> (i, lockHeap (allocLock lock g) p) \<in> set c \<and> lk_Type (lockHeap (allocLock lock g) p) = ty"
      if "go_get (lockMap ty (allocLock lock g)) i = Some p" for ty i p
      using assms that by (fastforce simp: imported_def map_simps split: if_splits)
  qed
next
  case (Some p)
  then show ?thesis using assms(1) by (simp add: importLock_def)
qed

lemma imported_fold:
  assumes "confirmed_ok c"
  shows "imported c g0 (fold importLock c g0)"
  by (rule fold_invariant_set [where I = "imported c g0"])
     (use assms in \<open>auto simp: confirmed_ok_def intro!: imported_refl imported_step\<close>)

lemma imported_ImportStatesAndLocks:
  "imported (confirmedLocks (sn_Locks sn) []) g (ImportStatesAndLocks sn g)"
proof -
  have "confirmed_ok (confirmedLocks (sn_Locks sn) [])"
    by (rule confirmed_ok_confirmedLocks) (simp add: confirmed_ok_def)
  from imported_fold [OF this, of "g\<lparr>stateVisibilityTracker := v\<rparr>" for v] show ?thesis
    by (simp add: ImportStatesAndLocks_def Let_def imported_def)
qed

definition confirmedLock :: "SnapshotStateLock \<Rightarrow> bool" where
  "confirmedLock l \<longleftrightarrow> lk_Transaction l = None \<and> lk_ConfirmedAtBlock l \<noteq> None"

lemma confirmedLocks_fold:
  "confirmedLocks ls m = fold (\<lambda>l. go_set (lk_StateId l) l) (filter confirmedLock ls) m"
  by (induction ls m rule: confirmedLocks.induct) (auto simp: confirmedLock_def)

lemma confirmedLocks_get:
  "go_get (confirmedLocks ls []) sid
     = (let ys = filter (\<lambda>l. confirmedLock l \<and> lk_StateId l = sid) ls
        in if ys = [] then None else Some (last ys))"
  unfolding confirmedLocks_fold fold_go_set_get [where f = lk_StateId]
  by (simp add: conj_commute Let_def split: list.splits)

lemma confirmedLocks_sound:
  assumes "(sid, l) \<in> set (confirmedLocks ls [])"
  shows "l \<in> set ls \<and> confirmedLock l \<and> lk_StateId l = sid"
proof -
  have "confirmed_ok (confirmedLocks ls [])"
    by (rule confirmed_ok_confirmedLocks) (simp add: confirmed_ok_def)
  then have "go_get (confirmedLocks ls []) sid = Some l"
    using assms by (simp add: confirmed_ok_def go_get_in_set)
  then have "filter (\<lambda>l. confirmedLock l \<and> lk_StateId l = sid) ls \<noteq> []"
    and "l = last (filter (\<lambda>l. confirmedLock l \<and> lk_StateId l = sid) ls)"
    unfolding confirmedLocks_get Let_def by (auto split: if_splits)
  then have "l \<in> set (filter (\<lambda>l. confirmedLock l \<and> lk_StateId l = sid) ls)"
    using last_in_set by metis
  then show ?thesis by simp
qed

text \<open>
  An import adds to what the grapher knows and overwrites nothing: entries and lock objects that
  were there stay as they were, and every new entry is a lock of the snapshot, of that state and type,
  that has no owner and is confirmed at a block, so a lock another coordinator's transaction still
  holds is never taken over.
\<close>

theorem ImportStatesAndLocks_only_adds:
  fixes sn :: StateSnapshot
  assumes "grapher_reachable tol g"
  defines "g' \<equiv> ImportStatesAndLocks sn g"
  shows "(\<forall>ty sid p. go_get (lockMap ty g) sid = Some p \<longrightarrow>
       go_get (lockMap ty g') sid = Some p \<and> lockHeap g' p = lockHeap g p)
    \<and> (\<forall>ty sid p. go_get (lockMap ty g') sid = Some p \<longrightarrow> go_get (lockMap ty g) sid = None \<longrightarrow>
       lockHeap g' p \<in> set (sn_Locks sn) \<and> lk_StateId (lockHeap g' p) = sid \<and> lk_Type (lockHeap g' p) = ty
       \<and> lk_Transaction (lockHeap g' p) = None \<and> lk_ConfirmedAtBlock (lockHeap g' p) \<noteq> None)"
proof -
  have imp: "imported (confirmedLocks (sn_Locks sn) []) g g'"
    unfolding g'_def by (rule imported_ImportStatesAndLocks)
  have "p < nextLock g" if "go_get (lockMap ty g) sid = Some p" for ty sid p
    using locks_wf_entry [OF inv_parts(2) [OF grapher_reachable_inv [OF assms(1)]] that]
    by (simp add: entry_ok_def)
  then have old: "go_get (lockMap ty g') sid = Some p \<and> lockHeap g' p = lockHeap g p"
    if "go_get (lockMap ty g) sid = Some p" for ty sid p
    using imp that unfolding imported_def by blast
  have new: "lockHeap g' p \<in> set (sn_Locks sn) \<and> lk_StateId (lockHeap g' p) = sid \<and> lk_Type (lockHeap g' p) = ty
       \<and> lk_Transaction (lockHeap g' p) = None \<and> lk_ConfirmedAtBlock (lockHeap g' p) \<noteq> None"
    if "go_get (lockMap ty g') sid = Some p" and "go_get (lockMap ty g) sid = None" for ty sid p
  proof -
    have "(sid, lockHeap g' p) \<in> set (confirmedLocks (sn_Locks sn) []) \<and> lk_Type (lockHeap g' p) = ty"
      using imp that unfolding imported_def by (metis option.distinct(1))
    then show ?thesis using confirmedLocks_sound [of sid "lockHeap g' p" "sn_Locks sn"]
      by (simp add: confirmedLock_def)
  qed
  show ?thesis using old new by blast
qed

theorem ImportStatesAndLocks_only_adds_witness:
  "go_get (lockMap SPEND (ImportStatesAndLocks \<lparr>sn_States = [], sn_Locks =
       [\<lparr>lk_StateId = ''0x01'', lk_Transaction = None, lk_Type = SPEND, lk_ConfirmedAtBlock = Some 3\<rparr>]\<rparr>
     sampleGrapher)) ''0x01'' = Some 1"
  using ImportStatesAndLocks_only_adds [OF sampleGrapher_reachable, where sn = "\<lparr>sn_States = [], sn_Locks =
       [\<lparr>lk_StateId = ''0x01'', lk_Transaction = None, lk_Type = SPEND, lk_ConfirmedAtBlock = Some 3\<rparr>]\<rparr>"]
    sample_locks(2)
  by (auto dest!: spec [of _ SPEND] simp del: lockMap_cases One_nat_def)

text \<open>
  The map an import builds has one confirmed lock per state. When a state was both read and spent
  by confirmed transactions, the read lock, listed last by the export, takes the place of the spend
  lock: a coordinator that takes over from the export knows no spend lock for the state and its
  assemblers are not told that it is spent.
\<close>

theorem import_drops_confirmed_spend_lock:
  assumes "grapher_reachable tol g"
    and "go_get (lockMap SPEND g) sid = Some p" and "lk_Transaction (lockHeap g p) = None"
    and "go_get (lockMap READ g) sid = Some q" and "lk_Transaction (lockHeap g q) = None"
  shows "go_get (lockMap SPEND (ImportStatesAndLocks (ExportStatesAndLocks node g)
     (NewGrapher dt vis tol'))) sid = None"
proof (rule ccontr)
  let ?ls = "sn_Locks (ExportStatesAndLocks node g)"
  let ?f = "filter (\<lambda>l. confirmedLock l \<and> lk_StateId l = sid)"
  let ?reads = "map (\<lambda>(i, p). lockHeap g p) (lockMap READ g)"
  assume "\<not> ?thesis"
  then obtain r where "go_get (lockMap SPEND (ImportStatesAndLocks (ExportStatesAndLocks node g)
      (NewGrapher dt vis tol'))) sid = Some r" by auto
  moreover have "go_get (lockMap SPEND (NewGrapher dt vis tol')) sid = None" by (simp add: NewGrapher_def)
  ultimately obtain l where l: "(sid, l) \<in> set (confirmedLocks ?ls [])" "lk_Type l = SPEND"
    using imported_ImportStatesAndLocks [of "ExportStatesAndLocks node g" "NewGrapher dt vis tol'"]
    unfolding imported_def by (metis option.distinct(1))
  note wf = inv_parts(2) [OF grapher_reachable_inv [OF assms(1)]]
  have "lockHeap g q \<in> set (?f ?reads)"
    using assms(4,5) locks_wf_entry [OF wf assms(4)] go_get_in_set [OF locks_wf_distinct [OF wf, of READ]]
    by (force simp: confirmedLock_def entry_ok_def)
  then have ne: "?f ?reads \<noteq> []" by (metis empty_iff empty_set)
  have "?f ?ls = ?f (map (\<lambda>(i, p). lockHeap g p) (lockMap CREATE g @ lockMap SPEND g)) @ ?f ?reads"
    by (simp add: ExportStatesAndLocks_def)
  then have get: "go_get (confirmedLocks ?ls []) sid = Some (last (?f ?reads))"
    using ne unfolding confirmedLocks_get Let_def by (simp only: last_appendR append_is_Nil_conv if_False simp_thms)
  have "lk_Type (last (?f ?reads)) = READ"
    using last_in_set [OF ne] locks_wf_entry [OF wf, of READ]
      go_get_in_set [OF locks_wf_distinct [OF wf, of READ]]
    by (auto simp: entry_ok_def simp del: lockMap_cases)
  moreover have "go_get (confirmedLocks ?ls []) sid = Some l"
    using l(1) confirmed_ok_confirmedLocks [of "[]" ?ls] by (simp add: confirmed_ok_def go_get_in_set)
  ultimately show False using get l(2) by simp
qed

definition readAndSpentGrapher :: grapher where
  "readAndSpentGrapher = ForgetTransaction 2 77
     (LockMintsOnReadAndSpend [sampleState ''0x01''] [sampleState ''0x01''] 2
        (NewGrapher NewDependencyTracker NewStore 10))"

lemma readAndSpent_reachable: "grapher_reachable 10 readAndSpentGrapher"
  unfolding readAndSpentGrapher_def
  by (intro reach_step [OF _ step_Forget] reach_step [OF _ step_LockReadSpend] reach_new)

lemma readAndSpent_locks:
  "lockMap SPEND readAndSpentGrapher = [(''0x01'', 1)]" "lockMap READ readAndSpentGrapher = [(''0x01'', 0)]"
  "lk_Transaction (lockHeap readAndSpentGrapher 0) = None"
  "lk_Transaction (lockHeap readAndSpentGrapher 1) = None"
  by (simp_all add: readAndSpentGrapher_def ForgetTransaction_def Let_def forgetTxMints_def setGrapherDeps_def
      stampLock_def NewGrapher_def LockMintsOnReadAndSpend_def addConsumer_def takeLock_def allocLock_def
      updLockMap_def linkToMinter_def txLocks_def sampleState_def)

theorem import_drops_confirmed_spend_lock_witness:
  "go_get (lockMap SPEND readAndSpentGrapher) ''0x01'' = Some 1
   \<and> go_get (lockMap SPEND (ImportStatesAndLocks (ExportStatesAndLocks ''n1'' readAndSpentGrapher)
     (NewGrapher NewDependencyTracker NewStore 10))) ''0x01'' = None"
  using import_drops_confirmed_spend_lock [OF readAndSpent_reachable, of "''0x01''" 1 0 "''n1''"
      NewDependencyTracker NewStore 10] readAndSpent_locks
  by (simp del: lockMap_cases One_nat_def)

end
