(* ===== verification/StateView.thy ===== *)
theory StateView
  imports Grapher
begin

text \<open>
  The state view provider of \<^verbatim>\<open>coordinator/stateview\<close>: a view is captured from the grapher when an
  assemble request is sent, kept under the assemble request's identifier, and every read of the
  assembling originator is answered from it until the view is closed. Identifiers are of any type
  \<open>'k\<close>; matching, sorting and limiting of states is the state manager's, and parsing of the schema and
  query the standard library's, so both are arguments of the handler.
\<close>

record capturedView =
  cv_node :: string
  cv_candidates :: "SnapshotState list"
  cv_spentStateIDs :: "HexBytes list"

type_synonym 'k views = "'k \<rightharpoonup> capturedView"

datatype 'k stateViewError =
    MsgSequencerStateViewUnknownAssemble 'k
  | MsgSequencerStateViewWrongNode 'k string
  | MsgSequencerStateViewInvalid string
  | stateManagerError string

datatype 'k stateViewReply =
    QueryAvailableStatesResponse string "EndorsableState list"
  | GetSpentStateIDsResponse string "HexBytes list"
  | StateViewError string "'k stateViewError"

definition NewProvider :: "'k views" where
  "NewProvider = Map.empty"

definition CaptureSnapshot :: "'k \<Rightarrow> string \<Rightarrow> grapher \<Rightarrow> 'k views \<Rightarrow> 'k views" where
  "CaptureSnapshot assembleRequestID node g vs =
     (case vs assembleRequestID of
        Some _ \<Rightarrow> vs
      | None \<Rightarrow> (case SnapshotView node g of (candidates, spentStateIDs) \<Rightarrow>
          vs(assembleRequestID \<mapsto> \<lparr>cv_node = node, cv_candidates = candidates,
                                  cv_spentStateIDs = spentStateIDs\<rparr>)))"

definition DeleteSnapshot :: "'k \<Rightarrow> 'k views \<Rightarrow> 'k views" where
  "DeleteSnapshot assembleRequestID vs = vs(assembleRequestID := None)"

definition lookupView :: "string \<Rightarrow> 'k \<Rightarrow> 'k views \<Rightarrow> 'k stateViewError + capturedView" where
  "lookupView fromNode assembleRequestID vs =
     (case vs assembleRequestID of
        None \<Rightarrow> Inl (MsgSequencerStateViewUnknownAssemble assembleRequestID)
      | Some view \<Rightarrow>
          if cv_node view \<noteq> fromNode then Inl (MsgSequencerStateViewWrongNode assembleRequestID fromNode)
          else Inr view)"

text \<open>The reply sent back to \<open>fromNode\<close>; it is sent once and not retried.\<close>

definition HandleQueryAvailableStates ::
  "(string \<Rightarrow> 's option) \<Rightarrow> (string \<Rightarrow> 'q option) \<Rightarrow>
   ('s \<Rightarrow> 'q \<Rightarrow> SnapshotState list \<Rightarrow> string + EndorsableState list) \<Rightarrow>
   string \<Rightarrow> string \<Rightarrow> 'k \<Rightarrow> string \<Rightarrow> string \<Rightarrow> 'k views \<Rightarrow> 'k stateViewReply" where
  "HandleQueryAvailableStates parseBytes32 unmarshal findMatching fromNode requestId assembleRequestId schemaId queryJson vs =
     (case lookupView fromNode assembleRequestId vs of
        Inl e \<Rightarrow> StateViewError requestId e
      | Inr view \<Rightarrow>
          (case parseBytes32 schemaId of
             None \<Rightarrow> StateViewError requestId (MsgSequencerStateViewInvalid requestId)
           | Some schemaID \<Rightarrow>
               (case unmarshal queryJson of
                  None \<Rightarrow> StateViewError requestId (MsgSequencerStateViewInvalid requestId)
                | Some jq \<Rightarrow>
                    (case findMatching schemaID jq (cv_candidates view) of
                       Inl e \<Rightarrow> StateViewError requestId (stateManagerError e)
                     | Inr states \<Rightarrow> QueryAvailableStatesResponse requestId states))))"

definition HandleGetSpentStateIDs :: "string \<Rightarrow> string \<Rightarrow> 'k \<Rightarrow> 'k views \<Rightarrow> 'k stateViewReply" where
  "HandleGetSpentStateIDs fromNode requestId assembleRequestId vs =
     (case lookupView fromNode assembleRequestId vs of
        Inl e \<Rightarrow> StateViewError requestId e
      | Inr view \<Rightarrow> GetSpentStateIDsResponse requestId (cv_spentStateIDs view))"

section \<open>Lemmas\<close>

lemma lookupView_Inr: "lookupView n k vs = Inr v \<longleftrightarrow> vs k = Some v \<and> cv_node v = n"
  by (auto simp: lookupView_def split: option.splits)

text \<open>The life of the views of one provider: captures and deletions, with the grapher at hand.\<close>

datatype 'k viewOp = Capture 'k string grapher | Close 'k

fun runViewOp :: "'k viewOp \<Rightarrow> 'k views \<Rightarrow> 'k views" where
  "runViewOp (Capture k n g) vs = CaptureSnapshot k n g vs"
| "runViewOp (Close k) vs = DeleteSnapshot k vs"

lemma runViewOp_keeps:
  "vs k = Some v \<Longrightarrow> op \<noteq> Close k \<Longrightarrow> runViewOp op vs k = Some v"
  by (cases op) (auto simp: CaptureSnapshot_def DeleteSnapshot_def split: option.splits prod.splits)

lemma fold_runViewOp_keeps:
  "vs k = Some v \<Longrightarrow> Close k \<notin> set ops \<Longrightarrow> fold runViewOp ops vs k = Some v"
proof (induction ops arbitrary: vs)
  case (Cons op ops)
  then have "runViewOp op vs k = Some v" by (intro runViewOp_keeps) auto
  with Cons show ?case by simp
qed simp

section \<open>Properties\<close>

text \<open>
  From the capture of a view until it is closed, whatever other views are opened and closed and
  however the grapher moves on, the node it was captured for is told exactly the spent identifiers of
  the moment of capture, and every other node is refused.
\<close>

theorem captured_view_is_stable:
  fixes g :: grapher and node :: string
  assumes "vs k = None" and "Close k \<notin> set ops"
  defines "vs' \<equiv> fold runViewOp ops (CaptureSnapshot k node g vs)"
  shows "HandleGetSpentStateIDs node r k vs' = GetSpentStateIDsResponse r (snd (SnapshotView node g))
    \<and> (\<forall>other. other \<noteq> node \<longrightarrow>
         HandleGetSpentStateIDs other r k vs' = StateViewError r (MsgSequencerStateViewWrongNode k other))"
proof -
  let ?v = "\<lparr>cv_node = node, cv_candidates = fst (SnapshotView node g),
    cv_spentStateIDs = snd (SnapshotView node g)\<rparr>"
  have "CaptureSnapshot k node g vs k = Some ?v"
    using assms(1) by (simp add: CaptureSnapshot_def split_beta)
  then have "vs' k = Some ?v" unfolding vs'_def by (rule fold_runViewOp_keeps [OF _ assms(2)])
  then show ?thesis by (simp add: HandleGetSpentStateIDs_def lookupView_def)
qed

theorem captured_view_is_stable_witness:
  "HandleGetSpentStateIDs ''n1'' ''r1'' (7::nat)
     (fold runViewOp [Close 8] (CaptureSnapshot 7 ''n1'' (NewGrapher NewDependencyTracker NewStore 3) NewProvider))
   = GetSpentStateIDsResponse ''r1'' (snd (SnapshotView ''n1'' (NewGrapher NewDependencyTracker NewStore 3)))"
proof -
  have "NewProvider (7::nat) = None" and "Close (7::nat) \<notin> set [Close 8]"
    by (simp_all add: NewProvider_def)
  from captured_view_is_stable [where vs = NewProvider and k = "7::nat" and ops = "[Close 8]", OF this, where node = "''n1''" and r = "''r1''"
      and g = "NewGrapher NewDependencyTracker NewStore 3"]
  show ?thesis by blast
qed

end
