(* ===== verification/Selection.thy ===== *)
theory Selection
  imports PldTypes "HOL-Library.List_Lexorder" "HOL-Library.Char_ord"
begin

text \<open>
  Which node coordinates a contract (\<^verbatim>\<open>sequencer/common/selection.go\<close>): the validated selection
  configuration of a contract, the sorted pool of endorser nodes, and the priority list every node
  computes for itself from the pool and the block height rounded down to its epoch. The hash is the
  32 bit FNV-1a of \<^verbatim>\<open>hash/fnv\<close> over the decimal digits of the height, kept at its width.
\<close>

unbundle bit_operations_syntax

datatype CoordinatorSelection = COORDINATOR_STATIC | COORDINATOR_ENDORSER | COORDINATOR_SENDER

record ContractConfig =
  cc_CoordinatorSelection :: CoordinatorSelection
  cc_StaticCoordinator :: string
  cc_CoordinatorEndorserCandidates :: "string list"

record CoordinatorSelectionConfig =
  csc_Mode :: CoordinatorSelection
  csc_StaticCoordinator :: string
  csc_Endorsers :: "string list"

datatype selectionError =
    MsgSequencerStaticCoordinatorNotSet string
  | MsgSequencerInvalidStaticCoordinator string string
  | MsgSequencerInvalidEndorserCandidate string

definition DedupeSortedCoordinatorEndorserNodes :: "string list \<Rightarrow> string list" where
  "DedupeSortedCoordinatorEndorserNodes nodes = (if nodes = [] then nodes else remdups_adj (sort nodes))"

text \<open>The loop over the candidates stops at the first locator that does not validate.\<close>

fun candidateNodes :: "string list \<Rightarrow> selectionError + string list" where
  "candidateNodes [] = Inr []"
| "candidateNodes (locator # ls) =
     (case Validate locator [] False of
        Inl _ \<Rightarrow> Inl (MsgSequencerInvalidEndorserCandidate locator)
      | Inr (_, node) \<Rightarrow> (case candidateNodes ls of Inl e \<Rightarrow> Inl e | Inr nodes \<Rightarrow> Inr (node # nodes)))"

definition ResolveCoordinatorSelectionConfig ::
  "string \<Rightarrow> string \<Rightarrow> ContractConfig \<Rightarrow> selectionError + CoordinatorSelectionConfig" where
  "ResolveCoordinatorSelectionConfig nodeName contractAddress cfg =
     (let base = \<lparr>csc_Mode = cc_CoordinatorSelection cfg, csc_StaticCoordinator = [], csc_Endorsers = []\<rparr> in
      case cc_CoordinatorSelection cfg of
        COORDINATOR_STATIC \<Rightarrow>
          if cc_StaticCoordinator cfg = [] then Inl (MsgSequencerStaticCoordinatorNotSet contractAddress)
          else (case Node (cc_StaticCoordinator cfg) False of
                  Inl _ \<Rightarrow> Inl (MsgSequencerInvalidStaticCoordinator contractAddress (cc_StaticCoordinator cfg))
                | Inr node \<Rightarrow> Inr (base\<lparr>csc_StaticCoordinator := node\<rparr>))
      | COORDINATOR_SENDER \<Rightarrow> Inr base
      | COORDINATOR_ENDORSER \<Rightarrow>
          if cc_CoordinatorEndorserCandidates cfg = [] then Inr (base\<lparr>csc_Endorsers := [nodeName]\<rparr>)
          else (case candidateNodes (cc_CoordinatorEndorserCandidates cfg) of
                  Inl e \<Rightarrow> Inl e
                | Inr nodes \<Rightarrow> Inr (base\<lparr>csc_Endorsers :=
                     DedupeSortedCoordinatorEndorserNodes (nodes @ [nodeName])\<rparr>)))"

text \<open>\<^verbatim>\<open>strconv.FormatUint(_, 10)\<close> and \<^verbatim>\<open>fnv.New32a\<close>.\<close>

fun formatDecimal :: "nat \<Rightarrow> string" where
  "formatDecimal n =
     (if n < 10 then [char_of (n + 48)] else formatDecimal (n div 10) @ [char_of (n mod 10 + 48)])"

declare formatDecimal.simps [simp del]

definition fnv32a :: "string \<Rightarrow> 32 word" where
  "fnv32a bytes = fold (\<lambda>c h. (h XOR of_nat (of_char c)) * 16777619) bytes 2166136261"

definition ComputeCoordinatorPriorityList :: "string list \<Rightarrow> uint64 \<Rightarrow> string list" where
  "ComputeCoordinatorPriorityList nodePool effectiveBlockHeight =
     (let n = length nodePool in
      if n = 0 then []
      else if n = 1 then [nodePool ! 0]
      else let p = unat (fnv32a (formatDecimal (unat effectiveBlockHeight))) mod n
           in map (\<lambda>i. nodePool ! ((p + i) mod n)) [0..<n])"

fun PriorityIndexOf :: "string list \<Rightarrow> string \<Rightarrow> nat" where
  "PriorityIndexOf [] node = 0"
| "PriorityIndexOf (n # ns) node = (if n = node then 0 else Suc (PriorityIndexOf ns node))"

definition IsHigherPriority :: "string list \<Rightarrow> string \<Rightarrow> string \<Rightarrow> bool" where
  "IsHigherPriority list node1 node2 \<longleftrightarrow> PriorityIndexOf list node1 < PriorityIndexOf list node2"

definition ComputeEffectiveBlockHeight :: "uint64 \<Rightarrow> uint64 \<Rightarrow> uint64" where
  "ComputeEffectiveBlockHeight height blockRange = height - (height mod blockRange)"

section \<open>Lemmas\<close>

lemma map_rotate: "p < length xs \<Longrightarrow> map (\<lambda>i. xs ! ((p + i) mod length xs)) [0..<length xs] = rotate p xs"
  by (rule nth_equalityI) (simp_all add: nth_rotate add.commute)

lemma ComputeCoordinatorPriorityList_rotate:
  "\<exists>p. ComputeCoordinatorPriorityList pool h = rotate p pool"
proof (cases "length pool \<le> 1")
  case True
  then have "ComputeCoordinatorPriorityList pool h = rotate 0 pool"
    by (cases pool) (auto simp: ComputeCoordinatorPriorityList_def)
  then show ?thesis ..
next
  case False
  let ?p = "unat (fnv32a (formatDecimal (unat h))) mod length pool"
  have "?p < length pool" using False by (intro mod_less_divisor) auto
  then have "ComputeCoordinatorPriorityList pool h = rotate ?p pool"
    using False map_rotate [of ?p pool] by (auto simp: ComputeCoordinatorPriorityList_def Let_def)
  then show ?thesis ..
qed

lemma PriorityIndexOf_member:
  "node \<in> set list \<Longrightarrow> PriorityIndexOf list node < length list \<and> list ! PriorityIndexOf list node = node"
  by (induction list) auto

lemma PriorityIndexOf_absent: "node \<notin> set list \<longleftrightarrow> PriorityIndexOf list node = length list"
  by (induction list) auto

lemma PriorityIndexOf_inj:
  "a \<in> set list \<Longrightarrow> PriorityIndexOf list a = PriorityIndexOf list b \<Longrightarrow> a = b"
  by (metis PriorityIndexOf_absent PriorityIndexOf_member less_irrefl)

lemma sorted_remdups_adj_distinct: "sorted xs \<Longrightarrow> distinct (remdups_adj (xs :: 'a :: linorder list))"
proof (induction xs rule: remdups_adj.induct)
  case (3 x y xs)
  then have "x \<noteq> y \<Longrightarrow> x \<notin> set (y # xs)" by fastforce
  with 3 show ?case by auto
qed auto

lemma set_Dedupe [simp]: "set (DedupeSortedCoordinatorEndorserNodes nodes) = set nodes"
  by (simp add: DedupeSortedCoordinatorEndorserNodes_def)

lemma distinct_Dedupe: "distinct (DedupeSortedCoordinatorEndorserNodes nodes)"
  by (simp add: DedupeSortedCoordinatorEndorserNodes_def sorted_remdups_adj_distinct)

text \<open>The pool depends on the set of nodes only, not on the order in which they were discovered.\<close>

lemma Dedupe_cong:
  assumes "set xs = set ys"
  shows "DedupeSortedCoordinatorEndorserNodes xs = DedupeSortedCoordinatorEndorserNodes ys"
proof -
  have "sorted (remdups_adj (sort zs))" "distinct (remdups_adj (sort zs))" for zs :: "string list"
    by (simp_all add: sorted_remdups_adj sorted_remdups_adj_distinct)
  with assms show ?thesis
    by (auto simp: DedupeSortedCoordinatorEndorserNodes_def intro!: sorted_distinct_set_unique)
qed

section \<open>Properties\<close>



text \<open>
  The effective height is the start of the epoch the height lies in: a multiple of the range, at
  most the height, less than one range below it, and the same for all heights of the epoch. Nothing
  wraps around.
\<close>

theorem ComputeEffectiveBlockHeight_epoch:
  fixes height :: uint64
  assumes "blockRange \<noteq> 0"
  defines "e \<equiv> unat (ComputeEffectiveBlockHeight height blockRange)"
  shows "unat blockRange dvd e \<and> e \<le> unat height \<and> unat height < e + unat blockRange
    \<and> (\<forall>h'. e \<le> unat h' \<and> unat h' < e + unat blockRange \<longrightarrow>
         ComputeEffectiveBlockHeight h' blockRange = ComputeEffectiveBlockHeight height blockRange)"
proof -
  have val: "unat (ComputeEffectiveBlockHeight h blockRange) = unat blockRange * (unat h div unat blockRange)" for h
  proof -
    have "unat (h mod blockRange) \<le> unat h" by (simp add: unat_mod)
    then have "h mod blockRange \<le> h" by (simp add: word_le_nat_alt)
    then have "unat (h - h mod blockRange) = unat h - unat h mod unat blockRange"
      by (simp add: unat_sub unat_mod)
    then show ?thesis by (simp add: ComputeEffectiveBlockHeight_def minus_mod_eq_mult_div)
  qed
  have pos: "unat blockRange > 0" using assms(1) by (simp add: unat_gt_0)
  have "ComputeEffectiveBlockHeight h' blockRange = ComputeEffectiveBlockHeight height blockRange"
    if "e \<le> unat h'" and "unat h' < e + unat blockRange" for h'
  proof -
    obtain k where k: "e = unat blockRange * k" "k = unat height div unat blockRange"
      by (simp add: e_def val)
    have "unat h' div unat blockRange = k"
      using that pos k(1) by (simp add: div_nat_eqI mult.commute)
    then have "unat (ComputeEffectiveBlockHeight h' blockRange)
        = unat (ComputeEffectiveBlockHeight height blockRange)"
      unfolding val k(2) by simp
    then show ?thesis by (rule word_unat_eq_iff [THEN iffD2])
  qed
  moreover have "unat height < e + unat blockRange"
    using dividend_less_times_div [OF pos, of "unat height"] by (simp add: e_def val)
  moreover have "unat blockRange dvd e" "e \<le> unat height" by (simp_all add: e_def val)
  ultimately show ?thesis by blast
qed

theorem ComputeEffectiveBlockHeight_epoch_witness:
  "ComputeEffectiveBlockHeight 137 50 = 100 \<and> ComputeEffectiveBlockHeight 149 50 = 100"
  using ComputeEffectiveBlockHeight_epoch [of 50] by (simp add: ComputeEffectiveBlockHeight_def)

end
