(* ===== verification/StateMachine.thy ===== *)
theory StateMachine
  imports Prelude
begin

text \<open>
  The generic state machine of \<^verbatim>\<open>sequencer/statemachine\<close>: guarded action rules, ordered
  transitions, handler sets in the modes MatchFirst and MatchAll, entry and exit actions, the
  combinators for guards and validators, and the event loop with its two queues.

  Go keeps the state of a machine inside the entity it drives, and an action may call back into
  other machines, so the world \<open>'w\<close> that actions transform holds all of them. A \<open>StateMachine\<close>
  therefore carries accessors for its own current state and its entity's lock inside that world.
\<close>

section \<open>Definitions of a machine\<close>

type_synonym ('ev, 'w, 'err) Action = "'ev \<Rightarrow> 'w \<Rightarrow> ('err, 'w) outcome"
type_synonym 'w Guard = "'w \<Rightarrow> bool"
type_synonym ('ev, 'w, 'err) Validator = "'ev \<Rightarrow> 'w \<Rightarrow> 'err + bool"

datatype MatchMode = MatchFirst | MatchAll

record ('ev, 'w, 'err) ActionRule =
  act :: "('ev, 'w, 'err) Action"
  act_If :: "'w Guard option"

record ('s, 'ev, 'w, 'err) Transition =
  tr_To :: 's
  tr_If :: "'w Guard option"
  tr_Actions :: "('ev, 'w, 'err) ActionRule list"

record ('s, 'ev, 'w, 'err) EventHandler =
  eh_Validator :: "('ev, 'w, 'err) Validator option"
  eh_Actions :: "('ev, 'w, 'err) ActionRule list"
  eh_Transitions :: "('s, 'ev, 'w, 'err) Transition list"
  eh_Stop :: bool

record ('s, 'ev, 'w, 'err) EventHandlers =
  ehs_Match :: MatchMode
  ehs_Handlers :: "('s, 'ev, 'w, 'err) EventHandler list"

record ('s, 'et, 'ev, 'w, 'err) StateDefinition =
  OnTransitionTo :: "('ev, 'w, 'err) ActionRule list"
  OnTransitionFrom :: "('ev, 'w, 'err) ActionRule list"
  Events :: "'et \<rightharpoonup> ('s, 'ev, 'w, 'err) EventHandlers"

type_synonym ('s, 'et, 'ev, 'w, 'err) StateDefinitions =
  "'s \<rightharpoonup> ('s, 'et, 'ev, 'w, 'err) StateDefinition"

text \<open>
  \<open>sm_mark\<close> stands for the two bookkeeping writes of a transition (latest event and time of the
  last state change); \<open>sm_locked\<close> and \<open>sm_setLock\<close> are the entity's mutex.
\<close>

record ('s, 'et, 'ev, 'w, 'err) StateMachine =
  definitions :: "('s, 'et, 'ev, 'w, 'err) StateDefinitions"
  GetCurrentState :: "'w \<Rightarrow> 's"
  SetCurrentState :: "'s \<Rightarrow> 'w \<Rightarrow> 'w"
  sm_mark :: "'ev \<Rightarrow> 'w \<Rightarrow> 'w"
  transitionCallback :: "('s \<Rightarrow> 's \<Rightarrow> 'ev \<Rightarrow> 'w \<Rightarrow> 'w) option"
  eventType :: "'ev \<Rightarrow> 'et"
  sm_locked :: "'w \<Rightarrow> bool"
  sm_setLock :: "bool \<Rightarrow> 'w \<Rightarrow> 'w"

section \<open>Guards and validators\<close>

definition GuardNot :: "'w Guard \<Rightarrow> 'w Guard" where
  "GuardNot g = (\<lambda>w. \<not> g w)"

fun GuardAnd :: "'w Guard list \<Rightarrow> 'w Guard" where
  "GuardAnd [] w = True"
| "GuardAnd (g # gs) w = (if \<not> g w then False else GuardAnd gs w)"

fun GuardOr :: "'w Guard list \<Rightarrow> 'w Guard" where
  "GuardOr [] w = False"
| "GuardOr (g # gs) w = (if g w then True else GuardOr gs w)"

fun ValidatorAnd :: "('ev, 'w, 'err) Validator list \<Rightarrow> ('ev, 'w, 'err) Validator" where
  "ValidatorAnd [] ev w = Inr True"
| "ValidatorAnd (v # vs) ev w =
     (case v ev w of
        Inl e \<Rightarrow> Inl e
      | Inr valid \<Rightarrow> if \<not> valid then Inr False else ValidatorAnd vs ev w)"

fun ValidatorOr :: "('ev, 'w, 'err) Validator list \<Rightarrow> ('ev, 'w, 'err) Validator" where
  "ValidatorOr [] ev w = Inr False"
| "ValidatorOr (v # vs) ev w =
     (case v ev w of
        Inl e \<Rightarrow> Inl e
      | Inr valid \<Rightarrow> if valid then Inr True else ValidatorOr vs ev w)"

definition ValidatorNot :: "('ev, 'w, 'err) Validator \<Rightarrow> ('ev, 'w, 'err) Validator" where
  "ValidatorNot v = (\<lambda>ev w. case v ev w of Inl e \<Rightarrow> Inl e | Inr valid \<Rightarrow> Inr (\<not> valid))"

section \<open>Processing an event\<close>

definition guard_passes :: "'w Guard option \<Rightarrow> 'w \<Rightarrow> bool" where
  "guard_passes g w = (case g of None \<Rightarrow> True | Some p \<Rightarrow> p w)"

fun executeActionRules ::
  "'ev \<Rightarrow> ('ev, 'w, 'err) ActionRule list \<Rightarrow> 'w \<Rightarrow> ('err, 'w) outcome" where
  "executeActionRules ev [] w = Ok w"
| "executeActionRules ev (r # rs) w =
     (if guard_passes (act_If r) w
      then and_then (act r ev w) (executeActionRules ev rs)
      else executeActionRules ev rs w)"

definition matchesHandler ::
  "'ev \<Rightarrow> ('s, 'ev, 'w, 'err) EventHandler \<Rightarrow> 'w \<Rightarrow> 'err + bool" where
  "matchesHandler ev h w =
     (case eh_Validator h of None \<Rightarrow> Inr True | Some v \<Rightarrow> v ev w)"

definition entryActions ::
  "('s, 'et, 'ev, 'w, 'err) StateMachine \<Rightarrow> 's \<Rightarrow> ('ev, 'w, 'err) ActionRule list" where
  "entryActions sm s =
     (case definitions sm s of None \<Rightarrow> [] | Some d \<Rightarrow> OnTransitionTo d)"

definition exitActions ::
  "('s, 'et, 'ev, 'w, 'err) StateMachine \<Rightarrow> 's \<Rightarrow> ('ev, 'w, 'err) ActionRule list" where
  "exitActions sm s =
     (case definitions sm s of None \<Rightarrow> [] | Some d \<Rightarrow> OnTransitionFrom d)"

definition callback ::
  "('s, 'et, 'ev, 'w, 'err) StateMachine \<Rightarrow> 's \<Rightarrow> 's \<Rightarrow> 'ev \<Rightarrow> 'w \<Rightarrow> 'w" where
  "callback sm from to ev w =
     (case transitionCallback sm of None \<Rightarrow> w | Some cb \<Rightarrow> cb from to ev w)"

text \<open>
  Taking one transition: the state is set first, then the transition's own actions, the exit
  actions of the state left, the callback, and the entry actions of the state the machine is
  then in. An error stops the sequence and leaves the new state in place.
\<close>

definition takeTransition ::
  "('s, 'et, 'ev, 'w, 'err) StateMachine \<Rightarrow> 'ev \<Rightarrow> ('s, 'ev, 'w, 'err) Transition
     \<Rightarrow> 'w \<Rightarrow> ('err, 'w) outcome" where
  "takeTransition sm ev rule w =
     (let previousState = GetCurrentState sm w;
          w1 = sm_mark sm ev (SetCurrentState sm (tr_To rule) w)
      in and_then (executeActionRules ev (tr_Actions rule) w1)
        (\<lambda>w2. and_then (executeActionRules ev (exitActions sm previousState) w2)
          (\<lambda>w3. let newState = GetCurrentState sm w3 in
             executeActionRules ev (entryActions sm newState)
               (callback sm previousState newState ev w3))))"

text \<open>
  The first transition whose guard passes is taken. The boolean of the Go result, whether a
  transition was taken, is the first component.
\<close>

fun evaluateTransitions ::
  "('s, 'et, 'ev, 'w, 'err) StateMachine \<Rightarrow> 'ev \<Rightarrow> ('s, 'ev, 'w, 'err) Transition list
     \<Rightarrow> 'w \<Rightarrow> bool \<times> ('err, 'w) outcome" where
  "evaluateTransitions sm ev [] w = (False, Ok w)"
| "evaluateTransitions sm ev (rule # rules) w =
     (if \<not> guard_passes (tr_If rule) w
      then evaluateTransitions sm ev rules w
      else (True, takeTransition sm ev rule w))"

fun processMatchFirst ::
  "('s, 'et, 'ev, 'w, 'err) StateMachine \<Rightarrow> 'ev \<Rightarrow> ('s, 'ev, 'w, 'err) EventHandler list
     \<Rightarrow> 'w \<Rightarrow> ('err, 'w) outcome" where
  "processMatchFirst sm ev [] w = Ok w"
| "processMatchFirst sm ev (h # hs) w =
     (case matchesHandler ev h w of
        Inl e \<Rightarrow> Fail e w
      | Inr matched \<Rightarrow>
          if \<not> matched then processMatchFirst sm ev hs w
          else and_then (executeActionRules ev (eh_Actions h) w)
                 (\<lambda>w1. snd (evaluateTransitions sm ev (eh_Transitions h) w1)))"

fun processMatchAll ::
  "('s, 'et, 'ev, 'w, 'err) StateMachine \<Rightarrow> 'ev \<Rightarrow> ('s, 'ev, 'w, 'err) EventHandler list
     \<Rightarrow> 'w \<Rightarrow> ('err, 'w) outcome" where
  "processMatchAll sm ev [] w = Ok w"
| "processMatchAll sm ev (h # hs) w =
     (case matchesHandler ev h w of
        Inl e \<Rightarrow> Fail e w
      | Inr matched \<Rightarrow>
          if \<not> matched then processMatchAll sm ev hs w
          else and_then (executeActionRules ev (eh_Actions h) w)
                 (\<lambda>w1. case evaluateTransitions sm ev (eh_Transitions h) w1 of
                    (transitioned, r) \<Rightarrow>
                      if transitioned \<or> eh_Stop h then r
                      else and_then r (processMatchAll sm ev hs)))"

text \<open>\<open>ProcessEvent\<close> after the lock has been taken.\<close>

definition handleLocked ::
  "('s, 'et, 'ev, 'w, 'err) StateMachine \<Rightarrow> 'ev \<Rightarrow> 'w \<Rightarrow> ('err, 'w) outcome" where
  "handleLocked sm ev w =
     (case definitions sm (GetCurrentState sm w) of
        None \<Rightarrow> Ok w
      | Some d \<Rightarrow>
          (case Events d (eventType sm ev) of
             None \<Rightarrow> Ok w
           | Some hset \<Rightarrow>
               (case ehs_Match hset of
                  MatchAll \<Rightarrow> processMatchAll sm ev (ehs_Handlers hset) w
                | MatchFirst \<Rightarrow> processMatchFirst sm ev (ehs_Handlers hset) w)))"

definition ProcessEvent ::
  "('s, 'et, 'ev, 'w, 'err) StateMachine \<Rightarrow> 'ev \<Rightarrow> 'w \<Rightarrow> ('err, 'w) outcome" where
  "ProcessEvent sm ev w =
     (if sm_locked sm w then Stuck
      else outcome_map (sm_setLock sm False) (handleLocked sm ev (sm_setLock sm True w)))"

text \<open>
  The startup check: the positions of handlers of a MatchFirst set that have no validator and
  are not last, for which a warning is logged.
\<close>

definition unreachableWarnings :: "('s, 'ev, 'w, 'err) EventHandlers \<Rightarrow> nat list" where
  "unreachableWarnings hset =
     (if ehs_Match hset = MatchAll then []
      else filter (\<lambda>i. eh_Validator (ehs_Handlers hset ! i) = None
                       \<and> i < length (ehs_Handlers hset) - 1)
                  [0..<length (ehs_Handlers hset)])"

section \<open>Laws of the combinators\<close>

lemma GuardAnd_all [simp]: "GuardAnd gs w \<longleftrightarrow> (\<forall>g \<in> set gs. g w)"
  by (induction gs) auto

lemma GuardOr_any [simp]: "GuardOr gs w \<longleftrightarrow> (\<exists>g \<in> set gs. g w)"
  by (induction gs) auto

lemma GuardNot_iff [simp]: "GuardNot g w \<longleftrightarrow> \<not> g w"
  by (simp add: GuardNot_def)

text \<open>De Morgan, and double negation of validators: errors pass through unchanged.\<close>

lemma ValidatorNot_Not [simp]: "ValidatorNot (ValidatorNot v) = v"
  by (intro ext) (simp add: ValidatorNot_def split: sum.splits)

lemma ValidatorOr_And:
  "ValidatorOr vs ev w = ValidatorNot (ValidatorAnd (map ValidatorNot vs)) ev w"
  by (induction vs) (auto simp: ValidatorNot_def split: sum.splits)

lemma executeActionRules_append:
  "executeActionRules ev (rs @ rs') w
     = and_then (executeActionRules ev rs w) (executeActionRules ev rs')"
proof (induction rs arbitrary: w)
  case Nil
  then show ?case by simp
next
  case (Cons r rs)
  show ?case by (cases "act r ev w") (simp_all add: Cons.IH)
qed

lemma processMatchFirst_after_catch_all:
  assumes "i < j" and "i < length hs" and "eh_Validator (hs ! i) = None"
  shows "processMatchFirst sm ev (hs[j := h]) w = processMatchFirst sm ev hs w"
  using assms
proof (induction hs arbitrary: i j w)
  case Nil
  then show ?case by simp
next
  case (Cons a hs)
  then obtain j' where j': "j = Suc j'" by (cases j) auto
  show ?case
  proof (cases i)
    case 0
    with Cons.prems j' show ?thesis by (simp add: matchesHandler_def)
  next
    case (Suc i')
    with Cons j' show ?thesis by (auto split: sum.splits)
  qed
qed

section \<open>Rules that keep a predicate\<close>

definition rules_keep ::
  "('w \<Rightarrow> bool) \<Rightarrow> 'ev \<Rightarrow> ('ev, 'w, 'err) ActionRule list \<Rightarrow> bool" where
  "rules_keep P ev rs \<longleftrightarrow> (\<forall>r \<in> set rs. \<forall>w. P w \<longrightarrow> returns P (act r ev w))"

lemma executeActionRules_keep:
  "rules_keep P ev rs \<Longrightarrow> P w \<Longrightarrow> returns P (executeActionRules ev rs w)"
proof (induction rs arbitrary: w)
  case Nil
  then show ?case by simp
next
  case (Cons r rs)
  then have rs: "rules_keep P ev rs" and r: "returns P (act r ev w)"
    by (auto simp: rules_keep_def)
  show ?case
    using Cons.IH [OF rs] Cons.prems(2) r by (auto intro: returns_and_then)
qed

text \<open>Every action rule a machine may run, and the targets it declares for an event.\<close>

definition handler_rules ::
  "('s, 'ev, 'w, 'err) EventHandler \<Rightarrow> ('ev, 'w, 'err) ActionRule list" where
  "handler_rules h = eh_Actions h @ concat (map tr_Actions (eh_Transitions h))"

definition machine_rule ::
  "('s, 'et, 'ev, 'w, 'err) StateMachine \<Rightarrow> ('ev, 'w, 'err) ActionRule \<Rightarrow> bool" where
  "machine_rule sm r \<longleftrightarrow>
     (\<exists>s d. definitions sm s = Some d \<and>
        (r \<in> set (OnTransitionTo d) \<or> r \<in> set (OnTransitionFrom d) \<or>
         (\<exists>et hset h. Events d et = Some hset \<and> h \<in> set (ehs_Handlers hset)
            \<and> r \<in> set (handler_rules h))))"

definition handlers_for ::
  "('s, 'et, 'ev, 'w, 'err) StateMachine \<Rightarrow> 's \<Rightarrow> 'ev \<Rightarrow> ('s, 'ev, 'w, 'err) EventHandler list" where
  "handlers_for sm s ev =
     (case definitions sm s of
        None \<Rightarrow> []
      | Some d \<Rightarrow> (case Events d (eventType sm ev) of None \<Rightarrow> [] | Some hset \<Rightarrow> ehs_Handlers hset))"

definition declared_targets ::
  "('s, 'et, 'ev, 'w, 'err) StateMachine \<Rightarrow> 's \<Rightarrow> 'ev \<Rightarrow> 's list" where
  "declared_targets sm s ev =
     concat (map (\<lambda>h. map tr_To (eh_Transitions h)) (handlers_for sm s ev))"

lemma machine_rule_handler:
  assumes "h \<in> set (handlers_for sm s ev)" and "r \<in> set (handler_rules h)"
  shows "machine_rule sm r"
proof (cases "definitions sm s")
  case None
  with assms show ?thesis by (simp add: handlers_for_def)
next
  case (Some d)
  with assms obtain hset where "Events d (eventType sm ev) = Some hset"
    and "h \<in> set (ehs_Handlers hset)"
    by (cases "Events d (eventType sm ev)") (auto simp: handlers_for_def)
  with Some assms(2) show ?thesis unfolding machine_rule_def by blast
qed

lemma machine_rule_entry: "r \<in> set (entryActions sm s) \<Longrightarrow> machine_rule sm r"
  unfolding machine_rule_def entryActions_def by (cases "definitions sm s") (simp, fastforce)

lemma machine_rule_exit: "r \<in> set (exitActions sm s) \<Longrightarrow> machine_rule sm r"
  unfolding machine_rule_def exitActions_def by (cases "definitions sm s") (simp, fastforce)

text \<open>The rules of one state, collected over the event types \<open>ets\<close>.\<close>

definition definition_rules ::
  "('s, 'et, 'ev, 'w, 'err) StateDefinition \<Rightarrow> 'et list \<Rightarrow> ('ev, 'w, 'err) ActionRule list" where
  "definition_rules d ets = OnTransitionTo d @ OnTransitionFrom d
     @ concat (map (\<lambda>et. case Events d et of None \<Rightarrow> [] | Some hset \<Rightarrow> concat (map handler_rules (ehs_Handlers hset))) ets)"

lemma machine_rule_listed:
  assumes "machine_rule sm r" and "\<And>et. et \<in> set ets"
  obtains s d where "definitions sm s = Some d" and "r \<in> set (definition_rules d ets)"
proof -
  from assms(1) obtain s d where d: "definitions sm s = Some d" and r: "r \<in> set (OnTransitionTo d) \<or>
      r \<in> set (OnTransitionFrom d) \<or> (\<exists>et hset h. Events d et = Some hset \<and> h \<in> set (ehs_Handlers hset)
         \<and> r \<in> set (handler_rules h))"
    unfolding machine_rule_def by blast
  have "r \<in> set (definition_rules d ets)" if "Events d et = Some hset" "h \<in> set (ehs_Handlers hset)"
    "r \<in> set (handler_rules h)" for et hset h
  proof -
    have "r \<in> set (case Events d et of None \<Rightarrow> [] | Some hset \<Rightarrow> concat (map handler_rules (ehs_Handlers hset)))"
      using that by auto
    then show ?thesis unfolding definition_rules_def using assms(2) [of et] by fastforce
  qed
  moreover have "r \<in> set (OnTransitionTo d) \<or> r \<in> set (OnTransitionFrom d) \<Longrightarrow> r \<in> set (definition_rules d ets)"
    by (auto simp: definition_rules_def)
  ultimately show thesis using that [OF d] r by blast
qed

lemma handleLocked_handlers:
  "handleLocked sm ev w =
     (let hs = handlers_for sm (GetCurrentState sm w) ev
      in if \<exists>d hset. definitions sm (GetCurrentState sm w) = Some d
           \<and> Events d (eventType sm ev) = Some hset \<and> ehs_Match hset = MatchAll
         then processMatchAll sm ev hs w else processMatchFirst sm ev hs w)"
  by (auto simp: handleLocked_def handlers_for_def split: option.splits MatchMode.splits)

text \<open>
  What holds after the handlers of an event have run: every handler that matches a world in \<open>P\<close> leads to
  \<open>R\<close>, and back to \<open>P\<close> if it takes no transition.
\<close>

definition handler_leads ::
  "('s, 'et, 'ev, 'w, 'err) StateMachine \<Rightarrow> 'ev \<Rightarrow> ('w \<Rightarrow> bool) \<Rightarrow> ('w \<Rightarrow> bool)
     \<Rightarrow> ('s, 'ev, 'w, 'err) EventHandler \<Rightarrow> bool" where
  "handler_leads sm ev P R h \<longleftrightarrow>
     (\<forall>w. P w \<longrightarrow> matchesHandler ev h w = Inr True \<longrightarrow>
        (case executeActionRules ev (eh_Actions h) w of
           Ok w1 \<Rightarrow> (case evaluateTransitions sm ev (eh_Transitions h) w1 of
                      (transitioned, r) \<Rightarrow> if transitioned then returns R r else P w1)
         | Fail e w1 \<Rightarrow> R w1
         | Stuck \<Rightarrow> True))"

lemma evaluateTransitions_none: "evaluateTransitions sm ev rules w = (False, r) \<Longrightarrow> r = Ok w"
  by (induction rules) (auto split: if_splits)

lemma handlers_lead:
  assumes "\<forall>h \<in> set hs. handler_leads sm ev P R h" and "P w" and PR: "\<And>w. P w \<Longrightarrow> R w"
  shows "returns R (processMatchAll sm ev hs w) \<and> returns R (processMatchFirst sm ev hs w)"
  using assms(1,2)
proof (induction hs arbitrary: w)
  case (Cons h hs)
  show ?case
  proof (cases "matchesHandler ev h w = Inr True")
    case True
    then have leads: "case executeActionRules ev (eh_Actions h) w of
           Ok w1 \<Rightarrow> (case evaluateTransitions sm ev (eh_Transitions h) w1 of
                      (transitioned, r) \<Rightarrow> if transitioned then returns R r else P w1)
         | Fail e w1 \<Rightarrow> R w1 | Stuck \<Rightarrow> True"
      using Cons.prems unfolding handler_leads_def by simp
    show ?thesis
    proof (cases "executeActionRules ev (eh_Actions h) w")
      case (Ok w1)
      obtain t r where tr: "evaluateTransitions sm ev (eh_Transitions h) w1 = (t, r)" by fastforce
      show ?thesis
      proof (cases t)
        case True
        then show ?thesis using leads Ok tr \<open>matchesHandler ev h w = Inr True\<close> by simp
      next
        case False
        then have "r = Ok w1" and "P w1" using leads Ok tr evaluateTransitions_none by auto
        then show ?thesis
          using Cons.IH [of w1] Cons.prems(1) PR Ok tr False \<open>matchesHandler ev h w = Inr True\<close> by simp
      qed
    qed (use leads \<open>matchesHandler ev h w = Inr True\<close> in simp_all)
  next
    case False
    then show ?thesis using Cons PR by (auto split: sum.split)
  qed
qed (simp add: PR)

lemma handleLocked_leads:
  assumes "\<forall>h \<in> set (handlers_for sm (GetCurrentState sm w) ev). handler_leads sm ev P R h"
    and "P w" and "\<And>w. P w \<Longrightarrow> R w"
  shows "returns R (handleLocked sm ev w)"
  using handlers_lead [OF assms] by (simp add: handleLocked_handlers Let_def)

section \<open>Machines whose actions keep an invariant\<close>

text \<open>
  A contract for a machine whose every step keeps \<open>I\<close>: the engine then keeps it, whatever
  handlers match and wherever an error stops the processing. \<open>step_invariant\<close> is about the processing
  under the lock, \<open>machine_invariant\<close> about the whole of it.
\<close>

locale step_invariant =
  fixes sm :: "('s, 'et, 'ev, 'w, 'err) StateMachine" and I :: "'w \<Rightarrow> bool" and ev :: 'ev
  assumes set_keeps: "I w \<Longrightarrow> I (SetCurrentState sm s w)"
    and mark_keeps: "I w \<Longrightarrow> I (sm_mark sm ev w)"
    and callback_keeps: "I w \<Longrightarrow> I (callback sm s t ev w)"
    and rule_keeps: "machine_rule sm r \<Longrightarrow> I w \<Longrightarrow> returns I (act r ev w)"
begin

lemma rules_keep_inv: "\<forall>r \<in> set rs. machine_rule sm r \<Longrightarrow> rules_keep I ev rs"
  by (auto simp: rules_keep_def intro: rule_keeps)

lemma takeTransition_inv:
  assumes "\<forall>r \<in> set (tr_Actions rule). machine_rule sm r" and "I w"
  shows "returns I (takeTransition sm ev rule w)"
  unfolding takeTransition_def Let_def
  using assms
  by (intro returns_and_then executeActionRules_keep rules_keep_inv set_keeps mark_keeps
      callback_keeps) (auto intro: machine_rule_entry machine_rule_exit)

lemma evaluateTransitions_inv:
  assumes "\<forall>rule \<in> set rules. \<forall>r \<in> set (tr_Actions rule). machine_rule sm r" and "I w"
  shows "returns I (snd (evaluateTransitions sm ev rules w))"
  using assms by (induction rules) (auto intro: takeTransition_inv)

lemma handler_inv:
  assumes "\<forall>r \<in> set (handler_rules h). machine_rule sm r" and "I w"
  shows "returns I (executeActionRules ev (eh_Actions h) w)"
    and "returns I (snd (evaluateTransitions sm ev (eh_Transitions h) w))"
  using assms
  by (auto simp: handler_rules_def intro!: executeActionRules_keep rules_keep_inv
      evaluateTransitions_inv)

lemma processMatchFirst_inv:
  assumes "\<forall>h \<in> set hs. \<forall>r \<in> set (handler_rules h). machine_rule sm r" and "I w"
  shows "returns I (processMatchFirst sm ev hs w)"
  using assms
  by (induction hs) (auto split: sum.splits intro!: returns_and_then handler_inv)

lemma processMatchAll_inv:
  assumes "\<forall>h \<in> set hs. \<forall>r \<in> set (handler_rules h). machine_rule sm r" and "I w"
  shows "returns I (processMatchAll sm ev hs w)"
  using assms
proof (induction hs arbitrary: w)
  case Nil
  then show ?case by simp
next
  case (Cons h hs)
  have "returns I (case evaluateTransitions sm ev (eh_Transitions h) v of (t, r) \<Rightarrow>
      if t \<or> eh_Stop h then r else and_then r (processMatchAll sm ev hs))" if "I v" for v
    using handler_inv(2) [of h v] Cons that by (auto simp: split_beta intro: returns_and_then)
  then show ?case
    using Cons by (auto split: sum.splits intro!: returns_and_then handler_inv)
qed

lemma handleLocked_inv: "I w \<Longrightarrow> returns I (handleLocked sm ev w)"
  unfolding handleLocked_handlers Let_def
  by (auto intro!: processMatchFirst_inv processMatchAll_inv intro: machine_rule_handler)

end

locale machine_invariant = step_invariant +
  assumes lock_keeps: "I w \<Longrightarrow> I (sm_setLock sm b w)"
begin

theorem ProcessEvent_inv: "I w \<Longrightarrow> returns I (ProcessEvent sm ev w)"
  using handleLocked_inv [OF lock_keeps, of w True] lock_keeps
  by (auto simp: ProcessEvent_def intro: returns_mono)

end

section \<open>Machines whose actions leave their own state alone\<close>

text \<open>
  A contract for a machine whose actions, run while its entity's lock is held, neither release
  the lock nor write the machine's own state, in the worlds that know its entity. Its state then moves only along the declared
  transitions, one per event at most.
\<close>

locale owned_state =
  fixes sm :: "('s, 'et, 'ev, 'w, 'err) StateMachine" and ev :: 'ev and known :: "'w \<Rightarrow> bool"
  assumes get_set: "known w \<Longrightarrow> GetCurrentState sm (SetCurrentState sm s w) = s"
    and get_mark: "GetCurrentState sm (sm_mark sm ev w) = GetCurrentState sm w"
    and get_callback: "known w \<Longrightarrow> GetCurrentState sm (callback sm s t ev w) = GetCurrentState sm w"
    and get_lock: "known w \<Longrightarrow> GetCurrentState sm (sm_setLock sm b w) = GetCurrentState sm w"
    and lock_lock: "known w \<Longrightarrow> sm_locked sm (sm_setLock sm b w) = b"
    and lock_set: "known w \<Longrightarrow> sm_locked sm (SetCurrentState sm s w) = sm_locked sm w"
    and lock_mark: "sm_locked sm (sm_mark sm ev w) = sm_locked sm w"
    and lock_callback: "known w \<Longrightarrow> sm_locked sm (callback sm s t ev w) = sm_locked sm w"
    and known_set: "known (SetCurrentState sm s w) = known w"
    and known_mark: "known (sm_mark sm ev w) = known w"
    and known_callback: "known (callback sm s t ev w) = known w"
    and known_lock: "known (sm_setLock sm b w) = known w"
    and rule_frame: "machine_rule sm r \<Longrightarrow> known w \<Longrightarrow> sm_locked sm w \<Longrightarrow>
       returns (\<lambda>w'. known w' \<and> sm_locked sm w' \<and> GetCurrentState sm w' = GetCurrentState sm w) (act r ev w)"
begin

abbreviation holds :: "'s \<Rightarrow> 'w \<Rightarrow> bool" where
  "holds s w \<equiv> known w \<and> sm_locked sm w \<and> GetCurrentState sm w = s"

lemma rules_keep_holds:
  "\<forall>r \<in> set rs. machine_rule sm r \<Longrightarrow> rules_keep (holds s) ev rs"
  unfolding rules_keep_def using rule_frame by (blast intro: returns_mono)

lemma takeTransition_state:
  assumes "\<forall>r \<in> set (tr_Actions rule). machine_rule sm r" and "known w" and "sm_locked sm w"
  shows "returns (holds (tr_To rule)) (takeTransition sm ev rule w)"
  unfolding takeTransition_def Let_def using assms
  by (intro returns_and_then executeActionRules_keep rules_keep_holds)
     (auto simp: get_set get_mark get_callback lock_set lock_mark lock_callback known_set known_mark known_callback
       intro: machine_rule_entry machine_rule_exit)

lemma evaluateTransitions_taken:
  assumes "\<forall>rule \<in> set rules. \<forall>r \<in> set (tr_Actions rule). machine_rule sm r"
    and "known w" and "sm_locked sm w" and "fst (evaluateTransitions sm ev rules w)"
  shows "returns (\<lambda>w'. known w' \<and> sm_locked sm w' \<and> GetCurrentState sm w' \<in> tr_To ` set rules)
      (snd (evaluateTransitions sm ev rules w))"
  using assms
proof (induction rules)
  case Nil
  then show ?case by simp
next
  case (Cons rule rules)
  have "returns (holds (tr_To rule)) (takeTransition sm ev rule w)"
    using Cons.prems by (intro takeTransition_state) auto
  then show ?case using Cons by (auto elim!: returns_mono split: if_splits)
qed

lemma evaluateTransitions_not_taken:
  "\<not> fst (evaluateTransitions sm ev rules w) \<Longrightarrow> snd (evaluateTransitions sm ev rules w) = Ok w"
  by (induction rules) (auto split: if_splits)

definition lands :: "'s \<Rightarrow> ('s, 'ev, 'w, 'err) EventHandler list \<Rightarrow> 'w \<Rightarrow> bool" where
  "lands s hs w \<longleftrightarrow> known w \<and> sm_locked sm w \<and>
     (GetCurrentState sm w = s \<or> (\<exists>h \<in> set hs. GetCurrentState sm w \<in> tr_To ` set (eh_Transitions h)))"

lemma lands_here: "holds s w \<Longrightarrow> lands s hs w"
  by (simp add: lands_def)

lemma lands_Cons: "lands s hs w \<Longrightarrow> lands s (h # hs) w"
  by (auto simp: lands_def)

lemma handler_state:
  assumes "\<forall>r \<in> set (handler_rules h). machine_rule sm r" and "holds s w"
  shows "returns (holds s) (executeActionRules ev (eh_Actions h) w)"
    and "returns (lands s (h # hs)) (snd (evaluateTransitions sm ev (eh_Transitions h) w))"
proof -
  show "returns (holds s) (executeActionRules ev (eh_Actions h) w)"
    using assms by (intro executeActionRules_keep rules_keep_holds) (auto simp: handler_rules_def)
  show "returns (lands s (h # hs)) (snd (evaluateTransitions sm ev (eh_Transitions h) w))"
  proof (cases "fst (evaluateTransitions sm ev (eh_Transitions h) w)")
    case True
    with assms show ?thesis
      by (intro returns_mono [OF evaluateTransitions_taken]) (auto simp: handler_rules_def lands_def)
  next
    case False
    with assms show ?thesis by (simp add: evaluateTransitions_not_taken lands_def)
  qed
qed

lemma processMatchFirst_state:
  assumes "\<forall>h \<in> set hs. \<forall>r \<in> set (handler_rules h). machine_rule sm r" and "holds s w"
  shows "returns (lands s hs) (processMatchFirst sm ev hs w)"
  using assms
proof (induction hs)
  case Nil
  then show ?case by (simp add: lands_def)
next
  case (Cons h hs)
  have "returns (lands s (h # hs)) (and_then (executeActionRules ev (eh_Actions h) w)
      (\<lambda>w1. snd (evaluateTransitions sm ev (eh_Transitions h) w1)))"
    using handler_state(1) [of h w s] handler_state(2) [where h = h and s = s] Cons.prems
    by (cases "executeActionRules ev (eh_Actions h) w") (auto intro: lands_here)
  moreover have "returns (lands s (h # hs)) (processMatchFirst sm ev hs w)"
    using Cons by (intro returns_mono [OF Cons.IH] lands_Cons) auto
  ultimately show ?case
    using Cons.prems(2) by (auto intro: lands_here split: sum.splits)
qed

lemma processMatchAll_state:
  assumes "\<forall>h \<in> set hs. \<forall>r \<in> set (handler_rules h). machine_rule sm r" and "holds s w"
  shows "returns (lands s hs) (processMatchAll sm ev hs w)"
  using assms
proof (induction hs arbitrary: w)
  case Nil
  then show ?case by (simp add: lands_def)
next
  case (Cons h hs)
  have rest: "returns (lands s (h # hs)) (processMatchAll sm ev hs v)" if "holds s v" for v
    using Cons that by (intro returns_mono [OF Cons.IH] lands_Cons) auto
  have cont: "returns (lands s (h # hs)) (case evaluateTransitions sm ev (eh_Transitions h) v of
      (t, r) \<Rightarrow> if t \<or> eh_Stop h then r else and_then r (processMatchAll sm ev hs))"
    if "holds s v" for v
    using handler_state(2) [of h v s hs] rest [OF that] Cons.prems(1) that
      evaluateTransitions_not_taken [of "eh_Transitions h" v]
    by (auto simp: split_beta)
  have "returns (lands s (h # hs)) (and_then (executeActionRules ev (eh_Actions h) w)
      (\<lambda>w1. case evaluateTransitions sm ev (eh_Transitions h) w1 of
      (t, r) \<Rightarrow> if t \<or> eh_Stop h then r else and_then r (processMatchAll sm ev hs)))"
    using handler_state(1) [of h w s] cont Cons.prems
    by (cases "executeActionRules ev (eh_Actions h) w") (auto intro: lands_here)
  with rest [OF Cons.prems(2)] show ?case
    using Cons.prems(2) by (auto intro: lands_here split: sum.splits)
qed

lemma handleLocked_state:
  assumes "holds s w"
  shows "returns (\<lambda>w'. known w' \<and> sm_locked sm w' \<and>
      GetCurrentState sm w' \<in> insert s (set (declared_targets sm s ev))) (handleLocked sm ev w)"
proof -
  have "\<forall>h \<in> set (handlers_for sm s ev). \<forall>r \<in> set (handler_rules h). machine_rule sm r"
    by (auto intro: machine_rule_handler)
  from processMatchFirst_state [OF this assms] processMatchAll_state [OF this assms]
  have "returns (lands s (handlers_for sm s ev)) (handleLocked sm ev w)"
    unfolding handleLocked_handlers Let_def using assms by simp
  then show ?thesis
    by (rule returns_mono) (auto simp: declared_targets_def lands_def)
qed

text \<open>
  A machine that has changed its state without an error has run the entry actions of the new state
  last.
\<close>

definition entered :: "'ev \<Rightarrow> 'w \<Rightarrow> bool" where
  "entered e w \<longleftrightarrow> (\<exists>w0. holds (GetCurrentState sm w) w0
     \<and> executeActionRules e (entryActions sm (GetCurrentState sm w)) w0 = Ok w)"

lemma rules_hold:
  assumes "\<forall>r \<in> set rs. machine_rule sm r" and "holds s w" and "executeActionRules ev rs w = Ok w'"
  shows "holds s w'"
  using executeActionRules_keep [OF rules_keep_holds [OF assms(1)], where w = w and s1 = s] assms(2,3) by simp

lemma takeTransition_entered:
  assumes "\<forall>r \<in> set (tr_Actions rule). machine_rule sm r" and "known w" and "sm_locked sm w"
    and "takeTransition sm ev rule w = Ok w'"
  shows "entered ev w'"
proof -
  let ?w1 = "sm_mark sm ev (SetCurrentState sm (tr_To rule) w)"
  obtain w2 w3 where w2: "executeActionRules ev (tr_Actions rule) ?w1 = Ok w2"
    and w3: "executeActionRules ev (exitActions sm (GetCurrentState sm w)) w2 = Ok w3"
    and w': "executeActionRules ev (entryActions sm (GetCurrentState sm w3))
        (callback sm (GetCurrentState sm w) (GetCurrentState sm w3) ev w3) = Ok w'"
    using assms(4) by (auto simp: takeTransition_def Let_def and_then_Ok)
  have "holds (tr_To rule) ?w1"
    using assms(2,3) by (simp add: get_set get_mark lock_set lock_mark known_set known_mark)
  from rules_hold [OF assms(1) this w2] have h2: "holds (tr_To rule) w2" .
  have rules: "\<forall>r \<in> set (exitActions sm u). machine_rule sm r" "\<forall>r \<in> set (entryActions sm u). machine_rule sm r" for u
    by (auto intro: machine_rule_exit machine_rule_entry)
  from rules_hold [OF rules(1) h2 w3] have h3: "holds (tr_To rule) w3" .
  let ?w4 = "callback sm (GetCurrentState sm w) (GetCurrentState sm w3) ev w3"
  from h3 have h4: "holds (tr_To rule) ?w4" by (simp add: get_callback lock_callback known_callback)
  from rules_hold [OF rules(2) h4 w'] have "holds (tr_To rule) w'" .
  with w' h3 h4 show ?thesis unfolding entered_def by auto
qed

lemma evaluateTransitions_entered:
  assumes "\<forall>rule \<in> set rules. \<forall>r \<in> set (tr_Actions rule). machine_rule sm r" and "holds s w"
    and "snd (evaluateTransitions sm ev rules w) = Ok w'"
  shows "w' = w \<or> entered ev w'"
  using assms
proof (induction rules)
  case (Cons rule rules)
  then show ?case using takeTransition_entered [of rule w w'] by (auto split: if_splits)
qed simp

lemma handler_entered:
  assumes "\<forall>r \<in> set (handler_rules h). machine_rule sm r" and "holds s w"
    and "executeActionRules ev (eh_Actions h) w = Ok w1"
    and "snd (evaluateTransitions sm ev (eh_Transitions h) w1) = Ok w'"
  shows "holds s w' \<or> entered ev w'"
proof -
  have "holds s w1" using handler_state(1) [OF assms(1,2)] assms(3) by simp
  with evaluateTransitions_entered [OF _ this assms(4)] assms(1) show ?thesis
    by (auto simp: handler_rules_def)
qed

lemma processMatchFirst_entered:
  assumes "\<forall>h \<in> set hs. \<forall>r \<in> set (handler_rules h). machine_rule sm r" and "holds s w"
    and "processMatchFirst sm ev hs w = Ok w'"
  shows "holds s w' \<or> entered ev w'"
  using assms
proof (induction hs)
  case (Cons h hs)
  then show ?case
    using handler_entered [where h = h and s = s and w = w and w' = w'] by (auto simp: and_then_Ok split: sum.splits if_splits)
qed simp

lemma processMatchAll_entered:
  assumes "\<forall>h \<in> set hs. \<forall>r \<in> set (handler_rules h). machine_rule sm r" and "holds s w"
    and "processMatchAll sm ev hs w = Ok w'"
  shows "holds s w' \<or> entered ev w'"
  using assms
proof (induction hs arbitrary: w)
  case (Cons h hs)
  show ?case
  proof (cases "matchesHandler ev h w = Inr True")
    case True
    then obtain w1 where w1: "executeActionRules ev (eh_Actions h) w = Ok w1"
      using Cons.prems(3) by (auto simp: and_then_Ok)
    have h1: "holds s w1" using handler_state(1) [of h w s] Cons.prems w1 by auto
    obtain t r where tr: "evaluateTransitions sm ev (eh_Transitions h) w1 = (t, r)" by fastforce
    show ?thesis
    proof (cases "t \<or> eh_Stop h")
      case True
      then show ?thesis
        using handler_entered [where h = h and s = s and w = w and w' = w'] Cons.prems w1 tr \<open>matchesHandler ev h w = Inr True\<close> by simp
    next
      case False
      then have "r = Ok w1" using evaluateTransitions_not_taken [of "eh_Transitions h" w1] tr by simp
      then have "processMatchAll sm ev hs w1 = Ok w'"
        using Cons.prems(3) w1 tr False \<open>matchesHandler ev h w = Inr True\<close> by simp
      then show ?thesis using Cons.IH [OF _ h1] Cons.prems(1) by simp
    qed
  next
    case False
    then show ?thesis using Cons by (auto split: sum.splits if_splits)
  qed
qed simp

lemma handleLocked_entered:
  assumes "holds s w" and "handleLocked sm ev w = Ok w'" and "GetCurrentState sm w' \<noteq> s"
  shows "entered ev w'"
proof -
  have "\<forall>h \<in> set (handlers_for sm s ev). \<forall>r \<in> set (handler_rules h). machine_rule sm r"
    by (auto intro: machine_rule_handler)
  from processMatchFirst_entered [OF this assms(1)] processMatchAll_entered [OF this assms(1)]
  have "holds s w' \<or> entered ev w'"
    using assms(1,2) unfolding handleLocked_handlers Let_def by (auto split: if_splits)
  with assms(3) show ?thesis by simp
qed

theorem ProcessEvent_declared:
  assumes "known w"
  shows "returns (\<lambda>w'. \<not> sm_locked sm w' \<and> GetCurrentState sm w'
      \<in> insert (GetCurrentState sm w) (set (declared_targets sm (GetCurrentState sm w) ev)))
    (ProcessEvent sm ev w)"
  using handleLocked_state [where w = "sm_setLock sm True w" and s = "GetCurrentState sm w"] assms
  by (auto simp: ProcessEvent_def lock_lock get_lock known_lock elim!: returns_mono)

end

section \<open>Machines that agree on part of the world\<close>

text \<open>
  Two machines with the same table up to the functions their actions call, which agree on the worlds
  in \<open>P\<close> and stay there, process every event alike.
\<close>

definition rule_agrees :: "('w \<Rightarrow> bool) \<Rightarrow> 'ev \<Rightarrow> ('ev, 'w, 'err) ActionRule \<Rightarrow> ('ev, 'w, 'err) ActionRule \<Rightarrow> bool" where
  "rule_agrees P ev r r' \<longleftrightarrow> act_If r = act_If r' \<and> (\<forall>w. P w \<longrightarrow> act r ev w = act r' ev w \<and> returns P (act r' ev w))"

definition transition_agrees :: "('w \<Rightarrow> bool) \<Rightarrow> 'ev \<Rightarrow> ('s, 'ev, 'w, 'err) Transition
    \<Rightarrow> ('s, 'ev, 'w, 'err) Transition \<Rightarrow> bool" where
  "transition_agrees P ev x y \<longleftrightarrow> tr_To x = tr_To y \<and> tr_If x = tr_If y
     \<and> list_all2 (rule_agrees P ev) (tr_Actions x) (tr_Actions y)"

definition handler_agrees :: "('w \<Rightarrow> bool) \<Rightarrow> 'ev \<Rightarrow> ('s, 'ev, 'w, 'err) EventHandler
    \<Rightarrow> ('s, 'ev, 'w, 'err) EventHandler \<Rightarrow> bool" where
  "handler_agrees P ev h h' \<longleftrightarrow> eh_Validator h = eh_Validator h' \<and> eh_Stop h = eh_Stop h'
     \<and> list_all2 (rule_agrees P ev) (eh_Actions h) (eh_Actions h')
     \<and> list_all2 (transition_agrees P ev) (eh_Transitions h) (eh_Transitions h')"

lemma executeActionRules_agree:
  assumes "list_all2 (rule_agrees P ev) rs rs'" and "P w"
  shows "executeActionRules ev rs w = executeActionRules ev rs' w \<and> returns P (executeActionRules ev rs' w)"
  using assms
proof (induction rs rs' arbitrary: w rule: list_all2_induct)
  case (Cons r rs r' rs')
  then have a: "act r ev w = act r' ev w" "returns P (act r' ev w)" "act_If r = act_If r'"
    by (auto simp: rule_agrees_def)
  show ?case
    using a Cons.IH Cons.prems by (cases "act r' ev w") auto
qed simp

locale agreeing_machines =
  fixes sm sm' :: "('s, 'et, 'ev, 'w, 'err) StateMachine" and P :: "'w \<Rightarrow> bool" and ev :: 'ev
  assumes same_get: "GetCurrentState sm' = GetCurrentState sm"
    and same_set: "SetCurrentState sm' = SetCurrentState sm"
    and same_mark: "sm_mark sm' = sm_mark sm"
    and same_callback: "transitionCallback sm' = transitionCallback sm"
    and same_type: "eventType sm' = eventType sm"
    and set_in: "P w \<Longrightarrow> P (SetCurrentState sm s w)"
    and mark_in: "P w \<Longrightarrow> P (sm_mark sm ev w)"
    and callback_in: "P w \<Longrightarrow> P (callback sm s t ev w)"
    and entry_agree: "list_all2 (rule_agrees P ev) (entryActions sm s) (entryActions sm' s)"
    and exit_agree: "list_all2 (rule_agrees P ev) (exitActions sm s) (exitActions sm' s)"
    and handlers_agree: "list_all2 (handler_agrees P ev) (handlers_for sm s ev) (handlers_for sm' s ev)"
    and match_agree: "(\<exists>d hset. definitions sm s = Some d \<and> Events d (eventType sm ev) = Some hset \<and> ehs_Match hset = MatchAll)
      = (\<exists>d hset. definitions sm' s = Some d \<and> Events d (eventType sm ev) = Some hset \<and> ehs_Match hset = MatchAll)"
begin

lemma callback_same: "callback sm' s t ev w = callback sm s t ev w"
  by (simp add: callback_def same_callback)

lemma takeTransition_agree:
  assumes "transition_agrees P ev x y" and "P w"
  shows "takeTransition sm ev x w = takeTransition sm' ev y w \<and> returns P (takeTransition sm' ev y w)"
proof -
  let ?w1 = "sm_mark sm ev (SetCurrentState sm (tr_To x) w)"
  let ?s = "GetCurrentState sm w"
  have xy: "tr_To x = tr_To y" "list_all2 (rule_agrees P ev) (tr_Actions x) (tr_Actions y)"
    using assms(1) by (auto simp: transition_agrees_def)
  have entry: "executeActionRules ev (entryActions sm u) v = executeActionRules ev (entryActions sm' u) v
      \<and> returns P (executeActionRules ev (entryActions sm' u) v)" if "P v" for u v
    by (rule executeActionRules_agree [OF entry_agree that])
  have exit: "executeActionRules ev (exitActions sm u) v = executeActionRules ev (exitActions sm' u) v
      \<and> returns P (executeActionRules ev (exitActions sm' u) v)" if "P v" for u v
    by (rule executeActionRules_agree [OF exit_agree that])
  have "P ?w1" using assms(2) set_in mark_in by blast
  from executeActionRules_agree [OF xy(2) this]
  have own: "executeActionRules ev (tr_Actions x) ?w1 = executeActionRules ev (tr_Actions y) ?w1"
    "returns P (executeActionRules ev (tr_Actions y) ?w1)" by auto
  have after: "and_then (executeActionRules ev (exitActions sm ?s) w2)
        (\<lambda>w3. executeActionRules ev (entryActions sm (GetCurrentState sm w3)) (callback sm ?s (GetCurrentState sm w3) ev w3))
      = and_then (executeActionRules ev (exitActions sm' ?s) w2)
        (\<lambda>w3. executeActionRules ev (entryActions sm' (GetCurrentState sm w3)) (callback sm ?s (GetCurrentState sm w3) ev w3))
    \<and> returns P (and_then (executeActionRules ev (exitActions sm' ?s) w2)
        (\<lambda>w3. executeActionRules ev (entryActions sm' (GetCurrentState sm w3)) (callback sm ?s (GetCurrentState sm w3) ev w3)))"
    if "P w2" for w2
    using exit [OF that, of ?s] entry callback_in
    by (cases "executeActionRules ev (exitActions sm' ?s) w2") auto
  show ?thesis
    using own after
    by (cases "executeActionRules ev (tr_Actions y) ?w1")
       (auto simp: takeTransition_def Let_def same_get same_set same_mark callback_same xy(1))
qed

lemma evaluateTransitions_agree:
  assumes "list_all2 (transition_agrees P ev) xs ys" and "P w"
  shows "evaluateTransitions sm ev xs w = evaluateTransitions sm' ev ys w
    \<and> returns P (snd (evaluateTransitions sm' ev ys w))"
  using assms
proof (induction xs ys rule: list_all2_induct)
  case (Cons x xs y ys)
  then have "tr_If x = tr_If y" by (simp add: transition_agrees_def)
  then show ?case using Cons takeTransition_agree [OF Cons.hyps(1)] by auto
qed simp

lemma processMatchFirst_agree:
  assumes "list_all2 (handler_agrees P ev) hs hs'" and "P w"
  shows "processMatchFirst sm ev hs w = processMatchFirst sm' ev hs' w
    \<and> returns P (processMatchFirst sm' ev hs' w)"
  using assms
proof (induction hs hs' rule: list_all2_induct)
  case (Cons h hs h' hs')
  then have v: "matchesHandler ev h w = matchesHandler ev h' w"
    and trans: "list_all2 (transition_agrees P ev) (eh_Transitions h) (eh_Transitions h')"
    and acts: "list_all2 (rule_agrees P ev) (eh_Actions h) (eh_Actions h')"
    by (auto simp: handler_agrees_def matchesHandler_def)
  show ?case
    using Cons executeActionRules_agree [OF acts, of w] evaluateTransitions_agree [OF trans] v
    by (cases "executeActionRules ev (eh_Actions h') w") (auto split: sum.splits)
qed simp

lemma processMatchAll_agree:
  assumes "list_all2 (handler_agrees P ev) hs hs'" and "P w"
  shows "processMatchAll sm ev hs w = processMatchAll sm' ev hs' w
    \<and> returns P (processMatchAll sm' ev hs' w)"
  using assms
proof (induction hs hs' arbitrary: w rule: list_all2_induct)
  case (Cons h hs h' hs')
  then have v: "matchesHandler ev h w = matchesHandler ev h' w" and stop: "eh_Stop h = eh_Stop h'"
    and trans: "list_all2 (transition_agrees P ev) (eh_Transitions h) (eh_Transitions h')"
    and acts: "list_all2 (rule_agrees P ev) (eh_Actions h) (eh_Actions h')"
    by (auto simp: handler_agrees_def matchesHandler_def)
  have rest: "and_then r (processMatchAll sm ev hs) = and_then r (processMatchAll sm' ev hs')
      \<and> returns P (and_then r (processMatchAll sm' ev hs'))" if "returns P r" for r
    using that Cons.IH by (cases r) auto
  have "(case evaluateTransitions sm ev (eh_Transitions h) u of (t, r) \<Rightarrow>
        if t \<or> eh_Stop h then r else and_then r (processMatchAll sm ev hs))
      = (case evaluateTransitions sm' ev (eh_Transitions h') u of (t, r) \<Rightarrow>
        if t \<or> eh_Stop h' then r else and_then r (processMatchAll sm' ev hs'))
    \<and> returns P (case evaluateTransitions sm' ev (eh_Transitions h') u of (t, r) \<Rightarrow>
        if t \<or> eh_Stop h' then r else and_then r (processMatchAll sm' ev hs'))" if "P u" for u
    using evaluateTransitions_agree [OF trans that] rest stop by (auto simp: split_beta)
  then show ?case
    using Cons executeActionRules_agree [OF acts, of w] v
    by (cases "executeActionRules ev (eh_Actions h') w") (auto split: sum.splits)
qed simp

lemma handleLocked_agree: "P w \<Longrightarrow> handleLocked sm ev w = handleLocked sm' ev w"
  unfolding handleLocked_handlers Let_def same_get same_type match_agree
  using processMatchFirst_agree [OF handlers_agree] processMatchAll_agree [OF handlers_agree] by auto

end

end
