(* ===== verification/CoordinatorTypes.thy ===== *)
theory CoordinatorTypes
  imports StateMachine StateView Selection
begin

text \<open>
  The data of the coordinator and its transactions: the protocol messages they exchange with
  originators and endorsers, the events of a transaction, the record of a transaction and the record
  of the coordinator that owns them (\<^verbatim>\<open>coordinator/coordinator.go\<close> and
  \<^verbatim>\<open>coordinator/transaction\<close>).

  The coordinator record is the world the actions of transactions run in: the transactions it knows,
  the grapher with its dependency tracker and visibility store, the captured state views, and what the
  code hands to others: messages sent (\<open>outbox\<close>), events for its own loop (\<open>eventsInternal\<close>), requests
  to finalize a transaction (\<open>finalizes\<close>), dispatches queued for the dispatch loop and prepares
  started in the background. Everything the sequencer takes from elsewhere sits in the immutable
  field \<open>env\<close>: identifiers, the transport's failures, the domain, the resolution of states, hashing.

  Left out of the records are metrics, log fields and contexts. Identifiers rendered as strings in
  messages stand there as themselves.
\<close>

section \<open>Protocol messages\<close>

datatype AssemblyResult = ASSEMBLE_OK | ASSEMBLE_PARK | ASSEMBLE_REVERT
datatype AttestationType = SIGN | ENDORSE
datatype AttestationConstraint = ENDORSER_MUST_SUBMIT
datatype SubmitterSelection = SUBMITTER_COORDINATOR | SUBMITTER_SENDER
datatype RejectionReason = BLOCK_HEIGHT_TOLERANCE | NOT_CURRENT_DELEGATE | TRANSACTION_UNKNOWN
  | ENDORSER_IS_ACTIVE_COORDINATOR | PRIVATE_STATE_DATA_PENDING

record AttestationRequest =
  ar_Name :: string
  ar_AttestationType :: AttestationType
  ar_Algorithm :: string
  ar_VerifierType :: string
  ar_Payload :: HexBytes
  ar_PayloadType :: string
  ar_Parties :: "string list"
  ar_Threshold :: "int option"

record ResolvedVerifier =
  rv_Lookup :: string
  rv_Algorithm :: string
  rv_VerifierType :: string
  rv_Verifier :: string

record AttestationResult =
  at_Name :: string
  at_AttestationType :: AttestationType
  at_Verifier :: "ResolvedVerifier option"
  at_Payload :: HexBytes
  at_Constraints :: "AttestationConstraint list"

record NewState =
  ns_SchemaId :: string
  ns_StateDataJson :: string
  ns_DistributionList :: "string list"

record TransactionPostAssembly =
  pa_AssemblyResult :: AssemblyResult
  pa_OutputStatesPotential :: "NewState list"
  pa_InputStates :: "EndorsableState list"
  pa_ReadStates :: "EndorsableState list"
  pa_AttestationPlan :: "AttestationRequest list"
  pa_Signatures :: "AttestationResult list"
  pa_Endorsements :: "AttestationResult list"
  pa_RevertReason :: "string option"
  pa_ResolvedVerifiers :: "ResolvedVerifier list"

text \<open>\<^verbatim>\<open>components.TransactionPostAssembly\<close>: the response with the resolved states and collected endorsements.\<close>

record PostAssembly =
  AssembleResponse :: TransactionPostAssembly
  OutputStates :: "EndorsableState list"
  OutputStatesWithLabels :: "StateLabels option list"
  InfoStates :: "EndorsableState list"
  CollectedEndorsements :: "AttestationResult list"

record ResolvedStates =
  rs_OutputStates :: "EndorsableState list"
  rs_OutputStatesWithLabels :: "StateLabels option list"
  rs_InfoStates :: "EndorsableState list"

datatype OnChainType = NotOnChain | OnChainTransaction | OnChainEvent

record OnChainLocation =
  oc_Type :: OnChainType
  oc_BlockNumber :: int

datatype ConfirmedOutcome = OUTCOME_UNSPECIFIED | OUTCOME_SUCCESS | OUTCOME_REVERTED

record TransactionConfirmed =
  tc_Outcome :: ConfirmedOutcome
  tc_Nonce :: int
  tc_RevertReason :: HexBytes
  tc_FailureMessage :: string
  tc_WillRetry :: bool

text \<open>
  What is sent to other nodes, each message under the transaction it is about: assemble request (key,
  block height, expiry, tolerance), endorsement request (key, attestation, party, signatures, input,
  read, output and info states, expiry, block height, tolerance), pre-dispatch request (key, hash) and
  the notifications, which carry a fresh identifier of their own.
\<close>

datatype CoordinatorState = CoordinatorState_Initial | CoordinatorState_Idle | CoordinatorState_Observing
  | CoordinatorState_Elect | CoordinatorState_Prepared | CoordinatorState_Active | CoordinatorState_Active_Flush
  | CoordinatorState_Closing_Flush | CoordinatorState_Closing

datatype TxSnapshot =
    SnapshotPooled uuid
  | SnapshotDispatched uuid "(HexBytes \<times> uint64 option \<times> HexBytes option) option"
  | SnapshotConfirmed uuid "uint64 option" "HexBytes option" "HexBytes option"
  | SnapshotReverted uuid HexBytes

record CoordinatorSnapshot =
  cs_DispatchedTransactions :: "TxSnapshot list"
  cs_PooledTransactions :: "TxSnapshot list"
  cs_ConfirmedTransactions :: "TxSnapshot list"
  cs_RevertedTransactions :: "TxSnapshot list"
  cs_CoordinatorState :: CoordinatorState
  cs_BlockHeight :: uint64
  cs_EndorserCandidates :: "string list"
  cs_StateSnapshot :: "StateSnapshot option"

text \<open>
  An endorsement request as it arrives: \<open>er_PrivateEndorsementRequest\<close> is what the domain is asked to
  endorse, handed through unread; times are instants, \<open>None\<close> the zero time.
\<close>

record EndorsementRequestReceived =
  er_FromNode :: string
  er_TransactionId :: string
  er_IdempotencyKey :: string
  er_Party :: string
  er_PrivateEndorsementRequest :: HexBytes
  er_AttestationRequest :: AttestationRequest
  er_Expiry :: "int option"
  er_CoordinatorBlockHeight :: int
  er_BlockHeightTolerance :: int

record EndorsementRejection =
  ej_TransactionId :: string
  ej_IdempotencyKey :: string
  ej_AttestationRequestName :: string
  ej_Party :: string
  ej_RejectionReason :: RejectionReason
  ej_CoordinatorBlockHeight :: int
  ej_EndorserBlockHeight :: int
  ej_BlockHeightTolerance :: int

record EndorsementResponse =
  es_Endorsement :: AttestationResult
  es_TransactionId :: string
  es_IdempotencyKey :: string
  es_AttestationRequestName :: string
  es_Party :: string
  es_RevertReason :: "string option"

record DelegationRejection =
  dj_DelegationId :: string
  dj_DelegateNodeId :: string
  dj_ActiveCoordinator :: string
  dj_RejectionReason :: RejectionReason
  dj_OriginatorBlockHeight :: int
  dj_CoordinatorBlockHeight :: int
  dj_BlockHeightTolerance :: int

datatype DelegationAcknowledgementError = DelegationAcknowledgementError_None
  | DelegationAcknowledgementError_MaxInflightTransactions | DelegationAcknowledgementError_CoordinatorError
  | DelegationAcknowledgementError_PreviousTransactionError

text \<open>Every message also carries the contract address, which is constant for a coordinator and left out.\<close>

datatype Message =
    AssembleRequest uuid uuid int int int
  | EndorsementRequest uuid uuid AttestationRequest string "AttestationResult list"
      "EndorsableState list" "EndorsableState list" "EndorsableState list" "EndorsableState list" int int int
  | PreDispatchRequest uuid uuid HexBytes
  | TransactionDispatched uuid uuid string
  | NonceAssigned uuid uuid int
  | TransactionSubmitted uuid uuid HexBytes
  | TransactionConfirmedMsg uuid uuid TransactionConfirmed
  | DelegationResponse string "uuid list" string "DelegationAcknowledgementError list"
  | DelegationRejectionMsg DelegationRejection
  | CoordinatorHandoverRequest
  | CoordinatorHeartbeatNotification CoordinatorSnapshot
  | EndorsementRejectionMsg EndorsementRejection
  | EndorsementResponseMsg EndorsementResponse
  | EndorsementError string string string string string

record TransactionFinalizeRequest =
  fr_Originator :: string
  fr_TransactionID :: uuid
  fr_FailureMessage :: string
  fr_RevertData :: HexBytes
  fr_OnChain :: "OnChainLocation option"

text \<open>
  A built dispatch: the chained private transactions it creates (the identifier of the child, if it
  has one, and the children it must wait for), and whether it has a public transaction or a prepared one.
\<close>

record ChainedPrivateTransaction =
  cp_NewTransactionID :: "uuid option"
  cp_ChainedDependsOn :: "uuid list"

record TransactionDispatch =
  td_PublicDispatches :: "uuid list"
  td_PrivateDispatches :: "ChainedPrivateTransaction list"
  td_PreparedTransactions :: "uuid list"

record PendingDispatch =
  pd_TransactionID :: uuid
  pd_Dispatch :: TransactionDispatch

section \<open>States and events of a transaction\<close>

datatype State = State_Initial | State_Pooled | State_PreAssembly_Blocked | State_Assembling | State_Signing
  | State_Reverted | State_Endorsement_Gathering | State_Blocked | State_Confirming_Dispatchable
  | State_Preparing | State_Ready_For_Dispatch | State_Dispatched | State_Confirmed | State_Final | State_Evicted

datatype EventType = Event_HeartbeatInterval | Event_Delegated | Event_DependencySelectedForAssemble
  | Event_Selected | Event_AssembleRequestSent | Event_AssembleSuccess | Event_AssembleRevert
  | Event_AssembleError | Event_AssembleRequestRejected | Event_AssembleCancelled | Event_Signed
  | Event_SignError | Event_Endorsed | Event_EndorseRevert | Event_EndorseError
  | Event_EndorseRequestRejected | Event_DependencyReady | Event_DependencyReset
  | Event_DependencyConfirmedReverted | Event_DispatchRequestApproved | Event_DispatchRequestRejected
  | Event_Dispatched | Event_Collected | Event_NonceAllocated | Event_Submitted | Event_ConfirmedSuccess
  | Event_ConfirmedReverted | Event_RequestTimeoutInterval | Event_StateTimeoutInterval
  | Event_StateTransition | Event_PreDispatchRequestRejected | Event_ChainedDependencyFailed
  | Event_ChainedDependencyEvicted | Event_PreAssembleDependencyTerminated | Event_PrepareSucceeded
  | Event_PrepareFailed

datatype Event =
    HeartbeatIntervalEvent
  | DelegatedEvent
  | SelectedEvent
  | AssembleCancelledEvent
  | AssembleRequestSentEvent
  | AssembleSuccessEvent TransactionPostAssembly uuid
  | AssembleRevertEvent TransactionPostAssembly uuid
  | AssembleErrorEvent uuid
  | SignedEvent "AttestationResult option" "TransactionPostAssembly option" uuid
  | SignErrorEvent uuid
  | EndorsedEvent "AttestationResult option" uuid
  | EndorseRevertEvent (ev_Party: string) (ev_RevertReason: string) (ev_AttestationRequestName: string) uuid
  | EndorseErrorEvent uuid (ev_Party: string) (ev_AttestationRequestName: string)
  | EndorseRequestRejectedEvent (ev_Party: string) (ev_AttestationRequestName: string) uuid RejectionReason
  | AssembleRequestRejectedEvent uuid RejectionReason
  | DispatchRequestApprovedEvent uuid
  | CollectedEvent HexBytes
  | DispatchedEvent bool
  | NonceAllocatedEvent uint64
  | SubmittedEvent HexBytes
  | ConfirmedSuccessEvent "uint64 option" HexBytes OnChainLocation
  | ConfirmedRevertedEvent "uint64 option" HexBytes string HexBytes OnChainLocation
  | DependencySelectedForAssemblyEvent uuid
  | DependencyResetEvent uuid
  | DependencyConfirmedRevertedEvent uuid
  | DependencyReadyEvent
  | RequestTimeoutIntervalEvent
  | StateTimeoutIntervalEvent
  | StateTransitionEvent State State
  | PreDispatchRequestRejectedEvent uuid RejectionReason
  | ChainedDependencyFailedEvent uuid
  | ChainedDependencyEvictedEvent uuid
  | PrepareSucceededEvent uuid PendingDispatch
  | PrepareFailedEvent uuid
  | PreAssembleDependencyTerminatedEvent

fun Event_Type :: "Event \<Rightarrow> EventType" where
  "Event_Type HeartbeatIntervalEvent = Event_HeartbeatInterval"
| "Event_Type DelegatedEvent = Event_Delegated"
| "Event_Type SelectedEvent = Event_Selected"
| "Event_Type AssembleCancelledEvent = Event_AssembleCancelled"
| "Event_Type AssembleRequestSentEvent = Event_AssembleRequestSent"
| "Event_Type (AssembleSuccessEvent _ _) = Event_AssembleSuccess"
| "Event_Type (AssembleRevertEvent _ _) = Event_AssembleRevert"
| "Event_Type (AssembleErrorEvent _) = Event_AssembleError"
| "Event_Type (SignedEvent _ _ _) = Event_Signed"
| "Event_Type (SignErrorEvent _) = Event_SignError"
| "Event_Type (EndorsedEvent _ _) = Event_Endorsed"
| "Event_Type (EndorseRevertEvent _ _ _ _) = Event_EndorseRevert"
| "Event_Type (EndorseErrorEvent _ _ _) = Event_EndorseError"
| "Event_Type (EndorseRequestRejectedEvent _ _ _ _) = Event_EndorseRequestRejected"
| "Event_Type (AssembleRequestRejectedEvent _ _) = Event_AssembleRequestRejected"
| "Event_Type (DispatchRequestApprovedEvent _) = Event_DispatchRequestApproved"
| "Event_Type (CollectedEvent _) = Event_Collected"
| "Event_Type (DispatchedEvent _) = Event_Dispatched"
| "Event_Type (NonceAllocatedEvent _) = Event_NonceAllocated"
| "Event_Type (SubmittedEvent _) = Event_Submitted"
| "Event_Type (ConfirmedSuccessEvent _ _ _) = Event_ConfirmedSuccess"
| "Event_Type (ConfirmedRevertedEvent _ _ _ _ _) = Event_ConfirmedReverted"
| "Event_Type (DependencySelectedForAssemblyEvent _) = Event_DependencySelectedForAssemble"
| "Event_Type (DependencyResetEvent _) = Event_DependencyReset"
| "Event_Type (DependencyConfirmedRevertedEvent _) = Event_DependencyConfirmedReverted"
| "Event_Type DependencyReadyEvent = Event_DependencyReady"
| "Event_Type RequestTimeoutIntervalEvent = Event_RequestTimeoutInterval"
| "Event_Type StateTimeoutIntervalEvent = Event_StateTimeoutInterval"
| "Event_Type (StateTransitionEvent _ _) = Event_StateTransition"
| "Event_Type (PreDispatchRequestRejectedEvent _ _) = Event_PreDispatchRequestRejected"
| "Event_Type (ChainedDependencyFailedEvent _) = Event_ChainedDependencyFailed"
| "Event_Type (ChainedDependencyEvictedEvent _) = Event_ChainedDependencyEvicted"
| "Event_Type (PrepareSucceededEvent _ _) = Event_PrepareSucceeded"
| "Event_Type (PrepareFailedEvent _) = Event_PrepareFailed"
| "Event_Type PreAssembleDependencyTerminatedEvent = Event_PreAssembleDependencyTerminated"

section \<open>Requests and timers\<close>

text \<open>
  \<^verbatim>\<open>common.IdempotentRequest\<close>. The send function of the Go struct is a closure; \<open>ir_capture\<close> holds what
  it captured, and the code that nudges the request supplies the rest.
\<close>

record 'c IdempotentRequest =
  ir_idempotencyKey :: uuid
  ir_requestTime :: "int option"
  ir_firstRequestTime :: "int option"
  ir_timeout :: int
  ir_capture :: 'c

text \<open>
  A timer of \<^verbatim>\<open>clock.ScheduleTimer\<close> is identified with the time it is due. It fires once, unless it is
  cancelled before; \<open>tm_fired\<close> tells whether it has. The cancel function a transaction keeps is the
  timer it belongs to.
\<close>

record Timer =
  tm_due :: int
  tm_fired :: bool

section \<open>Transactions\<close>

record PrivateTransaction =
  pt_ID :: uuid
  pt_Domain :: string
  pt_Address :: string
  pt_ChainedDependsOn :: "string list"
  pt_PostAssembly :: "PostAssembly option"
  pt_Signer :: string

record coordinatorTransaction =
  pt :: PrivateTransaction
  currentState :: State
  txLocked :: bool
  stateEntryTime :: int
  originator :: string
  originatorNode :: string
  nodeName :: string
  domainSigningIdentity :: string
  submitterSelection :: SubmitterSelection
  signerAddress :: "HexBytes option"
  latestSubmissionHash :: "HexBytes option"
  nonce :: "uint64 option"
  revertReason :: HexBytes
  decodedRevertReason :: string
  revertOnChain :: "OnChainLocation option"
  revertCount :: int
  lastCanRetryRevert :: bool
  assembleErrorCount :: int
  signErrorCount :: int
  endorseToleranceByRequirement :: "(string, int) gomap"
  endorseFailureCountByRequirement :: "string \<Rightarrow> int"
  endorseRevertCountByRequirement :: "string \<Rightarrow> int"
  endorseRevertReasons :: "string list"
  heartbeatIntervalsSinceStateChange :: int
  pendingAssembleRequest :: "unit IdempotentRequest option"
  assembleRequestID :: uuid
  cancelRequestTimeoutSchedule :: "Timer option"
  cancelStateTimeoutSchedule :: "Timer option"
  pendingEndorsementRequests ::
    "(string \<rightharpoonup> (string \<rightharpoonup> (string \<times> AttestationRequest) IdempotentRequest option)) option"
  pendingPreDispatchRequest :: "HexBytes IdempotentRequest option"
  inFlightPrepareID :: uuid
  cancelPrepare :: bool
  tx_blockHeightTolerance :: uint64
  requestTimeout :: int
  stateTimeout :: int
  finalizingGracePeriod :: int
  baseLedgerRevertRetryThreshold :: int
  assembleErrorRetryThreshhold :: int
  signErrorRetryThreshhold :: int

section \<open>The coordinator\<close>

datatype coordError =
    MsgSequencerTransactionNotFound uuid
  | MsgSequencerInternalError string
  | TransportError string
  | GrapherError grapherError
  | LocatorError locatorError
  | ResolveStatesError string
  | MsgSequencerMaxInflightTransactions

text \<open>
  Events of the coordinator's loop: those for one transaction (\<open>TxEvent\<close>) and its own
  (\<^verbatim>\<open>coordinator/events.go\<close>, \<^verbatim>\<open>common/events.go\<close>). The names of three of them are prefixed because the
  transactions have events of the same name.
\<close>

datatype CoordinatorEvent =
    TxEvent uuid Event
  | TransactionStateTransitionEvent uuid State State
  | EpochBoundaryReachedEvent
  | CoordinatorCreatedEvent
  | TransactionsDelegatedEvent (ev_FromNode: string) (ev_Originator: string) (ev_Transactions: "PrivateTransaction list")
      (ev_OriginatorsBlockHeight: uint64) (ev_DelegationID: string)
  | CoordRequestTimeoutIntervalEvent
  | CoordStateTimeoutIntervalEvent
  | HandoverRequestEvent string
  | RestartDispatchLoopEvent
  | EndorsementRequestReceivedEvent EndorsementRequestReceived
  | HeartbeatReceivedEvent string "CoordinatorSnapshot option"
  | CoordHeartbeatIntervalEvent

record environment =
  env_newUUID :: "nat \<Rightarrow> uuid"
  env_uuidString :: "uuid \<Rightarrow> string"
  env_parseUUID :: "string \<Rightarrow> uuid option"
  env_keccak256 :: "HexBytes \<Rightarrow> HexBytes"
  env_sendFails :: "nat \<Rightarrow> bool"
  env_IsBaseLedgerRevertRetryable :: "HexBytes \<Rightarrow> string + bool \<times> string"
  env_ResolveStatesForTransaction :: "TransactionPostAssembly \<Rightarrow> string + ResolvedStates"
  env_GetBlockHeight :: "nat \<Rightarrow> int"

record coordinator =
  env :: environment
  now :: int
  uuidsTaken :: nat
  sendsTried :: nat
  heightReads :: nat
  transactionsByID :: "uuid \<rightharpoonup> coordinatorTransaction"
  coordGrapher :: grapher
  stateViews :: "uuid views"
  outbox :: "(string \<times> Message) list"
  eventsInternal :: "CoordinatorEvent list"
  finalizes :: "TransactionFinalizeRequest list"
  dispatchQueue :: "(uuid \<times> PendingDispatch) list"
  preparesStarted :: "(uuid \<times> uuid) list"
  inFlightTxns :: "uuid list"
  currentBlockHeight :: int
  effectiveBlockHeight :: uint64
  coordinatorSelection :: CoordinatorSelection
  coordinatorSelectionBlockRange :: uint64
  endorserCandidates :: "string list"
  coordinatorPriorityList :: "string list"
  endorserNotifications :: "string list list"
  signingIdentity :: string
  signingIdentityUsed :: bool
  coordNodeName :: string

type_synonym result = "(coordError, coordinator) outcome"

end
