(* ===== verification/TransactionActions.thy ===== *)
theory TransactionActions
  imports CoordinatorTypes
begin

text \<open>
  The operations of a coordinator transaction, one definition per Go function of
  \<^verbatim>\<open>coordinator/transaction/*.go\<close>: what guards and validators read, what actions change. An action of
  transaction \<open>t\<close> runs in the coordinator record; \<open>txn t c\<close> is its struct. The struct's function field
  \<open>coordinatorTransactionHandleEvent\<close>, through which a transaction hands an event to another one while
  its own is still being processed, is the argument \<open>hev\<close>.

  A panic of the Go code (a failed type assertion, a nil map or pointer) never returns to the caller
  and is \<open>Stuck\<close>; in a validator it is the error \<open>goPanic\<close>.
\<close>

section \<open>Access to the coordinator record\<close>

definition txn :: "uuid \<Rightarrow> coordinator \<Rightarrow> coordinatorTransaction" where
  "txn t c = the (transactionsByID c t)"

definition updTxn :: "uuid \<Rightarrow> (coordinatorTransaction \<Rightarrow> coordinatorTransaction) \<Rightarrow> coordinator \<Rightarrow> coordinator" where
  "updTxn t f c = c\<lparr>transactionsByID := (transactionsByID c)(t := map_option f (transactionsByID c t))\<rparr>"

definition updGrapher :: "(grapher \<Rightarrow> grapher) \<Rightarrow> coordinator \<Rightarrow> coordinator" where
  "updGrapher f c = c\<lparr>coordGrapher := f (coordGrapher c)\<rparr>"

abbreviation deps :: "coordinator \<Rightarrow> dependencyTracker" where
  "deps c \<equiv> depTracker (coordGrapher c)"

definition updPreassemblyDeps :: "(dependencyChain \<Rightarrow> dependencyChain) \<Rightarrow> coordinator \<Rightarrow> coordinator" where
  "updPreassemblyDeps f =
     updGrapher (\<lambda>g. g\<lparr>depTracker := (depTracker g)\<lparr>preAssembly := f (preAssembly (depTracker g))\<rparr>\<rparr>)"

definition updChainedDeps :: "(chainedDependencies \<Rightarrow> chainedDependencies) \<Rightarrow> coordinator \<Rightarrow> coordinator" where
  "updChainedDeps f =
     updGrapher (\<lambda>g. g\<lparr>depTracker := (depTracker g)\<lparr>chained := f (chained (depTracker g))\<rparr>\<rparr>)"

definition newUUID :: "coordinator \<Rightarrow> uuid \<times> coordinator" where
  "newUUID c = (env_newUUID (env c) (uuidsTaken c), c\<lparr>uuidsTaken := Suc (uuidsTaken c)\<rparr>)"

definition transportSend :: "string \<Rightarrow> Message \<Rightarrow> coordinator \<Rightarrow> result" where
  "transportSend node msg c =
     (if env_sendFails (env c) (sendsTried c)
      then Fail (TransportError node) (c\<lparr>sendsTried := Suc (sendsTried c)\<rparr>)
      else Ok (c\<lparr>sendsTried := Suc (sendsTried c), outbox := outbox c @ [(node, msg)]\<rparr>))"

definition queueEventForCoordinator :: "CoordinatorEvent \<Rightarrow> coordinator \<Rightarrow> coordinator" where
  "queueEventForCoordinator ev c = c\<lparr>eventsInternal := eventsInternal c @ [ev]\<rparr>"

definition getCoordinatorTransactionState :: "uuid \<Rightarrow> coordinator \<Rightarrow> State option" where
  "getCoordinatorTransactionState t c = map_option currentState (transactionsByID c t)"

definition goPanic :: coordError where
  "goPanic = MsgSequencerInternalError ''panic''"

text \<open>Sending an event to a list of transactions: errors are logged, or stop the loop.\<close>

fun notifyLogged :: "(uuid \<Rightarrow> Event \<Rightarrow> coordinator \<Rightarrow> result) \<Rightarrow> Event \<Rightarrow> uuid list \<Rightarrow> coordinator \<Rightarrow> result" where
  "notifyLogged hev ev [] c = Ok c"
| "notifyLogged hev ev (d # ds) c = and_then (log_error (hev d ev c)) (notifyLogged hev ev ds)"

fun notifyUntilError :: "(uuid \<Rightarrow> Event \<Rightarrow> coordinator \<Rightarrow> result) \<Rightarrow> Event \<Rightarrow> uuid list \<Rightarrow> coordinator \<Rightarrow> result" where
  "notifyUntilError hev ev [] c = Ok c"
| "notifyUntilError hev ev (d # ds) c = and_then (hev d ev c) (notifyUntilError hev ev ds)"

section \<open>Messages with codes (i18n)\<close>

definition truncateMsg :: "string \<Rightarrow> nat \<Rightarrow> string" where
  "truncateMsg s limit = (if length s > limit then take (limit - 3) s @ ''...'' else s)"

definition expandWithCode :: "string \<Rightarrow> string \<Rightarrow> string" where
  "expandWithCode code txt = code @ '': '' @ txt"

definition msgDependencyFailed :: "coordinator \<Rightarrow> uuid \<Rightarrow> string" where
  "msgDependencyFailed c dep = truncateMsg (expandWithCode ''PD012256''
     (''Transaction dependency '' @ env_uuidString (env c) dep @ '' failed'')) 2048"

section \<open>Idempotent requests (common/request.go)\<close>

definition HasExpired :: "coordinator \<Rightarrow> int \<Rightarrow> int \<Rightarrow> bool" where
  "HasExpired c start duration = (\<not> now c < start + duration)"

definition NewIdempotentRequestWithKey :: "int \<Rightarrow> uuid \<Rightarrow> 'c \<Rightarrow> 'c IdempotentRequest" where
  "NewIdempotentRequestWithKey timeout key capture =
     \<lparr>ir_idempotencyKey = key, ir_requestTime = None, ir_firstRequestTime = None, ir_timeout = timeout,
      ir_capture = capture\<rparr>"

definition NewIdempotentRequest :: "int \<Rightarrow> 'c \<Rightarrow> coordinator \<Rightarrow> 'c IdempotentRequest \<times> coordinator" where
  "NewIdempotentRequest timeout capture c =
     (case newUUID c of (key, c1) \<Rightarrow> (NewIdempotentRequestWithKey timeout key capture, c1))"

definition Nudge :: "('c \<Rightarrow> uuid \<Rightarrow> coordinator \<Rightarrow> result) \<Rightarrow> 'c IdempotentRequest \<Rightarrow> coordinator
    \<Rightarrow> 'c IdempotentRequest \<times> result" where
  "Nudge send r c =
     (if (case ir_requestTime r of None \<Rightarrow> True | Some start \<Rightarrow> HasExpired c start (ir_timeout r))
      then (case send (ir_capture r) (ir_idempotencyKey r) c of
              Ok c1 \<Rightarrow> (r\<lparr>ir_requestTime := Some (now c1),
                         ir_firstRequestTime := (case ir_firstRequestTime r of None \<Rightarrow> Some (now c1) | f \<Rightarrow> f)\<rparr>, Ok c1)
            | Fail e c1 \<Rightarrow> (r, Fail e c1)
            | Stuck \<Rightarrow> (r, Stuck))
      else (r, Ok c))"

section \<open>Timeouts (timeouts.go)\<close>

definition clearRequestTimeoutSchedule :: "uuid \<Rightarrow> coordinator \<Rightarrow> coordinator" where
  "clearRequestTimeoutSchedule t = updTxn t (\<lambda>x. x\<lparr>cancelRequestTimeoutSchedule := None\<rparr>)"

definition clearStateTimeoutSchedule :: "uuid \<Rightarrow> coordinator \<Rightarrow> coordinator" where
  "clearStateTimeoutSchedule t = updTxn t (\<lambda>x. x\<lparr>cancelStateTimeoutSchedule := None\<rparr>)"

definition clearTimeoutSchedules :: "uuid \<Rightarrow> coordinator \<Rightarrow> coordinator" where
  "clearTimeoutSchedules t c = clearStateTimeoutSchedule t (clearRequestTimeoutSchedule t c)"

definition scheduleRequestTimeout :: "uuid \<Rightarrow> coordinator \<Rightarrow> coordinator" where
  "scheduleRequestTimeout t c = updTxn t
     (\<lambda>x. x\<lparr>cancelRequestTimeoutSchedule := Some \<lparr>tm_due = now c + requestTimeout x, tm_fired = False\<rparr>\<rparr>)
     (clearRequestTimeoutSchedule t c)"

definition scheduleStateTimeout :: "uuid \<Rightarrow> coordinator \<Rightarrow> coordinator" where
  "scheduleStateTimeout t c = updTxn t
     (\<lambda>x. x\<lparr>cancelStateTimeoutSchedule := Some \<lparr>tm_due = now c + stateTimeout x, tm_fired = False\<rparr>\<rparr>)
     (clearStateTimeoutSchedule t c)"

text \<open>A timer that is due and was not cancelled queues its event, once.\<close>

definition fireRequestTimeout :: "uuid \<Rightarrow> coordinator \<Rightarrow> coordinator option" where
  "fireRequestTimeout t c =
     (case transactionsByID c t of
        None \<Rightarrow> None
      | Some x \<Rightarrow> (case cancelRequestTimeoutSchedule x of
          None \<Rightarrow> None
        | Some tm \<Rightarrow> if tm_fired tm \<or> now c < tm_due tm then None
            else Some (queueEventForCoordinator (TxEvent t RequestTimeoutIntervalEvent)
              (updTxn t (\<lambda>x. x\<lparr>cancelRequestTimeoutSchedule := Some (tm\<lparr>tm_fired := True\<rparr>)\<rparr>) c))))"

definition fireStateTimeout :: "uuid \<Rightarrow> coordinator \<Rightarrow> coordinator option" where
  "fireStateTimeout t c =
     (case transactionsByID c t of
        None \<Rightarrow> None
      | Some x \<Rightarrow> (case cancelStateTimeoutSchedule x of
          None \<Rightarrow> None
        | Some tm \<Rightarrow> if tm_fired tm \<or> now c < tm_due tm then None
            else Some (queueEventForCoordinator (TxEvent t StateTimeoutIntervalEvent)
              (updTxn t (\<lambda>x. x\<lparr>cancelStateTimeoutSchedule := Some (tm\<lparr>tm_fired := True\<rparr>)\<rparr>) c))))"

definition action_ScheduleStateTimeout :: "uuid \<Rightarrow> Event \<Rightarrow> coordinator \<Rightarrow> result" where
  "action_ScheduleStateTimeout t ev c = Ok (scheduleStateTimeout t c)"

definition action_ClearStateTimeout :: "uuid \<Rightarrow> Event \<Rightarrow> coordinator \<Rightarrow> result" where
  "action_ClearStateTimeout t ev c = Ok (clearStateTimeoutSchedule t c)"

section \<open>The coordinator's functions a transaction calls\<close>

definition calculateCoordinatorPriorities :: "coordinator \<Rightarrow> coordinator" where
  "calculateCoordinatorPriorities c =
     (if coordinatorSelection c \<noteq> COORDINATOR_ENDORSER then c
      else c\<lparr>coordinatorPriorityList :=
               ComputeCoordinatorPriorityList (endorserCandidates c) (effectiveBlockHeight c)\<rparr>)"

definition refreshBlockHeight :: "coordinator \<Rightarrow> coordinator" where
  "refreshBlockHeight c =
     (let liveHeight = env_GetBlockHeight (env c) (heightReads c);
          c1 = c\<lparr>heightReads := Suc (heightReads c), currentBlockHeight := liveHeight\<rparr>;
          c2 = calculateCoordinatorPriorities (updGrapher (ForgetConfirmedLocks (word_of_int liveHeight)) c1);
          newEffective = ComputeEffectiveBlockHeight (word_of_int liveHeight) (coordinatorSelectionBlockRange c2)
      in if newEffective \<noteq> effectiveBlockHeight c2
         then queueEventForCoordinator EpochBoundaryReachedEvent (c2\<lparr>effectiveBlockHeight := newEffective\<rparr>)
         else c2)"

fun addCandidates :: "string list \<Rightarrow> string list \<Rightarrow> string list" where
  "addCandidates [] cs = cs"
| "addCandidates (n # ns) cs = addCandidates ns (if n \<in> set cs then cs else cs @ [n])"

definition updateEndorserCandidates :: "string list \<Rightarrow> coordinator \<Rightarrow> coordinator" where
  "updateEndorserCandidates nodes c =
     (if coordinatorSelection c \<noteq> COORDINATOR_ENDORSER then c
      else
        let cs = addCandidates [coordNodeName c] (addCandidates nodes (endorserCandidates c)) in
        if length cs > length (endorserCandidates c)
        then (let sorted_cs = sort cs in
              c\<lparr>endorserCandidates := sorted_cs,
                coordinatorPriorityList := ComputeCoordinatorPriorityList sorted_cs (effectiveBlockHeight c),
                endorserNotifications := endorserNotifications c @ [sorted_cs]\<rparr>)
        else c)"

definition setDispatchedInFlight :: "uuid \<Rightarrow> bool \<Rightarrow> coordinator \<Rightarrow> coordinator" where
  "setDispatchedInFlight t inFlight c =
     c\<lparr>inFlightTxns := (if inFlight then List.insert t (inFlightTxns c) else removeAll t (inFlightTxns c))\<rparr>"

definition enqueueForDispatch :: "uuid \<Rightarrow> PendingDispatch \<Rightarrow> coordinator \<Rightarrow> coordinator" where
  "enqueueForDispatch t prepared c = c\<lparr>dispatchQueue := dispatchQueue c @ [(t, prepared)]\<rparr>"

definition getCoordinatorSigningIdentity :: "coordinator \<Rightarrow> string \<times> coordinator" where
  "getCoordinatorSigningIdentity c = (signingIdentity c, c\<lparr>signingIdentityUsed := True\<rparr>)"

text \<open>A request to write the receipt of a failed transaction; the sync point retries until it is written.\<close>

definition queueTransactionFinalize ::
  "uuid \<Rightarrow> string \<Rightarrow> HexBytes \<Rightarrow> OnChainLocation option \<Rightarrow> coordinator \<Rightarrow> coordinator" where
  "queueTransactionFinalize t failureMessage revertData onChain c =
     c\<lparr>finalizes := finalizes c @ [\<lparr>fr_Originator = originator (txn t c), fr_TransactionID = t,
         fr_FailureMessage = failureMessage, fr_RevertData = revertData, fr_OnChain = onChain\<rparr>]\<rparr>"

definition sendTransactionConfirmed :: "uuid \<Rightarrow> TransactionConfirmed \<Rightarrow> coordinator \<Rightarrow> result" where
  "sendTransactionConfirmed t tc c =
     (case newUUID c of (i, c1) \<Rightarrow>
        transportSend (originatorNode (txn t c1)) (TransactionConfirmedMsg t i tc) c1)"

definition revertedOutcome :: "string \<Rightarrow> TransactionConfirmed" where
  "revertedOutcome failureMessage =
     \<lparr>tc_Outcome = OUTCOME_REVERTED, tc_Nonce = 0, tc_RevertReason = [], tc_FailureMessage = failureMessage,
      tc_WillRetry = False\<rparr>"

section \<open>Pooling (pooled.go)\<close>

definition CleanUpPostAssemblyData :: "uuid \<Rightarrow> coordinator \<Rightarrow> coordinator" where
  "CleanUpPostAssemblyData t = updTxn t (\<lambda>x. x\<lparr>pt := (pt x)\<lparr>pt_PostAssembly := None\<rparr>\<rparr>)"

definition resetEndorsementRequests :: "uuid \<Rightarrow> coordinator \<Rightarrow> coordinator" where
  "resetEndorsementRequests t c = updTxn t
     (\<lambda>x. x\<lparr>pendingEndorsementRequests := None, endorseFailureCountByRequirement := (\<lambda>_. 0),
            endorseRevertCountByRequirement := (\<lambda>_. 0), endorseRevertReasons := [],
            endorseToleranceByRequirement := []\<rparr>)
     (clearTimeoutSchedules t c)"

definition initializeForNewAssembly :: "uuid \<Rightarrow> coordinator \<Rightarrow> coordinator" where
  "initializeForNewAssembly t c =
     resetEndorsementRequests t (clearTimeoutSchedules t
       (updGrapher (ForgetTransactionAndLocks t)
         (updTxn t (\<lambda>x. x\<lparr>pendingPreDispatchRequest := None\<rparr>)
           (updChainedDeps (ForgetChainedChild t) (CleanUpPostAssemblyData t c)))))"

definition action_InitializeForNewAssembly :: "uuid \<Rightarrow> Event \<Rightarrow> coordinator \<Rightarrow> result" where
  "action_InitializeForNewAssembly t ev c = Ok (initializeForNewAssembly t c)"

definition action_ResetTransactionLocks :: "uuid \<Rightarrow> Event \<Rightarrow> coordinator \<Rightarrow> result" where
  "action_ResetTransactionLocks t ev c = Ok (updGrapher (ForgetTransactionAndLocks t) c)"

definition guard_HasUnassembledDependencies :: "uuid \<Rightarrow> coordinator \<Rightarrow> bool" where
  "guard_HasUnassembledDependencies t c \<longleftrightarrow>
     HasPrerequisite (preAssembly (deps c)) t \<or> HasUnassembledDependencies (chained (deps c)) t"

definition action_MarkChainedDependencyAssembled :: "uuid \<Rightarrow> Event \<Rightarrow> coordinator \<Rightarrow> result" where
  "action_MarkChainedDependencyAssembled t ev c =
     (case ev of
        DependencySelectedForAssemblyEvent sourceID \<Rightarrow>
          Ok (updChainedDeps (DeleteUnassembledDependencies t [sourceID]) c)
      | _ \<Rightarrow> Stuck)"

fun dependencySource :: "Event \<Rightarrow> uuid option" where
  "dependencySource (DependencySelectedForAssemblyEvent sourceID) = Some sourceID"
| "dependencySource (DependencyResetEvent sourceID) = Some sourceID"
| "dependencySource (DependencyConfirmedRevertedEvent sourceID) = Some sourceID"
| "dependencySource _ = None"

definition validator_IsChainedDependency :: "uuid \<Rightarrow> Event \<Rightarrow> coordinator \<Rightarrow> coordError + bool" where
  "validator_IsChainedDependency t ev c =
     (case dependencySource ev of
        None \<Rightarrow> Inr False
      | Some sourceID \<Rightarrow> Inr (sourceID \<in> set (GetPrerequisites (cd_chain (chained (deps c))) t)))"

definition action_MarkChainedDependencyUnassembled :: "uuid \<Rightarrow> Event \<Rightarrow> coordinator \<Rightarrow> result" where
  "action_MarkChainedDependencyUnassembled t ev c =
     (case ev of
        DependencyResetEvent sourceID \<Rightarrow> Ok (updChainedDeps (AddUnassembledDependencies t [sourceID]) c)
      | DependencyConfirmedRevertedEvent sourceID \<Rightarrow>
          Ok (updChainedDeps (AddUnassembledDependencies t [sourceID]) c)
      | _ \<Rightarrow> Ok c)"

definition notifyDependentsOfReset :: "(uuid \<Rightarrow> Event \<Rightarrow> coordinator \<Rightarrow> result) \<Rightarrow> uuid \<Rightarrow> coordinator \<Rightarrow> result" where
  "notifyDependentsOfReset hev t c =
     notifyLogged hev (DependencyResetEvent t)
       (GetDependents (postAssembly (deps c)) t @ GetDependents (cd_chain (chained (deps c))) t) c"

definition action_NotifyDependentsOfReset ::
  "(uuid \<Rightarrow> Event \<Rightarrow> coordinator \<Rightarrow> result) \<Rightarrow> uuid \<Rightarrow> Event \<Rightarrow> coordinator \<Rightarrow> result" where
  "action_NotifyDependentsOfReset hev t ev c =
     outcome_map (updGrapher (ForgetTransactionAndLocks t)) (notifyDependentsOfReset hev t c)"

definition chainedDependencyIn :: "State \<Rightarrow> uuid \<Rightarrow> coordinator \<Rightarrow> uuid option" where
  "chainedDependencyIn s t c =
     List.find (\<lambda>d. getCoordinatorTransactionState d c = Some s)
       (GetPrerequisites (cd_chain (chained (deps c))) t)"

definition guard_HasRevertedChainedDependency :: "uuid \<Rightarrow> coordinator \<Rightarrow> bool" where
  "guard_HasRevertedChainedDependency t c \<longleftrightarrow> chainedDependencyIn State_Reverted t c \<noteq> None"

definition guard_HasEvictedChainedDependency :: "uuid \<Rightarrow> coordinator \<Rightarrow> bool" where
  "guard_HasEvictedChainedDependency t c \<longleftrightarrow> chainedDependencyIn State_Evicted t c \<noteq> None"

definition action_FinalizeOnRevertedChainedDependencyAtCreation :: "uuid \<Rightarrow> Event \<Rightarrow> coordinator \<Rightarrow> result" where
  "action_FinalizeOnRevertedChainedDependencyAtCreation t ev c =
     (case chainedDependencyIn State_Reverted t c of
        None \<Rightarrow> Ok c
      | Some depID \<Rightarrow> Ok (queueTransactionFinalize t (msgDependencyFailed c depID) [] None c))"

definition action_NotifyOriginatorOfChainedDependencyFailureAtCreation ::
  "uuid \<Rightarrow> Event \<Rightarrow> coordinator \<Rightarrow> result" where
  "action_NotifyOriginatorOfChainedDependencyFailureAtCreation t ev c =
     (case chainedDependencyIn State_Reverted t c of
        None \<Rightarrow> Ok c
      | Some depID \<Rightarrow> sendTransactionConfirmed t (revertedOutcome (msgDependencyFailed c depID)) c)"

definition validator_IsPreAssembleDependency :: "uuid \<Rightarrow> Event \<Rightarrow> coordinator \<Rightarrow> coordError + bool" where
  "validator_IsPreAssembleDependency t ev c =
     (case ev of
        DependencySelectedForAssemblyEvent sourceID \<Rightarrow> Inr (GetPrerequisite (preAssembly (deps c)) t = Some sourceID)
      | _ \<Rightarrow> Inl goPanic)"

definition action_RemovePreAssembleDependency :: "uuid \<Rightarrow> Event \<Rightarrow> coordinator \<Rightarrow> result" where
  "action_RemovePreAssembleDependency t ev c = Ok (updPreassemblyDeps (ClearPrerequisite t) c)"

definition action_RemovePreAssemblePrereqOf :: "uuid \<Rightarrow> Event \<Rightarrow> coordinator \<Rightarrow> result" where
  "action_RemovePreAssemblePrereqOf t ev c = Ok (updPreassemblyDeps (ClearDependent t) c)"

section \<open>Assembling (assembling.go)\<close>

definition revertTransactionFailedAssembly :: "uuid \<Rightarrow> string \<Rightarrow> coordinator \<Rightarrow> coordinator" where
  "revertTransactionFailedAssembly t reason c = queueTransactionFinalize t reason [] None c"

definition recordOutputStateVisibility :: "uuid \<Rightarrow> coordinator \<Rightarrow> result" where
  "recordOutputStateVisibility t c =
     (case pt_PostAssembly (pt (txn t c)) of
        None \<Rightarrow> Stuck
      | Some pa \<Rightarrow>
          let outputs = OutputStates pa; potentials = pa_OutputStatesPotential (AssembleResponse pa) in
          if length outputs \<le> length (OutputStatesWithLabels pa) \<and> length outputs \<le> length potentials
          then Ok (updGrapher (\<lambda>g. g\<lparr>stateVisibilityTracker :=
                 RecordAssemblyOutput outputs (take (length outputs) (OutputStatesWithLabels pa))
                   (map ns_DistributionList (take (length outputs) potentials)) (\<lambda>_. now c)
                   (stateVisibilityTracker g)\<rparr>) c)
          else Stuck)"

definition liftGrapher :: "(grapherError, grapher) outcome \<Rightarrow> coordinator \<Rightarrow> result" where
  "liftGrapher r c =
     (case r of
        Ok g \<Rightarrow> Ok (c\<lparr>coordGrapher := g\<rparr>)
      | Fail e g \<Rightarrow> Fail (GrapherError e) (c\<lparr>coordGrapher := g\<rparr>)
      | Stuck \<Rightarrow> Stuck)"

definition setPostAssembly :: "uuid \<Rightarrow> PostAssembly \<Rightarrow> coordinator \<Rightarrow> coordinator" where
  "setPostAssembly t pa = updTxn t (\<lambda>x. x\<lparr>pt := (pt x)\<lparr>pt_PostAssembly := Some pa\<rparr>\<rparr>)"

definition revertedAssembly :: "string \<Rightarrow> TransactionPostAssembly" where
  "revertedAssembly reason =
     \<lparr>pa_AssemblyResult = ASSEMBLE_REVERT, pa_OutputStatesPotential = [], pa_InputStates = [], pa_ReadStates = [],
      pa_AttestationPlan = [], pa_Signatures = [], pa_Endorsements = [], pa_RevertReason = Some reason,
      pa_ResolvedVerifiers = []\<rparr>"

definition applyPostAssembly :: "uuid \<Rightarrow> TransactionPostAssembly \<Rightarrow> uuid \<Rightarrow> coordinator \<Rightarrow> result" where
  "applyPostAssembly t response requestID c =
     (let pa0 = \<lparr>AssembleResponse = response, OutputStates = [], OutputStatesWithLabels = [], InfoStates = [],
                 CollectedEndorsements = pa_Endorsements response\<rparr>;
          c1 = clearTimeoutSchedules t (setPostAssembly t pa0 c)
      in case pa_AssemblyResult response of
           ASSEMBLE_REVERT \<Rightarrow>
             Ok (revertTransactionFailedAssembly t (expandWithCode ''PD012616''
               (''Domain reverted transaction on assemble: '' @
                (case pa_RevertReason response of None \<Rightarrow> [] | Some r \<Rightarrow> r))) c1)
         | ASSEMBLE_PARK \<Rightarrow> Ok c1
         | ASSEMBLE_OK \<Rightarrow>
             (case env_ResolveStatesForTransaction (env c1) response of
                Inl err \<Rightarrow>
                  (let reason = expandWithCode ''PD012601'' (''Distributed sequencer internal error: '' @ err)
                   in Fail (ResolveStatesError err)
                        (revertTransactionFailedAssembly t reason
                          (queueEventForCoordinator (TxEvent t (AssembleRevertEvent (revertedAssembly reason) requestID)) c1)))
              | Inr rs \<Rightarrow>
                  (let pa = pa0\<lparr>OutputStates := rs_OutputStates rs,
                       OutputStatesWithLabels := rs_OutputStatesWithLabels rs, InfoStates := rs_InfoStates rs\<rparr>;
                       c2 = setPostAssembly t pa c1
                   in and_then (liftGrapher (AddMinter (OutputStates pa) t (coordGrapher c2)) c2)
                        (\<lambda>c3. and_then (recordOutputStateVisibility t c3)
                          (\<lambda>c4. Ok (updGrapher
                             (\<lambda>g. LockMintsOnReadAndSpend (pa_ReadStates response) (pa_InputStates response) t
                                    (LockMintsOnCreate (OutputStates pa) t g)) c4))))))"

definition sendAssemble :: "uuid \<Rightarrow> unit \<Rightarrow> uuid \<Rightarrow> coordinator \<Rightarrow> result" where
  "sendAssemble t captured idempotencyKey c =
     transportSend (originatorNode (txn t c))
       (AssembleRequest t idempotencyKey (currentBlockHeight c) (now c + stateTimeout (txn t c))
          (sint (tx_blockHeightTolerance (txn t c)))) c"

definition nudgeAssembleRequest :: "uuid \<Rightarrow> coordinator \<Rightarrow> result" where
  "nudgeAssembleRequest t c =
     (case pendingAssembleRequest (txn t c) of
        None \<Rightarrow> Fail (MsgSequencerInternalError ''nudgeAssembleRequest called with no pending request'') c
      | Some r \<Rightarrow> (case Nudge (sendAssemble t) r c of
          (r', res) \<Rightarrow> outcome_map (updTxn t (\<lambda>x. x\<lparr>pendingAssembleRequest := Some r'\<rparr>)) res))"

definition sendAssembleRequest :: "uuid \<Rightarrow> coordinator \<Rightarrow> result" where
  "sendAssembleRequest t c =
     nudgeAssembleRequest t
       (scheduleRequestTimeout t
         (updTxn t (\<lambda>x. x\<lparr>pendingAssembleRequest :=
            Some (NewIdempotentRequestWithKey (requestTimeout x) (assembleRequestID x) ())\<rparr>) c))"

definition notifyDependentsOfSelection :: "(uuid \<Rightarrow> Event \<Rightarrow> coordinator \<Rightarrow> result) \<Rightarrow> uuid \<Rightarrow> coordinator \<Rightarrow> result" where
  "notifyDependentsOfSelection hev t c =
     notifyUntilError hev (DependencySelectedForAssemblyEvent t)
       (GetDependents (cd_chain (chained (deps c))) t @
        (case GetDependent (preAssembly (deps c)) t of None \<Rightarrow> [] | Some d \<Rightarrow> [d])) c"

definition action_NotifyDependentsOfSelection ::
  "(uuid \<Rightarrow> Event \<Rightarrow> coordinator \<Rightarrow> result) \<Rightarrow> uuid \<Rightarrow> Event \<Rightarrow> coordinator \<Rightarrow> result" where
  "action_NotifyDependentsOfSelection hev t ev c = notifyDependentsOfSelection hev t c"

text \<open>Events without a request identifier compare with the zero value of the Go variable.\<close>

fun assembleRequestIDOf :: "Event \<Rightarrow> uuid" where
  "assembleRequestIDOf (AssembleSuccessEvent _ r) = r"
| "assembleRequestIDOf (AssembleRevertEvent _ r) = r"
| "assembleRequestIDOf (AssembleErrorEvent r) = r"
| "assembleRequestIDOf (SignedEvent _ _ r) = r"
| "assembleRequestIDOf (SignErrorEvent r) = r"
| "assembleRequestIDOf _ = uuid_Nil"

definition validator_MatchesPendingAssembleRequest :: "uuid \<Rightarrow> Event \<Rightarrow> coordinator \<Rightarrow> coordError + bool" where
  "validator_MatchesPendingAssembleRequest t ev c =
     (case pendingAssembleRequest (txn t c) of
        None \<Rightarrow> Inr False
      | Some r \<Rightarrow> Inr (ir_idempotencyKey r = assembleRequestIDOf ev))"

definition validator_SignedCarriesAssembly :: "uuid \<Rightarrow> Event \<Rightarrow> coordinator \<Rightarrow> coordError + bool" where
  "validator_SignedCarriesAssembly t ev c =
     (case ev of SignedEvent _ pa _ \<Rightarrow> Inr (pa \<noteq> None) | _ \<Rightarrow> Inl goPanic)"

definition action_AssembleSuccess :: "uuid \<Rightarrow> Event \<Rightarrow> coordinator \<Rightarrow> result" where
  "action_AssembleSuccess t ev c =
     (case ev of AssembleSuccessEvent pa r \<Rightarrow> applyPostAssembly t pa r c | _ \<Rightarrow> Stuck)"

definition action_AssembleRevertResponse :: "uuid \<Rightarrow> Event \<Rightarrow> coordinator \<Rightarrow> result" where
  "action_AssembleRevertResponse t ev c =
     (case ev of AssembleRevertEvent pa r \<Rightarrow> applyPostAssembly t pa r c | _ \<Rightarrow> Stuck)"

definition guard_CanRetryErroredAssemble :: "uuid \<Rightarrow> coordinator \<Rightarrow> bool" where
  "guard_CanRetryErroredAssemble t c \<longleftrightarrow> assembleErrorCount (txn t c) \<le> assembleErrorRetryThreshhold (txn t c)"

definition guard_CanRetryErroredSign :: "uuid \<Rightarrow> coordinator \<Rightarrow> bool" where
  "guard_CanRetryErroredSign t c \<longleftrightarrow> signErrorCount (txn t c) \<le> signErrorRetryThreshhold (txn t c)"

definition action_AssembleError :: "uuid \<Rightarrow> Event \<Rightarrow> coordinator \<Rightarrow> result" where
  "action_AssembleError t ev c = Ok (updTxn t (\<lambda>x. x\<lparr>assembleErrorCount := assembleErrorCount x + 1\<rparr>) c)"

definition action_SendAssembleRequest :: "uuid \<Rightarrow> Event \<Rightarrow> coordinator \<Rightarrow> result" where
  "action_SendAssembleRequest t ev c = sendAssembleRequest t c"

definition action_CaptureGrapherSnapshot :: "uuid \<Rightarrow> Event \<Rightarrow> coordinator \<Rightarrow> result" where
  "action_CaptureGrapherSnapshot t ev c =
     (case newUUID c of (i, c1) \<Rightarrow>
        (let c2 = updTxn t (\<lambda>x. x\<lparr>assembleRequestID := i\<rparr>) c1
         in Ok (c2\<lparr>stateViews := CaptureSnapshot i (originatorNode (txn t c2)) (coordGrapher c2) (stateViews c2)\<rparr>)))"

definition action_DeleteGrapherSnapshot :: "uuid \<Rightarrow> Event \<Rightarrow> coordinator \<Rightarrow> result" where
  "action_DeleteGrapherSnapshot t ev c =
     Ok (c\<lparr>stateViews := DeleteSnapshot (assembleRequestID (txn t c)) (stateViews c)\<rparr>)"

definition action_NudgeAssembleRequest :: "uuid \<Rightarrow> Event \<Rightarrow> coordinator \<Rightarrow> result" where
  "action_NudgeAssembleRequest t ev c = nudgeAssembleRequest t c"

definition action_LogAssembleRejection :: "uuid \<Rightarrow> Event \<Rightarrow> coordinator \<Rightarrow> result" where
  "action_LogAssembleRejection t ev c =
     (case ev of AssembleRequestRejectedEvent _ _ \<Rightarrow> Ok c | _ \<Rightarrow> Stuck)"

definition validator_IsAssembleRejection ::
  "RejectionReason list \<Rightarrow> Event \<Rightarrow> coordinator \<Rightarrow> coordError + bool" where
  "validator_IsAssembleRejection reasons ev c =
     (case ev of AssembleRequestRejectedEvent _ reason \<Rightarrow> Inr (reason \<in> set reasons) | _ \<Rightarrow> Inl goPanic)"

section \<open>Signing (signing.go)\<close>

definition verifierLookup :: "AttestationResult \<Rightarrow> string" where
  "verifierLookup r = (case at_Verifier r of None \<Rightarrow> [] | Some v \<Rightarrow> rv_Lookup v)"

definition applySignature :: "uuid \<Rightarrow> AttestationResult option \<Rightarrow> coordinator \<Rightarrow> result" where
  "applySignature t signature c =
     (case signature of
        None \<Rightarrow> Ok c
      | Some sig \<Rightarrow>
          (case pt_PostAssembly (pt (txn t c)) of
             None \<Rightarrow> Stuck
           | Some pa \<Rightarrow>
               let sigs = pa_Signatures (AssembleResponse pa) in
               if \<exists>s \<in> set sigs. at_Name s = at_Name sig \<and> verifierLookup s = verifierLookup sig then Ok c
               else Ok (setPostAssembly t
                      (pa\<lparr>AssembleResponse := (AssembleResponse pa)\<lparr>pa_Signatures := sigs @ [sig]\<rparr>\<rparr>) c)))"

definition hasOriginatorParty :: "string \<Rightarrow> AttestationRequest \<Rightarrow> bool" where
  "hasOriginatorParty node ar \<longleftrightarrow>
     (\<exists>party \<in> set (ar_Parties ar).
        case Validate party node True of Inl _ \<Rightarrow> False | Inr (_, signerNode) \<Rightarrow> signerNode = node)"

definition unfulfilledSignRequirements :: "coordinatorTransaction \<Rightarrow> AttestationRequest list" where
  "unfulfilledSignRequirements x =
     (case pt_PostAssembly (pt x) of
        None \<Rightarrow> []
      | Some pa \<Rightarrow>
          filter (\<lambda>ar. ar_AttestationType ar = SIGN \<and> hasOriginatorParty (originatorNode x) ar
                     \<and> \<not> (\<exists>s \<in> set (pa_Signatures (AssembleResponse pa)). at_Name s = ar_Name ar))
            (pa_AttestationPlan (AssembleResponse pa)))"

definition guard_SignRequirementsFulfilled :: "uuid \<Rightarrow> coordinator \<Rightarrow> bool" where
  "guard_SignRequirementsFulfilled t c \<longleftrightarrow> unfulfilledSignRequirements (txn t c) = []"

definition action_Signed :: "uuid \<Rightarrow> Event \<Rightarrow> coordinator \<Rightarrow> result" where
  "action_Signed t ev c = (case ev of SignedEvent sig _ _ \<Rightarrow> applySignature t sig c | _ \<Rightarrow> Stuck)"

definition action_AssembleAndSign :: "uuid \<Rightarrow> Event \<Rightarrow> coordinator \<Rightarrow> result" where
  "action_AssembleAndSign t ev c =
     (case ev of
        SignedEvent sig (Some pa) r \<Rightarrow> and_then (applyPostAssembly t pa r c) (applySignature t sig)
      | _ \<Rightarrow> Stuck)"

definition action_SignError :: "uuid \<Rightarrow> Event \<Rightarrow> coordinator \<Rightarrow> result" where
  "action_SignError t ev c = Ok (updTxn t (\<lambda>x. x\<lparr>signErrorCount := signErrorCount x + 1\<rparr>) c)"

section \<open>Endorsing (endorsing.go)\<close>

text \<open>
  The Go code dereferences the verifier of every collected endorsement. The validator of the endorsed
  event makes sure of those received later; for one that came with the assembly and lacks a verifier
  the code panics, and the model reads empty strings.
\<close>

definition at_VerifierType :: "AttestationResult \<Rightarrow> string" where
  "at_VerifierType r = (case at_Verifier r of None \<Rightarrow> [] | Some v \<Rightarrow> rv_VerifierType v)"

definition effectiveThreshold :: "AttestationRequest \<Rightarrow> int" where
  "effectiveThreshold ar =
     (let threshold = (case ar_Threshold ar of None \<Rightarrow> 0 | Some k \<Rightarrow> k)
      in if threshold = 0 then int (length (ar_Parties ar)) else threshold)"

definition receivedCount :: "AttestationRequest \<Rightarrow> AttestationResult list \<Rightarrow> int" where
  "receivedCount ar es =
     int (length (filter (\<lambda>e. at_Name e = ar_Name ar \<and> ar_VerifierType ar = at_VerifierType e) es))"

definition endorsedBy :: "AttestationRequest \<Rightarrow> AttestationResult list \<Rightarrow> string \<Rightarrow> bool" where
  "endorsedBy ar es party \<longleftrightarrow>
     (\<exists>e \<in> set es. at_Name e = ar_Name ar \<and> party = verifierLookup e \<and> ar_VerifierType ar = at_VerifierType e)"

definition outstandingParties :: "AttestationResult list \<Rightarrow> AttestationRequest \<Rightarrow> string list" where
  "outstandingParties es ar =
     (if ar_AttestationType ar \<noteq> ENDORSE then []
      else if effectiveThreshold ar - receivedCount ar es \<le> 0 then []
      else filter (\<lambda>party. \<not> endorsedBy ar es party) (ar_Parties ar))"

definition unfulfilledEndorsementRequirements :: "coordinatorTransaction \<Rightarrow> (AttestationRequest \<times> string) list" where
  "unfulfilledEndorsementRequirements x =
     (case pt_PostAssembly (pt x) of
        None \<Rightarrow> []
      | Some pa \<Rightarrow>
          concat (map (\<lambda>ar. map (Pair ar) (outstandingParties (CollectedEndorsements pa) ar))
            (pa_AttestationPlan (AssembleResponse pa))))"

definition hasUnfulfilledEndorsementRequirements :: "coordinatorTransaction \<Rightarrow> bool" where
  "hasUnfulfilledEndorsementRequirements x \<longleftrightarrow> length (unfulfilledEndorsementRequirements x) > 0"

definition guard_AttestationPlanFulfilled :: "uuid \<Rightarrow> coordinator \<Rightarrow> bool" where
  "guard_AttestationPlanFulfilled t c \<longleftrightarrow> \<not> hasUnfulfilledEndorsementRequirements (txn t c)"

text \<open>Writing one entry of the nested map of pending requests; writing into an absent inner map panics.\<close>

definition setPendingEndorsement :: "uuid \<Rightarrow> string \<Rightarrow> string
    \<Rightarrow> (string \<times> AttestationRequest) IdempotentRequest option \<Rightarrow> coordinator \<Rightarrow> coordinator" where
  "setPendingEndorsement t name party r = updTxn t
     (\<lambda>x. x\<lparr>pendingEndorsementRequests :=
        map_option (\<lambda>m. m(name := Some ((case m name of None \<Rightarrow> Map.empty | Some inner \<Rightarrow> inner)(party \<mapsto> r))))
          (pendingEndorsementRequests x)\<rparr>)"

definition pendingEndorsement :: "coordinatorTransaction \<Rightarrow> string \<Rightarrow> string
    \<Rightarrow> (string \<times> AttestationRequest) IdempotentRequest option option" where
  "pendingEndorsement x name party =
     (case pendingEndorsementRequests x of
        None \<Rightarrow> None
      | Some m \<Rightarrow> (case m name of None \<Rightarrow> None | Some inner \<Rightarrow> inner party))"

definition applyEndorsement :: "uuid \<Rightarrow> AttestationResult \<Rightarrow> coordinator \<Rightarrow> result" where
  "applyEndorsement t endorsement c =
     (case pt_PostAssembly (pt (txn t c)) of
        None \<Rightarrow> Stuck
      | Some pa \<Rightarrow>
          Ok (setPostAssembly t (pa\<lparr>CollectedEndorsements := CollectedEndorsements pa @ [endorsement]\<rparr>)
            (updTxn t (\<lambda>x. x\<lparr>pendingEndorsementRequests :=
               map_option (\<lambda>m. m(at_Name endorsement :=
                  map_option (\<lambda>inner. inner(verifierLookup endorsement := None)) (m (at_Name endorsement))))
                 (pendingEndorsementRequests x)\<rparr>) c)))"

fun dedupeNodes :: "string list \<Rightarrow> string list \<Rightarrow> string list" where
  "dedupeNodes [] nodes = nodes"
| "dedupeNodes (party # ps) nodes =
     (case Node party False of
        Inl _ \<Rightarrow> dedupeNodes ps nodes
      | Inr node \<Rightarrow> dedupeNodes ps (if node \<in> set nodes then nodes else nodes @ [node]))"

definition extractEndorserNodes :: "coordinatorTransaction \<Rightarrow> string list" where
  "extractEndorserNodes x =
     (case pt_PostAssembly (pt x) of
        None \<Rightarrow> []
      | Some pa \<Rightarrow> dedupeNodes (concat (map ar_Parties
          (filter (\<lambda>ar. ar_AttestationType ar = ENDORSE) (pa_AttestationPlan (AssembleResponse pa))))) [])"

definition requestEndorsement :: "uuid \<Rightarrow> string \<times> AttestationRequest \<Rightarrow> uuid \<Rightarrow> coordinator \<Rightarrow> result" where
  "requestEndorsement t captured key c =
     (case captured of (party, ar) \<Rightarrow>
       (case Node party False of
          Inl e \<Rightarrow> Fail (LocatorError e) c
        | Inr partyNode \<Rightarrow>
            (case pt_PostAssembly (pt (txn t c)) of
               None \<Rightarrow> Stuck
             | Some pa \<Rightarrow>
                 transportSend partyNode
                   (EndorsementRequest t key ar party (pa_Signatures (AssembleResponse pa))
                      (pa_InputStates (AssembleResponse pa)) (pa_ReadStates (AssembleResponse pa))
                      (OutputStates pa) (InfoStates pa) (now c + stateTimeout (txn t c)) (currentBlockHeight c)
                      (sint (tx_blockHeightTolerance (txn t c)))) c)))"

definition nudgeRequirement :: "uuid \<Rightarrow> AttestationRequest \<times> string \<Rightarrow> coordinator \<Rightarrow> result" where
  "nudgeRequirement t req c =
     (case req of (ar, party) \<Rightarrow>
       (case pendingEndorsement (txn t c) (ar_Name ar) party of
          Some None \<Rightarrow> Ok c
        | Some (Some r) \<Rightarrow>
            (case Nudge (requestEndorsement t) r c of (r', res) \<Rightarrow>
               log_error (outcome_map (setPendingEndorsement t (ar_Name ar) party (Some r')) res))
        | None \<Rightarrow>
            (case NewIdempotentRequest (requestTimeout (txn t c)) (party, ar) c of (r, c1) \<Rightarrow>
              (case Nudge (requestEndorsement t) r (setPendingEndorsement t (ar_Name ar) party (Some r) c1) of (r', res) \<Rightarrow>
                 log_error (outcome_map (setPendingEndorsement t (ar_Name ar) party (Some r')) res)))))"

fun nudgeRequirements :: "uuid \<Rightarrow> (AttestationRequest \<times> string) list \<Rightarrow> coordinator \<Rightarrow> result" where
  "nudgeRequirements t [] c = Ok c"
| "nudgeRequirements t (r # rs) c = and_then (nudgeRequirement t r c) (nudgeRequirements t rs)"

definition sendEndorsementRequests :: "uuid \<Rightarrow> coordinator \<Rightarrow> result" where
  "sendEndorsementRequests t c =
     (case pt_PostAssembly (pt (txn t c)) of
        None \<Rightarrow> Stuck
      | Some _ \<Rightarrow>
          (let c1 = (if pendingEndorsementRequests (txn t c) = None
                     then updateEndorserCandidates (extractEndorserNodes (txn t c))
                            (updTxn t (\<lambda>x. x\<lparr>pendingEndorsementRequests := Some Map.empty\<rparr>) (scheduleRequestTimeout t c))
                     else c)
           in nudgeRequirements t (unfulfilledEndorsementRequirements (txn t c1)) c1))"

definition action_Endorsed :: "uuid \<Rightarrow> Event \<Rightarrow> coordinator \<Rightarrow> result" where
  "action_Endorsed t ev c =
     (case ev of EndorsedEvent (Some endorsement) _ \<Rightarrow> applyEndorsement t endorsement c | _ \<Rightarrow> Stuck)"

definition action_RefreshBlockHeight :: "uuid \<Rightarrow> Event \<Rightarrow> coordinator \<Rightarrow> result" where
  "action_RefreshBlockHeight t ev c = Ok (refreshBlockHeight c)"

definition action_SendEndorsementRequests :: "uuid \<Rightarrow> Event \<Rightarrow> coordinator \<Rightarrow> result" where
  "action_SendEndorsementRequests t ev c = sendEndorsementRequests t c"

definition action_NudgeEndorsementRequests :: "uuid \<Rightarrow> Event \<Rightarrow> coordinator \<Rightarrow> result" where
  "action_NudgeEndorsementRequests t ev c = sendEndorsementRequests t c"

definition action_ResetEndorsementRequests :: "uuid \<Rightarrow> Event \<Rightarrow> coordinator \<Rightarrow> result" where
  "action_ResetEndorsementRequests t ev c = Ok (resetEndorsementRequests t c)"

definition guard_EndorseFailureExceedsTolerance :: "uuid \<Rightarrow> coordinator \<Rightarrow> bool" where
  "guard_EndorseFailureExceedsTolerance t c \<longleftrightarrow>
     (\<exists>(reqName, tolerance) \<in> set (endorseToleranceByRequirement (txn t c)).
        endorseFailureCountByRequirement (txn t c) reqName > tolerance)"

definition guard_EndorseRevertExceedsTolerance :: "uuid \<Rightarrow> coordinator \<Rightarrow> bool" where
  "guard_EndorseRevertExceedsTolerance t c \<longleftrightarrow>
     (\<exists>(reqName, tolerance) \<in> set (endorseToleranceByRequirement (txn t c)).
        endorseRevertCountByRequirement (txn t c) reqName > tolerance)"

fun joinStrings :: "string \<Rightarrow> string list \<Rightarrow> string" where
  "joinStrings sep [] = []"
| "joinStrings sep [s] = s"
| "joinStrings sep (s # ss) = s @ sep @ joinStrings sep ss"

definition endorseRevertFailureMessage :: "coordinatorTransaction \<Rightarrow> string" where
  "endorseRevertFailureMessage x = expandWithCode ''PD012649''
     (''Domain reverted transaction on endorse: '' @ joinStrings ''; '' (endorseRevertReasons x))"

definition action_NotifyOriginatorOfEndorseRevert :: "uuid \<Rightarrow> Event \<Rightarrow> coordinator \<Rightarrow> result" where
  "action_NotifyOriginatorOfEndorseRevert t ev c =
     sendTransactionConfirmed t (revertedOutcome (endorseRevertFailureMessage (txn t c))) c"

definition action_FinalizeEndorseRevert :: "uuid \<Rightarrow> Event \<Rightarrow> coordinator \<Rightarrow> result" where
  "action_FinalizeEndorseRevert t ev c =
     Ok (queueTransactionFinalize t (endorseRevertFailureMessage (txn t c)) [] None c)"

text \<open>The requirement, party and request identifier an endorsement outcome is about.\<close>

fun endorsementOutcome :: "Event \<Rightarrow> (string \<times> string \<times> uuid) option" where
  "endorsementOutcome (EndorsedEvent (Some e) r) =
     (case at_Verifier e of None \<Rightarrow> None | Some v \<Rightarrow> Some (at_Name e, rv_Lookup v, r))"
| "endorsementOutcome (EndorseErrorEvent r party name) = Some (name, party, r)"
| "endorsementOutcome (EndorseRequestRejectedEvent party name r _) = Some (name, party, r)"
| "endorsementOutcome (EndorseRevertEvent party _ name r) = Some (name, party, r)"
| "endorsementOutcome _ = None"

definition validator_MatchesPendingEndorsementRequest :: "uuid \<Rightarrow> Event \<Rightarrow> coordinator \<Rightarrow> coordError + bool" where
  "validator_MatchesPendingEndorsementRequest t ev c =
     (case endorsementOutcome ev of
        None \<Rightarrow> Inr False
      | Some (reqName, party, requestID) \<Rightarrow>
          (case pendingEndorsement (txn t c) reqName party of
             Some (Some r) \<Rightarrow> Inr (ir_idempotencyKey r = requestID)
           | _ \<Rightarrow> Inr False))"

text \<open>The failing requirement and party, and the reason of a revert.\<close>

fun endorseFailure :: "Event \<Rightarrow> string \<times> string \<times> string option" where
  "endorseFailure (EndorseErrorEvent r party name) = (name, party, None)"
| "endorseFailure (EndorseRequestRejectedEvent party name r _) = (name, party, None)"
| "endorseFailure (EndorseRevertEvent party reason name r) = (name, party, Some reason)"
| "endorseFailure _ = ([], [], None)"

definition action_RecordEndorseFailure :: "uuid \<Rightarrow> Event \<Rightarrow> coordinator \<Rightarrow> result" where
  "action_RecordEndorseFailure t ev c =
     (case endorseFailure ev of (reqName, party, reverted) \<Rightarrow>
        if party = [] then Ok c
        else if (case pendingEndorsementRequests (txn t c) of None \<Rightarrow> True | Some m \<Rightarrow> m reqName = None) then Stuck
        else
          (let c1 = updTxn t (\<lambda>x. x\<lparr>endorseFailureCountByRequirement :=
                  (endorseFailureCountByRequirement x)(reqName := endorseFailureCountByRequirement x reqName + 1)\<rparr>)
                (setPendingEndorsement t reqName party None c)
           in Ok (case reverted of
                None \<Rightarrow> c1
              | Some reason \<Rightarrow> updTxn t (\<lambda>x. x\<lparr>endorseRevertCountByRequirement :=
                     (endorseRevertCountByRequirement x)(reqName := endorseRevertCountByRequirement x reqName + 1),
                   endorseRevertReasons := endorseRevertReasons x @ [''['' @ party @ ''] '' @ reason]\<rparr>) c1)))"

definition computeTolerances :: "coordinatorTransaction \<Rightarrow> (string, int) gomap" where
  "computeTolerances x =
     (case pt_PostAssembly (pt x) of
        None \<Rightarrow> []
      | Some pa \<Rightarrow>
          fold (\<lambda>ar m. if ar_AttestationType ar \<noteq> ENDORSE then m
                       else go_set (ar_Name ar) (int (length (ar_Parties ar)) - effectiveThreshold ar) m)
            (pa_AttestationPlan (AssembleResponse pa)) [])"

definition action_ComputeEndorseTolerances :: "uuid \<Rightarrow> Event \<Rightarrow> coordinator \<Rightarrow> result" where
  "action_ComputeEndorseTolerances t ev c =
     Ok (updTxn t (\<lambda>x. x\<lparr>endorseToleranceByRequirement := computeTolerances x\<rparr>) c)"

section \<open>Confirming dispatch (confirming\_dispatch.go)\<close>

definition completePreDispatchRequest :: "uuid \<Rightarrow> coordinator \<Rightarrow> coordinator" where
  "completePreDispatchRequest t c =
     clearTimeoutSchedules t (updTxn t (\<lambda>x. x\<lparr>pendingPreDispatchRequest := None\<rparr>) c)"

definition txHash :: "uuid \<Rightarrow> coordinator \<Rightarrow> coordError + HexBytes" where
  "txHash t c =
     (case pt_PostAssembly (pt (txn t c)) of
        None \<Rightarrow> Inl (MsgSequencerInternalError ''Cannot hash transaction without PostAssembly'')
      | Some pa \<Rightarrow> Inr (env_keccak256 (env c) (concat (map at_Payload (pa_Signatures (AssembleResponse pa))))))"

definition sendPreDispatch :: "uuid \<Rightarrow> HexBytes \<Rightarrow> uuid \<Rightarrow> coordinator \<Rightarrow> result" where
  "sendPreDispatch t hash key c = transportSend (originatorNode (txn t c)) (PreDispatchRequest t key hash) c"

definition nudgePreDispatchRequest :: "uuid \<Rightarrow> coordinator \<Rightarrow> result" where
  "nudgePreDispatchRequest t c =
     (case pendingPreDispatchRequest (txn t c) of
        None \<Rightarrow> Fail (MsgSequencerInternalError ''nudgePreDispatchRequest called with no pending request'') c
      | Some r \<Rightarrow> (case Nudge (sendPreDispatch t) r c of (r', res) \<Rightarrow>
          outcome_map (updTxn t (\<lambda>x. x\<lparr>pendingPreDispatchRequest := Some r'\<rparr>)) res))"

definition sendPreDispatchRequest :: "uuid \<Rightarrow> coordinator \<Rightarrow> result" where
  "sendPreDispatchRequest t c =
     (case pendingPreDispatchRequest (txn t c) of
        Some _ \<Rightarrow> nudgePreDispatchRequest t c
      | None \<Rightarrow>
          (case txHash t c of
             Inl e \<Rightarrow> Fail e c
           | Inr hash \<Rightarrow>
               (case NewIdempotentRequest (requestTimeout (txn t c)) hash c of (r, c1) \<Rightarrow>
                  nudgePreDispatchRequest t (scheduleRequestTimeout t
                    (updTxn t (\<lambda>x. x\<lparr>pendingPreDispatchRequest := Some r\<rparr>) c1)))))"

definition validator_MatchesPendingPreDispatchRequest :: "uuid \<Rightarrow> Event \<Rightarrow> coordinator \<Rightarrow> coordError + bool" where
  "validator_MatchesPendingPreDispatchRequest t ev c =
     (case ev of
        DispatchRequestApprovedEvent requestID \<Rightarrow>
          Inr (case pendingPreDispatchRequest (txn t c) of None \<Rightarrow> False | Some r \<Rightarrow> ir_idempotencyKey r = requestID)
      | _ \<Rightarrow> Inr False)"

definition action_DispatchRequestApproved :: "uuid \<Rightarrow> Event \<Rightarrow> coordinator \<Rightarrow> result" where
  "action_DispatchRequestApproved t ev c = Ok (completePreDispatchRequest t c)"

definition action_DispatchRequestRejected :: "uuid \<Rightarrow> Event \<Rightarrow> coordinator \<Rightarrow> result" where
  "action_DispatchRequestRejected t ev c = Ok (completePreDispatchRequest t c)"

definition action_SendPreDispatchRequest :: "uuid \<Rightarrow> Event \<Rightarrow> coordinator \<Rightarrow> result" where
  "action_SendPreDispatchRequest t ev c = sendPreDispatchRequest t c"

definition action_NudgePreDispatchRequest :: "uuid \<Rightarrow> Event \<Rightarrow> coordinator \<Rightarrow> result" where
  "action_NudgePreDispatchRequest t ev c = nudgePreDispatchRequest t c"

definition validator_IsPreDispatchNotCurrentDelegateRejection :: "uuid \<Rightarrow> Event \<Rightarrow> coordinator \<Rightarrow> coordError + bool" where
  "validator_IsPreDispatchNotCurrentDelegateRejection t ev c =
     (case ev of PreDispatchRequestRejectedEvent _ reason \<Rightarrow> Inr (reason = NOT_CURRENT_DELEGATE) | _ \<Rightarrow> Inl goPanic)"

definition validator_IsPreDispatchTransactionUnknownRejection :: "uuid \<Rightarrow> Event \<Rightarrow> coordinator \<Rightarrow> coordError + bool" where
  "validator_IsPreDispatchTransactionUnknownRejection t ev c =
     (case ev of PreDispatchRequestRejectedEvent _ reason \<Rightarrow> Inr (reason = TRANSACTION_UNKNOWN) | _ \<Rightarrow> Inl goPanic)"

section \<open>Ready for dispatch (ready\_for\_dispatch.go)\<close>

definition guard_HasSigner :: "uuid \<Rightarrow> coordinator \<Rightarrow> bool" where
  "guard_HasSigner t c \<longleftrightarrow> pt_Signer (pt (txn t c)) \<noteq> []"

definition updateSigningIdentity :: "uuid \<Rightarrow> coordinator \<Rightarrow> coordinator" where
  "updateSigningIdentity t c =
     (case pt_PostAssembly (pt (txn t c)) of
        None \<Rightarrow> c
      | Some pa \<Rightarrow>
          if submitterSelection (txn t c) \<noteq> SUBMITTER_COORDINATOR then c
          else (case List.find (\<lambda>e. ENDORSER_MUST_SUBMIT \<in> set (at_Constraints e)) (CollectedEndorsements pa) of
                  None \<Rightarrow> c
                | Some e \<Rightarrow> updTxn t (\<lambda>x. x\<lparr>pt := (pt x)\<lparr>pt_Signer := verifierLookup e\<rparr>\<rparr>) c))"

definition action_UpdateSigningIdentity :: "uuid \<Rightarrow> Event \<Rightarrow> coordinator \<Rightarrow> result" where
  "action_UpdateSigningIdentity t ev c = Ok (updateSigningIdentity t c)"

definition dependencyNotReadyForDispatch :: "State \<Rightarrow> bool" where
  "dependencyNotReadyForDispatch s \<longleftrightarrow>
     s \<noteq> State_Confirmed \<and> s \<noteq> State_Dispatched \<and> s \<noteq> State_Ready_For_Dispatch"

definition hasDependenciesNotReady :: "uuid \<Rightarrow> coordinator \<Rightarrow> bool" where
  "hasDependenciesNotReady t c \<longleftrightarrow>
     (\<exists>d \<in> set (grapher_GetDependencies t (coordGrapher c) @ GetPrerequisites (cd_chain (chained (deps c))) t).
        case getCoordinatorTransactionState d c of
          None \<Rightarrow> True
        | Some s \<Rightarrow> dependencyNotReadyForDispatch s)"

definition guard_HasDependenciesNotReady :: "uuid \<Rightarrow> coordinator \<Rightarrow> bool" where
  "guard_HasDependenciesNotReady t c \<longleftrightarrow> hasDependenciesNotReady t c"

definition notifyDependentsOfReadiness :: "(uuid \<Rightarrow> Event \<Rightarrow> coordinator \<Rightarrow> result) \<Rightarrow> uuid \<Rightarrow> coordinator \<Rightarrow> result" where
  "notifyDependentsOfReadiness hev t c =
     notifyLogged hev DependencyReadyEvent
       (grapher_GetDependents t (coordGrapher c) @ GetDependents (cd_chain (chained (deps c))) t) c"

definition allocateSigningIdentity :: "uuid \<Rightarrow> coordinator \<Rightarrow> coordinator" where
  "allocateSigningIdentity t c =
     (if domainSigningIdentity (txn t c) \<noteq> []
      then updTxn t (\<lambda>x. x\<lparr>pt := (pt x)\<lparr>pt_Signer := domainSigningIdentity x\<rparr>\<rparr>) c
      else (case getCoordinatorSigningIdentity c of (identity, c1) \<Rightarrow>
              updTxn t (\<lambda>x. x\<lparr>pt := (pt x)\<lparr>pt_Signer := identity\<rparr>\<rparr>) c1))"

definition action_AllocateSigningIdentity :: "uuid \<Rightarrow> Event \<Rightarrow> coordinator \<Rightarrow> result" where
  "action_AllocateSigningIdentity t ev c =
     Ok (if pt_Signer (pt (txn t c)) = [] then allocateSigningIdentity t c else c)"

definition action_NotifyDependentsOfReadiness ::
  "(uuid \<Rightarrow> Event \<Rightarrow> coordinator \<Rightarrow> result) \<Rightarrow> uuid \<Rightarrow> Event \<Rightarrow> coordinator \<Rightarrow> result" where
  "action_NotifyDependentsOfReadiness hev t ev c = notifyDependentsOfReadiness hev t c"

section \<open>Preparing and queueing the dispatch (dispatch.go)\<close>

definition action_StartPrepare :: "uuid \<Rightarrow> Event \<Rightarrow> coordinator \<Rightarrow> result" where
  "action_StartPrepare t ev c =
     (case newUUID c of (prepareID, c1) \<Rightarrow>
        Ok (updTxn t (\<lambda>x. x\<lparr>inFlightPrepareID := prepareID, cancelPrepare := True\<rparr>)
              (c1\<lparr>preparesStarted := preparesStarted c1 @ [(t, prepareID)]\<rparr>)))"

definition action_CancelPrepare :: "uuid \<Rightarrow> Event \<Rightarrow> coordinator \<Rightarrow> result" where
  "action_CancelPrepare t ev c =
     Ok (updTxn t (\<lambda>x. x\<lparr>cancelPrepare := False, inFlightPrepareID := uuid_Nil\<rparr>) c)"

definition validator_MatchesInFlightPrepareID :: "uuid \<Rightarrow> Event \<Rightarrow> coordinator \<Rightarrow> coordError + bool" where
  "validator_MatchesInFlightPrepareID t ev c =
     (case ev of
        PrepareSucceededEvent prepareID _ \<Rightarrow> Inr (prepareID = inFlightPrepareID (txn t c))
      | PrepareFailedEvent prepareID \<Rightarrow> Inr (prepareID = inFlightPrepareID (txn t c))
      | _ \<Rightarrow> Inr False)"

definition action_QueuePreparedDispatch :: "uuid \<Rightarrow> Event \<Rightarrow> coordinator \<Rightarrow> result" where
  "action_QueuePreparedDispatch t ev c =
     (case ev of
        PrepareSucceededEvent _ pending \<Rightarrow>
          Ok (CleanUpPostAssemblyData t (enqueueForDispatch t pending
                (fold (\<lambda>pd c'. case cp_NewTransactionID pd of
                          None \<Rightarrow> c'
                        | Some child \<Rightarrow> updChainedDeps (SetChainedChild t child) c')
                  (td_PrivateDispatches (pd_Dispatch pending)) c)))
      | _ \<Rightarrow> Stuck)"

text \<open>
  What the prepare goroutine builds from the domain's answer: whether it has a public or a private
  transaction, and for a private one the child transaction's identifier and its own dependencies, as
  the transaction manager returns them. Building the parts themselves is left to other components.
\<close>

datatype Intent = SEND_TRANSACTION | PREPARE_TRANSACTION | CALL

record PrepareTransactionResult =
  pr_Public :: bool
  pr_Private :: "ChainedPrivateTransaction option"

datatype dispatchError = MsgSequencerInvalidPrepareOutcome uuid

fun dedupeChildren :: "chainedDependencies \<Rightarrow> uuid list \<Rightarrow> uuid list \<Rightarrow> uuid list" where
  "dedupeChildren cd [] found = found"
| "dedupeChildren cd (d # ds) found =
     (case GetChainedChild cd d of
        None \<Rightarrow> dedupeChildren cd ds found
      | Some child \<Rightarrow> dedupeChildren cd ds (if child \<in> set found then found else found @ [child]))"

definition buildTransactionDispatch ::
  "dependencyTracker \<Rightarrow> uuid \<Rightarrow> Intent \<Rightarrow> PrepareTransactionResult \<Rightarrow> dispatchError + TransactionDispatch" where
  "buildTransactionDispatch dt t intent prep =
     (let empty = \<lparr>td_PublicDispatches = [], td_PrivateDispatches = [], td_PreparedTransactions = []\<rparr> in
      case (intent, pr_Public prep, pr_Private prep) of
        (SEND_TRANSACTION, True, None) \<Rightarrow> Inr (empty\<lparr>td_PublicDispatches := [t]\<rparr>)
      | (SEND_TRANSACTION, False, Some private) \<Rightarrow>
          (let chainedDeps = dedupeChildren (chained dt)
                 (GetPrerequisites (postAssembly dt) t @ GetPrerequisites (cd_chain (chained dt)) t) []
           in Inr (empty\<lparr>td_PrivateDispatches :=
                [if cp_NewTransactionID private = None then private
                 else private\<lparr>cp_ChainedDependsOn := cp_ChainedDependsOn private @ chainedDeps\<rparr>]\<rparr>))
      | (PREPARE_TRANSACTION, public, private) \<Rightarrow>
          if public \<or> private \<noteq> None then Inr (empty\<lparr>td_PreparedTransactions := [t]\<rparr>)
          else Inl (MsgSequencerInvalidPrepareOutcome t)
      | _ \<Rightarrow> Inl (MsgSequencerInvalidPrepareOutcome t))"

section \<open>Dispatched (dispatched.go)\<close>

definition action_NotifyDispatched :: "uuid \<Rightarrow> Event \<Rightarrow> coordinator \<Rightarrow> result" where
  "action_NotifyDispatched t ev c =
     (case newUUID c of (i, c1) \<Rightarrow>
        transportSend (originatorNode (txn t c1)) (TransactionDispatched t i (originator (txn t c1))) c1)"

definition action_MarkDispatchedInFlight :: "uuid \<Rightarrow> Event \<Rightarrow> coordinator \<Rightarrow> result" where
  "action_MarkDispatchedInFlight t ev c =
     (case ev of
        DispatchedEvent publicTransaction \<Rightarrow> Ok (if publicTransaction then setDispatchedInFlight t True c else c)
      | _ \<Rightarrow> Ok c)"

definition action_ClearDispatchedInFlight :: "uuid \<Rightarrow> Event \<Rightarrow> coordinator \<Rightarrow> result" where
  "action_ClearDispatchedInFlight t ev c = Ok (setDispatchedInFlight t False c)"

definition action_NotifyCollected :: "uuid \<Rightarrow> Event \<Rightarrow> coordinator \<Rightarrow> result" where
  "action_NotifyCollected t ev c =
     (case ev of CollectedEvent addr \<Rightarrow> Ok (updTxn t (\<lambda>x. x\<lparr>signerAddress := Some addr\<rparr>) c) | _ \<Rightarrow> Stuck)"

definition action_NotifyNonceAllocated :: "uuid \<Rightarrow> Event \<Rightarrow> coordinator \<Rightarrow> result" where
  "action_NotifyNonceAllocated t ev c =
     (case ev of
        NonceAllocatedEvent n \<Rightarrow>
          (case newUUID (updTxn t (\<lambda>x. x\<lparr>nonce := Some n\<rparr>) c) of (i, c1) \<Rightarrow>
             transportSend (originatorNode (txn t c1)) (NonceAssigned t i (sint n)) c1)
      | _ \<Rightarrow> Stuck)"

definition action_NotifySubmitted :: "uuid \<Rightarrow> Event \<Rightarrow> coordinator \<Rightarrow> result" where
  "action_NotifySubmitted t ev c =
     (case ev of
        SubmittedEvent hash \<Rightarrow>
          (case newUUID (updTxn t (\<lambda>x. x\<lparr>latestSubmissionHash := Some hash\<rparr>) c) of (i, c1) \<Rightarrow>
             transportSend (originatorNode (txn t c1)) (TransactionSubmitted t i hash) c1)
      | _ \<Rightarrow> Stuck)"

section \<open>Confirming (confirming.go)\<close>

definition guard_CanRetryRevert :: "uuid \<Rightarrow> coordinator \<Rightarrow> bool" where
  "guard_CanRetryRevert t c \<longleftrightarrow> lastCanRetryRevert (txn t c)"

definition resetRevertState :: "coordinatorTransaction \<Rightarrow> coordinatorTransaction" where
  "resetRevertState x = x\<lparr>revertReason := [], decodedRevertReason := [], revertOnChain := None,
     lastCanRetryRevert := False\<rparr>"

definition action_RecordConfirmationSuccess :: "uuid \<Rightarrow> Event \<Rightarrow> coordinator \<Rightarrow> result" where
  "action_RecordConfirmationSuccess t ev c =
     (case ev of
        ConfirmedSuccessEvent _ _ onChain \<Rightarrow>
          Ok (updGrapher (ForgetTransaction t (word_of_int (oc_BlockNumber onChain))) (updTxn t resetRevertState c))
      | _ \<Rightarrow> Stuck)"

definition recordRevert :: "environment \<Rightarrow> string \<Rightarrow> HexBytes \<Rightarrow> OnChainLocation
    \<Rightarrow> coordinatorTransaction \<Rightarrow> coordinatorTransaction" where
  "recordRevert e failureMessage reason onChain x0 =
     (let x = (resetRevertState x0)\<lparr>revertCount := revertCount x0 + 1, revertReason := reason\<rparr>;
          withinThreshold = revertCount x \<le> baseLedgerRevertRetryThreshold x in
      if oc_Type onChain \<noteq> NotOnChain then
        (case (case env_IsBaseLedgerRevertRetryable e reason of Inl err \<Rightarrow> (False, []) | Inr r \<Rightarrow> r) of
           (retryable, decodedReason) \<Rightarrow>
             x\<lparr>revertOnChain := Some onChain,
               decodedRevertReason :=
                 (if decodedReason \<noteq> [] then
                    truncateMsg (expandWithCode ''PD012216'' (''Transaction reverted '' @ decodedReason)) 2048
                  else failureMessage),
               lastCanRetryRevert := retryable \<and> withinThreshold\<rparr>)
      else x\<lparr>decodedRevertReason := failureMessage,
             lastCanRetryRevert := take 8 failureMessage = ''PD012256'' \<and> withinThreshold\<rparr>)"

definition action_RecordConfirmationRevert :: "uuid \<Rightarrow> Event \<Rightarrow> coordinator \<Rightarrow> result" where
  "action_RecordConfirmationRevert t ev c =
     (case ev of
        ConfirmedRevertedEvent _ _ failureMessage reason onChain \<Rightarrow>
          Ok (updTxn t (recordRevert (env c) failureMessage reason onChain) c)
      | _ \<Rightarrow> Stuck)"

definition nonceField :: "uint64 option \<Rightarrow> int" where
  "nonceField n = (case n of None \<Rightarrow> 0 | Some k \<Rightarrow> sint k)"

definition action_NotifyOriginatorOfConfirmation :: "uuid \<Rightarrow> Event \<Rightarrow> coordinator \<Rightarrow> result" where
  "action_NotifyOriginatorOfConfirmation t ev c =
     (case ev of
        ConfirmedSuccessEvent n _ _ \<Rightarrow>
          sendTransactionConfirmed t \<lparr>tc_Outcome = OUTCOME_SUCCESS, tc_Nonce = nonceField n, tc_RevertReason = [],
             tc_FailureMessage = [], tc_WillRetry = False\<rparr> c
      | _ \<Rightarrow> Stuck)"

definition notifyOfRevert :: "bool \<Rightarrow> uuid \<Rightarrow> Event \<Rightarrow> coordinator \<Rightarrow> result" where
  "notifyOfRevert willRetry t ev c =
     (case ev of
        ConfirmedRevertedEvent n _ _ _ _ \<Rightarrow>
          sendTransactionConfirmed t \<lparr>tc_Outcome = OUTCOME_REVERTED, tc_Nonce = nonceField n,
             tc_RevertReason = revertReason (txn t c), tc_FailureMessage = decodedRevertReason (txn t c),
             tc_WillRetry = willRetry\<rparr> c
      | _ \<Rightarrow> Stuck)"

definition action_NotifyOriginatorOfRetryableRevert :: "uuid \<Rightarrow> Event \<Rightarrow> coordinator \<Rightarrow> result" where
  "action_NotifyOriginatorOfRetryableRevert = notifyOfRevert True"

definition action_NotifyOriginatorOfNonRetryableRevert :: "uuid \<Rightarrow> Event \<Rightarrow> coordinator \<Rightarrow> result" where
  "action_NotifyOriginatorOfNonRetryableRevert = notifyOfRevert False"

definition action_NotifyOriginatorOfChainedDependencyFailure :: "uuid \<Rightarrow> Event \<Rightarrow> coordinator \<Rightarrow> result" where
  "action_NotifyOriginatorOfChainedDependencyFailure t ev c =
     (case ev of
        ChainedDependencyFailedEvent failed \<Rightarrow>
          sendTransactionConfirmed t (revertedOutcome (msgDependencyFailed c failed)) c
      | _ \<Rightarrow> Stuck)"

definition action_FinalizeNonRetryableRevert :: "uuid \<Rightarrow> Event \<Rightarrow> coordinator \<Rightarrow> result" where
  "action_FinalizeNonRetryableRevert t ev c =
     Ok (queueTransactionFinalize t (decodedRevertReason (txn t c)) (revertReason (txn t c))
           (revertOnChain (txn t c)) c)"

definition notifyDependentsOfRevertedConfirmation ::
  "(uuid \<Rightarrow> Event \<Rightarrow> coordinator \<Rightarrow> result) \<Rightarrow> uuid \<Rightarrow> coordinator \<Rightarrow> result" where
  "notifyDependentsOfRevertedConfirmation hev t c =
     notifyUntilError hev (DependencyConfirmedRevertedEvent t)
       (GetDependents (postAssembly (deps c)) t @ GetDependents (cd_chain (chained (deps c))) t) c"

definition action_NotifyDependentsOfRevertedConfirmation ::
  "(uuid \<Rightarrow> Event \<Rightarrow> coordinator \<Rightarrow> result) \<Rightarrow> uuid \<Rightarrow> Event \<Rightarrow> coordinator \<Rightarrow> result" where
  "action_NotifyDependentsOfRevertedConfirmation hev t ev c = notifyDependentsOfRevertedConfirmation hev t c"

definition action_CascadeChainedDependencyFailure ::
  "(uuid \<Rightarrow> Event \<Rightarrow> coordinator \<Rightarrow> result) \<Rightarrow> uuid \<Rightarrow> Event \<Rightarrow> coordinator \<Rightarrow> result" where
  "action_CascadeChainedDependencyFailure hev t ev c =
     notifyUntilError hev (ChainedDependencyFailedEvent t) (GetDependents (cd_chain (chained (deps c))) t) c"

definition action_FinalizeOnChainedDependencyFailure :: "uuid \<Rightarrow> Event \<Rightarrow> coordinator \<Rightarrow> result" where
  "action_FinalizeOnChainedDependencyFailure t ev c =
     (case ev of
        ChainedDependencyFailedEvent failed \<Rightarrow>
          Ok (queueTransactionFinalize t (msgDependencyFailed c failed) [] None c)
      | _ \<Rightarrow> Stuck)"

definition action_RevertTransactionInGrapher :: "uuid \<Rightarrow> Event \<Rightarrow> coordinator \<Rightarrow> result" where
  "action_RevertTransactionInGrapher t ev c = Ok (updGrapher (ForgetTransactionAndLocks t) c)"

definition action_CascadeChainedDependencyEviction ::
  "(uuid \<Rightarrow> Event \<Rightarrow> coordinator \<Rightarrow> result) \<Rightarrow> uuid \<Rightarrow> Event \<Rightarrow> coordinator \<Rightarrow> result" where
  "action_CascadeChainedDependencyEviction hev t ev c =
     notifyUntilError hev (ChainedDependencyEvictedEvent t) (GetDependents (cd_chain (chained (deps c))) t) c"

definition action_NotifyPreAssembleDependentOfTermination ::
  "(uuid \<Rightarrow> Event \<Rightarrow> coordinator \<Rightarrow> result) \<Rightarrow> uuid \<Rightarrow> Event \<Rightarrow> coordinator \<Rightarrow> result" where
  "action_NotifyPreAssembleDependentOfTermination hev t ev c =
     (case GetDependent (preAssembly (deps c)) t of
        None \<Rightarrow> Ok c
      | Some d \<Rightarrow> hev d PreAssembleDependencyTerminatedEvent c)"

section \<open>Finalizing (finalizing.go) and heartbeats\<close>

definition guard_HasFinalizingGracePeriodPassedSinceStateChange :: "uuid \<Rightarrow> coordinator \<Rightarrow> bool" where
  "guard_HasFinalizingGracePeriodPassedSinceStateChange t c \<longleftrightarrow>
     heartbeatIntervalsSinceStateChange (txn t c) > finalizingGracePeriod (txn t c)"

definition action_FinalizeAsUnknownByOriginator :: "uuid \<Rightarrow> Event \<Rightarrow> coordinator \<Rightarrow> result" where
  "action_FinalizeAsUnknownByOriginator t ev c = Ok (clearTimeoutSchedules t c)"

definition action_IncrementHeartbeatIntervalsSinceStateChange :: "uuid \<Rightarrow> Event \<Rightarrow> coordinator \<Rightarrow> result" where
  "action_IncrementHeartbeatIntervalsSinceStateChange t ev c =
     Ok (updTxn t (\<lambda>x. x\<lparr>heartbeatIntervalsSinceStateChange := heartbeatIntervalsSinceStateChange x + 1\<rparr>) c)"

section \<open>Snapshots for heartbeats (snapshot.go)\<close>

definition GetSnapshot :: "coordinatorTransaction \<Rightarrow> TxSnapshot option" where
  "GetSnapshot x =
     (let i = pt_ID (pt x) in
      if currentState x \<in> {State_Blocked, State_Confirming_Dispatchable, State_Preparing,
           State_Endorsement_Gathering, State_PreAssembly_Blocked, State_Assembling, State_Signing, State_Pooled}
      then Some (SnapshotPooled i)
      else if currentState x \<in> {State_Ready_For_Dispatch, State_Dispatched}
      then Some (SnapshotDispatched i (case signerAddress x of
             None \<Rightarrow> None | Some a \<Rightarrow> Some (a, nonce x, latestSubmissionHash x)))
      else if currentState x = State_Confirmed
      then Some (SnapshotConfirmed i (nonce x) (latestSubmissionHash x) (signerAddress x))
      else if currentState x = State_Reverted then Some (SnapshotReverted i (revertReason x))
      else None)"

end
