(* ===== verification/TransactionMachine.thy ===== *)
theory TransactionMachine
  imports TransactionActions
begin

text \<open>
  The state machine of a coordinator transaction (\<^verbatim>\<open>coordinator/transaction/state_machine.go\<close>): the table
  of states, events, handlers, guards and transitions, entry and exit actions, one definition per state
  of the Go map, run by the engine of \<open>StateMachine\<close>.

  A transaction hands events to others synchronously, while its own lock is held. The nesting is
  bounded by fuel here; running into a transaction whose lock is already held is \<open>Stuck\<close>, as it is in
  the code, where the goroutine waits for itself.
\<close>

section \<open>Building blocks of the table\<close>

abbreviation always :: "('ev, 'w, 'err) Action \<Rightarrow> ('ev, 'w, 'err) ActionRule" where
  "always a \<equiv> \<lparr>act = a, act_If = None\<rparr>"

abbreviation whenever :: "'w Guard \<Rightarrow> ('ev, 'w, 'err) Action \<Rightarrow> ('ev, 'w, 'err) ActionRule" where
  "whenever g a \<equiv> \<lparr>act = a, act_If = Some g\<rparr>"

abbreviation goTo :: "'s \<Rightarrow> ('ev, 'w, 'err) ActionRule list \<Rightarrow> ('s, 'ev, 'w, 'err) Transition" where
  "goTo s as \<equiv> \<lparr>tr_To = s, tr_If = None, tr_Actions = as\<rparr>"

abbreviation goToIf :: "'s \<Rightarrow> 'w Guard \<Rightarrow> ('ev, 'w, 'err) ActionRule list \<Rightarrow> ('s, 'ev, 'w, 'err) Transition" where
  "goToIf s g as \<equiv> \<lparr>tr_To = s, tr_If = Some g, tr_Actions = as\<rparr>"

abbreviation handler :: "('ev, 'w, 'err) ActionRule list \<Rightarrow> ('s, 'ev, 'w, 'err) Transition list
    \<Rightarrow> ('s, 'ev, 'w, 'err) EventHandler" where
  "handler as ts \<equiv> \<lparr>eh_Validator = None, eh_Actions = as, eh_Transitions = ts, eh_Stop = False\<rparr>"

abbreviation handlerFor :: "('ev, 'w, 'err) Validator \<Rightarrow> ('ev, 'w, 'err) ActionRule list
    \<Rightarrow> ('s, 'ev, 'w, 'err) Transition list \<Rightarrow> ('s, 'ev, 'w, 'err) EventHandler" where
  "handlerFor v as ts \<equiv> \<lparr>eh_Validator = Some v, eh_Actions = as, eh_Transitions = ts, eh_Stop = False\<rparr>"

abbreviation matchFirst :: "('s, 'ev, 'w, 'err) EventHandler list \<Rightarrow> ('s, 'ev, 'w, 'err) EventHandlers" where
  "matchFirst hs \<equiv> \<lparr>ehs_Match = MatchFirst, ehs_Handlers = hs\<rparr>"

abbreviation matchAll :: "('s, 'ev, 'w, 'err) EventHandler list \<Rightarrow> ('s, 'ev, 'w, 'err) EventHandlers" where
  "matchAll hs \<equiv> \<lparr>ehs_Match = MatchAll, ehs_Handlers = hs\<rparr>"

type_synonym txHandlers = "(State, Event, coordinator, coordError) EventHandlers"
type_synonym txStateDefinition = "(State, EventType, Event, coordinator, coordError) StateDefinition"
type_synonym handleEvent = "uuid \<Rightarrow> Event \<Rightarrow> coordinator \<Rightarrow> result"

text \<open>The order of the fields is that of the Go literals: entry actions, exit actions, events.\<close>

abbreviation stateDef :: "(Event, coordinator, coordError) ActionRule list \<Rightarrow> (Event, coordinator, coordError) ActionRule list
    \<Rightarrow> (EventType \<times> txHandlers) list \<Rightarrow> txStateDefinition" where
  "stateDef entry exit evs \<equiv> \<lparr>OnTransitionTo = entry, OnTransitionFrom = exit, Events = map_of evs\<rparr>"

section \<open>Handlers shared by the states after assembly (dependency\_reset\_handlers.go)\<close>

definition dependencyResetToPreAssemblyOrPool :: "handleEvent \<Rightarrow> uuid \<Rightarrow> txHandlers" where
  "dependencyResetToPreAssemblyOrPool hev t = matchFirst
     [handlerFor (validator_IsChainedDependency t)
        [always (action_MarkChainedDependencyUnassembled t)]
        [goTo State_PreAssembly_Blocked [always (action_NotifyDependentsOfReset hev t)]],
      handlerFor (ValidatorNot (validator_IsChainedDependency t)) []
        [goTo State_Pooled [always (action_NotifyDependentsOfReset hev t)]]]"

definition chainedDependencyFailedHandler :: "handleEvent \<Rightarrow> uuid \<Rightarrow> txHandlers" where
  "chainedDependencyFailedHandler hev t = matchFirst
     [handler [always (action_FinalizeOnChainedDependencyFailure t),
               always (action_NotifyOriginatorOfChainedDependencyFailure t)]
        [goTo State_Reverted []]]"

text \<open>Where an assembled transaction goes next.\<close>

abbreviation readyGuard :: "uuid \<Rightarrow> coordinator Guard" where
  "readyGuard t \<equiv> GuardAnd [guard_AttestationPlanFulfilled t, GuardNot (guard_HasDependenciesNotReady t)]"

abbreviation blockedGuard :: "uuid \<Rightarrow> coordinator Guard" where
  "blockedGuard t \<equiv> GuardAnd [guard_AttestationPlanFulfilled t, guard_HasDependenciesNotReady t]"

abbreviation afterAssembly :: "uuid \<Rightarrow> (State, Event, coordinator, coordError) Transition list" where
  "afterAssembly t \<equiv>
     [goToIf State_Signing (GuardNot (guard_SignRequirementsFulfilled t)) [],
      goToIf State_Endorsement_Gathering (GuardNot (guard_AttestationPlanFulfilled t)) [],
      goToIf State_Confirming_Dispatchable (readyGuard t) [],
      goToIf State_Blocked (blockedGuard t) []]"

section \<open>The states\<close>

definition def_Initial :: "handleEvent \<Rightarrow> uuid \<Rightarrow> txStateDefinition" where
  "def_Initial hev t = stateDef [] []
     [(Event_Delegated, matchFirst
        [handler []
           [goToIf State_Reverted (guard_HasRevertedChainedDependency t)
              [always (action_FinalizeOnRevertedChainedDependencyAtCreation t),
               always (action_NotifyOriginatorOfChainedDependencyFailureAtCreation t)],
            goToIf State_Evicted (guard_HasEvictedChainedDependency t) [],
            goToIf State_PreAssembly_Blocked (guard_HasUnassembledDependencies t) [],
            goToIf State_Pooled (GuardNot (guard_HasUnassembledDependencies t)) []]])]"

definition def_PreAssembly_Blocked :: "handleEvent \<Rightarrow> uuid \<Rightarrow> txStateDefinition" where
  "def_PreAssembly_Blocked hev t = stateDef [always (action_InitializeForNewAssembly t)] []
     [(Event_DependencySelectedForAssemble, matchAll
        [handlerFor (validator_IsPreAssembleDependency t) [always (action_RemovePreAssembleDependency t)] [],
         handlerFor (validator_IsChainedDependency t) [always (action_MarkChainedDependencyAssembled t)] [],
         handler [] [goToIf State_Pooled (GuardNot (guard_HasUnassembledDependencies t)) []]]),
      (Event_DependencyReset, matchFirst
        [handlerFor (validator_IsChainedDependency t) [always (action_MarkChainedDependencyUnassembled t)] []]),
      (Event_DependencyConfirmedReverted, matchFirst
        [handlerFor (validator_IsChainedDependency t) [always (action_MarkChainedDependencyUnassembled t)] []]),
      (Event_PreAssembleDependencyTerminated, matchFirst
        [handler [always (action_RemovePreAssembleDependency t)]
           [goToIf State_Pooled (GuardNot (guard_HasUnassembledDependencies t)) []]]),
      (Event_ChainedDependencyFailed, matchFirst
        [handler [always (action_FinalizeOnChainedDependencyFailure t),
                  always (action_NotifyOriginatorOfChainedDependencyFailure t)]
           [goTo State_Reverted []]]),
      (Event_ChainedDependencyEvicted, matchFirst [handler [] [goTo State_Evicted []]])]"

definition def_Pooled :: "handleEvent \<Rightarrow> uuid \<Rightarrow> txStateDefinition" where
  "def_Pooled hev t = stateDef [always (action_InitializeForNewAssembly t)] []
     [(Event_Selected, matchFirst
        [handler [always (action_NotifyDependentsOfSelection hev t), always (action_RemovePreAssemblePrereqOf t)]
           [goTo State_Assembling []]]),
      (Event_DependencyReset, matchFirst
        [handlerFor (validator_IsChainedDependency t) [always (action_MarkChainedDependencyUnassembled t)]
           [goTo State_PreAssembly_Blocked []]]),
      (Event_DependencyConfirmedReverted, matchFirst
        [handlerFor (validator_IsChainedDependency t) [always (action_MarkChainedDependencyUnassembled t)]
           [goTo State_PreAssembly_Blocked []]]),
      (Event_ChainedDependencyFailed, matchFirst
        [handler [always (action_FinalizeOnChainedDependencyFailure t),
                  always (action_NotifyOriginatorOfChainedDependencyFailure t)]
           [goTo State_Reverted []]]),
      (Event_ChainedDependencyEvicted, matchFirst [handler [] [goTo State_Evicted []]])]"

definition def_Assembling_entry :: "uuid \<Rightarrow> (Event, coordinator, coordError) ActionRule list" where
  "def_Assembling_entry t =
     [always (action_ScheduleStateTimeout t), always (action_RefreshBlockHeight t),
      always (action_CaptureGrapherSnapshot t), always (action_SendAssembleRequest t)]"

text \<open>The events of \<open>State_Assembling\<close> that answer the assemble request.\<close>

definition def_Assembling_responses :: "handleEvent \<Rightarrow> uuid \<Rightarrow> (EventType \<times> txHandlers) list" where
  "def_Assembling_responses hev t =
     [(Event_AssembleSuccess, matchFirst
        [handlerFor (validator_MatchesPendingAssembleRequest t) [always (action_AssembleSuccess t)] (afterAssembly t)]),
      (Event_Signed, matchFirst
        [handlerFor (ValidatorAnd [validator_MatchesPendingAssembleRequest t, validator_SignedCarriesAssembly t])
           [always (action_AssembleAndSign t)] (afterAssembly t)]),
      (Event_SignError, matchFirst
        [handlerFor (validator_MatchesPendingAssembleRequest t) [always (action_SignError t)]
           [goToIf State_Pooled (guard_CanRetryErroredSign t) [always (action_NotifyDependentsOfReset hev t)],
            goToIf State_Evicted (GuardNot (guard_CanRetryErroredSign t)) []]]),
      (Event_AssembleRevert, matchFirst
        [handlerFor (validator_MatchesPendingAssembleRequest t) [always (action_AssembleRevertResponse t)]
           [goTo State_Reverted []]]),
      (Event_AssembleError, matchFirst
        [handlerFor (validator_MatchesPendingAssembleRequest t) [always (action_AssembleError t)]
           [goToIf State_Pooled (guard_CanRetryErroredAssemble t) [always (action_NotifyDependentsOfReset hev t)],
            goToIf State_Evicted (GuardNot (guard_CanRetryErroredAssemble t)) []]]),
      (Event_AssembleRequestRejected, matchAll
        [handler [always (action_LogAssembleRejection t)] [],
         handlerFor (validator_IsAssembleRejection [BLOCK_HEIGHT_TOLERANCE, PRIVATE_STATE_DATA_PENDING]) []
           [goTo State_Pooled [always (action_NotifyDependentsOfReset hev t)]],
         handlerFor (validator_IsAssembleRejection [NOT_CURRENT_DELEGATE]) [] [goTo State_Evicted []],
         handlerFor (validator_IsAssembleRejection [TRANSACTION_UNKNOWN]) []
           [goTo State_Final [always (action_FinalizeAsUnknownByOriginator t)]]])]"

text \<open>Its timeouts, the cancellation, and what becomes of its dependencies meanwhile.\<close>

definition def_Assembling_other :: "handleEvent \<Rightarrow> uuid \<Rightarrow> (EventType \<times> txHandlers) list" where
  "def_Assembling_other hev t =
     [(Event_RequestTimeoutInterval, matchFirst [handler [always (action_NudgeAssembleRequest t)] []]),
      (Event_StateTimeoutInterval, matchFirst
        [handler [] [goTo State_Pooled [always (action_NotifyDependentsOfReset hev t)]]]),
      (Event_AssembleCancelled, matchFirst
        [handler [] [goTo State_Pooled [always (action_NotifyDependentsOfReset hev t)]]]),
      (Event_DependencyReset, matchFirst
        [handlerFor (validator_IsChainedDependency t) [always (action_MarkChainedDependencyUnassembled t)]
           [goTo State_PreAssembly_Blocked [always (action_NotifyDependentsOfReset hev t)]]]),
      (Event_DependencyConfirmedReverted, matchFirst
        [handlerFor (validator_IsChainedDependency t) [always (action_MarkChainedDependencyUnassembled t)]
           [goTo State_PreAssembly_Blocked [always (action_NotifyDependentsOfReset hev t)]]]),
      (Event_ChainedDependencyFailed, matchFirst
        [handler [always (action_FinalizeOnChainedDependencyFailure t),
                  always (action_NotifyOriginatorOfChainedDependencyFailure t)]
           [goTo State_Reverted []]]),
      (Event_ChainedDependencyEvicted, matchFirst [handler [] [goTo State_Evicted []]])]"

definition def_Assembling :: "handleEvent \<Rightarrow> uuid \<Rightarrow> txStateDefinition" where
  "def_Assembling hev t = stateDef (def_Assembling_entry t) [always (action_DeleteGrapherSnapshot t)]
     (def_Assembling_responses hev t @ def_Assembling_other hev t)"

definition def_Signing :: "handleEvent \<Rightarrow> uuid \<Rightarrow> txStateDefinition" where
  "def_Signing hev t = stateDef [always (action_ScheduleStateTimeout t)] [always (action_ClearStateTimeout t)]
     [(Event_Signed, matchFirst
        [handlerFor (validator_MatchesPendingAssembleRequest t) [always (action_Signed t)]
           [goToIf State_Endorsement_Gathering
              (GuardAnd [guard_SignRequirementsFulfilled t, GuardNot (guard_AttestationPlanFulfilled t)]) [],
            goToIf State_Confirming_Dispatchable
              (GuardAnd [guard_SignRequirementsFulfilled t, guard_AttestationPlanFulfilled t,
                         GuardNot (guard_HasDependenciesNotReady t)]) [],
            goToIf State_Blocked
              (GuardAnd [guard_SignRequirementsFulfilled t, guard_AttestationPlanFulfilled t,
                         guard_HasDependenciesNotReady t]) []]]),
      (Event_SignError, matchFirst
        [handlerFor (validator_MatchesPendingAssembleRequest t) [always (action_SignError t)]
           [goToIf State_Pooled (guard_CanRetryErroredSign t) [always (action_NotifyDependentsOfReset hev t)],
            goToIf State_Evicted (GuardNot (guard_CanRetryErroredSign t)) []]]),
      (Event_StateTimeoutInterval, matchFirst
        [handler [] [goTo State_Pooled [always (action_NotifyDependentsOfReset hev t)]]]),
      (Event_DependencyReset, dependencyResetToPreAssemblyOrPool hev t),
      (Event_DependencyConfirmedReverted, dependencyResetToPreAssemblyOrPool hev t),
      (Event_ChainedDependencyFailed, chainedDependencyFailedHandler hev t)]"

abbreviation repoolOnEndorseFailure :: "handleEvent \<Rightarrow> uuid \<Rightarrow> (State, Event, coordinator, coordError) Transition" where
  "repoolOnEndorseFailure hev t \<equiv> goToIf State_Pooled (guard_EndorseFailureExceedsTolerance t)
     [always (action_NotifyDependentsOfReset hev t), always (action_ResetEndorsementRequests t)]"

definition def_Endorsement_Gathering :: "handleEvent \<Rightarrow> uuid \<Rightarrow> txStateDefinition" where
  "def_Endorsement_Gathering hev t = stateDef
     [always (action_ScheduleStateTimeout t), always (action_ComputeEndorseTolerances t),
      always (action_RefreshBlockHeight t), always (action_SendEndorsementRequests t)] []
     [(Event_Endorsed, matchFirst
        [handlerFor (validator_MatchesPendingEndorsementRequest t)
           [always (action_Endorsed t),
            whenever (guard_AttestationPlanFulfilled t) (action_ResetEndorsementRequests t),
            whenever (GuardAnd [guard_AttestationPlanFulfilled t, GuardNot (guard_HasSigner t)])
              (action_UpdateSigningIdentity t)]
           [goToIf State_Confirming_Dispatchable (readyGuard t) [],
            goToIf State_Blocked (blockedGuard t) []]]),
      (Event_EndorseRevert, matchFirst
        [handlerFor (validator_MatchesPendingEndorsementRequest t) [always (action_RecordEndorseFailure t)]
           [goToIf State_Reverted (guard_EndorseRevertExceedsTolerance t)
              [always (action_NotifyOriginatorOfEndorseRevert t),
               always (action_NotifyDependentsOfRevertedConfirmation hev t),
               always (action_FinalizeEndorseRevert t)],
            repoolOnEndorseFailure hev t]]),
      (Event_EndorseError, matchFirst
        [handlerFor (validator_MatchesPendingEndorsementRequest t) [always (action_RecordEndorseFailure t)]
           [repoolOnEndorseFailure hev t]]),
      (Event_EndorseRequestRejected, matchFirst
        [handlerFor (validator_MatchesPendingEndorsementRequest t) [always (action_RecordEndorseFailure t)]
           [repoolOnEndorseFailure hev t]]),
      (Event_RequestTimeoutInterval, matchFirst [handler [always (action_NudgeEndorsementRequests t)] []]),
      (Event_StateTimeoutInterval, matchFirst
        [handler [] [goTo State_Pooled [always (action_NotifyDependentsOfReset hev t)]]]),
      (Event_DependencyReset, dependencyResetToPreAssemblyOrPool hev t),
      (Event_DependencyConfirmedReverted, dependencyResetToPreAssemblyOrPool hev t),
      (Event_ChainedDependencyFailed, chainedDependencyFailedHandler hev t)]"

definition def_Blocked :: "handleEvent \<Rightarrow> uuid \<Rightarrow> txStateDefinition" where
  "def_Blocked hev t = stateDef [] []
     [(Event_DependencyReady, matchFirst
        [handler [whenever (GuardNot (guard_HasSigner t)) (action_UpdateSigningIdentity t)]
           [goToIf State_Confirming_Dispatchable (GuardNot (guard_HasDependenciesNotReady t)) []]]),
      (Event_DependencyReset, dependencyResetToPreAssemblyOrPool hev t),
      (Event_DependencyConfirmedReverted, dependencyResetToPreAssemblyOrPool hev t),
      (Event_ChainedDependencyFailed, chainedDependencyFailedHandler hev t)]"

definition def_Confirming_Dispatchable :: "handleEvent \<Rightarrow> uuid \<Rightarrow> txStateDefinition" where
  "def_Confirming_Dispatchable hev t = stateDef
     [always (action_ScheduleStateTimeout t), always (action_SendPreDispatchRequest t)] []
     [(Event_DispatchRequestApproved, matchFirst
        [handlerFor (validator_MatchesPendingPreDispatchRequest t) [always (action_DispatchRequestApproved t)]
           [goTo State_Preparing []]]),
      (Event_DispatchRequestRejected, matchFirst
        [handlerFor (validator_MatchesPendingPreDispatchRequest t) [always (action_DispatchRequestRejected t)]
           [goTo State_Pooled [always (action_NotifyDependentsOfReset hev t)]]]),
      (Event_PreDispatchRequestRejected, matchFirst
        [handlerFor (validator_IsPreDispatchNotCurrentDelegateRejection t) [] [goTo State_Evicted []],
         handlerFor (validator_IsPreDispatchTransactionUnknownRejection t) []
           [goTo State_Final [always (action_FinalizeAsUnknownByOriginator t)]]]),
      (Event_RequestTimeoutInterval, matchFirst [handler [always (action_NudgePreDispatchRequest t)] []]),
      (Event_StateTimeoutInterval, matchFirst
        [handler [] [goTo State_Pooled
           [always (action_DispatchRequestRejected t), always (action_NotifyDependentsOfReset hev t)]]]),
      (Event_DependencyReset, dependencyResetToPreAssemblyOrPool hev t),
      (Event_DependencyConfirmedReverted, dependencyResetToPreAssemblyOrPool hev t),
      (Event_ChainedDependencyFailed, chainedDependencyFailedHandler hev t)]"

definition def_Preparing :: "handleEvent \<Rightarrow> uuid \<Rightarrow> txStateDefinition" where
  "def_Preparing hev t = stateDef
     [always (action_AllocateSigningIdentity t), always (action_StartPrepare t)] [always (action_CancelPrepare t)]
     [(Event_PrepareSucceeded, matchFirst
        [handlerFor (validator_MatchesInFlightPrepareID t) [always (action_QueuePreparedDispatch t)]
           [goTo State_Ready_For_Dispatch []]]),
      (Event_PrepareFailed, matchFirst
        [handlerFor (validator_MatchesInFlightPrepareID t) []
           [goTo State_Pooled [always (action_NotifyDependentsOfReset hev t)]]]),
      (Event_DependencyReset, dependencyResetToPreAssemblyOrPool hev t),
      (Event_DependencyConfirmedReverted, dependencyResetToPreAssemblyOrPool hev t),
      (Event_ChainedDependencyFailed, chainedDependencyFailedHandler hev t)]"

definition def_Ready_For_Dispatch :: "handleEvent \<Rightarrow> uuid \<Rightarrow> txStateDefinition" where
  "def_Ready_For_Dispatch hev t = stateDef [always (action_NotifyDependentsOfReadiness hev t)] []
     [(Event_Dispatched, matchFirst [handler [] [goTo State_Dispatched []]]),
      (Event_DependencyReset, dependencyResetToPreAssemblyOrPool hev t),
      (Event_DependencyConfirmedReverted, dependencyResetToPreAssemblyOrPool hev t),
      (Event_ChainedDependencyFailed, chainedDependencyFailedHandler hev t)]"

abbreviation releaseLocksAndNotify :: "handleEvent \<Rightarrow> uuid \<Rightarrow> (State, Event, coordinator, coordError) EventHandler" where
  "releaseLocksAndNotify hev t \<equiv>
     handler [always (action_ResetTransactionLocks t), always (action_NotifyDependentsOfReset hev t)] []"

definition def_Dispatched :: "handleEvent \<Rightarrow> uuid \<Rightarrow> txStateDefinition" where
  "def_Dispatched hev t = stateDef
     [always (action_MarkDispatchedInFlight t), always (action_NotifyDispatched t)]
     [always (action_ClearDispatchedInFlight t)]
     [(Event_Collected, matchFirst [handler [always (action_NotifyCollected t)] []]),
      (Event_NonceAllocated, matchFirst [handler [always (action_NotifyNonceAllocated t)] []]),
      (Event_Submitted, matchFirst [handler [always (action_NotifySubmitted t)] []]),
      (Event_ConfirmedSuccess, matchFirst
        [handler [always (action_RecordConfirmationSuccess t), always (action_NotifyOriginatorOfConfirmation t)]
           [goTo State_Confirmed []]]),
      (Event_ConfirmedReverted, matchFirst
        [handler [always (action_RecordConfirmationRevert t)]
           [goToIf State_PreAssembly_Blocked (GuardAnd [guard_CanRetryRevert t, guard_HasUnassembledDependencies t])
              [always (action_NotifyOriginatorOfRetryableRevert t), always (action_NotifyDependentsOfReset hev t)],
            goToIf State_Pooled (GuardAnd [guard_CanRetryRevert t, GuardNot (guard_HasUnassembledDependencies t)])
              [always (action_NotifyOriginatorOfRetryableRevert t), always (action_NotifyDependentsOfReset hev t)],
            goToIf State_Reverted (GuardNot (guard_CanRetryRevert t))
              [always (action_RevertTransactionInGrapher t),
               always (action_NotifyOriginatorOfNonRetryableRevert t),
               always (action_NotifyDependentsOfRevertedConfirmation hev t),
               always (action_FinalizeNonRetryableRevert t)]]]),
      (Event_DependencyReset, matchAll
        [handlerFor (validator_IsChainedDependency t) [always (action_MarkChainedDependencyUnassembled t)] [],
         releaseLocksAndNotify hev t]),
      (Event_DependencySelectedForAssemble, matchFirst
        [handlerFor (validator_IsChainedDependency t) [always (action_MarkChainedDependencyAssembled t)] []]),
      (Event_DependencyConfirmedReverted, matchAll
        [handlerFor (validator_IsChainedDependency t) [always (action_MarkChainedDependencyUnassembled t)] [],
         releaseLocksAndNotify hev t]),
      (Event_ChainedDependencyFailed, matchFirst
        [handler [always (action_FinalizeOnChainedDependencyFailure t),
                  always (action_NotifyOriginatorOfChainedDependencyFailure t)]
           [goTo State_Reverted []]])]"

definition def_Reverted :: "handleEvent \<Rightarrow> uuid \<Rightarrow> txStateDefinition" where
  "def_Reverted hev t = stateDef
     [always (action_ResetTransactionLocks t), always (action_CascadeChainedDependencyFailure hev t),
      always (action_NotifyPreAssembleDependentOfTermination hev t)] []
     [(Event_HeartbeatInterval, matchFirst
        [handler [always (action_IncrementHeartbeatIntervalsSinceStateChange t)]
           [goToIf State_Final (guard_HasFinalizingGracePeriodPassedSinceStateChange t) []]])]"

definition def_Confirmed :: "handleEvent \<Rightarrow> uuid \<Rightarrow> txStateDefinition" where
  "def_Confirmed hev t = stateDef [] []
     [(Event_HeartbeatInterval, matchFirst
        [handler [always (action_IncrementHeartbeatIntervalsSinceStateChange t)]
           [goToIf State_Final (guard_HasFinalizingGracePeriodPassedSinceStateChange t) []]])]"

definition def_Final :: txStateDefinition where
  "def_Final = stateDef [] [] []"

definition def_Evicted :: "handleEvent \<Rightarrow> uuid \<Rightarrow> txStateDefinition" where
  "def_Evicted hev t = stateDef
     [always (action_CascadeChainedDependencyEviction hev t),
      always (action_NotifyPreAssembleDependentOfTermination hev t)] [] []"

fun stateDefinitionsMap :: "handleEvent \<Rightarrow> uuid \<Rightarrow> State \<Rightarrow> txStateDefinition" where
  "stateDefinitionsMap hev t State_Initial = def_Initial hev t"
| "stateDefinitionsMap hev t State_PreAssembly_Blocked = def_PreAssembly_Blocked hev t"
| "stateDefinitionsMap hev t State_Pooled = def_Pooled hev t"
| "stateDefinitionsMap hev t State_Assembling = def_Assembling hev t"
| "stateDefinitionsMap hev t State_Signing = def_Signing hev t"
| "stateDefinitionsMap hev t State_Endorsement_Gathering = def_Endorsement_Gathering hev t"
| "stateDefinitionsMap hev t State_Blocked = def_Blocked hev t"
| "stateDefinitionsMap hev t State_Confirming_Dispatchable = def_Confirming_Dispatchable hev t"
| "stateDefinitionsMap hev t State_Preparing = def_Preparing hev t"
| "stateDefinitionsMap hev t State_Ready_For_Dispatch = def_Ready_For_Dispatch hev t"
| "stateDefinitionsMap hev t State_Dispatched = def_Dispatched hev t"
| "stateDefinitionsMap hev t State_Reverted = def_Reverted hev t"
| "stateDefinitionsMap hev t State_Confirmed = def_Confirmed hev t"
| "stateDefinitionsMap hev t State_Final = def_Final"
| "stateDefinitionsMap hev t State_Evicted = def_Evicted hev t"

section \<open>The machine and its entry points\<close>

definition onTransition :: "uuid \<Rightarrow> State \<Rightarrow> State \<Rightarrow> Event \<Rightarrow> coordinator \<Rightarrow> coordinator" where
  "onTransition t from to ev c =
     queueEventForCoordinator (TransactionStateTransitionEvent t from to)
       (updTxn t (\<lambda>x. x\<lparr>heartbeatIntervalsSinceStateChange := 0, stateEntryTime := now c\<rparr>) c)"

definition txMachine :: "handleEvent \<Rightarrow> uuid \<Rightarrow> (State, EventType, Event, coordinator, coordError) StateMachine" where
  "txMachine hev t =
     \<lparr>definitions = (\<lambda>s. Some (stateDefinitionsMap hev t s)),
      GetCurrentState = (\<lambda>c. currentState (txn t c)),
      SetCurrentState = (\<lambda>s. updTxn t (\<lambda>x. x\<lparr>currentState := s\<rparr>)),
      sm_mark = (\<lambda>ev c. c),
      transitionCallback = Some (onTransition t),
      eventType = Event_Type,
      sm_locked = (\<lambda>c. txLocked (txn t c)),
      sm_setLock = (\<lambda>b. updTxn t (\<lambda>x. x\<lparr>txLocked := b\<rparr>))\<rparr>"

definition HandleEvent :: "handleEvent \<Rightarrow> uuid \<Rightarrow> Event \<Rightarrow> coordinator \<Rightarrow> result" where
  "HandleEvent hev t ev c = ProcessEvent (txMachine hev t) ev c"

fun coordinatorTransactionHandleEvent :: "nat \<Rightarrow> handleEvent" where
  "coordinatorTransactionHandleEvent 0 t ev c = Stuck"
| "coordinatorTransactionHandleEvent (Suc n) t ev c =
     (case transactionsByID c t of
        None \<Rightarrow> Fail (MsgSequencerTransactionNotFound t) c
      | Some _ \<Rightarrow> HandleEvent (coordinatorTransactionHandleEvent n) t ev c)"

end
