(* ===== verification/TransactionFrame.thy ===== *)
theory TransactionFrame
  imports TransactionMachine
begin

text \<open>
  Which actions the table of the transaction machine can run, and what every one of them leaves alone:
  the locks and states of transactions that are being processed. From this follow, through the
  contracts of \<open>StateMachine\<close>, that a transaction moves along the declared transitions only and that
  the fuel of the model is no restriction.
\<close>

section \<open>The actions of the table\<close>

definition localActions :: "uuid \<Rightarrow> (Event, coordinator, coordError) Action list" where
  "localActions t =
     [action_FinalizeOnRevertedChainedDependencyAtCreation t,
      action_NotifyOriginatorOfChainedDependencyFailureAtCreation t,
      action_InitializeForNewAssembly t, action_RemovePreAssembleDependency t,
      action_MarkChainedDependencyAssembled t, action_MarkChainedDependencyUnassembled t,
      action_FinalizeOnChainedDependencyFailure t, action_NotifyOriginatorOfChainedDependencyFailure t,
      action_RemovePreAssemblePrereqOf t, action_ScheduleStateTimeout t, action_RefreshBlockHeight t,
      action_CaptureGrapherSnapshot t, action_SendAssembleRequest t, action_DeleteGrapherSnapshot t,
      action_AssembleSuccess t, action_AssembleAndSign t, action_SignError t, action_AssembleRevertResponse t,
      action_AssembleError t, action_LogAssembleRejection t, action_FinalizeAsUnknownByOriginator t,
      action_NudgeAssembleRequest t, action_ClearStateTimeout t, action_Signed t,
      action_ComputeEndorseTolerances t, action_SendEndorsementRequests t, action_Endorsed t,
      action_ResetEndorsementRequests t, action_UpdateSigningIdentity t, action_RecordEndorseFailure t,
      action_NotifyOriginatorOfEndorseRevert t, action_FinalizeEndorseRevert t,
      action_NudgeEndorsementRequests t, action_SendPreDispatchRequest t, action_DispatchRequestApproved t,
      action_DispatchRequestRejected t, action_NudgePreDispatchRequest t, action_AllocateSigningIdentity t,
      action_StartPrepare t, action_CancelPrepare t, action_QueuePreparedDispatch t,
      action_MarkDispatchedInFlight t, action_NotifyDispatched t, action_ClearDispatchedInFlight t,
      action_NotifyCollected t, action_NotifyNonceAllocated t, action_NotifySubmitted t,
      action_RecordConfirmationSuccess t, action_NotifyOriginatorOfConfirmation t,
      action_RecordConfirmationRevert t, action_NotifyOriginatorOfRetryableRevert t,
      action_RevertTransactionInGrapher t, action_NotifyOriginatorOfNonRetryableRevert t,
      action_FinalizeNonRetryableRevert t, action_ResetTransactionLocks t,
      action_IncrementHeartbeatIntervalsSinceStateChange t]"

definition notifyingActions :: "handleEvent \<Rightarrow> uuid \<Rightarrow> (Event, coordinator, coordError) Action list" where
  "notifyingActions hev t =
     [action_NotifyDependentsOfReset hev t, action_NotifyDependentsOfSelection hev t,
      action_NotifyDependentsOfReadiness hev t, action_NotifyDependentsOfRevertedConfirmation hev t,
      action_CascadeChainedDependencyFailure hev t, action_CascadeChainedDependencyEviction hev t,
      action_NotifyPreAssembleDependentOfTermination hev t]"

text \<open>All rules of one state definition whose events are given as a list.\<close>

definition listedRules :: "(Event, coordinator, coordError) ActionRule list \<Rightarrow> (Event, coordinator, coordError) ActionRule list
    \<Rightarrow> (EventType \<times> txHandlers) list \<Rightarrow> (Event, coordinator, coordError) ActionRule list" where
  "listedRules entry exit evs =
     entry @ exit @ concat (map (\<lambda>(et, hset). concat (map handler_rules (ehs_Handlers hset))) evs)"

lemma listedRules_cover:
  assumes "d = stateDef entry exit evs"
    and "r \<in> set (OnTransitionTo d) \<or> r \<in> set (OnTransitionFrom d) \<or>
      (\<exists>et hset h. Events d et = Some hset \<and> h \<in> set (ehs_Handlers hset) \<and> r \<in> set (handler_rules h))"
  shows "r \<in> set (listedRules entry exit evs)"
  using assms(2) unfolding assms(1) listedRules_def by (auto dest!: map_of_SomeD)

lemmas stateDefs =
  def_Initial_def def_PreAssembly_Blocked_def def_Pooled_def def_Assembling_def def_Signing_def
  def_Endorsement_Gathering_def def_Blocked_def def_Confirming_Dispatchable_def def_Preparing_def
  def_Ready_For_Dispatch_def def_Dispatched_def def_Reverted_def def_Confirmed_def def_Final_def def_Evicted_def

lemmas tableParts = def_Assembling_entry_def def_Assembling_responses_def def_Assembling_other_def
  dependencyResetToPreAssemblyOrPool_def chainedDependencyFailedHandler_def

lemma stateRules_listed:
  "\<exists>entry exit evs. stateDefinitionsMap hev t s = stateDef entry exit evs \<and>
     (\<forall>r \<in> set (listedRules entry exit evs). act r \<in> set (localActions t) \<union> set (notifyingActions hev t))"
  by (cases s; simp only: stateDefinitionsMap.simps stateDefs; intro exI conjI; (rule refl)?;
      simp add: listedRules_def handler_rules_def tableParts localActions_def notifyingActions_def)

lemma txMachine_simps [simp]:
  "definitions (txMachine hev t) s = Some (stateDefinitionsMap hev t s)"
  "GetCurrentState (txMachine hev t) c = currentState (txn t c)"
  "SetCurrentState (txMachine hev t) s = updTxn t (\<lambda>x. x\<lparr>currentState := s\<rparr>)"
  "sm_mark (txMachine hev t) ev c = c"
  "callback (txMachine hev t) from to ev c = onTransition t from to ev c"
  "eventType (txMachine hev t) = Event_Type"
  "sm_locked (txMachine hev t) c = txLocked (txn t c)"
  "sm_setLock (txMachine hev t) b = updTxn t (\<lambda>x. x\<lparr>txLocked := b\<rparr>)"
  by (simp_all add: txMachine_def callback_def)

lemma machine_rule_actions:
  assumes "machine_rule (txMachine hev t) r"
  shows "act r \<in> set (localActions t) \<union> set (notifyingActions hev t)"
proof -
  from assms obtain s where "r \<in> set (OnTransitionTo (stateDefinitionsMap hev t s)) \<or>
      r \<in> set (OnTransitionFrom (stateDefinitionsMap hev t s)) \<or>
      (\<exists>et hset h. Events (stateDefinitionsMap hev t s) et = Some hset \<and> h \<in> set (ehs_Handlers hset)
         \<and> r \<in> set (handler_rules h))"
    unfolding machine_rule_def by auto
  with stateRules_listed [of hev t s] listedRules_cover show ?thesis by blast
qed

section \<open>Locks and states\<close>

text \<open>Which transactions there are, which are being processed and in which state each is.\<close>

definition shape :: "coordinator \<Rightarrow> uuid \<Rightarrow> (bool \<times> State) option" where
  "shape c t = map_option (\<lambda>x. (txLocked x, currentState x)) (transactionsByID c t)"

lemma shape_updTxn:
  assumes "\<And>x. txLocked (f x) = txLocked x" and "\<And>x. currentState (f x) = currentState x"
  shows "shape (updTxn t f c) = shape c"
  using assms by (auto simp: shape_def updTxn_def fun_eq_iff option.map_comp comp_def)

lemma shape_more [simp]:
  "shape (c\<lparr>uuidsTaken := a\<rparr>) = shape c" "shape (c\<lparr>sendsTried := a\<rparr>) = shape c"
  "shape (c\<lparr>heightReads := a\<rparr>) = shape c" "shape (c\<lparr>coordGrapher := g\<rparr>) = shape c"
  "shape (c\<lparr>stateViews := v\<rparr>) = shape c" "shape (c\<lparr>outbox := ob\<rparr>) = shape c"
  "shape (c\<lparr>eventsInternal := ei\<rparr>) = shape c" "shape (c\<lparr>finalizes := fs\<rparr>) = shape c"
  "shape (c\<lparr>dispatchQueue := dq\<rparr>) = shape c" "shape (c\<lparr>preparesStarted := ps\<rparr>) = shape c"
  "shape (c\<lparr>inFlightTxns := i\<rparr>) = shape c" "shape (c\<lparr>currentBlockHeight := h\<rparr>) = shape c"
  "shape (c\<lparr>effectiveBlockHeight := eh\<rparr>) = shape c" "shape (c\<lparr>endorserCandidates := ec\<rparr>) = shape c"
  "shape (c\<lparr>coordinatorPriorityList := pl\<rparr>) = shape c" "shape (c\<lparr>endorserNotifications := en\<rparr>) = shape c"
  "shape (c\<lparr>signingIdentityUsed := su\<rparr>) = shape c"
  by (simp_all add: shape_def fun_eq_iff)

lemma shape_prims [simp]:
  "shape (updGrapher f c) = shape c" "shape (updPreassemblyDeps f' c) = shape c"
  "shape (updChainedDeps f'' c) = shape c" "shape (queueEventForCoordinator e c) = shape c"
  "shape (clearRequestTimeoutSchedule t c) = shape c" "shape (clearStateTimeoutSchedule t c) = shape c"
  "shape (clearTimeoutSchedules t c) = shape c" "shape (scheduleRequestTimeout t c) = shape c"
  "shape (scheduleStateTimeout t c) = shape c" "shape (CleanUpPostAssemblyData t c) = shape c"
  "shape (resetEndorsementRequests t c) = shape c" "shape (queueTransactionFinalize t m d l c) = shape c"
  "shape (setPostAssembly t pa c) = shape c" "shape (setPendingEndorsement t n p r c) = shape c"
  "shape (setDispatchedInFlight t b c) = shape c" "shape (enqueueForDispatch t pd c) = shape c"
  "shape (calculateCoordinatorPriorities c) = shape c" "shape (updateEndorserCandidates ns c) = shape c"
  "shape (snd (newUUID c)) = shape c" "shape (completePreDispatchRequest t c) = shape c"
  by (auto simp: updGrapher_def updPreassemblyDeps_def updChainedDeps_def queueEventForCoordinator_def
      clearRequestTimeoutSchedule_def clearStateTimeoutSchedule_def clearTimeoutSchedules_def
      scheduleRequestTimeout_def scheduleStateTimeout_def CleanUpPostAssemblyData_def
      resetEndorsementRequests_def queueTransactionFinalize_def setPostAssembly_def setPendingEndorsement_def
      setDispatchedInFlight_def enqueueForDispatch_def calculateCoordinatorPriorities_def
      updateEndorserCandidates_def newUUID_def completePreDispatchRequest_def shape_updTxn Let_def)

lemma shape_prims2 [simp]:
  "shape (refreshBlockHeight c) = shape c" "shape (initializeForNewAssembly t c) = shape c"
  "shape (updateSigningIdentity t c) = shape c" "shape (allocateSigningIdentity t c) = shape c"
  "shape (revertTransactionFailedAssembly t r c) = shape c"
  by (auto simp: refreshBlockHeight_def initializeForNewAssembly_def updateSigningIdentity_def
      allocateSigningIdentity_def getCoordinatorSigningIdentity_def revertTransactionFailedAssembly_def
      shape_updTxn Let_def split: option.splits)

abbreviation sameShape :: "coordinator \<Rightarrow> result \<Rightarrow> bool" where
  "sameShape c r \<equiv> returns (\<lambda>c'. shape c' = shape c) r"

lemma sameShape_and_then:
  "sameShape c r \<Longrightarrow> (\<And>c'. shape c' = shape c \<Longrightarrow> sameShape c (f c')) \<Longrightarrow> sameShape c (and_then r f)"
  by (rule returns_and_then)

lemma transportSend_shape: "shape c1 = shape c \<Longrightarrow> sameShape c (transportSend n m c1)"
  by (simp add: transportSend_def)

lemma Nudge_shape:
  assumes "\<And>cap k c1. shape c1 = shape c \<Longrightarrow> sameShape c (send cap k c1)" and "shape c1 = shape c"
  shows "sameShape c (snd (Nudge send r c1))"
proof (cases "send (ir_capture r) (ir_idempotencyKey r) c1")
  case (Ok c2)
  then show ?thesis using assms(1) [OF assms(2), of "ir_capture r" "ir_idempotencyKey r"] assms(2)
    by (auto simp: Nudge_def)
next
  case (Fail e c2)
  then show ?thesis using assms(1) [OF assms(2), of "ir_capture r" "ir_idempotencyKey r"] assms(2)
    by (auto simp: Nudge_def)
qed (use assms(2) in \<open>auto simp: Nudge_def\<close>)

lemma sendTransactionConfirmed_shape: "sameShape c (sendTransactionConfirmed t tc c)"
  by (simp add: sendTransactionConfirmed_def newUUID_def transportSend_shape)

lemma liftGrapher_shape: "sameShape c (liftGrapher r c)"
  by (cases r) (simp_all add: liftGrapher_def)

lemma recordOutputStateVisibility_shape: "sameShape c (recordOutputStateVisibility t c)"
  by (simp add: recordOutputStateVisibility_def Let_def split: option.splits)

lemma applyPostAssembly_shape: "sameShape c (applyPostAssembly t pa r c)"
proof -
  have rec: "shape c1 = shape c \<Longrightarrow> sameShape c (recordOutputStateVisibility t c1)" for c1
    using recordOutputStateVisibility_shape [of c1 t] by simp
  have lift: "shape c1 = shape c \<Longrightarrow> sameShape c (liftGrapher g c1)" for c1 g
    using liftGrapher_shape [of c1 g] by simp
  show ?thesis
    unfolding applyPostAssembly_def Let_def
    by (auto split: AssemblyResult.splits sum.splits intro!: returns_and_then [OF lift] returns_and_then [OF rec])
qed

lemma applySignature_shape: "shape c1 = shape c \<Longrightarrow> sameShape c (applySignature t sig c1)"
  by (auto simp: applySignature_def Let_def split: option.splits)

lemma nudgeAssembleRequest_shape: "shape c1 = shape c \<Longrightarrow> sameShape c (nudgeAssembleRequest t c1)"
  using Nudge_shape [of c "sendAssemble t" c1]
  by (auto simp: nudgeAssembleRequest_def sendAssemble_def transportSend_shape shape_updTxn split_beta split: option.splits)

lemma nudgePreDispatchRequest_shape: "shape c1 = shape c \<Longrightarrow> sameShape c (nudgePreDispatchRequest t c1)"
  using Nudge_shape [of c "sendPreDispatch t" c1]
  by (auto simp: nudgePreDispatchRequest_def sendPreDispatch_def transportSend_shape shape_updTxn split_beta split: option.splits)

lemma requestEndorsement_shape: "shape c1 = shape c \<Longrightarrow> sameShape c (requestEndorsement t cap k c1)"
  by (auto simp: requestEndorsement_def transportSend_shape split: prod.splits sum.splits option.splits)

lemma nudgeRequirement_shape: "shape c1 = shape c \<Longrightarrow> sameShape c (nudgeRequirement t req c1)"
  using Nudge_shape [where c = c and send = "requestEndorsement t", OF requestEndorsement_shape]
  by (auto simp: nudgeRequirement_def NewIdempotentRequest_def newUUID_def split_beta split: option.splits)

lemma nudgeRequirements_shape: "shape c1 = shape c \<Longrightarrow> sameShape c (nudgeRequirements t reqs c1)"
  by (induction reqs arbitrary: c1) (auto intro!: returns_and_then nudgeRequirement_shape)

lemma sendEndorsementRequests_shape: "sameShape c (sendEndorsementRequests t c)"
  by (auto simp: sendEndorsementRequests_def Let_def shape_updTxn split: option.splits
      intro!: nudgeRequirements_shape)

lemma sendAssembleRequest_shape: "sameShape c (sendAssembleRequest t c)"
  by (auto simp: sendAssembleRequest_def shape_updTxn intro!: nudgeAssembleRequest_shape)

lemma sendPreDispatchRequest_shape: "sameShape c (sendPreDispatchRequest t c)"
  by (auto simp: sendPreDispatchRequest_def NewIdempotentRequest_def newUUID_def shape_updTxn split_beta
      split: option.splits sum.splits intro!: nudgePreDispatchRequest_shape)

lemma fold_children_shape:
  "shape (fold (\<lambda>pd c'. case cp_NewTransactionID pd of None \<Rightarrow> c'
     | Some child \<Rightarrow> updChainedDeps (SetChainedChild t child) c') ds c) = shape c"
  by (induction ds arbitrary: c) (auto split: option.splits)

lemma resetRevertState_simps [simp]:
  "txLocked (resetRevertState x) = txLocked x" "currentState (resetRevertState x) = currentState x"
  by (simp_all add: resetRevertState_def)

lemma recordRevert_simps [simp]:
  "txLocked (recordRevert e m r l x) = txLocked x" "currentState (recordRevert e m r l x) = currentState x"
  by (auto simp: recordRevert_def Let_def split_beta)

lemmas localActionDefs =
  action_FinalizeOnRevertedChainedDependencyAtCreation_def
  action_NotifyOriginatorOfChainedDependencyFailureAtCreation_def
  action_InitializeForNewAssembly_def action_RemovePreAssembleDependency_def
  action_MarkChainedDependencyAssembled_def action_MarkChainedDependencyUnassembled_def
  action_FinalizeOnChainedDependencyFailure_def action_NotifyOriginatorOfChainedDependencyFailure_def
  action_RemovePreAssemblePrereqOf_def action_ScheduleStateTimeout_def action_RefreshBlockHeight_def
  action_CaptureGrapherSnapshot_def action_SendAssembleRequest_def action_DeleteGrapherSnapshot_def
  action_AssembleSuccess_def action_AssembleAndSign_def action_SignError_def action_AssembleRevertResponse_def
  action_AssembleError_def action_LogAssembleRejection_def action_FinalizeAsUnknownByOriginator_def
  action_NudgeAssembleRequest_def action_ClearStateTimeout_def action_Signed_def
  action_ComputeEndorseTolerances_def action_SendEndorsementRequests_def action_Endorsed_def
  action_ResetEndorsementRequests_def action_UpdateSigningIdentity_def action_RecordEndorseFailure_def
  action_NotifyOriginatorOfEndorseRevert_def action_FinalizeEndorseRevert_def
  action_NudgeEndorsementRequests_def action_SendPreDispatchRequest_def action_DispatchRequestApproved_def
  action_DispatchRequestRejected_def action_NudgePreDispatchRequest_def action_AllocateSigningIdentity_def
  action_StartPrepare_def action_CancelPrepare_def action_QueuePreparedDispatch_def
  action_MarkDispatchedInFlight_def action_NotifyDispatched_def action_ClearDispatchedInFlight_def
  action_NotifyCollected_def action_NotifyNonceAllocated_def action_NotifySubmitted_def
  action_RecordConfirmationSuccess_def action_NotifyOriginatorOfConfirmation_def
  action_RecordConfirmationRevert_def action_NotifyOriginatorOfRetryableRevert_def
  action_RevertTransactionInGrapher_def action_NotifyOriginatorOfNonRetryableRevert_def
  action_FinalizeNonRetryableRevert_def action_ResetTransactionLocks_def
  action_IncrementHeartbeatIntervalsSinceStateChange_def notifyOfRevert_def

lemma assembleAndSign_shape: "sameShape c (and_then (applyPostAssembly t pa r c) (applySignature t sig))"
  by (rule returns_and_then [OF applyPostAssembly_shape applySignature_shape])

lemma localActions_shape: "\<forall>a \<in> set (localActions t). sameShape c (a ev c)"
  unfolding localActions_def list.set ball_simps
  by (intro conjI TrueI;
      simp add: localActionDefs shape_updTxn newUUID_def applyEndorsement_def fold_children_shape Let_def split_beta
        applyPostAssembly_shape applySignature_shape assembleAndSign_shape sendEndorsementRequests_shape sendAssembleRequest_shape
        sendPreDispatchRequest_shape nudgeAssembleRequest_shape nudgePreDispatchRequest_shape
        sendTransactionConfirmed_shape transportSend_shape
        split: Event.split option.split)

section \<open>Nested processing\<close>

text \<open>
  What an event handed to another transaction may change: never the set of transactions or a lock, and
  the state only of transactions that were not being processed.
\<close>

definition undisturbed :: "coordinator \<Rightarrow> coordinator \<Rightarrow> bool" where
  "undisturbed c c' \<longleftrightarrow> (\<forall>t. map_option fst (shape c' t) = map_option fst (shape c t))
     \<and> (\<forall>t s. shape c t = Some (True, s) \<longrightarrow> shape c' t = Some (True, s))"

lemma undisturbed_refl: "shape c' = shape c \<Longrightarrow> undisturbed c c'"
  by (simp add: undisturbed_def)

lemma undisturbed_trans: "undisturbed a b \<Longrightarrow> undisturbed b c \<Longrightarrow> undisturbed a c"
  by (simp add: undisturbed_def)

lemma undisturbed_shape: "shape b' = shape b \<Longrightarrow> undisturbed a b \<Longrightarrow> undisturbed a b'"
  by (simp add: undisturbed_def)

definition wellBehaved :: "handleEvent \<Rightarrow> bool" where
  "wellBehaved hev \<longleftrightarrow> (\<forall>d ev c. returns (undisturbed c) (hev d ev c))"

lemma wellBehaved_from:
  "wellBehaved hev \<Longrightarrow> undisturbed c c1 \<Longrightarrow> returns (undisturbed c) (hev d ev c1)"
  by (rule returns_mono [where P = "undisturbed c1"]) (auto simp: wellBehaved_def intro: undisturbed_trans)

lemma notify_undisturbed:
  assumes "wellBehaved hev" and "undisturbed c c1"
  shows "returns (undisturbed c) (notifyLogged hev ev ds c1)"
    and "returns (undisturbed c) (notifyUntilError hev ev ds c1)"
proof -
  show "returns (undisturbed c) (notifyLogged hev ev ds c1)"
    using assms(2) by (induction ds arbitrary: c1)
      (auto intro!: returns_and_then wellBehaved_from [OF assms(1)])
  show "returns (undisturbed c) (notifyUntilError hev ev ds c1)"
    using assms(2) by (induction ds arbitrary: c1)
      (auto intro!: returns_and_then wellBehaved_from [OF assms(1)])
qed

lemmas notifyingActionDefs =
  action_NotifyDependentsOfReset_def action_NotifyDependentsOfSelection_def
  action_NotifyDependentsOfReadiness_def action_NotifyDependentsOfRevertedConfirmation_def
  action_CascadeChainedDependencyFailure_def action_CascadeChainedDependencyEviction_def
  action_NotifyPreAssembleDependentOfTermination_def notifyDependentsOfReset_def
  notifyDependentsOfSelection_def notifyDependentsOfReadiness_def notifyDependentsOfRevertedConfirmation_def

lemma notifyingActions_undisturbed:
  assumes "wellBehaved hev"
  shows "\<forall>a \<in> set (notifyingActions hev t). returns (undisturbed c) (a ev c)"
proof -
  note n = notify_undisturbed [OF assms undisturbed_refl [OF refl]]
  have "returns (undisturbed c) (hev d e c)" for d e
    using assms by (simp add: wellBehaved_def)
  moreover have "returns (\<lambda>c'. undisturbed c (updGrapher f c')) (notifyLogged hev e ds c)" for f e ds
    by (rule returns_mono [OF n(1)]) (auto intro: undisturbed_shape [OF shape_prims(1)])
  ultimately show ?thesis
    by (simp add: notifyingActions_def notifyingActionDefs n undisturbed_refl split: option.split)
qed

lemma rule_undisturbed:
  assumes "wellBehaved hev" and "machine_rule (txMachine hev t) r"
  shows "returns (undisturbed c) (act r ev c)"
proof (cases "act r \<in> set (localActions t)")
  case True
  then have "sameShape c (act r ev c)" using localActions_shape by blast
  then show ?thesis by (rule returns_mono) (rule undisturbed_refl)
next
  case False
  then show ?thesis using machine_rule_actions [OF assms(2)] notifyingActions_undisturbed [OF assms(1)] by blast
qed

text \<open>The same for the transaction \<open>t\<close> that processes an event itself: only its own state may differ.\<close>

definition undisturbedBut :: "uuid \<Rightarrow> coordinator \<Rightarrow> coordinator \<Rightarrow> bool" where
  "undisturbedBut t c c' \<longleftrightarrow> (\<forall>u. map_option fst (shape c' u) = map_option fst (shape c u))
     \<and> (\<forall>u s. u \<noteq> t \<longrightarrow> shape c u = Some (True, s) \<longrightarrow> shape c' u = Some (True, s))"

lemma undisturbedBut_undisturbed: "undisturbedBut t a b \<Longrightarrow> undisturbed b c \<Longrightarrow> undisturbedBut t a c"
  by (simp add: undisturbedBut_def undisturbed_def)

lemma shape_updTxn_at:
  "shape (updTxn t f c) u = (if u = t then map_option (\<lambda>x. (txLocked (f x), currentState (f x))) (transactionsByID c t)
     else shape c u)"
  by (simp add: shape_def updTxn_def option.map_comp comp_def)

lemma known_shape: "transactionsByID c t \<noteq> None \<longleftrightarrow> shape c t \<noteq> None"
  by (simp add: shape_def)

lemma shape_known: "transactionsByID c t \<noteq> None \<Longrightarrow> shape c t = Some (txLocked (txn t c), currentState (txn t c))"
  by (auto simp: shape_def txn_def)

lemma onTransition_shape [simp]: "shape (onTransition t from to ev c) = shape c"
  by (simp add: onTransition_def shape_updTxn)

lemma step_undisturbed:
  assumes "wellBehaved hev"
  shows "step_invariant (txMachine hev t) (undisturbedBut t c0) ev"
proof (unfold_locales, goal_cases)
  case (1 c s)
  have "map_option fst (shape (updTxn t (\<lambda>x. x\<lparr>currentState := s\<rparr>) c) t) = map_option fst (shape c t)"
    by (simp add: shape_updTxn_at) (simp add: shape_def option.map_comp comp_def)
  with 1 show ?case by (auto simp: undisturbedBut_def shape_updTxn_at)
next
  case (4 r c)
  show ?case
    by (rule returns_mono [OF rule_undisturbed [OF assms 4(1)]]) (rule undisturbedBut_undisturbed [OF 4(2)])
qed (auto simp: undisturbedBut_def)

lemma HandleEvent_undisturbed:
  assumes "wellBehaved hev" and "transactionsByID c t \<noteq> None"
  shows "returns (undisturbed c) (HandleEvent hev t ev c)"
proof (cases "txLocked (txn t c)")
  case True
  then show ?thesis by (simp add: HandleEvent_def ProcessEvent_def)
next
  case False
  let ?c0 = "updTxn t (\<lambda>x. x\<lparr>txLocked := True\<rparr>) c"
  have t: "shape c t = Some (False, currentState (txn t c))" using shape_known [OF assms(2)] False by simp
  have "undisturbed c (updTxn t (\<lambda>x. x\<lparr>txLocked := False\<rparr>) c')" if u: "undisturbedBut t ?c0 c'" for c'
  proof -
    have "shape ?c0 t = Some (True, currentState (txn t c))"
      using assms(2) by (auto simp: shape_updTxn_at txn_def)
    then have "map_option fst (shape c' t) = Some True" using u by (auto simp: undisturbedBut_def)
    then have "transactionsByID c' t \<noteq> None" by (auto simp: shape_def)
    then have "map_option fst (shape (updTxn t (\<lambda>x. x\<lparr>txLocked := False\<rparr>) c') t) = Some False"
      by (auto simp: shape_updTxn_at)
    with u t show ?thesis by (auto simp: undisturbed_def undisturbedBut_def shape_updTxn_at split: if_splits)
  qed
  moreover have "returns (undisturbedBut t ?c0) (handleLocked (txMachine hev t) ev ?c0)"
    by (rule step_invariant.handleLocked_inv [OF step_undisturbed [OF assms(1)]]) (simp add: undisturbedBut_def)
  ultimately show ?thesis
    using False by (auto simp: HandleEvent_def ProcessEvent_def elim: returns_mono)
qed

lemma wellBehaved_HandleEvent: "wellBehaved (coordinatorTransactionHandleEvent n)"
proof (induction n)
  case 0
  then show ?case by (simp add: wellBehaved_def)
next
  case (Suc n)
  then show ?case
    using HandleEvent_undisturbed [OF Suc]
    by (auto simp: wellBehaved_def undisturbed_refl split: option.split)
qed

section \<open>The declared transitions\<close>

interpretation frame: step_invariant "txMachine (coordinatorTransactionHandleEvent n) t" "undisturbedBut t c0" ev
  for n t c0 ev
  by (rule step_undisturbed [OF wellBehaved_HandleEvent])

lemma rule_keeps_own:
  assumes "machine_rule (txMachine (coordinatorTransactionHandleEvent n) t) r"
    and "transactionsByID c t \<noteq> None" and "txLocked (txn t c)"
  shows "returns (\<lambda>c'. transactionsByID c' t \<noteq> None \<and> txLocked (txn t c') \<and> currentState (txn t c') = currentState (txn t c))
    (act r ev c)"
proof (rule returns_mono [OF rule_undisturbed [OF wellBehaved_HandleEvent assms(1)]])
  fix c' assume "undisturbed c c'"
  then have "shape c' t = Some (True, currentState (txn t c))"
    using shape_known [OF assms(2)] assms(3) by (simp add: undisturbed_def)
  then show "transactionsByID c' t \<noteq> None \<and> txLocked (txn t c') \<and> currentState (txn t c') = currentState (txn t c)"
    by (auto simp: shape_def txn_def)
qed

interpretation txOwned: owned_state "txMachine (coordinatorTransactionHandleEvent n) t" ev
  "\<lambda>c. transactionsByID c t \<noteq> None" for n t ev
  by unfold_locales
     (auto simp: txn_def updTxn_def onTransition_def queueEventForCoordinator_def
       dest!: rule_keeps_own [unfolded txn_def, where t = t])

section \<open>The nesting is bounded\<close>

text \<open>
  A transaction that processes an event is locked, so a chain of nested events visits each transaction
  once at most. Two bounds above the number of unlocked transactions give the same machine.
\<close>

definition locks :: "coordinator \<Rightarrow> uuid \<Rightarrow> bool option" where
  "locks c u = map_option fst (shape c u)"

definition unlocked :: "(uuid \<Rightarrow> bool option) \<Rightarrow> uuid set" where
  "unlocked L = {u. L u = Some False}"

lemma locks_shape: "shape c' = shape c \<Longrightarrow> locks c' = locks c"
  by (simp add: locks_def fun_eq_iff)

lemma locks_undisturbed: "undisturbed c c' \<Longrightarrow> locks c' = locks c"
  by (simp add: locks_def undisturbed_def fun_eq_iff)

text \<open>The worlds with these locks, provided that \<open>b\<close>.\<close>

definition within :: "bool \<Rightarrow> (uuid \<Rightarrow> bool option) \<Rightarrow> coordinator \<Rightarrow> bool" where
  "within b L c \<longleftrightarrow> b \<and> locks c = L"

definition eventsAgree :: "bool \<Rightarrow> (uuid \<Rightarrow> bool option) \<Rightarrow> handleEvent \<Rightarrow> handleEvent \<Rightarrow> bool" where
  "eventsAgree b L h h' \<longleftrightarrow> wellBehaved h' \<and> (\<forall>d ev c. within b L c \<longrightarrow> h d ev c = h' d ev c)"

lemma eventsAgree_at: "eventsAgree b L h h' \<Longrightarrow> within b L c \<Longrightarrow> h d ev c = h' d ev c"
  by (simp add: eventsAgree_def)

lemma eventsAgree_in:
  assumes "eventsAgree b L h h'" and "within b L c"
  shows "returns (within b L) (h' d ev c)"
proof -
  have "returns (undisturbed c) (h' d ev c)" using assms(1) by (simp add: eventsAgree_def wellBehaved_def)
  then show ?thesis by (rule returns_mono) (use assms(2) in \<open>auto simp: within_def dest: locks_undisturbed\<close>)
qed

lemma and_then_agree:
  assumes "returns P r" and "\<And>w. P w \<Longrightarrow> f w = g w"
  shows "and_then r f = and_then r g"
  using assms by (cases r) auto

lemma notify_agree:
  assumes "eventsAgree b L h h'" and "within b L c"
  shows "notifyLogged h e ds c = notifyLogged h' e ds c"
    and "notifyUntilError h e ds c = notifyUntilError h' e ds c"
proof -
  note inside = eventsAgree_in [OF assms(1)] and same = eventsAgree_at [OF assms(1)]
  show "notifyLogged h e ds c = notifyLogged h' e ds c"
    using assms(2)
  proof (induction ds arbitrary: c)
    case (Cons d ds)
    have "returns (within b L) (log_error (h' d e c))" using inside [OF Cons.prems] by simp
    from and_then_agree [OF this Cons.IH] show ?case by (simp add: same [OF Cons.prems])
  qed simp
  show "notifyUntilError h e ds c = notifyUntilError h' e ds c"
    using assms(2)
  proof (induction ds arbitrary: c)
    case (Cons d ds)
    from and_then_agree [OF inside [OF Cons.prems] Cons.IH] show ?case by (simp add: same [OF Cons.prems])
  qed simp
qed

lemma rule_agrees_local:
  assumes "act r \<in> set (localActions t)"
  shows "rule_agrees (within b L) ev r r"
proof -
  have "returns (within b L) (act r ev c)" if "within b L c" for c
    by (rule returns_mono [OF bspec [OF localActions_shape assms]]) (use that in \<open>auto simp: within_def dest: locks_shape\<close>)
  then show ?thesis by (simp add: rule_agrees_def)
qed

lemma rule_agrees_notifying:
  assumes "eventsAgree b L h h'"
  shows "list_all2 (\<lambda>a a'. rule_agrees (within b L) ev (always a) (always a'))
    (notifyingActions h t) (notifyingActions h' t)"
proof -
  have same: "list_all2 (\<lambda>a a'. \<forall>c. within b L c \<longrightarrow> a ev c = a' ev c) (notifyingActions h t) (notifyingActions h' t)"
    by (simp add: notifyingActions_def notifyingActionDefs notify_agree [OF assms] eventsAgree_at [OF assms]
        split: option.split)
  have inside: "returns (within b L) (a ev c)" if "within b L c" "a \<in> set (notifyingActions h' t)" for a c
  proof -
    have "wellBehaved h'" using assms by (simp add: eventsAgree_def)
    from bspec [OF notifyingActions_undisturbed [OF this] that(2)] show ?thesis
      by (rule returns_mono) (use that(1) in \<open>auto simp: within_def dest: locks_undisturbed\<close>)
  qed
  show ?thesis
    by (rule list.rel_mono_strong [OF same]) (simp add: rule_agrees_def inside)
qed

text \<open>The tables of the two machines, state by state.\<close>

definition stateDef_agrees :: "bool \<Rightarrow> (uuid \<Rightarrow> bool option) \<Rightarrow> Event \<Rightarrow> txStateDefinition \<Rightarrow> txStateDefinition \<Rightarrow> bool" where
  "stateDef_agrees b L ev d d' \<longleftrightarrow>
     list_all2 (rule_agrees (within b L) ev) (OnTransitionTo d) (OnTransitionTo d')
     \<and> list_all2 (rule_agrees (within b L) ev) (OnTransitionFrom d) (OnTransitionFrom d')
     \<and> (\<forall>et. rel_option (\<lambda>hs hs'. ehs_Match hs = ehs_Match hs'
          \<and> list_all2 (handler_agrees (within b L) ev) (ehs_Handlers hs) (ehs_Handlers hs')) (Events d et) (Events d' et))"

lemma map_of_rel:
  "list_all2 (\<lambda>(k, v) (k', v'). k = k' \<and> R v v') xs ys \<Longrightarrow> rel_option R (map_of xs k) (map_of ys k)"
  by (induction xs ys rule: list_all2_induct) auto

lemma stateDefinitions_agree:
  assumes "eventsAgree b L h h'"
  shows "stateDef_agrees b L ev (stateDefinitionsMap h t s) (stateDefinitionsMap h' t s)"
proof -
  note notifying = rule_agrees_notifying [OF assms, of ev t, unfolded notifyingActions_def, simplified]
  have local: "a \<in> set (localActions t) \<Longrightarrow> rule_agrees (within b L) ev \<lparr>act = a, act_If = g\<rparr> \<lparr>act = a, act_If = g\<rparr>" for a g
    by (rule rule_agrees_local) simp
  note locals = local [unfolded localActions_def, simplified]
  show ?thesis
    by (cases s; simp only: stateDefinitionsMap.simps stateDefs stateDef_agrees_def StateDefinition.simps;
        intro conjI allI map_of_rel;
        simp add: handler_agrees_def transition_agrees_def tableParts notifying locals)
qed

lemma machines_agree:
  assumes "eventsAgree b L h h'"
  shows "agreeing_machines (txMachine h t) (txMachine h' t) (within b L) ev"
proof -
  have d: "stateDef_agrees b L ev (stateDefinitionsMap h t s) (stateDefinitionsMap h' t s)" for s
    by (rule stateDefinitions_agree [OF assms])
  have ev: "rel_option (\<lambda>hs hs'. ehs_Match hs = ehs_Match hs'
      \<and> list_all2 (handler_agrees (within b L) ev) (ehs_Handlers hs) (ehs_Handlers hs'))
    (Events (stateDefinitionsMap h t s) et) (Events (stateDefinitionsMap h' t s) et)" for s et
    using d by (simp add: stateDef_agrees_def)
  have state: "locks (updTxn t (\<lambda>x. x\<lparr>currentState := s\<rparr>) c) = locks c" for s c
    by (auto simp: locks_def fun_eq_iff shape_def updTxn_def option.map_comp comp_def)
  have callback: "locks (onTransition t from to ev' c) = locks c" for "from" to ev' c
    by (rule locks_shape) simp
  show ?thesis
  proof (unfold_locales, goal_cases)
    case (9 s)
    show ?case using d by (simp add: entryActions_def stateDef_agrees_def)
  next
    case (10 s)
    show ?case using d by (simp add: exitActions_def stateDef_agrees_def)
  next
    case (11 s)
    show ?case using ev [of s "Event_Type ev"]
      by (auto simp: handlers_for_def elim!: option.rel_cases)
  next
    case (12 s)
    show ?case using ev [of s "Event_Type ev"] by (auto elim!: option.rel_cases)
  qed (simp_all add: txMachine_def callback_def within_def state callback)
qed

definition enoughFuel :: "nat \<Rightarrow> nat \<Rightarrow> (uuid \<Rightarrow> bool option) \<Rightarrow> bool" where
  "enoughFuel n m L \<longleftrightarrow> finite (unlocked L) \<and> card (unlocked L) < n \<and> card (unlocked L) < m"

lemma unlocked_lock:
  assumes "transactionsByID c t \<noteq> None" and "\<not> txLocked (txn t c)" and "enoughFuel (Suc n) (Suc m) (locks c)"
  shows "enoughFuel n m (locks (updTxn t (\<lambda>x. x\<lparr>txLocked := True\<rparr>) c))"
proof -
  have t: "t \<in> unlocked (locks c)" using shape_known [OF assms(1)] assms(2) by (auto simp: unlocked_def locks_def)
  moreover have "unlocked (locks (updTxn t (\<lambda>x. x\<lparr>txLocked := True\<rparr>) c)) = unlocked (locks c) - {t}"
    by (auto simp: unlocked_def locks_def shape_updTxn_at split: if_splits)
  moreover have "0 < card (unlocked (locks c))"
    using t assms(3) by (auto simp: enoughFuel_def card_gt_0_iff)
  ultimately show ?thesis using assms(3) by (simp add: enoughFuel_def card_Diff_singleton less_diff_conv2)
qed

lemma fuel_irrelevant:
  "enoughFuel n m (locks c) \<Longrightarrow> coordinatorTransactionHandleEvent n t ev c = coordinatorTransactionHandleEvent m t ev c"
proof (induction n arbitrary: m t ev c)
  case 0
  then show ?case by (simp add: enoughFuel_def)
next
  case (Suc n)
  then obtain m' where m: "m = Suc m'" by (cases m) (auto simp: enoughFuel_def)
  have agree: "eventsAgree (enoughFuel n m' L) L (coordinatorTransactionHandleEvent n) (coordinatorTransactionHandleEvent m')" for L
    using Suc.IH wellBehaved_HandleEvent by (auto simp: eventsAgree_def within_def)
  show ?case
  proof (cases "transactionsByID c t \<noteq> None \<and> \<not> txLocked (txn t c)")
    case True
    let ?c0 = "updTxn t (\<lambda>x. x\<lparr>txLocked := True\<rparr>) c"
    have "enoughFuel n m' (locks ?c0)" using unlocked_lock True Suc.prems m by blast
    then have "within (enoughFuel n m' (locks ?c0)) (locks ?c0) ?c0" by (simp add: within_def)
    from agreeing_machines.handleLocked_agree [OF machines_agree [OF agree] this]
    show ?thesis using True m by (auto simp: HandleEvent_def ProcessEvent_def)
  next
    case False
    then show ?thesis using m by (auto simp: HandleEvent_def ProcessEvent_def split: option.split)
  qed
qed

interpretation sameMachine: agreeing_machines "txMachine (coordinatorTransactionHandleEvent n) t"
  "txMachine (coordinatorTransactionHandleEvent m) t" "within (enoughFuel n m L) L" ev for n m L t ev
  by (rule machines_agree) (auto simp: eventsAgree_def within_def wellBehaved_HandleEvent intro: fuel_irrelevant)

end
