(* ===== verification/TransactionInvariant.thy ===== *)
theory TransactionInvariant
  imports TransactionFrame
begin

text \<open>
  The state locks and the dependency graph stay consistent under the transaction machine: every action
  of the table keeps the invariant of the grapher, hence so does the processing of any event, with all
  the events it hands to other transactions and wherever an error stops it.
\<close>

definition consistent :: "coordinator \<Rightarrow> bool" where
  "consistent c \<longleftrightarrow> grapher_inv (coordGrapher c)"

section \<open>What does not touch the grapher\<close>

lemma coordGrapher_updTxn [simp]: "coordGrapher (updTxn t f c) = coordGrapher c"
  by (simp add: updTxn_def)

lemma coordGrapher_prims [simp]:
  "coordGrapher (queueEventForCoordinator e c) = coordGrapher c"
  "coordGrapher (clearRequestTimeoutSchedule t c) = coordGrapher c"
  "coordGrapher (clearStateTimeoutSchedule t c) = coordGrapher c"
  "coordGrapher (clearTimeoutSchedules t c) = coordGrapher c"
  "coordGrapher (scheduleRequestTimeout t c) = coordGrapher c"
  "coordGrapher (scheduleStateTimeout t c) = coordGrapher c"
  "coordGrapher (resetEndorsementRequests t c) = coordGrapher c"
  "coordGrapher (queueTransactionFinalize t m d l c) = coordGrapher c"
  "coordGrapher (setPostAssembly t pa c) = coordGrapher c"
  "coordGrapher (setPendingEndorsement t n p r c) = coordGrapher c"
  "coordGrapher (setDispatchedInFlight t b c) = coordGrapher c"
  "coordGrapher (enqueueForDispatch t pd c) = coordGrapher c"
  "coordGrapher (calculateCoordinatorPriorities c) = coordGrapher c"
  "coordGrapher (updateEndorserCandidates ns c) = coordGrapher c"
  "coordGrapher (snd (newUUID c)) = coordGrapher c"
  "coordGrapher (completePreDispatchRequest t c) = coordGrapher c"
  "coordGrapher (updateSigningIdentity t c) = coordGrapher c"
  "coordGrapher (allocateSigningIdentity t c) = coordGrapher c"
  "coordGrapher (revertTransactionFailedAssembly t rr c) = coordGrapher c"
  by (auto simp: queueEventForCoordinator_def
      clearRequestTimeoutSchedule_def clearStateTimeoutSchedule_def clearTimeoutSchedules_def
      scheduleRequestTimeout_def scheduleStateTimeout_def
      resetEndorsementRequests_def queueTransactionFinalize_def setPostAssembly_def setPendingEndorsement_def
      setDispatchedInFlight_def enqueueForDispatch_def calculateCoordinatorPriorities_def
      updateEndorserCandidates_def newUUID_def completePreDispatchRequest_def updateSigningIdentity_def
      allocateSigningIdentity_def getCoordinatorSigningIdentity_def revertTransactionFailedAssembly_def
      Let_def split: option.splits)

lemma consistent_same: "coordGrapher c' = coordGrapher c \<Longrightarrow> consistent c \<Longrightarrow> consistent c'"
  by (simp add: consistent_def)

section \<open>What keeps it consistent\<close>

lemma grapher_inv_dependencies:
  "grapher_inv g \<Longrightarrow> postAssembly d = postAssembly (depTracker g) \<Longrightarrow> grapher_inv (g\<lparr>depTracker := d\<rparr>)"
  unfolding grapher_inv_def by (auto elim!: minters_wf_cong locks_wf_cong deps_wf_cong)

lemma consistent_deps [simp]:
  "consistent c \<Longrightarrow> consistent (updPreassemblyDeps f c)"
  "consistent c \<Longrightarrow> consistent (updChainedDeps f' c)"
  by (auto simp: consistent_def updPreassemblyDeps_def updChainedDeps_def updGrapher_def
      intro!: grapher_inv_dependencies)

lemma consistent_forget [simp]:
  "consistent c \<Longrightarrow> consistent (updGrapher (ForgetTransactionAndLocks t) c)"
  "consistent c \<Longrightarrow> consistent (updGrapher (ForgetTransaction t b) c)"
  "consistent c \<Longrightarrow> consistent (updGrapher (ForgetConfirmedLocks h) c)"
  by (simp_all add: consistent_def updGrapher_def inv_ForgetTransactionAndLocks inv_ForgetTransaction
      inv_ForgetConfirmedLocks)

lemma consistent_simps [simp]:
  "consistent (updTxn t f c) = consistent c" "consistent (c\<lparr>uuidsTaken := a\<rparr>) = consistent c"
  "consistent (c\<lparr>sendsTried := a\<rparr>) = consistent c" "consistent (c\<lparr>heightReads := a\<rparr>) = consistent c"
  "consistent (c\<lparr>stateViews := v\<rparr>) = consistent c" "consistent (c\<lparr>outbox := ob\<rparr>) = consistent c"
  "consistent (c\<lparr>preparesStarted := ps\<rparr>) = consistent c"
  "consistent (c\<lparr>currentBlockHeight := h\<rparr>) = consistent c"
  "consistent (c\<lparr>effectiveBlockHeight := eh\<rparr>) = consistent c"
  "consistent (c\<lparr>eventsInternal := ei\<rparr>) = consistent c"
  by (simp_all add: consistent_def)

lemma consistent_prims [simp]:
  "consistent (queueEventForCoordinator e c) = consistent c"
  "consistent (clearRequestTimeoutSchedule t c) = consistent c"
  "consistent (clearStateTimeoutSchedule t c) = consistent c"
  "consistent (clearTimeoutSchedules t c) = consistent c"
  "consistent (scheduleRequestTimeout t c) = consistent c"
  "consistent (scheduleStateTimeout t c) = consistent c"
  "consistent (resetEndorsementRequests t c) = consistent c"
  "consistent (queueTransactionFinalize t m d l c) = consistent c"
  "consistent (setPostAssembly t pa c) = consistent c"
  "consistent (setPendingEndorsement t n p r c) = consistent c"
  "consistent (setDispatchedInFlight t b c) = consistent c"
  "consistent (enqueueForDispatch t pd c) = consistent c"
  "consistent (calculateCoordinatorPriorities c) = consistent c"
  "consistent (updateEndorserCandidates ns c) = consistent c"
  "consistent (snd (newUUID c)) = consistent c"
  "consistent (completePreDispatchRequest t c) = consistent c"
  "consistent (updateSigningIdentity t c) = consistent c"
  "consistent (allocateSigningIdentity t c) = consistent c"
  "consistent (revertTransactionFailedAssembly t rr c) = consistent c"
  by (simp_all add: consistent_def)

lemma consistent_prims2 [simp]:
  "consistent c \<Longrightarrow> consistent (refreshBlockHeight c)"
  "consistent c \<Longrightarrow> consistent (CleanUpPostAssemblyData t c)"
  "consistent c \<Longrightarrow> consistent (initializeForNewAssembly t c)"
  by (auto simp: refreshBlockHeight_def initializeForNewAssembly_def CleanUpPostAssemblyData_def Let_def)

lemma transportSend_consistent: "consistent c \<Longrightarrow> returns consistent (transportSend n m c)"
  by (simp add: transportSend_def)

lemma Nudge_consistent:
  assumes "\<And>cap k c1. consistent c1 \<Longrightarrow> returns consistent (send cap k c1)" and "consistent c"
  shows "returns consistent (snd (Nudge send r c))"
proof (cases "send (ir_capture r) (ir_idempotencyKey r) c")
  case (Ok c2)
  then show ?thesis using assms(1) [OF assms(2), of "ir_capture r" "ir_idempotencyKey r"] assms(2)
    by (auto simp: Nudge_def)
next
  case (Fail e c2)
  then show ?thesis using assms(1) [OF assms(2), of "ir_capture r" "ir_idempotencyKey r"] assms(2)
    by (auto simp: Nudge_def)
qed (use assms(2) in \<open>auto simp: Nudge_def\<close>)

lemma AddMinter_consistent: "grapher_inv g \<Longrightarrow> returns consistent (liftGrapher (AddMinter ss t g) c)"
  using inv_AddMinter [of g ss t]
  by (cases "AddMinter ss t g") (simp_all add: liftGrapher_def consistent_def)

lemma recordOutputStateVisibility_consistent:
  "consistent c \<Longrightarrow> returns consistent (recordOutputStateVisibility t c)"
  by (auto simp: recordOutputStateVisibility_def Let_def consistent_def updGrapher_def inv_recordVisibility
      split: option.splits)

lemma lockMints_consistent:
  "consistent c \<Longrightarrow> consistent (updGrapher (\<lambda>g. LockMintsOnReadAndSpend rs is t (LockMintsOnCreate os t g)) c)"
  by (simp add: consistent_def updGrapher_def inv_LockMintsOnReadAndSpend inv_LockMintsOnCreate)

lemma applyPostAssembly_consistent: "consistent c \<Longrightarrow> returns consistent (applyPostAssembly t pa r c)"
  unfolding applyPostAssembly_def Let_def
  by (auto split: AssemblyResult.splits sum.splits simp: lockMints_consistent
      intro!: returns_and_then [OF AddMinter_consistent] returns_and_then [OF recordOutputStateVisibility_consistent])
     (simp_all add: consistent_def)

lemma applySignature_consistent: "consistent c \<Longrightarrow> returns consistent (applySignature t sig c)"
  by (auto simp: applySignature_def Let_def split: option.splits)

lemma assembleAndSign_consistent:
  "consistent c \<Longrightarrow> returns consistent (and_then (applyPostAssembly t pa r c) (applySignature t sig))"
  by (rule returns_and_then [OF applyPostAssembly_consistent applySignature_consistent])

lemma nudgeAssembleRequest_consistent: "consistent c \<Longrightarrow> returns consistent (nudgeAssembleRequest t c)"
  using Nudge_consistent [of "sendAssemble t" c]
  by (auto simp: nudgeAssembleRequest_def sendAssemble_def transportSend_consistent split_beta split: option.splits)

lemma nudgePreDispatchRequest_consistent: "consistent c \<Longrightarrow> returns consistent (nudgePreDispatchRequest t c)"
  using Nudge_consistent [of "sendPreDispatch t" c]
  by (auto simp: nudgePreDispatchRequest_def sendPreDispatch_def transportSend_consistent split_beta split: option.splits)

lemma requestEndorsement_consistent: "consistent c \<Longrightarrow> returns consistent (requestEndorsement t cap k c)"
  by (auto simp: requestEndorsement_def transportSend_consistent split: prod.splits sum.splits option.splits)

lemma nudgeRequirement_consistent: "consistent c \<Longrightarrow> returns consistent (nudgeRequirement t req c)"
  using Nudge_consistent [where send = "requestEndorsement t", OF requestEndorsement_consistent]
  by (auto simp: nudgeRequirement_def NewIdempotentRequest_def newUUID_def split_beta split: option.splits)

lemma nudgeRequirements_consistent: "consistent c \<Longrightarrow> returns consistent (nudgeRequirements t reqs c)"
  by (induction reqs arbitrary: c) (auto intro!: returns_and_then nudgeRequirement_consistent)

lemma sends_consistent:
  "consistent c \<Longrightarrow> returns consistent (sendEndorsementRequests t c)"
  "consistent c \<Longrightarrow> returns consistent (sendAssembleRequest t c)"
  "consistent c \<Longrightarrow> returns consistent (sendPreDispatchRequest t c)"
  "consistent c \<Longrightarrow> returns consistent (sendTransactionConfirmed t tc c)"
proof -
  show "consistent c \<Longrightarrow> returns consistent (sendEndorsementRequests t c)"
    by (auto simp: sendEndorsementRequests_def Let_def split: option.splits intro!: nudgeRequirements_consistent)
  show "consistent c \<Longrightarrow> returns consistent (sendAssembleRequest t c)"
    by (auto simp: sendAssembleRequest_def intro!: nudgeAssembleRequest_consistent)
  show "consistent c \<Longrightarrow> returns consistent (sendPreDispatchRequest t c)"
    by (auto simp: sendPreDispatchRequest_def NewIdempotentRequest_def newUUID_def split_beta
      split: option.splits sum.splits intro!: nudgePreDispatchRequest_consistent)
  show "consistent c \<Longrightarrow> returns consistent (sendTransactionConfirmed t tc c)"
    by (simp add: sendTransactionConfirmed_def newUUID_def transportSend_consistent)
qed

lemma fold_children_consistent:
  "consistent c \<Longrightarrow> consistent (fold (\<lambda>pd c'. case cp_NewTransactionID pd of None \<Rightarrow> c'
     | Some child \<Rightarrow> updChainedDeps (SetChainedChild t child) c') ds c)"
  by (induction ds arbitrary: c) (auto split: option.splits)

lemma localActions_consistent:
  assumes "consistent c"
  shows "\<forall>a \<in> set (localActions t). returns consistent (a ev c)"
  unfolding localActions_def list.set ball_simps
  using assms
  by (intro conjI TrueI;
      simp add: localActionDefs newUUID_def applyEndorsement_def fold_children_consistent Let_def split_beta
        applyPostAssembly_consistent applySignature_consistent assembleAndSign_consistent sends_consistent
        nudgeAssembleRequest_consistent nudgePreDispatchRequest_consistent transportSend_consistent
        split: Event.split option.split)

section \<open>Nested processing\<close>

definition keepsConsistent :: "handleEvent \<Rightarrow> bool" where
  "keepsConsistent hev \<longleftrightarrow> (\<forall>d ev c. consistent c \<longrightarrow> returns consistent (hev d ev c))"

lemma notify_consistent:
  assumes "keepsConsistent hev" and "consistent c"
  shows "returns consistent (notifyLogged hev ev ds c)" and "returns consistent (notifyUntilError hev ev ds c)"
proof -
  show "returns consistent (notifyLogged hev ev ds c)"
    using assms(2) by (induction ds arbitrary: c)
      (use assms(1) in \<open>auto simp: keepsConsistent_def intro!: returns_and_then\<close>)
  show "returns consistent (notifyUntilError hev ev ds c)"
    using assms(2) by (induction ds arbitrary: c)
      (use assms(1) in \<open>auto simp: keepsConsistent_def intro!: returns_and_then\<close>)
qed

lemma notifyingActions_consistent:
  assumes "keepsConsistent hev" and "consistent c"
  shows "\<forall>a \<in> set (notifyingActions hev t). returns consistent (a ev c)"
proof -
  note n = notify_consistent [OF assms]
  have "returns consistent (hev d e c)" for d e
    using assms by (simp add: keepsConsistent_def)
  moreover have "returns (\<lambda>c'. consistent (updGrapher (ForgetTransactionAndLocks t) c')) (notifyLogged hev e ds c)" for e ds
    by (rule returns_mono [OF n(1)]) simp
  ultimately show ?thesis
    by (simp add: notifyingActions_def notifyingActionDefs n assms(2) split: option.split)
qed

lemma machine_consistent:
  assumes "keepsConsistent hev"
  shows "machine_invariant (txMachine hev t) consistent ev"
proof (unfold_locales, goal_cases)
  case (4 r c)
  then show ?case
    using machine_rule_actions [OF 4(1)] localActions_consistent notifyingActions_consistent [OF assms] by blast
qed (simp_all add: onTransition_def)

lemma keepsConsistent_HandleEvent: "keepsConsistent (coordinatorTransactionHandleEvent n)"
proof (induction n)
  case (Suc n)
  from machine_invariant.ProcessEvent_inv [OF machine_consistent [OF this]]
  show ?case by (auto simp: keepsConsistent_def HandleEvent_def split: option.split)
qed (simp add: keepsConsistent_def)

interpretation txConsistent: machine_invariant "txMachine (coordinatorTransactionHandleEvent n) t" consistent ev
  for n t ev
  by (rule machine_consistent [OF keepsConsistent_HandleEvent])

end
