(* ===== verification/TransactionProperties.thy ===== *)
theory TransactionProperties
  imports TransactionInvariant GrapherProperties
begin

text \<open>
  What the transaction machine promises: the life cycle of a transaction, locks released on every path,
  a consistent grapher, nesting without a bound, stale answers ignored, budgets for errors and reverts,
  endorsement thresholds; and what it fails to do for the dependents of a dispatched transaction.
\<close>

section \<open>A coordinator to evaluate\<close>

definition sampleEnv :: environment where
  "sampleEnv = \<lparr>env_newUUID = (\<lambda>n. 1000 + of_nat n), env_uuidString = (\<lambda>_. ''id''), env_parseUUID = (\<lambda>_. None),
     env_keccak256 = (\<lambda>b. b), env_sendFails = (\<lambda>_. False),
     env_IsBaseLedgerRevertRetryable = (\<lambda>_. Inr (False, [])),
     env_ResolveStatesForTransaction = (\<lambda>pa. Inr \<lparr>rs_OutputStates = [], rs_OutputStatesWithLabels = [], rs_InfoStates = []\<rparr>),
     env_GetBlockHeight = (\<lambda>_. 0)\<rparr>"

definition sampleTx :: "State \<Rightarrow> coordinatorTransaction" where
  "sampleTx s = \<lparr>pt = \<lparr>pt_ID = 1, pt_Domain = ''d'', pt_Address = ''0x00'', pt_ChainedDependsOn = [],
       pt_PostAssembly = None, pt_Signer = []\<rparr>,
     currentState = s, txLocked = False, stateEntryTime = 0, originator = ''me@node1'', originatorNode = ''node1'',
     nodeName = ''node0'', domainSigningIdentity = [], submitterSelection = SUBMITTER_COORDINATOR,
     signerAddress = None, latestSubmissionHash = None, nonce = None, revertReason = [], decodedRevertReason = [],
     revertOnChain = None, revertCount = 0, lastCanRetryRevert = False, assembleErrorCount = 0, signErrorCount = 0,
     endorseToleranceByRequirement = [], endorseFailureCountByRequirement = (\<lambda>_. 0),
     endorseRevertCountByRequirement = (\<lambda>_. 0), endorseRevertReasons = [], heartbeatIntervalsSinceStateChange = 0,
     pendingAssembleRequest = Some \<lparr>ir_idempotencyKey = 7, ir_requestTime = Some 0, ir_firstRequestTime = Some 0,
       ir_timeout = 10, ir_capture = ()\<rparr>,
     assembleRequestID = 7, cancelRequestTimeoutSchedule = None, cancelStateTimeoutSchedule = None,
     pendingEndorsementRequests = None, pendingPreDispatchRequest = None, inFlightPrepareID = 9, cancelPrepare = False,
     tx_blockHeightTolerance = 5, requestTimeout = 10, stateTimeout = 60, finalizingGracePeriod = 2,
     baseLedgerRevertRetryThreshold = 3, assembleErrorRetryThreshhold = 3, signErrorRetryThreshhold = 3\<rparr>"

definition sampleCoordinator :: "State \<Rightarrow> coordinator" where
  "sampleCoordinator s = \<lparr>env = sampleEnv, now = 0, uuidsTaken = 0, sendsTried = 0, heightReads = 0,
     transactionsByID = [1 \<mapsto> sampleTx s], coordGrapher = NewGrapher NewDependencyTracker NewStore 10,
     stateViews = NewProvider, outbox = [], eventsInternal = [], finalizes = [], dispatchQueue = [],
     preparesStarted = [], inFlightTxns = [], currentBlockHeight = 0, effectiveBlockHeight = 0,
     coordinatorSelection = COORDINATOR_SENDER, coordinatorSelectionBlockRange = 100, endorserCandidates = [],
     coordinatorPriorityList = [], endorserNotifications = [], signingIdentity = ''key'', signingIdentityUsed = False,
     coordNodeName = ''node0''\<rparr>"

lemma sampleCoordinator_simps [simp]:
  "transactionsByID (sampleCoordinator s) 1 = Some (sampleTx s)" "txn 1 (sampleCoordinator s) = sampleTx s"
  "currentState (sampleTx s) = s" "\<not> txLocked (sampleTx s)"
  "transactionsByID (sampleCoordinator s) u = (if u = 1 then Some (sampleTx s) else None)"
  "coordGrapher (sampleCoordinator s) = NewGrapher NewDependencyTracker NewStore 10"
  by (simp_all add: sampleCoordinator_def sampleTx_def txn_def)

section \<open>The life cycle\<close>

text \<open>The states a transaction may go to, in one step, from each state.\<close>

fun nextStates :: "State \<Rightarrow> State list" where
  "nextStates State_Initial = [State_Reverted, State_Evicted, State_PreAssembly_Blocked, State_Pooled]"
| "nextStates State_PreAssembly_Blocked = [State_Pooled, State_Reverted, State_Evicted]"
| "nextStates State_Pooled = [State_Assembling, State_PreAssembly_Blocked, State_Reverted, State_Evicted]"
| "nextStates State_Assembling = [State_Signing, State_Endorsement_Gathering, State_Confirming_Dispatchable,
     State_Blocked, State_Pooled, State_PreAssembly_Blocked, State_Reverted, State_Evicted, State_Final]"
| "nextStates State_Signing = [State_Endorsement_Gathering, State_Confirming_Dispatchable, State_Blocked,
     State_Pooled, State_PreAssembly_Blocked, State_Reverted, State_Evicted]"
| "nextStates State_Endorsement_Gathering = [State_Confirming_Dispatchable, State_Blocked,
     State_Pooled, State_PreAssembly_Blocked, State_Reverted]"
| "nextStates State_Blocked = [State_Confirming_Dispatchable, State_Pooled, State_PreAssembly_Blocked, State_Reverted]"
| "nextStates State_Confirming_Dispatchable = [State_Preparing, State_Pooled, State_PreAssembly_Blocked,
     State_Reverted, State_Evicted, State_Final]"
| "nextStates State_Preparing = [State_Ready_For_Dispatch, State_Pooled, State_PreAssembly_Blocked, State_Reverted]"
| "nextStates State_Ready_For_Dispatch = [State_Dispatched, State_Pooled, State_PreAssembly_Blocked, State_Reverted]"
| "nextStates State_Dispatched = [State_Confirmed, State_Pooled, State_PreAssembly_Blocked, State_Reverted]"
| "nextStates State_Reverted = [State_Final]"
| "nextStates State_Confirmed = [State_Final]"
| "nextStates State_Final = []"
| "nextStates State_Evicted = []"

lemma declared_listed:
  assumes "stateDefinitionsMap hev t s = stateDef entry exit evs"
    and "\<forall>hset \<in> set (map snd evs). \<forall>h \<in> set (ehs_Handlers hset). set (map tr_To (eh_Transitions h)) \<subseteq> S"
  shows "set (declared_targets (txMachine hev t) s ev) \<subseteq> S"
proof (cases "map_of evs (Event_Type ev)")
  case None
  then show ?thesis using assms(1) by (simp add: declared_targets_def handlers_for_def)
next
  case (Some hset)
  then have "hset \<in> set (map snd evs)" by (force dest: map_of_SomeD)
  with assms(2) have "\<forall>h \<in> set (ehs_Handlers hset). set (map tr_To (eh_Transitions h)) \<subseteq> S" by blast
  then show ?thesis using assms(1) Some by (auto simp: declared_targets_def handlers_for_def)
qed

lemma declared_nextStates: "set (declared_targets (txMachine hev t) s ev) \<subseteq> set (nextStates s)"
  by (cases s; simp only: nextStates.simps; rule declared_listed, simp only: stateDefinitionsMap.simps stateDefs,
      simp add: tableParts)

text \<open>
  C8. The life cycle. Processing any event moves a known transaction at most one step along
  \<open>nextStates\<close>, also when an action fails half way and whatever the events handed to other transactions
  do meanwhile; afterwards the transaction is unlocked.
\<close>

theorem transaction_life_cycle:
  assumes "transactionsByID c t \<noteq> None"
  shows "returns (\<lambda>c'. \<not> txLocked (txn t c')
      \<and> currentState (txn t c') \<in> insert (currentState (txn t c)) (set (nextStates (currentState (txn t c)))))
    (coordinatorTransactionHandleEvent n t ev c)"
proof (cases n)
  case (Suc m)
  have "returns (\<lambda>c'. \<not> txLocked (txn t c') \<and> currentState (txn t c') \<in> insert (currentState (txn t c))
      (set (declared_targets (txMachine (coordinatorTransactionHandleEvent m) t) (currentState (txn t c)) ev)))
    (ProcessEvent (txMachine (coordinatorTransactionHandleEvent m) t) ev c)"
    using txOwned.ProcessEvent_declared [OF assms] by simp
  then show ?thesis
    using assms declared_nextStates unfolding Suc by (fastforce simp: HandleEvent_def elim!: returns_mono)
qed simp

theorem transaction_life_cycle_witness:
  "returns (\<lambda>c'. \<not> txLocked (txn 1 c')
      \<and> currentState (txn 1 c') \<in> {State_Ready_For_Dispatch, State_Dispatched, State_Pooled, State_PreAssembly_Blocked, State_Reverted})
    (coordinatorTransactionHandleEvent 2 1 (DispatchedEvent True) (sampleCoordinator State_Ready_For_Dispatch))"
  using transaction_life_cycle [of "sampleCoordinator State_Ready_For_Dispatch" 1 2 "DispatchedEvent True"] by simp

text \<open>
  No lock is ever leaked: after an event has been processed, on every path, exactly the transactions
  that were being processed before still are, no transaction has appeared or disappeared, and those
  being processed have not moved.
\<close>

theorem processing_leaves_locks:
  "returns (\<lambda>c'. \<forall>u. map_option txLocked (transactionsByID c' u) = map_option txLocked (transactionsByID c u)
      \<and> (txLocked (txn u c) \<longrightarrow> transactionsByID c u \<noteq> None \<longrightarrow> currentState (txn u c') = currentState (txn u c)))
    (coordinatorTransactionHandleEvent n t ev c)"
proof -
  have "returns (undisturbed c) (coordinatorTransactionHandleEvent n t ev c)"
    using wellBehaved_HandleEvent by (simp add: wellBehaved_def)
  then show ?thesis
  proof (rule returns_mono, intro allI conjI impI)
    fix c' u assume u: "undisturbed c c'"
    then have "map_option fst (shape c' u) = map_option fst (shape c u)" by (simp add: undisturbed_def)
    then show "map_option txLocked (transactionsByID c' u) = map_option txLocked (transactionsByID c u)"
      by (simp add: shape_def option.map_comp comp_def)
    assume "txLocked (txn u c)" "transactionsByID c u \<noteq> None"
    then have "shape c u = Some (True, currentState (txn u c))" using shape_known by simp
    then have "shape c' u = Some (True, currentState (txn u c))" using u by (simp add: undisturbed_def)
    then show "currentState (txn u c') = currentState (txn u c)" by (auto simp: shape_def txn_def)
  qed
qed

definition lockedCoordinator :: coordinator where
  "lockedCoordinator = (sampleCoordinator State_Ready_For_Dispatch)
     \<lparr>transactionsByID := [1 \<mapsto> (sampleTx State_Blocked)\<lparr>txLocked := True\<rparr>, 2 \<mapsto> sampleTx State_Ready_For_Dispatch]\<rparr>"

theorem processing_leaves_locks_witness:
  "returns (\<lambda>c'. currentState (txn 1 c') = State_Blocked)
    (coordinatorTransactionHandleEvent 2 2 (DispatchedEvent True) lockedCoordinator)"
  using processing_leaves_locks [of lockedCoordinator 2 2 "DispatchedEvent True"]
  by (rule returns_mono) (auto simp: lockedCoordinator_def txn_def dest!: spec [where x = 1])

text \<open>
  Processing an event keeps the locks, minters, dependencies and visible states of the grapher
  consistent, with all the events it hands on and wherever it stops.
\<close>

theorem processing_keeps_grapher_consistent:
  assumes "grapher_inv (coordGrapher c)"
  shows "returns (\<lambda>c'. grapher_inv (coordGrapher c')) (coordinatorTransactionHandleEvent n t ev c)"
  using keepsConsistent_HandleEvent [of n, unfolded keepsConsistent_def consistent_def [abs_def]] assms by blast

theorem processing_keeps_grapher_consistent_witness:
  "returns (\<lambda>c'. grapher_inv (coordGrapher c'))
    (coordinatorTransactionHandleEvent 2 1 (DependencyResetEvent 5) (sampleCoordinator State_Blocked))"
  by (rule processing_keeps_grapher_consistent) (simp add: grapher_reachable_inv [OF reach_new])

text \<open>
  The bound of the model is no restriction: a chain of nested events locks a further transaction at
  every step, so any two bounds above the number of unlocked transactions give the same result.
\<close>

theorem nesting_bound_irrelevant:
  assumes "finite {u. \<exists>x. transactionsByID c u = Some x \<and> \<not> txLocked x}"
    and "card {u. \<exists>x. transactionsByID c u = Some x \<and> \<not> txLocked x} < n"
    and "card {u. \<exists>x. transactionsByID c u = Some x \<and> \<not> txLocked x} < m"
  shows "coordinatorTransactionHandleEvent n t ev c = coordinatorTransactionHandleEvent m t ev c"
proof -
  have "unlocked (locks c) = {u. \<exists>x. transactionsByID c u = Some x \<and> \<not> txLocked x}"
    by (auto simp: unlocked_def locks_def shape_def)
  with assms show ?thesis by (intro fuel_irrelevant) (simp add: enoughFuel_def)
qed

theorem nesting_bound_irrelevant_witness:
  "coordinatorTransactionHandleEvent 2 1 (DependencyResetEvent 5) (sampleCoordinator State_Blocked)
     = coordinatorTransactionHandleEvent 100 1 (DependencyResetEvent 5) (sampleCoordinator State_Blocked)"
proof -
  have "{u. \<exists>x. transactionsByID (sampleCoordinator State_Blocked) u = Some x \<and> \<not> txLocked x} = {1}" by auto
  then show ?thesis by (intro nesting_bound_irrelevant) simp_all
qed

section \<open>Events that are ignored\<close>

abbreviation lockTx :: "uuid \<Rightarrow> coordinator \<Rightarrow> coordinator" where
  "lockTx t \<equiv> updTxn t (\<lambda>x. x\<lparr>txLocked := True\<rparr>)"

abbreviation unlockTx :: "uuid \<Rightarrow> coordinator \<Rightarrow> coordinator" where
  "unlockTx t \<equiv> updTxn t (\<lambda>x. x\<lparr>txLocked := False\<rparr>)"

lemma txn_updTxn [simp]: "transactionsByID c t \<noteq> None \<Longrightarrow> txn t (updTxn t f c) = f (txn t c)"
  by (auto simp: txn_def updTxn_def)

lemma txn_more [simp]:
  "txn t (c\<lparr>eventsInternal := ei\<rparr>) = txn t c" "txn t (c\<lparr>stateViews := sv\<rparr>) = txn t c"
  "txn t (c\<lparr>uuidsTaken := k\<rparr>) = txn t c" "txn t (c\<lparr>sendsTried := k\<rparr>) = txn t c" "txn t (c\<lparr>outbox := ob\<rparr>) = txn t c"
  "txn t (c\<lparr>coordGrapher := g\<rparr>) = txn t c" "txn t (c\<lparr>finalizes := fs\<rparr>) = txn t c" "txn t (c\<lparr>now := time\<rparr>) = txn t c"
  by (simp_all add: txn_def)

lemma known_updTxn [simp]: "(transactionsByID (updTxn u f c) t = None) = (transactionsByID c t = None)"
  by (simp add: updTxn_def)

lemma updTxn_updTxn [simp]: "updTxn t f (updTxn t g c) = updTxn t (f \<circ> g) c"
  by (simp add: updTxn_def option.map_comp)

lemma unlock_lock:
  assumes "transactionsByID c t \<noteq> None" and "\<not> txLocked (txn t c)"
  shows "updTxn t ((\<lambda>x. x\<lparr>txLocked := False\<rparr>) \<circ> (\<lambda>x. x\<lparr>txLocked := True\<rparr>)) c = c"
  using assms by (auto simp: updTxn_def txn_def fun_upd_idem)

lemma HandleEvent_unlocked:
  assumes "transactionsByID c t \<noteq> None" and "\<not> txLocked (txn t c)"
  shows "HandleEvent hev t ev c = outcome_map (unlockTx t) (handleLocked (txMachine hev t) ev (lockTx t c))"
  using assms by (simp add: HandleEvent_def ProcessEvent_def)

lemma HandleEvent_ignored:
  assumes "transactionsByID c t \<noteq> None" and "\<not> txLocked (txn t c)"
    and "handleLocked (txMachine hev t) ev (lockTx t c) = Ok (lockTx t c)"
  shows "HandleEvent hev t ev c = Ok c"
  using HandleEvent_unlocked [OF assms(1,2)] assms by (simp add: unlock_lock)

text \<open>
  A transaction that is final or evicted does not react to any event.
\<close>

theorem terminal_states_ignore_events:
  assumes "transactionsByID c t \<noteq> None" and "\<not> txLocked (txn t c)"
    and "currentState (txn t c) \<in> {State_Final, State_Evicted}"
  shows "coordinatorTransactionHandleEvent (Suc n) t ev c = Ok c"
proof -
  have "HandleEvent (coordinatorTransactionHandleEvent n) t ev c = Ok c"
    using assms by (intro HandleEvent_ignored) (auto simp: handleLocked_def def_Final_def def_Evicted_def)
  then show ?thesis using assms(1) by (auto split: option.split)
qed

theorem terminal_states_ignore_events_witness:
  "coordinatorTransactionHandleEvent (Suc 0) 1 (ConfirmedSuccessEvent None [] undefined) (sampleCoordinator State_Evicted)
     = Ok (sampleCoordinator State_Evicted)"
  by (rule terminal_states_ignore_events) simp_all

text \<open>
  While a transaction is assembled, an answer to another assemble request than the pending one, late
  or made up, changes nothing.
\<close>

theorem stale_assemble_answer_ignored:
  assumes "transactionsByID c t \<noteq> None" and "\<not> txLocked (txn t c)" and "currentState (txn t c) = State_Assembling"
    and "Event_Type ev \<in> {Event_AssembleSuccess, Event_AssembleRevert, Event_AssembleError, Event_Signed, Event_SignError}"
    and "\<forall>r. pendingAssembleRequest (txn t c) = Some r \<longrightarrow> ir_idempotencyKey r \<noteq> assembleRequestIDOf ev"
  shows "coordinatorTransactionHandleEvent (Suc n) t ev c = Ok c"
proof -
  have v: "validator_MatchesPendingAssembleRequest t ev (lockTx t c) = Inr False"
    using assms(1,5) by (simp add: validator_MatchesPendingAssembleRequest_def split: option.split)
  have "HandleEvent (coordinatorTransactionHandleEvent n) t ev c = Ok c"
    using assms(1-4)
    by (intro HandleEvent_ignored)
       (auto simp: handleLocked_def def_Assembling_def def_Assembling_responses_def matchesHandler_def v)
  then show ?thesis using assms(1) by (auto split: option.split)
qed

theorem stale_assemble_answer_ignored_witness:
  "coordinatorTransactionHandleEvent (Suc 0) 1 (AssembleErrorEvent 8) (sampleCoordinator State_Assembling)
     = Ok (sampleCoordinator State_Assembling)"
  by (rule stale_assemble_answer_ignored) (simp_all add: sampleTx_def)

text \<open>
  The outcome of a prepare that was cancelled or superseded does not dispatch the transaction.
\<close>

theorem stale_prepare_ignored:
  assumes "transactionsByID c t \<noteq> None" and "\<not> txLocked (txn t c)" and "currentState (txn t c) = State_Preparing"
    and "prepareID \<noteq> inFlightPrepareID (txn t c)"
  shows "coordinatorTransactionHandleEvent (Suc n) t (PrepareSucceededEvent prepareID pending) c = Ok c
    \<and> coordinatorTransactionHandleEvent (Suc n) t (PrepareFailedEvent prepareID) c = Ok c"
proof -
  have "HandleEvent (coordinatorTransactionHandleEvent n) t (PrepareSucceededEvent prepareID pending) c = Ok c"
    "HandleEvent (coordinatorTransactionHandleEvent n) t (PrepareFailedEvent prepareID) c = Ok c"
    using assms
    by (auto intro!: HandleEvent_ignored simp: handleLocked_def def_Preparing_def matchesHandler_def
        validator_MatchesInFlightPrepareID_def)
  then show ?thesis using assms(1) by (auto split: option.split)
qed

theorem stale_prepare_ignored_witness:
  "coordinatorTransactionHandleEvent (Suc 0) 1 (PrepareFailedEvent 8) (sampleCoordinator State_Preparing)
     = Ok (sampleCoordinator State_Preparing)"
  by (rule stale_prepare_ignored [THEN conjunct2]) (simp_all add: sampleTx_def)

text \<open>
  No event of the code has the type that rejects a dispatch request, and its validator accepts no
  other event either: the handler that would repool a rejected transaction is dead.
\<close>

theorem dispatch_rejection_unreachable:
  "Event_Type ev \<noteq> Event_DispatchRequestRejected
   \<and> (\<forall>t c. Event_Type ev = Event_PreDispatchRequestRejected
        \<longrightarrow> validator_MatchesPendingPreDispatchRequest t ev c = Inr False)"
  by (cases ev) (simp_all add: validator_MatchesPendingPreDispatchRequest_def)

theorem dispatch_rejection_unreachable_witness:
  "validator_MatchesPendingPreDispatchRequest 1 (PreDispatchRequestRejectedEvent 3 TRANSACTION_UNKNOWN)
     (sampleCoordinator State_Confirming_Dispatchable) = Inr False"
  using dispatch_rejection_unreachable [of "PreDispatchRequestRejectedEvent 3 TRANSACTION_UNKNOWN"] by simp

section \<open>Budgets\<close>

lemma taken:
  assumes "h \<in> set (handlers_for (txMachine (coordinatorTransactionHandleEvent n) t) s ev)"
    and "rule \<in> set (eh_Transitions h)" and "transactionsByID c t \<noteq> None" and "txLocked (txn t c)"
  shows "returns (\<lambda>c'. currentState (txn t c') = tr_To rule \<and> transactionsByID c' t \<noteq> None)
    (takeTransition (txMachine (coordinatorTransactionHandleEvent n) t) ev rule c)"
proof -
  have "\<forall>r \<in> set (tr_Actions rule). machine_rule (txMachine (coordinatorTransactionHandleEvent n) t) r"
    using assms(1,2) by (auto simp: handler_rules_def intro!: machine_rule_handler)
  from txOwned.takeTransition_state [OF this assms(3), of ev] assms(4)
  show ?thesis by (auto elim!: returns_mono)
qed

lemma ends_in:
  assumes "transactionsByID c t \<noteq> None" and "\<not> txLocked (txn t c)"
    and "returns (\<lambda>c'. currentState (txn t c') = s \<and> transactionsByID c' t \<noteq> None)
      (handleLocked (txMachine (coordinatorTransactionHandleEvent n) t) ev (lockTx t c))"
  shows "returns (\<lambda>c'. currentState (txn t c') = s) (coordinatorTransactionHandleEvent (Suc n) t ev c)"
proof -
  have "returns (\<lambda>c'. currentState (txn t c') = s) (HandleEvent (coordinatorTransactionHandleEvent n) t ev c)"
    unfolding HandleEvent_unlocked [OF assms(1,2)] using assms(3) by (auto elim!: returns_mono)
  then show ?thesis using assms(1) by (auto split: option.split)
qed

abbreviation pendingAssemble :: "uuid \<Rightarrow> uuid \<Rightarrow> coordinator \<Rightarrow> bool" where
  "pendingAssemble t requestID c \<equiv>
     \<exists>r. pendingAssembleRequest (txn t c) = Some r \<and> ir_idempotencyKey r = requestID"

text \<open>
  An assembly that failed with an error is tried again as long as the number of errors, this one
  included, is within the threshold; then the transaction is evicted.
\<close>

theorem assemble_error_budget:
  assumes "transactionsByID c t \<noteq> None" and "\<not> txLocked (txn t c)" and "currentState (txn t c) = State_Assembling"
    and "pendingAssembleRequest (txn t c) = Some r"
  shows "returns (\<lambda>c'. currentState (txn t c') =
      (if assembleErrorCount (txn t c) + 1 \<le> assembleErrorRetryThreshhold (txn t c) then State_Pooled else State_Evicted))
    (coordinatorTransactionHandleEvent (Suc n) t (AssembleErrorEvent (ir_idempotencyKey r)) c)"
proof (rule ends_in [OF assms(1,2)])
  let ?ev = "AssembleErrorEvent (ir_idempotencyKey r)" and ?m = "txMachine (coordinatorTransactionHandleEvent n) t"
  let ?pool = "goToIf State_Pooled (guard_CanRetryErroredAssemble t)
    [always (action_NotifyDependentsOfReset (coordinatorTransactionHandleEvent n) t)]"
  let ?evict = "goToIf State_Evicted (GuardNot (guard_CanRetryErroredAssemble t)) []"
  let ?c1 = "updTxn t (\<lambda>x. x\<lparr>assembleErrorCount := assembleErrorCount x + 1\<rparr>) (lockTx t c)"
  have h: "handlers_for ?m State_Assembling ?ev
      = [handlerFor (validator_MatchesPendingAssembleRequest t) [always (action_AssembleError t)] [?pool, ?evict]]"
    by (simp add: handlers_for_def def_Assembling_def def_Assembling_responses_def)
  have r: "returns (\<lambda>c'. currentState (txn t c') = tr_To rule \<and> transactionsByID c' t \<noteq> None)
      (takeTransition ?m ?ev rule ?c1)" if "rule = ?pool \<or> rule = ?evict" for rule
    by (rule taken [where s = "State_Assembling"]) (use h assms(1) that in auto)
  have "handleLocked ?m ?ev (lockTx t c) = takeTransition ?m ?ev
      (if assembleErrorCount (txn t c) + 1 \<le> assembleErrorRetryThreshhold (txn t c) then ?pool else ?evict) ?c1"
    using assms
    by (auto simp: handleLocked_def def_Assembling_def def_Assembling_responses_def matchesHandler_def guard_passes_def
        validator_MatchesPendingAssembleRequest_def action_AssembleError_def guard_CanRetryErroredAssemble_def)
  then show "returns (\<lambda>c'. currentState (txn t c') =
      (if assembleErrorCount (txn t c) + 1 \<le> assembleErrorRetryThreshhold (txn t c) then State_Pooled else State_Evicted)
      \<and> transactionsByID c' t \<noteq> None) (handleLocked ?m ?ev (lockTx t c))"
    using r [of ?pool] r [of ?evict] by simp
qed

theorem assemble_error_budget_witness:
  "returns (\<lambda>c'. currentState (txn 1 c') = State_Pooled)
    (coordinatorTransactionHandleEvent (Suc 0) 1 (AssembleErrorEvent 7) (sampleCoordinator State_Assembling))"
  using assemble_error_budget [of "sampleCoordinator State_Assembling" 1 "the (pendingAssembleRequest (sampleTx State_Assembling))" 0]
  by (simp add: sampleTx_def)

text \<open>
  Signing errors have a budget of their own, in both states that wait for a signature.
\<close>

theorem sign_error_budget:
  assumes "transactionsByID c t \<noteq> None" and "\<not> txLocked (txn t c)"
    and "currentState (txn t c) = State_Assembling \<or> currentState (txn t c) = State_Signing"
    and "pendingAssembleRequest (txn t c) = Some r"
  shows "returns (\<lambda>c'. currentState (txn t c') =
      (if signErrorCount (txn t c) + 1 \<le> signErrorRetryThreshhold (txn t c) then State_Pooled else State_Evicted))
    (coordinatorTransactionHandleEvent (Suc n) t (SignErrorEvent (ir_idempotencyKey r)) c)"
proof (rule ends_in [OF assms(1,2)])
  let ?ev = "SignErrorEvent (ir_idempotencyKey r)" and ?m = "txMachine (coordinatorTransactionHandleEvent n) t"
  let ?pool = "goToIf State_Pooled (guard_CanRetryErroredSign t)
    [always (action_NotifyDependentsOfReset (coordinatorTransactionHandleEvent n) t)]"
  let ?evict = "goToIf State_Evicted (GuardNot (guard_CanRetryErroredSign t)) []"
  let ?c1 = "updTxn t (\<lambda>x. x\<lparr>signErrorCount := signErrorCount x + 1\<rparr>) (lockTx t c)"
  have h: "handlers_for ?m (currentState (txn t c)) ?ev
      = [handlerFor (validator_MatchesPendingAssembleRequest t) [always (action_SignError t)] [?pool, ?evict]]"
    using assms(3) by (auto simp: handlers_for_def def_Assembling_def def_Assembling_responses_def def_Signing_def)
  have r: "returns (\<lambda>c'. currentState (txn t c') = tr_To rule \<and> transactionsByID c' t \<noteq> None)
      (takeTransition ?m ?ev rule ?c1)" if "rule = ?pool \<or> rule = ?evict" for rule
    by (rule taken [where s = "(currentState (txn t c))"]) (use h assms(1) that in auto)
  have "handleLocked ?m ?ev (lockTx t c) = takeTransition ?m ?ev
      (if signErrorCount (txn t c) + 1 \<le> signErrorRetryThreshhold (txn t c) then ?pool else ?evict) ?c1"
    using assms
    by (auto simp: handleLocked_def def_Assembling_def def_Assembling_responses_def def_Signing_def matchesHandler_def guard_passes_def
        validator_MatchesPendingAssembleRequest_def action_SignError_def guard_CanRetryErroredSign_def)
  then show "returns (\<lambda>c'. currentState (txn t c') =
      (if signErrorCount (txn t c) + 1 \<le> signErrorRetryThreshhold (txn t c) then State_Pooled else State_Evicted)
      \<and> transactionsByID c' t \<noteq> None) (handleLocked ?m ?ev (lockTx t c))"
    using r [of ?pool] r [of ?evict] by simp
qed

theorem sign_error_budget_witness:
  "returns (\<lambda>c'. currentState (txn 1 c') = State_Pooled)
    (coordinatorTransactionHandleEvent (Suc 0) 1 (SignErrorEvent 7) (sampleCoordinator State_Signing))"
  using sign_error_budget [of "sampleCoordinator State_Signing" 1 "the (pendingAssembleRequest (sampleTx State_Signing))" 0]
  by (simp add: sampleTx_def)

text \<open>Whether a reverted dispatch may be tried again, and where the transaction goes.\<close>

definition retryableRevert :: "environment \<Rightarrow> string \<Rightarrow> HexBytes \<Rightarrow> OnChainLocation \<Rightarrow> bool" where
  "retryableRevert e failureMessage reason onChain =
     (if oc_Type onChain \<noteq> NotOnChain
      then (case env_IsBaseLedgerRevertRetryable e reason of Inl _ \<Rightarrow> False | Inr (retryable, _) \<Rightarrow> retryable)
      else take 8 failureMessage = ''PD012256'')"

definition afterRevert :: "bool \<Rightarrow> uuid \<Rightarrow> coordinator \<Rightarrow> State" where
  "afterRevert retryable t c =
     (if retryable \<and> revertCount (txn t c) + 1 \<le> baseLedgerRevertRetryThreshold (txn t c)
      then (if guard_HasUnassembledDependencies t c then State_PreAssembly_Blocked else State_Pooled)
      else State_Reverted)"

lemma recordRevert_retry:
  "lastCanRetryRevert (recordRevert e msg reason onChain x)
     \<longleftrightarrow> retryableRevert e msg reason onChain \<and> revertCount x + 1 \<le> baseLedgerRevertRetryThreshold x"
  by (auto simp: recordRevert_def retryableRevert_def resetRevertState_def Let_def split: sum.splits prod.splits)

text \<open>
  A dispatched transaction that reverts is assembled again only if the revert is retryable and the
  number of reverts, this one included, is within the threshold; otherwise it is reverted for good. A
  retried one waits for its dependencies to be assembled first.
\<close>

theorem revert_retry_budget:
  assumes "transactionsByID c t \<noteq> None" and "\<not> txLocked (txn t c)" and "currentState (txn t c) = State_Dispatched"
  shows "returns (\<lambda>c'. currentState (txn t c') = afterRevert (retryableRevert (env c) msg reason onChain) t c)
    (coordinatorTransactionHandleEvent (Suc n) t (ConfirmedRevertedEvent nonce' hash msg reason onChain) c)"
proof (rule ends_in [OF assms(1,2)])
  let ?ev = "ConfirmedRevertedEvent nonce' hash msg reason onChain"
    and ?m = "txMachine (coordinatorTransactionHandleEvent n) t"
  let ?c1 = "updTxn t (recordRevert (env c) msg reason onChain) (lockTx t c)"
  let ?hev = "coordinatorTransactionHandleEvent n"
  let ?a = "goToIf State_PreAssembly_Blocked (GuardAnd [guard_CanRetryRevert t, guard_HasUnassembledDependencies t])
    [always (action_NotifyOriginatorOfRetryableRevert t), always (action_NotifyDependentsOfReset ?hev t)]"
  let ?b = "goToIf State_Pooled (GuardAnd [guard_CanRetryRevert t, GuardNot (guard_HasUnassembledDependencies t)])
    [always (action_NotifyOriginatorOfRetryableRevert t), always (action_NotifyDependentsOfReset ?hev t)]"
  let ?d = "goToIf State_Reverted (GuardNot (guard_CanRetryRevert t))
    [always (action_RevertTransactionInGrapher t), always (action_NotifyOriginatorOfNonRetryableRevert t),
     always (action_NotifyDependentsOfRevertedConfirmation ?hev t), always (action_FinalizeNonRetryableRevert t)]"
  have h: "handlers_for ?m State_Dispatched ?ev = [handler [always (action_RecordConfirmationRevert t)] [?a, ?b, ?d]]"
    by (simp add: handlers_for_def def_Dispatched_def)
  have r: "returns (\<lambda>c'. currentState (txn t c') = tr_To rule \<and> transactionsByID c' t \<noteq> None)
      (takeTransition ?m ?ev rule ?c1)" if "rule \<in> {?a, ?b, ?d}" for rule
    by (rule taken [where s = State_Dispatched]) (use h assms(1) that in auto)
  have g: "guard_HasUnassembledDependencies t ?c1 = guard_HasUnassembledDependencies t c"
    by (simp add: guard_HasUnassembledDependencies_def)
  have e: "env (lockTx t c) = env c" by (simp add: updTxn_def)
  have "handleLocked ?m ?ev (lockTx t c) = takeTransition ?m ?ev
      (if guard_CanRetryRevert t ?c1 then if guard_HasUnassembledDependencies t c then ?a else ?b else ?d) ?c1"
    using assms(1,3) g
    by (auto simp: handleLocked_def def_Dispatched_def matchesHandler_def action_RecordConfirmationRevert_def
        guard_passes_def e)
  moreover have "guard_CanRetryRevert t ?c1 \<longleftrightarrow> retryableRevert (env c) msg reason onChain
      \<and> revertCount (txn t c) + 1 \<le> baseLedgerRevertRetryThreshold (txn t c)"
    using assms(1) by (simp add: guard_CanRetryRevert_def recordRevert_retry)
  ultimately show "returns (\<lambda>c'. currentState (txn t c') = afterRevert (retryableRevert (env c) msg reason onChain) t c
      \<and> transactionsByID c' t \<noteq> None) (handleLocked ?m ?ev (lockTx t c))"
    using r [of ?a] r [of ?b] r [of ?d] by (simp add: afterRevert_def)
qed

definition noBlock :: OnChainLocation where
  "noBlock = \<lparr>oc_Type = NotOnChain, oc_BlockNumber = 0\<rparr>"

theorem revert_retry_budget_witness:
  "returns (\<lambda>c'. currentState (txn 1 c') = State_Pooled)
    (coordinatorTransactionHandleEvent (Suc 0) 1 (ConfirmedRevertedEvent None [] ''PD012256: dependency'' [] noBlock)
      (sampleCoordinator State_Dispatched))"
  using revert_retry_budget [of "sampleCoordinator State_Dispatched" 1 "''PD012256: dependency''" "[]" noBlock 0 None "[]"]
  by (simp add: afterRevert_def retryableRevert_def noBlock_def sampleTx_def guard_HasUnassembledDependencies_def
    NewGrapher_def NewDependencyTracker_def HasPrerequisite_def HasPrerequisites_def GetPrerequisites_def
    HasUnassembledDependencies_def GetUnassembledDependencies_def newDependencyChain_def)

section \<open>Dependents of a dispatched transaction\<close>

text \<open>A dependents list read after the transaction has been removed from the grapher is empty.\<close>

lemma forgotten_has_no_dependents:
  assumes "grapher_inv g"
  shows "GetDependents (grapherDeps (ForgetTransactionAndLocks t g)) t = []"
proof -
  let ?g = "ForgetTransactionAndLocks t g"
  have inv: "grapher_inv ?g" by (rule inv_ForgetTransactionAndLocks [OF assms])
  have "t \<notin> Field (depends (grapherDeps ?g))" by (rule unknown_tx(3) [OF inv]) simp
  moreover have "chain_wf (grapherDeps ?g)" using inv_parts(3) [OF inv] by (simp add: deps_wf_def)
  ultimately have "set (GetDependents (grapherDeps ?g) t) = {}"
    by (auto simp: set_GetDependents Field_def)
  then show ?thesis by simp
qed

lemma forget_keeps_other_chains [simp]:
  "chained (depTracker (ForgetTransactionAndLocks t g)) = chained (depTracker g)
   \<and> preAssembly (depTracker (ForgetTransactionAndLocks t g)) = preAssembly (depTracker g)"
proof (cases "transactionByID g t = None")
  case True
  then show ?thesis by (simp add: ForgetTransactionAndLocks_def)
next
  case False
  then show ?thesis by (simp add: ForgetTransactionAndLocks_alt setGrapherDeps_def grapher_frame)
qed

text \<open>The transaction has no dependent left that an event could be handed to.\<close>

definition noDependents :: "uuid \<Rightarrow> coordinator \<Rightarrow> bool" where
  "noDependents t c \<longleftrightarrow> GetDependents (postAssembly (deps c)) t = []
     \<and> GetDependents (cd_chain (chained (deps c))) t = [] \<and> GetDependent (preAssembly (deps c)) t = None"

lemma noDependents_cong: "deps c' = deps c \<Longrightarrow> noDependents t c' = noDependents t c"
  by (simp add: noDependents_def)

lemma forget_noDependents:
  assumes "consistent c" and "GetDependents (cd_chain (chained (deps c))) t = []"
    and "GetDependent (preAssembly (deps c)) t = None"
  shows "noDependents t (updGrapher (ForgetTransactionAndLocks t) c)"
  using assms by (simp add: noDependents_def updGrapher_def consistent_def forgotten_has_no_dependents)

lemma noDependents_silent:
  assumes "noDependents t c"
  shows "action_NotifyDependentsOfRevertedConfirmation hev t ev c = Ok c"
    and "action_CascadeChainedDependencyFailure hev t ev c = Ok c"
    and "action_NotifyPreAssembleDependentOfTermination hev t ev c = Ok c"
    and "action_NotifyDependentsOfReset hev t ev c = Ok (updGrapher (ForgetTransactionAndLocks t) c)"
  using assms by (simp_all add: noDependents_def notifyingActionDefs)

lemma sendTransactionConfirmed_cases:
  "(\<exists>c'. sendTransactionConfirmed t tc c = Ok c' \<and> coordGrapher c' = coordGrapher c
      \<and> transactionsByID c' = transactionsByID c)
   \<or> (\<exists>e c'. sendTransactionConfirmed t tc c = Fail e c')"
  by (simp add: sendTransactionConfirmed_def transportSend_def newUUID_def)

text \<open>What follows once the originator has been told of a revert that is final.\<close>

definition revertedTail :: "handleEvent \<Rightarrow> uuid \<Rightarrow> Event \<Rightarrow> coordinator \<Rightarrow> result" where
  "revertedTail hev t ev c =
     and_then (action_NotifyDependentsOfRevertedConfirmation hev t ev c)
       (\<lambda>c1. and_then (action_FinalizeNonRetryableRevert t ev c1)
         (\<lambda>c2. and_then (action_ClearDispatchedInFlight t ev c2)
           (\<lambda>c3. executeActionRules ev (entryActions (txMachine hev t) (currentState (txn t c3)))
              (onTransition t State_Dispatched (currentState (txn t c3)) ev c3))))"

lemma revertedTail_silent:
  assumes "noDependents t c" and "consistent c" and "currentState (txn t c) = State_Reverted" and "transactionsByID c t \<noteq> None"
  shows "\<exists>c'. \<forall>hev. revertedTail hev t ev c = Ok c'"
proof -
  let ?c1 = "setDispatchedInFlight t False
    (queueTransactionFinalize t (decodedRevertReason (txn t c)) (revertReason (txn t c)) (revertOnChain (txn t c)) c)"
  let ?c2 = "onTransition t State_Dispatched State_Reverted ev ?c1"
  let ?c3 = "updGrapher (ForgetTransactionAndLocks t) ?c2"
  have state: "txn t ?c1 = txn t c" by (simp add: setDispatchedInFlight_def queueTransactionFinalize_def txn_def)
  have g: "coordGrapher ?c2 = coordGrapher c" by (simp add: onTransition_def)
  have "noDependents t ?c3"
    using assms(1,2) by (intro forget_noDependents) (simp_all add: g consistent_def noDependents_def)
  note silent = noDependents_silent [OF this] noDependents_silent [OF assms(1)]
  have "revertedTail hev t ev c = Ok ?c3" for hev
    unfolding revertedTail_def using silent
    by (simp add: action_FinalizeNonRetryableRevert_def action_ClearDispatchedInFlight_def state assms(3)
        entryActions_def def_Reverted_def guard_passes_def action_ResetTransactionLocks_def)
  then show ?thesis by blast
qed

text \<open>
  Finding: when a dispatched transaction reverts and may not be retried, its locks are released, and
  with them its dependents forgotten, before the dependents are notified. Although transactions depend
  on its outputs, no event is handed to any of them: the processing returns, with the same result,
  even if every other transaction were unable to take an event.
\<close>

theorem nonretryable_revert_skips_dependents:
  assumes "transactionsByID c t \<noteq> None" and "\<not> txLocked (txn t c)" and "currentState (txn t c) = State_Dispatched"
    and "grapher_inv (coordGrapher c)"
    and "GetDependents (cd_chain (chained (deps c))) t = []" and "GetDependent (preAssembly (deps c)) t = None"
    and "afterRevert (retryableRevert (env c) msg reason onChain) t c = State_Reverted"
  shows "HandleEvent (\<lambda>_ _ _. Stuck) t (ConfirmedRevertedEvent nonce' hash msg reason onChain) c \<noteq> Stuck
    \<and> HandleEvent hev t (ConfirmedRevertedEvent nonce' hash msg reason onChain) c
      = HandleEvent (\<lambda>_ _ _. Stuck) t (ConfirmedRevertedEvent nonce' hash msg reason onChain) c"
proof -
  let ?ev = "ConfirmedRevertedEvent nonce' hash msg reason onChain"
  let ?c1 = "updTxn t (recordRevert (env c) msg reason onChain) (lockTx t c)"
  let ?c2 = "updGrapher (ForgetTransactionAndLocks t) (updTxn t (\<lambda>x. x\<lparr>currentState := State_Reverted\<rparr>) ?c1)"
  have e: "env (lockTx t c) = env c" by (simp add: updTxn_def)
  have "\<not> guard_CanRetryRevert t ?c1"
    using assms(1,7) by (auto simp: guard_CanRetryRevert_def recordRevert_retry afterRevert_def split: if_splits)
  then have run: "handleLocked (txMachine h t) ?ev (lockTx t c)
      = and_then (action_NotifyOriginatorOfNonRetryableRevert t ?ev ?c2) (revertedTail h t ?ev)" for h
    using assms(1,3)
    by (simp add: handleLocked_def def_Dispatched_def matchesHandler_def action_RecordConfirmationRevert_def
        guard_passes_def e takeTransition_def exitActions_def revertedTail_def [abs_def]
        action_RevertTransactionInGrapher_def
        and_then_assoc Let_def)
  have "noDependents t ?c2"
    using assms(4-6) by (intro forget_noDependents) (simp_all add: consistent_def)
  then have tail: "\<exists>c'. \<forall>h. revertedTail h t ?ev c3 = Ok c'"
    if "coordGrapher c3 = coordGrapher ?c2" "transactionsByID c3 = transactionsByID ?c2" for c3
    using that assms(1,4)
    by (intro revertedTail_silent) (simp_all add: noDependents_def consistent_def txn_def updGrapher_def updTxn_def
        inv_ForgetTransactionAndLocks, auto)
  obtain tc where told: "action_NotifyOriginatorOfNonRetryableRevert t ?ev ?c2 = sendTransactionConfirmed t tc ?c2"
    by (simp add: action_NotifyOriginatorOfNonRetryableRevert_def notifyOfRevert_def)
  show ?thesis
    unfolding HandleEvent_unlocked [OF assms(1,2)] run told
    using sendTransactionConfirmed_cases [of t tc ?c2] tail by fastforce
qed

definition spentGrapher :: grapher where
  "spentGrapher = LockMintsOnReadAndSpend [] [sampleState ''0x01''] 2 mintedGrapher"

definition dispatchedWithDependent :: coordinator where
  "dispatchedWithDependent = (sampleCoordinator State_Dispatched)\<lparr>coordGrapher := spentGrapher\<rparr>"

lemma spentGrapher_facts:
  "grapher_inv spentGrapher" "GetDependents (grapherDeps spentGrapher) 1 = [2]"
  "GetDependents (cd_chain (chained (depTracker spentGrapher))) 1 = []"
  "GetDependent (preAssembly (depTracker spentGrapher)) 1 = None"
proof -
  show "grapher_inv spentGrapher"
    unfolding spentGrapher_def by (intro inv_LockMintsOnReadAndSpend grapher_reachable_inv [OF mintedGrapher_reachable])
qed (simp_all add: spentGrapher_def mintedGrapher_def AddMinter_def NewGrapher_def NewDependencyTracker_def sampleState_def
      LockMintsOnReadAndSpend_def addConsumer_def takeLock_def allocLock_def updLockMap_def linkToMinter_def txLocks_def
      setGrapherDeps_def AddPrerequisites_def newDependencyChain_def GetDependents_def GetDependent_def ensure_def
      updDependsOn_def updPrereqOf_def appendUnique_def)

lemma dispatchedWithDependent_facts:
  "transactionsByID dispatchedWithDependent 1 \<noteq> None" "\<not> txLocked (txn 1 dispatchedWithDependent)"
  "currentState (txn 1 dispatchedWithDependent) = State_Dispatched"
  "coordGrapher dispatchedWithDependent = spentGrapher" "env dispatchedWithDependent = sampleEnv"
  by (simp_all add: dispatchedWithDependent_def txn_def) (simp add: sampleCoordinator_def)

theorem nonretryable_revert_skips_dependents_witness:
  "GetDependents (postAssembly (deps dispatchedWithDependent)) 1 = [2]
   \<and> HandleEvent (\<lambda>_ _ _. Stuck) 1 (ConfirmedRevertedEvent None [] ''reverted'' [] noBlock) dispatchedWithDependent \<noteq> Stuck"
  using nonretryable_revert_skips_dependents [OF dispatchedWithDependent_facts(1-3), of "''reverted''" "[]" noBlock None "[]"]
  by (simp add: dispatchedWithDependent_facts spentGrapher_facts afterRevert_def retryableRevert_def noBlock_def)

text \<open>
  Finding: when a dependency of a dispatched transaction is reset or reverted, the locks of the
  transaction are released first, so that its own dependents, which the handler is meant to notify of
  the reset, are no longer known: no event is handed to any of them.
\<close>

theorem dispatched_dependency_reset_skips_dependents:
  assumes "transactionsByID c t \<noteq> None" and "\<not> txLocked (txn t c)" and "currentState (txn t c) = State_Dispatched"
    and "grapher_inv (coordGrapher c)"
    and "GetDependents (cd_chain (chained (deps c))) t = []" and "GetDependent (preAssembly (deps c)) t = None"
    and "ev = DependencyResetEvent source \<or> ev = DependencyConfirmedRevertedEvent source"
  shows "HandleEvent (\<lambda>_ _ _. Stuck) t ev c \<noteq> Stuck \<and> HandleEvent hev t ev c = HandleEvent (\<lambda>_ _ _. Stuck) t ev c"
proof -
  let ?c0 = "if source \<in> set (GetPrerequisites (cd_chain (chained (deps c))) t)
    then updChainedDeps (AddUnassembledDependencies t [source]) (lockTx t c) else lockTx t c"
  let ?c1 = "updGrapher (ForgetTransactionAndLocks t) ?c0"
  have "noDependents t ?c1"
    using assms(4-6)
    by (intro forget_noDependents)
       (auto simp: consistent_def updChainedDeps_def updGrapher_def intro!: grapher_inv_dependencies)
  note silent = noDependents_silent(4) [OF this]
  have "handleLocked (txMachine h t) ev (lockTx t c) = Ok (updGrapher (ForgetTransactionAndLocks t) ?c1)" for h
    using assms(1,3,7) silent
    by (auto simp: handleLocked_def def_Dispatched_def matchesHandler_def guard_passes_def validator_IsChainedDependency_def
        action_MarkChainedDependencyUnassembled_def action_ResetTransactionLocks_def)
  then show ?thesis by (simp add: HandleEvent_unlocked [OF assms(1,2)])
qed

theorem dispatched_dependency_reset_skips_dependents_witness:
  "GetDependents (postAssembly (deps dispatchedWithDependent)) 1 = [2]
   \<and> HandleEvent (\<lambda>_ _ _. Stuck) 1 (DependencyResetEvent 5) dispatchedWithDependent \<noteq> Stuck"
  using dispatched_dependency_reset_skips_dependents [OF dispatchedWithDependent_facts(1-3), of "DependencyResetEvent 5" 5]
  by (simp add: dispatchedWithDependent_facts spentGrapher_facts)

section \<open>Back to the pool\<close>

text \<open>Nothing is left of an earlier assembly.\<close>

definition freshForAssembly :: "uuid \<Rightarrow> coordinator \<Rightarrow> bool" where
  "freshForAssembly t c \<longleftrightarrow>
     pt_PostAssembly (pt (txn t c)) = None
     \<and> cancelRequestTimeoutSchedule (txn t c) = None \<and> cancelStateTimeoutSchedule (txn t c) = None
     \<and> pendingEndorsementRequests (txn t c) = None \<and> pendingPreDispatchRequest (txn t c) = None
     \<and> endorseFailureCountByRequirement (txn t c) = (\<lambda>_. 0) \<and> endorseRevertCountByRequirement (txn t c) = (\<lambda>_. 0)
     \<and> transactionByID (coordGrapher c) t = None \<and> txLocks t (coordGrapher c) = []
     \<and> (\<forall>s. transactionByOutputState (coordGrapher c) s \<noteq> Some \<lparr>gtx_ID = t\<rparr>)
     \<and> t \<notin> Field (depends (postAssembly (deps c))) \<and> GetChainedChild (chained (deps c)) t = None"

lemma transactions_updGrapher [simp]:
  "transactionsByID (updGrapher f c) = transactionsByID c" "txn t (updGrapher f c) = txn t c"
  "transactionsByID (updChainedDeps g c) = transactionsByID c" "txn t (updChainedDeps g c) = txn t c"
  by (simp_all add: updGrapher_def updChainedDeps_def txn_def)

lemma initializeForNewAssembly_fresh:
  assumes "transactionsByID c t \<noteq> None" and "consistent (initializeForNewAssembly t c)"
  shows "freshForAssembly t (initializeForNewAssembly t c)"
proof -
  let ?c1 = "updChainedDeps (ForgetChainedChild t) (CleanUpPostAssemblyData t c)"
  have g: "coordGrapher (initializeForNewAssembly t c) = ForgetTransactionAndLocks t (coordGrapher ?c1)"
    by (simp add: initializeForNewAssembly_def updGrapher_def)
  then have inv: "grapher_inv (ForgetTransactionAndLocks t (coordGrapher ?c1))"
    using assms(2) by (simp add: consistent_def)
  have child: "GetChainedChild (chained (depTracker (coordGrapher ?c1))) t = None"
    by (simp add: updChainedDeps_def updGrapher_def ForgetChainedChild_def GetChainedChild_def)
  have tx: "txn t (initializeForNewAssembly t c) = (txn t c)\<lparr>pt := (pt (txn t c))\<lparr>pt_PostAssembly := None\<rparr>,
      pendingPreDispatchRequest := None, cancelRequestTimeoutSchedule := None, cancelStateTimeoutSchedule := None,
      pendingEndorsementRequests := None, endorseFailureCountByRequirement := (\<lambda>_. 0),
      endorseRevertCountByRequirement := (\<lambda>_. 0), endorseRevertReasons := [], endorseToleranceByRequirement := []\<rparr>"
    using assms(1)
    by (simp add: initializeForNewAssembly_def resetEndorsementRequests_def clearTimeoutSchedules_def
        clearStateTimeoutSchedule_def clearRequestTimeoutSchedule_def CleanUpPostAssemblyData_def)
  show ?thesis
    unfolding freshForAssembly_def g tx using unknown_tx [OF inv ForgetTransactionAndLocks_unknown] child by simp
qed

text \<open>
  A transaction that comes back to the pool, or to waiting for its dependencies, has shed everything
  of its last assembly, in whatever state and by whatever event it was sent back: assembled data,
  timers, pending requests, endorsement failures, and its locks, mints and links in the grapher.
\<close>

theorem pool_entry_is_fresh:
  assumes "transactionsByID c t \<noteq> None" and "\<not> txLocked (txn t c)" and "grapher_inv (coordGrapher c)"
    and "coordinatorTransactionHandleEvent n t ev c = Ok c'"
    and "currentState (txn t c') \<noteq> currentState (txn t c)"
    and "currentState (txn t c') \<in> {State_Pooled, State_PreAssembly_Blocked}"
  shows "freshForAssembly t c'"
proof -
  obtain m where n: "n = Suc m" using assms(4) by (cases n) auto
  let ?m = "txMachine (coordinatorTransactionHandleEvent m) t"
  obtain c1 where c1: "handleLocked ?m ev (lockTx t c) = Ok c1" "c' = unlockTx t c1"
    using assms(1,2,4) n by (cases "handleLocked ?m ev (lockTx t c)") (auto simp: HandleEvent_unlocked)
  have "returns consistent (handleLocked ?m ev (lockTx t c))"
    using assms(3) by (intro txConsistent.handleLocked_inv) (simp add: consistent_def)
  then have cons: "consistent c1" using c1 by simp
  have "returns (\<lambda>w'. transactionsByID w' t \<noteq> None \<and> txLocked (txn t w') \<and>
      currentState (txn t w') \<in> insert (currentState (txn t c)) (set (declared_targets ?m (currentState (txn t c)) ev)))
    (handleLocked ?m ev (lockTx t c))"
    using txOwned.handleLocked_state [where w = "lockTx t c" and s = "currentState (txn t c)" and n = m and t = t and ev = ev] assms(1)
    by simp
  then have known: "transactionsByID c1 t \<noteq> None" using c1 by simp
  have s: "currentState (txn t c1) = currentState (txn t c')" using c1 known by simp
  have "txOwned.entered m t ev c1"
    using txOwned.handleLocked_entered [where w = "lockTx t c" and s = "currentState (txn t c)" and n = m and t = t and ev = ev] c1 s
      assms(1,5) by simp
  then obtain w0 where w0: "transactionsByID w0 t \<noteq> None"
    "executeActionRules ev (entryActions ?m (currentState (txn t c1))) w0 = Ok c1"
    unfolding txOwned.entered_def by auto
  have "entryActions ?m (currentState (txn t c1)) = [always (action_InitializeForNewAssembly t)]"
    using assms(6) s by (auto simp: entryActions_def def_Pooled_def def_PreAssembly_Blocked_def)
  with w0 have "c1 = initializeForNewAssembly t w0"
    by (simp add: guard_passes_def action_InitializeForNewAssembly_def)
  with initializeForNewAssembly_fresh [OF w0(1)] cons have "freshForAssembly t c1" by simp
  then show ?thesis using c1(2) known by (simp add: freshForAssembly_def)
qed

theorem pool_entry_is_fresh_witness:
  "\<exists>c'. coordinatorTransactionHandleEvent 2 1 (DependencyResetEvent 5) (sampleCoordinator State_Blocked) = Ok c'
     \<and> freshForAssembly 1 c'"
proof -
  let ?c = "sampleCoordinator State_Blocked"
  have "\<exists>c'. coordinatorTransactionHandleEvent 2 1 (DependencyResetEvent 5) ?c = Ok c'
      \<and> currentState (txn 1 c') = State_Pooled"
    by (simp add: eval_nat_numeral HandleEvent_unlocked handleLocked_def def_Blocked_def def_Pooled_def
        dependencyResetToPreAssemblyOrPool_def matchesHandler_def validator_IsChainedDependency_def ValidatorNot_def
        guard_passes_def takeTransition_def exitActions_def entryActions_def action_NotifyDependentsOfReset_def
        notifyDependentsOfReset_def NewGrapher_def NewDependencyTracker_def newDependencyChain_def GetPrerequisites_def
        GetDependents_def action_InitializeForNewAssembly_def initializeForNewAssembly_def resetEndorsementRequests_def
        clearTimeoutSchedules_def clearStateTimeoutSchedule_def clearRequestTimeoutSchedule_def CleanUpPostAssemblyData_def
        onTransition_def queueEventForCoordinator_def)
  then obtain c' where c': "coordinatorTransactionHandleEvent 2 1 (DependencyResetEvent 5) ?c = Ok c'"
    "currentState (txn 1 c') = State_Pooled" by blast
  from pool_entry_is_fresh [OF _ _ _ this(1)] this(2) have "freshForAssembly 1 c'"
    by (simp add: grapher_reachable_inv [OF reach_new])
  with c' show ?thesis by blast
qed

end
