(* ===== verification/RequestProperties.thy ===== *)
theory RequestProperties
  imports TransactionProperties
begin

text \<open>
  Requests, timers and endorsements of a coordinator transaction: what a timer does and does not do,
  what happens when a minter conflict stops an assembly, how endorsements and their failures are
  counted, and what the originator is told in a heartbeat.
\<close>

section \<open>A minter conflict\<close>

lemma setPostAssembly_known [simp]: "(transactionsByID (setPostAssembly t pa c) t = None) = (transactionsByID c t = None)"
  by (simp add: setPostAssembly_def)

lemma clearTimeouts_txn:
  "transactionsByID c t \<noteq> None \<Longrightarrow> txn t (clearTimeoutSchedules t c)
     = (txn t c)\<lparr>cancelRequestTimeoutSchedule := None, cancelStateTimeoutSchedule := None\<rparr>"
  by (simp add: clearTimeoutSchedules_def clearStateTimeoutSchedule_def clearRequestTimeoutSchedule_def)

lemma clearTimeouts_known [simp]:
  "(transactionsByID (clearTimeoutSchedules t c) u = None) = (transactionsByID c u = None)"
  by (simp add: clearTimeoutSchedules_def clearStateTimeoutSchedule_def clearRequestTimeoutSchedule_def)

lemma env_prims [simp]:
  "env (updTxn t f c) = env c" "env (setPostAssembly t pa c) = env c" "env (clearTimeoutSchedules t c) = env c"
  by (simp_all add: updTxn_def setPostAssembly_def clearTimeoutSchedules_def clearStateTimeoutSchedule_def
      clearRequestTimeoutSchedule_def)

lemma now_updTxn [simp]: "now (updTxn t f c) = now c"
  by (simp add: updTxn_def)

text \<open>
  C24. Finding: when the states an assembly produces clash with those of another transaction, the error is
  returned with the timers already cleared: the transaction stays in \<open>State_Assembling\<close>, and neither
  timer will ever fire to end the assembly.
\<close>

theorem minter_conflict_strands_assembly:
  assumes "transactionsByID c t \<noteq> None" and "\<not> txLocked (txn t c)" and "currentState (txn t c) = State_Assembling"
    and "pendingAssembleRequest (txn t c) = Some r" and "pa_AssemblyResult pa = ASSEMBLE_OK"
    and "env_ResolveStatesForTransaction (env c) pa = Inr rs"
    and "AddMinter (rs_OutputStates rs) t (coordGrapher c) = Fail e g"
  shows "\<exists>c'. coordinatorTransactionHandleEvent (Suc n) t (AssembleSuccessEvent pa (ir_idempotencyKey r)) c = Fail (GrapherError e) c'
    \<and> currentState (txn t c') = State_Assembling
    \<and> (\<forall>time. fireRequestTimeout t (c'\<lparr>now := time\<rparr>) = None \<and> fireStateTimeout t (c'\<lparr>now := time\<rparr>) = None)"
proof -
  let ?ev = "AssembleSuccessEvent pa (ir_idempotencyKey r)" and ?m = "txMachine (coordinatorTransactionHandleEvent n) t"
  let ?pa0 = "\<lparr>AssembleResponse = pa, OutputStates = [], OutputStatesWithLabels = [], InfoStates = [],
    CollectedEndorsements = pa_Endorsements pa\<rparr>"
  let ?c1 = "clearTimeoutSchedules t (setPostAssembly t ?pa0 (lockTx t c))"
  let ?pa = "?pa0\<lparr>OutputStates := rs_OutputStates rs, OutputStatesWithLabels := rs_OutputStatesWithLabels rs,
    InfoStates := rs_InfoStates rs\<rparr>"
  let ?c2 = "(setPostAssembly t ?pa ?c1)\<lparr>coordGrapher := g\<rparr>"
  have "applyPostAssembly t pa (ir_idempotencyKey r) (lockTx t c) = Fail (GrapherError e) ?c2"
    using assms(5-7) by (simp add: applyPostAssembly_def liftGrapher_def Let_def)
  then have "handleLocked ?m ?ev (lockTx t c) = Fail (GrapherError e) ?c2"
    using assms(1,3,4)
    by (simp add: handleLocked_def def_Assembling_def def_Assembling_responses_def matchesHandler_def guard_passes_def
        validator_MatchesPendingAssembleRequest_def action_AssembleSuccess_def)
  then have "coordinatorTransactionHandleEvent (Suc n) t ?ev c = Fail (GrapherError e) (unlockTx t ?c2)"
    using assms(1) by (auto simp: HandleEvent_unlocked [OF assms(1,2)])
  moreover have tx: "txn t (unlockTx t ?c2) = (txn t c)\<lparr>pt := (pt (txn t c))\<lparr>pt_PostAssembly := Some ?pa\<rparr>,
      cancelRequestTimeoutSchedule := None, cancelStateTimeoutSchedule := None, txLocked := False\<rparr>"
    using assms(1) by (simp add: setPostAssembly_def clearTimeouts_txn)
  moreover have "transactionsByID (unlockTx t ?c2) t \<noteq> None" using assms(1) by simp
  ultimately show ?thesis using assms(3)
    by (auto simp: fireRequestTimeout_def fireStateTimeout_def txn_def split: option.split)
qed

definition sampleAssembly :: TransactionPostAssembly where
  "sampleAssembly = \<lparr>pa_AssemblyResult = ASSEMBLE_OK, pa_OutputStatesPotential = [], pa_InputStates = [], pa_ReadStates = [],
     pa_AttestationPlan = [], pa_Signatures = [], pa_Endorsements = [], pa_RevertReason = None, pa_ResolvedVerifiers = []\<rparr>"

definition conflictCoordinator :: coordinator where
  "conflictCoordinator = (sampleCoordinator State_Assembling)\<lparr>coordGrapher := mintedGrapher,
     env := sampleEnv\<lparr>env_ResolveStatesForTransaction := (\<lambda>_. Inr \<lparr>rs_OutputStates = [sampleState ''0x01''],
       rs_OutputStatesWithLabels = [None], rs_InfoStates = []\<rparr>)\<rparr>\<rparr>"

lemma mintedGrapher_conflict:
  "\<exists>e g. AddMinter [sampleState ''0x01''] 1 mintedGrapher = Fail e g"
  by (simp add: AddMinter_def minted_fields sampleState_def)

theorem minter_conflict_strands_assembly_witness:
  "\<exists>e c'. coordinatorTransactionHandleEvent (Suc 0) 1 (AssembleSuccessEvent sampleAssembly 7) conflictCoordinator
      = Fail (GrapherError e) c' \<and> currentState (txn 1 c') = State_Assembling \<and> fireStateTimeout 1 (c'\<lparr>now := 1000\<rparr>) = None"
proof -
  let ?r = "the (pendingAssembleRequest (sampleTx State_Assembling))"
  obtain e g where "AddMinter [sampleState ''0x01''] 1 mintedGrapher = Fail e g" using mintedGrapher_conflict by blast
  then show ?thesis
    using minter_conflict_strands_assembly [of conflictCoordinator 1 ?r sampleAssembly
        "\<lparr>rs_OutputStates = [sampleState ''0x01''], rs_OutputStatesWithLabels = [None], rs_InfoStates = []\<rparr>" e g 0]
    by (auto simp: conflictCoordinator_def txn_def sampleAssembly_def sampleTx_def)
qed

section \<open>Timers and requests\<close>

lemma executeActionRules_Nil [simp]: "executeActionRules ev [] = Ok"
  by (rule ext) simp

text \<open>The two timers of a transaction.\<close>

definition timers :: "uuid \<Rightarrow> coordinator \<Rightarrow> (Timer option \<times> Timer option) option" where
  "timers t c = map_option (\<lambda>x. (cancelRequestTimeoutSchedule x, cancelStateTimeoutSchedule x)) (transactionsByID c t)"

lemma timers_updTxn:
  assumes "\<And>x. cancelRequestTimeoutSchedule (f x) = cancelRequestTimeoutSchedule x"
    and "\<And>x. cancelStateTimeoutSchedule (f x) = cancelStateTimeoutSchedule x"
  shows "timers t (updTxn t f c) = timers t c"
  using assms by (simp add: timers_def updTxn_def option.map_comp comp_def)

lemma transportSend_timers: "timers t c1 = T \<Longrightarrow> returns (\<lambda>c'. timers t c' = T) (transportSend n m c1)"
  by (simp add: transportSend_def timers_def)

lemma Nudge_timers:
  assumes "\<And>cap k c1. timers t c1 = T \<Longrightarrow> returns (\<lambda>c'. timers t c' = T) (send cap k c1)" and "timers t c = T"
  shows "returns (\<lambda>c'. timers t c' = T) (snd (Nudge send r c))"
  using assms(1) [OF assms(2), of "ir_capture r" "ir_idempotencyKey r"] assms(2)
  by (cases "send (ir_capture r) (ir_idempotencyKey r) c") (auto simp: Nudge_def)

lemma nudge_timers:
  assumes "timers t c = T"
  shows "returns (\<lambda>c'. timers t c' = T) (nudgeAssembleRequest t c)"
    and "returns (\<lambda>c'. timers t c' = T) (nudgePreDispatchRequest t c)"
  using assms Nudge_timers [of t T "sendAssemble t" c] Nudge_timers [of t T "sendPreDispatch t" c]
  by (auto simp: nudgeAssembleRequest_def nudgePreDispatchRequest_def sendAssemble_def sendPreDispatch_def
      transportSend_timers timers_updTxn split_beta split: option.splits)

lemma requestEndorsement_timers:
  "timers t c = T \<Longrightarrow> returns (\<lambda>c'. timers t c' = T) (requestEndorsement t cap k c)"
  by (auto simp: requestEndorsement_def transportSend_timers split: prod.splits sum.splits option.splits)

lemma setPendingEndorsement_timers [simp]: "timers t (setPendingEndorsement t n p r c) = timers t c"
  by (simp add: setPendingEndorsement_def timers_updTxn)

lemma timers_uuids [simp]: "timers t (c\<lparr>uuidsTaken := k\<rparr>) = timers t c"
  by (simp add: timers_def)

lemma nudgeRequirements_timers:
  "timers t c = T \<Longrightarrow> returns (\<lambda>c'. timers t c' = T) (nudgeRequirements t reqs c)"
proof (induction reqs arbitrary: c)
  case (Cons req reqs)
  have "returns (\<lambda>c'. timers t c' = T) (nudgeRequirement t req c)"
    using Nudge_timers [where T = T and send = "requestEndorsement t", OF requestEndorsement_timers] Cons.prems
    by (auto simp: nudgeRequirement_def NewIdempotentRequest_def newUUID_def split_beta split: option.splits)
  then show ?case using Cons.IH by (auto intro!: returns_and_then)
qed simp

text \<open>
  Finding: the request timer is armed once, when the request is made. Its event, handled in each of
  the three states that wait for answers, nudges the outstanding requests but arms no timer again: once
  it has fired it will not fire a second time, so an answer that is lost twice is only made up for by
  the state timeout.
\<close>

theorem request_timer_fires_once:
  assumes "fireRequestTimeout t c = Some c1" and "\<not> txLocked (txn t c1)"
    and "currentState (txn t c1) = State_Assembling \<or> currentState (txn t c1) = State_Confirming_Dispatchable
      \<or> currentState (txn t c1) = State_Endorsement_Gathering \<and> pendingEndorsementRequests (txn t c1) \<noteq> None"
  shows "returns (\<lambda>c2. \<forall>time. fireRequestTimeout t (c2\<lparr>now := time\<rparr>) = None)
    (coordinatorTransactionHandleEvent (Suc n) t RequestTimeoutIntervalEvent c1)"
proof -
  have known: "transactionsByID c1 t \<noteq> None" and "\<exists>tm s. timers t c1 = Some (Some tm, s) \<and> tm_fired tm"
    using assms(1)
    by (auto simp: fireRequestTimeout_def queueEventForCoordinator_def updTxn_def timers_def
        split: option.splits if_splits)
  then obtain tm s where T: "timers t c1 = Some (Some tm, s)" "tm_fired tm" by blast
  have lock: "timers t (lockTx t c1) = Some (Some tm, s)" using T by (simp add: timers_updTxn)
  have "returns (\<lambda>c2. timers t c2 = Some (Some tm, s))
      (handleLocked (txMachine (coordinatorTransactionHandleEvent n) t) RequestTimeoutIntervalEvent (lockTx t c1))"
    using assms(3) known nudge_timers [OF lock] nudgeRequirements_timers [OF lock] lock
    by (auto simp: handleLocked_def def_Assembling_def def_Assembling_responses_def def_Assembling_other_def
        def_Endorsement_Gathering_def def_Confirming_Dispatchable_def matchesHandler_def guard_passes_def
        action_NudgeAssembleRequest_def action_NudgePreDispatchRequest_def action_NudgeEndorsementRequests_def
        sendEndorsementRequests_def split: option.splits)
  then have "returns (\<lambda>c2. timers t c2 = Some (Some tm, s))
      (coordinatorTransactionHandleEvent (Suc n) t RequestTimeoutIntervalEvent c1)"
    using known by (auto simp: HandleEvent_unlocked [OF known assms(2)] timers_updTxn)
  then show ?thesis
    by (rule returns_mono) (use T(2) in \<open>auto simp: fireRequestTimeout_def timers_def split: option.splits\<close>)
qed

definition waitingCoordinator :: coordinator where
  "waitingCoordinator = (sampleCoordinator State_Assembling)\<lparr>now := 10, transactionsByID :=
     [1 \<mapsto> (sampleTx State_Assembling)\<lparr>cancelRequestTimeoutSchedule := Some \<lparr>tm_due = 10, tm_fired = False\<rparr>\<rparr>]\<rparr>"

theorem request_timer_fires_once_witness:
  "\<exists>c1. fireRequestTimeout 1 waitingCoordinator = Some c1 \<and>
     returns (\<lambda>c2. \<forall>time. fireRequestTimeout 1 (c2\<lparr>now := time\<rparr>) = None)
       (coordinatorTransactionHandleEvent (Suc 0) 1 RequestTimeoutIntervalEvent c1)"
proof -
  obtain c1 where c1: "fireRequestTimeout 1 waitingCoordinator = Some c1"
    "currentState (txn 1 c1) = State_Assembling" "\<not> txLocked (txn 1 c1)"
    by (simp add: fireRequestTimeout_def waitingCoordinator_def queueEventForCoordinator_def updTxn_def txn_def sampleTx_def)
  then show ?thesis using request_timer_fires_once [OF c1(1)] by blast
qed

section \<open>Endorsements\<close>

text \<open>
  The attestation plan counts as fulfilled exactly when for every endorsement request either the
  threshold (all parties, if none is set) is reached by the endorsements received under its name and
  verifier type, or every party has endorsed. In particular a threshold above the number of parties
  is treated as unanimity.
\<close>

theorem attestation_plan_fulfilled:
  assumes "pt_PostAssembly (pt (txn t c)) = Some pa"
  shows "guard_AttestationPlanFulfilled t c \<longleftrightarrow>
    (\<forall>ar \<in> set (pa_AttestationPlan (AssembleResponse pa)). ar_AttestationType ar = ENDORSE \<longrightarrow>
       effectiveThreshold ar \<le> receivedCount ar (CollectedEndorsements pa)
       \<or> (\<forall>party \<in> set (ar_Parties ar). endorsedBy ar (CollectedEndorsements pa) party))"
  using assms
  by (auto simp: guard_AttestationPlanFulfilled_def hasUnfulfilledEndorsementRequirements_def
      unfulfilledEndorsementRequirements_def outstandingParties_def filter_empty_conv)

definition endorseRequest :: AttestationRequest where
  "endorseRequest = \<lparr>ar_Name = ''n'', ar_AttestationType = ENDORSE, ar_Algorithm = ''a'',
     ar_VerifierType = ''v'', ar_Payload = [], ar_PayloadType = [],
     ar_Parties = [''a@n1'', ''b@n2''], ar_Threshold = Some 5\<rparr>"

definition endorsement :: "string \<Rightarrow> AttestationResult" where
  "endorsement party = \<lparr>at_Name = ''n'', at_AttestationType = ENDORSE,
     at_Verifier = Some \<lparr>rv_Lookup = party, rv_Algorithm = ''a'', rv_VerifierType = ''v'', rv_Verifier = []\<rparr>,
     at_Payload = [], at_Constraints = []\<rparr>"

definition endorsedAssembly :: PostAssembly where
  "endorsedAssembly = \<lparr>AssembleResponse = sampleAssembly\<lparr>pa_AttestationPlan := [endorseRequest]\<rparr>, OutputStates = [],
     OutputStatesWithLabels = [], InfoStates = [], CollectedEndorsements = [endorsement ''a@n1'', endorsement ''b@n2'']\<rparr>"

definition endorsedCoordinator :: coordinator where
  "endorsedCoordinator = setPostAssembly 1 endorsedAssembly (sampleCoordinator State_Endorsement_Gathering)"

lemma endorsedCoordinator_assembly: "pt_PostAssembly (pt (txn 1 endorsedCoordinator)) = Some endorsedAssembly"
  by (simp add: endorsedCoordinator_def setPostAssembly_def)

theorem attestation_plan_fulfilled_witness:
  "guard_AttestationPlanFulfilled 1 endorsedCoordinator \<and> effectiveThreshold endorseRequest = 5"
  unfolding attestation_plan_fulfilled [OF endorsedCoordinator_assembly]
  by (simp add: endorsedAssembly_def endorsement_def endorseRequest_def endorsedBy_def verifierLookup_def
      at_VerifierType_def effectiveThreshold_def)

text \<open>
  Every failure of an endorser is counted once: recording it increments the count of its requirement
  and leaves the party marked, so that no further answer of this party to this requirement is accepted,
  under whatever request identifier, until the requests are reset.
\<close>

theorem endorse_failure_counted_once:
  assumes "transactionsByID c t \<noteq> None" and "endorseFailure ev = (reqName, party, reverted)" and "party \<noteq> []"
    and "validator_MatchesPendingEndorsementRequest t ev c = Inr True"
    and "endorsementOutcome ev = Some (reqName, party, requestID)"
  shows "\<exists>c'. action_RecordEndorseFailure t ev c = Ok c'
    \<and> endorseFailureCountByRequirement (txn t c') reqName = endorseFailureCountByRequirement (txn t c) reqName + 1
    \<and> (\<forall>ev' requestID'. endorsementOutcome ev' = Some (reqName, party, requestID')
         \<longrightarrow> validator_MatchesPendingEndorsementRequest t ev' c' = Inr False)"
proof -
  obtain m inner r where m: "pendingEndorsementRequests (txn t c) = Some m" "m reqName = Some inner" "inner party = Some (Some r)"
    using assms(4,5)
    by (auto simp: validator_MatchesPendingEndorsementRequest_def pendingEndorsement_def split: option.splits)
  then show ?thesis
    using assms(1-3)
    by (auto simp: action_RecordEndorseFailure_def setPendingEndorsement_def Let_def pendingEndorsement_def
        validator_MatchesPendingEndorsementRequest_def split: option.split)
qed

definition pendingCoordinator :: coordinator where
  "pendingCoordinator = updTxn 1 (\<lambda>x. x\<lparr>pendingEndorsementRequests := Some [''n'' \<mapsto> [''a@n1'' \<mapsto>
     Some (NewIdempotentRequestWithKey 10 77 (''a@n1'', endorseRequest))]]\<rparr>) endorsedCoordinator"

theorem endorse_failure_counted_once_witness:
  "\<exists>c'. action_RecordEndorseFailure 1 (EndorseErrorEvent 77 ''a@n1'' ''n'') pendingCoordinator = Ok c'
     \<and> validator_MatchesPendingEndorsementRequest 1 (EndorseErrorEvent 78 ''a@n1'' ''n'') c' = Inr False"
proof -
  let ?ev = "EndorseErrorEvent 77 ''a@n1'' ''n''"
  have "transactionsByID pendingCoordinator 1 \<noteq> None" "validator_MatchesPendingEndorsementRequest 1 ?ev pendingCoordinator = Inr True"
    by (simp_all add: pendingCoordinator_def endorsedCoordinator_def validator_MatchesPendingEndorsementRequest_def
        pendingEndorsement_def NewIdempotentRequestWithKey_def)
  from endorse_failure_counted_once [OF this(1) _ _ this(2), of "''n''" "''a@n1''" None 77] show ?thesis by fastforce
qed

text \<open>The tolerances computed on entry, one per endorsement request when their names differ.\<close>

lemma update_fresh: "k \<notin> fst ` set m \<Longrightarrow> AList.update k v m = m @ [(k, v)]"
  by (induction m) auto

lemma fold_tolerances:
  assumes "distinct (map ar_Name (filter (\<lambda>ar. ar_AttestationType ar = ENDORSE) plan))"
    and "\<forall>ar \<in> set plan. ar_AttestationType ar = ENDORSE \<longrightarrow> ar_Name ar \<notin> fst ` set m"
  shows "set (fold (\<lambda>ar m. if ar_AttestationType ar \<noteq> ENDORSE then m
      else go_set (ar_Name ar) (int (length (ar_Parties ar)) - effectiveThreshold ar) m) plan m)
    = set m \<union> (\<lambda>ar. (ar_Name ar, int (length (ar_Parties ar)) - effectiveThreshold ar)) ` {ar \<in> set plan. ar_AttestationType ar = ENDORSE}"
  using assms
proof (induction plan arbitrary: m)
  case (Cons ar plan)
  show ?case
  proof (cases "ar_AttestationType ar = ENDORSE")
    case True
    let ?m = "m @ [(ar_Name ar, int (length (ar_Parties ar)) - effectiveThreshold ar)]"
    have "\<forall>x \<in> set plan. ar_AttestationType x = ENDORSE \<longrightarrow> ar_Name x \<notin> fst ` set ?m"
      using Cons.prems True by (auto simp: image_iff)
    moreover have "distinct (map ar_Name (filter (\<lambda>ar. ar_AttestationType ar = ENDORSE) plan))"
      using Cons.prems(1) by (simp split: if_splits)
    moreover have "{x \<in> set (ar # plan). ar_AttestationType x = ENDORSE} = insert ar {x \<in> set plan. ar_AttestationType x = ENDORSE}"
      using True by auto
    ultimately show ?thesis using Cons.IH [of ?m] Cons.prems(2) True by (simp add: update_fresh)
  next
    case False
    have "{x \<in> set (ar # plan). ar_AttestationType x = ENDORSE} = {x \<in> set plan. ar_AttestationType x = ENDORSE}"
      using False by auto
    with Cons False show ?thesis by simp
  qed
qed simp

text \<open>
  The tolerance of a requirement is the number of failures it can bear: an assembly is given up for
  endorsement failures exactly when, for some requirement, the parties that have not failed are fewer
  than its threshold, so that it can no longer be met.
\<close>

theorem endorse_tolerance_exact:
  assumes "pt_PostAssembly (pt (txn t c)) = Some pa"
    and "distinct (map ar_Name (filter (\<lambda>ar. ar_AttestationType ar = ENDORSE) (pa_AttestationPlan (AssembleResponse pa))))"
    and "endorseToleranceByRequirement (txn t c) = computeTolerances (txn t c)"
  shows "guard_EndorseFailureExceedsTolerance t c \<longleftrightarrow>
    (\<exists>ar \<in> set (pa_AttestationPlan (AssembleResponse pa)). ar_AttestationType ar = ENDORSE \<and>
       int (length (ar_Parties ar)) - endorseFailureCountByRequirement (txn t c) (ar_Name ar) < effectiveThreshold ar)"
proof -
  have "set (computeTolerances (txn t c)) = (\<lambda>ar. (ar_Name ar, int (length (ar_Parties ar)) - effectiveThreshold ar))
      ` {ar \<in> set (pa_AttestationPlan (AssembleResponse pa)). ar_AttestationType ar = ENDORSE}"
    using fold_tolerances [OF assms(2), of "[]"] assms(1) by (simp add: computeTolerances_def)
  then show ?thesis
    unfolding guard_EndorseFailureExceedsTolerance_def assms(3) by auto
qed

theorem endorse_tolerance_exact_witness:
  "guard_EndorseFailureExceedsTolerance 1 (updTxn 1 (\<lambda>x. x\<lparr>endorseToleranceByRequirement := computeTolerances x,
     endorseFailureCountByRequirement := (\<lambda>_. 0)(''n'' := 1)\<rparr>) endorsedCoordinator)"
  by (subst endorse_tolerance_exact [where pa = endorsedAssembly])
     (simp_all add: setPostAssembly_def endorsedCoordinator_def endorsedAssembly_def endorseRequest_def computeTolerances_def
        sampleAssembly_def effectiveThreshold_def)

section \<open>Heartbeats\<close>

text \<open>
  In the snapshot a coordinator sends with its heartbeats, a transaction appears under the heading of
  its phase, with its own identifier, from the moment it is pooled or blocked until it is confirmed or
  reverted; before delegation and after it has become final or evicted it does not appear.
\<close>

theorem snapshot_of_transaction:
  "(GetSnapshot x = None \<longleftrightarrow> currentState x \<in> {State_Initial, State_Final, State_Evicted})
   \<and> (GetSnapshot x = Some (SnapshotPooled i) \<longrightarrow> i = pt_ID (pt x)
        \<and> currentState x \<notin> {State_Ready_For_Dispatch, State_Dispatched, State_Confirmed, State_Reverted})
   \<and> (\<forall>d. GetSnapshot x = Some (SnapshotDispatched i d) \<longrightarrow> i = pt_ID (pt x)
        \<and> currentState x \<in> {State_Ready_For_Dispatch, State_Dispatched}
        \<and> (d = None \<longleftrightarrow> signerAddress x = None))
   \<and> (\<forall>n h a. GetSnapshot x = Some (SnapshotConfirmed i n h a) \<longrightarrow> currentState x = State_Confirmed)
   \<and> (\<forall>r. GetSnapshot x = Some (SnapshotReverted i r) \<longrightarrow> currentState x = State_Reverted)"
  by (cases "currentState x") (auto simp: GetSnapshot_def Let_def split: option.splits)

theorem snapshot_of_transaction_witness:
  "GetSnapshot (sampleTx State_Evicted) = None
   \<and> GetSnapshot (sampleTx State_Dispatched) = Some (SnapshotDispatched 1 None)"
  using snapshot_of_transaction [of "sampleTx State_Evicted" 1] snapshot_of_transaction [of "sampleTx State_Dispatched" 1]
  by (simp add: GetSnapshot_def sampleTx_def)

end
