(* ===== verification/Retry.thy ===== *)
theory Retry
  imports Prelude
begin

text \<open>
  The retry loop of the SDK (\<^verbatim>\<open>sdk/go/pkg/retry\<close>), which the endorsement, preparation and commit paths of the
  coordinator run in. \<open>attempt\<close> is the function retried, given the number of the attempt: it returns a
  value, or an error and whether the error is worth another attempt. \<open>cancelled n\<close> says whether the
  context is done when the loop waits after attempt \<open>n\<close>. With a limit of 0 the loop is unbounded, so that
  not returning is the value \<open>None\<close>. The length of the waits is left out.
\<close>

record Retry =
  rt_maxAttempts :: nat

datatype 'e retryError = AttemptError 'e | MsgContextCanceled

partial_function (option) retryLoop ::
  "Retry \<Rightarrow> (nat \<Rightarrow> bool) \<Rightarrow> (nat \<Rightarrow> (bool \<times> 'e) + 'a) \<Rightarrow> nat \<Rightarrow> ('e retryError + 'a) option" where
  "retryLoop r cancelled attempt n =
     (case attempt n of
        Inr a \<Rightarrow> Some (Inr a)
      | Inl (retry, e) \<Rightarrow>
          if \<not> retry \<or> (rt_maxAttempts r > 0 \<and> n \<ge> rt_maxAttempts r) then Some (Inl (AttemptError e))
          else if cancelled n then Some (Inl MsgContextCanceled)
          else retryLoop r cancelled attempt (Suc n))"

declare retryLoop.simps [code]

definition Retry_Do ::
  "Retry \<Rightarrow> (nat \<Rightarrow> bool) \<Rightarrow> (nat \<Rightarrow> (bool \<times> 'e) + 'a) \<Rightarrow> ('e retryError + 'a) option" where
  "Retry_Do r cancelled attempt = retryLoop r cancelled attempt 1"

text \<open>Attempt \<open>n\<close> failed and the loop went on to the next one.\<close>

definition goesOn :: "Retry \<Rightarrow> (nat \<Rightarrow> bool) \<Rightarrow> (nat \<Rightarrow> (bool \<times> 'e) + 'a) \<Rightarrow> nat \<Rightarrow> bool" where
  "goesOn r cancelled attempt n \<longleftrightarrow>
     (\<exists>e. attempt n = Inl (True, e)) \<and> \<not> (rt_maxAttempts r > 0 \<and> n \<ge> rt_maxAttempts r) \<and> \<not> cancelled n"

definition stopsWith :: "Retry \<Rightarrow> (nat \<Rightarrow> (bool \<times> 'e) + 'a) \<Rightarrow> nat \<Rightarrow> 'e retryError + 'a" where
  "stopsWith r attempt n =
     (case attempt n of
        Inr a \<Rightarrow> Inr a
      | Inl (retry, e) \<Rightarrow>
          if \<not> retry \<or> (rt_maxAttempts r > 0 \<and> n \<ge> rt_maxAttempts r) then Inl (AttemptError e)
          else Inl MsgContextCanceled)"

lemma retryLoop_unfold:
  "retryLoop r cancelled attempt n =
     (if goesOn r cancelled attempt n then retryLoop r cancelled attempt (Suc n) else Some (stopsWith r attempt n))"
  by (subst retryLoop.simps) (auto simp: goesOn_def stopsWith_def split: sum.splits prod.splits)

lemma retryLoop_reaches:
  assumes "\<forall>i. n \<le> i \<and> i < n + k \<longrightarrow> goesOn r cancelled attempt i" and "\<not> goesOn r cancelled attempt (n + k)"
  shows "retryLoop r cancelled attempt n = Some (stopsWith r attempt (n + k))"
  using assms
proof (induction k arbitrary: n)
  case 0
  then show ?case by (subst retryLoop_unfold) simp
next
  case (Suc k)
  then have "goesOn r cancelled attempt n" by simp
  moreover have "retryLoop r cancelled attempt (Suc n) = Some (stopsWith r attempt (Suc n + k))"
    using Suc.prems by (intro Suc.IH) auto
  ultimately show ?case by (subst retryLoop_unfold) simp
qed

text \<open>The attempt at which a limited loop stops: the first that does not go on, at most the limit.\<close>

lemma first_stop:
  assumes "rt_maxAttempts r > 0"
  obtains k where "k < rt_maxAttempts r" and "\<forall>i. 1 \<le> i \<and> i < 1 + k \<longrightarrow> goesOn r cancelled attempt i"
    and "\<not> goesOn r cancelled attempt (1 + k)"
proof -
  let ?P = "\<lambda>k. \<not> goesOn r cancelled attempt (1 + k)"
  have ex: "?P (rt_maxAttempts r - 1)" using assms by (simp add: goesOn_def)
  define k where "k = (LEAST k. ?P k)"
  have "?P k" unfolding k_def by (rule LeastI [of ?P, OF ex])
  moreover have "k \<le> rt_maxAttempts r - 1" unfolding k_def by (rule Least_le [of ?P, OF ex])
  moreover have "goesOn r cancelled attempt i" if "1 \<le> i" "i < 1 + k" for i
    using not_less_Least [of "i - 1" ?P] that unfolding k_def [symmetric] by auto
  ultimately show thesis using assms by (intro that [of k]) auto
qed

text \<open>
  A limited retry returns after at most its limit of attempts, and with the answer of the last one:
  its value, its error if it is not worth repeating or the limit is reached, or that the context was
  cancelled while waiting. All attempts before it failed with an error worth repeating.
\<close>

theorem Retry_Do_limited:
  assumes "rt_maxAttempts r > 0"
  shows "\<exists>n. 1 \<le> n \<and> n \<le> rt_maxAttempts r \<and> Retry_Do r cancelled attempt = Some (stopsWith r attempt n)
    \<and> (\<forall>i. 1 \<le> i \<and> i < n \<longrightarrow> (\<exists>e. attempt i = Inl (True, e)) \<and> \<not> cancelled i)"
proof -
  obtain k where k: "k < rt_maxAttempts r" "\<forall>i. 1 \<le> i \<and> i < 1 + k \<longrightarrow> goesOn r cancelled attempt i"
    "\<not> goesOn r cancelled attempt (1 + k)"
    using first_stop [OF assms] by blast
  have "Retry_Do r cancelled attempt = Some (stopsWith r attempt (1 + k))"
    unfolding Retry_Do_def by (rule retryLoop_reaches [OF k(2,3)])
  moreover have "\<forall>i. 1 \<le> i \<and> i < 1 + k \<longrightarrow> (\<exists>e. attempt i = Inl (True, e)) \<and> \<not> cancelled i"
    using k(2) unfolding goesOn_def by blast
  ultimately show ?thesis using k(1) by (intro exI [of _ "1 + k"]) simp
qed

theorem Retry_Do_limited_witness:
  "\<exists>n. 1 \<le> n \<and> n \<le> 3 \<and> Retry_Do \<lparr>rt_maxAttempts = 3\<rparr> (\<lambda>_. False) (\<lambda>i. if i < 2 then Inl (True, ''busy'') else Inr i)
     = Some (stopsWith \<lparr>rt_maxAttempts = 3\<rparr> (\<lambda>i. if i < 2 then Inl (True, ''busy'') else Inr i) n)
   \<and> n \<noteq> 3"
proof -
  let ?r = "\<lparr>rt_maxAttempts = 3\<rparr>" and ?a = "\<lambda>i::nat. if i < 2 then Inl (True, ''busy'') else Inr i"
  obtain n where n: "1 \<le> n" "n \<le> rt_maxAttempts ?r" "Retry_Do ?r (\<lambda>_. False) ?a = Some (stopsWith ?r ?a n)"
    "\<forall>i. 1 \<le> i \<and> i < n \<longrightarrow> (\<exists>e. ?a i = Inl (True, e)) \<and> \<not> False"
    using Retry_Do_limited [of ?r "\<lambda>_. False" ?a] by auto
  from n(4) have "n \<noteq> 3" by (auto dest: spec [of _ 2])
  with n show ?thesis by (intro exI [of _ n]) simp
qed

end
