(* ===== verification/CoordinatorActions.thy ===== *)
theory CoordinatorActions
  imports TransactionFrame Retry
begin

text \<open>
  The operations of the coordinator itself, one definition per Go function of \<^verbatim>\<open>coordinator/*.go\<close>:
  selection of the next transaction to assemble, delegation, heartbeats and the snapshot they carry,
  handover between coordinators, endorsement on behalf of others, and the dispatch loop.

  The Go struct \<^verbatim>\<open>coordinator\<close> is split in two records. What a transaction reaches through the function
  fields it is created with is the record \<open>coordinator\<close> of \<open>CoordinatorTypes\<close>; what only the
  coordinator's own machine touches is the record \<open>coordinatorNode\<close> around it, whose field \<open>txs\<close> is that
  inner part.
\<close>

section \<open>The coordinator struct\<close>

text \<open>
  \<open>transactionIDs\<close> lists the keys of \<open>transactionsByID\<close> in the order in which this run ranges over the
  map. \<open>pooledTransactions\<close> holds transactions by pointer in Go; a pooled transaction is always in
  \<open>transactionsByID\<close> (\<open>pool_wf\<close> below), so that its identifier names it.

  The dispatch loop runs in a goroutine of its own: it is stopped, waits for a queued dispatch, holds a
  dispatch and waits for capacity, or works through a batch (still to hand over, already accepted).
\<close>

type_synonym queuedDispatch = "uuid \<times> PendingDispatch"

datatype dispatchLoopPhase = LoopStopped | LoopReceiving | LoopAwaitingCapacity queuedDispatch
  | LoopBatch "queuedDispatch list" "PendingDispatch list"

text \<open>
  What the coordinator takes from other parts of the node: whether private state data is complete up to
  a block, keys and signatures of the key manager, the domain's endorsement, and whether the database
  commits a batch.
\<close>

datatype EndorseResult = ENDORSE_SIGN | ENDORSE_ENDORSER_SUBMIT | ENDORSE_REVERT

record EndorsementResult =
  en_Endorser :: ResolvedVerifier
  en_Result :: EndorseResult
  en_Payload :: HexBytes
  en_RevertReason :: "string option"

record nodeEnvironment =
  ne_CheckPendingPrivateStateData :: "int \<Rightarrow> int \<Rightarrow> string + bool"
  ne_ResolveKey :: "nat \<Rightarrow> string \<Rightarrow> string \<Rightarrow> string \<Rightarrow> string + string"
  ne_EndorseTransaction :: "nat \<Rightarrow> HexBytes \<Rightarrow> ResolvedVerifier \<Rightarrow> string + EndorsementResult"
  ne_Sign :: "nat \<Rightarrow> string \<Rightarrow> string \<Rightarrow> HexBytes \<Rightarrow> string + HexBytes"
  ne_commitFails :: "nat \<Rightarrow> bool"
  ne_HandleNewTxFails :: "ChainedPrivateTransaction \<Rightarrow> bool"

record coordinatorNode =
  txs :: coordinator
  nodeEnv :: nodeEnvironment
  started :: bool
  coordState :: CoordinatorState
  coordLocked :: bool
  currentActiveCoordinator :: string
  coordIntervalsSinceStateChange :: int
  heartbeatIntervalsSinceLastReceive :: int
  transactionIDs :: "uuid list"
  pooledTransactions :: "uuid list"
  assemblyInFlight :: bool
  assemblingTxID :: uuid
  originatorActivity :: "(string, int) gomap"
  pendingHandoverRequest :: "unit IdempotentRequest option"
  inFlightEndorsements :: "string list"
  endorsementsStarted :: "EndorsementRequestReceived list"
  cancelRequestTimeout :: "Timer option"
  cancelStateTimeout :: "Timer option"
  dispatchLoopPhase :: dispatchLoopPhase
  commitsTried :: nat
  persistedBatches :: "PendingDispatch list list"
  childrenSubmitted :: "ChainedPrivateTransaction list"
  contractAddress :: string
  domainFixedSigningIdentity :: string
  contractSubmitterSelection :: SubmitterSelection
  coordBlockHeightTolerance :: uint64
  closingGracePeriod :: int
  inactiveGracePeriod :: int
  coordBaseLedgerRevertRetryThreshold :: int
  coordAssembleErrorRetryThreshhold :: int
  coordSignErrorRetryThreshhold :: int
  coordRequestTimeout :: int
  coordStateTimeout :: int
  maxInflightTransactions :: int
  maxDispatchAhead :: int
  dispatchMaxBatchSize :: int
  endorseErrorRetry :: Retry

type_synonym nodeResult = "(coordError, coordinatorNode) outcome"

section \<open>The part transactions share\<close>

definition onTxs :: "(coordinator \<Rightarrow> result) \<Rightarrow> coordinatorNode \<Rightarrow> nodeResult" where
  "onTxs f s =
     (case f (txs s) of
        Ok c \<Rightarrow> Ok (s\<lparr>txs := c\<rparr>)
      | Fail e c \<Rightarrow> Fail e (s\<lparr>txs := c\<rparr>)
      | Stuck \<Rightarrow> Stuck)"

definition updTxs :: "(coordinator \<Rightarrow> coordinator) \<Rightarrow> coordinatorNode \<Rightarrow> coordinatorNode" where
  "updTxs f s = s\<lparr>txs := f (txs s)\<rparr>"

text \<open>
  \<^verbatim>\<open>txn.HandleEvent\<close> on a transaction of the map. The depth of nested handling is bounded by the number
  of transactions; \<open>nesting_bound_irrelevant\<close> shows that this bound is no restriction.
\<close>

definition txHandleEvent :: "uuid \<Rightarrow> Event \<Rightarrow> coordinatorNode \<Rightarrow> nodeResult" where
  "txHandleEvent t ev s =
     onTxs (coordinatorTransactionHandleEvent (Suc (length (transactionIDs s))) t ev) s"

definition nodeSend :: "string \<Rightarrow> Message \<Rightarrow> coordinatorNode \<Rightarrow> nodeResult" where
  "nodeSend node msg = onTxs (transportSend node msg)"

definition queueEventInternal :: "CoordinatorEvent \<Rightarrow> coordinatorNode \<Rightarrow> coordinatorNode" where
  "queueEventInternal ev = updTxs (queueEventForCoordinator ev)"

abbreviation nodeName_of :: "coordinatorNode \<Rightarrow> string" where
  "nodeName_of s \<equiv> coordNodeName (txs s)"

abbreviation txState :: "coordinatorNode \<Rightarrow> uuid \<Rightarrow> State" where
  "txState s t \<equiv> currentState (txn t (txs s))"

definition getTransactionsInStates :: "State list \<Rightarrow> coordinatorNode \<Rightarrow> uuid list" where
  "getTransactionsInStates states s = filter (\<lambda>t. txState s t \<in> set states) (transactionIDs s)"

definition getTransactionsNotInStates :: "State list \<Rightarrow> coordinatorNode \<Rightarrow> uuid list" where
  "getTransactionsNotInStates states s = filter (\<lambda>t. txState s t \<notin> set states) (transactionIDs s)"

definition propagateEventToTransaction :: "uuid \<Rightarrow> Event \<Rightarrow> coordinatorNode \<Rightarrow> nodeResult" where
  "propagateEventToTransaction t ev s =
     (case transactionsByID (txs s) t of None \<Rightarrow> Ok s | Some _ \<Rightarrow> txHandleEvent t ev s)"

fun propagateLoop :: "Event \<Rightarrow> uuid list \<Rightarrow> coordinatorNode \<Rightarrow> nodeResult" where
  "propagateLoop ev [] s = Ok s"
| "propagateLoop ev (t # ts) s = and_then (txHandleEvent t ev s) (propagateLoop ev ts)"

definition propagateEventToAllTransactions :: "Event \<Rightarrow> coordinatorNode \<Rightarrow> nodeResult" where
  "propagateEventToAllTransactions ev s = propagateLoop ev (transactionIDs s) s"

section \<open>Guards (state\_transition\_guards.go)\<close>

definition guard_HasUnconfirmedDispatchedTransactions :: "coordinatorNode \<Rightarrow> bool" where
  "guard_HasUnconfirmedDispatchedTransactions s \<longleftrightarrow> length (getTransactionsInStates [State_Dispatched] s) > 0"

definition guard_HasTransactionsInflight :: "coordinatorNode \<Rightarrow> bool" where
  "guard_HasTransactionsInflight s \<longleftrightarrow> length (transactionIDs s) > 0"

definition guard_ClosingGracePeriodExpired :: "coordinatorNode \<Rightarrow> bool" where
  "guard_ClosingGracePeriodExpired s \<longleftrightarrow> coordIntervalsSinceStateChange s > closingGracePeriod s"

definition guard_HasTransactionAssembling :: "coordinatorNode \<Rightarrow> bool" where
  "guard_HasTransactionAssembling s \<longleftrightarrow> assemblyInFlight s"

definition guard_InactiveGracePeriodExceeded :: "coordinatorNode \<Rightarrow> bool" where
  "guard_InactiveGracePeriodExceeded s \<longleftrightarrow> heartbeatIntervalsSinceLastReceive s > inactiveGracePeriod s"

definition guard_IsHigherPriorityThanCurrentActive :: "coordinatorNode \<Rightarrow> bool" where
  "guard_IsHigherPriorityThanCurrentActive s \<longleftrightarrow>
     IsHigherPriority (coordinatorPriorityList (txs s)) (nodeName_of s) (currentActiveCoordinator s)"

definition guard_MustFlushToRotateSigningIdentity :: "coordinatorNode \<Rightarrow> bool" where
  "guard_MustFlushToRotateSigningIdentity s \<longleftrightarrow>
     signingIdentityUsed (txs s) \<and> guard_HasUnconfirmedDispatchedTransactions s"

definition guard_IsCoordinatorEndorserSelectionMode :: "coordinatorNode \<Rightarrow> bool" where
  "guard_IsCoordinatorEndorserSelectionMode s \<longleftrightarrow> coordinatorSelection (txs s) = COORDINATOR_ENDORSER"

section \<open>The pool and the assembly slot (coordinating.go)\<close>

definition addTransactionToBackOfPool :: "uuid \<Rightarrow> coordinatorNode \<Rightarrow> coordinatorNode" where
  "addTransactionToBackOfPool t s =
     (if t \<in> set (pooledTransactions s) then s
      else s\<lparr>pooledTransactions := pooledTransactions s @ [t]\<rparr>)"

definition popNextPooledTransaction :: "coordinatorNode \<Rightarrow> uuid option \<times> coordinatorNode" where
  "popNextPooledTransaction s =
     (case pooledTransactions s of
        [] \<Rightarrow> (None, s)
      | t # ts \<Rightarrow> (Some t, s\<lparr>pooledTransactions := ts\<rparr>))"

definition removeTransactionFromPool :: "uuid \<Rightarrow> coordinatorNode \<Rightarrow> coordinatorNode" where
  "removeTransactionFromPool t s = s\<lparr>pooledTransactions := remove1 t (pooledTransactions s)\<rparr>"

definition selectNextTransactionToAssemble :: "coordinatorNode \<Rightarrow> nodeResult" where
  "selectNextTransactionToAssemble s =
     (case popNextPooledTransaction s of
        (None, s1) \<Rightarrow> Ok s1
      | (Some t, s1) \<Rightarrow>
          and_then (txHandleEvent t SelectedEvent s1)
            (\<lambda>s2. Ok (s2\<lparr>assemblyInFlight := True, assemblingTxID := t\<rparr>)))"

definition action_SelectTransaction :: "CoordinatorEvent \<Rightarrow> coordinatorNode \<Rightarrow> nodeResult" where
  "action_SelectTransaction ev s = selectNextTransactionToAssemble s"

definition action_PoolTransaction :: "CoordinatorEvent \<Rightarrow> coordinatorNode \<Rightarrow> nodeResult" where
  "action_PoolTransaction ev s =
     (case ev of
        TransactionStateTransitionEvent t from to \<Rightarrow>
          Ok (case transactionsByID (txs s) t of None \<Rightarrow> s | Some _ \<Rightarrow> addTransactionToBackOfPool t s)
      | _ \<Rightarrow> Stuck)"

definition cleanUpTransaction :: "uuid \<Rightarrow> coordinatorNode \<Rightarrow> coordinatorNode" where
  "cleanUpTransaction t s =
     (case transactionsByID (txs s) t of
        None \<Rightarrow> s
      | Some _ \<Rightarrow>
          updTxs (updGrapher (\<lambda>g. g\<lparr>depTracker := tracker_Delete t (depTracker g)\<rparr>))
            (updTxs (updGrapher (ForgetTransactionAndLocks t))
              (removeTransactionFromPool t
                ((updTxs (\<lambda>c. c\<lparr>transactionsByID := (transactionsByID c)(t := None)\<rparr>) s)
                   \<lparr>transactionIDs := removeAll t (transactionIDs s)\<rparr>))))"

definition action_CleanUpTransaction :: "CoordinatorEvent \<Rightarrow> coordinatorNode \<Rightarrow> nodeResult" where
  "action_CleanUpTransaction ev s =
     (case ev of TransactionStateTransitionEvent t from to \<Rightarrow> Ok (cleanUpTransaction t s) | _ \<Rightarrow> Stuck)"

definition action_CleanUpTransactionsNotYetDispatched :: "CoordinatorEvent \<Rightarrow> coordinatorNode \<Rightarrow> nodeResult" where
  "action_CleanUpTransactionsNotYetDispatched ev s =
     (let s1 = fold cleanUpTransaction
                 (getTransactionsNotInStates [State_Dispatched, State_Confirmed, State_Reverted] s) s
      in Ok (updTxs (\<lambda>c. c\<lparr>dispatchQueue := []\<rparr>) (s1\<lparr>assemblyInFlight := False, assemblingTxID := uuid_Nil\<rparr>)))"

definition action_ClearAssemblyInFlight :: "CoordinatorEvent \<Rightarrow> coordinatorNode \<Rightarrow> nodeResult" where
  "action_ClearAssemblyInFlight ev s = Ok (s\<lparr>assemblyInFlight := False, assemblingTxID := uuid_Nil\<rparr>)"

definition action_cancelCurrentlyAssemblingTransaction :: "CoordinatorEvent \<Rightarrow> coordinatorNode \<Rightarrow> nodeResult" where
  "action_cancelCurrentlyAssemblingTransaction ev s =
     (if \<not> assemblyInFlight s then Ok s
      else case transactionsByID (txs s) (assemblingTxID s) of
             None \<Rightarrow> Ok s
           | Some _ \<Rightarrow> txHandleEvent (assemblingTxID s) AssembleCancelledEvent s)"

definition validator_TransactionStateTransitionFrom ::
  "State list \<Rightarrow> CoordinatorEvent \<Rightarrow> coordinatorNode \<Rightarrow> coordError + bool" where
  "validator_TransactionStateTransitionFrom states ev s =
     (case ev of TransactionStateTransitionEvent t from to \<Rightarrow> Inr (from \<in> set states) | _ \<Rightarrow> Inl goPanic)"

definition validator_TransactionStateTransitionTo ::
  "State list \<Rightarrow> CoordinatorEvent \<Rightarrow> coordinatorNode \<Rightarrow> coordError + bool" where
  "validator_TransactionStateTransitionTo states ev s =
     (case ev of TransactionStateTransitionEvent t from to \<Rightarrow> Inr (to \<in> set states) | _ \<Rightarrow> Inl goPanic)"

section \<open>Timers and the handover request (coordinating.go)\<close>

definition coord_scheduleRequestTimeout :: "coordinatorNode \<Rightarrow> coordinatorNode" where
  "coord_scheduleRequestTimeout s =
     s\<lparr>cancelRequestTimeout := Some \<lparr>tm_due = now (txs s) + coordRequestTimeout s, tm_fired = False\<rparr>\<rparr>"

definition coord_scheduleStateTimeout :: "coordinatorNode \<Rightarrow> coordinatorNode" where
  "coord_scheduleStateTimeout s =
     s\<lparr>cancelStateTimeout := Some \<lparr>tm_due = now (txs s) + coordStateTimeout s, tm_fired = False\<rparr>\<rparr>"

definition coord_clearTimeoutSchedules :: "coordinatorNode \<Rightarrow> coordinatorNode" where
  "coord_clearTimeoutSchedules s =
     s\<lparr>cancelRequestTimeout := None, cancelStateTimeout := None, pendingHandoverRequest := None\<rparr>"

text \<open>The request is sent to whoever is the active coordinator when it is nudged.\<close>

definition nudgeHandover :: "unit IdempotentRequest \<Rightarrow> coordinatorNode \<Rightarrow> nodeResult" where
  "nudgeHandover r s =
     (case Nudge (\<lambda>_ _. transportSend (currentActiveCoordinator s) CoordinatorHandoverRequest) r (txs s) of
        (r1, Ok c) \<Rightarrow> Ok (s\<lparr>pendingHandoverRequest := Some r1, txs := c\<rparr>)
      | (r1, Fail e c) \<Rightarrow> Fail e (s\<lparr>pendingHandoverRequest := Some r1, txs := c\<rparr>)
      | (r1, Stuck) \<Rightarrow> Stuck)"

definition sendHandoverRequest :: "coordinatorNode \<Rightarrow> nodeResult" where
  "sendHandoverRequest s =
     (case pendingHandoverRequest s of
        Some r \<Rightarrow> nudgeHandover r s
      | None \<Rightarrow>
          (case NewIdempotentRequest (coordRequestTimeout s) () (txs s) of
             (r, c) \<Rightarrow> nudgeHandover r (coord_scheduleRequestTimeout (s\<lparr>txs := c, pendingHandoverRequest := Some r\<rparr>))))"

definition nudgeHandoverRequest :: "coordinatorNode \<Rightarrow> nodeResult" where
  "nudgeHandoverRequest s =
     (case pendingHandoverRequest s of
        None \<Rightarrow> Fail (MsgSequencerInternalError ''nudgeHandoverRequest called with no pending request'') s
      | Some r \<Rightarrow> nudgeHandover r s)"

definition action_SendHandoverRequest :: "CoordinatorEvent \<Rightarrow> coordinatorNode \<Rightarrow> nodeResult" where
  "action_SendHandoverRequest ev s = sendHandoverRequest s"

definition action_NudgeHandoverRequest :: "CoordinatorEvent \<Rightarrow> coordinatorNode \<Rightarrow> nodeResult" where
  "action_NudgeHandoverRequest ev s = nudgeHandoverRequest s"

definition coord_action_ScheduleStateTimeout :: "CoordinatorEvent \<Rightarrow> coordinatorNode \<Rightarrow> nodeResult" where
  "coord_action_ScheduleStateTimeout ev s = Ok (coord_scheduleStateTimeout s)"

definition action_ClearTimeoutSchedules :: "CoordinatorEvent \<Rightarrow> coordinatorNode \<Rightarrow> nodeResult" where
  "action_ClearTimeoutSchedules ev s = Ok (coord_clearTimeoutSchedules s)"

section \<open>Heartbeats received\<close>

text \<open>Reading a field of a snapshot that is nil is a panic.\<close>

definition validator_HeartBeatState ::
  "CoordinatorState list \<Rightarrow> CoordinatorEvent \<Rightarrow> coordinatorNode \<Rightarrow> coordError + bool" where
  "validator_HeartBeatState states ev s =
     (case ev of
        HeartbeatReceivedEvent from (Some snap) \<Rightarrow> Inr (cs_CoordinatorState snap \<in> set states)
      | _ \<Rightarrow> Inl goPanic)"

definition validator_IsHeartbeatSenderLive :: "CoordinatorEvent \<Rightarrow> coordinatorNode \<Rightarrow> coordError + bool" where
  "validator_IsHeartbeatSenderLive = validator_HeartBeatState
     [CoordinatorState_Elect, CoordinatorState_Prepared, CoordinatorState_Active, CoordinatorState_Active_Flush]"

definition validator_IsHeartbeatFromHigherPriorityCoordinator ::
  "CoordinatorEvent \<Rightarrow> coordinatorNode \<Rightarrow> coordError + bool" where
  "validator_IsHeartbeatFromHigherPriorityCoordinator ev s =
     (case ev of
        HeartbeatReceivedEvent from _ \<Rightarrow>
          Inr (IsHigherPriority (coordinatorPriorityList (txs s)) from (nodeName_of s))
      | _ \<Rightarrow> Inl goPanic)"

definition validator_IsHeartbeatFromCurrentActiveCoordinator ::
  "CoordinatorEvent \<Rightarrow> coordinatorNode \<Rightarrow> coordError + bool" where
  "validator_IsHeartbeatFromCurrentActiveCoordinator ev s =
     (case ev of
        HeartbeatReceivedEvent from _ \<Rightarrow> Inr (currentActiveCoordinator s = from)
      | _ \<Rightarrow> Inl goPanic)"

definition validator_IsHandoverRequestFromHigherPriorityCoordinator ::
  "CoordinatorEvent \<Rightarrow> coordinatorNode \<Rightarrow> coordError + bool" where
  "validator_IsHandoverRequestFromHigherPriorityCoordinator ev s =
     (case ev of
        HandoverRequestEvent from \<Rightarrow>
          Inr (IsHigherPriority (coordinatorPriorityList (txs s)) from (nodeName_of s))
      | _ \<Rightarrow> Inl goPanic)"

definition action_AddEndorsersFromSnapshot :: "CoordinatorEvent \<Rightarrow> coordinatorNode \<Rightarrow> nodeResult" where
  "action_AddEndorsersFromSnapshot ev s =
     (case ev of
        HeartbeatReceivedEvent from (Some snap) \<Rightarrow>
          Ok (updTxs (updateEndorserCandidates (cs_EndorserCandidates snap)) s)
      | _ \<Rightarrow> Stuck)"

definition action_UpdateActiveCoordinator :: "CoordinatorEvent \<Rightarrow> coordinatorNode \<Rightarrow> nodeResult" where
  "action_UpdateActiveCoordinator ev s =
     (case ev of
        HeartbeatReceivedEvent from _ \<Rightarrow> Ok (s\<lparr>currentActiveCoordinator := from\<rparr>)
      | HandoverRequestEvent from \<Rightarrow> Ok (s\<lparr>currentActiveCoordinator := from\<rparr>)
      | _ \<Rightarrow> Ok s)"

definition action_SetSelfAsActiveCoordinator :: "CoordinatorEvent \<Rightarrow> coordinatorNode \<Rightarrow> nodeResult" where
  "action_SetSelfAsActiveCoordinator ev s = Ok (s\<lparr>currentActiveCoordinator := nodeName_of s\<rparr>)"

definition action_ResetHeartbeatIntervalsSinceLastReceive :: "CoordinatorEvent \<Rightarrow> coordinatorNode \<Rightarrow> nodeResult" where
  "action_ResetHeartbeatIntervalsSinceLastReceive ev s = Ok (s\<lparr>heartbeatIntervalsSinceLastReceive := 0\<rparr>)"

definition action_IncrementHeartbeatIntervalCounts :: "CoordinatorEvent \<Rightarrow> coordinatorNode \<Rightarrow> nodeResult" where
  "action_IncrementHeartbeatIntervalCounts ev s =
     Ok (s\<lparr>heartbeatIntervalsSinceLastReceive := heartbeatIntervalsSinceLastReceive s + 1,
          coordIntervalsSinceStateChange := coordIntervalsSinceStateChange s + 1\<rparr>)"

definition coord_action_IncrementHeartbeatIntervalsSinceStateChange ::
  "CoordinatorEvent \<Rightarrow> coordinatorNode \<Rightarrow> nodeResult" where
  "coord_action_IncrementHeartbeatIntervalsSinceStateChange ev s =
     Ok (s\<lparr>coordIntervalsSinceStateChange := coordIntervalsSinceStateChange s + 1\<rparr>)"

text \<open>The transactions the outgoing coordinator reports as confirmed are dropped here.\<close>

fun snapshotID :: "TxSnapshot \<Rightarrow> uuid" where
  "snapshotID (SnapshotPooled i) = i"
| "snapshotID (SnapshotDispatched i _) = i"
| "snapshotID (SnapshotConfirmed i _ _ _) = i"
| "snapshotID (SnapshotReverted i _) = i"

definition action_ProcessConfirmedTransactionsFromSnapshot :: "CoordinatorEvent \<Rightarrow> coordinatorNode \<Rightarrow> nodeResult" where
  "action_ProcessConfirmedTransactionsFromSnapshot ev s =
     (case ev of
        HeartbeatReceivedEvent from None \<Rightarrow> Ok s
      | HeartbeatReceivedEvent from (Some snap) \<Rightarrow>
          Ok (fold (\<lambda>x. cleanUpTransaction (snapshotID x)) (cs_ConfirmedTransactions snap) s)
      | _ \<Rightarrow> Stuck)"

definition dropUnlabelledHandoverStates :: "StateSnapshot \<Rightarrow> StateSnapshot" where
  "dropUnlabelledHandoverStates snap = snap\<lparr>sn_States := filter (\<lambda>x. ss_Labels x \<noteq> None) (sn_States snap)\<rparr>"

definition action_ImportStatesAndLocks :: "CoordinatorEvent \<Rightarrow> coordinatorNode \<Rightarrow> nodeResult" where
  "action_ImportStatesAndLocks ev s =
     (case ev of
        HeartbeatReceivedEvent from None \<Rightarrow> Ok s
      | HeartbeatReceivedEvent from (Some snap) \<Rightarrow>
          Ok (case cs_StateSnapshot snap of
                None \<Rightarrow> s
              | Some st \<Rightarrow>
                  if length (sn_Locks st) > 0 \<or> length (sn_States st) > 0
                  then updTxs (updGrapher (ImportStatesAndLocks (dropUnlabelledHandoverStates st))) s
                  else s)
      | _ \<Rightarrow> Stuck)"

section \<open>Heartbeats sent (snapshot.go)\<close>

definition getSnapshot :: "coordinatorNode \<Rightarrow> CoordinatorSnapshot" where
  "getSnapshot s =
     (let snaps = map the (filter (\<lambda>x. x \<noteq> None) (map (\<lambda>t. GetSnapshot (txn t (txs s))) (transactionIDs s))) in
      \<lparr>cs_DispatchedTransactions = filter (\<lambda>x. case x of SnapshotDispatched _ _ \<Rightarrow> True | _ \<Rightarrow> False) snaps,
       cs_PooledTransactions = filter (\<lambda>x. case x of SnapshotPooled _ \<Rightarrow> True | _ \<Rightarrow> False) snaps,
       cs_ConfirmedTransactions = filter (\<lambda>x. case x of SnapshotConfirmed _ _ _ _ \<Rightarrow> True | _ \<Rightarrow> False) snaps,
       cs_RevertedTransactions = filter (\<lambda>x. case x of SnapshotReverted _ _ \<Rightarrow> True | _ \<Rightarrow> False) snaps,
       cs_CoordinatorState = coordState s,
       cs_BlockHeight = word_of_int (currentBlockHeight (txs s)),
       cs_EndorserCandidates = endorserCandidates (txs s),
       cs_StateSnapshot = None\<rparr>)"

text \<open>Every node is tried; the last error is returned.\<close>

fun heartbeatLoop :: "CoordinatorSnapshot \<Rightarrow> bool \<Rightarrow> string list \<Rightarrow> coordError option \<Rightarrow> coordinatorNode \<Rightarrow> nodeResult" where
  "heartbeatLoop snap includeLocks [] err s = (case err of None \<Rightarrow> Ok s | Some e \<Rightarrow> Fail e s)"
| "heartbeatLoop snap includeLocks (node # nodes) err s =
     (let msg = CoordinatorHeartbeatNotification
                  (if includeLocks
                   then snap\<lparr>cs_StateSnapshot := Some (ExportStatesAndLocks node (coordGrapher (txs s)))\<rparr>
                   else snap)
      in case nodeSend node msg s of
           Ok s1 \<Rightarrow> heartbeatLoop snap includeLocks nodes err s1
         | Fail e s1 \<Rightarrow> heartbeatLoop snap includeLocks nodes (Some e) s1
         | Stuck \<Rightarrow> Stuck)"

definition sendHeartbeat :: "bool \<Rightarrow> coordinatorNode \<Rightarrow> nodeResult" where
  "sendHeartbeat includeLocks s =
     heartbeatLoop (getSnapshot s) includeLocks
       (if coordinatorSelection (txs s) = COORDINATOR_ENDORSER then endorserCandidates (txs s)
        else go_keys (originatorActivity s)) None s"

definition action_SendHeartbeat :: "CoordinatorEvent \<Rightarrow> coordinatorNode \<Rightarrow> nodeResult" where
  "action_SendHeartbeat ev s = sendHeartbeat False s"

definition action_SendHeartbeatWithLocks :: "CoordinatorEvent \<Rightarrow> coordinatorNode \<Rightarrow> nodeResult" where
  "action_SendHeartbeatWithLocks ev s = sendHeartbeat True s"

definition updateOriginatorActivity :: "coordinatorNode \<Rightarrow> coordinatorNode" where
  "updateOriginatorActivity s =
     (let activeNodes = map (\<lambda>t. originatorNode (txn t (txs s))) (transactionIDs s);
          counted = map (\<lambda>(node, count). (node, if node \<in> set activeNodes then 0 else count + 1)) (originatorActivity s)
      in s\<lparr>originatorActivity := go_del_where (\<lambda>node count. count > inactiveGracePeriod s) counted\<rparr>)"

definition action_UpdateOriginatorActivity :: "CoordinatorEvent \<Rightarrow> coordinatorNode \<Rightarrow> nodeResult" where
  "action_UpdateOriginatorActivity ev s =
     Ok (if coordinatorSelection (txs s) = COORDINATOR_ENDORSER then s else updateOriginatorActivity s)"

definition action_PropagateHeartbeatIntervalToTransactions :: "CoordinatorEvent \<Rightarrow> coordinatorNode \<Rightarrow> nodeResult" where
  "action_PropagateHeartbeatIntervalToTransactions ev s = propagateEventToAllTransactions HeartbeatIntervalEvent s"

section \<open>Block height, priorities and the signing identity\<close>

definition coord_action_RefreshBlockHeight :: "CoordinatorEvent \<Rightarrow> coordinatorNode \<Rightarrow> nodeResult" where
  "coord_action_RefreshBlockHeight ev s = Ok (updTxs refreshBlockHeight s)"

definition action_CalculateCoordinatorPriorities :: "CoordinatorEvent \<Rightarrow> coordinatorNode \<Rightarrow> nodeResult" where
  "action_CalculateCoordinatorPriorities ev s = Ok (updTxs calculateCoordinatorPriorities s)"

definition action_NewSigningIdentity :: "CoordinatorEvent \<Rightarrow> coordinatorNode \<Rightarrow> nodeResult" where
  "action_NewSigningIdentity ev s =
     Ok (updTxs (\<lambda>c. case newUUID c of
           (u, c1) \<Rightarrow> c1\<lparr>signingIdentity := ''domains.'' @ contractAddress s @ ''.submit.'' @ env_uuidString (env c) u,
                        signingIdentityUsed := False\<rparr>) s)"

section \<open>Delegation (coordinating.go, inactive.go)\<close>

definition recordOriginatorActivity :: "string \<Rightarrow> coordinatorNode \<Rightarrow> coordinatorNode" where
  "recordOriginatorActivity node s =
     (if coordinatorSelection (txs s) = COORDINATOR_ENDORSER then s
      else s\<lparr>originatorActivity := go_set node 0 (originatorActivity s)\<rparr>)"

text \<open>The absolute difference of two block heights, in 64 bit arithmetic.\<close>

definition heightDiff :: "uint64 \<Rightarrow> uint64 \<Rightarrow> uint64" where
  "heightDiff a b = max a b - min a b"

definition validator_IsDelegationBlockHeightToleranceExceeded ::
  "CoordinatorEvent \<Rightarrow> coordinatorNode \<Rightarrow> coordError + bool" where
  "validator_IsDelegationBlockHeightToleranceExceeded ev s =
     (case ev of
        TransactionsDelegatedEvent from orig txns oh d \<Rightarrow>
          Inr (heightDiff (word_of_int (currentBlockHeight (txs s))) oh > coordBlockHeightTolerance s)
      | _ \<Rightarrow> Inl goPanic)"

definition action_RejectDelegationRequestBlockHeight :: "CoordinatorEvent \<Rightarrow> coordinatorNode \<Rightarrow> nodeResult" where
  "action_RejectDelegationRequestBlockHeight ev s =
     (case ev of
        TransactionsDelegatedEvent from orig txns oh d \<Rightarrow>
          nodeSend from (DelegationRejectionMsg \<lparr>dj_DelegationId = d, dj_DelegateNodeId = from, dj_ActiveCoordinator = [],
             dj_RejectionReason = BLOCK_HEIGHT_TOLERANCE, dj_OriginatorBlockHeight = sint oh,
             dj_CoordinatorBlockHeight = currentBlockHeight (txs s),
             dj_BlockHeightTolerance = sint (coordBlockHeightTolerance s)\<rparr>)
            (recordOriginatorActivity from s)
      | _ \<Rightarrow> Stuck)"

definition action_RejectDelegationRequest :: "CoordinatorEvent \<Rightarrow> coordinatorNode \<Rightarrow> nodeResult" where
  "action_RejectDelegationRequest ev s =
     (case ev of
        TransactionsDelegatedEvent from orig txns oh d \<Rightarrow>
          nodeSend from (DelegationRejectionMsg \<lparr>dj_DelegationId = d, dj_DelegateNodeId = from,
             dj_ActiveCoordinator = currentActiveCoordinator s,
             dj_RejectionReason = NOT_CURRENT_DELEGATE, dj_OriginatorBlockHeight = sint oh,
             dj_CoordinatorBlockHeight = currentBlockHeight (txs s), dj_BlockHeightTolerance = 0\<rparr>)
            (recordOriginatorActivity from s)
      | _ \<Rightarrow> Stuck)"

text \<open>
  A new transaction: the chained dependencies that are still known are recorded, those not yet
  assembled as such, before the struct is built.
\<close>

fun addChainedDependencies :: "uuid \<Rightarrow> string list \<Rightarrow> coordinator \<Rightarrow> coordinator" where
  "addChainedDependencies t [] c = c"
| "addChainedDependencies t (depIDStr # rest) c =
     (case env_parseUUID (env c) depIDStr of
        None \<Rightarrow> addChainedDependencies t rest c
      | Some depID \<Rightarrow>
          (case getCoordinatorTransactionState depID c of
             None \<Rightarrow> addChainedDependencies t rest c
           | Some state \<Rightarrow>
               (let c1 = updChainedDeps (\<lambda>cd. cd\<lparr>cd_chain := AddPrerequisites t [depID] (cd_chain cd)\<rparr>) c;
                    c2 = (if state \<in> {State_Initial, State_PreAssembly_Blocked, State_Pooled}
                          then updChainedDeps (AddUnassembledDependencies t [depID]) c1 else c1)
                in addChainedDependencies t rest c2)))"

definition newTransaction :: "string \<Rightarrow> string \<Rightarrow> PrivateTransaction \<Rightarrow> coordinatorNode
    \<Rightarrow> coordinatorTransaction \<times> coordinatorNode" where
  "newTransaction orig origNode tx s =
     (\<lparr>pt = tx, currentState = State_Initial, txLocked = False, stateEntryTime = 0, originator = orig,
       originatorNode = origNode, nodeName = nodeName_of s, domainSigningIdentity = domainFixedSigningIdentity s,
       submitterSelection = contractSubmitterSelection s, signerAddress = None, latestSubmissionHash = None,
       nonce = None, revertReason = [], decodedRevertReason = [], revertOnChain = None, revertCount = 0,
       lastCanRetryRevert = False, assembleErrorCount = 0, signErrorCount = 0, endorseToleranceByRequirement = [],
       endorseFailureCountByRequirement = (\<lambda>_. 0), endorseRevertCountByRequirement = (\<lambda>_. 0),
       endorseRevertReasons = [], heartbeatIntervalsSinceStateChange = 0, pendingAssembleRequest = None,
       assembleRequestID = uuid_Nil, cancelRequestTimeoutSchedule = None, cancelStateTimeoutSchedule = None,
       pendingEndorsementRequests = None, pendingPreDispatchRequest = None, inFlightPrepareID = uuid_Nil,
       cancelPrepare = False, tx_blockHeightTolerance = coordBlockHeightTolerance s,
       requestTimeout = coordRequestTimeout s, stateTimeout = coordStateTimeout s,
       finalizingGracePeriod = closingGracePeriod s,
       baseLedgerRevertRetryThreshold = coordBaseLedgerRevertRetryThreshold s,
       assembleErrorRetryThreshhold = coordAssembleErrorRetryThreshhold s,
       signErrorRetryThreshhold = coordSignErrorRetryThreshhold s\<rparr>,
      updTxs (addChainedDependencies (pt_ID tx) (pt_ChainedDependsOn tx)) s)"

record delegation =
  dl_acks :: "(uuid \<times> DelegationAcknowledgementError) list"
  dl_previous :: "uuid option"
  dl_error :: "coordError option"
  dl_rejectedMaxInFlight :: nat

text \<open>The pre-assembly dependency on the previous transaction of the same request.\<close>

definition chainToPrevious :: "uuid \<Rightarrow> uuid option \<Rightarrow> coordinatorNode \<Rightarrow> coordinatorNode" where
  "chainToPrevious t previous s =
     (case previous of
        None \<Rightarrow> s
      | Some p \<Rightarrow>
          if txState s p \<in> {State_Initial, State_PreAssembly_Blocked, State_Pooled}
          then updTxs (updPreassemblyDeps (AddPrerequisite t p)) s else s)"

definition storeTransaction :: "uuid \<Rightarrow> coordinatorTransaction \<Rightarrow> coordinatorNode \<Rightarrow> coordinatorNode" where
  "storeTransaction t x s =
     (updTxs (\<lambda>c. c\<lparr>transactionsByID := (transactionsByID c)(t \<mapsto> x)\<rparr>) s)
       \<lparr>transactionIDs := List.insert t (transactionIDs s)\<rparr>"

definition dropTransaction :: "uuid \<Rightarrow> coordinatorNode \<Rightarrow> coordinatorNode" where
  "dropTransaction t s =
     (updTxs (\<lambda>c. c\<lparr>transactionsByID := (transactionsByID c)(t := None)\<rparr>) s)
       \<lparr>transactionIDs := removeAll t (transactionIDs s)\<rparr>"

text \<open>One round of the loop of \<open>addToDelegatedTransactions\<close>; \<open>None\<close> if handling the event does not return.\<close>

definition delegateOne :: "string \<Rightarrow> string \<Rightarrow> PrivateTransaction \<Rightarrow> delegation \<Rightarrow> coordinatorNode
    \<Rightarrow> (delegation \<times> coordinatorNode) option" where
  "delegateOne orig origNode tx d s =
     (let t = pt_ID tx; ack = (\<lambda>e. d\<lparr>dl_acks := dl_acks d @ [(t, e)]\<rparr>) in
      if dl_error d \<noteq> None then Some (ack DelegationAcknowledgementError_PreviousTransactionError, s)
      else if transactionsByID (txs s) t \<noteq> None
      then Some ((ack DelegationAcknowledgementError_None)\<lparr>dl_previous := Some t\<rparr>, s)
      else if int (length (transactionIDs s)) \<ge> maxInflightTransactions s
      then Some ((ack DelegationAcknowledgementError_MaxInflightTransactions)
                   \<lparr>dl_rejectedMaxInFlight := Suc (dl_rejectedMaxInFlight d)\<rparr>, s)
      else
        (case newTransaction orig origNode tx (chainToPrevious t (dl_previous d) s) of
           (x, s1) \<Rightarrow>
             (case txHandleEvent t DelegatedEvent (storeTransaction t x s1) of
                Ok s2 \<Rightarrow> Some ((ack DelegationAcknowledgementError_None)\<lparr>dl_previous := Some t\<rparr>, s2)
              | Fail e s2 \<Rightarrow> Some ((ack DelegationAcknowledgementError_CoordinatorError)\<lparr>dl_error := Some e\<rparr>,
                                  dropTransaction t s2)
              | Stuck \<Rightarrow> None)))"

fun delegateLoop :: "string \<Rightarrow> string \<Rightarrow> PrivateTransaction list \<Rightarrow> delegation \<Rightarrow> coordinatorNode
    \<Rightarrow> (delegation \<times> coordinatorNode) option" where
  "delegateLoop orig origNode [] d s = Some (d, s)"
| "delegateLoop orig origNode (tx # rest) d s =
     (case delegateOne orig origNode tx d s of
        None \<Rightarrow> None
      | Some (d1, s1) \<Rightarrow> delegateLoop orig origNode rest d1 s1)"

definition addToDelegatedTransactions ::
  "string \<Rightarrow> PrivateTransaction list \<Rightarrow> string \<Rightarrow> coordinatorNode \<Rightarrow> nodeResult" where
  "addToDelegatedTransactions orig transactions delegationID s =
     (case Validate orig [] False of
        Inl e \<Rightarrow> Fail (LocatorError e) s
      | Inr (identity, origNode) \<Rightarrow>
          (case delegateLoop orig origNode transactions
                  \<lparr>dl_acks = [], dl_previous = None, dl_error = None, dl_rejectedMaxInFlight = 0\<rparr> s of
             None \<Rightarrow> Stuck
           | Some (d, s1) \<Rightarrow>
               and_then (nodeSend origNode
                   (DelegationResponse delegationID (map fst (dl_acks d)) origNode (map snd (dl_acks d))) s1)
                 (\<lambda>s2. if dl_rejectedMaxInFlight d > 0 then Fail MsgSequencerMaxInflightTransactions s2
                       else case dl_error d of Some e \<Rightarrow> Fail e s2 | None \<Rightarrow> Ok s2)))"

definition action_ProcessDelegatedTransactions :: "CoordinatorEvent \<Rightarrow> coordinatorNode \<Rightarrow> nodeResult" where
  "action_ProcessDelegatedTransactions ev s =
     (case ev of
        TransactionsDelegatedEvent from orig txns oh d \<Rightarrow>
          addToDelegatedTransactions orig txns d (recordOriginatorActivity from s)
      | _ \<Rightarrow> Stuck)"


section \<open>Endorsement for other coordinators (endorsing.go)\<close>

definition validator_IsPrivateStateDataPendingForEndorsement ::
  "CoordinatorEvent \<Rightarrow> coordinatorNode \<Rightarrow> coordError + bool" where
  "validator_IsPrivateStateDataPendingForEndorsement ev s =
     (case ev of
        EndorsementRequestReceivedEvent e \<Rightarrow>
          (case ne_CheckPendingPrivateStateData (nodeEnv s) (now (txs s))
                  (er_CoordinatorBlockHeight e - er_BlockHeightTolerance e) of
             Inl err \<Rightarrow> Inl (MsgSequencerInternalError err)
           | Inr complete \<Rightarrow> Inr (\<not> complete))
      | _ \<Rightarrow> Inl goPanic)"

definition validator_IsEndorsementBlockHeightToleranceExceeded ::
  "CoordinatorEvent \<Rightarrow> coordinatorNode \<Rightarrow> coordError + bool" where
  "validator_IsEndorsementBlockHeightToleranceExceeded ev s =
     (case ev of
        EndorsementRequestReceivedEvent e \<Rightarrow>
          Inr (heightDiff (word_of_int (currentBlockHeight (txs s))) (word_of_int (er_CoordinatorBlockHeight e))
                 > coordBlockHeightTolerance s)
      | _ \<Rightarrow> Inl goPanic)"

definition validator_IsEndorsementRequestFromHigherPriorityCoordinator ::
  "CoordinatorEvent \<Rightarrow> coordinatorNode \<Rightarrow> coordError + bool" where
  "validator_IsEndorsementRequestFromHigherPriorityCoordinator ev s =
     (case ev of
        EndorsementRequestReceivedEvent e \<Rightarrow>
          Inr (IsHigherPriority (coordinatorPriorityList (txs s)) (er_FromNode e) (nodeName_of s))
      | _ \<Rightarrow> Inl goPanic)"

definition validator_IsEndorsementRequestFromSelf :: "CoordinatorEvent \<Rightarrow> coordinatorNode \<Rightarrow> coordError + bool" where
  "validator_IsEndorsementRequestFromSelf ev s =
     (case ev of EndorsementRequestReceivedEvent e \<Rightarrow> Inr (er_FromNode e = nodeName_of s) | _ \<Rightarrow> Inl goPanic)"

definition endorsementRejection :: "EndorsementRequestReceived \<Rightarrow> RejectionReason \<Rightarrow> EndorsementRejection" where
  "endorsementRejection e reason =
     \<lparr>ej_TransactionId = er_TransactionId e, ej_IdempotencyKey = er_IdempotencyKey e,
      ej_AttestationRequestName = ar_Name (er_AttestationRequest e), ej_Party = er_Party e,
      ej_RejectionReason = reason, ej_CoordinatorBlockHeight = 0, ej_EndorserBlockHeight = 0,
      ej_BlockHeightTolerance = 0\<rparr>"

definition action_RejectEndorsementPrivateStateDataPending :: "CoordinatorEvent \<Rightarrow> coordinatorNode \<Rightarrow> nodeResult" where
  "action_RejectEndorsementPrivateStateDataPending ev s =
     (case ev of
        EndorsementRequestReceivedEvent e \<Rightarrow>
          nodeSend (er_FromNode e) (EndorsementRejectionMsg ((endorsementRejection e PRIVATE_STATE_DATA_PENDING)
             \<lparr>ej_CoordinatorBlockHeight := er_CoordinatorBlockHeight e,
              ej_EndorserBlockHeight := currentBlockHeight (txs s),
              ej_BlockHeightTolerance := er_BlockHeightTolerance e\<rparr>)) s
      | _ \<Rightarrow> Stuck)"

definition action_RejectEndorsementBlockHeight :: "CoordinatorEvent \<Rightarrow> coordinatorNode \<Rightarrow> nodeResult" where
  "action_RejectEndorsementBlockHeight ev s =
     (case ev of
        EndorsementRequestReceivedEvent e \<Rightarrow>
          nodeSend (er_FromNode e) (EndorsementRejectionMsg ((endorsementRejection e BLOCK_HEIGHT_TOLERANCE)
             \<lparr>ej_CoordinatorBlockHeight := er_CoordinatorBlockHeight e,
              ej_EndorserBlockHeight := currentBlockHeight (txs s),
              ej_BlockHeightTolerance := sint (coordBlockHeightTolerance s)\<rparr>)) s
      | _ \<Rightarrow> Stuck)"

definition action_RejectEndorsementEndorserIsActiveCoordinator ::
  "CoordinatorEvent \<Rightarrow> coordinatorNode \<Rightarrow> nodeResult" where
  "action_RejectEndorsementEndorserIsActiveCoordinator ev s =
     (case ev of
        EndorsementRequestReceivedEvent e \<Rightarrow>
          nodeSend (er_FromNode e) (EndorsementRejectionMsg (endorsementRejection e ENDORSER_IS_ACTIVE_COORDINATOR)) s
      | _ \<Rightarrow> Stuck)"

definition action_UpdateActiveCoordinatorFromEndorsementRequest ::
  "CoordinatorEvent \<Rightarrow> coordinatorNode \<Rightarrow> nodeResult" where
  "action_UpdateActiveCoordinatorFromEndorsementRequest ev s =
     (case ev of
        EndorsementRequestReceivedEvent e \<Rightarrow> Ok (s\<lparr>currentActiveCoordinator := er_FromNode e\<rparr>)
      | _ \<Rightarrow> Stuck)"

definition action_AddEndorsementRequestSenderToEndorserCandidates ::
  "CoordinatorEvent \<Rightarrow> coordinatorNode \<Rightarrow> nodeResult" where
  "action_AddEndorsementRequestSenderToEndorserCandidates ev s =
     (case ev of
        EndorsementRequestReceivedEvent e \<Rightarrow> Ok (updTxs (updateEndorserCandidates [er_FromNode e]) s)
      | _ \<Rightarrow> Stuck)"

definition beginEndorsement :: "string \<Rightarrow> coordinatorNode \<Rightarrow> bool \<times> coordinatorNode" where
  "beginEndorsement idempotencyKey s =
     (if idempotencyKey \<in> set (inFlightEndorsements s) then (False, s)
      else (True, s\<lparr>inFlightEndorsements := idempotencyKey # inFlightEndorsements s\<rparr>))"

definition endEndorsement :: "string \<Rightarrow> coordinatorNode \<Rightarrow> coordinatorNode" where
  "endEndorsement idempotencyKey s =
     s\<lparr>inFlightEndorsements := removeAll idempotencyKey (inFlightEndorsements s)\<rparr>"

definition action_HandleEndorsementRequest :: "CoordinatorEvent \<Rightarrow> coordinatorNode \<Rightarrow> nodeResult" where
  "action_HandleEndorsementRequest ev s =
     (case ev of
        EndorsementRequestReceivedEvent e \<Rightarrow>
          if er_IdempotencyKey e = [] then Ok s
          else (case beginEndorsement (er_IdempotencyKey e) s of
                  (False, s1) \<Rightarrow> Ok s1
                | (True, s1) \<Rightarrow> Ok (s1\<lparr>endorsementsStarted := endorsementsStarted s1 @ [e]\<rparr>))
      | _ \<Rightarrow> Stuck)"

text \<open>
  One attempt of the background goroutine. An error comes with whether another attempt is worth while;
  \<open>n\<close> numbers the attempt, since the key manager and the domain may answer each one differently.
\<close>

definition endorse :: "EndorsementRequestReceived \<Rightarrow> coordinatorNode \<Rightarrow> nat \<Rightarrow> (bool \<times> string) + EndorsementResponse" where
  "endorse e s n =
     (let ar = er_AttestationRequest e;
          key = (\<lambda>lookup. ne_ResolveKey (nodeEnv s) n lookup (ar_Algorithm ar) (ar_VerifierType ar));
          answer = (\<lambda>result payload constraints reason. Inr
            \<lparr>es_Endorsement = \<lparr>at_Name = ar_Name ar, at_AttestationType = ar_AttestationType ar,
               at_Verifier = Some (en_Endorser result), at_Payload = payload, at_Constraints = constraints\<rparr>,
             es_TransactionId = er_TransactionId e, es_IdempotencyKey = er_IdempotencyKey e,
             es_AttestationRequestName = ar_Name ar, es_Party = er_Party e,
             es_RevertReason = (if reason = [] then None else Some reason)\<rparr>)
      in case Validate (er_Party e) [] True of
           Inl _ \<Rightarrow> Inl (False, ''invalid party'')
         | Inr (unqualifiedLookup, _) \<Rightarrow>
             (case key unqualifiedLookup of
                Inl err \<Rightarrow> Inl (True, err)
              | Inr verifier \<Rightarrow>
                  (case ne_EndorseTransaction (nodeEnv s) n (er_PrivateEndorsementRequest e)
                          \<lparr>rv_Lookup = er_Party e, rv_Algorithm = ar_Algorithm ar,
                           rv_VerifierType = ar_VerifierType ar, rv_Verifier = verifier\<rparr> of
                     Inl err \<Rightarrow> Inl (True, err)
                   | Inr result \<Rightarrow>
                       (case en_Result result of
                          ENDORSE_REVERT \<Rightarrow> answer result [] []
                            (case en_RevertReason result of None \<Rightarrow> ''(no revert reason)'' | Some r \<Rightarrow> r)
                        | ENDORSE_ENDORSER_SUBMIT \<Rightarrow> answer result [] [ENDORSER_MUST_SUBMIT] []
                        | ENDORSE_SIGN \<Rightarrow>
                            (case Validate (rv_Lookup (en_Endorser result)) (nodeName_of s) True of
                               Inl _ \<Rightarrow> Inl (False, ''invalid endorser'')
                             | Inr (signerLookup, signerNode) \<Rightarrow>
                                 if signerNode \<noteq> nodeName_of s then answer result [] [] []
                                 else (case key signerLookup of
                                         Inl err \<Rightarrow> Inl (True, err)
                                       | Inr resolvedKey \<Rightarrow>
                                           (case ne_Sign (nodeEnv s) n resolvedKey (ar_PayloadType ar) (en_Payload result) of
                                              Inl err \<Rightarrow> Inl (True, err)
                                            | Inr signature \<Rightarrow> answer result signature [] [])))))))"

text \<open>
  The goroutine: attempts up to the limit, exactly one reply, and the key released. Errors of sending
  the reply are logged. \<open>cancelled\<close> is the request's deadline seen by the waits.
\<close>

definition handleEndorsementRequest ::
  "(nat \<Rightarrow> bool) \<Rightarrow> EndorsementRequestReceived \<Rightarrow> coordinatorNode \<Rightarrow> nodeResult" where
  "handleEndorsementRequest cancelled e s =
     (case Retry_Do (endorseErrorRetry s) cancelled (endorse e s) of
        None \<Rightarrow> Stuck
      | Some (Inl err) \<Rightarrow>
          log_error (nodeSend (er_FromNode e) (EndorsementError (er_TransactionId e) (er_IdempotencyKey e)
            (case err of AttemptError m \<Rightarrow> m | MsgContextCanceled \<Rightarrow> ''context canceled'')
            (er_Party e) (ar_Name (er_AttestationRequest e))) s)
      | Some (Inr response) \<Rightarrow> log_error (nodeSend (er_FromNode e) (EndorsementResponseMsg response) s))"

definition endorsementGoroutine ::
  "(nat \<Rightarrow> bool) \<Rightarrow> EndorsementRequestReceived \<Rightarrow> coordinatorNode \<Rightarrow> nodeResult" where
  "endorsementGoroutine cancelled e s =
     outcome_map (\<lambda>s1. (endEndorsement (er_IdempotencyKey e) s1)\<lparr>endorsementsStarted := remove1 e (endorsementsStarted s1)\<rparr>)
       (handleEndorsementRequest cancelled e s)"

section \<open>The dispatch loop (dispatch\_loop.go)\<close>

definition dispatchReceive :: "coordinatorNode \<Rightarrow> coordinatorNode option" where
  "dispatchReceive s =
     (case (dispatchLoopPhase s, dispatchQueue (txs s)) of
        (LoopReceiving, qd # rest) \<Rightarrow>
          Some (updTxs (\<lambda>c. c\<lparr>dispatchQueue := rest\<rparr>) (s\<lparr>dispatchLoopPhase := LoopAwaitingCapacity qd\<rparr>))
      | _ \<Rightarrow> None)"

definition awaitDispatchAheadCapacity :: "coordinatorNode \<Rightarrow> int option" where
  "awaitDispatchAheadCapacity s =
     (if int (length (inFlightTxns (txs s))) \<ge> maxDispatchAhead s then None
      else Some (maxDispatchAhead s - int (length (inFlightTxns (txs s)))))"

definition pullDispatchBatch :: "queuedDispatch \<Rightarrow> int \<Rightarrow> queuedDispatch list \<Rightarrow> queuedDispatch list \<times> queuedDispatch list" where
  "pullDispatchBatch first capacity queue = (first # take (nat (capacity - 1)) queue, drop (nat (capacity - 1)) queue)"

definition dispatchPull :: "coordinatorNode \<Rightarrow> coordinatorNode option" where
  "dispatchPull s =
     (case (dispatchLoopPhase s, awaitDispatchAheadCapacity s) of
        (LoopAwaitingCapacity qd, Some capacity) \<Rightarrow>
          (case pullDispatchBatch qd (min capacity (dispatchMaxBatchSize s)) (dispatchQueue (txs s)) of
             (batch, rest) \<Rightarrow>
               Some (updTxs (\<lambda>c. c\<lparr>dispatchQueue := rest\<rparr>) (s\<lparr>dispatchLoopPhase := LoopBatch batch []\<rparr>)))
      | _ \<Rightarrow> None)"

text \<open>
  Handing one dispatch of the batch to its transaction. The dispatch is kept if the transaction is in
  \<open>State_Dispatched\<close> afterwards. A transaction the coordinator no longer knows has left its last state and
  ignores the event.
\<close>

definition handOverDispatch :: "queuedDispatch \<Rightarrow> coordinatorNode \<Rightarrow> nodeResult" where
  "handOverDispatch qd s =
     (case transactionsByID (txs s) (fst qd) of
        None \<Rightarrow> Ok s
      | Some _ \<Rightarrow> log_error (txHandleEvent (fst qd) (DispatchedEvent (td_PublicDispatches (pd_Dispatch (snd qd)) \<noteq> [])) s))"

definition isDispatched :: "uuid \<Rightarrow> coordinatorNode \<Rightarrow> bool" where
  "isDispatched t s \<longleftrightarrow> map_option currentState (transactionsByID (txs s) t) = Some State_Dispatched"

fun dispatchBatchLoop :: "queuedDispatch list \<Rightarrow> PendingDispatch list \<Rightarrow> coordinatorNode
    \<Rightarrow> (PendingDispatch list \<times> coordinatorNode) option" where
  "dispatchBatchLoop [] accepted s = Some (accepted, s)"
| "dispatchBatchLoop (qd # rest) accepted s =
     (case handOverDispatch qd s of
        Ok s1 \<Rightarrow> dispatchBatchLoop rest (if isDispatched (fst qd) s1 then accepted @ [snd qd] else accepted) s1
      | _ \<Rightarrow> None)"

text \<open>
  The commit of a batch, retried without limit until it succeeds or the loop is stopped, and the hand
  over of chained children after it: the children of a dispatch up to the first that is not accepted.
\<close>

definition handleChainedChildren :: "TransactionDispatch \<Rightarrow> coordinatorNode \<Rightarrow> coordinatorNode" where
  "handleChainedChildren dispatch s =
     s\<lparr>childrenSubmitted := childrenSubmitted s
         @ takeWhile (\<lambda>chained. \<not> ne_HandleNewTxFails (nodeEnv s) chained) (td_PrivateDispatches dispatch)\<rparr>"

definition commitBatch :: "PendingDispatch list \<Rightarrow> coordinatorNode \<Rightarrow> bool \<times> coordinatorNode" where
  "commitBatch accepted s =
     (if ne_commitFails (nodeEnv s) (commitsTried s) then (False, s\<lparr>commitsTried := Suc (commitsTried s)\<rparr>)
      else (True, fold (\<lambda>pd. handleChainedChildren (pd_Dispatch pd)) accepted
              (s\<lparr>commitsTried := Suc (commitsTried s), persistedBatches := persistedBatches s @ [accepted]\<rparr>)))"

text \<open>One step of the goroutine inside a batch: the next hand over, or an attempt to commit.\<close>

definition dispatchBatchStep :: "coordinatorNode \<Rightarrow> coordinatorNode option" where
  "dispatchBatchStep s =
     (case dispatchLoopPhase s of
        LoopBatch (qd # rest) accepted \<Rightarrow>
          (case dispatchBatchLoop [qd] accepted s of
             None \<Rightarrow> None
           | Some (accepted1, s1) \<Rightarrow> Some (s1\<lparr>dispatchLoopPhase := LoopBatch rest accepted1\<rparr>))
      | LoopBatch [] accepted \<Rightarrow>
          (case commitBatch accepted s of
             (True, s1) \<Rightarrow> Some (s1\<lparr>dispatchLoopPhase := LoopReceiving\<rparr>)
           | (False, s1) \<Rightarrow> Some s1)
      | _ \<Rightarrow> None)"

definition startDispatchLoop :: "coordinatorNode \<Rightarrow> coordinatorNode" where
  "startDispatchLoop s =
     (if \<not> started s \<or> dispatchLoopPhase s \<noteq> LoopStopped then s else s\<lparr>dispatchLoopPhase := LoopReceiving\<rparr>)"

text \<open>
  Stopping cancels the loop's context and waits for the goroutine. A loop that has found capacity works
  through its batch to the end and tries to commit it; a loop that is blocked waiting for capacity
  returns, and the dispatch it had received is dropped.
\<close>

definition finishBatch :: "queuedDispatch list \<Rightarrow> PendingDispatch list \<Rightarrow> coordinatorNode \<Rightarrow> nodeResult" where
  "finishBatch rest accepted s =
     (case dispatchBatchLoop rest accepted s of
        None \<Rightarrow> Stuck
      | Some (accepted1, s1) \<Rightarrow> Ok ((snd (commitBatch accepted1 s1))\<lparr>dispatchLoopPhase := LoopStopped\<rparr>))"

definition stopDispatchLoop :: "coordinatorNode \<Rightarrow> nodeResult" where
  "stopDispatchLoop s =
     (case dispatchPull s of
        Some s1 \<Rightarrow>
          (case dispatchLoopPhase s1 of LoopBatch rest accepted \<Rightarrow> finishBatch rest accepted s1 | _ \<Rightarrow> Stuck)
      | None \<Rightarrow>
          (case dispatchLoopPhase s of
             LoopBatch rest accepted \<Rightarrow> finishBatch rest accepted s
           | _ \<Rightarrow> Ok (s\<lparr>dispatchLoopPhase := LoopStopped\<rparr>)))"

definition action_StartDispatchLoop :: "CoordinatorEvent \<Rightarrow> coordinatorNode \<Rightarrow> nodeResult" where
  "action_StartDispatchLoop ev s = Ok (startDispatchLoop s)"

definition action_QueueRestartDispatchLoop :: "CoordinatorEvent \<Rightarrow> coordinatorNode \<Rightarrow> nodeResult" where
  "action_QueueRestartDispatchLoop ev s = Ok (queueEventInternal RestartDispatchLoopEvent s)"

definition action_StopDispatchLoop :: "CoordinatorEvent \<Rightarrow> coordinatorNode \<Rightarrow> nodeResult" where
  "action_StopDispatchLoop ev s = stopDispatchLoop s"

end
