(* ===== verification/CoordinatorMachine.thy ===== *)
theory CoordinatorMachine
  imports CoordinatorActions
begin

text \<open>
  The state table of the coordinator (\<^verbatim>\<open>coordinator/state_machine.go\<close>), the machine built from it, and how
  its loop processes one event: events for a transaction are passed on to it, heartbeats of the node
  itself are dropped, everything else goes to the machine.
\<close>

section \<open>Event types\<close>

datatype CoordinatorEventType = CEvent_HeartbeatInterval | CEvent_TransactionStateTransition | CEvent_HeartbeatReceived
  | CEvent_CoordinatorCreated | CEvent_TransactionsDelegated | CEvent_RequestTimeoutInterval
  | CEvent_StateTimeoutInterval | CEvent_HandoverRequest | CEvent_RestartDispatchLoop
  | CEvent_EndorsementRequestReceived | CEvent_EpochBoundaryReached | CEvent_Transaction

fun CoordinatorEvent_Type :: "CoordinatorEvent \<Rightarrow> CoordinatorEventType" where
  "CoordinatorEvent_Type (TxEvent _ _) = CEvent_Transaction"
| "CoordinatorEvent_Type (TransactionStateTransitionEvent _ _ _) = CEvent_TransactionStateTransition"
| "CoordinatorEvent_Type EpochBoundaryReachedEvent = CEvent_EpochBoundaryReached"
| "CoordinatorEvent_Type CoordinatorCreatedEvent = CEvent_CoordinatorCreated"
| "CoordinatorEvent_Type (TransactionsDelegatedEvent _ _ _ _ _) = CEvent_TransactionsDelegated"
| "CoordinatorEvent_Type CoordRequestTimeoutIntervalEvent = CEvent_RequestTimeoutInterval"
| "CoordinatorEvent_Type CoordStateTimeoutIntervalEvent = CEvent_StateTimeoutInterval"
| "CoordinatorEvent_Type (HandoverRequestEvent _) = CEvent_HandoverRequest"
| "CoordinatorEvent_Type RestartDispatchLoopEvent = CEvent_RestartDispatchLoop"
| "CoordinatorEvent_Type (EndorsementRequestReceivedEvent _) = CEvent_EndorsementRequestReceived"
| "CoordinatorEvent_Type (HeartbeatReceivedEvent _ _) = CEvent_HeartbeatReceived"
| "CoordinatorEvent_Type CoordHeartbeatIntervalEvent = CEvent_HeartbeatInterval"

section \<open>Building blocks of the table\<close>

type_synonym coordRule = "(CoordinatorEvent, coordinatorNode, coordError) ActionRule"
type_synonym coordHandler = "(CoordinatorState, CoordinatorEvent, coordinatorNode, coordError) EventHandler"
type_synonym coordHandlers = "(CoordinatorState, CoordinatorEvent, coordinatorNode, coordError) EventHandlers"
type_synonym coordTransition = "(CoordinatorState, CoordinatorEvent, coordinatorNode, coordError) Transition"
type_synonym coordStateDefinition =
  "(CoordinatorState, CoordinatorEventType, CoordinatorEvent, coordinatorNode, coordError) StateDefinition"

abbreviation coordStateDef :: "coordRule list \<Rightarrow> coordRule list \<Rightarrow> (CoordinatorEventType \<times> coordHandlers) list
    \<Rightarrow> coordStateDefinition" where
  "coordStateDef entry exit evs \<equiv> \<lparr>OnTransitionTo = entry, OnTransitionFrom = exit, Events = map_of evs\<rparr>"

text \<open>Handlers that the Go table repeats in several states.\<close>

abbreviation learnEndorsers :: coordHandler where
  "learnEndorsers \<equiv>
     handler [whenever guard_IsCoordinatorEndorserSelectionMode action_AddEndorsersFromSnapshot] []"

abbreviation endorsementAdmitted :: "(CoordinatorEvent, coordinatorNode, coordError) Validator list
    \<Rightarrow> (CoordinatorEvent, coordinatorNode, coordError) Validator" where
  "endorsementAdmitted vs \<equiv> ValidatorAnd
     ([ValidatorNot validator_IsEndorsementBlockHeightToleranceExceeded,
       ValidatorNot validator_IsPrivateStateDataPendingForEndorsement] @ vs)"

abbreviation endorsementPreamble :: "coordHandler list" where
  "endorsementPreamble \<equiv>
     [handler [always coord_action_RefreshBlockHeight] [],
      handler [whenever guard_IsCoordinatorEndorserSelectionMode
                 action_AddEndorsementRequestSenderToEndorserCandidates] [],
      handlerFor validator_IsEndorsementBlockHeightToleranceExceeded [always action_RejectEndorsementBlockHeight] [],
      handlerFor validator_IsPrivateStateDataPendingForEndorsement
        [always action_RejectEndorsementPrivateStateDataPending] []]"

abbreviation endorseForSender :: "coordTransition list \<Rightarrow> coordHandler" where
  "endorseForSender ts \<equiv>
     handlerFor (endorsementAdmitted [])
       [always action_UpdateActiveCoordinatorFromEndorsementRequest, always action_HandleEndorsementRequest] ts"

abbreviation endorseForSelf :: coordHandler where
  "endorseForSelf \<equiv>
     handlerFor (endorsementAdmitted [validator_IsEndorsementRequestFromSelf]) [always action_HandleEndorsementRequest] []"

abbreviation rejectAsActive :: "(CoordinatorEvent, coordinatorNode, coordError) Validator list \<Rightarrow> coordHandler" where
  "rejectAsActive vs \<equiv>
     handlerFor (endorsementAdmitted
         (ValidatorNot validator_IsEndorsementRequestFromHigherPriorityCoordinator # vs))
       [always action_RejectEndorsementEndorserIsActiveCoordinator,
        whenever guard_IsCoordinatorEndorserSelectionMode action_SendHeartbeat] []"

abbreviation delegationPreamble :: "coordHandler list" where
  "delegationPreamble \<equiv>
     [handler [always coord_action_RefreshBlockHeight] [],
      handlerFor validator_IsDelegationBlockHeightToleranceExceeded [always action_RejectDelegationRequestBlockHeight] []]"

abbreviation delegationAdmitted :: "coordRule list \<Rightarrow> coordTransition list \<Rightarrow> coordHandler" where
  "delegationAdmitted \<equiv> handlerFor (ValidatorNot validator_IsDelegationBlockHeightToleranceExceeded)"

abbreviation liveAndHigher :: "(CoordinatorEvent, coordinatorNode, coordError) Validator" where
  "liveAndHigher \<equiv> ValidatorAnd [validator_IsHeartbeatFromHigherPriorityCoordinator, validator_IsHeartbeatSenderLive]"

text \<open>Where a coordinator that was not active goes when it steps back.\<close>

abbreviation stepBack :: "coordTransition list" where
  "stepBack \<equiv>
     [goToIf CoordinatorState_Observing (GuardNot guard_HasTransactionsInflight) [],
      goToIf CoordinatorState_Closing_Flush
        (GuardAnd [guard_HasTransactionsInflight, guard_HasUnconfirmedDispatchedTransactions]) [],
      goToIf CoordinatorState_Closing
        (GuardAnd [guard_HasTransactionsInflight, GuardNot guard_HasUnconfirmedDispatchedTransactions]) []]"

text \<open>Where it goes when it steps down.\<close>

abbreviation stepDown :: "coordTransition list" where
  "stepDown \<equiv>
     [goToIf CoordinatorState_Closing_Flush guard_HasUnconfirmedDispatchedTransactions [],
      goToIf CoordinatorState_Closing (GuardNot guard_HasUnconfirmedDispatchedTransactions) []]"

abbreviation closingHeartbeat :: "CoordinatorState \<Rightarrow> (CoordinatorEvent, coordinatorNode, coordError) Validator" where
  "closingHeartbeat st \<equiv>
     ValidatorAnd [validator_IsHeartbeatFromCurrentActiveCoordinator, validator_HeartBeatState [st]]"

abbreviation poolOrForget :: coordHandlers where
  "poolOrForget \<equiv> matchFirst
     [handlerFor (validator_TransactionStateTransitionTo [State_Pooled]) [always action_PoolTransaction] [],
      handlerFor (validator_TransactionStateTransitionTo [State_Final]) [always action_CleanUpTransaction] []]"

text \<open>What an active coordinator does when a transaction has changed its state.\<close>

abbreviation activeTransitionHandlers :: "coordHandler list" where
  "activeTransitionHandlers \<equiv>
     [handlerFor (ValidatorAnd [validator_TransactionStateTransitionFrom [State_Dispatched],
                                validator_TransactionStateTransitionTo [State_Pooled, State_Reverted]])
        [whenever guard_HasTransactionAssembling action_cancelCurrentlyAssemblingTransaction] [],
      handlerFor (validator_TransactionStateTransitionTo [State_Pooled]) [always action_PoolTransaction] [],
      handlerFor (validator_TransactionStateTransitionFrom [State_Assembling]) [always action_ClearAssemblyInFlight] [],
      handlerFor (validator_TransactionStateTransitionTo [State_Final, State_Evicted]) [always action_CleanUpTransaction] [],
      handler [whenever (GuardNot guard_HasTransactionAssembling) action_SelectTransaction] []]"

section \<open>The state definitions\<close>

definition def_coord_Initial :: coordStateDefinition where
  "def_coord_Initial = coordStateDef [] []
     [(CEvent_CoordinatorCreated, matchFirst
        [handler [always action_CalculateCoordinatorPriorities] [goTo CoordinatorState_Idle []]])]"

definition def_coord_Idle :: coordStateDefinition where
  "def_coord_Idle = coordStateDef [] []
     [(CEvent_HeartbeatReceived, matchAll
        [learnEndorsers,
         handlerFor validator_IsHeartbeatSenderLive [always action_UpdateActiveCoordinator]
           [goTo CoordinatorState_Observing []]]),
      (CEvent_EndorsementRequestReceived, matchAll
        (endorsementPreamble @ [endorseForSender [goTo CoordinatorState_Observing []]])),
      (CEvent_TransactionsDelegated, matchAll
        (delegationPreamble @
         [delegationAdmitted [always action_ProcessDelegatedTransactions] [goTo CoordinatorState_Active []]]))]"

definition def_coord_Observing :: coordStateDefinition where
  "def_coord_Observing = coordStateDef [] []
     [(CEvent_HeartbeatReceived, matchAll
        [learnEndorsers,
         handlerFor validator_IsHeartbeatSenderLive
           [always action_ResetHeartbeatIntervalsSinceLastReceive, always action_UpdateActiveCoordinator] []]),
      (CEvent_EndorsementRequestReceived, matchAll (endorsementPreamble @ [endorseForSender []])),
      (CEvent_HeartbeatInterval, matchFirst
        [handler [always action_UpdateOriginatorActivity, always action_IncrementHeartbeatIntervalCounts]
           [goToIf CoordinatorState_Idle guard_InactiveGracePeriodExceeded []]]),
      (CEvent_TransactionsDelegated, matchAll
        (delegationPreamble @
         [delegationAdmitted
            [whenever guard_IsHigherPriorityThanCurrentActive action_ProcessDelegatedTransactions,
             whenever (GuardNot guard_IsHigherPriorityThanCurrentActive) action_RejectDelegationRequest]
            [goToIf CoordinatorState_Elect guard_IsHigherPriorityThanCurrentActive []]]))]"

definition def_coord_Elect :: coordStateDefinition where
  "def_coord_Elect = coordStateDef
     [always coord_action_ScheduleStateTimeout, always action_SendHandoverRequest] []
     [(CEvent_RequestTimeoutInterval, matchFirst [handler [always action_NudgeHandoverRequest] []]),
      (CEvent_StateTimeoutInterval, matchFirst
        [handler [] [goTo CoordinatorState_Active [always action_ClearTimeoutSchedules]]]),
      (CEvent_HeartbeatInterval, matchFirst
        [handler [always action_UpdateOriginatorActivity, always action_PropagateHeartbeatIntervalToTransactions,
                  always action_SendHeartbeat] []]),
      (CEvent_HeartbeatReceived, matchAll
        [learnEndorsers,
         handlerFor liveAndHigher
           [always action_CleanUpTransactionsNotYetDispatched, always action_UpdateActiveCoordinator,
            always action_ClearTimeoutSchedules] stepBack,
         handlerFor (closingHeartbeat CoordinatorState_Closing_Flush) [always action_ClearTimeoutSchedules]
           [goTo CoordinatorState_Prepared []],
         handlerFor (closingHeartbeat CoordinatorState_Closing)
           [always action_ClearTimeoutSchedules, always action_ImportStatesAndLocks]
           [goTo CoordinatorState_Active []]]),
      (CEvent_HandoverRequest, matchFirst
        [handlerFor validator_IsHandoverRequestFromHigherPriorityCoordinator
           [always action_UpdateActiveCoordinator, always action_CleanUpTransactionsNotYetDispatched] stepDown]),
      (CEvent_EndorsementRequestReceived, matchAll
        (endorsementPreamble @
         [handlerFor (endorsementAdmitted [validator_IsEndorsementRequestFromHigherPriorityCoordinator])
            [always action_UpdateActiveCoordinatorFromEndorsementRequest,
             always action_CleanUpTransactionsNotYetDispatched, always action_ClearTimeoutSchedules,
             always action_HandleEndorsementRequest] stepBack,
          rejectAsActive []])),
      (CEvent_TransactionsDelegated, matchAll
        (delegationPreamble @ [delegationAdmitted [always action_ProcessDelegatedTransactions] []])),
      (CEvent_TransactionStateTransition, poolOrForget)]"

definition def_coord_Prepared :: coordStateDefinition where
  "def_coord_Prepared = coordStateDef [] []
     [(CEvent_HeartbeatInterval, matchFirst
        [handler [always action_UpdateOriginatorActivity, always action_IncrementHeartbeatIntervalCounts,
                  always action_PropagateHeartbeatIntervalToTransactions, always action_SendHeartbeat]
           [goToIf CoordinatorState_Active guard_InactiveGracePeriodExceeded []]]),
      (CEvent_HeartbeatReceived, matchAll
        [learnEndorsers,
         handlerFor (closingHeartbeat CoordinatorState_Closing_Flush)
           [always action_ResetHeartbeatIntervalsSinceLastReceive,
            always action_ProcessConfirmedTransactionsFromSnapshot] [],
         handlerFor (closingHeartbeat CoordinatorState_Closing)
           [always action_ResetHeartbeatIntervalsSinceLastReceive,
            always action_ProcessConfirmedTransactionsFromSnapshot, always action_ImportStatesAndLocks]
           [goTo CoordinatorState_Active []],
         handlerFor liveAndHigher
           [always action_CleanUpTransactionsNotYetDispatched, always action_UpdateActiveCoordinator] stepBack]),
      (CEvent_HandoverRequest, matchFirst
        [handlerFor validator_IsHandoverRequestFromHigherPriorityCoordinator
           [always action_UpdateActiveCoordinator, always action_CleanUpTransactionsNotYetDispatched] stepDown]),
      (CEvent_EndorsementRequestReceived, matchAll
        (endorsementPreamble @
         [handlerFor (endorsementAdmitted [validator_IsEndorsementRequestFromHigherPriorityCoordinator])
            [always action_UpdateActiveCoordinatorFromEndorsementRequest,
             always action_CleanUpTransactionsNotYetDispatched, always action_HandleEndorsementRequest] stepBack,
          rejectAsActive []])),
      (CEvent_TransactionsDelegated, matchAll
        (delegationPreamble @ [delegationAdmitted [always action_ProcessDelegatedTransactions] []])),
      (CEvent_TransactionStateTransition, poolOrForget)]"

definition def_coord_Active :: coordStateDefinition where
  "def_coord_Active = coordStateDef
     [always action_SetSelfAsActiveCoordinator, always action_SendHeartbeat, always action_NewSigningIdentity,
      always action_StartDispatchLoop,
      whenever (GuardNot guard_HasTransactionAssembling) action_SelectTransaction,
      always action_ResetHeartbeatIntervalsSinceLastReceive]
     [always action_StopDispatchLoop]
     [(CEvent_HeartbeatInterval, matchFirst
        [handler [always action_UpdateOriginatorActivity, always action_PropagateHeartbeatIntervalToTransactions,
                  always action_SendHeartbeat]
           [goToIf CoordinatorState_Idle (GuardNot guard_HasTransactionsInflight) []]]),
      (CEvent_HeartbeatReceived, matchAll
        [learnEndorsers,
         handlerFor liveAndHigher
           [always action_UpdateActiveCoordinator, always action_StopDispatchLoop,
            always action_CleanUpTransactionsNotYetDispatched] stepDown]),
      (CEvent_HandoverRequest, matchFirst
        [handlerFor validator_IsHandoverRequestFromHigherPriorityCoordinator
           [always action_UpdateActiveCoordinator, always action_StopDispatchLoop,
            always action_CleanUpTransactionsNotYetDispatched] stepDown]),
      (CEvent_EndorsementRequestReceived, matchAll
        (endorsementPreamble @
         [handlerFor (endorsementAdmitted [validator_IsEndorsementRequestFromHigherPriorityCoordinator])
            [always action_UpdateActiveCoordinatorFromEndorsementRequest, always action_StopDispatchLoop,
             always action_CleanUpTransactionsNotYetDispatched, always action_HandleEndorsementRequest] stepDown,
          endorseForSelf, rejectAsActive [ValidatorNot validator_IsEndorsementRequestFromSelf]])),
      (CEvent_TransactionsDelegated, matchAll
        (delegationPreamble @ [delegationAdmitted [always action_ProcessDelegatedTransactions] []])),
      (CEvent_TransactionStateTransition, matchAll activeTransitionHandlers),
      (CEvent_EpochBoundaryReached, matchFirst
        [handler
           [always action_StopDispatchLoop,
            whenever (GuardNot guard_MustFlushToRotateSigningIdentity) action_NewSigningIdentity,
            whenever (GuardNot guard_MustFlushToRotateSigningIdentity) action_QueueRestartDispatchLoop]
           [goToIf CoordinatorState_Active_Flush guard_MustFlushToRotateSigningIdentity []]]),
      (CEvent_RestartDispatchLoop, matchFirst [handler [always action_StartDispatchLoop] []])]"

definition def_coord_Active_Flush :: coordStateDefinition where
  "def_coord_Active_Flush = coordStateDef [] []
     [(CEvent_HeartbeatInterval, matchFirst
        [handler [always action_UpdateOriginatorActivity, always action_PropagateHeartbeatIntervalToTransactions,
                  always action_SendHeartbeat] []]),
      (CEvent_HeartbeatReceived, matchAll
        [learnEndorsers,
         handlerFor liveAndHigher []
           [goTo CoordinatorState_Closing_Flush
              [always action_UpdateActiveCoordinator, always action_CleanUpTransactionsNotYetDispatched]]]),
      (CEvent_HandoverRequest, matchFirst
        [handlerFor validator_IsHandoverRequestFromHigherPriorityCoordinator
           [always action_CleanUpTransactionsNotYetDispatched, always action_UpdateActiveCoordinator] stepDown]),
      (CEvent_EndorsementRequestReceived, matchAll
        (endorsementPreamble @
         [handlerFor (endorsementAdmitted [validator_IsEndorsementRequestFromHigherPriorityCoordinator])
            [always action_UpdateActiveCoordinatorFromEndorsementRequest,
             always action_CleanUpTransactionsNotYetDispatched, always action_HandleEndorsementRequest]
            [goTo CoordinatorState_Closing_Flush []],
          endorseForSelf, rejectAsActive [ValidatorNot validator_IsEndorsementRequestFromSelf]])),
      (CEvent_TransactionsDelegated, matchAll
        (delegationPreamble @ [delegationAdmitted [always action_ProcessDelegatedTransactions] []])),
      (CEvent_TransactionStateTransition, matchAll
        (activeTransitionHandlers @
         [handlerFor (validator_TransactionStateTransitionFrom [State_Dispatched]) []
            [goToIf CoordinatorState_Active (GuardNot guard_HasUnconfirmedDispatchedTransactions) []]]))]"

definition def_coord_Closing_Flush :: coordStateDefinition where
  "def_coord_Closing_Flush = coordStateDef [always action_SendHeartbeatWithLocks] []
     [(CEvent_HeartbeatInterval, matchFirst
        [handler [always action_UpdateOriginatorActivity, always coord_action_IncrementHeartbeatIntervalsSinceStateChange,
                  always action_SendHeartbeatWithLocks, always action_PropagateHeartbeatIntervalToTransactions] []]),
      (CEvent_HeartbeatReceived, matchAll
        [learnEndorsers,
         handlerFor validator_IsHeartbeatSenderLive
           [always action_ResetHeartbeatIntervalsSinceLastReceive, always action_UpdateActiveCoordinator] []]),
      (CEvent_EndorsementRequestReceived, matchAll (endorsementPreamble @ [endorseForSender []])),
      (CEvent_TransactionsDelegated, matchAll
        (delegationPreamble @
         [delegationAdmitted
            [whenever guard_IsHigherPriorityThanCurrentActive action_ProcessDelegatedTransactions,
             whenever (GuardNot guard_IsHigherPriorityThanCurrentActive) action_RejectDelegationRequest]
            [goToIf CoordinatorState_Elect guard_IsHigherPriorityThanCurrentActive []]])),
      (CEvent_TransactionStateTransition, matchAll
        [handlerFor (ValidatorOr
            [validator_TransactionStateTransitionTo [State_Final],
             ValidatorAnd [validator_TransactionStateTransitionFrom [State_Dispatched],
                           validator_TransactionStateTransitionTo [State_PreAssembly_Blocked, State_Pooled]]])
           [always action_CleanUpTransaction] [],
         handlerFor (validator_TransactionStateTransitionFrom [State_Dispatched]) []
           [goToIf CoordinatorState_Closing (GuardNot guard_HasUnconfirmedDispatchedTransactions) []]])]"

definition def_coord_Closing :: coordStateDefinition where
  "def_coord_Closing = coordStateDef [always action_SendHeartbeatWithLocks] []
     [(CEvent_HeartbeatReceived, matchAll
        [learnEndorsers,
         handlerFor validator_IsHeartbeatSenderLive
           [always action_ResetHeartbeatIntervalsSinceLastReceive, always action_UpdateActiveCoordinator] []]),
      (CEvent_EndorsementRequestReceived, matchAll (endorsementPreamble @ [endorseForSender []])),
      (CEvent_HeartbeatInterval, matchFirst
        [handler [always action_UpdateOriginatorActivity, always coord_action_IncrementHeartbeatIntervalsSinceStateChange,
                  always action_SendHeartbeatWithLocks, always action_PropagateHeartbeatIntervalToTransactions]
           [goToIf CoordinatorState_Idle (GuardAnd [GuardNot guard_HasTransactionsInflight,
              guard_ClosingGracePeriodExpired, guard_InactiveGracePeriodExceeded]) [],
            goToIf CoordinatorState_Observing (GuardAnd [GuardNot guard_HasTransactionsInflight,
              guard_ClosingGracePeriodExpired, GuardNot guard_InactiveGracePeriodExceeded]) []]]),
      (CEvent_TransactionsDelegated, matchAll
        (delegationPreamble @
         [delegationAdmitted
            [whenever (GuardAnd [GuardNot guard_IsHigherPriorityThanCurrentActive,
                                 GuardNot guard_InactiveGracePeriodExceeded]) action_RejectDelegationRequest]
            [goToIf CoordinatorState_Elect (GuardAnd [guard_IsHigherPriorityThanCurrentActive,
               GuardNot guard_InactiveGracePeriodExceeded]) [always action_ProcessDelegatedTransactions],
             goToIf CoordinatorState_Active (GuardAnd [GuardNot guard_IsHigherPriorityThanCurrentActive,
               guard_InactiveGracePeriodExceeded]) []]])),
      (CEvent_TransactionStateTransition, matchFirst
        [handlerFor (validator_TransactionStateTransitionTo [State_Final]) [always action_CleanUpTransaction] []])]"

fun coordStateDefinitionsMap :: "CoordinatorState \<Rightarrow> coordStateDefinition" where
  "coordStateDefinitionsMap CoordinatorState_Initial = def_coord_Initial"
| "coordStateDefinitionsMap CoordinatorState_Idle = def_coord_Idle"
| "coordStateDefinitionsMap CoordinatorState_Observing = def_coord_Observing"
| "coordStateDefinitionsMap CoordinatorState_Elect = def_coord_Elect"
| "coordStateDefinitionsMap CoordinatorState_Prepared = def_coord_Prepared"
| "coordStateDefinitionsMap CoordinatorState_Active = def_coord_Active"
| "coordStateDefinitionsMap CoordinatorState_Active_Flush = def_coord_Active_Flush"
| "coordStateDefinitionsMap CoordinatorState_Closing_Flush = def_coord_Closing_Flush"
| "coordStateDefinitionsMap CoordinatorState_Closing = def_coord_Closing"

section \<open>The machine\<close>

definition coord_onStateTransition :: "CoordinatorState \<Rightarrow> CoordinatorState \<Rightarrow> CoordinatorEvent \<Rightarrow> coordinatorNode
    \<Rightarrow> coordinatorNode" where
  "coord_onStateTransition from to ev s = s\<lparr>coordIntervalsSinceStateChange := 0\<rparr>"

definition coordMachine ::
  "(CoordinatorState, CoordinatorEventType, CoordinatorEvent, coordinatorNode, coordError) StateMachine" where
  "coordMachine =
     \<lparr>definitions = (\<lambda>st. Some (coordStateDefinitionsMap st)),
      GetCurrentState = coordState,
      SetCurrentState = (\<lambda>st s. s\<lparr>coordState := st\<rparr>),
      sm_mark = (\<lambda>ev s. s),
      transitionCallback = Some coord_onStateTransition,
      eventType = CoordinatorEvent_Type,
      sm_locked = coordLocked,
      sm_setLock = (\<lambda>b s. s\<lparr>coordLocked := b\<rparr>)\<rparr>"

text \<open>\<open>preProcessEvent\<close>: \<open>None\<close> if the event is for the machine.\<close>

definition preProcessEvent :: "CoordinatorEvent \<Rightarrow> coordinatorNode \<Rightarrow> nodeResult option" where
  "preProcessEvent ev s =
     (case ev of
        TxEvent t txEvent \<Rightarrow> Some (propagateEventToTransaction t txEvent s)
      | HeartbeatReceivedEvent from _ \<Rightarrow> if from = nodeName_of s then Some (Ok s) else None
      | _ \<Rightarrow> None)"

text \<open>
  One event of the loop: \<open>preProcessEvent\<close> under the coordinator's lock, then, if the event is not done
  with, the machine.
\<close>

definition coord_processEvent :: "CoordinatorEvent \<Rightarrow> coordinatorNode \<Rightarrow> nodeResult" where
  "coord_processEvent ev s =
     (if coordLocked s then Stuck
      else case preProcessEvent ev (s\<lparr>coordLocked := True\<rparr>) of
             Some r \<Rightarrow> outcome_map (\<lambda>s1. s1\<lparr>coordLocked := False\<rparr>) r
           | None \<Rightarrow> ProcessEvent coordMachine ev s)"

end
