(* ===== verification/CoordinatorInvariant.thy ===== *)
theory CoordinatorInvariant
  imports CoordinatorMachine TransactionInvariant
begin

text \<open>
  What the coordinator keeps at all times, whatever events it processes and wherever an error stops it:
  the list and the map of its transactions agree, the pool holds known transactions without repetition,
  the limit of transactions is respected, no transaction stays locked, and the grapher is consistent.
\<close>

definition node_wf :: "coordinatorNode \<Rightarrow> bool" where
  "node_wf s \<longleftrightarrow> consistent (txs s)
     \<and> locks (txs s) = (\<lambda>t. if t \<in> set (transactionIDs s) then Some False else None)
     \<and> distinct (transactionIDs s)
     \<and> distinct (pooledTransactions s) \<and> set (pooledTransactions s) \<subseteq> set (transactionIDs s)
     \<and> int (length (transactionIDs s)) \<le> max 0 (maxInflightTransactions s)"

section \<open>Operations on the part of the transactions\<close>

definition keepsTxs :: "coordinator \<Rightarrow> coordinator \<Rightarrow> bool" where
  "keepsTxs c c' \<longleftrightarrow> (consistent c \<longrightarrow> consistent c') \<and> locks c' = locks c"

lemma keepsTxs_refl [simp]: "keepsTxs c c"
  by (simp add: keepsTxs_def)

lemma keepsTxs_trans: "keepsTxs a b \<Longrightarrow> keepsTxs b c \<Longrightarrow> keepsTxs a c"
  by (simp add: keepsTxs_def)

lemma keepsTxs_shape: "shape c' = shape c \<Longrightarrow> (consistent c \<Longrightarrow> consistent c') \<Longrightarrow> keepsTxs c c'"
  using locks_shape [of c' c] by (simp add: keepsTxs_def)

lemma node_wf_txs: "node_wf s \<Longrightarrow> keepsTxs (txs s) c \<Longrightarrow> node_wf (s\<lparr>txs := c\<rparr>)"
  by (simp add: node_wf_def keepsTxs_def)

lemma node_wf_updTxs: "node_wf s \<Longrightarrow> keepsTxs (txs s) (f (txs s)) \<Longrightarrow> node_wf (updTxs f s)"
  by (simp add: updTxs_def node_wf_txs)

lemma node_wf_onTxs: "node_wf s \<Longrightarrow> returns (keepsTxs (txs s)) (f (txs s)) \<Longrightarrow> returns node_wf (onTxs f s)"
  by (cases "f (txs s)") (auto simp: onTxs_def node_wf_txs)

lemma handleEvent_keepsTxs: "returns (keepsTxs c) (coordinatorTransactionHandleEvent n t ev c)"
proof -
  have u: "returns (undisturbed c) (coordinatorTransactionHandleEvent n t ev c)"
    using wellBehaved_HandleEvent by (simp add: wellBehaved_def)
  have k: "consistent c \<Longrightarrow> returns consistent (coordinatorTransactionHandleEvent n t ev c)"
    using keepsConsistent_HandleEvent by (simp add: keepsConsistent_def)
  show ?thesis
    using u k by (cases "coordinatorTransactionHandleEvent n t ev c") (auto simp: keepsTxs_def locks_undisturbed)
qed

lemma txHandleEvent_wf: "node_wf s \<Longrightarrow> returns node_wf (txHandleEvent t ev s)"
  unfolding txHandleEvent_def by (erule node_wf_onTxs) (rule handleEvent_keepsTxs)

lemma nodeSend_wf: "node_wf s \<Longrightarrow> returns node_wf (nodeSend n m s)"
  by (auto simp: nodeSend_def transportSend_def keepsTxs_shape intro!: node_wf_onTxs)

lemma node_wf_outer [simp]:
  "node_wf (s\<lparr>coordState := st\<rparr>) = node_wf s" "node_wf (s\<lparr>coordLocked := b\<rparr>) = node_wf s"
  "node_wf (s\<lparr>currentActiveCoordinator := n\<rparr>) = node_wf s"
  "node_wf (s\<lparr>coordIntervalsSinceStateChange := i\<rparr>) = node_wf s"
  "node_wf (s\<lparr>heartbeatIntervalsSinceLastReceive := i\<rparr>) = node_wf s"
  "node_wf (s\<lparr>assemblyInFlight := b\<rparr>) = node_wf s" "node_wf (s\<lparr>assemblingTxID := t\<rparr>) = node_wf s"
  "node_wf (s\<lparr>originatorActivity := oa\<rparr>) = node_wf s"
  "node_wf (s\<lparr>pendingHandoverRequest := p\<rparr>) = node_wf s"
  "node_wf (s\<lparr>inFlightEndorsements := ie\<rparr>) = node_wf s" "node_wf (s\<lparr>endorsementsStarted := es\<rparr>) = node_wf s"
  "node_wf (s\<lparr>cancelRequestTimeout := ct\<rparr>) = node_wf s" "node_wf (s\<lparr>cancelStateTimeout := ct\<rparr>) = node_wf s"
  "node_wf (s\<lparr>dispatchLoopPhase := dp\<rparr>) = node_wf s" "node_wf (s\<lparr>commitsTried := k\<rparr>) = node_wf s"
  "node_wf (s\<lparr>persistedBatches := pb\<rparr>) = node_wf s" "node_wf (s\<lparr>childrenSubmitted := cs\<rparr>) = node_wf s"
  "node_wf (s\<lparr>started := b\<rparr>) = node_wf s"
  by (simp_all add: node_wf_def)

lemma propagateLoop_wf: "node_wf s \<Longrightarrow> returns node_wf (propagateLoop ev ts s)"
  by (induction ts arbitrary: s) (auto intro!: returns_and_then txHandleEvent_wf)

section \<open>The pool\<close>

lemma known_iff: "node_wf s \<Longrightarrow> transactionsByID (txs s) t \<noteq> None \<longleftrightarrow> t \<in> set (transactionIDs s)"
proof -
  assume "node_wf s"
  then have "locks (txs s) t = (if t \<in> set (transactionIDs s) then Some False else None)" by (simp add: node_wf_def)
  then show ?thesis by (auto simp: locks_def shape_def split: if_splits)
qed

lemma addToPool_wf: "node_wf s \<Longrightarrow> t \<in> set (transactionIDs s) \<Longrightarrow> node_wf (addTransactionToBackOfPool t s)"
  by (auto simp: addTransactionToBackOfPool_def node_wf_def)

lemma poolKnown_wf:
  "node_wf s \<Longrightarrow> \<exists>x. transactionsByID (txs s) t = Some x \<Longrightarrow> node_wf (addTransactionToBackOfPool t s)"
  using known_iff [of s t] addToPool_wf [of s t] by auto

lemma popPool_wf: "node_wf s \<Longrightarrow> node_wf (snd (popNextPooledTransaction s))"
  by (auto simp: popNextPooledTransaction_def node_wf_def split: list.split)

lemma select_wf: "node_wf s \<Longrightarrow> returns node_wf (selectNextTransactionToAssemble s)"
  using popPool_wf [of s]
  by (auto simp: selectNextTransactionToAssemble_def split_beta split: option.split
      intro!: returns_and_then txHandleEvent_wf)

lemma locks_without: "locks (c\<lparr>transactionsByID := (transactionsByID c)(t := None)\<rparr>) = (locks c)(t := None)"
  by (auto simp: locks_def shape_def)

lemma locks_with: "locks (c\<lparr>transactionsByID := (transactionsByID c)(t \<mapsto> x)\<rparr>) = (locks c)(t \<mapsto> txLocked x)"
  by (auto simp: locks_def shape_def)

lemma length_removeAll_le: "length (removeAll x xs) \<le> length xs"
  by (simp add: removeAll_filter_not_eq)

lemma consistent_transactions [simp]: "consistent (c\<lparr>transactionsByID := m\<rparr>) = consistent c"
  by (simp add: consistent_def)

lemma consistent_queue [simp]: "consistent (c\<lparr>dispatchQueue := q\<rparr>) = consistent c"
  by (simp add: consistent_def)

lemma inv_tracker_Delete:
  assumes "grapher_inv g"
  shows "grapher_inv (g\<lparr>depTracker := tracker_Delete t (depTracker g)\<rparr>)"
  using assms unfolding grapher_inv_def
  by (auto simp: tracker_Delete_def elim!: minters_wf_cong locks_wf_cong
      intro: deps_wf_delete [where g = g and t = t])

lemma cleanUp_keeps:
  "consistent c \<Longrightarrow> consistent (updGrapher (\<lambda>g. g\<lparr>depTracker := tracker_Delete t (depTracker g)\<rparr>) c)"
  by (simp add: consistent_def updGrapher_def inv_tracker_Delete)

lemma cleanUpTransaction_fields:
  assumes "transactionsByID (txs s) t \<noteq> None"
  shows "transactionIDs (cleanUpTransaction t s) = removeAll t (transactionIDs s)"
    and "pooledTransactions (cleanUpTransaction t s) = remove1 t (pooledTransactions s)"
    and "maxInflightTransactions (cleanUpTransaction t s) = maxInflightTransactions s"
    and "locks (txs (cleanUpTransaction t s)) = (locks (txs s))(t := None)"
    and "consistent (txs s) \<Longrightarrow> consistent (txs (cleanUpTransaction t s))"
  using assms
  by (auto simp: cleanUpTransaction_def updTxs_def removeTransactionFromPool_def locks_without [symmetric]
      intro!: locks_shape cleanUp_keeps split: option.split)

lemma cleanUpTransaction_wf:
  assumes "node_wf s"
  shows "node_wf (cleanUpTransaction t s)"
proof (cases "transactionsByID (txs s) t = None")
  case True
  with assms show ?thesis by (simp add: cleanUpTransaction_def)
next
  case False
  from assms have "int (length (removeAll t (transactionIDs s))) \<le> max 0 (maxInflightTransactions s)"
    using length_removeAll_le [of t "transactionIDs s"] unfolding node_wf_def by linarith
  moreover from assms have "(locks (txs s))(t := None)
      = (\<lambda>u. if u \<in> set (removeAll t (transactionIDs s)) then Some False else None)"
    by (auto simp: node_wf_def)
  ultimately show ?thesis
    using assms cleanUpTransaction_fields [OF False]
    unfolding node_wf_def by (auto simp: distinct_removeAll)
qed

lemma fold_cleanUp_wf: "node_wf s \<Longrightarrow> node_wf (fold (\<lambda>x. cleanUpTransaction (f x)) ts s)"
  by (rule fold_invariant_set) (simp_all add: cleanUpTransaction_wf)

section \<open>Delegation\<close>

lemma chainedDeps_keeps: "keepsTxs c (addChainedDependencies t ds c)"
proof (induction ds arbitrary: c)
  case (Cons d ds)
  have step: "keepsTxs c (updChainedDeps f c)" for f c
    by (simp add: keepsTxs_shape)
  show ?case
    using Cons keepsTxs_trans step by (auto simp: Let_def split: option.split) blast+
qed simp

lemma storeTransaction_wf:
  assumes "node_wf s" and "t \<notin> set (transactionIDs s)" and "\<not> txLocked x"
    and "int (length (transactionIDs s)) < maxInflightTransactions s"
  shows "node_wf (storeTransaction t x s)"
  using assms by (auto simp: node_wf_def storeTransaction_def updTxs_def locks_with fun_eq_iff List.insert_def)

lemma pool_of_txs: "returns (\<lambda>s'. pooledTransactions s' = pooledTransactions s \<and> transactionIDs s' = transactionIDs s
    \<and> maxInflightTransactions s' = maxInflightTransactions s) (txHandleEvent t ev s)"
  by (cases "coordinatorTransactionHandleEvent (Suc (length (transactionIDs s))) t ev (txs s)")
     (simp_all add: txHandleEvent_def onTxs_def)

lemma dropTransaction_wf:
  assumes "node_wf s" and "t \<notin> set (pooledTransactions s)"
  shows "node_wf (dropTransaction t s)"
proof -
  from assms have "int (length (removeAll t (transactionIDs s))) \<le> max 0 (maxInflightTransactions s)"
    using length_removeAll_le [of t "transactionIDs s"] unfolding node_wf_def by linarith
  with assms show ?thesis
    unfolding node_wf_def dropTransaction_def updTxs_def
    by (auto simp: locks_without fun_eq_iff distinct_removeAll)
qed

lemma chainToPrevious_wf: "node_wf s \<Longrightarrow> node_wf (chainToPrevious t p s)"
  by (auto simp: chainToPrevious_def keepsTxs_shape split: option.split intro!: node_wf_updTxs)

lemma chainToPrevious_fields [simp]:
  "transactionIDs (chainToPrevious t p s) = transactionIDs s"
  "pooledTransactions (chainToPrevious t p s) = pooledTransactions s"
  "maxInflightTransactions (chainToPrevious t p s) = maxInflightTransactions s"
  by (auto simp: chainToPrevious_def updTxs_def split: option.split)

lemma newTransaction_wf: "node_wf s \<Longrightarrow> node_wf (snd (newTransaction o1 o2 tx s))"
  by (simp add: newTransaction_def node_wf_updTxs chainedDeps_keeps)

lemma newTransaction_fields [simp]:
  "transactionIDs (snd (newTransaction o1 o2 tx s)) = transactionIDs s"
  "pooledTransactions (snd (newTransaction o1 o2 tx s)) = pooledTransactions s"
  "maxInflightTransactions (snd (newTransaction o1 o2 tx s)) = maxInflightTransactions s"
  "txLocked (fst (newTransaction o1 o2 tx s)) = False"
  by (simp_all add: newTransaction_def updTxs_def)

lemma delegateOne_wf:
  assumes "node_wf s" and "delegateOne o1 o2 tx d s = Some (d', s')"
  shows "node_wf s'"
proof (cases "dl_error d \<noteq> None \<or> transactionsByID (txs s) (pt_ID tx) \<noteq> None
    \<or> int (length (transactionIDs s)) \<ge> maxInflightTransactions s")
  case True
  with assms show ?thesis by (auto simp: delegateOne_def Let_def split: if_splits)
next
  case False
  let ?t = "pt_ID tx" and ?n = "newTransaction o1 o2 tx (chainToPrevious (pt_ID tx) (dl_previous d) s)"
  let ?s1 = "storeTransaction ?t (fst ?n) (snd ?n)"
  have new: "?t \<notin> set (transactionIDs s)" using False known_iff [OF assms(1)] by blast
  then have fresh: "?t \<notin> set (pooledTransactions s)" using assms(1) by (auto simp: node_wf_def)
  have wf: "node_wf ?s1"
    using False new assms(1) by (intro storeTransaction_wf newTransaction_wf chainToPrevious_wf) auto
  have pool: "pooledTransactions ?s1 = pooledTransactions s" by (simp add: storeTransaction_def updTxs_def)
  show ?thesis
    using assms(2) False txHandleEvent_wf [OF wf, of ?t DelegatedEvent] pool_of_txs [of ?s1 ?t DelegatedEvent] pool fresh
    by (cases "txHandleEvent ?t DelegatedEvent ?s1")
       (auto simp: delegateOne_def Let_def split_beta intro!: dropTransaction_wf)
qed

lemma delegateLoop_wf: "node_wf s \<Longrightarrow> delegateLoop o1 o2 txns d s = Some (d', s') \<Longrightarrow> node_wf s'"
  by (induction txns arbitrary: d s) (auto split: option.splits dest: delegateOne_wf)

lemma addToDelegatedTransactions_wf: "node_wf s \<Longrightarrow> returns node_wf (addToDelegatedTransactions o1 txns i s)"
  by (auto simp: addToDelegatedTransactions_def split: sum.split option.split
      intro!: returns_and_then nodeSend_wf dest: delegateLoop_wf)

section \<open>Heartbeats and handover\<close>

lemma heartbeatLoop_inv:
  assumes "\<And>n m s. I s \<Longrightarrow> returns I (nodeSend n m s)"
  shows "I s \<Longrightarrow> returns I (heartbeatLoop snap l ns err s)"
proof (induction ns arbitrary: err s)
  case (Cons n ns)
  let ?m = "CoordinatorHeartbeatNotification (if l
     then snap\<lparr>cs_StateSnapshot := Some (ExportStatesAndLocks n (coordGrapher (txs s)))\<rparr> else snap)"
  show ?case
    using assms [OF Cons.prems, of n ?m] Cons.IH by (cases "nodeSend n ?m s") (auto simp: Let_def)
qed (auto split: option.split)

lemma heartbeatLoop_wf: "node_wf s \<Longrightarrow> returns node_wf (heartbeatLoop snap l ns err s)"
  by (rule heartbeatLoop_inv [OF nodeSend_wf])

lemma sendHeartbeat_wf: "node_wf s \<Longrightarrow> returns node_wf (sendHeartbeat l s)"
  by (simp add: sendHeartbeat_def heartbeatLoop_wf)

lemma nudgeHandover_wf:
  assumes "node_wf s"
  shows "returns node_wf (nudgeHandover r s)"
proof -
  let ?n = "Nudge (\<lambda>_ _. transportSend (currentActiveCoordinator s) CoordinatorHandoverRequest) r (txs s)"
  have "sameShape (txs s) (snd ?n)" by (rule Nudge_shape) (simp_all add: transportSend_shape)
  moreover have "consistent (txs s) \<Longrightarrow> returns consistent (snd ?n)"
    by (rule Nudge_consistent) (simp_all add: transportSend_consistent)
  ultimately have "returns (keepsTxs (txs s)) (snd ?n)"
    by (cases "snd ?n") (auto intro: keepsTxs_shape)
  with assms show ?thesis
    by (cases ?n) (auto simp: nudgeHandover_def node_wf_txs split: outcome.split)
qed

lemma handover_wf:
  assumes "node_wf s"
  shows "returns node_wf (sendHandoverRequest s)" and "returns node_wf (nudgeHandoverRequest s)"
proof -
  have "node_wf (coord_scheduleRequestTimeout (s\<lparr>txs := snd (newUUID (txs s)), pendingHandoverRequest := p\<rparr>))" for p
    using node_wf_txs [OF assms, of "snd (newUUID (txs s))"]
    by (simp add: coord_scheduleRequestTimeout_def keepsTxs_shape)
  then show "returns node_wf (sendHandoverRequest s)"
    using assms by (auto simp: sendHandoverRequest_def NewIdempotentRequest_def split_beta split: option.split
        intro!: nudgeHandover_wf)
  show "returns node_wf (nudgeHandoverRequest s)"
    using assms by (auto simp: nudgeHandoverRequest_def nudgeHandover_wf split: option.split)
qed

section \<open>The dispatch loop\<close>

lemma handOver_wf: "node_wf s \<Longrightarrow> returns node_wf (handOverDispatch qd s)"
  by (auto simp: handOverDispatch_def txHandleEvent_wf split: option.split)

lemma dispatchBatchLoop_wf: "node_wf s \<Longrightarrow> dispatchBatchLoop qds acc s = Some (acc', s') \<Longrightarrow> node_wf s'"
proof (induction qds arbitrary: acc s)
  case (Cons qd qds)
  then show ?case using handOver_wf [of s qd] by (auto split: outcome.splits)
qed simp

lemma children_wf: "node_wf s \<Longrightarrow> node_wf (fold (\<lambda>pd. handleChainedChildren (pd_Dispatch pd)) pds s)"
  by (induction pds arbitrary: s) (simp_all add: handleChainedChildren_def)

lemma commitBatch_wf: "node_wf s \<Longrightarrow> node_wf (snd (commitBatch acc s))"
  by (simp add: commitBatch_def children_wf)

lemma node_wf_queue: "node_wf s \<Longrightarrow> node_wf (updTxs (\<lambda>c. c\<lparr>dispatchQueue := q\<rparr>) s)"
  by (intro node_wf_updTxs) (simp_all add: keepsTxs_shape)

lemma finishBatch_wf: "node_wf s \<Longrightarrow> returns node_wf (finishBatch qds acc s)"
  by (auto simp: finishBatch_def commitBatch_wf split: option.split dest: dispatchBatchLoop_wf)

lemma dispatchSteps_wf:
  assumes "node_wf s"
  shows "dispatchReceive s = Some s' \<Longrightarrow> node_wf s'" and "dispatchPull s = Some s' \<Longrightarrow> node_wf s'"
    and "dispatchBatchStep s = Some s' \<Longrightarrow> node_wf s'"
proof -
  show "dispatchReceive s = Some s' \<Longrightarrow> node_wf s'"
    using assms by (auto simp: dispatchReceive_def node_wf_queue split: dispatchLoopPhase.splits list.splits)
  show "dispatchPull s = Some s' \<Longrightarrow> node_wf s'"
    using assms by (auto simp: dispatchPull_def pullDispatchBatch_def node_wf_queue
        split: dispatchLoopPhase.splits option.splits)
  assume step: "dispatchBatchStep s = Some s'"
  then obtain qds acc where "dispatchLoopPhase s = LoopBatch qds acc"
    by (auto simp: dispatchBatchStep_def split: dispatchLoopPhase.splits)
  with step assms show "node_wf s'"
    using commitBatch_wf [OF assms, of acc] dispatchBatchLoop_wf [OF assms, of "[hd qds]" acc]
    by (cases qds) (auto simp: dispatchBatchStep_def simp del: dispatchBatchLoop.simps
        split: option.splits prod.splits bool.splits)
qed

lemma stopDispatchLoop_wf:
  assumes "node_wf s"
  shows "returns node_wf (stopDispatchLoop s)"
proof (cases "dispatchPull s")
  case None
  then show ?thesis
    using assms finishBatch_wf [OF assms] by (cases "dispatchLoopPhase s") (simp_all add: stopDispatchLoop_def)
next
  case (Some s1)
  then show ?thesis
    using finishBatch_wf [OF dispatchSteps_wf(2) [OF assms Some]]
    by (cases "dispatchLoopPhase s1") (simp_all add: stopDispatchLoop_def)
qed

section \<open>The actions of the table\<close>

definition coordActions :: "(CoordinatorEvent, coordinatorNode, coordError) Action list" where
  "coordActions =
     [action_SelectTransaction, action_PoolTransaction, action_CleanUpTransaction,
      action_CleanUpTransactionsNotYetDispatched, action_ClearAssemblyInFlight,
      action_cancelCurrentlyAssemblingTransaction, action_SendHandoverRequest, action_NudgeHandoverRequest,
      coord_action_ScheduleStateTimeout, action_ClearTimeoutSchedules, action_AddEndorsersFromSnapshot,
      action_UpdateActiveCoordinator, action_SetSelfAsActiveCoordinator,
      action_ResetHeartbeatIntervalsSinceLastReceive, action_IncrementHeartbeatIntervalCounts,
      coord_action_IncrementHeartbeatIntervalsSinceStateChange, action_ProcessConfirmedTransactionsFromSnapshot,
      action_ImportStatesAndLocks, action_SendHeartbeat, action_SendHeartbeatWithLocks,
      action_UpdateOriginatorActivity, action_PropagateHeartbeatIntervalToTransactions,
      coord_action_RefreshBlockHeight, action_CalculateCoordinatorPriorities, action_NewSigningIdentity,
      action_RejectDelegationRequestBlockHeight, action_RejectDelegationRequest, action_ProcessDelegatedTransactions,
      action_RejectEndorsementPrivateStateDataPending, action_RejectEndorsementBlockHeight,
      action_RejectEndorsementEndorserIsActiveCoordinator, action_UpdateActiveCoordinatorFromEndorsementRequest,
      action_AddEndorsementRequestSenderToEndorserCandidates, action_HandleEndorsementRequest,
      action_StartDispatchLoop, action_QueueRestartDispatchLoop, action_StopDispatchLoop]"

lemmas coordDefs = def_coord_Initial_def def_coord_Idle_def def_coord_Observing_def def_coord_Elect_def
  def_coord_Prepared_def def_coord_Active_def def_coord_Active_Flush_def def_coord_Closing_Flush_def
  def_coord_Closing_def

lemma coordMachine_simps [simp]:
  "definitions coordMachine st = Some (coordStateDefinitionsMap st)"
  "GetCurrentState coordMachine s = coordState s"
  "SetCurrentState coordMachine st s = s\<lparr>coordState := st\<rparr>"
  "sm_mark coordMachine ev s = s"
  "callback coordMachine from to ev s = s\<lparr>coordIntervalsSinceStateChange := 0\<rparr>"
  "eventType coordMachine = CoordinatorEvent_Type"
  "sm_locked coordMachine s = coordLocked s"
  "sm_setLock coordMachine b s = s\<lparr>coordLocked := b\<rparr>"
  by (simp_all add: coordMachine_def callback_def coord_onStateTransition_def)

definition allEventTypes :: "CoordinatorEventType list" where
  "allEventTypes = [CEvent_HeartbeatInterval, CEvent_TransactionStateTransition, CEvent_HeartbeatReceived,
     CEvent_CoordinatorCreated, CEvent_TransactionsDelegated, CEvent_RequestTimeoutInterval,
     CEvent_StateTimeoutInterval, CEvent_HandoverRequest, CEvent_RestartDispatchLoop,
     CEvent_EndorsementRequestReceived, CEvent_EpochBoundaryReached, CEvent_Transaction]"

lemma allEventTypes_all: "et \<in> set allEventTypes"
  by (cases et) (simp_all add: allEventTypes_def)

lemma coordRules_listed:
  "\<forall>r \<in> set (definition_rules (coordStateDefinitionsMap st) allEventTypes). act r \<in> set coordActions"
  by (cases st; simp add: coordDefs definition_rules_def allEventTypes_def handler_rules_def; simp add: coordActions_def)

lemma coord_rule_actions: "machine_rule coordMachine r \<Longrightarrow> act r \<in> set coordActions"
  by (erule machine_rule_listed [where ets = allEventTypes]) (use allEventTypes_all coordRules_listed in auto)


lemmas coordActionDefs = action_SelectTransaction_def action_PoolTransaction_def action_CleanUpTransaction_def
  action_CleanUpTransactionsNotYetDispatched_def action_ClearAssemblyInFlight_def
  action_cancelCurrentlyAssemblingTransaction_def action_SendHandoverRequest_def action_NudgeHandoverRequest_def
  coord_action_ScheduleStateTimeout_def action_ClearTimeoutSchedules_def action_AddEndorsersFromSnapshot_def
  action_UpdateActiveCoordinator_def action_SetSelfAsActiveCoordinator_def
  action_ResetHeartbeatIntervalsSinceLastReceive_def action_IncrementHeartbeatIntervalCounts_def
  coord_action_IncrementHeartbeatIntervalsSinceStateChange_def action_ProcessConfirmedTransactionsFromSnapshot_def
  action_ImportStatesAndLocks_def action_SendHeartbeat_def action_SendHeartbeatWithLocks_def
  action_UpdateOriginatorActivity_def action_PropagateHeartbeatIntervalToTransactions_def
  coord_action_RefreshBlockHeight_def action_CalculateCoordinatorPriorities_def action_NewSigningIdentity_def
  action_RejectDelegationRequestBlockHeight_def action_RejectDelegationRequest_def
  action_ProcessDelegatedTransactions_def action_RejectEndorsementPrivateStateDataPending_def
  action_RejectEndorsementBlockHeight_def action_RejectEndorsementEndorserIsActiveCoordinator_def
  action_UpdateActiveCoordinatorFromEndorsementRequest_def
  action_AddEndorsementRequestSenderToEndorserCandidates_def action_HandleEndorsementRequest_def
  action_StartDispatchLoop_def action_QueueRestartDispatchLoop_def action_StopDispatchLoop_def

lemma node_wf_small [simp]:
  "node_wf s \<Longrightarrow> node_wf (coord_scheduleStateTimeout s)" "node_wf s \<Longrightarrow> node_wf (coord_clearTimeoutSchedules s)"
  "node_wf s \<Longrightarrow> node_wf (updateOriginatorActivity s)" "node_wf s \<Longrightarrow> node_wf (recordOriginatorActivity n s)"
  "node_wf s \<Longrightarrow> node_wf (startDispatchLoop s)" "node_wf s \<Longrightarrow> node_wf (queueEventInternal ev s)"
  "node_wf s \<Longrightarrow> node_wf (updTxs (updateEndorserCandidates ns) s)"
  "node_wf s \<Longrightarrow> node_wf (updTxs calculateCoordinatorPriorities s)"
  "node_wf s \<Longrightarrow> node_wf (updTxs refreshBlockHeight s)"
  by (auto simp: coord_scheduleStateTimeout_def coord_clearTimeoutSchedules_def updateOriginatorActivity_def
      recordOriginatorActivity_def startDispatchLoop_def queueEventInternal_def Let_def
      intro!: node_wf_updTxs keepsTxs_shape)

lemma node_wf_import: "node_wf s \<Longrightarrow> node_wf (updTxs (updGrapher (ImportStatesAndLocks sn)) s)"
  by (rule node_wf_updTxs, assumption)
     (rule keepsTxs_shape, simp_all add: consistent_def updGrapher_def inv_ImportStatesAndLocks)

lemma node_wf_identity:
  "node_wf s \<Longrightarrow> node_wf (updTxs (\<lambda>c. case newUUID c of (u, c1) \<Rightarrow> c1\<lparr>signingIdentity := i c u, signingIdentityUsed := b\<rparr>) s)"
  by (rule node_wf_updTxs, assumption)
     (auto simp: newUUID_def keepsTxs_def locks_def shape_def consistent_def)

lemma coordActions_wf:
  assumes "node_wf s"
  shows "\<forall>a \<in> set coordActions. returns node_wf (a ev s)"
  unfolding coordActions_def list.set ball_simps
  using assms
  by (intro conjI TrueI;
      simp add: coordActionDefs select_wf cleanUpTransaction_wf fold_cleanUp_wf [where f = "\<lambda>x. x", simplified]
        fold_cleanUp_wf handover_wf sendHeartbeat_wf propagateEventToAllTransactions_def propagateLoop_wf
        nodeSend_wf addToDelegatedTransactions_wf stopDispatchLoop_wf txHandleEvent_wf node_wf_import node_wf_identity
        node_wf_queue poolKnown_wf beginEndorsement_def Let_def
        split: CoordinatorEvent.split option.split prod.split)

interpretation coordWf: machine_invariant coordMachine node_wf ev for ev
proof (unfold_locales, goal_cases)
  case (4 r s)
  then show ?case using coord_rule_actions [OF 4(1)] coordActions_wf by blast
qed simp_all

lemma coord_processEvent_wf: "node_wf s \<Longrightarrow> returns node_wf (coord_processEvent ev s)"
  using coordWf.ProcessEvent_inv [of s ev] txHandleEvent_wf [of "s\<lparr>coordLocked := True\<rparr>"]
  by (auto simp: coord_processEvent_def preProcessEvent_def propagateEventToTransaction_def
      split: CoordinatorEvent.split option.split)

end
