(* ===== verification/TransactionAdvance.thy ===== *)
theory TransactionAdvance
  imports TransactionFrame "HOL-Library.Sublist"
begin

text \<open>
  How the coordinator has moved on from an earlier state when only transactions have handled events:
  the environment, the clock, the node's name and how coordinators are selected are unchanged, and what
  was sent, queued for the coordinator's loop, queued for dispatch or handed to the database has only
  been added to.
\<close>

definition fixed :: "coordinator \<Rightarrow> environment \<times> int \<times> string \<times> CoordinatorSelection \<times> uint64" where
  "fixed c = (env c, now c, coordNodeName c, coordinatorSelection c, coordinatorSelectionBlockRange c)"

definition advanced :: "coordinator \<Rightarrow> coordinator \<Rightarrow> bool" where
  "advanced k c \<longleftrightarrow> fixed c = fixed k \<and> prefix (outbox k) (outbox c) \<and> prefix (eventsInternal k) (eventsInternal c)
     \<and> prefix (finalizes k) (finalizes c) \<and> prefix (dispatchQueue k) (dispatchQueue c)"

lemma advanced_refl [simp]: "advanced c c"
  by (simp add: advanced_def)

lemma advanced_trans: "advanced a b \<Longrightarrow> advanced b c \<Longrightarrow> advanced a c"
  unfolding advanced_def by (metis prefix_order.trans)

lemma advanced_more [simp]:
  "advanced k c \<Longrightarrow> advanced k (updTxn t f c)" "advanced k c \<Longrightarrow> advanced k (c\<lparr>transactionsByID := m\<rparr>)"
  "advanced k c \<Longrightarrow> advanced k (c\<lparr>uuidsTaken := a\<rparr>)" "advanced k c \<Longrightarrow> advanced k (c\<lparr>sendsTried := a\<rparr>)"
  "advanced k c \<Longrightarrow> advanced k (c\<lparr>heightReads := a\<rparr>)" "advanced k c \<Longrightarrow> advanced k (c\<lparr>coordGrapher := g\<rparr>)"
  "advanced k c \<Longrightarrow> advanced k (c\<lparr>stateViews := v\<rparr>)" "advanced k c \<Longrightarrow> advanced k (c\<lparr>outbox := outbox c @ ob\<rparr>)"
  "advanced k c \<Longrightarrow> advanced k (c\<lparr>eventsInternal := eventsInternal c @ ei\<rparr>)" "advanced k c \<Longrightarrow> advanced k (c\<lparr>finalizes := finalizes c @ fs\<rparr>)"
  "advanced k c \<Longrightarrow> advanced k (c\<lparr>dispatchQueue := dispatchQueue c @ dq\<rparr>)" "advanced k c \<Longrightarrow> advanced k (c\<lparr>preparesStarted := ps\<rparr>)"
  "advanced k c \<Longrightarrow> advanced k (c\<lparr>inFlightTxns := i\<rparr>)" "advanced k c \<Longrightarrow> advanced k (c\<lparr>currentBlockHeight := h\<rparr>)"
  "advanced k c \<Longrightarrow> advanced k (c\<lparr>effectiveBlockHeight := eh\<rparr>)" "advanced k c \<Longrightarrow> advanced k (c\<lparr>endorserCandidates := ec\<rparr>)"
  "advanced k c \<Longrightarrow> advanced k (c\<lparr>coordinatorPriorityList := pl\<rparr>)" "advanced k c \<Longrightarrow> advanced k (c\<lparr>endorserNotifications := en\<rparr>)"
  "advanced k c \<Longrightarrow> advanced k (c\<lparr>signingIdentity := si\<rparr>)" "advanced k c \<Longrightarrow> advanced k (c\<lparr>signingIdentityUsed := su\<rparr>)"
  by (simp_all add: advanced_def fixed_def updTxn_def)

lemma advanced_prims [simp]:
  "advanced k c \<Longrightarrow> advanced k (updGrapher f c)" "advanced k c \<Longrightarrow> advanced k (updPreassemblyDeps f' c)"
  "advanced k c \<Longrightarrow> advanced k (updChainedDeps f'' c)" "advanced k c \<Longrightarrow> advanced k (queueEventForCoordinator e c)"
  "advanced k c \<Longrightarrow> advanced k (clearRequestTimeoutSchedule t c)" "advanced k c \<Longrightarrow> advanced k (clearStateTimeoutSchedule t c)"
  "advanced k c \<Longrightarrow> advanced k (clearTimeoutSchedules t c)" "advanced k c \<Longrightarrow> advanced k (scheduleRequestTimeout t c)"
  "advanced k c \<Longrightarrow> advanced k (scheduleStateTimeout t c)" "advanced k c \<Longrightarrow> advanced k (CleanUpPostAssemblyData t c)"
  "advanced k c \<Longrightarrow> advanced k (resetEndorsementRequests t c)" "advanced k c \<Longrightarrow> advanced k (queueTransactionFinalize t m d l c)"
  "advanced k c \<Longrightarrow> advanced k (setPostAssembly t pa c)" "advanced k c \<Longrightarrow> advanced k (setPendingEndorsement t n p r c)"
  "advanced k c \<Longrightarrow> advanced k (setDispatchedInFlight t b c)" "advanced k c \<Longrightarrow> advanced k (enqueueForDispatch t pd c)"
  "advanced k c \<Longrightarrow> advanced k (calculateCoordinatorPriorities c)" "advanced k c \<Longrightarrow> advanced k (updateEndorserCandidates ns c)"
  "advanced k c \<Longrightarrow> advanced k (snd (newUUID c))" "advanced k c \<Longrightarrow> advanced k (completePreDispatchRequest t c)"
  by (auto simp: updGrapher_def updPreassemblyDeps_def updChainedDeps_def queueEventForCoordinator_def
      clearRequestTimeoutSchedule_def clearStateTimeoutSchedule_def clearTimeoutSchedules_def
      scheduleRequestTimeout_def scheduleStateTimeout_def CleanUpPostAssemblyData_def
      resetEndorsementRequests_def queueTransactionFinalize_def setPostAssembly_def setPendingEndorsement_def
      setDispatchedInFlight_def enqueueForDispatch_def calculateCoordinatorPriorities_def
      updateEndorserCandidates_def newUUID_def completePreDispatchRequest_def Let_def)

lemma advanced_prims2 [simp]:
  "advanced k c \<Longrightarrow> advanced k (refreshBlockHeight c)" "advanced k c \<Longrightarrow> advanced k (initializeForNewAssembly t c)"
  "advanced k c \<Longrightarrow> advanced k (updateSigningIdentity t c)" "advanced k c \<Longrightarrow> advanced k (allocateSigningIdentity t c)"
  "advanced k c \<Longrightarrow> advanced k (revertTransactionFailedAssembly t r c)" "advanced k c \<Longrightarrow> advanced k (onTransition t from to ev c)"
  by (auto simp: refreshBlockHeight_def initializeForNewAssembly_def updateSigningIdentity_def onTransition_def
      allocateSigningIdentity_def getCoordinatorSigningIdentity_def revertTransactionFailedAssembly_def
      Let_def split: option.splits)

abbreviation keepsAdvanced :: "coordinator \<Rightarrow> result \<Rightarrow> bool" where
  "keepsAdvanced k r \<equiv> returns (advanced k) r"

lemma advanced_after:
  "keepsAdvanced k r \<Longrightarrow> returns (\<lambda>w. advanced k (updTxn t f w)) r"
  "keepsAdvanced k r \<Longrightarrow> returns (\<lambda>w. advanced k (setPendingEndorsement t n p q w)) r"
  "keepsAdvanced k r \<Longrightarrow> returns (\<lambda>w. advanced k (updGrapher g w)) r"
  by (auto elim: returns_mono)

lemma transportSend_advanced: "advanced k c \<Longrightarrow> keepsAdvanced k (transportSend n m c)"
  by (simp add: transportSend_def advanced_def fixed_def)

lemma Nudge_advanced:
  assumes "\<And>cap key c1. advanced k c1 \<Longrightarrow> keepsAdvanced k (send cap key c1)" and "advanced k c"
  shows "keepsAdvanced k (snd (Nudge send r c))"
  using assms(1) [OF assms(2), of "ir_capture r" "ir_idempotencyKey r"] assms(2)
  by (cases "send (ir_capture r) (ir_idempotencyKey r) c") (auto simp: Nudge_def)

lemma applyPostAssembly_advanced:
  assumes "advanced k c"
  shows "keepsAdvanced k (applyPostAssembly t pa r c)"
proof -
  have rec: "advanced k c1 \<Longrightarrow> keepsAdvanced k (recordOutputStateVisibility t c1)" for c1
    by (auto simp: recordOutputStateVisibility_def Let_def split: option.splits)
  have lift: "advanced k c1 \<Longrightarrow> keepsAdvanced k (liftGrapher g c1)" for c1 g
    by (cases g) (simp_all add: liftGrapher_def)
  show ?thesis
    unfolding applyPostAssembly_def Let_def using assms
    by (auto split: AssemblyResult.splits sum.splits intro!: returns_and_then [OF lift] returns_and_then [OF rec])
qed

lemma applySignature_advanced: "advanced k c \<Longrightarrow> keepsAdvanced k (applySignature t sig c)"
  by (auto simp: applySignature_def Let_def split: option.splits)

lemma assembleAndSign_advanced:
  "advanced k c \<Longrightarrow> keepsAdvanced k (and_then (applyPostAssembly t pa r c) (applySignature t sig))"
  by (rule returns_and_then [OF applyPostAssembly_advanced applySignature_advanced])

lemma nudges_advanced:
  "advanced k c \<Longrightarrow> keepsAdvanced k (nudgeAssembleRequest t c)"
  "advanced k c \<Longrightarrow> keepsAdvanced k (nudgePreDispatchRequest t c)"
  using Nudge_advanced [of k "sendAssemble t" c] Nudge_advanced [of k "sendPreDispatch t" c]
  by (auto simp: nudgeAssembleRequest_def sendAssemble_def nudgePreDispatchRequest_def sendPreDispatch_def
      transportSend_advanced split_beta split: option.splits intro!: advanced_after)

lemma requestEndorsement_advanced: "advanced k c \<Longrightarrow> keepsAdvanced k (requestEndorsement t cap key c)"
  by (auto simp: requestEndorsement_def transportSend_advanced split: prod.splits sum.splits option.splits)

lemma nudgeRequirements_advanced: "advanced k c \<Longrightarrow> keepsAdvanced k (nudgeRequirements t reqs c)"
proof (induction reqs arbitrary: c)
  case (Cons req reqs)
  have "keepsAdvanced k (nudgeRequirement t req c)"
    using Nudge_advanced [where k = k and send = "requestEndorsement t", OF requestEndorsement_advanced] Cons.prems
    by (auto simp: nudgeRequirement_def NewIdempotentRequest_def newUUID_def split_beta split: option.splits
        intro!: advanced_after)
  then show ?case using Cons.IH by (auto intro!: returns_and_then)
qed simp

lemma sends_advanced:
  "advanced k c \<Longrightarrow> keepsAdvanced k (sendEndorsementRequests t c)"
  "advanced k c \<Longrightarrow> keepsAdvanced k (sendAssembleRequest t c)"
  "advanced k c \<Longrightarrow> keepsAdvanced k (sendPreDispatchRequest t c)"
  "advanced k c \<Longrightarrow> keepsAdvanced k (sendTransactionConfirmed t tc c)"
  by (auto simp: sendEndorsementRequests_def sendAssembleRequest_def sendPreDispatchRequest_def
      sendTransactionConfirmed_def NewIdempotentRequest_def newUUID_def Let_def transportSend_advanced split_beta
      split: option.splits sum.splits intro!: nudgeRequirements_advanced nudges_advanced)

lemma fold_children_advanced:
  "advanced k c \<Longrightarrow> advanced k (fold (\<lambda>pd c'. case cp_NewTransactionID pd of None \<Rightarrow> c'
     | Some child \<Rightarrow> updChainedDeps (SetChainedChild t child) c') ds c)"
  by (induction ds arbitrary: c) (auto split: option.splits)

lemma localActions_advanced: "advanced k c \<Longrightarrow> \<forall>a \<in> set (localActions t). keepsAdvanced k (a ev c)"
  unfolding localActions_def list.set ball_simps
  by (intro conjI TrueI;
      simp add: localActionDefs newUUID_def applyEndorsement_def fold_children_advanced Let_def split_beta
        applyPostAssembly_advanced applySignature_advanced assembleAndSign_advanced sends_advanced nudges_advanced
        transportSend_advanced split: Event.split option.split)

definition advances :: "handleEvent \<Rightarrow> bool" where
  "advances hev \<longleftrightarrow> (\<forall>k d ev c. advanced k c \<longrightarrow> keepsAdvanced k (hev d ev c))"

lemma notify_advanced:
  assumes "advances hev" and "advanced k c"
  shows "keepsAdvanced k (notifyLogged hev ev ds c)" and "keepsAdvanced k (notifyUntilError hev ev ds c)"
proof -
  have one: "keepsAdvanced k (hev d ev c1)" if "advanced k c1" for d c1
    using assms(1) that by (simp add: advances_def)
  show "keepsAdvanced k (notifyLogged hev ev ds c)"
    using assms(2) by (induction ds arbitrary: c) (auto intro!: returns_and_then one)
  show "keepsAdvanced k (notifyUntilError hev ev ds c)"
    using assms(2) by (induction ds arbitrary: c) (auto intro!: returns_and_then one)
qed

lemma notifyingActions_advanced:
  assumes "advances hev" and "advanced k c"
  shows "\<forall>a \<in> set (notifyingActions hev t). keepsAdvanced k (a ev c)"
proof -
  have "keepsAdvanced k (hev d e c)" for d e
    using assms by (simp add: advances_def)
  then show ?thesis
    using assms(2) notify_advanced [OF assms]
    by (simp add: notifyingActions_def notifyingActionDefs advanced_after split: option.split)
qed

lemma machine_advanced:
  assumes "advances hev"
  shows "machine_invariant (txMachine hev t) (advanced k) ev"
proof (unfold_locales, goal_cases)
  case (4 r c)
  then show ?case
    using machine_rule_actions [OF 4(1)] localActions_advanced notifyingActions_advanced [OF assms] by blast
qed simp_all

lemma advances_HandleEvent: "advances (coordinatorTransactionHandleEvent n)"
proof (induction n)
  case (Suc n)
  from machine_invariant.ProcessEvent_inv [OF machine_advanced [OF this]]
  show ?case by (auto simp: advances_def HandleEvent_def split: option.split)
qed (simp add: advances_def)

interpretation txAdvance: machine_invariant "txMachine (coordinatorTransactionHandleEvent n) t" "advanced k" ev
  for n t k ev
  by (rule machine_advanced [OF advances_HandleEvent])

end
