(* ===== verification/CoordinatorFrame.thy ===== *)
theory CoordinatorFrame
  imports CoordinatorInvariant TransactionAdvance
begin

text \<open>
  What the actions of the coordinator leave alone: its state and lock, which only the engine sets; the
  settings it was created with; and the order of its dispatches. A dispatch travels from the queue
  through the loop into a persisted batch; on the way dispatches may be dropped and new ones join at the
  end, but none overtakes another and none is doubled.
\<close>

section \<open>The dispatch pipeline\<close>

fun inLoop :: "dispatchLoopPhase \<Rightarrow> PendingDispatch list" where
  "inLoop LoopStopped = []"
| "inLoop LoopReceiving = []"
| "inLoop (LoopAwaitingCapacity qd) = [snd qd]"
| "inLoop (LoopBatch rest accepted) = accepted @ map snd rest"

definition pipeline :: "coordinatorNode \<Rightarrow> PendingDispatch list" where
  "pipeline s = concat (persistedBatches s) @ inLoop (dispatchLoopPhase s) @ map snd (dispatchQueue (txs s))"

definition keepsOrder :: "PendingDispatch list \<Rightarrow> PendingDispatch list \<Rightarrow> bool" where
  "keepsOrder before after \<longleftrightarrow> (\<exists>new. subseq after (before @ new))"

lemma keepsOrder_refl [simp]: "keepsOrder p p"
  unfolding keepsOrder_def by (rule exI [of _ "[]"]) simp

lemma keepsOrder_trans: "keepsOrder p q \<Longrightarrow> keepsOrder q r \<Longrightarrow> keepsOrder p r"
  unfolding keepsOrder_def
  by (metis append.assoc list_emb_append_mono subseq_order.refl subseq_order.trans)

lemma keepsOrder_parts:
  assumes "subseq a' a" and "keepsOrder b b'"
  shows "keepsOrder (a @ b) (a' @ b')"
  using assms unfolding keepsOrder_def by (metis append.assoc list_emb_append_mono)

lemma keepsOrder_new: "subseq a' a \<Longrightarrow> keepsOrder a (a' @ new)"
  unfolding keepsOrder_def by (metis list_emb_append_mono subseq_order.refl)

section \<open>The frame\<close>

definition settings :: "coordinatorNode \<Rightarrow> coordinatorNode" where
  "settings s = s\<lparr>txs := undefined, coordState := CoordinatorState_Initial, coordLocked := False,
     currentActiveCoordinator := [], coordIntervalsSinceStateChange := 0, heartbeatIntervalsSinceLastReceive := 0,
     transactionIDs := [], pooledTransactions := [], assemblyInFlight := False, assemblingTxID := uuid_Nil,
     originatorActivity := [], pendingHandoverRequest := None, inFlightEndorsements := [],
     endorsementsStarted := [], cancelRequestTimeout := None, cancelStateTimeout := None,
     dispatchLoopPhase := LoopStopped, commitsTried := 0, persistedBatches := [], childrenSubmitted := []\<rparr>"

definition steady :: "coordinatorNode \<Rightarrow> coordinatorNode \<Rightarrow> bool" where
  "steady k s \<longleftrightarrow> settings s = settings k \<and> fixed (txs s) = fixed (txs k) \<and> keepsOrder (pipeline k) (pipeline s)"

definition moves :: "coordinatorNode \<Rightarrow> coordinatorNode \<Rightarrow> bool" where
  "moves k s \<longleftrightarrow> coordState s = coordState k \<and> coordLocked s = coordLocked k
     \<and> currentActiveCoordinator s = currentActiveCoordinator k \<and> inFlightEndorsements s = inFlightEndorsements k
     \<and> endorsementsStarted s = endorsementsStarted k \<and> steady k s"

lemma moves_refl [simp]: "moves s s"
  by (simp add: moves_def steady_def)

lemma moves_trans: "moves a b \<Longrightarrow> moves b c \<Longrightarrow> moves a c"
  unfolding moves_def steady_def by (metis keepsOrder_trans)

lemma moves_outer [simp]:
  "moves k (s\<lparr>coordIntervalsSinceStateChange := i\<rparr>) = moves k s"
  "moves k (s\<lparr>heartbeatIntervalsSinceLastReceive := i\<rparr>) = moves k s"
  "moves k (s\<lparr>transactionIDs := ids\<rparr>) = moves k s" "moves k (s\<lparr>pooledTransactions := ids\<rparr>) = moves k s"
  "moves k (s\<lparr>assemblyInFlight := b\<rparr>) = moves k s" "moves k (s\<lparr>assemblingTxID := t\<rparr>) = moves k s"
  "moves k (s\<lparr>originatorActivity := oa\<rparr>) = moves k s"
  "moves k (s\<lparr>pendingHandoverRequest := p\<rparr>) = moves k s"
  "moves k (s\<lparr>cancelRequestTimeout := ct\<rparr>) = moves k s" "moves k (s\<lparr>cancelStateTimeout := ct\<rparr>) = moves k s"
  "moves k (s\<lparr>commitsTried := m\<rparr>) = moves k s" "moves k (s\<lparr>childrenSubmitted := cs\<rparr>) = moves k s"
  by (simp_all add: moves_def steady_def settings_def pipeline_def)

text \<open>What moves the part of the transactions, and what moves the dispatches.\<close>

lemma moves_txs:
  assumes "moves k s" and "advanced (txs s) c"
  shows "moves k (s\<lparr>txs := c\<rparr>)"
proof -
  from assms(2) obtain new where q: "dispatchQueue c = dispatchQueue (txs s) @ new"
    and f: "fixed c = fixed (txs s)" by (auto simp: advanced_def prefix_def)
  have "keepsOrder (pipeline s) (pipeline s @ map snd new)" by (rule keepsOrder_new) simp
  then have "moves s (s\<lparr>txs := c\<rparr>)" using q f by (simp add: moves_def steady_def settings_def pipeline_def)
  with assms(1) show ?thesis by (rule moves_trans)
qed

lemma moves_updTxs: "moves k s \<Longrightarrow> advanced (txs s) (f (txs s)) \<Longrightarrow> moves k (updTxs f s)"
  by (simp add: updTxs_def moves_txs)

lemma moves_onTxs: "moves k s \<Longrightarrow> returns (advanced (txs s)) (f (txs s)) \<Longrightarrow> returns (moves k) (onTxs f s)"
  by (cases "f (txs s)") (auto simp: onTxs_def moves_txs)

lemma moves_txHandleEvent: "moves k s \<Longrightarrow> returns (moves k) (txHandleEvent t ev s)"
  unfolding txHandleEvent_def
  by (rule moves_onTxs) (use advances_HandleEvent advances_def advanced_refl in blast)+

lemma moves_nodeSend: "moves k s \<Longrightarrow> returns (moves k) (nodeSend n m s)"
  by (auto simp: nodeSend_def intro!: moves_onTxs transportSend_advanced)

lemma moves_small [simp]:
  "moves k s \<Longrightarrow> moves k (updTxs (updateEndorserCandidates ns) s)"
  "moves k s \<Longrightarrow> moves k (updTxs calculateCoordinatorPriorities s)"
  "moves k s \<Longrightarrow> moves k (updTxs refreshBlockHeight s)" "moves k s \<Longrightarrow> moves k (updTxs (updGrapher g) s)"
  "moves k s \<Longrightarrow> moves k (updTxs (\<lambda>c. c\<lparr>transactionsByID := m c\<rparr>) s)"
  "moves k s \<Longrightarrow> moves k (queueEventInternal ev s)"
  "moves k s \<Longrightarrow> moves k (updTxs (\<lambda>c. case newUUID c of (u, c1) \<Rightarrow> c1\<lparr>signingIdentity := i c u, signingIdentityUsed := b\<rparr>) s)"
  by (auto simp: queueEventInternal_def newUUID_def intro!: moves_updTxs)

section \<open>The operations\<close>

lemma moves_propagate: "moves k s \<Longrightarrow> returns (moves k) (propagateLoop ev ts s)"
  by (induction ts arbitrary: s) (auto intro!: returns_and_then moves_txHandleEvent)

lemma moves_pool [simp]:
  "moves k (addTransactionToBackOfPool t s) = moves k s" "moves k (removeTransactionFromPool t s) = moves k s"
  "moves k (snd (popNextPooledTransaction s)) = moves k s"
  "moves k (coord_scheduleRequestTimeout s) = moves k s" "moves k (coord_scheduleStateTimeout s) = moves k s"
  "moves k (coord_clearTimeoutSchedules s) = moves k s" "moves k (updateOriginatorActivity s) = moves k s"
  "moves k (recordOriginatorActivity n s) = moves k s"
  by (simp_all add: addTransactionToBackOfPool_def removeTransactionFromPool_def popNextPooledTransaction_def
      coord_scheduleRequestTimeout_def coord_scheduleStateTimeout_def coord_clearTimeoutSchedules_def
      updateOriginatorActivity_def recordOriginatorActivity_def Let_def split: list.split)

lemma moves_select: "moves k s \<Longrightarrow> returns (moves k) (selectNextTransactionToAssemble s)"
  using moves_pool(3) [of k s]
  by (cases "popNextPooledTransaction s")
     (auto simp: selectNextTransactionToAssemble_def split: option.split
       intro!: returns_and_then [where P = "moves k"] moves_txHandleEvent)

lemma moves_cleanUp [simp]: "moves k s \<Longrightarrow> moves k (cleanUpTransaction t s)"
  by (auto simp: cleanUpTransaction_def split: option.split)

lemma moves_fold_cleanUp: "moves k s \<Longrightarrow> moves k (fold (\<lambda>x. cleanUpTransaction (f x)) ts s)"
  by (induction ts arbitrary: s) auto

lemma moves_clearQueue: "moves k s \<Longrightarrow> moves k (updTxs (\<lambda>c. c\<lparr>dispatchQueue := []\<rparr>) s)"
proof -
  have "pipeline s = pipeline (updTxs (\<lambda>c. c\<lparr>dispatchQueue := []\<rparr>) s) @ map snd (dispatchQueue (txs s))"
    by (simp add: pipeline_def updTxs_def)
  then have "subseq (pipeline (updTxs (\<lambda>c. c\<lparr>dispatchQueue := []\<rparr>) s)) (pipeline s)"
    by (metis list_emb_append_mono append_Nil2 list_emb_Nil subseq_order.refl)
  then have "keepsOrder (pipeline s) (pipeline (updTxs (\<lambda>c. c\<lparr>dispatchQueue := []\<rparr>) s))"
    using keepsOrder_new [of _ "pipeline s" "[]"] by simp
  then have "moves s (updTxs (\<lambda>c. c\<lparr>dispatchQueue := []\<rparr>) s)"
    by (simp add: moves_def steady_def settings_def updTxs_def fixed_def)
  then show "moves k s \<Longrightarrow> moves k (updTxs (\<lambda>c. c\<lparr>dispatchQueue := []\<rparr>) s)" by (rule moves_trans [rotated])
qed

lemma moves_newTransaction: "moves k s \<Longrightarrow> moves k (snd (newTransaction orig node tx s))"
proof -
  have "advanced c (addChainedDependencies t ds c1)" if "advanced c c1" for c c1 t ds
    using that by (induction ds arbitrary: c1) (auto simp: Let_def split: option.split)
  then show "moves k s \<Longrightarrow> moves k (snd (newTransaction orig node tx s))"
    by (auto simp: newTransaction_def intro!: moves_updTxs)
qed

lemma moves_delegateOne:
  assumes "moves k s" and "delegateOne orig node tx d s = Some (d', s')"
  shows "moves k s'"
proof -
  let ?t = "pt_ID tx"
  let ?s1 = "snd (newTransaction orig node tx (chainToPrevious ?t (dl_previous d) s))"
  let ?s2 = "storeTransaction ?t (fst (newTransaction orig node tx (chainToPrevious ?t (dl_previous d) s))) ?s1"
  have "moves k (chainToPrevious ?t (dl_previous d) s)"
    using assms(1) by (auto simp: chainToPrevious_def split: option.split intro!: moves_updTxs)
  then have "moves k ?s2" by (simp add: storeTransaction_def moves_newTransaction)
  then have "returns (moves k) (txHandleEvent ?t DelegatedEvent ?s2)" by (rule moves_txHandleEvent)
  with assms show ?thesis
    by (cases "txHandleEvent ?t DelegatedEvent ?s2")
       (auto simp: delegateOne_def Let_def split_beta dropTransaction_def split: if_splits)
qed

lemma moves_delegateLoop: "moves k s \<Longrightarrow> delegateLoop orig node txns d s = Some (d', s') \<Longrightarrow> moves k s'"
  by (induction txns arbitrary: d s) (auto split: option.splits dest: moves_delegateOne)

lemma moves_addToDelegated: "moves k s \<Longrightarrow> returns (moves k) (addToDelegatedTransactions orig txns i s)"
  by (auto simp: addToDelegatedTransactions_def split: sum.split option.split
      intro!: returns_and_then [where P = "moves k"] moves_nodeSend dest: moves_delegateLoop)

lemma moves_heartbeat: "moves k s \<Longrightarrow> returns (moves k) (heartbeatLoop snap l ns err s)"
  by (rule heartbeatLoop_inv [OF moves_nodeSend])

lemma moves_nudgeHandover:
  assumes "moves k s"
  shows "returns (moves k) (nudgeHandover r s)"
proof -
  let ?n = "Nudge (\<lambda>_ _. transportSend (currentActiveCoordinator s) CoordinatorHandoverRequest) r (txs s)"
  have "returns (advanced (txs s)) (snd ?n)" by (rule Nudge_advanced) (simp_all add: transportSend_advanced)
  with assms show ?thesis
    by (cases ?n) (auto simp: nudgeHandover_def moves_txs split: outcome.split)
qed

lemma moves_handover:
  assumes "moves k s"
  shows "returns (moves k) (sendHandoverRequest s)" and "returns (moves k) (nudgeHandoverRequest s)"
proof -
  have "moves k (s\<lparr>txs := snd (newUUID (txs s))\<rparr>)" by (rule moves_txs [OF assms]) simp
  then show "returns (moves k) (sendHandoverRequest s)"
    using assms by (auto simp: sendHandoverRequest_def NewIdempotentRequest_def split_beta split: option.split
        intro!: moves_nudgeHandover)
  show "returns (moves k) (nudgeHandoverRequest s)"
    using assms by (auto simp: nudgeHandoverRequest_def moves_nudgeHandover split: option.split)
qed

section \<open>The dispatch loop\<close>

text \<open>While a batch is handed over, only the part of the transactions moves.\<close>

definition onlyTxs :: "coordinatorNode \<Rightarrow> coordinatorNode \<Rightarrow> bool" where
  "onlyTxs k s \<longleftrightarrow> (\<exists>c. s = k\<lparr>txs := c\<rparr> \<and> advanced (txs k) c)"

lemma onlyTxs_onTxs:
  "onlyTxs k s \<Longrightarrow> returns (advanced (txs k)) (f (txs s)) \<Longrightarrow> returns (onlyTxs k) (onTxs f s)"
  by (cases "f (txs s)") (auto simp: onTxs_def onlyTxs_def)

lemma onlyTxs_handOver: "onlyTxs k s \<Longrightarrow> returns (onlyTxs k) (handOverDispatch qd s)"
proof -
  assume k: "onlyTxs k s"
  then have "advanced (txs k) (txs s)" by (auto simp: onlyTxs_def)
  then have "returns (onlyTxs k) (txHandleEvent t ev s)" for t ev
    unfolding txHandleEvent_def
    by (intro onlyTxs_onTxs [OF k]) (use advances_HandleEvent advances_def in blast)
  with k show ?thesis by (auto simp: handOverDispatch_def split: option.split)
qed

lemma dispatchBatchLoop_order:
  assumes "onlyTxs k s" and "dispatchBatchLoop qds acc s = Some (acc', s')"
  shows "onlyTxs k s' \<and> subseq acc' (acc @ map snd qds)"
  using assms
proof (induction qds arbitrary: acc s)
  case (Cons qd qds)
  obtain s1 where s1: "handOverDispatch qd s = Ok s1"
    and rest: "dispatchBatchLoop qds (if isDispatched (fst qd) s1 then acc @ [snd qd] else acc) s1 = Some (acc', s')"
    using Cons.prems(2) by (auto split: outcome.splits)
  have "onlyTxs k s1" using onlyTxs_handOver [OF Cons.prems(1), of qd] s1 by simp
  from Cons.IH [OF this rest]
  have IH: "onlyTxs k s'" "subseq acc' ((if isDispatched (fst qd) s1 then acc @ [snd qd] else acc) @ map snd qds)" by auto
  moreover have "subseq (acc @ map snd qds) (acc @ map snd (qd # qds))"
    by (auto intro: list_emb_append_mono)
  ultimately show ?case by (auto split: if_splits intro: subseq_order.trans)
qed simp

lemma moves_batch:
  assumes "onlyTxs s s'" and "inLoop (dispatchLoopPhase s) = pds" and "subseq pds' pds"
    and "concat pb @ inLoop p = concat (persistedBatches s) @ pds'"
  shows "moves s (s'\<lparr>dispatchLoopPhase := p, persistedBatches := pb\<rparr>)"
proof -
  from assms(1) obtain c new where s': "s' = s\<lparr>txs := c\<rparr>" and q: "dispatchQueue c = dispatchQueue (txs s) @ new"
    and f: "fixed c = fixed (txs s)" by (auto simp: onlyTxs_def advanced_def prefix_def)
  have "subseq (concat (persistedBatches s) @ pds' @ map snd (dispatchQueue (txs s)))
      (concat (persistedBatches s) @ pds @ map snd (dispatchQueue (txs s)))"
    using assms(3) by (intro list_emb_append_mono) simp_all
  from keepsOrder_new [OF this, of "map snd new"]
  have "keepsOrder (pipeline s) ((concat (persistedBatches s) @ pds') @ map snd (dispatchQueue (txs s)) @ map snd new)"
    using assms(2) by (simp add: pipeline_def)
  then have "keepsOrder (pipeline s) (pipeline (s'\<lparr>dispatchLoopPhase := p, persistedBatches := pb\<rparr>))"
    unfolding assms(4) [symmetric] by (simp add: pipeline_def s' q)
  with s' f show ?thesis by (simp add: moves_def steady_def settings_def)
qed

lemma onlyTxs_refl [simp]: "onlyTxs s s"
  unfolding onlyTxs_def by (rule exI [of _ "txs s"]) simp

lemma children_only: "\<exists>cs. fold (\<lambda>pd. handleChainedChildren (pd_Dispatch pd)) pds s = s\<lparr>childrenSubmitted := cs\<rparr>"
proof (induction pds arbitrary: s)
  case Nil
  show ?case by (rule exI [of _ "childrenSubmitted s"]) simp
next
  case (Cons pd pds)
  from Cons.IH [of "handleChainedChildren (pd_Dispatch pd) s"] show ?case
    by (auto simp: handleChainedChildren_def)
qed

lemma moves_commit:
  "moves k ((snd (commitBatch acc s))\<lparr>dispatchLoopPhase := p\<rparr>)
    = moves k (s\<lparr>dispatchLoopPhase := p, persistedBatches :=
        (if fst (commitBatch acc s) then persistedBatches s @ [acc] else persistedBatches s)\<rparr>)"
proof -
  obtain cs where "fold (\<lambda>pd. handleChainedChildren (pd_Dispatch pd)) acc
      (s\<lparr>commitsTried := Suc (commitsTried s), persistedBatches := persistedBatches s @ [acc]\<rparr>)
    = s\<lparr>commitsTried := Suc (commitsTried s), persistedBatches := persistedBatches s @ [acc], childrenSubmitted := cs\<rparr>"
    using children_only by blast
  then show ?thesis by (simp add: commitBatch_def moves_def steady_def settings_def pipeline_def)
qed

lemma moves_finishBatch:
  assumes "dispatchLoopPhase s = LoopBatch rest acc"
  shows "returns (moves s) (finishBatch rest acc s)"
proof -
  have "moves s ((snd (commitBatch acc1 s1))\<lparr>dispatchLoopPhase := LoopStopped\<rparr>)"
    if "dispatchBatchLoop rest acc s = Some (acc1, s1)" for acc1 s1
  proof -
    from dispatchBatchLoop_order [OF onlyTxs_refl that]
    have o: "onlyTxs s s1" and q: "subseq acc1 (acc @ map snd rest)" by auto
    then have "persistedBatches s1 = persistedBatches s" by (auto simp: onlyTxs_def)
    then show ?thesis
      using moves_batch [OF o _ q, of "persistedBatches s @ [acc1]" LoopStopped]
        moves_batch [OF o _ list_emb_Nil, of "acc @ map snd rest" "persistedBatches s" LoopStopped] assms
      by (simp add: moves_commit)
  qed
  then show ?thesis by (auto simp: finishBatch_def split: option.split)
qed

lemma moves_receive: "dispatchReceive s = Some s' \<Longrightarrow> moves s s'"
  by (auto simp: dispatchReceive_def moves_def steady_def settings_def pipeline_def updTxs_def fixed_def
      split: dispatchLoopPhase.splits list.splits)

lemma moves_pull: "dispatchPull s = Some s' \<Longrightarrow> moves s s'"
  by (auto simp: dispatchPull_def pullDispatchBatch_def moves_def steady_def settings_def pipeline_def updTxs_def
      fixed_def simp flip: map_append split: dispatchLoopPhase.splits option.splits)

lemma moves_batchStep:
  assumes "dispatchBatchStep s = Some s'"
  shows "moves s s'"
proof -
  from assms obtain qds acc where p: "dispatchLoopPhase s = LoopBatch qds acc"
    by (auto simp: dispatchBatchStep_def split: dispatchLoopPhase.splits)
  show ?thesis
  proof (cases qds)
    case Nil
    show ?thesis
    proof (cases "fst (commitBatch acc s)")
      case True
      with assms p Nil have "s' = (snd (commitBatch acc s))\<lparr>dispatchLoopPhase := LoopReceiving\<rparr>"
        by (auto simp: dispatchBatchStep_def split: prod.splits)
      then show ?thesis
        using moves_batch [OF onlyTxs_refl, of s acc acc "persistedBatches s @ [acc]" LoopReceiving] p Nil True
        by (simp add: moves_commit)
    next
      case False
      with assms p Nil have "s' = s\<lparr>commitsTried := Suc (commitsTried s)\<rparr>"
        by (auto simp: dispatchBatchStep_def commitBatch_def split: if_splits)
      then show ?thesis by simp
    qed
  next
    case (Cons qd rest)
    with assms p obtain acc1 s1 where b: "dispatchBatchLoop [qd] acc s = Some (acc1, s1)"
      and s': "s' = s1\<lparr>dispatchLoopPhase := LoopBatch rest acc1\<rparr>"
      by (auto simp: dispatchBatchStep_def simp del: dispatchBatchLoop.simps split: option.splits)
    from dispatchBatchLoop_order [OF onlyTxs_refl b]
    have o: "onlyTxs s s1" and q: "subseq (acc1 @ map snd rest) (acc @ map snd qds)"
      using Cons list_emb_append_mono [of "(=)" acc1 "acc @ [snd qd]" "map snd rest" "map snd rest"] by auto
    then have "s1\<lparr>dispatchLoopPhase := LoopBatch rest acc1, persistedBatches := persistedBatches s\<rparr> = s'"
      by (auto simp: onlyTxs_def s')
    then show ?thesis
      using moves_batch [OF o _ q, of "persistedBatches s" "LoopBatch rest acc1"] p by simp
  qed
qed

lemma moves_stop: "moves k s \<Longrightarrow> returns (moves k) (stopDispatchLoop s)"
proof (rule returns_mono [where P = "moves s"])
  show "returns (moves s) (stopDispatchLoop s)"
  proof (cases "dispatchPull s")
    case None
    then show ?thesis
      using moves_finishBatch [of s] moves_batch [OF onlyTxs_refl _ list_emb_Nil, of s _ "persistedBatches s" LoopStopped]
      by (cases "dispatchLoopPhase s") (auto simp: stopDispatchLoop_def)
  next
    case (Some s1)
    then show ?thesis
      using moves_pull [OF Some] moves_finishBatch [of s1] moves_trans
      by (cases "dispatchLoopPhase s1") (auto simp: stopDispatchLoop_def elim!: returns_mono)
  qed
qed (rule moves_trans)

section \<open>The table\<close>

lemma moves_start [simp]: "moves k (startDispatchLoop s) = moves k s"
  by (auto simp: startDispatchLoop_def moves_def steady_def settings_def pipeline_def)

text \<open>
  Three actions say who the active coordinator is, one starts an endorsement; the others move as
  described.
\<close>

definition namingActions :: "(CoordinatorEvent, coordinatorNode, coordError) Action list" where
  "namingActions = [action_UpdateActiveCoordinator, action_SetSelfAsActiveCoordinator,
     action_UpdateActiveCoordinatorFromEndorsementRequest]"

definition movingActions :: "(CoordinatorEvent, coordinatorNode, coordError) Action list" where
  "movingActions =
     [action_SelectTransaction, action_PoolTransaction, action_CleanUpTransaction,
      action_CleanUpTransactionsNotYetDispatched, action_ClearAssemblyInFlight,
      action_cancelCurrentlyAssemblingTransaction, action_SendHandoverRequest, action_NudgeHandoverRequest,
      coord_action_ScheduleStateTimeout, action_ClearTimeoutSchedules, action_AddEndorsersFromSnapshot,
      action_ResetHeartbeatIntervalsSinceLastReceive, action_IncrementHeartbeatIntervalCounts,
      coord_action_IncrementHeartbeatIntervalsSinceStateChange, action_ProcessConfirmedTransactionsFromSnapshot,
      action_ImportStatesAndLocks, action_SendHeartbeat, action_SendHeartbeatWithLocks,
      action_UpdateOriginatorActivity, action_PropagateHeartbeatIntervalToTransactions,
      coord_action_RefreshBlockHeight, action_CalculateCoordinatorPriorities, action_NewSigningIdentity,
      action_RejectDelegationRequestBlockHeight, action_RejectDelegationRequest, action_ProcessDelegatedTransactions,
      action_RejectEndorsementPrivateStateDataPending, action_RejectEndorsementBlockHeight,
      action_RejectEndorsementEndorserIsActiveCoordinator,
      action_AddEndorsementRequestSenderToEndorserCandidates, action_StartDispatchLoop, action_QueueRestartDispatchLoop, action_StopDispatchLoop]"

lemma coordActions_split:
  "set coordActions = insert action_HandleEndorsementRequest (set movingActions \<union> set namingActions)"
  unfolding coordActions_def movingActions_def namingActions_def by auto

lemma movingActions_moves:
  assumes "moves k s"
  shows "\<forall>a \<in> set movingActions. returns (moves k) (a ev s)"
  unfolding movingActions_def list.set ball_simps
  using assms
  by (intro conjI TrueI;
      simp add: coordActionDefs moves_select moves_fold_cleanUp moves_fold_cleanUp [where f = "\<lambda>x. x", simplified]
        moves_clearQueue moves_handover sendHeartbeat_def
        moves_heartbeat propagateEventToAllTransactions_def moves_propagate moves_nodeSend moves_addToDelegated
        moves_stop moves_txHandleEvent Let_def
        split: CoordinatorEvent.split option.split prod.split)

lemma namingActions_names:
  "\<forall>a \<in> set namingActions. returns (\<lambda>s'. \<exists>n. s' = s\<lparr>currentActiveCoordinator := n\<rparr>) (a ev s)"
  by (auto simp: namingActions_def coordActionDefs split: CoordinatorEvent.split
      intro: exI [of _ "currentActiveCoordinator s"])

lemma steady_simps [simp]:
  "steady k (s\<lparr>coordState := st\<rparr>) = steady k s" "steady k (s\<lparr>coordLocked := b\<rparr>) = steady k s"
  "steady k (s\<lparr>coordIntervalsSinceStateChange := i\<rparr>) = steady k s"
  "steady k (s\<lparr>currentActiveCoordinator := n\<rparr>) = steady k s"
  "steady k (s\<lparr>inFlightEndorsements := ie\<rparr>) = steady k s" "steady k (s\<lparr>endorsementsStarted := es\<rparr>) = steady k s"
  by (simp_all add: steady_def settings_def pipeline_def)

definition keepingActions :: "(CoordinatorEvent, coordinatorNode, coordError) Action list" where
  "keepingActions = action_HandleEndorsementRequest # movingActions"

lemma steady_refl [simp]: "steady s s"
  by (simp add: steady_def)

lemma keepingActions_keep:
  assumes "a \<in> set keepingActions"
  shows "returns (\<lambda>s'. coordState s' = coordState s \<and> coordLocked s' = coordLocked s
      \<and> currentActiveCoordinator s' = currentActiveCoordinator s \<and> steady s s') (a ev s)"
proof (cases "a \<in> set movingActions")
  case True
  then have "returns (moves s) (a ev s)" using movingActions_moves [of s s ev] by simp
  then show ?thesis by (rule returns_mono) (simp add: moves_def)
next
  case False
  with assms have "a = action_HandleEndorsementRequest" by (simp add: keepingActions_def)
  then show ?thesis
    by (simp add: action_HandleEndorsementRequest_def beginEndorsement_def split: CoordinatorEvent.split)
qed

lemma coord_rule_moves:
  assumes "machine_rule coordMachine r"
  shows "returns (\<lambda>s'. coordState s' = coordState s \<and> coordLocked s' = coordLocked s \<and> steady s s') (act r ev s)"
proof -
  consider "act r \<in> set keepingActions" | "act r \<in> set namingActions"
    using coord_rule_actions [OF assms] coordActions_split by (auto simp: keepingActions_def)
  then show ?thesis
  proof cases
    case 1
    from keepingActions_keep [OF this] show ?thesis by (rule returns_mono) simp
  next
    case 2
    then have "returns (\<lambda>s'. \<exists>n. s' = s\<lparr>currentActiveCoordinator := n\<rparr>) (act r ev s)" using namingActions_names by blast
    then show ?thesis by (rule returns_mono) auto
  qed
qed

lemma steady_trans: "steady a b \<Longrightarrow> steady b c \<Longrightarrow> steady a c"
  unfolding steady_def by (metis keepsOrder_trans)

interpretation coordSteady: machine_invariant coordMachine "steady k" ev for k ev
proof (unfold_locales, goal_cases)
  case (4 r s)
  from coord_rule_moves [OF 4(1), of s ev] show ?case
    by (rule returns_mono) (use 4(2) steady_trans in blast)
qed simp_all

interpretation coordOwned: owned_state coordMachine ev "\<lambda>s. True" for ev
proof (unfold_locales, goal_cases)
  case (13 r s)
  from coord_rule_moves [OF 13(1), of s ev] show ?case
    by (rule returns_mono) (use 13(3) in simp)
qed simp_all

lemma coord_processEvent_steady: "steady k s \<Longrightarrow> returns (steady k) (coord_processEvent ev s)"
proof -
  assume k: "steady k s"
  have m: "returns (moves (s\<lparr>coordLocked := True\<rparr>)) (propagateEventToTransaction t e (s\<lparr>coordLocked := True\<rparr>))" for t e
    by (auto simp: propagateEventToTransaction_def split: option.split intro!: moves_txHandleEvent)
  have "returns (steady k) (propagateEventToTransaction t e (s\<lparr>coordLocked := True\<rparr>))" for t e
    using m by (rule returns_mono) (use k in \<open>auto simp: moves_def steady_def settings_def pipeline_def intro: keepsOrder_trans\<close>)
  then show ?thesis
    using coordSteady.ProcessEvent_inv [OF k] k
    by (auto simp: coord_processEvent_def preProcessEvent_def split: CoordinatorEvent.split)
qed

end
