(* ===== verification/Config.thy ===== *)
theory Config
  imports Retry
begin

text \<open>
  The configuration of the sequencer (\<^verbatim>\<open>config/pkg/pldconf/sequencermgr.go\<close>): values that may be left out,
  the defaults that then apply, the minimum below which no value is taken, and the helper functions of
  \<^verbatim>\<open>config/pkg/confutil/confutil.go\<close> that combine the three. A duration is a string in the configuration;
  \<open>ParseDuration\<close> stands for the parser of Go's \<^verbatim>\<open>time\<close> package, which gives nanoseconds.
\<close>

section \<open>Reading a value\<close>

definition IntMin :: "int option \<Rightarrow> int \<Rightarrow> int \<Rightarrow> int" where
  "IntMin iVal minVal defVal = (case iVal of None \<Rightarrow> defVal | Some i \<Rightarrow> if i < minVal then minVal else i)"

definition IntMinIfPositive :: "int option \<Rightarrow> int \<Rightarrow> int \<Rightarrow> int" where
  "IntMinIfPositive iVal minVal defVal =
     (case iVal of None \<Rightarrow> defVal | Some i \<Rightarrow> if i < 0 \<or> i \<ge> minVal then i else minVal)"

definition Uint64Min :: "uint64 option \<Rightarrow> uint64 \<Rightarrow> uint64 \<Rightarrow> uint64" where
  "Uint64Min iVal minVal defVal = (case iVal of None \<Rightarrow> defVal | Some i \<Rightarrow> if i < minVal then minVal else i)"

definition DurationMin :: "(string \<Rightarrow> int option) \<Rightarrow> string option \<Rightarrow> int \<Rightarrow> string \<Rightarrow> int" where
  "DurationMin ParseDuration sVal minVal defVal =
     (case Option.bind sVal ParseDuration of
        None \<Rightarrow> (case ParseDuration defVal of None \<Rightarrow> 0 | Some d \<Rightarrow> d)
      | Some d \<Rightarrow> if d < minVal then minVal else d)"

section \<open>The sequencer's configuration\<close>

text \<open>
  The fields the coordinator and the originator read. Those of the sequencer manager (cleanup of idle
  sequencers, resumption of transactions, the writer) and the delays of the retries are left out.
\<close>

record SequencerConfig =
  cf_AssembleErrorRetryThreshold :: "int option"
  cf_BaseLedgerRevertRetryThreshold :: "int option"
  cf_BlockHeightTolerance :: "uint64 option"
  cf_BlockRange :: "uint64 option"
  cf_ClosingGracePeriod :: "int option"
  cf_CoordinatorEventQueueSize :: "int option"
  cf_CoordinatorPriorityEventQueueSize :: "int option"
  cf_DelegationBatchInterval :: "string option"
  cf_DispatchMaxBatchSize :: "int option"
  cf_EndorseErrorRetry_MaxAttempts :: "int option"
  cf_HeartbeatInterval :: "string option"
  cf_InactiveGracePeriod :: "int option"
  cf_MaxDispatchAhead :: "int option"
  cf_MaxInflightTransactions :: "int option"
  cf_OriginatorEventQueueSize :: "int option"
  cf_OriginatorPriorityEventQueueSize :: "int option"
  cf_RequestTimeout :: "string option"
  cf_SignErrorRetryThreshold :: "int option"
  cf_StateTimeout :: "string option"

record SequencerMinimumConfig =
  mn_AssembleErrorRetryThreshold :: int
  mn_BaseLedgerRevertRetryThreshold :: int
  mn_BlockHeightTolerance :: uint64
  mn_BlockRange :: uint64
  mn_ClosingGracePeriod :: int
  mn_CoordinatorEventQueueSize :: int
  mn_CoordinatorPriorityEventQueueSize :: int
  mn_DelegationBatchInterval :: int
  mn_DispatchMaxBatchSize :: int
  mn_HeartbeatInterval :: int
  mn_InactiveGracePeriod :: int
  mn_MaxDispatchAhead :: int
  mn_MaxInflightTransactions :: int
  mn_OriginatorEventQueueSize :: int
  mn_OriginatorPriorityEventQueueSize :: int
  mn_RequestTimeout :: int
  mn_SignErrorRetryThreshold :: int
  mn_StateTimeout :: int

definition SequencerDefaults :: SequencerConfig where
  "SequencerDefaults =
     \<lparr>cf_AssembleErrorRetryThreshold = Some 3, cf_BaseLedgerRevertRetryThreshold = Some 3,
      cf_BlockHeightTolerance = Some 5, cf_BlockRange = Some 100, cf_ClosingGracePeriod = Some 2,
      cf_CoordinatorEventQueueSize = Some 100, cf_CoordinatorPriorityEventQueueSize = Some 500,
      cf_DelegationBatchInterval = Some ''50ms'', cf_DispatchMaxBatchSize = Some 100,
      cf_EndorseErrorRetry_MaxAttempts = Some 3, cf_HeartbeatInterval = Some ''10s'', cf_InactiveGracePeriod = Some 2,
      cf_MaxDispatchAhead = Some 50, cf_MaxInflightTransactions = Some 500, cf_OriginatorEventQueueSize = Some 50,
      cf_OriginatorPriorityEventQueueSize = Some 500, cf_RequestTimeout = Some ''3s'',
      cf_SignErrorRetryThreshold = Some 3, cf_StateTimeout = Some ''10s''\<rparr>"

abbreviation second :: int where
  "second \<equiv> 1000000000"

definition SequencerMinimum :: SequencerMinimumConfig where
  "SequencerMinimum =
     \<lparr>mn_AssembleErrorRetryThreshold = 0, mn_BaseLedgerRevertRetryThreshold = 0, mn_BlockHeightTolerance = 1,
      mn_BlockRange = 10, mn_ClosingGracePeriod = 1, mn_CoordinatorEventQueueSize = 1,
      mn_CoordinatorPriorityEventQueueSize = 1, mn_DelegationBatchInterval = 10000000, mn_DispatchMaxBatchSize = 1,
      mn_HeartbeatInterval = second, mn_InactiveGracePeriod = 1, mn_MaxDispatchAhead = 1,
      mn_MaxInflightTransactions = 1, mn_OriginatorEventQueueSize = 1, mn_OriginatorPriorityEventQueueSize = 1,
      mn_RequestTimeout = second, mn_SignErrorRetryThreshold = 0, mn_StateTimeout = second\<rparr>"

text \<open>
  A setting of the coordinator or originator: the configured value of a field, with the minimum and the
  default of the same field.
\<close>

definition intSetting :: "(SequencerConfig \<Rightarrow> int option) \<Rightarrow> (SequencerMinimumConfig \<Rightarrow> int) \<Rightarrow> SequencerConfig \<Rightarrow> int" where
  "intSetting field minVal cfg = IntMin (field cfg) (minVal SequencerMinimum) (the (field SequencerDefaults))"

definition uint64Setting :: "(SequencerConfig \<Rightarrow> uint64 option) \<Rightarrow> (SequencerMinimumConfig \<Rightarrow> uint64) \<Rightarrow> SequencerConfig \<Rightarrow> uint64" where
  "uint64Setting field minVal cfg = Uint64Min (field cfg) (minVal SequencerMinimum) (the (field SequencerDefaults))"

definition durationSetting :: "(string \<Rightarrow> int option) \<Rightarrow> (SequencerConfig \<Rightarrow> string option)
    \<Rightarrow> (SequencerMinimumConfig \<Rightarrow> int) \<Rightarrow> SequencerConfig \<Rightarrow> int" where
  "durationSetting ParseDuration field minVal cfg =
     DurationMin ParseDuration (field cfg) (minVal SequencerMinimum) (the (field SequencerDefaults))"

definition NewRetryLimited :: "int option \<Rightarrow> int \<Rightarrow> Retry" where
  "NewRetryLimited maxAttempts defVal = \<lparr>rt_maxAttempts = nat (IntMin maxAttempts 0 defVal)\<rparr>"

lemma IntMin_bound: "minVal \<le> defVal \<Longrightarrow> minVal \<le> IntMin v minVal defVal"
  by (simp add: IntMin_def split: option.split)

lemma Uint64Min_bound: "minVal \<le> defVal \<Longrightarrow> minVal \<le> Uint64Min v minVal defVal"
  by (auto simp: Uint64Min_def split: option.split)

lemma intSetting_bound: "minVal SequencerMinimum \<le> the (field SequencerDefaults) \<Longrightarrow> minVal SequencerMinimum \<le> intSetting field minVal cfg"
  by (simp add: intSetting_def IntMin_bound)

end
