(* ===== verification/CoordinatorStart.thy ===== *)
theory CoordinatorStart
  imports CoordinatorFrame Config
begin

text \<open>
  Creating and starting a coordinator (\<^verbatim>\<open>coordinator/coordinator.go\<close>), and the runs of a started one: the
  events its loop processes, the steps of the dispatch loop's goroutine and of the endorsement
  goroutines, and the passing of time, in any order.
\<close>

section \<open>NewCoordinator and Start\<close>

definition NewCoordinator :: "(string \<Rightarrow> int option) \<Rightarrow> SequencerConfig \<Rightarrow> CoordinatorSelectionConfig \<Rightarrow> string \<Rightarrow> string
    \<Rightarrow> environment \<Rightarrow> nodeEnvironment \<Rightarrow> string \<Rightarrow> SubmitterSelection \<Rightarrow> int \<Rightarrow> coordinatorNode" where
  "NewCoordinator ParseDuration configuration selectionConfig node addr e ne fixedSigningIdentity submitter t0 =
     (let tolerance = uint64Setting cf_BlockHeightTolerance mn_BlockHeightTolerance configuration in
      \<lparr>txs = \<lparr>env = e, now = t0, uuidsTaken = 0, sendsTried = 0, heightReads = 0, transactionsByID = Map.empty,
         coordGrapher = NewGrapher NewDependencyTracker NewStore tolerance, stateViews = NewProvider, outbox = [],
         eventsInternal = [], finalizes = [], dispatchQueue = [], preparesStarted = [], inFlightTxns = [],
         currentBlockHeight = 0, effectiveBlockHeight = 0, coordinatorSelection = csc_Mode selectionConfig,
         coordinatorSelectionBlockRange = uint64Setting cf_BlockRange mn_BlockRange configuration,
         endorserCandidates =
           (if csc_Mode selectionConfig = COORDINATOR_ENDORSER then csc_Endorsers selectionConfig else []),
         coordinatorPriorityList = [], endorserNotifications = [], signingIdentity = [], signingIdentityUsed = False,
         coordNodeName = node\<rparr>,
       nodeEnv = ne, started = False, coordState = CoordinatorState_Initial, coordLocked = False,
       currentActiveCoordinator =
         (case csc_Mode selectionConfig of
            COORDINATOR_STATIC \<Rightarrow> csc_StaticCoordinator selectionConfig
          | COORDINATOR_SENDER \<Rightarrow> node
          | COORDINATOR_ENDORSER \<Rightarrow> []),
       coordIntervalsSinceStateChange = 0, heartbeatIntervalsSinceLastReceive = 0, transactionIDs = [],
       pooledTransactions = [], assemblyInFlight = False, assemblingTxID = uuid_Nil, originatorActivity = [],
       pendingHandoverRequest = None, inFlightEndorsements = [], endorsementsStarted = [],
       cancelRequestTimeout = None, cancelStateTimeout = None, dispatchLoopPhase = LoopStopped, commitsTried = 0,
       persistedBatches = [], childrenSubmitted = [], contractAddress = addr,
       domainFixedSigningIdentity = fixedSigningIdentity, contractSubmitterSelection = submitter,
       coordBlockHeightTolerance = tolerance,
       closingGracePeriod = intSetting cf_ClosingGracePeriod mn_ClosingGracePeriod configuration,
       inactiveGracePeriod = intSetting cf_InactiveGracePeriod mn_InactiveGracePeriod configuration,
       coordBaseLedgerRevertRetryThreshold =
         intSetting cf_BaseLedgerRevertRetryThreshold mn_BaseLedgerRevertRetryThreshold configuration,
       coordAssembleErrorRetryThreshhold =
         intSetting cf_AssembleErrorRetryThreshold mn_AssembleErrorRetryThreshold configuration,
       coordSignErrorRetryThreshhold = intSetting cf_SignErrorRetryThreshold mn_SignErrorRetryThreshold configuration,
       coordRequestTimeout = durationSetting ParseDuration cf_RequestTimeout mn_RequestTimeout configuration,
       coordStateTimeout = durationSetting ParseDuration cf_StateTimeout mn_StateTimeout configuration,
       maxInflightTransactions = intSetting cf_MaxInflightTransactions mn_MaxInflightTransactions configuration,
       maxDispatchAhead = IntMinIfPositive (cf_MaxDispatchAhead configuration)
         (mn_MaxDispatchAhead SequencerMinimum) (the (cf_MaxDispatchAhead SequencerDefaults)),
       dispatchMaxBatchSize = intSetting cf_DispatchMaxBatchSize mn_DispatchMaxBatchSize configuration,
       endorseErrorRetry = NewRetryLimited (cf_EndorseErrorRetry_MaxAttempts configuration)
         (the (cf_EndorseErrorRetry_MaxAttempts SequencerDefaults))\<rparr>)"

text \<open>
  \<open>Start\<close> also starts the event loop and queues \<open>CoordinatorCreatedEvent\<close>; the event is the first of
  the runs below.
\<close>

definition Start :: "coordinatorNode \<Rightarrow> coordinatorNode" where
  "Start s =
     (if started s then s
      else (let blockHeight = env_GetBlockHeight (env (txs s)) (heightReads (txs s)) in
        (updTxs (\<lambda>c. c\<lparr>heightReads := Suc (heightReads c), currentBlockHeight := blockHeight,
             effectiveBlockHeight := ComputeEffectiveBlockHeight (word_of_int blockHeight)
               (coordinatorSelectionBlockRange c)\<rparr>) s)\<lparr>started := True\<rparr>))"

section \<open>Runs\<close>

inductive node_step :: "coordinatorNode \<Rightarrow> coordinatorNode \<Rightarrow> bool" where
  event_ok: "coord_processEvent ev s = Ok s' \<Longrightarrow> node_step s s'"
| event_error: "coord_processEvent ev s = Fail e s' \<Longrightarrow> node_step s s'"
| receive: "dispatchReceive s = Some s' \<Longrightarrow> node_step s s'"
| pull: "dispatchPull s = Some s' \<Longrightarrow> node_step s s'"
| batch: "dispatchBatchStep s = Some s' \<Longrightarrow> node_step s s'"
| endorsed: "e \<in> set (endorsementsStarted s) \<Longrightarrow> endorsementGoroutine cancelled e s = Ok s' \<Longrightarrow> node_step s s'"
| tick: "now (txs s) \<le> t \<Longrightarrow> node_step s (updTxs (\<lambda>c. c\<lparr>now := t\<rparr>) s)"

inductive_cases node_stepE: "node_step s s'"

inductive node_reachable :: "coordinatorNode \<Rightarrow> bool" where
  start: "node_reachable (Start (NewCoordinator pd cfg sel n addr e ne fsi sub t0))"
| step: "node_reachable s \<Longrightarrow> node_step s s' \<Longrightarrow> node_reachable s'"

section \<open>What every run keeps\<close>

lemma start_wf: "node_wf (Start (NewCoordinator pd cfg sel n addr e ne fsi sub t0))"
proof -
  have "grapher_inv (NewGrapher NewDependencyTracker NewStore k)" for k
    by (rule inv_New) (simp_all add: NewDependencyTracker_def wf_new store_wf_new)
  moreover have "transactionsByID c = Map.empty \<Longrightarrow> locks c = (\<lambda>t. None)" for c
    by (rule ext) (simp add: locks_def shape_def)
  ultimately show ?thesis
    by (simp add: Start_def NewCoordinator_def Let_def updTxs_def node_wf_def consistent_def)
qed

lemma endorsementGoroutine_wf: "node_wf s \<Longrightarrow> returns node_wf (endorsementGoroutine cancelled e s)"
  using nodeSend_wf [of s]
  by (auto simp: endorsementGoroutine_def handleEndorsementRequest_def endEndorsement_def
      split: option.split sum.split)

lemma node_step_wf: "node_step s s' \<Longrightarrow> node_wf s \<Longrightarrow> node_wf s'"
proof (induction rule: node_step.induct)
  case (event_ok ev s s')
  then show ?case using coord_processEvent_wf [of s ev] by simp
next
  case (event_error ev s e s')
  then show ?case using coord_processEvent_wf [of s ev] by simp
next
  case (endorsed e s cancelled s')
  then show ?case using endorsementGoroutine_wf [of s cancelled e] by simp
next
  case (tick s t)
  then show ?case by (auto simp: shape_def consistent_def intro!: node_wf_updTxs keepsTxs_shape)
qed (auto dest: dispatchSteps_wf)

lemma reachable_wf: "node_reachable s \<Longrightarrow> node_wf s"
  by (induction rule: node_reachable.induct) (auto intro: start_wf node_step_wf)

end
