(* ===== verification/CoordinatorSamples.thy ===== *)
theory CoordinatorSamples
  imports CoordinatorStart
begin

text \<open>
  Concrete coordinators, transactions and runs, on which the general statements are evaluated.
\<close>

section \<open>Sample runs\<close>

definition sampleNodeEnv :: nodeEnvironment where
  "sampleNodeEnv = \<lparr>ne_CheckPendingPrivateStateData = (\<lambda>_ _. Inr True), ne_ResolveKey = (\<lambda>_ l _ _. Inr l),
     ne_EndorseTransaction =
       (\<lambda>_ p v. Inr \<lparr>en_Endorser = v, en_Result = ENDORSE_SIGN, en_Payload = p, en_RevertReason = None\<rparr>),
     ne_Sign = (\<lambda>_ _ _ p. Inr p), ne_commitFails = (\<lambda>_. False), ne_HandleNewTxFails = (\<lambda>_. False)\<rparr>"

definition emptyConfig :: SequencerConfig where
  "emptyConfig =
     \<lparr>cf_AssembleErrorRetryThreshold = None, cf_BaseLedgerRevertRetryThreshold = None,
      cf_BlockHeightTolerance = None, cf_BlockRange = None, cf_ClosingGracePeriod = None,
      cf_CoordinatorEventQueueSize = None, cf_CoordinatorPriorityEventQueueSize = None,
      cf_DelegationBatchInterval = None, cf_DispatchMaxBatchSize = None,
      cf_EndorseErrorRetry_MaxAttempts = None, cf_HeartbeatInterval = None, cf_InactiveGracePeriod = None,
      cf_MaxDispatchAhead = None, cf_MaxInflightTransactions = None, cf_OriginatorEventQueueSize = None,
      cf_OriginatorPriorityEventQueueSize = None, cf_RequestTimeout = None,
      cf_SignErrorRetryThreshold = None, cf_StateTimeout = None\<rparr>"

definition sampleNode :: "SequencerConfig \<Rightarrow> environment \<Rightarrow> coordinatorNode" where
  "sampleNode cfg e = Start (NewCoordinator (\<lambda>_. Some second) cfg
     \<lparr>csc_Mode = COORDINATOR_SENDER, csc_StaticCoordinator = [], csc_Endorsers = []\<rparr>
     ''node0'' ''0xc0'' e sampleNodeEnv [] SUBMITTER_COORDINATOR 0)"

definition delegatedTx :: "uuid \<Rightarrow> PrivateTransaction" where
  "delegatedTx i = \<lparr>pt_ID = i, pt_Domain = ''d'', pt_Address = ''0xc0'', pt_ChainedDependsOn = [],
     pt_PostAssembly = None, pt_Signer = []\<rparr>"

definition delegate :: "uuid list \<Rightarrow> CoordinatorEvent" where
  "delegate ids = TransactionsDelegatedEvent ''node1'' ''me@node1'' (map delegatedTx ids) 0 ''d1''"

definition sampleRequest :: EndorsementRequestReceived where
  "sampleRequest = \<lparr>er_FromNode = ''node1'', er_TransactionId = ''tx1'', er_IdempotencyKey = ''key1'',
     er_Party = ''me@node0'', er_PrivateEndorsementRequest = [1, 2],
     er_AttestationRequest = \<lparr>ar_Name = ''notary'', ar_AttestationType = ENDORSE, ar_Algorithm = ''ecdsa'',
       ar_VerifierType = ''address'', ar_Payload = [], ar_PayloadType = [], ar_Parties = [''me@node0''],
       ar_Threshold = None\<rparr>,
     er_Expiry = None, er_CoordinatorBlockHeight = 0, er_BlockHeightTolerance = 0\<rparr>"

fun runEvents :: "CoordinatorEvent list \<Rightarrow> coordinatorNode \<Rightarrow> coordinatorNode" where
  "runEvents [] s = s"
| "runEvents (ev # evs) s =
     runEvents evs (case coord_processEvent ev s of Ok s1 \<Rightarrow> s1 | Fail e s1 \<Rightarrow> s1 | Stuck \<Rightarrow> s)"

lemma runEvents_reachable: "node_reachable s \<Longrightarrow> node_reachable (runEvents evs s)"
proof (induction evs arbitrary: s)
  case (Cons ev evs)
  have "node_reachable (case coord_processEvent ev s of Ok s1 \<Rightarrow> s1 | Fail e s1 \<Rightarrow> s1 | Stuck \<Rightarrow> s)"
    using Cons.prems
    by (cases "coord_processEvent ev s") (auto intro: node_reachable.step node_step.event_ok node_step.event_error)
  then show ?case using Cons.IH by simp
qed simp

lemma sampleNode_reachable: "node_reachable (runEvents evs (sampleNode cfg e))"
  unfolding sampleNode_def by (rule runEvents_reachable) (rule node_reachable.start)

end
