(* ===== verification/CoordinatorProperties.thy ===== *)
theory CoordinatorProperties
  imports CoordinatorSamples TransactionProperties
begin

text \<open>
  The properties of the coordinator: its life cycle, what holds in every reachable state, the order of
  dispatches, the acknowledgement of delegations, and how endorsement requests are answered.
\<close>

section \<open>The life cycle\<close>

fun nextCoordStates :: "CoordinatorState \<Rightarrow> CoordinatorState list" where
  "nextCoordStates CoordinatorState_Initial = [CoordinatorState_Idle]"
| "nextCoordStates CoordinatorState_Idle = [CoordinatorState_Observing, CoordinatorState_Active]"
| "nextCoordStates CoordinatorState_Observing = [CoordinatorState_Idle, CoordinatorState_Elect]"
| "nextCoordStates CoordinatorState_Elect = [CoordinatorState_Observing, CoordinatorState_Prepared,
     CoordinatorState_Active, CoordinatorState_Closing_Flush, CoordinatorState_Closing]"
| "nextCoordStates CoordinatorState_Prepared = [CoordinatorState_Observing, CoordinatorState_Active,
     CoordinatorState_Closing_Flush, CoordinatorState_Closing]"
| "nextCoordStates CoordinatorState_Active = [CoordinatorState_Idle, CoordinatorState_Active_Flush,
     CoordinatorState_Closing_Flush, CoordinatorState_Closing]"
| "nextCoordStates CoordinatorState_Active_Flush = [CoordinatorState_Active, CoordinatorState_Closing_Flush,
     CoordinatorState_Closing]"
| "nextCoordStates CoordinatorState_Closing_Flush = [CoordinatorState_Elect, CoordinatorState_Closing]"
| "nextCoordStates CoordinatorState_Closing = [CoordinatorState_Idle, CoordinatorState_Observing,
     CoordinatorState_Elect, CoordinatorState_Active]"

lemma declared_nextCoordStates: "set (declared_targets coordMachine st ev) \<subseteq> set (nextCoordStates st)"
  by (cases st; cases "CoordinatorEvent_Type ev";
      simp add: declared_targets_def handlers_for_def coordDefs)

text \<open>Events handed to a transaction leave the coordinator's own state alone.\<close>

lemma propagate_state:
  "returns (\<lambda>s'. coordState s' = coordState s \<and> coordLocked s' = coordLocked s
      \<and> currentActiveCoordinator s' = currentActiveCoordinator s)
    (propagateEventToTransaction t e s)"
proof -
  have "returns (\<lambda>s'. coordState s' = coordState s \<and> coordLocked s' = coordLocked s
      \<and> currentActiveCoordinator s' = currentActiveCoordinator s) (onTxs f s)" for f
    by (cases "f (txs s)") (simp_all add: onTxs_def)
  then show ?thesis by (simp add: propagateEventToTransaction_def txHandleEvent_def split: option.split)
qed

text \<open>
  C17. The life cycle of the coordinator. Processing any event moves it at most one step along
  \<open>nextCoordStates\<close>, also when an action fails half way, and afterwards it is unlocked.
\<close>

theorem coordinator_life_cycle:
  "returns (\<lambda>s'. \<not> coordLocked s'
      \<and> coordState s' \<in> insert (coordState s) (set (nextCoordStates (coordState s))))
    (coord_processEvent ev s)"
proof -
  have "returns (\<lambda>s'. \<not> coordLocked s'
      \<and> coordState s' \<in> insert (coordState s) (set (declared_targets coordMachine (coordState s) ev)))
    (ProcessEvent coordMachine ev s)"
    using coordOwned.ProcessEvent_declared [of s ev] by simp
  then have m: "returns (\<lambda>s'. \<not> coordLocked s'
      \<and> coordState s' \<in> insert (coordState s) (set (nextCoordStates (coordState s)))) (ProcessEvent coordMachine ev s)"
    by (rule returns_mono) (use declared_nextCoordStates in blast)
  have "returns (\<lambda>s'. coordState s' = coordState s \<or> coordState s' \<in> set (nextCoordStates (coordState s)))
      (propagateEventToTransaction t e (s\<lparr>coordLocked := True\<rparr>))" for t e
    using propagate_state [of "s\<lparr>coordLocked := True\<rparr>" t e] by (rule returns_mono) simp
  then show ?thesis
    using m by (auto simp: coord_processEvent_def preProcessEvent_def split: CoordinatorEvent.split)
qed

section \<open>Settings of a run\<close>

lemma updTxs_settings [simp]: "settings (updTxs f s) = settings s"
  by (simp add: updTxs_def settings_def)

lemma endorsementGoroutine_settings: "returns (\<lambda>s'. settings s' = settings s) (endorsementGoroutine cancelled e s)"
proof -
  have "returns (\<lambda>s'. settings s' = settings s) (nodeSend n m s)" for n m
    by (simp add: nodeSend_def onTxs_def transportSend_def settings_def)
  then have "returns (\<lambda>s'. settings s' = settings s) (handleEndorsementRequest cancelled e s)"
    by (simp add: handleEndorsementRequest_def split: option.split sum.split)
  then show ?thesis
    unfolding endorsementGoroutine_def returns_outcome_map
    by (rule returns_mono) (simp add: endEndorsement_def settings_def)
qed

lemma node_step_settings: "node_step s s' \<Longrightarrow> settings s' = settings s"
proof (induction rule: node_step.induct)
  case (event_ok ev s s')
  then show ?case using coord_processEvent_steady [of s s ev] by (simp add: steady_def)
next
  case (event_error ev s e s')
  then show ?case using coord_processEvent_steady [of s s ev] by (simp add: steady_def)
next
  case (endorsed e s cancelled s')
  then show ?case using endorsementGoroutine_settings [of s cancelled e] by simp
qed (auto dest: moves_receive moves_pull moves_batchStep simp: moves_def steady_def)

lemma settings_limits:
  "settings s' = settings s \<Longrightarrow> maxInflightTransactions s' = maxInflightTransactions s
     \<and> dispatchMaxBatchSize s' = dispatchMaxBatchSize s \<and> rt_maxAttempts (endorseErrorRetry s') = rt_maxAttempts (endorseErrorRetry s)"
  unfolding settings_def by (cases s, cases s') simp

lemma reachable_limits: "node_reachable s \<Longrightarrow> 1 \<le> maxInflightTransactions s \<and> 1 \<le> dispatchMaxBatchSize s"
proof (induction rule: node_reachable.induct)
  case (start pd cfg sel n addr e ne fsi sub t0)
  have "1 \<le> intSetting cf_MaxInflightTransactions mn_MaxInflightTransactions cfg"
    and "1 \<le> intSetting cf_DispatchMaxBatchSize mn_DispatchMaxBatchSize cfg"
    by (simp_all add: intSetting_def SequencerMinimum_def SequencerDefaults_def IntMin_bound)
  then show ?case by (simp add: Start_def NewCoordinator_def Let_def updTxs_def)
next
  case (step s s')
  then show ?case using settings_limits [OF node_step_settings [OF step(2)]] by simp
qed

text \<open>
  C1. Every reachable state of the coordinator is well formed: the grapher's indexes agree, the
  transactions listed are exactly those of the map and none of them is locked between events, the pool
  holds known transactions without repetition, and there are never more transactions than the configured
  limit, which is at least one.
\<close>

theorem coordinator_always_well_formed:
  assumes "node_reachable s"
  shows "grapher_inv (coordGrapher (txs s))
    \<and> distinct (transactionIDs s) \<and> (\<forall>t. (t \<in> set (transactionIDs s)) = (transactionsByID (txs s) t \<noteq> None))
    \<and> (\<forall>t x. transactionsByID (txs s) t = Some x \<longrightarrow> \<not> txLocked x)
    \<and> distinct (pooledTransactions s) \<and> set (pooledTransactions s) \<subseteq> set (transactionIDs s)
    \<and> 1 \<le> maxInflightTransactions s \<and> int (length (transactionIDs s)) \<le> maxInflightTransactions s"
proof -
  have wf: "node_wf s" using assms by (rule reachable_wf)
  have "\<not> txLocked x" if "transactionsByID (txs s) t = Some x" for t x
  proof -
    from wf have "locks (txs s) t = (if t \<in> set (transactionIDs s) then Some False else None)"
      by (simp add: node_wf_def)
    with that show ?thesis by (simp add: locks_def shape_def split: if_splits)
  qed
  moreover have "\<forall>t. (t \<in> set (transactionIDs s)) = (transactionsByID (txs s) t \<noteq> None)"
    using known_iff [OF wf] by blast
  ultimately show ?thesis
    using wf reachable_limits [OF assms] by (simp add: node_wf_def consistent_def)
qed

theorem coordinator_always_well_formed_witness:
  "let s = runEvents [CoordinatorCreatedEvent, delegate [1, 2]] (sampleNode emptyConfig sampleEnv)
   in grapher_inv (coordGrapher (txs s)) \<and> transactionIDs s = [2, 1] \<and> set (pooledTransactions s) \<subseteq> {1, 2}"
proof -
  let ?s = "runEvents [CoordinatorCreatedEvent, delegate [1, 2]] (sampleNode emptyConfig sampleEnv)"
  have ids: "transactionIDs ?s = [2, 1]" by code_simp
  have "node_reachable ?s" by (rule sampleNode_reachable)
  from coordinator_always_well_formed [OF this] ids show ?thesis by (auto simp: Let_def)
qed

section \<open>The active coordinator knows it is active\<close>

abbreviation activeStates :: "CoordinatorState set" where
  "activeStates \<equiv> {CoordinatorState_Active, CoordinatorState_Active_Flush}"

definition namesItself :: "coordinatorNode \<Rightarrow> bool" where
  "namesItself s \<longleftrightarrow> currentActiveCoordinator s = nodeName_of s"

definition selfActive :: "coordinatorNode \<Rightarrow> bool" where
  "selfActive s \<longleftrightarrow> (coordState s \<in> activeStates \<longrightarrow> namesItself s)"

lemma namesItself_simps [simp]:
  "namesItself (s\<lparr>coordState := st\<rparr>) = namesItself s" "namesItself (s\<lparr>coordLocked := b\<rparr>) = namesItself s"
  "namesItself (s\<lparr>coordIntervalsSinceStateChange := i\<rparr>) = namesItself s"
  by (simp_all add: namesItself_def)

lemma selfActive_lock [simp]: "selfActive (s\<lparr>coordLocked := b\<rparr>) = selfActive s"
  by (simp add: selfActive_def)

lemma namesItself_steady:
  "steady s s' \<Longrightarrow> currentActiveCoordinator s' = currentActiveCoordinator s \<Longrightarrow> namesItself s \<Longrightarrow> namesItself s'"
  by (simp add: steady_def fixed_def namesItself_def)

lemma rules_keep_naming:
  assumes "\<forall>r \<in> set rs. act r \<in> set keepingActions"
  shows "rules_keep (\<lambda>s. namesItself s \<and> coordState s = st \<and> coordLocked s) ev rs"
  unfolding rules_keep_def
proof (intro ballI allI impI)
  fix r s assume "r \<in> set rs" and s: "namesItself s \<and> coordState s = st \<and> coordLocked s"
  with assms keepingActions_keep have "returns (\<lambda>s'. coordState s' = coordState s \<and> coordLocked s' = coordLocked s
      \<and> currentActiveCoordinator s' = currentActiveCoordinator s \<and> steady s s') (act r ev s)" by blast
  then show "returns (\<lambda>s. namesItself s \<and> coordState s = st \<and> coordLocked s) (act r ev s)"
    by (rule returns_mono) (use s namesItself_steady [of s] in simp)
qed

lemma active_entry:
  assumes "coordLocked s"
  shows "returns namesItself (executeActionRules ev (entryActions coordMachine CoordinatorState_Active) s)"
proof -
  let ?s = "s\<lparr>currentActiveCoordinator := nodeName_of s\<rparr>"
  let ?I = "\<lambda>w. namesItself w \<and> coordState w = coordState s \<and> coordLocked w"
  have "rules_keep ?I ev (tl (entryActions coordMachine CoordinatorState_Active))"
    by (rule rules_keep_naming) (simp add: entryActions_def coordDefs keepingActions_def movingActions_def)
  moreover have "?I ?s" using assms by (simp add: namesItself_def)
  ultimately have "returns ?I (executeActionRules ev (tl (entryActions coordMachine CoordinatorState_Active)) ?s)"
    by (rule executeActionRules_keep)
  then have "returns namesItself (executeActionRules ev (tl (entryActions coordMachine CoordinatorState_Active)) ?s)"
    by (rule returns_mono) simp
  then show ?thesis
    by (simp add: entryActions_def coordDefs guard_passes_def action_SetSelfAsActiveCoordinator_def)
qed

text \<open>What the table says of the transitions into the active states.\<close>

definition entersActive :: "CoordinatorState \<Rightarrow> coordTransition \<Rightarrow> bool" where
  "entersActive st rule \<longleftrightarrow>
     (tr_To rule = CoordinatorState_Active \<longrightarrow> exitActions coordMachine st = []
        \<and> tr_Actions rule \<in> {[], [always action_ClearTimeoutSchedules]})
     \<and> (tr_To rule = CoordinatorState_Active_Flush \<longrightarrow> st = CoordinatorState_Active \<and> tr_Actions rule = []
        \<and> (\<forall>r \<in> set (exitActions coordMachine st). act r \<in> set keepingActions))"

lemma table_entersActive:
  "h \<in> set (handlers_for coordMachine st ev) \<Longrightarrow> rule \<in> set (eh_Transitions h) \<Longrightarrow> entersActive st rule"
  by (cases st; cases "CoordinatorEvent_Type ev";
      simp add: handlers_for_def entersActive_def exitActions_def coordDefs keepingActions_def movingActions_def; fastforce)

lemma takeTransition_self:
  assumes "\<forall>r \<in> set (tr_Actions rule). machine_rule coordMachine r" and "coordLocked s"
    and "entersActive (coordState s) rule" and "coordState s \<in> activeStates \<Longrightarrow> namesItself s"
  shows "returns selfActive (takeTransition coordMachine ev rule s)"
proof -
  have st: "returns (\<lambda>s'. coordState s' = tr_To rule) (takeTransition coordMachine ev rule s)"
    using coordOwned.takeTransition_state [where rule = rule and w = s and ev = ev] assms(1,2)
    by (auto elim: returns_mono)
  consider "tr_To rule = CoordinatorState_Active" | "tr_To rule = CoordinatorState_Active_Flush" | "tr_To rule \<notin> activeStates"
    by blast
  then show ?thesis
  proof cases
    case 1
    with assms(3) have "returns namesItself (takeTransition coordMachine ev rule s)"
      using active_entry assms(2)
      by (auto simp: entersActive_def takeTransition_def guard_passes_def action_ClearTimeoutSchedules_def
          coord_clearTimeoutSchedules_def)
    then show ?thesis by (rule returns_mono) (simp add: selfActive_def)
  next
    case 2
    let ?s = "s\<lparr>coordState := CoordinatorState_Active_Flush\<rparr>"
    let ?I = "\<lambda>w. namesItself w \<and> coordState w = CoordinatorState_Active_Flush \<and> coordLocked w"
    from 2 assms(3) have "rules_keep ?I ev (exitActions coordMachine CoordinatorState_Active)"
      and s: "coordState s = CoordinatorState_Active"
      by (auto simp: entersActive_def intro: rules_keep_naming)
    then have "returns ?I (executeActionRules ev (exitActions coordMachine CoordinatorState_Active) ?s)"
      using assms(2,4) by (auto intro: executeActionRules_keep)
    moreover have "entryActions coordMachine CoordinatorState_Active_Flush = []" by (simp add: entryActions_def coordDefs)
    ultimately have "returns ?I (takeTransition coordMachine ev rule s)"
      using 2 assms(3) s
      by (auto simp: takeTransition_def entersActive_def Let_def intro!: returns_and_then)
    then show ?thesis by (rule returns_mono) (simp add: selfActive_def)
  next
    case 3
    from st show ?thesis by (rule returns_mono) (use 3 in \<open>simp add: selfActive_def\<close>)
  qed
qed

text \<open>The world between the handlers of one event.\<close>

abbreviation between :: "CoordinatorState \<Rightarrow> coordinatorNode \<Rightarrow> bool" where
  "between st s \<equiv> coordState s = st \<and> coordLocked s \<and> (st \<in> activeStates \<longrightarrow> namesItself s)"

lemma handler_machine_rules:
  assumes "h \<in> set (handlers_for coordMachine st ev)"
  shows "\<forall>r \<in> set (eh_Actions h). machine_rule coordMachine r"
    and "rule \<in> set (eh_Transitions h) \<Longrightarrow> \<forall>r \<in> set (tr_Actions rule). machine_rule coordMachine r"
  using machine_rule_handler [OF assms] by (auto simp: handler_rules_def)

lemma evaluate_self:
  assumes "h \<in> set (handlers_for coordMachine (coordState s) ev)" and "coordLocked s"
    and "coordState s \<in> activeStates \<longrightarrow> namesItself s"
  shows "evaluateTransitions coordMachine ev (eh_Transitions h) s = (True, r) \<Longrightarrow> returns selfActive r"
proof -
  have "\<forall>rule \<in> set rules. returns selfActive (takeTransition coordMachine ev rule s) \<Longrightarrow>
      evaluateTransitions coordMachine ev rules s = (True, r) \<Longrightarrow> returns selfActive r" for rules
    by (induction rules) (auto split: if_splits)
  then show "evaluateTransitions coordMachine ev (eh_Transitions h) s = (True, r) \<Longrightarrow> returns selfActive r"
    using takeTransition_self handler_machine_rules(2) [OF assms(1)] table_entersActive [OF assms(1)] assms(2,3) by blast
qed

text \<open>A handler keeps the claim if its actions keep the name, or if nothing depends on the name yet.\<close>

lemma leads_keeping:
  assumes "h \<in> set (handlers_for coordMachine st ev)"
    and "st \<in> activeStates \<Longrightarrow> \<forall>r \<in> set (eh_Actions h). act r \<in> set keepingActions"
  shows "handler_leads coordMachine ev (between st) selfActive h"
proof -
  have acts: "returns (between st) (executeActionRules ev (eh_Actions h) s)" if "between st s" for s
  proof (cases "st \<in> activeStates")
    case True
    with rules_keep_naming [OF assms(2)] that
    have "returns (\<lambda>s. namesItself s \<and> coordState s = st \<and> coordLocked s) (executeActionRules ev (eh_Actions h) s)"
      by (auto intro: executeActionRules_keep)
    then show ?thesis by (rule returns_mono) simp
  next
    case False
    have "rules_keep (\<lambda>w. True \<and> sm_locked coordMachine w \<and> GetCurrentState coordMachine w = st) ev (eh_Actions h)"
      by (rule coordOwned.rules_keep_holds) (rule handler_machine_rules(1) [OF assms(1)])
    with that have "returns (\<lambda>w. True \<and> sm_locked coordMachine w \<and> GetCurrentState coordMachine w = st)
        (executeActionRules ev (eh_Actions h) s)"
      by (auto intro: executeActionRules_keep)
    then show ?thesis by (rule returns_mono) (use False in simp)
  qed
  show ?thesis
    unfolding handler_leads_def
  proof (intro allI impI)
    fix s assume "between st s"
    from acts [OF this] evaluate_self [of h _ ev] assms(1)
    show "case executeActionRules ev (eh_Actions h) s of
        Ok w1 \<Rightarrow> (case evaluateTransitions coordMachine ev (eh_Transitions h) w1 of
                   (t, r) \<Rightarrow> if t then returns selfActive r else between st w1)
      | Fail e w1 \<Rightarrow> selfActive w1 | Stuck \<Rightarrow> True"
      by (cases "executeActionRules ev (eh_Actions h) s") (auto simp: selfActive_def split: prod.splits)
  qed
qed

text \<open>
  A handler that names another coordinator steps down: its actions cannot fail and one of its transitions,
  none of them to an active state, is always taken.
\<close>

definition unfailing :: "(CoordinatorEvent, coordinatorNode, coordError) Action list" where
  "unfailing = [action_UpdateActiveCoordinator, action_UpdateActiveCoordinatorFromEndorsementRequest,
     action_StopDispatchLoop, action_CleanUpTransactionsNotYetDispatched, action_HandleEndorsementRequest]"

lemma unfailing_ok: "a \<in> set unfailing \<Longrightarrow> a ev s \<noteq> Fail e s'"
proof -
  have "stopDispatchLoop s \<noteq> Fail e s'"
    by (auto simp: stopDispatchLoop_def finishBatch_def split: option.splits dispatchLoopPhase.splits)
  then show "a \<in> set unfailing \<Longrightarrow> a ev s \<noteq> Fail e s'"
    by (auto simp: unfailing_def coordActionDefs Let_def split: CoordinatorEvent.splits if_splits prod.splits bool.splits)
qed

lemma unfailing_rules: "\<forall>r \<in> set rs. act r \<in> set unfailing \<Longrightarrow> executeActionRules ev rs s \<noteq> Fail e s'"
proof (induction rs arbitrary: s)
  case (Cons r rs)
  then show ?case using unfailing_ok [of "act r" ev s] by (cases "act r ev s") auto
qed simp

lemma leads_stepping_down:
  assumes "h \<in> set (handlers_for coordMachine st ev)" and "\<forall>r \<in> set (eh_Actions h). act r \<in> set unfailing"
    and "\<And>s. \<exists>rule \<in> set (eh_Transitions h). guard_passes (tr_If rule) s"
    and "tr_To ` set (eh_Transitions h) \<inter> activeStates = {}"
  shows "handler_leads coordMachine ev (between st) selfActive h"
  unfolding handler_leads_def
proof (intro allI impI)
  fix s assume s: "between st s"
  have keep: "rules_keep (\<lambda>w. True \<and> sm_locked coordMachine w \<and> GetCurrentState coordMachine w = st) ev (eh_Actions h)"
    by (rule coordOwned.rules_keep_holds) (rule handler_machine_rules(1) [OF assms(1)])
  have taken: "fst (evaluateTransitions coordMachine ev rules w)" if "\<exists>rule \<in> set rules. guard_passes (tr_If rule) w" for rules w
    using that by (induction rules) auto
  show "case executeActionRules ev (eh_Actions h) s of
      Ok w1 \<Rightarrow> (case evaluateTransitions coordMachine ev (eh_Transitions h) w1 of
                 (t, r) \<Rightarrow> if t then returns selfActive r else between st w1)
    | Fail e w1 \<Rightarrow> selfActive w1 | Stuck \<Rightarrow> True"
  proof (cases "executeActionRules ev (eh_Actions h) s")
    case (Ok w1)
    then have "coordLocked w1" using executeActionRules_keep [OF keep, of s] s by simp
    moreover have t: "fst (evaluateTransitions coordMachine ev (eh_Transitions h) w1)" using taken assms(3) by blast
    ultimately have "returns (\<lambda>w. coordState w \<in> tr_To ` set (eh_Transitions h))
        (snd (evaluateTransitions coordMachine ev (eh_Transitions h) w1))"
      using coordOwned.evaluateTransitions_taken [where rules = "eh_Transitions h" and w = w1 and ev = ev]
        handler_machine_rules(2) [OF assms(1)] by (auto elim: returns_mono)
    then have "returns selfActive (snd (evaluateTransitions coordMachine ev (eh_Transitions h) w1))"
      by (rule returns_mono) (use assms(4) in \<open>auto simp: selfActive_def\<close>)
    with Ok t show ?thesis by (simp add: case_prod_beta)
  qed (use unfailing_rules [OF assms(2)] in auto)
qed

definition stepsDown :: "coordHandler \<Rightarrow> bool" where
  "stepsDown h \<longleftrightarrow> (\<forall>r \<in> set (eh_Actions h). act r \<in> set unfailing)
     \<and> (\<forall>s. \<exists>rule \<in> set (eh_Transitions h). guard_passes (tr_If rule) s)
     \<and> tr_To ` set (eh_Transitions h) \<inter> activeStates = {}"

definition keepsName :: "coordHandler \<Rightarrow> bool" where
  "keepsName h \<longleftrightarrow> (\<forall>r \<in> set (eh_Actions h). act r \<in> set keepingActions)"

lemma keeping_members:
  "action_SelectTransaction \<in> set keepingActions" "action_PoolTransaction \<in> set keepingActions"
  "action_CleanUpTransaction \<in> set keepingActions"
  "action_CleanUpTransactionsNotYetDispatched \<in> set keepingActions"
  "action_ClearAssemblyInFlight \<in> set keepingActions"
  "action_cancelCurrentlyAssemblingTransaction \<in> set keepingActions"
  "action_SendHandoverRequest \<in> set keepingActions" "action_NudgeHandoverRequest \<in> set keepingActions"
  "coord_action_ScheduleStateTimeout \<in> set keepingActions"
  "action_ClearTimeoutSchedules \<in> set keepingActions"
  "action_AddEndorsersFromSnapshot \<in> set keepingActions"
  "action_ResetHeartbeatIntervalsSinceLastReceive \<in> set keepingActions"
  "action_IncrementHeartbeatIntervalCounts \<in> set keepingActions"
  "coord_action_IncrementHeartbeatIntervalsSinceStateChange \<in> set keepingActions"
  "action_ProcessConfirmedTransactionsFromSnapshot \<in> set keepingActions"
  "action_ImportStatesAndLocks \<in> set keepingActions" "action_SendHeartbeat \<in> set keepingActions"
  "action_SendHeartbeatWithLocks \<in> set keepingActions"
  "action_UpdateOriginatorActivity \<in> set keepingActions"
  "action_PropagateHeartbeatIntervalToTransactions \<in> set keepingActions"
  "coord_action_RefreshBlockHeight \<in> set keepingActions"
  "action_CalculateCoordinatorPriorities \<in> set keepingActions"
  "action_NewSigningIdentity \<in> set keepingActions"
  "action_RejectDelegationRequestBlockHeight \<in> set keepingActions"
  "action_RejectDelegationRequest \<in> set keepingActions"
  "action_ProcessDelegatedTransactions \<in> set keepingActions"
  "action_RejectEndorsementPrivateStateDataPending \<in> set keepingActions"
  "action_RejectEndorsementBlockHeight \<in> set keepingActions"
  "action_RejectEndorsementEndorserIsActiveCoordinator \<in> set keepingActions"
  "action_AddEndorsementRequestSenderToEndorserCandidates \<in> set keepingActions"
  "action_HandleEndorsementRequest \<in> set keepingActions" "action_StartDispatchLoop \<in> set keepingActions"
  "action_QueueRestartDispatchLoop \<in> set keepingActions" "action_StopDispatchLoop \<in> set keepingActions"
  by (simp_all add: keepingActions_def movingActions_def)

lemma unfailing_members:
  "action_UpdateActiveCoordinator \<in> set unfailing" "action_UpdateActiveCoordinatorFromEndorsementRequest \<in> set unfailing"
  "action_StopDispatchLoop \<in> set unfailing" "action_CleanUpTransactionsNotYetDispatched \<in> set unfailing"
  "action_HandleEndorsementRequest \<in> set unfailing"
  by (simp_all add: unfailing_def)

lemma active_handlers:
  assumes "st \<in> activeStates"
  shows "\<forall>h \<in> set (handlers_for coordMachine st ev). keepsName h \<or> stepsDown h"
proof -
  have "st = CoordinatorState_Active \<or> st = CoordinatorState_Active_Flush" using assms by blast
  then show ?thesis
    by (elim disjE; cases "CoordinatorEvent_Type ev";
        simp add: handlers_for_def coordDefs keepsName_def stepsDown_def keeping_members unfailing_members guard_passes_def)
qed

lemma handlers_self: "\<forall>h \<in> set (handlers_for coordMachine st ev). handler_leads coordMachine ev (between st) selfActive h"
proof
  fix h assume h: "h \<in> set (handlers_for coordMachine st ev)"
  show "handler_leads coordMachine ev (between st) selfActive h"
  proof (cases "st \<in> activeStates \<and> \<not> keepsName h")
    case True
    with active_handlers [of st ev] h have "stepsDown h" by blast
    then show ?thesis by (intro leads_stepping_down [OF h]) (auto simp: stepsDown_def)
  next
    case False
    then show ?thesis by (intro leads_keeping [OF h]) (auto simp: keepsName_def)
  qed
qed

lemma processEvent_self: "selfActive s \<Longrightarrow> returns selfActive (coord_processEvent ev s)"
proof -
  assume s: "selfActive s"
  have "returns selfActive (handleLocked coordMachine ev (s\<lparr>coordLocked := True\<rparr>))"
    by (rule handleLocked_leads [where P = "between (coordState s)"])
       (use s handlers_self in \<open>auto simp: selfActive_def\<close>)
  then have m: "returns selfActive (ProcessEvent coordMachine ev s)"
    by (simp add: ProcessEvent_def)
  have "returns (moves (s\<lparr>coordLocked := True\<rparr>)) (propagateEventToTransaction t e (s\<lparr>coordLocked := True\<rparr>))" for t e
    by (auto simp: propagateEventToTransaction_def split: option.split intro!: moves_txHandleEvent)
  then have "returns selfActive (propagateEventToTransaction t e (s\<lparr>coordLocked := True\<rparr>))" for t e
    by (rule returns_mono) (use s namesItself_steady [of "s\<lparr>coordLocked := True\<rparr>"] in \<open>auto simp: selfActive_def moves_def\<close>)
  then show ?thesis
    using m s by (auto simp: coord_processEvent_def preProcessEvent_def split: CoordinatorEvent.split)
qed

lemma moves_self: "moves s s' \<Longrightarrow> selfActive s \<Longrightarrow> selfActive s'"
  using namesItself_steady [of s s'] by (simp add: selfActive_def moves_def)

lemma endorsementGoroutine_self: "selfActive s \<Longrightarrow> returns selfActive (endorsementGoroutine cancelled e s)"
proof -
  assume s: "selfActive s"
  have "returns (moves s) (handleEndorsementRequest cancelled e s)"
    by (auto simp: handleEndorsementRequest_def moves_nodeSend split: option.split sum.split)
  then show ?thesis
    unfolding endorsementGoroutine_def returns_outcome_map
    by (rule returns_mono) (use moves_self [OF _ s] in \<open>simp add: endEndorsement_def selfActive_def namesItself_def\<close>)
qed

lemma node_step_self: "node_step s s' \<Longrightarrow> selfActive s \<Longrightarrow> selfActive s'"
proof (induction rule: node_step.induct)
  case (event_ok ev s s')
  then show ?case using processEvent_self [of s ev] by simp
next
  case (event_error ev s e s')
  then show ?case using processEvent_self [of s ev] by simp
next
  case (endorsed e s cancelled s')
  then show ?case using endorsementGoroutine_self [of s cancelled e] by simp
next
  case (tick s t)
  then show ?case by (simp add: selfActive_def namesItself_def updTxs_def)
qed (blast dest: moves_receive moves_pull moves_batchStep intro: moves_self)+

text \<open>
  A coordinator in one of the active states takes itself for the active coordinator, in every
  reachable state: on the way into the states its own name is recorded before anything can fail, and
  every handler that records another name leaves the states, whatever happens on the way.
\<close>

theorem active_coordinator_is_self:
  assumes "node_reachable s" and "coordState s \<in> {CoordinatorState_Active, CoordinatorState_Active_Flush}"
  shows "currentActiveCoordinator s = coordNodeName (txs s)"
proof -
  from assms(1) have "selfActive s"
  proof (induction rule: node_reachable.induct)
    case (start pd cfg sel n addr e ne fsi sub t0)
    show ?case by (simp add: Start_def NewCoordinator_def Let_def updTxs_def selfActive_def)
  next
    case (step s s')
    then show ?case using node_step_self by blast
  qed
  with assms(2) show ?thesis by (simp add: selfActive_def namesItself_def)
qed

theorem active_coordinator_is_self_witness:
  "let s = runEvents [CoordinatorCreatedEvent, delegate [1]] (sampleNode emptyConfig sampleEnv)
   in coordState s = CoordinatorState_Active \<and> currentActiveCoordinator s = coordNodeName (txs s)"
proof -
  let ?s = "runEvents [CoordinatorCreatedEvent, delegate [1]] (sampleNode emptyConfig sampleEnv)"
  have st: "coordState ?s = CoordinatorState_Active" by code_simp
  have "node_reachable ?s" by (rule sampleNode_reachable)
  from active_coordinator_is_self [OF this] st show ?thesis by (simp add: Let_def)
qed

end
