(* ===== verification/CoordinatorFindings.thy ===== *)
theory CoordinatorFindings
  imports CoordinatorProperties
begin

text \<open>
  Where the coordinator does not do what it is meant to do: situations in which it stops making
  progress, or loses or doubles a dispatch. Each is stated in general and then shown to happen by running
  the model from a newly created coordinator.
\<close>

section \<open>Handlers with one action\<close>

lemma leads_action:
  assumes "eh_Actions h = [always a]" and "eh_Transitions h = []"
    and "\<And>w. P w \<Longrightarrow> case a ev w of Ok w1 \<Rightarrow> P w1 | Fail e w1 \<Rightarrow> R w1 | Stuck \<Rightarrow> True"
  shows "handler_leads sm ev P R h"
  unfolding handler_leads_def
proof (intro allI impI)
  fix w assume "P w"
  from assms(3) [OF this] show "case executeActionRules ev (eh_Actions h) w of
      Ok w1 \<Rightarrow> (case evaluateTransitions sm ev (eh_Transitions h) w1 of (t, r) \<Rightarrow> if t then returns R r else P w1)
    | Fail e w1 \<Rightarrow> R w1 | Stuck \<Rightarrow> True"
    by (cases "a ev w") (simp_all add: assms(1,2) guard_passes_def)
qed

lemma leads_failure:
  assumes "eh_Actions h = [always a]" and "\<And>w. P w \<Longrightarrow> \<exists>e w1. a ev w = Fail e w1 \<and> R w1"
  shows "handler_leads sm ev P R h"
  unfolding handler_leads_def using assms by (fastforce simp: guard_passes_def)

section \<open>An idle coordinator that is full\<close>

lemma delegateLoop_full:
  assumes "int (length (transactionIDs s)) \<ge> maxInflightTransactions s" and "dl_error d = None"
  shows "\<exists>d'. delegateLoop orig node txns d s = Some (d', s) \<and> dl_error d' = None
    \<and> dl_rejectedMaxInFlight d' = dl_rejectedMaxInFlight d
        + length (filter (\<lambda>tx. transactionsByID (txs s) (pt_ID tx) = None) txns)"
  using assms(2)
proof (induction txns arbitrary: d)
  case (Cons tx txns)
  let ?d = "(d\<lparr>dl_acks := dl_acks d @ [(pt_ID tx, DelegationAcknowledgementError_None)]\<rparr>)\<lparr>dl_previous := Some (pt_ID tx)\<rparr>"
  let ?e = "(d\<lparr>dl_acks := dl_acks d @ [(pt_ID tx, DelegationAcknowledgementError_MaxInflightTransactions)]\<rparr>)
     \<lparr>dl_rejectedMaxInFlight := Suc (dl_rejectedMaxInFlight d)\<rparr>"
  show ?case
    using Cons.IH [of ?d] Cons.IH [of ?e] Cons.prems assms(1)
    by (cases "transactionsByID (txs s) (pt_ID tx)") (auto simp: delegateOne_def Let_def)
qed simp

lemma full_delegation_fails:
  assumes "int (length (transactionIDs s)) \<ge> maxInflightTransactions s"
    and "\<exists>tx \<in> set txns. transactionsByID (txs s) (pt_ID tx) = None"
  shows "\<exists>e s'. action_ProcessDelegatedTransactions (TransactionsDelegatedEvent fromNode orig txns oh d) s = Fail e s'
    \<and> coordState s' = coordState s"
proof -
  let ?s = "recordOriginatorActivity fromNode s"
  let ?d = "\<lparr>dl_acks = [], dl_previous = None, dl_error = None, dl_rejectedMaxInFlight = 0\<rparr>"
  have same: "transactionIDs ?s = transactionIDs s" "maxInflightTransactions ?s = maxInflightTransactions s"
    "txs ?s = txs s" "coordState ?s = coordState s"
    by (simp_all add: recordOriginatorActivity_def)
  from assms(2) have "filter (\<lambda>tx. transactionsByID (txs s) (pt_ID tx) = None) txns \<noteq> []"
    by (auto simp: filter_empty_conv)
  with delegateLoop_full [of ?s ?d orig _ txns] assms(1) same
  have loop: "\<exists>d'. delegateLoop orig node txns ?d ?s = Some (d', ?s) \<and> dl_rejectedMaxInFlight d' > 0" for node
    by fastforce
  have send: "\<exists>e s'. nodeSend n m ?s = Ok s' \<or> nodeSend n m ?s = Fail e s'"
    "nodeSend n m ?s = Ok s' \<or> nodeSend n m ?s = Fail e s' \<Longrightarrow> coordState s' = coordState s" for n m e s'
    using same by (auto simp: nodeSend_def onTxs_def transportSend_def split: if_splits)
  show ?thesis
  proof (cases "Validate orig [] False")
    case (Inl e)
    then show ?thesis by (simp add: action_ProcessDelegatedTransactions_def addToDelegatedTransactions_def same)
  next
    case (Inr p)
    obtain identity node where p: "p = (identity, node)" by fastforce
    from loop [of node] obtain d' where d': "delegateLoop orig node txns ?d ?s = Some (d', ?s)" "dl_rejectedMaxInFlight d' > 0"
      by blast
    let ?send = "nodeSend node (DelegationResponse d (map fst (dl_acks d')) node (map snd (dl_acks d'))) ?s"
    from send [of node "DelegationResponse d (map fst (dl_acks d')) node (map snd (dl_acks d'))"] show ?thesis
      using Inr p d'
      by (cases ?send) (auto simp: action_ProcessDelegatedTransactions_def addToDelegatedTransactions_def)
  qed
qed

text \<open>
  C34. A coordinator that is idle and holds as many transactions as it may never becomes active by a
  delegation that lists a transaction it does not know: the delegation is processed with an error, and
  the transition to \<open>State_Active\<close> is not taken. Delegations of this kind are what filled it, so that its
  transactions are never assembled.
\<close>

theorem full_idle_coordinator_stays_idle:
  assumes "coordState s = CoordinatorState_Idle"
    and "int (length (transactionIDs s)) \<ge> maxInflightTransactions s"
    and "\<exists>tx \<in> set txns. transactionsByID (txs s) (pt_ID tx) = None"
  shows "returns (\<lambda>s'. coordState s' = CoordinatorState_Idle)
    (coord_processEvent (TransactionsDelegatedEvent fromNode orig txns oh d) s)"
proof -
  let ?ev = "TransactionsDelegatedEvent fromNode orig txns oh d"
  let ?idle = "\<lambda>s. coordState s = CoordinatorState_Idle"
  let ?full = "\<lambda>s. ?idle s \<and> int (length (transactionIDs s)) \<ge> maxInflightTransactions s
      \<and> (\<exists>tx \<in> set txns. transactionsByID (txs s) (pt_ID tx) = None)"
  have refresh: "?full s \<Longrightarrow> ?full (updTxs refreshBlockHeight s)" for s
    by (simp add: updTxs_def refreshBlockHeight_def Let_def queueEventForCoordinator_def updGrapher_def
        calculateCoordinatorPriorities_def)
  have reject: "?full s \<Longrightarrow> returns ?full (action_RejectDelegationRequestBlockHeight ?ev s)" for s
    by (simp add: action_RejectDelegationRequestBlockHeight_def nodeSend_def onTxs_def transportSend_def
        recordOriginatorActivity_def)
  have process: "\<exists>e s'. action_ProcessDelegatedTransactions ?ev s = Fail e s' \<and> ?idle s'" if "?full s" for s
    using full_delegation_fails [of s txns fromNode orig oh d] that by auto
  have "\<forall>h \<in> set (handlers_for coordMachine CoordinatorState_Idle ?ev). handler_leads coordMachine ?ev ?full ?idle h"
  proof -
    have "handler_leads coordMachine ?ev ?full ?idle h" if "eh_Actions h = [always coord_action_RefreshBlockHeight]" "eh_Transitions h = []" for h
      by (rule leads_action [OF that]) (use refresh in \<open>simp add: coord_action_RefreshBlockHeight_def\<close>)
    moreover have "handler_leads coordMachine ?ev ?full ?idle h"
      if "eh_Actions h = [always action_RejectDelegationRequestBlockHeight]" "eh_Transitions h = []" for h
      by (rule leads_action [OF that])
         (use reject in \<open>fastforce split: outcome.splits\<close>)
    moreover have "handler_leads coordMachine ?ev ?full ?idle h"
      if "eh_Actions h = [always action_ProcessDelegatedTransactions]" for h
      by (rule leads_failure [OF that]) (rule process)
    ultimately show ?thesis by (simp add: handlers_for_def def_coord_Idle_def)
  qed
  then have "returns ?idle (handleLocked coordMachine ?ev (s\<lparr>coordLocked := True\<rparr>))"
    using assms by (intro handleLocked_leads [where P = ?full]) simp_all
  then show ?thesis
    by (simp add: coord_processEvent_def preProcessEvent_def ProcessEvent_def)
qed

definition fullIdleNode :: coordinatorNode where
  "fullIdleNode = runEvents [CoordinatorCreatedEvent, delegate [1, 2]]
     (sampleNode (emptyConfig\<lparr>cf_MaxInflightTransactions := Some 1\<rparr>) sampleEnv)"

lemma fullIdleNode_facts:
  "coordState fullIdleNode = CoordinatorState_Idle \<and> transactionIDs fullIdleNode = [1]
    \<and> maxInflightTransactions fullIdleNode = 1 \<and> transactionsByID (txs fullIdleNode) 2 = None"
  by code_simp

theorem full_idle_coordinator_stays_idle_witness:
  "node_reachable fullIdleNode \<and> transactionIDs fullIdleNode = [1]
    \<and> returns (\<lambda>s'. coordState s' = CoordinatorState_Idle) (coord_processEvent (delegate [1, 2]) fullIdleNode)"
proof -
  have "node_reachable fullIdleNode" unfolding fullIdleNode_def by (rule sampleNode_reachable)
  then show ?thesis
    using full_idle_coordinator_stays_idle [of fullIdleNode "map delegatedTx [1, 2]" "''node1''" "''me@node1''" 0 "''d1''"]
      fullIdleNode_facts
    by (simp add: delegate_def delegatedTx_def)
qed

section \<open>An active coordinator without a dispatch loop\<close>

text \<open>
  C35. If one heartbeat cannot be sent while the coordinator enters \<open>State_Active\<close>, the rest of what the
  entry has to do is skipped: the coordinator is active with its dispatch loop as it was, no new signing
  identity and no transaction selected.
\<close>

theorem heartbeat_failure_skips_activation:
  assumes "sendHeartbeat False (s\<lparr>currentActiveCoordinator := coordNodeName (txs s)\<rparr>) = Fail e s'"
  shows "executeActionRules ev (entryActions coordMachine CoordinatorState_Active) s = Fail e s'
    \<and> dispatchLoopPhase s' = dispatchLoopPhase s \<and> signingIdentity (txs s') = signingIdentity (txs s)
    \<and> assemblyInFlight s' = assemblyInFlight s"
proof -
  let ?I = "\<lambda>s'. dispatchLoopPhase s' = dispatchLoopPhase s \<and> signingIdentity (txs s') = signingIdentity (txs s)
      \<and> assemblyInFlight s' = assemblyInFlight s"
  have "?I w \<Longrightarrow> returns ?I (nodeSend n m w)" for n m w
    by (simp add: nodeSend_def onTxs_def transportSend_def)
  then have "returns ?I (sendHeartbeat False (s\<lparr>currentActiveCoordinator := coordNodeName (txs s)\<rparr>))"
    unfolding sendHeartbeat_def by (rule heartbeatLoop_inv) simp_all
  with assms show ?thesis
    by (simp add: entryActions_def def_coord_Active_def guard_passes_def action_SetSelfAsActiveCoordinator_def
        action_SendHeartbeat_def)
qed

text \<open>The second message a coordinator sends, after the acknowledgement of the delegation, is its first heartbeat.\<close>

definition beforeHeartbeat :: coordinatorNode where
  "beforeHeartbeat =
     (let s = sampleNode emptyConfig (sampleEnv\<lparr>env_sendFails := (\<lambda>n. n = 0)\<rparr>)
      in s\<lparr>originatorActivity := [(''node1'', 0)], coordState := CoordinatorState_Active\<rparr>)"

lemma beforeHeartbeat_fails:
  "case sendHeartbeat False (beforeHeartbeat\<lparr>currentActiveCoordinator := coordNodeName (txs beforeHeartbeat)\<rparr>) of
     Fail e s \<Rightarrow> dispatchLoopPhase beforeHeartbeat = LoopStopped | _ \<Rightarrow> False"
  by code_simp

theorem heartbeat_failure_skips_activation_witness:
  "\<exists>e s'. executeActionRules CoordinatorCreatedEvent (entryActions coordMachine CoordinatorState_Active) beforeHeartbeat = Fail e s'
     \<and> dispatchLoopPhase s' = LoopStopped"
  using beforeHeartbeat_fails heartbeat_failure_skips_activation [of beforeHeartbeat _ _ CoordinatorCreatedEvent]
  by (fastforce split: outcome.splits)

text \<open>A whole run to this state: the delegation is accepted, the heartbeat after it is not sent.\<close>

lemma active_without_loop_reachable:
  "let s = runEvents [CoordinatorCreatedEvent, delegate [1]] (sampleNode emptyConfig (sampleEnv\<lparr>env_sendFails := (\<lambda>n. n = 1)\<rparr>))
   in coordState s = CoordinatorState_Active \<and> dispatchLoopPhase s = LoopStopped \<and> transactionIDs s = [1]"
  by code_simp

section \<open>Events a transaction does not handle\<close>

lemma txHandleEvent_unhandled:
  assumes "transactionsByID (txs s) t \<noteq> None" and "\<not> txLocked (txn t (txs s))"
    and "\<And>hev. Events (stateDefinitionsMap hev t (txState s t)) (Event_Type ev) = None"
  shows "txHandleEvent t ev s = Ok s"
proof -
  have "HandleEvent hev t ev (txs s) = Ok (txs s)" for hev
    using assms by (intro HandleEvent_ignored) (simp_all add: handleLocked_def)
  then show ?thesis using assms(1) by (auto simp: txHandleEvent_def onTxs_def split: option.split)
qed

lemma only_pooled_selected: "st \<noteq> State_Pooled \<Longrightarrow> Events (stateDefinitionsMap hev t st) Event_Selected = None"
  by (cases st) (simp_all add: stateDefs tableParts)

text \<open>
  C36. A transaction that has left \<open>State_Pooled\<close> while it waited in the pool is still selected when its
  turn comes: it ignores the event, and the assembly slot counts as taken by a transaction that is not
  being assembled and that will not free it.
\<close>

theorem stale_pool_entry_takes_slot:
  assumes "node_wf s" and "pooledTransactions s = t # ts" and "currentState (txn t (txs s)) \<noteq> State_Pooled"
  shows "selectNextTransactionToAssemble s
    = Ok (s\<lparr>pooledTransactions := ts, assemblyInFlight := True, assemblingTxID := t\<rparr>)"
proof -
  let ?s = "s\<lparr>pooledTransactions := ts\<rparr>"
  note wf = assms(1)
  with assms(2) have known: "transactionsByID (txs s) t \<noteq> None"
    using known_iff by (auto simp: node_wf_def)
  with wf have "locks (txs s) t = Some False" using known_iff [OF wf] by (simp add: node_wf_def)
  with known have "\<not> txLocked (txn t (txs s))" by (auto simp: locks_def shape_def txn_def)
  then have "txHandleEvent t SelectedEvent ?s = Ok ?s"
    using known assms(3) by (intro txHandleEvent_unhandled) (simp_all add: only_pooled_selected)
  then show ?thesis
    using assms(2) by (simp add: selectNextTransactionToAssemble_def popNextPooledTransaction_def)
qed

text \<open>
  This is how the situation arises: an active coordinator that is assembling does nothing about a
  transaction that leaves the pool because a chained dependency was reset or has failed.
\<close>

lemma leaving_the_pool_unnoticed:
  assumes "coordState s = CoordinatorState_Active" and "assemblyInFlight s" and "\<not> coordLocked s"
    and "st \<in> {State_PreAssembly_Blocked, State_Reverted}"
  shows "coord_processEvent (TransactionStateTransitionEvent t State_Pooled st) s = Ok s"
  using assms
  by (auto simp: coord_processEvent_def preProcessEvent_def ProcessEvent_def handleLocked_def def_coord_Active_def
      matchesHandler_def guard_passes_def guard_HasTransactionAssembling_def
      validator_TransactionStateTransitionFrom_def validator_TransactionStateTransitionTo_def)

definition stalePoolNode :: coordinatorNode where
  "stalePoolNode =
     (let s = sampleNode emptyConfig sampleEnv in
      s\<lparr>txs := (txs s)\<lparr>transactionsByID := [2 \<mapsto> sampleTx State_Reverted]\<rparr>, coordState := CoordinatorState_Active,
        transactionIDs := [2], pooledTransactions := [2]\<rparr>)"

lemma stalePoolNode_facts:
  "node_wf stalePoolNode" "pooledTransactions stalePoolNode = [2]"
  "currentState (txn 2 (txs stalePoolNode)) = State_Reverted"
proof -
  have "node_wf (sampleNode emptyConfig sampleEnv)" unfolding sampleNode_def by (rule start_wf)
  moreover have "maxInflightTransactions (sampleNode emptyConfig sampleEnv) = 500" by code_simp
  ultimately show "node_wf stalePoolNode"
    by (auto simp: stalePoolNode_def Let_def node_wf_def consistent_def locks_def shape_def fun_eq_iff)
qed (simp_all add: stalePoolNode_def Let_def txn_def)

theorem stale_pool_entry_takes_slot_witness:
  "selectNextTransactionToAssemble stalePoolNode
     = Ok (stalePoolNode\<lparr>pooledTransactions := [], assemblyInFlight := True, assemblingTxID := 2\<rparr>)"
  using stale_pool_entry_takes_slot [of stalePoolNode 2 "[]"] stalePoolNode_facts by simp

section \<open>Dispatches that are lost or doubled\<close>

text \<open>
  C37. When an epoch boundary stops the dispatch loop of an active coordinator while the loop waits for
  capacity with a dispatch in hand, the dispatch is gone: it is neither persisted nor queued, and its
  transaction, which nothing has touched, waits for it in \<open>State_Ready_For_Dispatch\<close>.
\<close>

theorem epoch_boundary_drops_dispatch:
  assumes "coordState s = CoordinatorState_Active" and "dispatchLoopPhase s = LoopAwaitingCapacity qd"
    and "int (length (inFlightTxns (txs s))) \<ge> maxDispatchAhead s"
  shows "returns (\<lambda>s'. pipeline s' = concat (persistedBatches s) @ map snd (dispatchQueue (txs s))
      \<and> transactionsByID (txs s') = transactionsByID (txs s))
    (coord_processEvent EpochBoundaryReachedEvent s)"
proof -
  let ?s = "s\<lparr>coordLocked := True\<rparr>"
  let ?gone = "\<lambda>s'. dispatchLoopPhase s' = LoopStopped \<and> persistedBatches s' = persistedBatches s
      \<and> dispatchQueue (txs s') = dispatchQueue (txs s) \<and> transactionsByID (txs s') = transactionsByID (txs s)"
  have none: "dispatchPull ?s = None"
    using assms(2,3) by (simp add: dispatchPull_def awaitDispatchAheadCapacity_def)
  have stop: "stopDispatchLoop ?s = Ok (?s\<lparr>dispatchLoopPhase := LoopStopped\<rparr>)"
    using none assms(2) by (simp add: stopDispatchLoop_def)
  have again: "?gone s' \<Longrightarrow> stopDispatchLoop s' = Ok s'" for s'
    by (simp add: stopDispatchLoop_def dispatchPull_def)
  have "returns ?gone (handleLocked coordMachine EpochBoundaryReachedEvent ?s)"
    using assms(1) stop again
    by (simp add: handleLocked_def def_coord_Active_def matchesHandler_def guard_passes_def coordActionDefs
        takeTransition_def exitActions_def entryActions_def def_coord_Active_Flush_def updTxs_def newUUID_def
        queueEventInternal_def queueEventForCoordinator_def Let_def stopDispatchLoop_def dispatchPull_def)
  then have "returns ?gone (coord_processEvent EpochBoundaryReachedEvent s)"
    by (simp add: coord_processEvent_def preProcessEvent_def ProcessEvent_def)
  then show ?thesis by (rule returns_mono) (simp add: pipeline_def)
qed

definition noDispatch :: TransactionDispatch where
  "noDispatch = \<lparr>td_PublicDispatches = [], td_PrivateDispatches = [], td_PreparedTransactions = []\<rparr>"

definition waitingNode :: coordinatorNode where
  "waitingNode =
     (let s = sampleNode (emptyConfig\<lparr>cf_MaxDispatchAhead := Some 1\<rparr>) sampleEnv in
      s\<lparr>txs := (txs s)\<lparr>transactionsByID := [2 \<mapsto> sampleTx State_Ready_For_Dispatch], inFlightTxns := [1]\<rparr>,
        coordState := CoordinatorState_Active, transactionIDs := [2],
        dispatchLoopPhase := LoopAwaitingCapacity (2, \<lparr>pd_TransactionID = 2, pd_Dispatch = noDispatch\<rparr>)\<rparr>)"

theorem epoch_boundary_drops_dispatch_witness:
  "returns (\<lambda>s'. pipeline s' = [] \<and> currentState (txn 2 (txs s')) = State_Ready_For_Dispatch)
    (coord_processEvent EpochBoundaryReachedEvent waitingNode)"
proof -
  have w: "coordState waitingNode = CoordinatorState_Active" "maxDispatchAhead waitingNode = 1"
    "inFlightTxns (txs waitingNode) = [1]" "persistedBatches waitingNode = []" "dispatchQueue (txs waitingNode) = []"
    "transactionsByID (txs waitingNode) 2 = Some (sampleTx State_Ready_For_Dispatch)"
    "dispatchLoopPhase waitingNode = LoopAwaitingCapacity (2, \<lparr>pd_TransactionID = 2, pd_Dispatch = noDispatch\<rparr>)"
    by (simp_all add: waitingNode_def sampleNode_def Start_def NewCoordinator_def updTxs_def Let_def emptyConfig_def
        IntMinIfPositive_def SequencerMinimum_def)
  show ?thesis
    using epoch_boundary_drops_dispatch [OF w(1,7)] w by (auto simp: txn_def elim!: returns_mono)
qed

lemma only_ready_dispatched: "Events (def_Dispatched hev t) Event_Dispatched = None"
  by (simp add: stateDefs tableParts)

lemma handOver_dispatched:
  assumes "node_wf s" and "isDispatched t s"
  shows "handOverDispatch (t, pd) s = Ok s"
proof -
  from assms(2) obtain x where x: "transactionsByID (txs s) t = Some x" "currentState x = State_Dispatched"
    by (auto simp: isDispatched_def)
  with assms(1) have "locks (txs s) t = Some False" using known_iff [OF assms(1), of t] by (simp add: node_wf_def)
  with x have "\<not> txLocked x" by (simp add: locks_def shape_def)
  with x have "txHandleEvent t (DispatchedEvent b) s = Ok s" for b
    by (intro txHandleEvent_unhandled) (simp_all add: only_ready_dispatched txn_def)
  with x show ?thesis by (simp add: handOverDispatch_def)
qed

text \<open>
  C38. The dispatch loop keeps a dispatch if its transaction is in \<open>State_Dispatched\<close> after the hand over,
  whether or not this dispatch brought it there. If a transaction was reset and prepared again while its
  first dispatch was still queued, both dispatches go into the batch, the superseded one first.
\<close>

theorem superseded_dispatch_persisted:
  assumes "node_wf s" and "handOverDispatch (t, pd1) s = Ok s1" and "isDispatched t s1"
  shows "dispatchBatchLoop [(t, pd1), (t, pd2)] accepted s = Some (accepted @ [pd1, pd2], s1)"
proof -
  have "node_wf s1" using handOver_wf [OF assms(1), of "(t, pd1)"] assms(2) by simp
  then show ?thesis using handOver_dispatched [of s1 t pd2] assms(2,3) by simp
qed

definition readyNode :: coordinatorNode where
  "readyNode = stalePoolNode\<lparr>txs := (txs stalePoolNode)\<lparr>transactionsByID := [2 \<mapsto> sampleTx State_Ready_For_Dispatch]\<rparr>\<rparr>"

lemma readyNode_facts:
  "node_wf readyNode"
  "case handOverDispatch (2, \<lparr>pd_TransactionID = 2, pd_Dispatch = noDispatch\<rparr>) readyNode of
     Ok s1 \<Rightarrow> isDispatched 2 s1 | _ \<Rightarrow> False"
proof -
  show "node_wf readyNode"
    using stalePoolNode_facts(1)
    by (auto simp: readyNode_def stalePoolNode_def Let_def node_wf_def consistent_def locks_def shape_def fun_eq_iff)
  show "case handOverDispatch (2, \<lparr>pd_TransactionID = 2, pd_Dispatch = noDispatch\<rparr>) readyNode of
      Ok s1 \<Rightarrow> isDispatched 2 s1 | _ \<Rightarrow> False"
    by code_simp
qed

theorem superseded_dispatch_persisted_witness:
  "\<exists>s1. dispatchBatchLoop [(2, \<lparr>pd_TransactionID = 2, pd_Dispatch = noDispatch\<rparr>),
       (2, \<lparr>pd_TransactionID = 2, pd_Dispatch = noDispatch\<lparr>td_PublicDispatches := [7]\<rparr>\<rparr>)] [] readyNode
     = Some ([\<lparr>pd_TransactionID = 2, pd_Dispatch = noDispatch\<rparr>,
         \<lparr>pd_TransactionID = 2, pd_Dispatch = noDispatch\<lparr>td_PublicDispatches := [7]\<rparr>\<rparr>], s1)"
proof -
  obtain s1 where "handOverDispatch (2, \<lparr>pd_TransactionID = 2, pd_Dispatch = noDispatch\<rparr>) readyNode = Ok s1" "isDispatched 2 s1"
    using readyNode_facts(2) by (auto split: outcome.splits)
  from superseded_dispatch_persisted [OF readyNode_facts(1) this] show ?thesis by fastforce
qed

text \<open>
  C39. A negative \<open>maxDispatchAhead\<close>, which the configuration lets through as a way to switch the limit off,
  leaves the dispatch loop without capacity for ever.
\<close>

theorem negative_dispatch_ahead_never_dispatches:
  assumes "maxDispatchAhead s < 0"
  shows "awaitDispatchAheadCapacity s = None \<and> dispatchPull s = None"
  using assms by (simp add: awaitDispatchAheadCapacity_def dispatchPull_def split: dispatchLoopPhase.split)

theorem negative_dispatch_ahead_never_dispatches_witness:
  "dispatchPull (sampleNode (emptyConfig\<lparr>cf_MaxDispatchAhead := Some (-1)\<rparr>) sampleEnv) = None"
proof -
  have "maxDispatchAhead (sampleNode (emptyConfig\<lparr>cf_MaxDispatchAhead := Some (-1)\<rparr>) sampleEnv) < 0"
    by (simp add: sampleNode_def Start_def NewCoordinator_def updTxs_def Let_def emptyConfig_def IntMinIfPositive_def)
  then show ?thesis by (simp add: negative_dispatch_ahead_never_dispatches)
qed

section \<open>A coordinator that closes\<close>

text \<open>What entering \<open>State_Active\<close> does leaves the transactions the coordinator knows alone.\<close>

lemma sameTransactions:
  assumes "transactionIDs s = ids"
  shows "returns (\<lambda>s'. transactionIDs s' = ids) (txHandleEvent t ev s)"
    and "returns (\<lambda>s'. transactionIDs s' = ids) (nodeSend n m s)"
proof -
  have "returns (\<lambda>s'. transactionIDs s' = ids) (onTxs f s)" for f
    using assms by (cases "f (txs s)") (simp_all add: onTxs_def)
  then show "returns (\<lambda>s'. transactionIDs s' = ids) (txHandleEvent t ev s)"
    "returns (\<lambda>s'. transactionIDs s' = ids) (nodeSend n m s)"
    by (simp_all add: txHandleEvent_def nodeSend_def)
qed

lemma activation_same:
  "rules_keep (\<lambda>s. transactionIDs s = ids) ev (entryActions coordMachine CoordinatorState_Active)"
proof -
  have "transactionIDs s = ids \<Longrightarrow> returns (\<lambda>s'. transactionIDs s' = ids) (sendHeartbeat l s)" for l s
    unfolding sendHeartbeat_def by (rule heartbeatLoop_inv [OF sameTransactions(2)])
  moreover have "transactionIDs s = ids \<Longrightarrow> returns (\<lambda>s'. transactionIDs s' = ids) (selectNextTransactionToAssemble s)" for s
    by (auto simp: selectNextTransactionToAssemble_def popNextPooledTransaction_def split: list.split
        intro!: returns_and_then sameTransactions)
  ultimately show ?thesis
    by (simp add: rules_keep_def entryActions_def def_coord_Active_def action_SetSelfAsActiveCoordinator_def
        action_SendHeartbeat_def action_NewSigningIdentity_def action_StartDispatchLoop_def action_SelectTransaction_def
        action_ResetHeartbeatIntervalsSinceLastReceive_def updTxs_def startDispatchLoop_def)
qed

text \<open>
  A closing coordinator that has not heard of another one for longer than the grace period takes none
  of the transactions delegated to it, whatever its priority: it either becomes active, or, if it has the
  higher priority, does nothing at all, without answering the originator.
\<close>

theorem closing_coordinator_loses_delegation:
  assumes "coordState s = CoordinatorState_Closing" and "guard_InactiveGracePeriodExceeded s"
  shows "returns (\<lambda>s'. transactionIDs s' = transactionIDs s)
    (coord_processEvent (TransactionsDelegatedEvent fromNode orig txns oh d) s)"
proof -
  let ?ev = "TransactionsDelegatedEvent fromNode orig txns oh d"
  let ?same = "\<lambda>s'. transactionIDs s' = transactionIDs s"
  let ?closing = "\<lambda>s'. coordState s' = CoordinatorState_Closing \<and> guard_InactiveGracePeriodExceeded s' \<and> ?same s'"
  have "handler_leads coordMachine ?ev ?closing ?same h"
    if "eh_Actions h = [always coord_action_RefreshBlockHeight]" "eh_Transitions h = []" for h
    by (rule leads_action [OF that])
       (simp add: coord_action_RefreshBlockHeight_def updTxs_def guard_InactiveGracePeriodExceeded_def)
  moreover have "handler_leads coordMachine ?ev ?closing ?same h"
    if "eh_Actions h = [always action_RejectDelegationRequestBlockHeight]" "eh_Transitions h = []" for h
    by (rule leads_action [OF that])
       (simp add: action_RejectDelegationRequestBlockHeight_def nodeSend_def onTxs_def transportSend_def
         recordOriginatorActivity_def guard_InactiveGracePeriodExceeded_def)
  moreover have "returns ?same (takeTransition coordMachine ?ev (goToIf CoordinatorState_Active g []) w)" if "?closing w" for g w
    using executeActionRules_keep [OF activation_same [of "transactionIDs s" ?ev],
        of "w\<lparr>coordState := CoordinatorState_Active, coordIntervalsSinceStateChange := 0\<rparr>"] that
    by (simp add: takeTransition_def exitActions_def def_coord_Closing_def Let_def)
  ultimately have "\<forall>h \<in> set (handlers_for coordMachine CoordinatorState_Closing ?ev). handler_leads coordMachine ?ev ?closing ?same h"
    by (simp add: handlers_for_def def_coord_Closing_def) (simp add: handler_leads_def guard_passes_def)
  then have "returns ?same (handleLocked coordMachine ?ev (s\<lparr>coordLocked := True\<rparr>))"
    using assms by (intro handleLocked_leads [where P = ?closing]) (simp_all add: guard_InactiveGracePeriodExceeded_def)
  then show ?thesis
    by (simp add: coord_processEvent_def preProcessEvent_def ProcessEvent_def)
qed

definition closingNode :: coordinatorNode where
  "closingNode = (sampleNode emptyConfig sampleEnv)\<lparr>coordState := CoordinatorState_Closing,
     heartbeatIntervalsSinceLastReceive := 3, currentActiveCoordinator := ''node2''\<rparr>"

theorem closing_coordinator_loses_delegation_witness:
  "returns (\<lambda>s'. transactionIDs s' = []) (coord_processEvent (delegate [1]) closingNode)"
proof -
  have "transactionIDs closingNode = []" and c: "coordState closingNode = CoordinatorState_Closing"
    "guard_InactiveGracePeriodExceeded closingNode"
    by (simp_all add: closingNode_def sampleNode_def Start_def NewCoordinator_def updTxs_def Let_def emptyConfig_def
        guard_InactiveGracePeriodExceeded_def intSetting_def IntMin_def SequencerDefaults_def)
  then show ?thesis
    using closing_coordinator_loses_delegation [OF c, of "''node1''" "''me@node1''" "[delegatedTx 1]" 0 "''d1''"]
    by (simp add: delegate_def)
qed

text \<open>
  A priority list is computed from the epoch that was known before the block height was read, so that it
  lags behind when the height enters a new epoch.
\<close>

lemma priorities_lag_behind_epoch:
  assumes "coordinatorSelection c = COORDINATOR_ENDORSER"
  shows "coordinatorPriorityList (refreshBlockHeight c)
    = ComputeCoordinatorPriorityList (endorserCandidates c) (effectiveBlockHeight c)"
  using assms
  by (simp add: refreshBlockHeight_def Let_def calculateCoordinatorPriorities_def updGrapher_def
      queueEventForCoordinator_def)

end
