(* ===== verification/CoordinatorDuties.thy ===== *)
theory CoordinatorDuties
  imports CoordinatorFindings
begin

text \<open>
  What the coordinator owes others: dispatches in the order in which they became ready, an answer for
  every delegated transaction, and one answer to every endorsement request.
\<close>

section \<open>The order of dispatches\<close>

lemma endorsementGoroutine_only:
  "returns (\<lambda>s'. pipeline s' = pipeline s) (endorsementGoroutine cancelled e s)"
proof -
  have "returns (\<lambda>s'. pipeline s' = pipeline s) (nodeSend n m s)" for n m
    by (simp add: nodeSend_def onTxs_def transportSend_def pipeline_def)
  then have "returns (\<lambda>s'. pipeline s' = pipeline s) (handleEndorsementRequest cancelled e s)"
    by (simp add: handleEndorsementRequest_def split: option.split sum.split)
  then show ?thesis
    unfolding endorsementGoroutine_def returns_outcome_map
    by (rule returns_mono) (simp add: endEndorsement_def pipeline_def)
qed

lemma node_step_order: "node_step s s' \<Longrightarrow> keepsOrder (pipeline s) (pipeline s')"
proof (induction rule: node_step.induct)
  case (event_ok ev s s')
  then show ?case using coord_processEvent_steady [of s s ev] by (simp add: steady_def)
next
  case (event_error ev s e s')
  then show ?case using coord_processEvent_steady [of s s ev] by (simp add: steady_def)
next
  case (endorsed e s cancelled s')
  then show ?case using endorsementGoroutine_only [of s cancelled e] by simp
next
  case (tick s t)
  then show ?case by (simp add: pipeline_def updTxs_def)
qed (auto dest!: moves_receive moves_pull moves_batchStep simp: moves_def steady_def)


text \<open>
  C32. When the loop finds capacity it takes the dispatch in hand and those next in the queue: at least one,
  at most the size of a batch, and no more than may be dispatched ahead of confirmation.
\<close>

theorem dispatch_batch_within_bounds:
  assumes "1 \<le> dispatchMaxBatchSize s" and "dispatchPull s = Some s'"
  shows "\<exists>qd batch. dispatchLoopPhase s = LoopAwaitingCapacity qd \<and> dispatchLoopPhase s' = LoopBatch batch []
    \<and> batch @ dispatchQueue (txs s') = qd # dispatchQueue (txs s)
    \<and> 1 \<le> length batch \<and> int (length batch) \<le> dispatchMaxBatchSize s
    \<and> int (length (inFlightTxns (txs s))) + int (length batch) \<le> maxDispatchAhead s"
  using assms
  by (auto simp: dispatchPull_def awaitDispatchAheadCapacity_def pullDispatchBatch_def updTxs_def
      split: dispatchLoopPhase.splits if_splits)

definition busyLoop :: "dispatchLoopPhase \<Rightarrow> coordinatorNode" where
  "busyLoop phase = (updTxs (\<lambda>c. c\<lparr>dispatchQueue := map (\<lambda>t. (t, \<lparr>pd_TransactionID = t, pd_Dispatch = noDispatch\<rparr>)) [2, 3, 4]\<rparr>)
     (sampleNode (emptyConfig\<lparr>cf_MaxDispatchAhead := Some 2\<rparr>) sampleEnv))\<lparr>dispatchLoopPhase := phase\<rparr>"


theorem dispatch_batch_within_bounds_witness:
  "\<exists>s' batch. dispatchPull (busyLoop (LoopAwaitingCapacity (1, \<lparr>pd_TransactionID = 1, pd_Dispatch = noDispatch\<rparr>))) = Some s'
     \<and> dispatchLoopPhase s' = LoopBatch batch [] \<and> 1 \<le> length batch \<and> length batch \<le> 2"
proof -
  let ?s = "busyLoop (LoopAwaitingCapacity (1, \<lparr>pd_TransactionID = 1, pd_Dispatch = noDispatch\<rparr>))"
  have b: "1 \<le> dispatchMaxBatchSize ?s" "maxDispatchAhead ?s = 2" "dispatchPull ?s \<noteq> None" by code_simp+
  then obtain s' where s': "dispatchPull ?s = Some s'" by blast
  from dispatch_batch_within_bounds [OF b(1) s'] s' show ?thesis by (auto simp: b)
qed

section \<open>The answer to a delegation\<close>

text \<open>
  The codes of an answer: accepted or refused for want of room, up to the first transaction the
  coordinator fails on; everything after it is refused because of it.
\<close>

abbreviation noFailure :: "DelegationAcknowledgementError list \<Rightarrow> bool" where
  "noFailure codes \<equiv> set codes \<subseteq> {DelegationAcknowledgementError_None, DelegationAcknowledgementError_MaxInflightTransactions}"

abbreviation failedOnce :: "DelegationAcknowledgementError list \<Rightarrow> bool" where
  "failedOnce codes \<equiv> (\<exists>taken n. noFailure taken
     \<and> codes = taken @ DelegationAcknowledgementError_CoordinatorError
                 # replicate n DelegationAcknowledgementError_PreviousTransactionError)"

definition known :: "uuid \<Rightarrow> coordinatorNode \<Rightarrow> bool" where
  "known t s \<longleftrightarrow> transactionsByID (txs s) t \<noteq> None"

definition goodAnswer :: "uuid list \<Rightarrow> delegation \<Rightarrow> coordinatorNode \<Rightarrow> bool" where
  "goodAnswer ids d s \<longleftrightarrow> map fst (dl_acks d) = ids
     \<and> (if dl_error d = None then noFailure (map snd (dl_acks d)) else failedOnce (map snd (dl_acks d)))
     \<and> (\<forall>(t, e) \<in> set (dl_acks d). e = DelegationAcknowledgementError_None \<longrightarrow> known t s)"

lemma known_locks: "known t s \<longleftrightarrow> locks (txs s) t \<noteq> None"
  by (simp add: known_def locks_def shape_def)

lemma known_updTxs [simp]:
  "known u (dropTransaction t s) = (known u s \<and> u \<noteq> t)" "known u (storeTransaction t x s) = (known u s \<or> u = t)"
  "known u (snd (newTransaction orig node tx s)) = known u s" "known u (chainToPrevious t p s) = known u s"
proof -
  have "transactionsByID (addChainedDependencies t ds c) = transactionsByID c" for t ds c
    by (induction ds arbitrary: c) (simp_all add: Let_def updChainedDeps_def updGrapher_def split: option.split)
  then show "known u (snd (newTransaction orig node tx s)) = known u s"
    by (simp add: known_def newTransaction_def updTxs_def)
  show "known u (chainToPrevious t p s) = known u s"
    by (simp add: known_def chainToPrevious_def updTxs_def updPreassemblyDeps_def updGrapher_def split: option.split)
qed (auto simp: known_def dropTransaction_def storeTransaction_def updTxs_def)

lemma txHandleEvent_known: "returns (\<lambda>s'. \<forall>u. known u s' = known u s) (txHandleEvent t ev s)"
  using handleEvent_keepsTxs [of "txs s" "Suc (length (transactionIDs s))" t ev]
  by (cases "coordinatorTransactionHandleEvent (Suc (length (transactionIDs s))) t ev (txs s)")
     (simp_all add: txHandleEvent_def onTxs_def keepsTxs_def known_locks del: coordinatorTransactionHandleEvent.simps)

lemma delegateOne_result:
  assumes "delegateOne orig node tx d s = Some (d', s')"
  shows "\<exists>e. dl_acks d' = dl_acks d @ [(pt_ID tx, e)]
    \<and> (if dl_error d \<noteq> None then dl_error d' \<noteq> None \<and> e = DelegationAcknowledgementError_PreviousTransactionError
       else if dl_error d' \<noteq> None then e = DelegationAcknowledgementError_CoordinatorError
       else e \<in> {DelegationAcknowledgementError_None, DelegationAcknowledgementError_MaxInflightTransactions})
    \<and> (e = DelegationAcknowledgementError_None \<longrightarrow> known (pt_ID tx) s') \<and> (\<forall>u. known u s \<longrightarrow> known u s')"
proof -
  let ?n = "newTransaction orig node tx (chainToPrevious (pt_ID tx) (dl_previous d) s)"
  let ?s1 = "storeTransaction (pt_ID tx) (fst ?n) (snd ?n)"
  show ?thesis
  proof (cases "dl_error d \<noteq> None \<or> known (pt_ID tx) s \<or> int (length (transactionIDs s)) \<ge> maxInflightTransactions s")
    case True
    with assms show ?thesis by (auto simp: delegateOne_def Let_def known_def split: if_splits)
  next
    case False
    have k: "returns (\<lambda>s'. \<forall>u. known u s' = (known u s \<or> u = pt_ID tx)) (txHandleEvent (pt_ID tx) DelegatedEvent ?s1)"
      using txHandleEvent_known [of ?s1 "pt_ID tx" DelegatedEvent] by simp
    have "delegateOne orig node tx d s =
      (case txHandleEvent (pt_ID tx) DelegatedEvent ?s1 of
         Ok s2 \<Rightarrow> Some (d\<lparr>dl_acks := dl_acks d @ [(pt_ID tx, DelegationAcknowledgementError_None)],
                          dl_previous := Some (pt_ID tx)\<rparr>, s2)
       | Fail e s2 \<Rightarrow> Some (d\<lparr>dl_acks := dl_acks d @ [(pt_ID tx, DelegationAcknowledgementError_CoordinatorError)],
                               dl_error := Some e\<rparr>, dropTransaction (pt_ID tx) s2)
       | Stuck \<Rightarrow> None)"
      using False by (simp add: delegateOne_def Let_def known_def split_beta)
    with assms k False show ?thesis
      by (cases "txHandleEvent (pt_ID tx) DelegatedEvent ?s1") auto
  qed
qed

lemma delegateOne_good:
  assumes "delegateOne orig node tx d s = Some (d', s')" and "goodAnswer ids d s"
  shows "goodAnswer (ids @ [pt_ID tx]) d' s'"
proof -
  from delegateOne_result [OF assms(1)] obtain e where
    acks: "dl_acks d' = dl_acks d @ [(pt_ID tx, e)]" and
    code: "if dl_error d \<noteq> None then dl_error d' \<noteq> None \<and> e = DelegationAcknowledgementError_PreviousTransactionError
       else if dl_error d' \<noteq> None then e = DelegationAcknowledgementError_CoordinatorError
       else e \<in> {DelegationAcknowledgementError_None, DelegationAcknowledgementError_MaxInflightTransactions}" and
    kn: "e = DelegationAcknowledgementError_None \<longrightarrow> known (pt_ID tx) s'" "\<forall>u. known u s \<longrightarrow> known u s'"
    by blast
  have more: "failedOnce (codes @ [DelegationAcknowledgementError_PreviousTransactionError])" if "failedOnce codes" for codes
  proof -
    from that obtain taken n where "noFailure taken"
      "codes = taken @ DelegationAcknowledgementError_CoordinatorError
         # replicate n DelegationAcknowledgementError_PreviousTransactionError" by blast
    then show ?thesis by (intro exI [of _ taken] exI [of _ "Suc n"]) (simp add: replicate_append_same)
  qed
  have "failedOnce (codes @ [DelegationAcknowledgementError_CoordinatorError])" if "noFailure codes" for codes
    using that by (intro exI [of _ codes] exI [of _ 0]) simp
  then have "if dl_error d' = None then noFailure (map snd (dl_acks d')) else failedOnce (map snd (dl_acks d'))"
    using assms(2) code more unfolding goodAnswer_def acks by (auto split: if_splits)
  moreover have "\<forall>(t, e) \<in> set (dl_acks d'). e = DelegationAcknowledgementError_None \<longrightarrow> known t s'"
    using assms(2) kn unfolding goodAnswer_def acks by auto
  ultimately show ?thesis using assms(2) unfolding goodAnswer_def acks by simp
qed

lemma delegateLoop_good:
  assumes "delegateLoop orig node txns d s = Some (d', s')" and "goodAnswer ids d s"
  shows "goodAnswer (ids @ map pt_ID txns) d' s'"
  using assms
proof (induction txns arbitrary: ids d s)
  case (Cons tx txns)
  then obtain d1 s1 where "delegateOne orig node tx d s = Some (d1, s1)" "delegateLoop orig node txns d1 s1 = Some (d', s')"
    by (auto split: option.splits)
  then show ?case using Cons.IH [of d1 s1 "ids @ [pt_ID tx]"] delegateOne_good Cons.prems(2) by fastforce
qed simp

definition answersDelegation :: "string \<Rightarrow> string \<Rightarrow> uuid list \<Rightarrow> coordinatorNode \<Rightarrow> bool" where
  "answersDelegation d node ids s \<longleftrightarrow>
     (\<exists>before codes. outbox (txs s) = before @ [(node, DelegationResponse d ids node codes)]
        \<and> length codes = length ids \<and> (noFailure codes \<or> failedOnce codes)
        \<and> (\<forall>(t, e) \<in> set (zip ids codes). e = DelegationAcknowledgementError_None \<longrightarrow> known t s))"

lemma goodAnswer_sent:
  assumes "goodAnswer ids d s"
  shows "case nodeSend node (DelegationResponse i (map fst (dl_acks d)) node (map snd (dl_acks d))) s of
      Ok s' \<Rightarrow> answersDelegation i node ids s'
    | Fail e s' \<Rightarrow> e = TransportError node | Stuck \<Rightarrow> False"
proof -
  have z: "zip ids (map snd (dl_acks d)) = dl_acks d"
    using assms by (auto simp: goodAnswer_def zip_map_fst_snd)
  have "answersDelegation i node ids (s\<lparr>txs := c\<rparr>)"
    if "outbox c = outbox (txs s) @ [(node, DelegationResponse i ids node (map snd (dl_acks d)))]"
      "transactionsByID c = transactionsByID (txs s)" for c
    unfolding answersDelegation_def
    by (intro exI [of _ "outbox (txs s)"] exI [of _ "map snd (dl_acks d)"])
       (use assms that z in \<open>auto simp: goodAnswer_def known_def split: if_splits\<close>)
  with assms show ?thesis by (simp add: nodeSend_def onTxs_def transportSend_def goodAnswer_def)
qed

text \<open>
  A delegation is answered transaction by transaction. Unless the answer itself cannot be sent, the
  last thing the coordinator sends is an acknowledgement that lists the identifiers of the request in their
  order, each with a code: taken or refused for want of room, until the coordinator fails on one, and
  refused because of the failure from then on. Every transaction acknowledged without an error is one the
  coordinator now has.
\<close>

theorem delegation_acknowledged:
  assumes "Validate orig [] False = Inr (identity, node)"
  shows "case action_ProcessDelegatedTransactions (TransactionsDelegatedEvent fromNode orig txns oh d) s of
      Ok s' \<Rightarrow> answersDelegation d node (map pt_ID txns) s'
    | Fail e s' \<Rightarrow> answersDelegation d node (map pt_ID txns) s' \<or> e = TransportError node
    | Stuck \<Rightarrow> True"
proof (cases "delegateLoop orig node txns \<lparr>dl_acks = [], dl_previous = None, dl_error = None, dl_rejectedMaxInFlight = 0\<rparr>
    (recordOriginatorActivity fromNode s)")
  case None
  with assms show ?thesis by (simp add: action_ProcessDelegatedTransactions_def addToDelegatedTransactions_def)
next
  case (Some r)
  obtain dl s1 where r: "r = (dl, s1)" by (cases r)
  have "goodAnswer ([] @ map pt_ID txns) dl s1"
    by (rule delegateLoop_good [OF Some [unfolded r]]) (simp add: goodAnswer_def)
  then have "goodAnswer (map pt_ID txns) dl s1" by simp
  from goodAnswer_sent [OF this, where node = node and i = d] assms Some r show ?thesis
    by (cases "nodeSend node (DelegationResponse d (map fst (dl_acks dl)) node (map snd (dl_acks dl))) s1")
       (simp_all add: action_ProcessDelegatedTransactions_def addToDelegatedTransactions_def split: option.split)
qed

theorem delegation_acknowledged_witness:
  "Validate ''me@node1'' [] False = Inr (''me'', ''node1'')
   \<and> (let s = runEvents [CoordinatorCreatedEvent] (sampleNode emptyConfig sampleEnv)
      in case action_ProcessDelegatedTransactions (delegate [1, 2]) s of
           Ok s' \<Rightarrow> answersDelegation ''d1'' ''node1'' [1, 2] s' | Fail e s' \<Rightarrow> False | Stuck \<Rightarrow> False)"
proof -
  let ?s = "runEvents [CoordinatorCreatedEvent] (sampleNode emptyConfig sampleEnv)"
  have v: "Validate ''me@node1'' [] False = Inr (''me'', ''node1'')" by code_simp
  have ok: "case action_ProcessDelegatedTransactions (delegate [1, 2]) ?s of Ok s' \<Rightarrow> True | _ \<Rightarrow> False" by code_simp
  have m: "map pt_ID (map delegatedTx [1, 2]) = [1, 2]" by (simp add: delegatedTx_def)
  show ?thesis
    using delegation_acknowledged [OF v, where fromNode = "''node1''" and txns = "map delegatedTx [1, 2]" and oh = 0 and d = "''d1''" and s = ?s] v ok
    unfolding m delegate_def [symmetric] Let_def
    by (cases "action_ProcessDelegatedTransactions (delegate [1, 2]) ?s") simp_all
qed

section \<open>Endorsement for other coordinators\<close>

definition answersEndorsement :: "EndorsementRequestReceived \<Rightarrow> Message \<Rightarrow> bool" where
  "answersEndorsement e m \<longleftrightarrow>
     (case m of
        EndorsementResponseMsg r \<Rightarrow> es_TransactionId r = er_TransactionId e \<and> es_IdempotencyKey r = er_IdempotencyKey e
          \<and> es_Party r = er_Party e \<and> es_AttestationRequestName r = ar_Name (er_AttestationRequest e)
      | EndorsementError t k reason p a \<Rightarrow> t = er_TransactionId e \<and> k = er_IdempotencyKey e
          \<and> p = er_Party e \<and> a = ar_Name (er_AttestationRequest e)
      | _ \<Rightarrow> False)"

lemma endorse_answers: "endorse e s n = Inr r \<Longrightarrow> answersEndorsement e (EndorsementResponseMsg r)"
  by (auto simp: endorse_def answersEndorsement_def Let_def split: sum.splits prod.splits EndorseResult.splits if_splits)

lemma answersEndorsement_error:
  "answersEndorsement e (EndorsementError (er_TransactionId e) (er_IdempotencyKey e) reason (er_Party e)
     (ar_Name (er_AttestationRequest e)))"
  by (simp add: answersEndorsement_def)

lemma limited_retry_returns:
  assumes "rt_maxAttempts r > 0"
  obtains n where "Retry_Do r cancelled attempt = Some (stopsWith r attempt n)"
  using first_stop [OF assms, of cancelled attempt] retryLoop_reaches [of 1 _ r cancelled attempt]
  unfolding Retry_Do_def by metis

text \<open>
  C29. Every endorsement the coordinator has begun ends: with a limit on the attempts, the goroutine
  returns whatever the key manager and the domain answer, tries to send exactly one message, to the node
  that asked, which names the transaction, the request, the party and the attestation it answers, and
  releases the idempotency key so that a repeated request is served again.
\<close>

theorem endorsement_answered:
  assumes "rt_maxAttempts (endorseErrorRetry s) > 0"
  shows "\<exists>s'. endorsementGoroutine cancelled e s = Ok s' \<and> sendsTried (txs s') = Suc (sendsTried (txs s))
    \<and> er_IdempotencyKey e \<notin> set (inFlightEndorsements s')
    \<and> (if env_sendFails (env (txs s)) (sendsTried (txs s)) then outbox (txs s') = outbox (txs s)
       else \<exists>m. answersEndorsement e m \<and> outbox (txs s') = outbox (txs s) @ [(er_FromNode e, m)])"
proof -
  obtain n where n: "Retry_Do (endorseErrorRetry s) cancelled (endorse e s) = Some (stopsWith (endorseErrorRetry s) (endorse e s) n)"
    using limited_retry_returns [OF assms] .
  have "\<exists>m. handleEndorsementRequest cancelled e s = log_error (nodeSend (er_FromNode e) m s) \<and> answersEndorsement e m"
  proof (cases "stopsWith (endorseErrorRetry s) (endorse e s) n")
    case (Inl err)
    with n answersEndorsement_error show ?thesis by (fastforce simp: handleEndorsementRequest_def)
  next
    case (Inr r)
    then have "endorse e s n = Inr r" by (auto simp: stopsWith_def split: sum.splits prod.splits if_splits)
    with Inr n endorse_answers show ?thesis by (fastforce simp: handleEndorsementRequest_def)
  qed
  then show ?thesis
    by (cases "env_sendFails (env (txs s)) (sendsTried (txs s))")
       (auto simp: endorsementGoroutine_def endEndorsement_def nodeSend_def onTxs_def transportSend_def)
qed

theorem endorsement_answered_witness:
  "\<exists>s'. endorsementGoroutine (\<lambda>_. False) sampleRequest (sampleNode emptyConfig sampleEnv) = Ok s'
     \<and> length (outbox (txs s')) = 1 \<and> er_IdempotencyKey sampleRequest \<notin> set (inFlightEndorsements s')"
proof -
  let ?s = "sampleNode emptyConfig sampleEnv"
  have b: "rt_maxAttempts (endorseErrorRetry ?s) > 0" "outbox (txs ?s) = []" "\<not> env_sendFails (env (txs ?s)) (sendsTried (txs ?s))"
    by code_simp+
  from endorsement_answered [OF b(1), of "\<lambda>_. False" sampleRequest] b(2,3) show ?thesis by auto
qed

text \<open>The endorsements under way and the keys that are held.\<close>

definition keysMatch :: "coordinatorNode \<Rightarrow> bool" where
  "keysMatch s \<longleftrightarrow> distinct (map er_IdempotencyKey (endorsementsStarted s))
     \<and> set (inFlightEndorsements s) = er_IdempotencyKey ` set (endorsementsStarted s)"

lemma keysMatch_simps [simp]:
  "keysMatch (s\<lparr>coordState := st\<rparr>) = keysMatch s" "keysMatch (s\<lparr>coordLocked := b\<rparr>) = keysMatch s"
  "keysMatch (s\<lparr>coordIntervalsSinceStateChange := i\<rparr>) = keysMatch s"
  "keysMatch (s\<lparr>currentActiveCoordinator := n\<rparr>) = keysMatch s" "keysMatch (updTxs f s) = keysMatch s"
  by (simp_all add: keysMatch_def updTxs_def)

lemma keysMatch_moves: "moves s s' \<Longrightarrow> keysMatch s' = keysMatch s"
  by (simp add: moves_def keysMatch_def)

lemma keysMatch_begin: "keysMatch s \<Longrightarrow> returns keysMatch (action_HandleEndorsementRequest ev s)"
  by (auto simp: action_HandleEndorsementRequest_def beginEndorsement_def keysMatch_def split: CoordinatorEvent.split)

lemma remove1_key:
  "distinct (map f xs) \<Longrightarrow> e \<in> set xs \<Longrightarrow> distinct (map f (remove1 e xs)) \<and> f ` set (remove1 e xs) = f ` set xs - {f e}"
  by (induction xs) auto

lemma keysMatch_end:
  assumes "keysMatch s" and "e \<in> set (endorsementsStarted s)"
  shows "returns keysMatch (endorsementGoroutine cancelled e s)"
proof -
  have "returns (moves s) (handleEndorsementRequest cancelled e s)"
    by (auto simp: handleEndorsementRequest_def moves_nodeSend split: option.split sum.split)
  then show ?thesis
    unfolding endorsementGoroutine_def returns_outcome_map
    by (rule returns_mono)
       (use assms remove1_key [of er_IdempotencyKey "endorsementsStarted s" e] in \<open>simp add: keysMatch_def endEndorsement_def moves_def\<close>)
qed

interpretation coordKeys: machine_invariant coordMachine keysMatch ev for ev
proof (unfold_locales, goal_cases)
  case (4 r s)
  consider "act r = action_HandleEndorsementRequest" | "act r \<in> set movingActions" | "act r \<in> set namingActions"
    using coord_rule_actions [OF 4(1)] coordActions_split by auto
  then show ?case
  proof cases
    case 1
    with 4(2) show ?thesis by (simp add: keysMatch_begin)
  next
    case 2
    then have "returns (moves s) (act r ev s)" using movingActions_moves [of s s ev] by simp
    then show ?thesis by (rule returns_mono) (use 4(2) keysMatch_moves in blast)
  next
    case 3
    then have "returns (\<lambda>s'. \<exists>n. s' = s\<lparr>currentActiveCoordinator := n\<rparr>) (act r ev s)" using namingActions_names by blast
    then show ?thesis by (rule returns_mono) (use 4(2) in auto)
  qed
qed simp_all

lemma processEvent_keys: "keysMatch s \<Longrightarrow> returns keysMatch (coord_processEvent ev s)"
proof -
  assume s: "keysMatch s"
  have "returns (moves (s\<lparr>coordLocked := True\<rparr>)) (propagateEventToTransaction t e (s\<lparr>coordLocked := True\<rparr>))" for t e
    by (auto simp: propagateEventToTransaction_def split: option.split intro!: moves_txHandleEvent)
  then have "returns keysMatch (propagateEventToTransaction t e (s\<lparr>coordLocked := True\<rparr>))" for t e
    by (rule returns_mono) (use s keysMatch_moves in auto)
  then show ?thesis
    using coordKeys.ProcessEvent_inv [OF s] s
    by (auto simp: coord_processEvent_def preProcessEvent_def split: CoordinatorEvent.split)
qed

lemma node_step_keys: "node_step s s' \<Longrightarrow> keysMatch s \<Longrightarrow> keysMatch s'"
proof (induction rule: node_step.induct)
  case (event_ok ev s s')
  then show ?case using processEvent_keys [of s ev] by simp
next
  case (event_error ev s e s')
  then show ?case using processEvent_keys [of s ev] by simp
next
  case (endorsed e s cancelled s')
  then show ?case using keysMatch_end [of s e cancelled] by simp
qed (auto dest: moves_receive moves_pull moves_batchStep keysMatch_moves)

text \<open>
  No endorsement request is served twice at the same time: in every reachable state the endorsements
  under way have different idempotency keys, the keys held are exactly theirs, and a request that arrives
  with one of these keys changes nothing.
\<close>

theorem endorsement_served_once:
  assumes "node_reachable s"
  shows "distinct (map er_IdempotencyKey (endorsementsStarted s))
    \<and> set (inFlightEndorsements s) = er_IdempotencyKey ` set (endorsementsStarted s)
    \<and> (\<forall>e. er_IdempotencyKey e \<in> er_IdempotencyKey ` set (endorsementsStarted s)
         \<longrightarrow> action_HandleEndorsementRequest (EndorsementRequestReceivedEvent e) s = Ok s)"
proof -
  from assms have "keysMatch s"
  proof (induction rule: node_reachable.induct)
    case (start pd cfg sel n addr e ne fsi sub t0)
    show ?case by (simp add: Start_def NewCoordinator_def Let_def updTxs_def keysMatch_def)
  next
    case (step s s')
    then show ?case using node_step_keys by blast
  qed
  then show ?thesis by (auto simp: keysMatch_def action_HandleEndorsementRequest_def beginEndorsement_def)
qed

theorem endorsement_served_once_witness:
  "let s = runEvents [CoordinatorCreatedEvent, EndorsementRequestReceivedEvent sampleRequest] (sampleNode emptyConfig sampleEnv)
   in map er_IdempotencyKey (endorsementsStarted s) = [''key1'']
     \<and> action_HandleEndorsementRequest (EndorsementRequestReceivedEvent sampleRequest) s = Ok s"
proof -
  let ?s = "runEvents [CoordinatorCreatedEvent, EndorsementRequestReceivedEvent sampleRequest] (sampleNode emptyConfig sampleEnv)"
  have k: "map er_IdempotencyKey (endorsementsStarted ?s) = [''key1'']" by code_simp
  then have "er_IdempotencyKey ` set (endorsementsStarted ?s) = {''key1''}" by (metis list.set_map list.set(1,2))
  moreover have "er_IdempotencyKey sampleRequest = ''key1''" by (simp add: sampleRequest_def)
  ultimately show ?thesis
    using endorsement_served_once [OF sampleNode_reachable, of "[CoordinatorCreatedEvent, EndorsementRequestReceivedEvent sampleRequest]"
      emptyConfig sampleEnv] k unfolding Let_def by simp
qed

end
