(* ===== verification/OriginatorTypes.thy ===== *)
theory OriginatorTypes
  imports CoordinatorTypes Config
begin

text \<open>
  The data of the originator (\<^verbatim>\<open>originator/originator.go\<close>) and of its transactions
  (\<^verbatim>\<open>originator/transaction/transaction.go\<close>): states, events, the messages sent to coordinators, and the
  records of the two structs.

  The originator record is the world its transactions run in. What the code hands to others is kept in
  it: messages sent (\<open>o_outbox\<close>), events for its own loop (\<open>o_eventsInternal\<close>), and the goroutines that
  resolve verifiers, assemble and sign (\<open>o_resolves\<close>, \<open>o_assemblies\<close>, \<open>o_signs\<close>). What it takes from
  elsewhere is in \<open>o_env\<close>. Left out are metrics, log fields, contexts and the state view the domain reads
  while it assembles.
\<close>

section \<open>States\<close>

datatype OriginatorState = OriginatorState_Initial | OriginatorState_Idle | OriginatorState_Observing
  | OriginatorState_Sending

datatype OriginatorTransactionState = OriginatorTransactionState_Initial | OriginatorTransactionState_Resolving
  | OriginatorTransactionState_Pending | OriginatorTransactionState_Delegated
  | OriginatorTransactionState_Assembling | OriginatorTransactionState_Signing
  | OriginatorTransactionState_Endorsement_Gathering | OriginatorTransactionState_Prepared
  | OriginatorTransactionState_Dispatched | OriginatorTransactionState_Sequenced
  | OriginatorTransactionState_Submitted | OriginatorTransactionState_Confirmed
  | OriginatorTransactionState_Reverted | OriginatorTransactionState_Parked | OriginatorTransactionState_Final

section \<open>Messages to coordinators\<close>

text \<open>
  One entry of a delegation request: the domain, the transaction the intent specifies, and the verifiers
  its pre-assembly requires.
\<close>

record ResolveVerifierRequest =
  rq_Lookup :: string
  rq_Algorithm :: string
  rq_VerifierType :: string

record PrivateTransactionDelegation =
  dg_Domain :: string
  dg_TransactionID :: uuid
  dg_RequiredVerifiers :: "ResolveVerifierRequest list"

datatype OriginatorMessage =
    DelegationRequest (dr_DelegateNodeId: string) (dr_OriginatorBlockHeight: int)
      (dr_Transactions: "PrivateTransactionDelegation list")
  | AssembleResponseMsg uuid uuid TransactionPostAssembly
  | AssembleErrorMsg uuid uuid
  | AssembleRejection uuid uuid RejectionReason int int
  | SignResponse uuid uuid AttestationResult TransactionPostAssembly
  | SignErrorMsg uuid uuid
  | PreDispatchResponse uuid uuid
  | PreDispatchRejection uuid uuid RejectionReason

section \<open>Events of a transaction\<close>

datatype OriginatorTransactionEventType = OTEvent_Created | OTEvent_ConfirmedSuccess | OTEvent_ConfirmedReverted
  | OTEvent_Delegated | OTEvent_AssembleRequestReceived | OTEvent_AssembleSuccess | OTEvent_SignSuccess
  | OTEvent_SignError | OTEvent_AssembleRevert | OTEvent_AssemblePark | OTEvent_AssembleError
  | OTEvent_Dispatched | OTEvent_PreDispatchRequestReceived | OTEvent_Resumed | OTEvent_NonceAssigned
  | OTEvent_Submitted | OTEvent_Finalize | OTEvent_VerifiersResolved | OTEvent_VerifierResolutionFailed
  | OTEvent_VerifierResolutionRetry

record AssembleRequestReceived =
  aq_RequestID :: uuid
  aq_Coordinator :: string
  aq_CoordinatorBlockHeight :: int
  aq_BlockHeightTolerance :: int
  aq_Expiry :: "int option"

datatype OriginatorTransactionEvent =
    OTConfirmedSuccessEvent
  | OTConfirmedRevertedEvent HexBytes string bool
  | OTCreatedEvent
  | OTVerifiersResolvedEvent "ResolvedVerifier list"
  | OTVerifierResolutionFailedEvent
  | OTVerifierResolutionRetryEvent
  | OTDelegatedEvent string
  | OTAssembleRequestReceivedEvent AssembleRequestReceived
  | OTAssembleSuccessEvent PostAssembly uuid
  | OTSignSuccessEvent "AttestationResult list" uuid
  | OTSignErrorEvent uuid
  | OTAssembleRevertEvent PostAssembly uuid
  | OTAssembleParkEvent PostAssembly uuid
  | OTAssembleErrorEvent uuid
  | OTPreDispatchRequestReceivedEvent uuid string HexBytes
  | OTDispatchedEvent HexBytes string
  | OTNonceAssignedEvent HexBytes uint64 string
  | OTSubmittedEvent HexBytes uint64 HexBytes string
  | OTResumedEvent
  | OTFinalizeEvent

fun OriginatorTransactionEvent_Type :: "OriginatorTransactionEvent \<Rightarrow> OriginatorTransactionEventType" where
  "OriginatorTransactionEvent_Type OTConfirmedSuccessEvent = OTEvent_ConfirmedSuccess"
| "OriginatorTransactionEvent_Type (OTConfirmedRevertedEvent _ _ _) = OTEvent_ConfirmedReverted"
| "OriginatorTransactionEvent_Type OTCreatedEvent = OTEvent_Created"
| "OriginatorTransactionEvent_Type (OTVerifiersResolvedEvent _) = OTEvent_VerifiersResolved"
| "OriginatorTransactionEvent_Type OTVerifierResolutionFailedEvent = OTEvent_VerifierResolutionFailed"
| "OriginatorTransactionEvent_Type OTVerifierResolutionRetryEvent = OTEvent_VerifierResolutionRetry"
| "OriginatorTransactionEvent_Type (OTDelegatedEvent _) = OTEvent_Delegated"
| "OriginatorTransactionEvent_Type (OTAssembleRequestReceivedEvent _) = OTEvent_AssembleRequestReceived"
| "OriginatorTransactionEvent_Type (OTAssembleSuccessEvent _ _) = OTEvent_AssembleSuccess"
| "OriginatorTransactionEvent_Type (OTSignSuccessEvent _ _) = OTEvent_SignSuccess"
| "OriginatorTransactionEvent_Type (OTSignErrorEvent _) = OTEvent_SignError"
| "OriginatorTransactionEvent_Type (OTAssembleRevertEvent _ _) = OTEvent_AssembleRevert"
| "OriginatorTransactionEvent_Type (OTAssembleParkEvent _ _) = OTEvent_AssemblePark"
| "OriginatorTransactionEvent_Type (OTAssembleErrorEvent _) = OTEvent_AssembleError"
| "OriginatorTransactionEvent_Type (OTPreDispatchRequestReceivedEvent _ _ _) = OTEvent_PreDispatchRequestReceived"
| "OriginatorTransactionEvent_Type (OTDispatchedEvent _ _) = OTEvent_Dispatched"
| "OriginatorTransactionEvent_Type (OTNonceAssignedEvent _ _ _) = OTEvent_NonceAssigned"
| "OriginatorTransactionEvent_Type (OTSubmittedEvent _ _ _ _) = OTEvent_Submitted"
| "OriginatorTransactionEvent_Type OTResumedEvent = OTEvent_Resumed"
| "OriginatorTransactionEvent_Type OTFinalizeEvent = OTEvent_Finalize"

text \<open>The events that implement \<^verbatim>\<open>EventWithCoordinator\<close>.\<close>

fun GetCoordinator :: "OriginatorTransactionEvent \<Rightarrow> string option" where
  "GetCoordinator (OTDelegatedEvent coordinator) = Some coordinator"
| "GetCoordinator (OTDispatchedEvent _ coordinator) = Some coordinator"
| "GetCoordinator (OTNonceAssignedEvent _ _ coordinator) = Some coordinator"
| "GetCoordinator (OTSubmittedEvent _ _ _ coordinator) = Some coordinator"
| "GetCoordinator _ = None"

section \<open>Events of the originator\<close>

text \<open>The snapshot of a heartbeat is a pointer, nil if the notification has none.\<close>

datatype OriginatorEvent =
    OTxEvent uuid OriginatorTransactionEvent
  | OriginatorCreatedEvent
  | TransactionCreatedEvent "(PrivateTransaction \<times> ResolveVerifierRequest list) option"
  | DelegationRequestRejectedEvent RejectionReason string int int int
  | DelegateSendBatchEvent bool
  | OHeartbeatReceivedEvent string "CoordinatorSnapshot option"
  | OHeartbeatIntervalEvent
  | OTransactionStateTransitionEvent uuid OriginatorTransactionState OriginatorTransactionState
  | EndorserNodesDiscoveredEvent "string list"

datatype OriginatorEventType = OEvent_OriginatorCreated | OEvent_TransactionCreated
  | OEvent_DelegationRequestRejected | OEvent_DelegateSendBatch | OEvent_HeartbeatReceived
  | OEvent_HeartbeatInterval | OEvent_TransactionStateTransition | OEvent_EndorserNodesDiscovered
  | OEvent_Transaction

fun OriginatorEvent_Type :: "OriginatorEvent \<Rightarrow> OriginatorEventType" where
  "OriginatorEvent_Type (OTxEvent _ _) = OEvent_Transaction"
| "OriginatorEvent_Type OriginatorCreatedEvent = OEvent_OriginatorCreated"
| "OriginatorEvent_Type (TransactionCreatedEvent _) = OEvent_TransactionCreated"
| "OriginatorEvent_Type (DelegationRequestRejectedEvent _ _ _ _ _) = OEvent_DelegationRequestRejected"
| "OriginatorEvent_Type (DelegateSendBatchEvent _) = OEvent_DelegateSendBatch"
| "OriginatorEvent_Type (OHeartbeatReceivedEvent _ _) = OEvent_HeartbeatReceived"
| "OriginatorEvent_Type OHeartbeatIntervalEvent = OEvent_HeartbeatInterval"
| "OriginatorEvent_Type (OTransactionStateTransitionEvent _ _ _) = OEvent_TransactionStateTransition"
| "OriginatorEvent_Type (EndorserNodesDiscoveredEvent _) = OEvent_EndorserNodesDiscovered"

section \<open>The structs\<close>

record assembleRequestFromCoordinator =
  coordinatorsBlockHeight :: int
  rqCoordinator :: string
  requestID :: uuid
  expiry :: "int option"

text \<open>
  A cancel function a transaction keeps is the number of the goroutine it cancels; the timer of a
  resolution retry is the \<open>Timer\<close> of the clock.
\<close>

record originatorTransaction =
  ot_pt :: PrivateTransaction
  ot_RequiredVerifiers :: "ResolveVerifierRequest list"
  ot_ResolvedVerifiers :: "ResolvedVerifier list"
  ot_currentState :: OriginatorTransactionState
  ot_locked :: bool
  ot_currentDelegate :: string
  ot_lastDelegatedTime :: "int option"
  ot_firstDelegatedTime :: "int option"
  ot_latestAssembleRequest :: "assembleRequestFromCoordinator option"
  ot_latestFulfilledAssembleRequestID :: uuid
  ot_latestPreDispatchRequestID :: uuid
  ot_signerAddress :: "HexBytes option"
  ot_latestSubmissionHash :: "HexBytes option"
  ot_nonce :: "uint64 option"
  ot_cancelCurrentAssembly :: "nat option"
  ot_currentAssemblyRequestID :: uuid
  ot_cancelCurrentSign :: "nat option"
  ot_cancelResolveRetry :: "Timer option"
  ot_stateEntryTime :: int

text \<open>What a goroutine has captured, whether its context has been cancelled, and whether it has ended.\<close>

record assembleRun =
  ar_txID :: uuid
  ar_request :: assembleRequestFromCoordinator
  ar_verifiers :: "ResolvedVerifier list"
  ar_cancelled :: bool
  ar_finished :: bool

record signRun =
  sg_txID :: uuid
  sg_requestID :: uuid
  sg_plan :: "AttestationRequest list"
  sg_cancelled :: bool
  sg_finished :: bool

record originatorNode =
  o_env :: environment
  o_CheckPendingPrivateStateData :: "int \<Rightarrow> string + bool"
  o_now :: int
  o_sendsTried :: nat
  o_heightReads :: nat
  o_outbox :: "(string \<times> OriginatorMessage) list"
  o_eventsInternal :: "OriginatorEvent list"
  o_resolves :: "uuid list"
  o_assemblies :: "assembleRun list"
  o_signs :: "signRun list"
  o_state :: OriginatorState
  o_locked :: bool
  o_started :: bool
  o_currentActiveCoordinator :: string
  o_heartbeatIntervalsSinceLastReceive :: int
  o_transactionsByID :: "(uuid, originatorTransaction) gomap"
  o_transactionsOrdered :: "uuid list"
  o_effectiveBlockHeight :: uint64
  o_currentBlockHeight :: int
  o_endorserCandidates :: "string list"
  o_coordinatorPriorityList :: "string list"
  o_failoverIndex :: nat
  o_notifyFullDelegation :: "bool option"
  o_notifyPartialDelegation :: "bool option"
  o_nodeName :: string
  o_blockRange :: uint64
  o_inactiveGracePeriod :: int
  o_resolveRetryBackoff :: int
  o_delegationBatchInterval :: int
  o_heartbeatInterval :: int

datatype origError =
    OMsgSequencerInternalError string
  | OTransportError string
  | OCheckError string
  | OGoPanic

type_synonym origResult = "(origError, originatorNode) outcome"

end
