(* ===== verification/OriginatorTransactionActions.thy ===== *)
theory OriginatorTransactionActions
  imports OriginatorTypes
begin

text \<open>
  The operations of an originator transaction, one definition per Go function of
  \<^verbatim>\<open>originator/transaction/*.go\<close>, and the functions of the originator that its transactions call. An
  action of transaction \<open>t\<close> runs in the originator record; \<open>otxn t s\<close> is its struct.

  A panic of the Go code (a failed type assertion, a nil pointer, an index out of range) is \<open>Stuck\<close>; in
  a validator it is the error \<open>OGoPanic\<close>.
\<close>

section \<open>Access to the originator record\<close>

definition otxn :: "uuid \<Rightarrow> originatorNode \<Rightarrow> originatorTransaction" where
  "otxn t s = the (go_get (o_transactionsByID s) t)"

definition updOTxn :: "uuid \<Rightarrow> (originatorTransaction \<Rightarrow> originatorTransaction) \<Rightarrow> originatorNode \<Rightarrow> originatorNode" where
  "updOTxn t f s = s\<lparr>o_transactionsByID := AList.map_entry t f (o_transactionsByID s)\<rparr>"

definition o_queueEventInternal :: "OriginatorEvent \<Rightarrow> originatorNode \<Rightarrow> originatorNode" where
  "o_queueEventInternal ev s = s\<lparr>o_eventsInternal := o_eventsInternal s @ [ev]\<rparr>"

text \<open>Sending without a destination is an error; otherwise the transport decides.\<close>

definition o_send :: "string \<Rightarrow> OriginatorMessage \<Rightarrow> originatorNode \<Rightarrow> origResult" where
  "o_send node msg s =
     (if node = [] then Fail (OMsgSequencerInternalError ''attempt to send message without specifying destination node name'') s
      else if env_sendFails (o_env s) (o_sendsTried s)
      then Fail (OTransportError node) (s\<lparr>o_sendsTried := Suc (o_sendsTried s)\<rparr>)
      else Ok (s\<lparr>o_sendsTried := Suc (o_sendsTried s), o_outbox := o_outbox s @ [(node, msg)]\<rparr>))"

section \<open>What transactions call of the originator (originating.go)\<close>

definition resetFailoverIndex :: "originatorNode \<Rightarrow> originatorNode" where
  "resetFailoverIndex s =
     (if length (o_coordinatorPriorityList s) \<le> 1 then s
      else if o_currentActiveCoordinator s = o_coordinatorPriorityList s ! 0 then s\<lparr>o_failoverIndex := 1\<rparr>
      else s\<lparr>o_failoverIndex := 0\<rparr>)"

definition o_calculateCoordinatorPriorities :: "originatorNode \<Rightarrow> originatorNode" where
  "o_calculateCoordinatorPriorities s =
     (if o_endorserCandidates s = [] then s
      else (let s1 = s\<lparr>o_coordinatorPriorityList :=
                  ComputeCoordinatorPriorityList (o_endorserCandidates s) (o_effectiveBlockHeight s)\<rparr>;
                s2 = (if o_currentActiveCoordinator s1 = []
                      then s1\<lparr>o_currentActiveCoordinator := o_coordinatorPriorityList s1 ! 0\<rparr> else s1)
            in resetFailoverIndex s2))"

definition o_refreshBlockHeight :: "originatorNode \<Rightarrow> originatorNode" where
  "o_refreshBlockHeight s =
     (let liveHeight = env_GetBlockHeight (o_env s) (o_heightReads s);
          s1 = s\<lparr>o_heightReads := Suc (o_heightReads s), o_currentBlockHeight := liveHeight\<rparr>;
          newEffective = ComputeEffectiveBlockHeight (word_of_int liveHeight) (o_blockRange s)
      in if newEffective \<noteq> o_effectiveBlockHeight s1
         then o_calculateCoordinatorPriorities (s1\<lparr>o_effectiveBlockHeight := newEffective\<rparr>)
         else s1)"

section \<open>Resolving (resolving.go)\<close>

definition guard_HasRequiredVerifiers :: "uuid \<Rightarrow> originatorNode \<Rightarrow> bool" where
  "guard_HasRequiredVerifiers t s = (ot_RequiredVerifiers (otxn t s) \<noteq> [])"

definition action_ResolveVerifiers :: "uuid \<Rightarrow> OriginatorTransactionEvent \<Rightarrow> originatorNode \<Rightarrow> origResult" where
  "action_ResolveVerifiers t ev s = Ok (s\<lparr>o_resolves := o_resolves s @ [t]\<rparr>)"

text \<open>The end of the goroutine: what \<^verbatim>\<open>ResolveVerifiers\<close> has answered becomes an event.\<close>

definition handleResolveVerifiers :: "uuid \<Rightarrow> string + ResolvedVerifier list \<Rightarrow> originatorNode \<Rightarrow> originatorNode" where
  "handleResolveVerifiers t answer =
     o_queueEventInternal (OTxEvent t
       (case answer of Inl _ \<Rightarrow> OTVerifierResolutionFailedEvent | Inr vs \<Rightarrow> OTVerifiersResolvedEvent vs))"

definition action_VerifiersResolved :: "uuid \<Rightarrow> OriginatorTransactionEvent \<Rightarrow> originatorNode \<Rightarrow> origResult" where
  "action_VerifiersResolved t ev s =
     (case ev of
        OTVerifiersResolvedEvent vs \<Rightarrow> Ok (updOTxn t (\<lambda>x. x\<lparr>ot_ResolvedVerifiers := vs\<rparr>) s)
      | _ \<Rightarrow> Stuck)"

definition clearResolveRetrySchedule :: "uuid \<Rightarrow> originatorNode \<Rightarrow> originatorNode" where
  "clearResolveRetrySchedule t = updOTxn t (\<lambda>x. x\<lparr>ot_cancelResolveRetry := None\<rparr>)"

definition scheduleResolveRetry :: "uuid \<Rightarrow> originatorNode \<Rightarrow> originatorNode" where
  "scheduleResolveRetry t s =
     updOTxn t (\<lambda>x. x\<lparr>ot_cancelResolveRetry := Some \<lparr>tm_due = o_now s + o_resolveRetryBackoff s, tm_fired = False\<rparr>\<rparr>)
       (clearResolveRetrySchedule t s)"

definition action_ScheduleResolveRetry :: "uuid \<Rightarrow> OriginatorTransactionEvent \<Rightarrow> originatorNode \<Rightarrow> origResult" where
  "action_ScheduleResolveRetry t ev s = Ok (scheduleResolveRetry t s)"

definition action_CancelResolveRetry :: "uuid \<Rightarrow> OriginatorTransactionEvent \<Rightarrow> originatorNode \<Rightarrow> origResult" where
  "action_CancelResolveRetry t ev s = Ok (clearResolveRetrySchedule t s)"

text \<open>The timer of a retry that is due and was not cancelled queues its event, once.\<close>

definition fireResolveRetry :: "uuid \<Rightarrow> originatorNode \<Rightarrow> originatorNode option" where
  "fireResolveRetry t s =
     (case Option.bind (go_get (o_transactionsByID s) t) ot_cancelResolveRetry of
        None \<Rightarrow> None
      | Some tm \<Rightarrow>
          if tm_fired tm \<or> o_now s < tm_due tm then None
          else Some (o_queueEventInternal (OTxEvent t OTVerifierResolutionRetryEvent)
                 (updOTxn t (\<lambda>x. x\<lparr>ot_cancelResolveRetry := Some (tm\<lparr>tm_fired := True\<rparr>)\<rparr>) s)))"

section \<open>Delegation (delegated.go)\<close>

definition updateLastDelegatedTime :: "uuid \<Rightarrow> originatorNode \<Rightarrow> originatorNode" where
  "updateLastDelegatedTime t s = updOTxn t (\<lambda>x. x\<lparr>ot_lastDelegatedTime := Some (o_now s)\<rparr>) s"

definition action_Delegated :: "uuid \<Rightarrow> OriginatorTransactionEvent \<Rightarrow> originatorNode \<Rightarrow> origResult" where
  "action_Delegated t ev s =
     (case ev of
        OTDelegatedEvent coordinator \<Rightarrow>
          if coordinator = []
          then Fail (OMsgSequencerInternalError ''transaction delegate cannot be set to an empty node identity'') s
          else Ok (updateLastDelegatedTime t (updOTxn t (\<lambda>x. x\<lparr>
                 ot_firstDelegatedTime := (if ot_firstDelegatedTime x = None \<or> coordinator \<noteq> ot_currentDelegate x
                                           then Some (o_now s) else ot_firstDelegatedTime x),
                 ot_currentDelegate := coordinator\<rparr>) s))
      | _ \<Rightarrow> Stuck)"

definition action_ResetDelegationState :: "uuid \<Rightarrow> OriginatorTransactionEvent \<Rightarrow> originatorNode \<Rightarrow> origResult" where
  "action_ResetDelegationState t ev s =
     Ok (updOTxn t (\<lambda>x. x\<lparr>ot_latestAssembleRequest := None, ot_latestFulfilledAssembleRequestID := uuid_Nil,
          ot_latestPreDispatchRequestID := uuid_Nil, ot_signerAddress := None, ot_latestSubmissionHash := None,
          ot_nonce := None\<rparr>) s)"

definition validator_CoordinatorIsCurrentDelegate ::
  "uuid \<Rightarrow> OriginatorTransactionEvent \<Rightarrow> originatorNode \<Rightarrow> origError + bool" where
  "validator_CoordinatorIsCurrentDelegate t ev s =
     Inr (GetCoordinator ev = Some (ot_currentDelegate (otxn t s)))"

definition action_SendPreDispatchResponse :: "uuid \<Rightarrow> OriginatorTransactionEvent \<Rightarrow> originatorNode \<Rightarrow> origResult" where
  "action_SendPreDispatchResponse t ev s =
     o_send (ot_currentDelegate (otxn t s))
       (PreDispatchResponse (ot_latestPreDispatchRequestID (otxn t s)) t) s"

definition validator_AssembleRequestFromCurrentDelegate ::
  "uuid \<Rightarrow> OriginatorTransactionEvent \<Rightarrow> originatorNode \<Rightarrow> origError + bool" where
  "validator_AssembleRequestFromCurrentDelegate t ev s =
     (case ev of
        OTAssembleRequestReceivedEvent e \<Rightarrow> Inr (aq_Coordinator e = ot_currentDelegate (otxn t s))
      | _ \<Rightarrow> Inr False)"

text \<open>The hash covers the payloads of the signatures, in their order; it needs an assembly.\<close>

definition hashInternal :: "uuid \<Rightarrow> originatorNode \<Rightarrow> origError + HexBytes" where
  "hashInternal t s =
     (case pt_PostAssembly (ot_pt (otxn t s)) of
        None \<Rightarrow> Inl (OMsgSequencerInternalError ''cannot hash transaction without PostAssembly'')
      | Some pa \<Rightarrow> Inr (env_keccak256 (o_env s) (concat (map at_Payload (pa_Signatures (AssembleResponse pa))))))"

definition validator_PreDispatchRequestFromCurrentDelegate ::
  "uuid \<Rightarrow> OriginatorTransactionEvent \<Rightarrow> originatorNode \<Rightarrow> origError + bool" where
  "validator_PreDispatchRequestFromCurrentDelegate t ev s =
     (case ev of
        OTPreDispatchRequestReceivedEvent request coordinator hash \<Rightarrow>
          if coordinator \<noteq> ot_currentDelegate (otxn t s) then Inr False
          else (case hashInternal t s of Inl e \<Rightarrow> Inl e | Inr h \<Rightarrow> Inr (h = hash))
      | _ \<Rightarrow> Inr False)"

definition action_SendPreDispatchRejectionNotCurrentDelegate ::
  "uuid \<Rightarrow> OriginatorTransactionEvent \<Rightarrow> originatorNode \<Rightarrow> origResult" where
  "action_SendPreDispatchRejectionNotCurrentDelegate t ev s =
     (case ev of
        OTPreDispatchRequestReceivedEvent request coordinator hash \<Rightarrow>
          log_error (o_send coordinator (PreDispatchRejection t request NOT_CURRENT_DELEGATE) s)
      | _ \<Rightarrow> Stuck)"

section \<open>Assembly (assembling.go, endorsing.go)\<close>

definition action_AssembleRequestReceived :: "uuid \<Rightarrow> OriginatorTransactionEvent \<Rightarrow> originatorNode \<Rightarrow> origResult" where
  "action_AssembleRequestReceived t ev s =
     (case ev of
        OTAssembleRequestReceivedEvent e \<Rightarrow>
          Ok (updOTxn t (\<lambda>x. x\<lparr>ot_currentDelegate := aq_Coordinator e,
                ot_latestAssembleRequest := Some \<lparr>coordinatorsBlockHeight = aq_CoordinatorBlockHeight e,
                  rqCoordinator = aq_Coordinator e, requestID = aq_RequestID e, expiry = aq_Expiry e\<rparr>\<rparr>) s)
      | _ \<Rightarrow> Stuck)"

definition fulfilled :: "PostAssembly \<Rightarrow> uuid \<Rightarrow> originatorTransaction \<Rightarrow> originatorTransaction" where
  "fulfilled pa request x =
     x\<lparr>ot_pt := (ot_pt x)\<lparr>pt_PostAssembly := Some pa\<rparr>, ot_latestFulfilledAssembleRequestID := request\<rparr>"

definition o_action_AssembleSuccess :: "uuid \<Rightarrow> OriginatorTransactionEvent \<Rightarrow> originatorNode \<Rightarrow> origResult" where
  "o_action_AssembleSuccess t ev s =
     (case ev of
        OTAssembleSuccessEvent pa request \<Rightarrow> Ok (updOTxn t (fulfilled pa request) s)
      | _ \<Rightarrow> Stuck)"

definition o_action_AssembleRevert :: "uuid \<Rightarrow> OriginatorTransactionEvent \<Rightarrow> originatorNode \<Rightarrow> origResult" where
  "o_action_AssembleRevert t ev s =
     (case ev of
        OTAssembleRevertEvent pa request \<Rightarrow> Ok (updOTxn t (fulfilled pa request) s)
      | _ \<Rightarrow> Stuck)"

definition action_AssemblePark :: "uuid \<Rightarrow> OriginatorTransactionEvent \<Rightarrow> originatorNode \<Rightarrow> origResult" where
  "action_AssemblePark t ev s =
     (case ev of
        OTAssembleParkEvent pa request \<Rightarrow> Ok (updOTxn t (fulfilled pa request) s)
      | _ \<Rightarrow> Stuck)"

definition o_action_AssembleError :: "uuid \<Rightarrow> OriginatorTransactionEvent \<Rightarrow> originatorNode \<Rightarrow> origResult" where
  "o_action_AssembleError t ev s =
     (case ev of
        OTAssembleErrorEvent request \<Rightarrow>
          Ok (updOTxn t (\<lambda>x. x\<lparr>ot_latestFulfilledAssembleRequestID := request\<rparr>) s)
      | _ \<Rightarrow> Stuck)"

text \<open>Cancelling the goroutine a cancel function belongs to.\<close>

definition cancelAssembly :: "nat option \<Rightarrow> originatorNode \<Rightarrow> originatorNode" where
  "cancelAssembly run s =
     (case run of
        Some i \<Rightarrow> if i < length (o_assemblies s)
                  then s\<lparr>o_assemblies := (o_assemblies s)[i := (o_assemblies s ! i)\<lparr>ar_cancelled := True\<rparr>]\<rparr> else s
      | None \<Rightarrow> s)"

definition action_CancelCurrentAssembly :: "uuid \<Rightarrow> OriginatorTransactionEvent \<Rightarrow> originatorNode \<Rightarrow> origResult" where
  "action_CancelCurrentAssembly t ev s =
     Ok (updOTxn t (\<lambda>x. x\<lparr>ot_cancelCurrentAssembly := None\<rparr>)
          (cancelAssembly (ot_cancelCurrentAssembly (otxn t s)) s))"

definition action_Assemble :: "uuid \<Rightarrow> OriginatorTransactionEvent \<Rightarrow> originatorNode \<Rightarrow> origResult" where
  "action_Assemble t ev s =
     (case ot_latestAssembleRequest (otxn t s) of
        None \<Rightarrow> Fail (OMsgSequencerInternalError ''No assemble request found'') s
      | Some req \<Rightarrow>
          (let s1 = cancelAssembly (ot_cancelCurrentAssembly (otxn t s)) s
           in Ok ((updOTxn t (\<lambda>x. x\<lparr>ot_cancelCurrentAssembly := Some (length (o_assemblies s1)),
                     ot_currentAssemblyRequestID := requestID req\<rparr>) s1)
                \<lparr>o_assemblies := o_assemblies s1 @ [\<lparr>ar_txID = t, ar_request = req,
                   ar_verifiers = ot_ResolvedVerifiers (otxn t s), ar_cancelled = False, ar_finished = False\<rparr>]\<rparr>)))"

text \<open>
  The end of an assembly goroutine: the events it may queue for the answer of the domain. An error is
  dropped if the context is done; an event queued under a context that is done may be dropped as well, so
  that such a run queues nothing or the event.
\<close>

definition handleAssemble :: "assembleRun \<Rightarrow> string + TransactionPostAssembly \<Rightarrow> OriginatorEvent option" where
  "handleAssemble run answer =
     (let post = (\<lambda>r. \<lparr>AssembleResponse = r, OutputStates = [], OutputStatesWithLabels = [], InfoStates = [],
                        CollectedEndorsements = []\<rparr>);
          rid = requestID (ar_request run)
      in case answer of
           Inl _ \<Rightarrow> if ar_cancelled run then None else Some (OTxEvent (ar_txID run) (OTAssembleErrorEvent rid))
         | Inr r \<Rightarrow> Some (OTxEvent (ar_txID run)
             (case pa_AssemblyResult r of
                ASSEMBLE_OK \<Rightarrow> OTAssembleSuccessEvent (post r) rid
              | ASSEMBLE_REVERT \<Rightarrow> OTAssembleRevertEvent (post r) rid
              | ASSEMBLE_PARK \<Rightarrow> OTAssembleParkEvent (post r) rid)))"

text \<open>The answer is built from the assembly; without one the code dereferences a nil pointer.\<close>

definition sendAssembleResponse :: "uuid \<Rightarrow> originatorNode \<Rightarrow> origResult" where
  "sendAssembleResponse t s =
     (case pt_PostAssembly (ot_pt (otxn t s)) of
        None \<Rightarrow> Stuck
      | Some pa \<Rightarrow> o_send (ot_currentDelegate (otxn t s))
          (AssembleResponseMsg t (ot_latestFulfilledAssembleRequestID (otxn t s)) (AssembleResponse pa)) s)"

definition action_SendAssembleRevertResponse :: "uuid \<Rightarrow> OriginatorTransactionEvent \<Rightarrow> originatorNode \<Rightarrow> origResult" where
  "action_SendAssembleRevertResponse t ev s = sendAssembleResponse t s"

definition action_SendAssembleParkResponse :: "uuid \<Rightarrow> OriginatorTransactionEvent \<Rightarrow> originatorNode \<Rightarrow> origResult" where
  "action_SendAssembleParkResponse t ev s = sendAssembleResponse t s"

definition action_SendAssembleSuccessResponse :: "uuid \<Rightarrow> OriginatorTransactionEvent \<Rightarrow> originatorNode \<Rightarrow> origResult" where
  "action_SendAssembleSuccessResponse t ev s = sendAssembleResponse t s"

definition action_ResendAssembleSuccessResponse :: "uuid \<Rightarrow> OriginatorTransactionEvent \<Rightarrow> originatorNode \<Rightarrow> origResult" where
  "action_ResendAssembleSuccessResponse t ev s = action_SendAssembleSuccessResponse t ev s"

definition action_ResendAssembleRevertResponse :: "uuid \<Rightarrow> OriginatorTransactionEvent \<Rightarrow> originatorNode \<Rightarrow> origResult" where
  "action_ResendAssembleRevertResponse t ev s = action_SendAssembleRevertResponse t ev s"

definition action_ResendAssembleParkResponse :: "uuid \<Rightarrow> OriginatorTransactionEvent \<Rightarrow> originatorNode \<Rightarrow> origResult" where
  "action_ResendAssembleParkResponse t ev s = action_SendAssembleParkResponse t ev s"

definition action_SendAssembleError :: "uuid \<Rightarrow> OriginatorTransactionEvent \<Rightarrow> originatorNode \<Rightarrow> origResult" where
  "action_SendAssembleError t ev s =
     o_send (ot_currentDelegate (otxn t s)) (AssembleErrorMsg t (ot_latestFulfilledAssembleRequestID (otxn t s))) s"

definition o_tx_action_RefreshBlockHeight :: "uuid \<Rightarrow> OriginatorTransactionEvent \<Rightarrow> originatorNode \<Rightarrow> origResult" where
  "o_tx_action_RefreshBlockHeight t ev s = Ok (o_refreshBlockHeight s)"

definition validator_IsPrivateStateDataPendingForAssembly ::
  "uuid \<Rightarrow> OriginatorTransactionEvent \<Rightarrow> originatorNode \<Rightarrow> origError + bool" where
  "validator_IsPrivateStateDataPendingForAssembly t ev s =
     (case ev of
        OTAssembleRequestReceivedEvent e \<Rightarrow>
          (case o_CheckPendingPrivateStateData s (aq_CoordinatorBlockHeight e - aq_BlockHeightTolerance e) of
             Inl err \<Rightarrow> Inl (OCheckError err)
           | Inr complete \<Rightarrow> Inr (\<not> complete))
      | _ \<Rightarrow> Inl OGoPanic)"

definition action_RejectAssemblyPrivateStateDataPending ::
  "uuid \<Rightarrow> OriginatorTransactionEvent \<Rightarrow> originatorNode \<Rightarrow> origResult" where
  "action_RejectAssemblyPrivateStateDataPending t ev s =
     (case ev of
        OTAssembleRequestReceivedEvent e \<Rightarrow>
          o_send (aq_Coordinator e) (AssembleRejection t (aq_RequestID e) PRIVATE_STATE_DATA_PENDING
            (aq_CoordinatorBlockHeight e) (o_currentBlockHeight s)) s
      | _ \<Rightarrow> Stuck)"

definition validator_AssembleBlockHeightToleranceExceeded ::
  "uuid \<Rightarrow> OriginatorTransactionEvent \<Rightarrow> originatorNode \<Rightarrow> origError + bool" where
  "validator_AssembleBlockHeightToleranceExceeded t ev s =
     (case ev of
        OTAssembleRequestReceivedEvent e \<Rightarrow>
          (let receiverBH = (word_of_int (o_currentBlockHeight s) :: uint64);
               coordinatorBH = word_of_int (aq_CoordinatorBlockHeight e)
           in Inr (max receiverBH coordinatorBH - min receiverBH coordinatorBH > word_of_int (aq_BlockHeightTolerance e)))
      | _ \<Rightarrow> Inl OGoPanic)"

definition action_SendAssembleBlockHeightRejection ::
  "uuid \<Rightarrow> OriginatorTransactionEvent \<Rightarrow> originatorNode \<Rightarrow> origResult" where
  "action_SendAssembleBlockHeightRejection t ev s =
     (case ev of
        OTAssembleRequestReceivedEvent e \<Rightarrow>
          o_send (aq_Coordinator e) (AssembleRejection t (aq_RequestID e) BLOCK_HEIGHT_TOLERANCE
            (aq_CoordinatorBlockHeight e) (o_currentBlockHeight s)) s
      | _ \<Rightarrow> Stuck)"

definition validator_AssembleSuccessMatchesCurrentRequest ::
  "uuid \<Rightarrow> OriginatorTransactionEvent \<Rightarrow> originatorNode \<Rightarrow> origError + bool" where
  "validator_AssembleSuccessMatchesCurrentRequest t ev s =
     (case ev of
        OTAssembleSuccessEvent pa request \<Rightarrow>
          (case ot_latestAssembleRequest (otxn t s) of
             None \<Rightarrow> Inr False
           | Some req \<Rightarrow> Inr (requestID req = request))
      | _ \<Rightarrow> Inl OGoPanic)"

definition validator_AssembleRequestMatchesInProgressAssembly ::
  "uuid \<Rightarrow> OriginatorTransactionEvent \<Rightarrow> originatorNode \<Rightarrow> origError + bool" where
  "validator_AssembleRequestMatchesInProgressAssembly t ev s =
     (case ev of
        OTAssembleRequestReceivedEvent e \<Rightarrow>
          Inr (ot_cancelCurrentAssembly (otxn t s) \<noteq> None \<and> aq_RequestID e = ot_currentAssemblyRequestID (otxn t s))
      | _ \<Rightarrow> Inl OGoPanic)"

definition validator_AssembleRequestMatchesPreviousResponse ::
  "uuid \<Rightarrow> OriginatorTransactionEvent \<Rightarrow> originatorNode \<Rightarrow> origError + bool" where
  "validator_AssembleRequestMatchesPreviousResponse t ev s =
     (case ev of
        OTAssembleRequestReceivedEvent e \<Rightarrow> Inr (aq_RequestID e = ot_latestFulfilledAssembleRequestID (otxn t s))
      | _ \<Rightarrow> Inl OGoPanic)"

definition action_SendAssembleRejectionNotCurrentDelegate ::
  "uuid \<Rightarrow> OriginatorTransactionEvent \<Rightarrow> originatorNode \<Rightarrow> origResult" where
  "action_SendAssembleRejectionNotCurrentDelegate t ev s =
     (case ev of
        OTAssembleRequestReceivedEvent e \<Rightarrow>
          log_error (o_send (aq_Coordinator e) (AssembleRejection t (aq_RequestID e) NOT_CURRENT_DELEGATE 0 0) s)
      | _ \<Rightarrow> Stuck)"

section \<open>Signing (signing.go)\<close>

definition isLocalParty :: "string \<Rightarrow> string \<Rightarrow> bool" where
  "isLocalParty localNode party =
     (case Validate party localNode True of Inl _ \<Rightarrow> False | Inr (_, signerNode) \<Rightarrow> signerNode = localNode)"

definition guard_HasLocalSignRequirement :: "uuid \<Rightarrow> originatorNode \<Rightarrow> bool" where
  "guard_HasLocalSignRequirement t s =
     (case pt_PostAssembly (ot_pt (otxn t s)) of
        None \<Rightarrow> False
      | Some pa \<Rightarrow> list_ex (\<lambda>att. ar_AttestationType att = SIGN \<and> list_ex (isLocalParty (o_nodeName s)) (ar_Parties att))
                    (pa_AttestationPlan (AssembleResponse pa)))"

definition cancelSign :: "nat option \<Rightarrow> originatorNode \<Rightarrow> originatorNode" where
  "cancelSign run s =
     (case run of
        Some i \<Rightarrow> if i < length (o_signs s)
                  then s\<lparr>o_signs := (o_signs s)[i := (o_signs s ! i)\<lparr>sg_cancelled := True\<rparr>]\<rparr> else s
      | None \<Rightarrow> s)"

definition action_FulfilSignAttestations :: "uuid \<Rightarrow> OriginatorTransactionEvent \<Rightarrow> originatorNode \<Rightarrow> origResult" where
  "action_FulfilSignAttestations t ev s =
     (let s1 = cancelSign (ot_cancelCurrentSign (otxn t s)) s
      in case pt_PostAssembly (ot_pt (otxn t s1)) of
           None \<Rightarrow> Stuck
         | Some pa \<Rightarrow>
             Ok ((updOTxn t (\<lambda>x. x\<lparr>ot_cancelCurrentSign := Some (length (o_signs s1))\<rparr>) s1)
               \<lparr>o_signs := o_signs s1 @ [\<lparr>sg_txID = t, sg_requestID = ot_latestFulfilledAssembleRequestID (otxn t s1),
                  sg_plan = pa_AttestationPlan (AssembleResponse pa), sg_cancelled = False, sg_finished = False\<rparr>]\<rparr>))"

text \<open>
  The signing goroutine: every party of every SIGN attestation in order, until one fails. A party that is
  not local gets no result and no error. \<open>sign\<close> stands for \<^verbatim>\<open>SignAttestation\<close> of the engine.
\<close>

fun signParties :: "(AttestationRequest \<Rightarrow> string \<Rightarrow> string + AttestationResult option)
    \<Rightarrow> (AttestationRequest \<times> string) list \<Rightarrow> string + AttestationResult list" where
  "signParties sign [] = Inr []"
| "signParties sign ((att, party) # rest) =
     (case sign att party of
        Inl e \<Rightarrow> Inl e
      | Inr r \<Rightarrow> (case signParties sign rest of
                   Inl e \<Rightarrow> Inl e
                 | Inr rs \<Rightarrow> Inr ((case r of None \<Rightarrow> [] | Some a \<Rightarrow> [a]) @ rs)))"

definition handleSign :: "(AttestationRequest \<Rightarrow> string \<Rightarrow> string + AttestationResult option) \<Rightarrow> signRun
    \<Rightarrow> OriginatorEvent option" where
  "handleSign sign run =
     (case signParties sign (concat (map (\<lambda>att. map (Pair att) (ar_Parties att))
             (filter (\<lambda>att. ar_AttestationType att = SIGN) (sg_plan run)))) of
        Inl _ \<Rightarrow> if sg_cancelled run then None else Some (OTxEvent (sg_txID run) (OTSignErrorEvent (sg_requestID run)))
      | Inr results \<Rightarrow> Some (OTxEvent (sg_txID run) (OTSignSuccessEvent results (sg_requestID run))))"

definition o_action_SignSuccess :: "uuid \<Rightarrow> OriginatorTransactionEvent \<Rightarrow> originatorNode \<Rightarrow> origResult" where
  "o_action_SignSuccess t ev s =
     (case ev of
        OTSignSuccessEvent results request \<Rightarrow>
          (case pt_PostAssembly (ot_pt (otxn t s)) of
             None \<Rightarrow> Stuck
           | Some pa \<Rightarrow> Ok (updOTxn t (\<lambda>x. x\<lparr>ot_pt := (ot_pt x)\<lparr>pt_PostAssembly := Some (pa\<lparr>AssembleResponse :=
               (AssembleResponse pa)\<lparr>pa_Signatures := pa_Signatures (AssembleResponse pa) @ results\<rparr>\<rparr>)\<rparr>\<rparr>) s))
      | _ \<Rightarrow> Stuck)"

fun sendSignResponses :: "uuid \<Rightarrow> TransactionPostAssembly \<Rightarrow> AttestationResult list \<Rightarrow> originatorNode \<Rightarrow> origResult" where
  "sendSignResponses t response [] s = Ok s"
| "sendSignResponses t response (signature # rest) s =
     and_then (o_send (ot_currentDelegate (otxn t s))
         (SignResponse t (ot_latestFulfilledAssembleRequestID (otxn t s)) signature response) s)
       (sendSignResponses t response rest)"

definition action_SendSignResponse :: "uuid \<Rightarrow> OriginatorTransactionEvent \<Rightarrow> originatorNode \<Rightarrow> origResult" where
  "action_SendSignResponse t ev s =
     (case pt_PostAssembly (ot_pt (otxn t s)) of
        None \<Rightarrow> Stuck
      | Some pa \<Rightarrow> sendSignResponses t (AssembleResponse pa) (pa_Signatures (AssembleResponse pa)) s)"

definition action_SendSignError :: "uuid \<Rightarrow> OriginatorTransactionEvent \<Rightarrow> originatorNode \<Rightarrow> origResult" where
  "action_SendSignError t ev s =
     o_send (ot_currentDelegate (otxn t s)) (SignErrorMsg t (ot_latestFulfilledAssembleRequestID (otxn t s))) s"

definition action_CancelCurrentSign :: "uuid \<Rightarrow> OriginatorTransactionEvent \<Rightarrow> originatorNode \<Rightarrow> origResult" where
  "action_CancelCurrentSign t ev s =
     Ok (updOTxn t (\<lambda>x. x\<lparr>ot_cancelCurrentSign := None\<rparr>) (cancelSign (ot_cancelCurrentSign (otxn t s)) s))"

definition validator_SignSuccessMatchesCurrentRequest ::
  "uuid \<Rightarrow> OriginatorTransactionEvent \<Rightarrow> originatorNode \<Rightarrow> origError + bool" where
  "validator_SignSuccessMatchesCurrentRequest t ev s =
     (case ev of
        OTSignSuccessEvent results request \<Rightarrow> Inr (ot_latestFulfilledAssembleRequestID (otxn t s) = request)
      | _ \<Rightarrow> Inl OGoPanic)"

section \<open>Dispatch and finalization (prepared.go, finalizing.go)\<close>

definition o_action_Dispatched :: "uuid \<Rightarrow> OriginatorTransactionEvent \<Rightarrow> originatorNode \<Rightarrow> origResult" where
  "o_action_Dispatched t ev s =
     (case ev of
        OTDispatchedEvent signer coordinator \<Rightarrow> Ok (updOTxn t (\<lambda>x. x\<lparr>ot_signerAddress := Some signer\<rparr>) s)
      | _ \<Rightarrow> Stuck)"

definition action_PreDispatchRequestReceived :: "uuid \<Rightarrow> OriginatorTransactionEvent \<Rightarrow> originatorNode \<Rightarrow> origResult" where
  "action_PreDispatchRequestReceived t ev s =
     (case ev of
        OTPreDispatchRequestReceivedEvent request coordinator hash \<Rightarrow>
          Ok (updOTxn t (\<lambda>x. x\<lparr>ot_latestPreDispatchRequestID := request\<rparr>) s)
      | _ \<Rightarrow> Stuck)"

definition action_ResendPreDispatchResponse :: "uuid \<Rightarrow> OriginatorTransactionEvent \<Rightarrow> originatorNode \<Rightarrow> origResult" where
  "action_ResendPreDispatchResponse t ev s = action_SendPreDispatchResponse t ev s"

definition action_NonceAssigned :: "uuid \<Rightarrow> OriginatorTransactionEvent \<Rightarrow> originatorNode \<Rightarrow> origResult" where
  "action_NonceAssigned t ev s =
     (case ev of
        OTNonceAssignedEvent signer n coordinator \<Rightarrow>
          Ok (updOTxn t (\<lambda>x. x\<lparr>ot_signerAddress := Some signer, ot_nonce := Some n\<rparr>) s)
      | _ \<Rightarrow> Stuck)"

definition action_Submitted :: "uuid \<Rightarrow> OriginatorTransactionEvent \<Rightarrow> originatorNode \<Rightarrow> origResult" where
  "action_Submitted t ev s =
     (case ev of
        OTSubmittedEvent signer n hash coordinator \<Rightarrow>
          Ok (updOTxn t (\<lambda>x. x\<lparr>ot_signerAddress := Some signer, ot_nonce := Some n,
                ot_latestSubmissionHash := Some hash\<rparr>) s)
      | _ \<Rightarrow> Stuck)"

definition action_QueueFinalizeEvent :: "uuid \<Rightarrow> OriginatorTransactionEvent \<Rightarrow> originatorNode \<Rightarrow> origResult" where
  "action_QueueFinalizeEvent t ev s = Ok (o_queueEventInternal (OTxEvent t OTFinalizeEvent) s)"

definition validator_WillRetry :: "uuid \<Rightarrow> OriginatorTransactionEvent \<Rightarrow> originatorNode \<Rightarrow> origError + bool" where
  "validator_WillRetry t ev s =
     (case ev of OTConfirmedRevertedEvent reason message willRetry \<Rightarrow> Inr willRetry | _ \<Rightarrow> Inl OGoPanic)"

end
