(* ===== verification/OriginatorTransactionMachine.thy ===== *)
theory OriginatorTransactionMachine
  imports OriginatorTransactionActions TransactionMachine
begin

text \<open>
  The state machine of an originator transaction (\<^verbatim>\<open>originator/transaction/state_machine.go\<close>): one
  definition per state of the Go table, run by the engine of \<open>StateMachine\<close>.
\<close>

section \<open>Building blocks of the table\<close>

type_synonym otHandler = "(OriginatorTransactionState, OriginatorTransactionEvent, originatorNode, origError) EventHandler"
type_synonym otHandlers = "(OriginatorTransactionState, OriginatorTransactionEvent, originatorNode, origError) EventHandlers"
type_synonym otRule = "(OriginatorTransactionEvent, originatorNode, origError) ActionRule"
type_synonym otEntry = "OriginatorTransactionEventType \<times> otHandlers"
type_synonym otStateDefinition =
  "(OriginatorTransactionState, OriginatorTransactionEventType, OriginatorTransactionEvent, originatorNode, origError) StateDefinition"

abbreviation otStateDef :: "otRule list \<Rightarrow> otRule list \<Rightarrow> otEntry list \<Rightarrow> otStateDefinition" where
  "otStateDef entry exit evs \<equiv> \<lparr>OnTransitionTo = entry, OnTransitionFrom = exit, Events = map_of evs\<rparr>"

abbreviation stopping :: "('s, 'ev, 'w, 'err) EventHandler \<Rightarrow> ('s, 'ev, 'w, 'err) EventHandler" where
  "stopping h \<equiv> h\<lparr>eh_Stop := True\<rparr>"

text \<open>Entries that the Go table repeats in several states.\<close>

definition onConfirmedSuccess :: otEntry where
  "onConfirmedSuccess =
     (OTEvent_ConfirmedSuccess, matchFirst [handler [] [goTo OriginatorTransactionState_Confirmed []]])"

definition onRevertedBeforeDispatch :: "uuid \<Rightarrow> otEntry" where
  "onRevertedBeforeDispatch t =
     (OTEvent_ConfirmedReverted, matchFirst
        [handlerFor (ValidatorNot (validator_WillRetry t)) [] [goTo OriginatorTransactionState_Confirmed []]])"

definition onRevertedAfterDispatch :: "uuid \<Rightarrow> otEntry" where
  "onRevertedAfterDispatch t =
     (OTEvent_ConfirmedReverted, matchFirst
        [handlerFor (validator_WillRetry t) [] [goTo OriginatorTransactionState_Delegated []],
         handler [] [goTo OriginatorTransactionState_Confirmed []]])"

definition onRedelegated :: "uuid \<Rightarrow> otEntry" where
  "onRedelegated t =
     (OTEvent_Delegated, matchFirst
        [handlerFor (ValidatorNot (validator_CoordinatorIsCurrentDelegate t))
           [always (action_Delegated t), always (action_ResetDelegationState t)]
           [goTo OriginatorTransactionState_Delegated []]])"

text \<open>Admission of an assemble request: the rejections, with or without stopping there, and the full check.\<close>

definition resendTo :: "uuid \<Rightarrow> (uuid \<Rightarrow> OriginatorTransactionEvent \<Rightarrow> originatorNode \<Rightarrow> origResult) \<Rightarrow> otHandler" where
  "resendTo t resend = stopping (handlerFor
     (ValidatorAnd [validator_AssembleRequestMatchesPreviousResponse t, validator_AssembleRequestFromCurrentDelegate t])
     [always (resend t)] [])"

definition refuseAssembly :: "uuid \<Rightarrow> otHandler list" where
  "refuseAssembly t =
     [handlerFor (ValidatorNot (validator_AssembleRequestFromCurrentDelegate t))
        [always (action_SendAssembleRejectionNotCurrentDelegate t)] [],
      handlerFor (validator_AssembleBlockHeightToleranceExceeded t)
        [always (action_SendAssembleBlockHeightRejection t)] [],
      handlerFor (validator_IsPrivateStateDataPendingForAssembly t)
        [always (action_RejectAssemblyPrivateStateDataPending t)] []]"

definition refreshHeight :: "uuid \<Rightarrow> otHandler" where
  "refreshHeight t = handler [always (o_tx_action_RefreshBlockHeight t)] []"

definition assemblyAdmitted ::
  "uuid \<Rightarrow> (OriginatorTransactionEvent, originatorNode, origError) Validator" where
  "assemblyAdmitted t = ValidatorAnd
     [validator_AssembleRequestFromCurrentDelegate t,
      ValidatorNot (validator_AssembleBlockHeightToleranceExceeded t),
      ValidatorNot (validator_IsPrivateStateDataPendingForAssembly t)]"

text \<open>\<open>Delegated\<close>, \<open>Dispatched\<close>, \<open>Sequenced\<close>, \<open>Submitted\<close>: check everything, then assemble.\<close>

definition onAssembleRequest :: "uuid \<Rightarrow> otEntry" where
  "onAssembleRequest t =
     (OTEvent_AssembleRequestReceived, matchAll (refreshHeight t # refuseAssembly t @
        [handlerFor (assemblyAdmitted t) [always (action_AssembleRequestReceived t)]
           [goTo OriginatorTransactionState_Assembling []]]))"

text \<open>\<open>Signing\<close>, \<open>Endorsement_Gathering\<close>, \<open>Prepared\<close>: answer a repeated request again, else assemble anew.\<close>

definition onAssembleRequestAgain :: "uuid \<Rightarrow> otEntry" where
  "onAssembleRequestAgain t =
     (OTEvent_AssembleRequestReceived, matchAll (resendTo t action_ResendAssembleSuccessResponse # refreshHeight t
        # map stopping (refuseAssembly t)
        @ [handler [always (action_AssembleRequestReceived t)] [goTo OriginatorTransactionState_Assembling []]]))"

text \<open>\<open>Parked\<close>, \<open>Reverted\<close>: answer a repeated request again, record any other.\<close>

definition onAssembleRequestRecorded ::
  "uuid \<Rightarrow> (uuid \<Rightarrow> OriginatorTransactionEvent \<Rightarrow> originatorNode \<Rightarrow> origResult) \<Rightarrow> otEntry" where
  "onAssembleRequestRecorded t resend =
     (OTEvent_AssembleRequestReceived, matchAll (resendTo t resend # refreshHeight t # refuseAssembly t
        @ [handlerFor (assemblyAdmitted t) [always (action_AssembleRequestReceived t)] []]))"

section \<open>The states\<close>

definition def_o_Initial :: "uuid \<Rightarrow> otStateDefinition" where
  "def_o_Initial t = otStateDef [] []
     [onConfirmedSuccess,
      (OTEvent_Created, matchFirst
        [handler []
           [goToIf OriginatorTransactionState_Resolving (guard_HasRequiredVerifiers t) [],
            goTo OriginatorTransactionState_Pending []]])]"

definition def_o_Resolving :: "uuid \<Rightarrow> otStateDefinition" where
  "def_o_Resolving t = otStateDef [always (action_ResolveVerifiers t)] [always (action_CancelResolveRetry t)]
     [onConfirmedSuccess, onRevertedBeforeDispatch t,
      (OTEvent_VerifiersResolved, matchFirst
        [handler [always (action_VerifiersResolved t)] [goTo OriginatorTransactionState_Pending []]]),
      (OTEvent_VerifierResolutionFailed, matchFirst [handler [always (action_ScheduleResolveRetry t)] []]),
      (OTEvent_VerifierResolutionRetry, matchFirst
        [handler [always (action_CancelResolveRetry t), always (action_ResolveVerifiers t)] []])]"

definition def_o_Pending :: "uuid \<Rightarrow> otStateDefinition" where
  "def_o_Pending t = otStateDef [] []
     [onConfirmedSuccess, onRevertedBeforeDispatch t,
      (OTEvent_Delegated, matchFirst
        [handler [always (action_Delegated t)] [goTo OriginatorTransactionState_Delegated []]])]"

definition def_o_Delegated :: "uuid \<Rightarrow> otStateDefinition" where
  "def_o_Delegated t = otStateDef [] []
     [onConfirmedSuccess, onRevertedBeforeDispatch t,
      (OTEvent_Delegated, matchAll
        [handlerFor (ValidatorNot (validator_CoordinatorIsCurrentDelegate t))
           [always (action_ResetDelegationState t)] [],
         handler [always (action_Delegated t)] []]),
      onAssembleRequest t,
      (OTEvent_Dispatched, matchFirst
        [handlerFor (validator_CoordinatorIsCurrentDelegate t) [always (o_action_Dispatched t)]
           [goTo OriginatorTransactionState_Dispatched []]])]"

definition def_o_Assembling :: "uuid \<Rightarrow> otStateDefinition" where
  "def_o_Assembling t = otStateDef [always (action_Assemble t)] [always (action_CancelCurrentAssembly t)]
     [onConfirmedSuccess, onRevertedBeforeDispatch t, onRedelegated t,
      (OTEvent_AssembleSuccess, matchFirst
        [handlerFor (validator_AssembleSuccessMatchesCurrentRequest t) [always (o_action_AssembleSuccess t)]
           [goToIf OriginatorTransactionState_Signing (guard_HasLocalSignRequirement t)
              [always (action_SendAssembleSuccessResponse t)],
            goTo OriginatorTransactionState_Endorsement_Gathering [always (action_SendAssembleSuccessResponse t)]]]),
      (OTEvent_AssembleRevert, matchFirst
        [handler [always (o_action_AssembleRevert t)]
           [goTo OriginatorTransactionState_Reverted [always (action_SendAssembleRevertResponse t)]]]),
      (OTEvent_AssemblePark, matchFirst
        [handler [always (action_AssemblePark t)]
           [goTo OriginatorTransactionState_Parked [always (action_SendAssembleParkResponse t)]]]),
      (OTEvent_AssembleError, matchFirst
        [handler [always (o_action_AssembleError t)]
           [goTo OriginatorTransactionState_Delegated [always (action_SendAssembleError t)]]]),
      (OTEvent_AssembleRequestReceived, matchAll
        (resendTo t action_ResendAssembleSuccessResponse # refreshHeight t # map stopping (refuseAssembly t)
         @ [stopping (handlerFor (validator_AssembleRequestMatchesInProgressAssembly t) [] []),
            handler [always (action_AssembleRequestReceived t), always (action_Assemble t)] []]))]"

definition def_o_Signing :: "uuid \<Rightarrow> otStateDefinition" where
  "def_o_Signing t = otStateDef [always (action_FulfilSignAttestations t)] [always (action_CancelCurrentSign t)]
     [onConfirmedSuccess, onRevertedBeforeDispatch t, onRedelegated t,
      (OTEvent_SignSuccess, matchFirst
        [handlerFor (validator_SignSuccessMatchesCurrentRequest t) [always (o_action_SignSuccess t)]
           [goTo OriginatorTransactionState_Endorsement_Gathering [always (action_SendSignResponse t)]]]),
      (OTEvent_SignError, matchFirst
        [handler [] [goTo OriginatorTransactionState_Delegated [always (action_SendSignError t)]]]),
      onAssembleRequestAgain t]"

definition def_o_Endorsement_Gathering :: "uuid \<Rightarrow> otStateDefinition" where
  "def_o_Endorsement_Gathering t = otStateDef [] []
     [onConfirmedSuccess, onRevertedBeforeDispatch t, onRedelegated t, onAssembleRequestAgain t,
      (OTEvent_PreDispatchRequestReceived, matchFirst
        [handlerFor (validator_PreDispatchRequestFromCurrentDelegate t) [always (action_PreDispatchRequestReceived t)]
           [goTo OriginatorTransactionState_Prepared [always (action_SendPreDispatchResponse t)]]])]"

definition def_o_Prepared :: "uuid \<Rightarrow> otStateDefinition" where
  "def_o_Prepared t = otStateDef [] []
     [onConfirmedSuccess, onRevertedBeforeDispatch t, onRedelegated t,
      (OTEvent_Dispatched, matchFirst
        [handler [always (o_action_Dispatched t)] [goTo OriginatorTransactionState_Dispatched []]]),
      onAssembleRequestAgain t,
      (OTEvent_PreDispatchRequestReceived, matchFirst
        [handlerFor (validator_PreDispatchRequestFromCurrentDelegate t)
           [always (action_PreDispatchRequestReceived t), always (action_ResendPreDispatchResponse t)] [],
         handlerFor (ValidatorNot (validator_PreDispatchRequestFromCurrentDelegate t))
           [always (action_SendPreDispatchRejectionNotCurrentDelegate t)] []])]"

definition onSubmitted :: "uuid \<Rightarrow> otEntry" where
  "onSubmitted t =
     (OTEvent_Submitted, matchFirst
        [handlerFor (validator_CoordinatorIsCurrentDelegate t) [always (action_Submitted t)]
           [goTo OriginatorTransactionState_Submitted []]])"

definition def_o_Dispatched :: "uuid \<Rightarrow> otStateDefinition" where
  "def_o_Dispatched t = otStateDef [] []
     [onConfirmedSuccess, onRevertedAfterDispatch t, onRedelegated t,
      (OTEvent_NonceAssigned, matchFirst
        [handlerFor (validator_CoordinatorIsCurrentDelegate t) [always (action_NonceAssigned t)]
           [goTo OriginatorTransactionState_Sequenced []]]),
      onSubmitted t, onAssembleRequest t]"

definition def_o_Sequenced :: "uuid \<Rightarrow> otStateDefinition" where
  "def_o_Sequenced t = otStateDef [] []
     [onConfirmedSuccess, onRevertedAfterDispatch t, onRedelegated t, onSubmitted t, onAssembleRequest t]"

definition def_o_Submitted :: "uuid \<Rightarrow> otStateDefinition" where
  "def_o_Submitted t = otStateDef [] []
     [(OTEvent_Submitted, matchFirst
        [handlerFor (validator_CoordinatorIsCurrentDelegate t) [always (action_Submitted t)] []]),
      onConfirmedSuccess, onRevertedAfterDispatch t, onRedelegated t, onAssembleRequest t]"

definition def_o_Parked :: "uuid \<Rightarrow> otStateDefinition" where
  "def_o_Parked t = otStateDef [] []
     [onConfirmedSuccess, onRevertedBeforeDispatch t, onRedelegated t,
      onAssembleRequestRecorded t action_ResendAssembleParkResponse,
      (OTEvent_Resumed, matchFirst [handler [] [goTo OriginatorTransactionState_Pending []]])]"

definition def_o_Confirmed :: "uuid \<Rightarrow> otStateDefinition" where
  "def_o_Confirmed t = otStateDef [always (action_QueueFinalizeEvent t)] []
     [(OTEvent_Finalize, matchFirst [handler [] [goTo OriginatorTransactionState_Final []]])]"

definition def_o_Reverted :: "uuid \<Rightarrow> otStateDefinition" where
  "def_o_Reverted t = otStateDef [always (action_QueueFinalizeEvent t)] []
     [(OTEvent_Finalize, matchFirst [handler [] [goTo OriginatorTransactionState_Final []]]),
      onAssembleRequestRecorded t action_ResendAssembleRevertResponse]"

definition def_o_Final :: otStateDefinition where
  "def_o_Final = otStateDef [] [] []"

fun otStateDefinitionsMap :: "uuid \<Rightarrow> OriginatorTransactionState \<Rightarrow> otStateDefinition" where
  "otStateDefinitionsMap t OriginatorTransactionState_Initial = def_o_Initial t"
| "otStateDefinitionsMap t OriginatorTransactionState_Resolving = def_o_Resolving t"
| "otStateDefinitionsMap t OriginatorTransactionState_Pending = def_o_Pending t"
| "otStateDefinitionsMap t OriginatorTransactionState_Delegated = def_o_Delegated t"
| "otStateDefinitionsMap t OriginatorTransactionState_Assembling = def_o_Assembling t"
| "otStateDefinitionsMap t OriginatorTransactionState_Signing = def_o_Signing t"
| "otStateDefinitionsMap t OriginatorTransactionState_Endorsement_Gathering = def_o_Endorsement_Gathering t"
| "otStateDefinitionsMap t OriginatorTransactionState_Prepared = def_o_Prepared t"
| "otStateDefinitionsMap t OriginatorTransactionState_Dispatched = def_o_Dispatched t"
| "otStateDefinitionsMap t OriginatorTransactionState_Sequenced = def_o_Sequenced t"
| "otStateDefinitionsMap t OriginatorTransactionState_Submitted = def_o_Submitted t"
| "otStateDefinitionsMap t OriginatorTransactionState_Confirmed = def_o_Confirmed t"
| "otStateDefinitionsMap t OriginatorTransactionState_Reverted = def_o_Reverted t"
| "otStateDefinitionsMap t OriginatorTransactionState_Parked = def_o_Parked t"
| "otStateDefinitionsMap t OriginatorTransactionState_Final = def_o_Final"

section \<open>The machine\<close>

definition ot_onTransition :: "uuid \<Rightarrow> OriginatorTransactionState \<Rightarrow> OriginatorTransactionState
    \<Rightarrow> OriginatorTransactionEvent \<Rightarrow> originatorNode \<Rightarrow> originatorNode" where
  "ot_onTransition t from to ev s =
     o_queueEventInternal (OTransactionStateTransitionEvent t from to)
       (updOTxn t (\<lambda>x. x\<lparr>ot_stateEntryTime := o_now s\<rparr>) s)"

definition otMachine :: "uuid \<Rightarrow>
    (OriginatorTransactionState, OriginatorTransactionEventType, OriginatorTransactionEvent, originatorNode, origError) StateMachine" where
  "otMachine t =
     \<lparr>definitions = (\<lambda>st. Some (otStateDefinitionsMap t st)),
      GetCurrentState = (\<lambda>s. ot_currentState (otxn t s)),
      SetCurrentState = (\<lambda>st. updOTxn t (\<lambda>x. x\<lparr>ot_currentState := st\<rparr>)),
      sm_mark = (\<lambda>ev s. s),
      transitionCallback = Some (ot_onTransition t),
      eventType = OriginatorTransactionEvent_Type,
      sm_locked = (\<lambda>s. ot_locked (otxn t s)),
      sm_setLock = (\<lambda>b. updOTxn t (\<lambda>x. x\<lparr>ot_locked := b\<rparr>))\<rparr>"

text \<open>\<^verbatim>\<open>HandleEvent\<close> of a transaction of the map.\<close>

definition ot_HandleEvent :: "uuid \<Rightarrow> OriginatorTransactionEvent \<Rightarrow> originatorNode \<Rightarrow> origResult" where
  "ot_HandleEvent t ev s = ProcessEvent (otMachine t) ev s"

end
