(* ===== verification/OriginatorActions.thy ===== *)
theory OriginatorActions
  imports OriginatorTransactionMachine
begin

text \<open>
  The operations of the originator, one definition per Go function of \<^verbatim>\<open>originator/*.go\<close>: creation of
  transactions, the delegation loop and the request it leads to, the choice of the active coordinator and
  failover, what heartbeats tell, and the table of its state machine.

  A heartbeat without a snapshot makes the code dereference a nil pointer.

  The loop that batches delegations is a process of its own: \<open>delegationTick\<close> is one tick of it. Its two
  channels hold one notification at most; \<open>None\<close> is a nil channel, which the code has while the loop does
  not run.
\<close>

section \<open>Creation and removal (originating.go)\<close>

definition newOriginatorTransaction :: "PrivateTransaction \<Rightarrow> ResolveVerifierRequest list \<Rightarrow> originatorNode
    \<Rightarrow> originatorTransaction" where
  "newOriginatorTransaction ptx needed s =
     \<lparr>ot_pt = ptx, ot_RequiredVerifiers = needed, ot_ResolvedVerifiers = [],
      ot_currentState = OriginatorTransactionState_Initial, ot_locked = False, ot_currentDelegate = [],
      ot_lastDelegatedTime = None, ot_firstDelegatedTime = None, ot_latestAssembleRequest = None,
      ot_latestFulfilledAssembleRequestID = uuid_Nil, ot_latestPreDispatchRequestID = uuid_Nil,
      ot_signerAddress = None, ot_latestSubmissionHash = None, ot_nonce = None, ot_cancelCurrentAssembly = None,
      ot_currentAssemblyRequestID = uuid_Nil, ot_cancelCurrentSign = None, ot_cancelResolveRetry = None,
      ot_stateEntryTime = o_now s\<rparr>"

definition addToTransactions :: "(PrivateTransaction \<times> ResolveVerifierRequest list) option \<Rightarrow> originatorNode \<Rightarrow> origResult" where
  "addToTransactions transaction s =
     (case transaction of
        None \<Rightarrow> Fail (OMsgSequencerInternalError ''cannot create transaction without private tx'') s
      | Some (ptx, needed) \<Rightarrow>
          ot_HandleEvent (pt_ID ptx) OTCreatedEvent
            (s\<lparr>o_transactionsByID := go_set (pt_ID ptx) (newOriginatorTransaction ptx needed s) (o_transactionsByID s),
               o_transactionsOrdered := o_transactionsOrdered s @ [pt_ID ptx]\<rparr>))"

definition action_TransactionCreated :: "OriginatorEvent \<Rightarrow> originatorNode \<Rightarrow> origResult" where
  "action_TransactionCreated ev s =
     (case ev of TransactionCreatedEvent transaction \<Rightarrow> addToTransactions transaction s | _ \<Rightarrow> Stuck)"

definition validator_TransactionDoesNotExist :: "OriginatorEvent \<Rightarrow> originatorNode \<Rightarrow> origError + bool" where
  "validator_TransactionDoesNotExist ev s =
     (case ev of
        TransactionCreatedEvent None \<Rightarrow> Inr True
      | TransactionCreatedEvent (Some (ptx, needed)) \<Rightarrow> Inr (go_get (o_transactionsByID s) (pt_ID ptx) = None)
      | _ \<Rightarrow> Inr False)"

definition o_removeTransaction :: "uuid \<Rightarrow> originatorNode \<Rightarrow> originatorNode" where
  "o_removeTransaction t s =
     s\<lparr>o_transactionsByID := go_del t (o_transactionsByID s), o_transactionsOrdered := remove1 t (o_transactionsOrdered s)\<rparr>"

definition o_action_CleanUpTransaction :: "OriginatorEvent \<Rightarrow> originatorNode \<Rightarrow> origResult" where
  "o_action_CleanUpTransaction ev s =
     (case ev of OTransactionStateTransitionEvent t from to \<Rightarrow> Ok (o_removeTransaction t s) | _ \<Rightarrow> Stuck)"

definition action_FinalizeTransaction :: "OriginatorEvent \<Rightarrow> originatorNode \<Rightarrow> origResult" where
  "action_FinalizeTransaction ev s =
     (case ev of
        OTransactionStateTransitionEvent t from to \<Rightarrow> Ok (o_queueEventInternal (OTxEvent t OTFinalizeEvent) s)
      | _ \<Rightarrow> Stuck)"

definition transitionTo :: "OriginatorTransactionState \<Rightarrow> OriginatorEvent \<Rightarrow> originatorNode \<Rightarrow> origError + bool" where
  "transitionTo st ev s =
     (case ev of OTransactionStateTransitionEvent t from to \<Rightarrow> Inr (to = st) | _ \<Rightarrow> Inl OGoPanic)"

definition validator_OriginatorTransactionStateTransitionToFinal where
  "validator_OriginatorTransactionStateTransitionToFinal = transitionTo OriginatorTransactionState_Final"

definition validator_OriginatorTransactionStateTransitionToConfirmed where
  "validator_OriginatorTransactionStateTransitionToConfirmed = transitionTo OriginatorTransactionState_Confirmed"

definition validator_OriginatorTransactionStateTransitionToReverted where
  "validator_OriginatorTransactionStateTransitionToReverted = transitionTo OriginatorTransactionState_Reverted"

definition validator_OriginatorTransactionStateTransitionFromResolving ::
  "OriginatorEvent \<Rightarrow> originatorNode \<Rightarrow> origError + bool" where
  "validator_OriginatorTransactionStateTransitionFromResolving ev s =
     (case ev of
        OTransactionStateTransitionEvent t from to \<Rightarrow> Inr (from = OriginatorTransactionState_Resolving)
      | _ \<Rightarrow> Inl OGoPanic)"

definition guard_HasTransactions :: "originatorNode \<Rightarrow> bool" where
  "guard_HasTransactions s = (0 < length (o_transactionsByID s))"

section \<open>The active coordinator (originating.go)\<close>

definition o_action_RefreshBlockHeight :: "OriginatorEvent \<Rightarrow> originatorNode \<Rightarrow> origResult" where
  "o_action_RefreshBlockHeight ev s = Ok (o_refreshBlockHeight s)"

definition o_action_CalculateCoordinatorPriorities :: "OriginatorEvent \<Rightarrow> originatorNode \<Rightarrow> origResult" where
  "o_action_CalculateCoordinatorPriorities ev s = Ok (o_calculateCoordinatorPriorities s)"

definition requestFullDelegation :: "originatorNode \<Rightarrow> originatorNode" where
  "requestFullDelegation s = s\<lparr>o_notifyFullDelegation := map_option (\<lambda>_. True) (o_notifyFullDelegation s)\<rparr>"

definition requestPartialDelegation :: "originatorNode \<Rightarrow> originatorNode" where
  "requestPartialDelegation s = s\<lparr>o_notifyPartialDelegation := map_option (\<lambda>_. True) (o_notifyPartialDelegation s)\<rparr>"

text \<open>An index out of range is a panic.\<close>

definition action_FailoverToNextCoordinator :: "OriginatorEvent \<Rightarrow> originatorNode \<Rightarrow> origResult" where
  "action_FailoverToNextCoordinator ev s =
     (let n = length (o_coordinatorPriorityList s) in
      if n > 1
      then (if o_failoverIndex s < n
            then Ok (requestFullDelegation (s\<lparr>o_currentActiveCoordinator := o_coordinatorPriorityList s ! o_failoverIndex s,
                   o_failoverIndex := (o_failoverIndex s + 1) mod n, o_heartbeatIntervalsSinceLastReceive := 0\<rparr>))
            else Stuck)
      else Ok (requestFullDelegation s))"

definition action_ResetToTopPriorityCoordinator :: "OriginatorEvent \<Rightarrow> originatorNode \<Rightarrow> origResult" where
  "action_ResetToTopPriorityCoordinator ev s =
     (if length (o_coordinatorPriorityList s) \<le> 1 then Ok s
      else Ok (s\<lparr>o_currentActiveCoordinator := o_coordinatorPriorityList s ! 0, o_failoverIndex := 1\<rparr>))"

definition o_guard_InactiveGracePeriodExceeded :: "originatorNode \<Rightarrow> bool" where
  "o_guard_InactiveGracePeriodExceeded s = (o_heartbeatIntervalsSinceLastReceive s > o_inactiveGracePeriod s)"

definition validator_IsFromCurrentCoordinator :: "OriginatorEvent \<Rightarrow> originatorNode \<Rightarrow> origError + bool" where
  "validator_IsFromCurrentCoordinator ev s =
     (case ev of OHeartbeatReceivedEvent node snapshot \<Rightarrow> Inr (node = o_currentActiveCoordinator s) | _ \<Rightarrow> Inl OGoPanic)"

definition validator_IsSenderHigherPriorityThanCurrentCoordinator ::
  "OriginatorEvent \<Rightarrow> originatorNode \<Rightarrow> origError + bool" where
  "validator_IsSenderHigherPriorityThanCurrentCoordinator ev s =
     (case ev of
        OHeartbeatReceivedEvent node snapshot \<Rightarrow>
          Inr (IsHigherPriority (o_coordinatorPriorityList s) node (o_currentActiveCoordinator s))
      | _ \<Rightarrow> Inl OGoPanic)"

definition o_action_ResetHeartbeatIntervalsSinceLastReceive :: "OriginatorEvent \<Rightarrow> originatorNode \<Rightarrow> origResult" where
  "o_action_ResetHeartbeatIntervalsSinceLastReceive ev s = Ok (s\<lparr>o_heartbeatIntervalsSinceLastReceive := 0\<rparr>)"

definition action_UpdateEndorserCandidates :: "OriginatorEvent \<Rightarrow> originatorNode \<Rightarrow> origResult" where
  "action_UpdateEndorserCandidates ev s =
     (case ev of EndorserNodesDiscoveredEvent nodes \<Rightarrow> Ok (s\<lparr>o_endorserCandidates := nodes\<rparr>) | _ \<Rightarrow> Stuck)"

text \<open>New candidates are appended one by one; only a change sorts the pool and computes the priorities.\<close>

definition mergeCandidates :: "string list \<Rightarrow> string list \<Rightarrow> string list" where
  "mergeCandidates new known = fold (\<lambda>node pool. if node \<in> set pool then pool else pool @ [node]) new known"

definition action_UpdateEndorserCandidatesFromHeartbeat :: "OriginatorEvent \<Rightarrow> originatorNode \<Rightarrow> origResult" where
  "action_UpdateEndorserCandidatesFromHeartbeat ev s =
     (if o_endorserCandidates s = [] then Ok s
      else case ev of
        OHeartbeatReceivedEvent node snapshot \<Rightarrow>
          (let candidates = (case snapshot of
                 Some snap \<Rightarrow> if cs_EndorserCandidates snap \<noteq> [] then cs_EndorserCandidates snap else [node]
               | None \<Rightarrow> [node]);
               merged = mergeCandidates candidates (o_endorserCandidates s)
           in if merged = o_endorserCandidates s then Ok s
              else let pool = sort merged
                   in Ok (resetFailoverIndex (s\<lparr>o_endorserCandidates := pool,
                        o_coordinatorPriorityList := ComputeCoordinatorPriorityList pool (o_effectiveBlockHeight s)\<rparr>)))
      | _ \<Rightarrow> Stuck)"

definition action_UpdateActiveCoordinatorFromHeartbeat :: "OriginatorEvent \<Rightarrow> originatorNode \<Rightarrow> origResult" where
  "action_UpdateActiveCoordinatorFromHeartbeat ev s =
     (case ev of
        OHeartbeatReceivedEvent node snapshot \<Rightarrow> Ok (resetFailoverIndex (s\<lparr>o_currentActiveCoordinator := node\<rparr>))
      | _ \<Rightarrow> Stuck)"

definition o_validator_IsHeartbeatSenderLive :: "OriginatorEvent \<Rightarrow> originatorNode \<Rightarrow> origError + bool" where
  "o_validator_IsHeartbeatSenderLive ev s =
     (case ev of
        OHeartbeatReceivedEvent node (Some snapshot) \<Rightarrow>
          Inr (cs_CoordinatorState snapshot \<in> {CoordinatorState_Elect, CoordinatorState_Prepared,
            CoordinatorState_Active, CoordinatorState_Active_Flush})
      | _ \<Rightarrow> Inl OGoPanic)"

section \<open>Delegation (delegation.go)\<close>

definition startDelegationLoop :: "originatorNode \<Rightarrow> originatorNode" where
  "startDelegationLoop s =
     (if \<not> o_started s \<or> o_notifyFullDelegation s \<noteq> None then s
      else s\<lparr>o_notifyFullDelegation := Some False, o_notifyPartialDelegation := Some False\<rparr>)"

definition stopDelegationLoop :: "originatorNode \<Rightarrow> originatorNode" where
  "stopDelegationLoop s = s\<lparr>o_notifyFullDelegation := None, o_notifyPartialDelegation := None\<rparr>"

definition delegationTick :: "originatorNode \<Rightarrow> originatorNode option" where
  "delegationTick s =
     (case (o_notifyFullDelegation s, o_notifyPartialDelegation s) of
        (Some fullSend, Some partialSend) \<Rightarrow>
          (let s1 = s\<lparr>o_notifyFullDelegation := Some False, o_notifyPartialDelegation := Some False\<rparr>
           in Some (if partialSend \<or> fullSend then o_queueEventInternal (DelegateSendBatchEvent fullSend) s1 else s1))
      | _ \<Rightarrow> None)"

definition delegationEntry :: "originatorTransaction \<Rightarrow> PrivateTransactionDelegation" where
  "delegationEntry x =
     \<lparr>dg_Domain = pt_Domain (ot_pt x), dg_TransactionID = pt_ID (ot_pt x), dg_RequiredVerifiers = ot_RequiredVerifiers x\<rparr>"

text \<open>
  The loop over the transactions in the order of their creation. It ends at the first that is not resolved
  yet; the transactions collected so far are the first component.
\<close>

fun delegationScan :: "bool \<Rightarrow> uuid list \<Rightarrow> originatorNode \<Rightarrow> uuid list \<times> origResult" where
  "delegationScan full [] s = ([], Ok s)"
| "delegationScan full (t # rest) s =
     (let state = ot_currentState (otxn t s) in
      if state = OriginatorTransactionState_Initial \<or> state = OriginatorTransactionState_Resolving then ([], Ok s)
      else if \<not> full \<and> state \<noteq> OriginatorTransactionState_Pending \<and> state \<noteq> OriginatorTransactionState_Delegated
      then delegationScan full rest s
      else case ot_HandleEvent t (OTDelegatedEvent (o_currentActiveCoordinator s)) s of
             Ok s1 \<Rightarrow> (case delegationScan full rest s1 of (ts, r) \<Rightarrow> (t # ts, r))
           | Fail e s1 \<Rightarrow> ([t], Fail (OMsgSequencerInternalError ''error handling delegated event'') s1)
           | Stuck \<Rightarrow> ([t], Stuck))"

definition sendDelegationRequest :: "bool \<Rightarrow> originatorNode \<Rightarrow> origResult" where
  "sendDelegationRequest full s =
     (case delegationScan full (o_transactionsOrdered s) s of
        (toDelegate, r) \<Rightarrow> and_then r (\<lambda>s1.
          if toDelegate = [] then Ok s1
          else o_send (o_currentActiveCoordinator s1)
                 (DelegationRequest (o_currentActiveCoordinator s1) (o_currentBlockHeight s1)
                    (map (\<lambda>t. delegationEntry (otxn t s1)) toDelegate)) s1))"

definition action_NotifyPartialDelegation :: "OriginatorEvent \<Rightarrow> originatorNode \<Rightarrow> origResult" where
  "action_NotifyPartialDelegation ev s = Ok (requestPartialDelegation s)"

definition action_NotifyFullDelegation :: "OriginatorEvent \<Rightarrow> originatorNode \<Rightarrow> origResult" where
  "action_NotifyFullDelegation ev s = Ok (requestFullDelegation s)"

definition action_SendDelegation :: "OriginatorEvent \<Rightarrow> originatorNode \<Rightarrow> origResult" where
  "action_SendDelegation ev s =
     (case ev of DelegateSendBatchEvent full \<Rightarrow> sendDelegationRequest full (o_refreshBlockHeight s) | _ \<Rightarrow> Stuck)"

definition action_StartDelegationLoop :: "OriginatorEvent \<Rightarrow> originatorNode \<Rightarrow> origResult" where
  "action_StartDelegationLoop ev s = Ok (startDelegationLoop s)"

definition action_StopDelegationLoop :: "OriginatorEvent \<Rightarrow> originatorNode \<Rightarrow> origResult" where
  "action_StopDelegationLoop ev s = Ok (stopDelegationLoop s)"

definition validator_IsDelegationBlockHeightRejection :: "OriginatorEvent \<Rightarrow> originatorNode \<Rightarrow> origError + bool" where
  "validator_IsDelegationBlockHeightRejection ev s =
     (case ev of DelegationRequestRejectedEvent reason active oh ch tol \<Rightarrow> Inr (reason = BLOCK_HEIGHT_TOLERANCE)
      | _ \<Rightarrow> Inl OGoPanic)"

definition validator_IsDelegationNotActiveCoordinatorRejection :: "OriginatorEvent \<Rightarrow> originatorNode \<Rightarrow> origError + bool" where
  "validator_IsDelegationNotActiveCoordinatorRejection ev s =
     (case ev of DelegationRequestRejectedEvent reason active oh ch tol \<Rightarrow> Inr (reason = NOT_CURRENT_DELEGATE)
      | _ \<Rightarrow> Inl OGoPanic)"

definition action_LogDelegationBlockHeightRejection :: "OriginatorEvent \<Rightarrow> originatorNode \<Rightarrow> origResult" where
  "action_LogDelegationBlockHeightRejection ev s =
     (case ev of DelegationRequestRejectedEvent reason active oh ch tol \<Rightarrow> Ok s | _ \<Rightarrow> Stuck)"

definition action_HandleDelegationRejected :: "OriginatorEvent \<Rightarrow> originatorNode \<Rightarrow> origResult" where
  "action_HandleDelegationRejected ev s =
     (case ev of
        DelegationRequestRejectedEvent reason active oh ch tol \<Rightarrow>
          if active = [] then Ok s
          else if IsHigherPriority (o_coordinatorPriorityList s) active (o_currentActiveCoordinator s)
          then Ok (resetFailoverIndex (s\<lparr>o_currentActiveCoordinator := active\<rparr>)) else Ok s
      | _ \<Rightarrow> Stuck)"

section \<open>Heartbeats of coordinators (observing.go)\<close>

fun txSnapshotID :: "TxSnapshot \<Rightarrow> uuid" where
  "txSnapshotID (SnapshotPooled t) = t"
| "txSnapshotID (SnapshotDispatched t _) = t"
| "txSnapshotID (SnapshotConfirmed t _ _ _) = t"
| "txSnapshotID (SnapshotReverted t _) = t"

text \<open>
  Handing an event to each transaction of a list; those the originator does not know are skipped, the
  first error ends the loop.
\<close>

fun notifyKnown :: "string \<Rightarrow> (uuid \<times> OriginatorTransactionEvent) list \<Rightarrow> originatorNode \<Rightarrow> origResult" where
  "notifyKnown message [] s = Ok s"
| "notifyKnown message ((t, ev) # rest) s =
     (if go_get (o_transactionsByID s) t = None then notifyKnown message rest s
      else case ot_HandleEvent t ev s of
             Ok s1 \<Rightarrow> notifyKnown message rest s1
           | Fail e s1 \<Rightarrow> Fail (OMsgSequencerInternalError message) s1
           | Stuck \<Rightarrow> Stuck)"

text \<open>What a dispatched transaction of a snapshot tells: its submission, or at least its nonce.\<close>

definition dispatchedEvents :: "string \<Rightarrow> TxSnapshot \<Rightarrow> (uuid \<times> OriginatorTransactionEvent) list" where
  "dispatchedEvents node snap =
     (case snap of
        SnapshotDispatched t details \<Rightarrow>
          (case details of
             Some (signer, n, Some hash) \<Rightarrow>
               [(t, OTSubmittedEvent signer (case n of None \<Rightarrow> 0 | Some v \<Rightarrow> v) hash node)]
           | Some (signer, Some v, None) \<Rightarrow> [(t, OTNonceAssignedEvent [] v node)]
           | _ \<Rightarrow> [])
      | _ \<Rightarrow> [])"

definition processDispatchedTransactions :: "string \<Rightarrow> CoordinatorSnapshot \<Rightarrow> originatorNode \<Rightarrow> origResult" where
  "processDispatchedTransactions node snapshot =
     notifyKnown ''error handling dispatched transaction''
       (concat (map (dispatchedEvents node) (cs_DispatchedTransactions snapshot)))"

definition processConfirmedTransactions :: "CoordinatorSnapshot \<Rightarrow> originatorNode \<Rightarrow> origResult" where
  "processConfirmedTransactions snapshot =
     notifyKnown ''error handling confirmed success event''
       (map (\<lambda>snap. (txSnapshotID snap, OTConfirmedSuccessEvent)) (cs_ConfirmedTransactions snapshot))"

definition revertReasonOf :: "TxSnapshot \<Rightarrow> HexBytes" where
  "revertReasonOf snap = (case snap of SnapshotReverted t reason \<Rightarrow> reason | _ \<Rightarrow> [])"

definition processRevertedTransactions :: "CoordinatorSnapshot \<Rightarrow> originatorNode \<Rightarrow> origResult" where
  "processRevertedTransactions snapshot =
     notifyKnown ''error handling confirmed reverted event''
       (map (\<lambda>snap. (txSnapshotID snap, OTConfirmedRevertedEvent (revertReasonOf snap) [] False))
         (cs_RevertedTransactions snapshot))"

definition o_action_ProcessConfirmedTransactions :: "OriginatorEvent \<Rightarrow> originatorNode \<Rightarrow> origResult" where
  "o_action_ProcessConfirmedTransactions ev s =
     (case ev of OHeartbeatReceivedEvent node (Some snapshot) \<Rightarrow> processConfirmedTransactions snapshot s | _ \<Rightarrow> Stuck)"

definition action_ProcessRevertedTransactions :: "OriginatorEvent \<Rightarrow> originatorNode \<Rightarrow> origResult" where
  "action_ProcessRevertedTransactions ev s =
     (case ev of OHeartbeatReceivedEvent node (Some snapshot) \<Rightarrow> processRevertedTransactions snapshot s | _ \<Rightarrow> Stuck)"

definition action_ProcessCurrentCoordinatorHeartbeat :: "OriginatorEvent \<Rightarrow> originatorNode \<Rightarrow> origResult" where
  "action_ProcessCurrentCoordinatorHeartbeat ev s =
     (case ev of
        OHeartbeatReceivedEvent node (Some snapshot) \<Rightarrow>
          processDispatchedTransactions node snapshot (s\<lparr>o_heartbeatIntervalsSinceLastReceive := 0\<rparr>)
      | _ \<Rightarrow> Stuck)"

definition action_SwitchActiveCoordinator :: "OriginatorEvent \<Rightarrow> originatorNode \<Rightarrow> origResult" where
  "action_SwitchActiveCoordinator ev s =
     (case ev of
        OHeartbeatReceivedEvent node snapshot \<Rightarrow>
          Ok (requestFullDelegation ((resetFailoverIndex (s\<lparr>o_currentActiveCoordinator := node\<rparr>))
                \<lparr>o_heartbeatIntervalsSinceLastReceive := 0\<rparr>))
      | _ \<Rightarrow> Stuck)"

definition getTransactionsNotInStates :: "OriginatorTransactionState list \<Rightarrow> originatorNode \<Rightarrow> uuid list" where
  "getTransactionsNotInStates states s =
     map fst (filter (\<lambda>(t, x). ot_currentState x \<notin> set states) (o_transactionsByID s))"

definition transactionFoundInSnapshot :: "CoordinatorSnapshot \<Rightarrow> uuid \<Rightarrow> bool" where
  "transactionFoundInSnapshot snapshot t \<longleftrightarrow>
     t \<in> txSnapshotID ` set (cs_DispatchedTransactions snapshot) \<or> t \<in> txSnapshotID ` set (cs_PooledTransactions snapshot)
     \<or> t \<in> txSnapshotID ` set (cs_ConfirmedTransactions snapshot) \<or> t \<in> txSnapshotID ` set (cs_RevertedTransactions snapshot)"

text \<open>The grace is a heartbeat interval and a tenth; the division truncates as in Go, the interval being positive.\<close>

definition hasDroppedTransactions :: "CoordinatorSnapshot \<Rightarrow> originatorNode \<Rightarrow> bool" where
  "hasDroppedTransactions snapshot s =
     list_ex (\<lambda>t. (case ot_firstDelegatedTime (otxn t s) of
                     None \<Rightarrow> False
                   | Some d \<Rightarrow> \<not> o_now s - d < o_heartbeatInterval s * 11 div 10) \<and> \<not> transactionFoundInSnapshot snapshot t)
       (getTransactionsNotInStates [OriginatorTransactionState_Initial, OriginatorTransactionState_Resolving,
          OriginatorTransactionState_Pending, OriginatorTransactionState_Confirmed,
          OriginatorTransactionState_Reverted, OriginatorTransactionState_Final] s)"

definition validator_HasDroppedTransactions :: "OriginatorEvent \<Rightarrow> originatorNode \<Rightarrow> origError + bool" where
  "validator_HasDroppedTransactions ev s =
     (case ev of OHeartbeatReceivedEvent node (Some snapshot) \<Rightarrow> Inr (hasDroppedTransactions snapshot s) | _ \<Rightarrow> Inl OGoPanic)"

definition action_IncrementHeartbeatIntervalCounts :: "OriginatorEvent \<Rightarrow> originatorNode \<Rightarrow> origResult" where
  "action_IncrementHeartbeatIntervalCounts ev s =
     Ok (s\<lparr>o_heartbeatIntervalsSinceLastReceive := o_heartbeatIntervalsSinceLastReceive s + 1\<rparr>)"

section \<open>Events for one transaction (originator.go)\<close>

definition o_propagateEventToTransaction :: "uuid \<Rightarrow> OriginatorTransactionEvent \<Rightarrow> originatorNode \<Rightarrow> origResult" where
  "o_propagateEventToTransaction t ev s =
     (if go_get (o_transactionsByID s) t \<noteq> None then ot_HandleEvent t ev s
      else case ev of
        OTAssembleRequestReceivedEvent e \<Rightarrow>
          o_send (aq_Coordinator e) (AssembleRejection t (aq_RequestID e) TRANSACTION_UNKNOWN 0 0) s
      | OTPreDispatchRequestReceivedEvent request coordinator hash \<Rightarrow>
          o_send coordinator (PreDispatchRejection t request TRANSACTION_UNKNOWN) s
      | _ \<Rightarrow> Ok s)"

end
