(* ===== verification/OriginatorMachine.thy ===== *)
theory OriginatorMachine
  imports OriginatorActions
begin

text \<open>
  The state table of the originator (\<^verbatim>\<open>originator/state_machine.go\<close>), its machine, how its loop processes
  one event, how an originator is created and started, and its runs: events in any order, interleaved with
  the ticks of the delegation loop, the ends of the goroutines that resolve, assemble and sign, the retry
  timers, and the passing of time. An assembly is given up when it was cancelled or its deadline has passed.
\<close>

type_synonym origHandler = "(OriginatorState, OriginatorEvent, originatorNode, origError) EventHandler"
type_synonym origRule = "(OriginatorEvent, originatorNode, origError) ActionRule"
type_synonym origEntry = "OriginatorEventType \<times> (OriginatorState, OriginatorEvent, originatorNode, origError) EventHandlers"
type_synonym origStateDefinition =
  "(OriginatorState, OriginatorEventType, OriginatorEvent, originatorNode, origError) StateDefinition"

abbreviation origStateDef :: "origRule list \<Rightarrow> origRule list \<Rightarrow> origEntry list \<Rightarrow> origStateDefinition" where
  "origStateDef entry exit evs \<equiv> \<lparr>OnTransitionTo = entry, OnTransitionFrom = exit, Events = map_of evs\<rparr>"

section \<open>The table\<close>

definition cleanUpFinal :: "(OriginatorState, OriginatorEvent, originatorNode, origError) Transition list \<Rightarrow> origHandler" where
  "cleanUpFinal ts = handlerFor validator_OriginatorTransactionStateTransitionToFinal
     [always o_action_CleanUpTransaction] ts"

definition finalizeEnded :: origHandler where
  "finalizeEnded = handlerFor
     (ValidatorOr [validator_OriginatorTransactionStateTransitionToConfirmed,
                   validator_OriginatorTransactionStateTransitionToReverted])
     [always action_FinalizeTransaction] []"

definition learnFromHeartbeat :: origHandler where
  "learnFromHeartbeat = handler [always action_UpdateEndorserCandidatesFromHeartbeat] []"

definition def_orig_Initial :: origStateDefinition where
  "def_orig_Initial = origStateDef [] []
     [(OEvent_OriginatorCreated, matchFirst
        [handler [always o_action_CalculateCoordinatorPriorities] [goTo OriginatorState_Idle []]])]"

definition def_orig_Idle :: origStateDefinition where
  "def_orig_Idle = origStateDef [always action_ResetToTopPriorityCoordinator] []
     [(OEvent_HeartbeatReceived, matchAll
        [learnFromHeartbeat,
         handlerFor o_validator_IsHeartbeatSenderLive
           [always action_UpdateActiveCoordinatorFromHeartbeat, always o_action_ResetHeartbeatIntervalsSinceLastReceive]
           [goTo OriginatorState_Observing []]]),
      (OEvent_TransactionCreated, matchFirst
        [handlerFor validator_TransactionDoesNotExist
           [always action_TransactionCreated, always o_action_RefreshBlockHeight, always action_ResetToTopPriorityCoordinator]
           [goTo OriginatorState_Sending []]]),
      (OEvent_EndorserNodesDiscovered, matchFirst
        [handler [always action_UpdateEndorserCandidates, always o_action_CalculateCoordinatorPriorities,
                  always action_ResetToTopPriorityCoordinator] []]),
      (OEvent_TransactionStateTransition, matchFirst [cleanUpFinal [], finalizeEnded])]"

definition def_orig_Observing :: origStateDefinition where
  "def_orig_Observing = origStateDef [] []
     [(OEvent_HeartbeatReceived, matchAll
        [learnFromHeartbeat,
         handlerFor o_validator_IsHeartbeatSenderLive
           [always o_action_ResetHeartbeatIntervalsSinceLastReceive, always action_UpdateActiveCoordinatorFromHeartbeat] []]),
      (OEvent_HeartbeatInterval, matchFirst
        [handler [always action_IncrementHeartbeatIntervalCounts]
           [goToIf OriginatorState_Idle o_guard_InactiveGracePeriodExceeded []]]),
      (OEvent_TransactionCreated, matchFirst
        [handlerFor validator_TransactionDoesNotExist [always action_TransactionCreated]
           [goTo OriginatorState_Sending []]]),
      (OEvent_EndorserNodesDiscovered, matchFirst
        [handler [always action_UpdateEndorserCandidates, always o_action_CalculateCoordinatorPriorities] []]),
      (OEvent_TransactionStateTransition, matchFirst [cleanUpFinal [], finalizeEnded])]"

definition def_orig_Sending :: origStateDefinition where
  "def_orig_Sending = origStateDef
     [always action_StartDelegationLoop, always action_NotifyFullDelegation] [always action_StopDelegationLoop]
     [(OEvent_TransactionCreated, matchFirst
        [handlerFor validator_TransactionDoesNotExist
           [always action_TransactionCreated, always action_NotifyPartialDelegation] []]),
      (OEvent_DelegateSendBatch, matchFirst [handler [always action_SendDelegation] []]),
      (OEvent_HeartbeatReceived, matchAll
        [learnFromHeartbeat,
         handler [always o_action_ProcessConfirmedTransactions] [],
         handlerFor validator_IsFromCurrentCoordinator [always action_ProcessRevertedTransactions] [],
         handlerFor (ValidatorAnd [o_validator_IsHeartbeatSenderLive, validator_IsSenderHigherPriorityThanCurrentCoordinator])
           [always action_SwitchActiveCoordinator] [],
         handlerFor (ValidatorAnd [o_validator_IsHeartbeatSenderLive, ValidatorNot validator_IsFromCurrentCoordinator])
           [whenever o_guard_InactiveGracePeriodExceeded action_SwitchActiveCoordinator] [],
         handlerFor validator_IsFromCurrentCoordinator [always action_ProcessCurrentCoordinatorHeartbeat] [],
         handlerFor (ValidatorAnd [validator_IsFromCurrentCoordinator, validator_HasDroppedTransactions])
           [always action_NotifyFullDelegation] []]),
      (OEvent_HeartbeatInterval, matchFirst
        [handler [always action_IncrementHeartbeatIntervalCounts,
                  whenever o_guard_InactiveGracePeriodExceeded o_action_RefreshBlockHeight,
                  whenever o_guard_InactiveGracePeriodExceeded action_FailoverToNextCoordinator] []]),
      (OEvent_DelegationRequestRejected, matchFirst
        [handlerFor validator_IsDelegationBlockHeightRejection [always action_LogDelegationBlockHeightRejection] [],
         handlerFor validator_IsDelegationNotActiveCoordinatorRejection
           [always action_HandleDelegationRejected, always action_NotifyFullDelegation] []]),
      (OEvent_TransactionStateTransition, matchFirst
        [cleanUpFinal [goToIf OriginatorState_Observing (GuardNot guard_HasTransactions) []],
         finalizeEnded,
         handlerFor validator_OriginatorTransactionStateTransitionFromResolving [always action_NotifyPartialDelegation] []]),
      (OEvent_EndorserNodesDiscovered, matchFirst
        [handler [always action_UpdateEndorserCandidates, always o_action_CalculateCoordinatorPriorities] []])]"

fun origStateDefinitionsMap :: "OriginatorState \<Rightarrow> origStateDefinition" where
  "origStateDefinitionsMap OriginatorState_Initial = def_orig_Initial"
| "origStateDefinitionsMap OriginatorState_Idle = def_orig_Idle"
| "origStateDefinitionsMap OriginatorState_Observing = def_orig_Observing"
| "origStateDefinitionsMap OriginatorState_Sending = def_orig_Sending"

section \<open>The machine and its loop\<close>

definition origMachine :: "(OriginatorState, OriginatorEventType, OriginatorEvent, originatorNode, origError) StateMachine" where
  "origMachine =
     \<lparr>definitions = (\<lambda>st. Some (origStateDefinitionsMap st)),
      GetCurrentState = o_state,
      SetCurrentState = (\<lambda>st s. s\<lparr>o_state := st\<rparr>),
      sm_mark = (\<lambda>ev s. s),
      transitionCallback = None,
      eventType = OriginatorEvent_Type,
      sm_locked = o_locked,
      sm_setLock = (\<lambda>b s. s\<lparr>o_locked := b\<rparr>)\<rparr>"

text \<open>Events for a transaction are handed to it under the lock of the originator; the others go to the machine.\<close>

definition orig_preProcessEvent :: "OriginatorEvent \<Rightarrow> originatorNode \<Rightarrow> bool \<times> origResult" where
  "orig_preProcessEvent ev s =
     (case ev of OTxEvent t e \<Rightarrow> (True, o_propagateEventToTransaction t e s) | _ \<Rightarrow> (False, Ok s))"

definition orig_processEvent :: "OriginatorEvent \<Rightarrow> originatorNode \<Rightarrow> origResult" where
  "orig_processEvent ev s =
     (if o_locked s then Stuck
      else case orig_preProcessEvent ev (s\<lparr>o_locked := True\<rparr>) of
             (handled, r) \<Rightarrow>
               and_then (outcome_map (\<lambda>s1. s1\<lparr>o_locked := False\<rparr>) r)
                 (\<lambda>s1. if handled then Ok s1 else ProcessEvent origMachine ev s1))"

section \<open>Creation and start (originator.go)\<close>

definition NewOriginator :: "(string \<Rightarrow> int option) \<Rightarrow> SequencerConfig \<Rightarrow> CoordinatorSelectionConfig \<Rightarrow> string
    \<Rightarrow> environment \<Rightarrow> (int \<Rightarrow> string + bool) \<Rightarrow> int \<Rightarrow> originatorNode" where
  "NewOriginator ParseDuration configuration selectionConfig node e checkPending startTime =
     \<lparr>o_env = e, o_CheckPendingPrivateStateData = checkPending, o_now = startTime, o_sendsTried = 0, o_heightReads = 0,
      o_outbox = [], o_eventsInternal = [], o_resolves = [], o_assemblies = [], o_signs = [],
      o_state = OriginatorState_Initial, o_locked = False, o_started = False,
      o_currentActiveCoordinator =
        (case csc_Mode selectionConfig of
           COORDINATOR_STATIC \<Rightarrow> csc_StaticCoordinator selectionConfig
         | COORDINATOR_SENDER \<Rightarrow> node
         | COORDINATOR_ENDORSER \<Rightarrow> []),
      o_heartbeatIntervalsSinceLastReceive = 0, o_transactionsByID = [], o_transactionsOrdered = [],
      o_effectiveBlockHeight = 0, o_currentBlockHeight = 0,
      o_endorserCandidates =
        (if csc_Mode selectionConfig = COORDINATOR_ENDORSER then csc_Endorsers selectionConfig else []),
      o_coordinatorPriorityList = [], o_failoverIndex = 0,
      o_notifyFullDelegation = None, o_notifyPartialDelegation = None,
      o_nodeName = node, o_blockRange = uint64Setting cf_BlockRange mn_BlockRange configuration,
      o_inactiveGracePeriod = intSetting cf_InactiveGracePeriod mn_InactiveGracePeriod configuration,
      o_resolveRetryBackoff = durationSetting ParseDuration cf_RequestTimeout mn_RequestTimeout configuration,
      o_delegationBatchInterval =
        durationSetting ParseDuration cf_DelegationBatchInterval mn_DelegationBatchInterval configuration,
      o_heartbeatInterval = durationSetting ParseDuration cf_HeartbeatInterval mn_HeartbeatInterval configuration\<rparr>"

text \<open>\<open>Start\<close> also starts the event loop and queues \<open>OriginatorCreatedEvent\<close>, the first event of a run.\<close>

definition o_Start :: "originatorNode \<Rightarrow> originatorNode" where
  "o_Start s =
     (if o_started s then s
      else s\<lparr>o_heightReads := Suc (o_heightReads s),
             o_effectiveBlockHeight :=
               ComputeEffectiveBlockHeight (word_of_int (env_GetBlockHeight (o_env s) (o_heightReads s))) (o_blockRange s),
             o_started := True\<rparr>)"

section \<open>Runs\<close>

definition finishAssembly :: "nat \<Rightarrow> originatorNode \<Rightarrow> originatorNode" where
  "finishAssembly i s = s\<lparr>o_assemblies := (o_assemblies s)[i := (o_assemblies s ! i)\<lparr>ar_finished := True\<rparr>]\<rparr>"

definition finishSign :: "nat \<Rightarrow> originatorNode \<Rightarrow> originatorNode" where
  "finishSign i s = s\<lparr>o_signs := (o_signs s)[i := (o_signs s ! i)\<lparr>sg_finished := True\<rparr>]\<rparr>"

inductive orig_step :: "originatorNode \<Rightarrow> originatorNode \<Rightarrow> bool" where
  event_ok: "orig_processEvent ev s = Ok s' \<Longrightarrow> orig_step s s'"
| event_error: "orig_processEvent ev s = Fail e s' \<Longrightarrow> orig_step s s'"
| loop_tick: "delegationTick s = Some s' \<Longrightarrow> orig_step s s'"
| resolved: "t \<in> set (o_resolves s) \<Longrightarrow>
    orig_step s (handleResolveVerifiers t answer (s\<lparr>o_resolves := remove1 t (o_resolves s)\<rparr>))"
| assembled: "i < length (o_assemblies s) \<Longrightarrow> \<not> ar_finished (o_assemblies s ! i) \<Longrightarrow>
    handleAssemble (o_assemblies s ! i) answer = Some ev \<Longrightarrow>
    orig_step s (o_queueEventInternal ev (finishAssembly i s))"
| assembly_dropped: "i < length (o_assemblies s) \<Longrightarrow>
    ar_cancelled (o_assemblies s ! i) \<or> expiry (ar_request (o_assemblies s ! i)) \<in> Some ` {..o_now s} \<Longrightarrow>
    orig_step s (finishAssembly i s)"
| signed: "i < length (o_signs s) \<Longrightarrow> \<not> sg_finished (o_signs s ! i) \<Longrightarrow>
    handleSign sign (o_signs s ! i) = Some ev \<Longrightarrow> orig_step s (o_queueEventInternal ev (finishSign i s))"
| sign_dropped: "i < length (o_signs s) \<Longrightarrow> sg_cancelled (o_signs s ! i) \<Longrightarrow> orig_step s (finishSign i s)"
| retry_due: "fireResolveRetry t s = Some s' \<Longrightarrow> orig_step s s'"
| time: "o_now s \<le> u \<Longrightarrow> orig_step s (s\<lparr>o_now := u\<rparr>)"

inductive_cases orig_stepE: "orig_step s s'"

inductive orig_reachable :: "originatorNode \<Rightarrow> bool" where
  start: "orig_reachable (o_Start (NewOriginator pd cfg sel n e chk u))"
| step: "orig_reachable s \<Longrightarrow> orig_step s s' \<Longrightarrow> orig_reachable s'"

end
