(* ===== verification/OriginatorFrame.thy ===== *)
theory OriginatorFrame
  imports OriginatorMachine
begin

text \<open>
  What processing an event of one originator transaction leaves alone: every other transaction, the set
  and order of transactions, the originator's own state and lock and its delegation loop. Only the machine
  itself moves the state of the transaction, and its lock is free afterwards.
\<close>

section \<open>Lookup after an update\<close>

lemma go_keys_map_entry [simp]: "go_keys (AList.map_entry t f m) = go_keys m"
  by (induction m) auto

lemma go_get_updOTxn:
  "go_get (o_transactionsByID (updOTxn t f s)) =
     (go_get (o_transactionsByID s))(t := map_option f (go_get (o_transactionsByID s) t))"
  by (auto simp: updOTxn_def map_of_map_entry split: option.split)

lemma updOTxn_keys [simp]: "go_keys (o_transactionsByID (updOTxn t f s)) = go_keys (o_transactionsByID s)"
  by (simp add: updOTxn_def)

lemma otxn_updOTxn: "go_get (o_transactionsByID s) t \<noteq> None \<Longrightarrow> otxn u (updOTxn t f s) = (if u = t then f (otxn t s) else otxn u s)"
  by (auto simp: otxn_def go_get_updOTxn)

section \<open>The frame\<close>

definition failover_ok :: "originatorNode \<Rightarrow> bool" where
  "failover_ok s \<longleftrightarrow> (length (o_coordinatorPriorityList s) > 1 \<longrightarrow> o_failoverIndex s < length (o_coordinatorPriorityList s))"

definition outer :: "originatorNode \<Rightarrow> originatorNode" where
  "outer s = s\<lparr>o_sendsTried := 0, o_heightReads := 0, o_outbox := [], o_eventsInternal := [], o_resolves := [],
     o_assemblies := [], o_signs := [], o_transactionsByID := [], o_effectiveBlockHeight := 0, o_currentBlockHeight := 0,
     o_coordinatorPriorityList := [], o_failoverIndex := 0, o_currentActiveCoordinator := []\<rparr>"

definition beyond :: "uuid \<Rightarrow> originatorNode \<Rightarrow> originatorNode \<Rightarrow> bool" where
  "beyond t k s \<longleftrightarrow> outer s = outer k \<and> go_keys (o_transactionsByID s) = go_keys (o_transactionsByID k)
     \<and> (\<forall>u. u \<noteq> t \<longrightarrow> go_get (o_transactionsByID s) u = go_get (o_transactionsByID k) u)
     \<and> map_option (\<lambda>x. pt_ID (ot_pt x)) (go_get (o_transactionsByID s) t)
         = map_option (\<lambda>x. pt_ID (ot_pt x)) (go_get (o_transactionsByID k) t)
     \<and> (o_currentActiveCoordinator k \<noteq> [] \<longrightarrow> o_currentActiveCoordinator s = o_currentActiveCoordinator k)
     \<and> (failover_ok k \<longrightarrow> failover_ok s)"

definition ownState :: "uuid \<Rightarrow> originatorNode \<Rightarrow> (bool \<times> OriginatorTransactionState) option" where
  "ownState t s = map_option (\<lambda>x. (ot_locked x, ot_currentState x)) (go_get (o_transactionsByID s) t)"

definition touches :: "uuid \<Rightarrow> originatorNode \<Rightarrow> originatorNode \<Rightarrow> bool" where
  "touches t k s \<longleftrightarrow> beyond t k s \<and> ownState t s = ownState t k"

lemma beyond_refl [simp]: "beyond t s s"
  by (simp add: beyond_def)

lemma beyond_trans: "beyond t a b \<Longrightarrow> beyond t b c \<Longrightarrow> beyond t a c"
  by (auto simp: beyond_def)

lemma touches_refl [simp]: "touches t s s"
  by (simp add: touches_def)

lemma touches_trans: "touches t a b \<Longrightarrow> touches t b c \<Longrightarrow> touches t a c"
  unfolding touches_def using beyond_trans by metis

lemma beyond_simps [simp]:
  "beyond t k (s\<lparr>o_sendsTried := n\<rparr>) = beyond t k s" "beyond t k (s\<lparr>o_outbox := ms\<rparr>) = beyond t k s"
  "beyond t k (s\<lparr>o_eventsInternal := es\<rparr>) = beyond t k s" "beyond t k (s\<lparr>o_resolves := rs\<rparr>) = beyond t k s"
  "beyond t k (s\<lparr>o_assemblies := as\<rparr>) = beyond t k s" "beyond t k (s\<lparr>o_signs := ss\<rparr>) = beyond t k s"
  "beyond t k (s\<lparr>o_heightReads := n\<rparr>) = beyond t k s" "beyond t k (s\<lparr>o_currentBlockHeight := h\<rparr>) = beyond t k s"
  "beyond t k (s\<lparr>o_effectiveBlockHeight := e\<rparr>) = beyond t k s"
  by (simp_all add: beyond_def outer_def failover_ok_def)

lemma ownState_simps [simp]:
  "ownState t (s\<lparr>o_sendsTried := n\<rparr>) = ownState t s" "ownState t (s\<lparr>o_outbox := ms\<rparr>) = ownState t s"
  "ownState t (s\<lparr>o_eventsInternal := es\<rparr>) = ownState t s" "ownState t (s\<lparr>o_resolves := rs\<rparr>) = ownState t s"
  "ownState t (s\<lparr>o_assemblies := as\<rparr>) = ownState t s" "ownState t (s\<lparr>o_signs := ss\<rparr>) = ownState t s"
  "ownState t (s\<lparr>o_heightReads := n\<rparr>) = ownState t s" "ownState t (s\<lparr>o_currentBlockHeight := h\<rparr>) = ownState t s"
  "ownState t (s\<lparr>o_effectiveBlockHeight := e\<rparr>) = ownState t s" "ownState t (s\<lparr>o_failoverIndex := i\<rparr>) = ownState t s"
  "ownState t (s\<lparr>o_coordinatorPriorityList := l\<rparr>) = ownState t s"
  "ownState t (s\<lparr>o_currentActiveCoordinator := c\<rparr>) = ownState t s"
  by (simp_all add: ownState_def)

lemma touches_simps [simp]:
  "touches t k (s\<lparr>o_sendsTried := n\<rparr>) = touches t k s" "touches t k (s\<lparr>o_outbox := ms\<rparr>) = touches t k s"
  "touches t k (s\<lparr>o_eventsInternal := es\<rparr>) = touches t k s" "touches t k (s\<lparr>o_resolves := rs\<rparr>) = touches t k s"
  "touches t k (s\<lparr>o_assemblies := as\<rparr>) = touches t k s" "touches t k (s\<lparr>o_signs := ss\<rparr>) = touches t k s"
  by (simp_all add: touches_def)

lemma beyond_updOTxn [simp]:
  "(\<And>x. pt_ID (ot_pt (f x)) = pt_ID (ot_pt x)) \<Longrightarrow> beyond t k (updOTxn t f s) = beyond t k s"
  by (auto simp: beyond_def go_get_updOTxn outer_def failover_ok_def option.map_comp comp_def) (simp_all add: updOTxn_def)

lemma touches_updOTxn [simp]:
  assumes "\<And>x. pt_ID (ot_pt (f x)) = pt_ID (ot_pt x)" "\<And>x. ot_locked (f x) = ot_locked x"
    "\<And>x. ot_currentState (f x) = ot_currentState x"
  shows "touches t k (updOTxn t f s) = touches t k s"
  using assms by (simp add: touches_def ownState_def go_get_updOTxn option.map_comp comp_def)

section \<open>The functions the actions are made of\<close>

lemma resetFailoverIndex_ok: "failover_ok (resetFailoverIndex s)"
  by (auto simp: failover_ok_def resetFailoverIndex_def)

lemma resetFailoverIndex_fields [simp]:
  "o_transactionsByID (resetFailoverIndex s) = o_transactionsByID s"
  "o_currentActiveCoordinator (resetFailoverIndex s) = o_currentActiveCoordinator s"
  "outer (resetFailoverIndex s) = outer s"
  by (simp_all add: resetFailoverIndex_def outer_def)

lemma priorities_fields [simp]:
  "o_transactionsByID (o_calculateCoordinatorPriorities s) = o_transactionsByID s"
  "outer (o_calculateCoordinatorPriorities s) = outer s"
  "o_currentActiveCoordinator s \<noteq> [] \<Longrightarrow> o_currentActiveCoordinator (o_calculateCoordinatorPriorities s) = o_currentActiveCoordinator s"
  by (simp_all add: o_calculateCoordinatorPriorities_def Let_def) (simp_all add: outer_def)

lemma priorities_failover: "failover_ok s \<Longrightarrow> failover_ok (o_calculateCoordinatorPriorities s)"
  by (simp add: o_calculateCoordinatorPriorities_def Let_def resetFailoverIndex_ok)

lemma refresh_fields [simp]:
  "o_transactionsByID (o_refreshBlockHeight s) = o_transactionsByID s" "outer (o_refreshBlockHeight s) = outer s"
  "o_currentActiveCoordinator s \<noteq> [] \<Longrightarrow> o_currentActiveCoordinator (o_refreshBlockHeight s) = o_currentActiveCoordinator s"
  by (simp_all add: o_refreshBlockHeight_def Let_def) (simp_all add: outer_def)

lemma refresh_failover: "failover_ok s \<Longrightarrow> failover_ok (o_refreshBlockHeight s)"
  unfolding o_refreshBlockHeight_def Let_def
  by (auto intro!: priorities_failover) (simp_all add: failover_ok_def)

lemma touches_refresh: "touches t k s \<Longrightarrow> touches t k (o_refreshBlockHeight s)"
  by (rule touches_trans, assumption) (simp add: touches_def beyond_def ownState_def refresh_failover)

lemma touches_queue [simp]: "touches t k (o_queueEventInternal ev s) = touches t k s"
  "beyond t k (o_queueEventInternal ev s) = beyond t k s"
  by (simp_all add: o_queueEventInternal_def)

lemma touches_cancel [simp]:
  "touches t k (cancelAssembly r s) = touches t k s" "touches t k (cancelSign r s) = touches t k s"
  by (simp_all add: cancelAssembly_def cancelSign_def split: option.split)

lemma touches_send: "touches t k s \<Longrightarrow> returns (touches t k) (o_send node msg s)"
  by (simp add: o_send_def)

lemma touches_sendSigns: "touches t k s \<Longrightarrow> returns (touches t k) (sendSignResponses t r sigs s)"
  by (induction sigs arbitrary: s) (auto intro!: returns_and_then touches_send)

section \<open>The actions of the table\<close>

definition otActions :: "uuid \<Rightarrow> (OriginatorTransactionEvent, originatorNode, origError) Action list" where
  "otActions t =
     [action_ResolveVerifiers t, action_VerifiersResolved t, action_ScheduleResolveRetry t, action_CancelResolveRetry t,
      action_Delegated t, action_ResetDelegationState t, action_SendPreDispatchResponse t,
      action_SendPreDispatchRejectionNotCurrentDelegate t, action_AssembleRequestReceived t,
      o_action_AssembleSuccess t, o_action_AssembleRevert t, action_AssemblePark t, o_action_AssembleError t,
      action_CancelCurrentAssembly t, action_Assemble t, action_SendAssembleRevertResponse t,
      action_SendAssembleParkResponse t, action_SendAssembleSuccessResponse t, action_ResendAssembleSuccessResponse t,
      action_ResendAssembleRevertResponse t, action_ResendAssembleParkResponse t, action_SendAssembleError t,
      o_tx_action_RefreshBlockHeight t, action_RejectAssemblyPrivateStateDataPending t,
      action_SendAssembleBlockHeightRejection t, action_SendAssembleRejectionNotCurrentDelegate t,
      action_FulfilSignAttestations t, o_action_SignSuccess t, action_SendSignResponse t, action_SendSignError t,
      action_CancelCurrentSign t, o_action_Dispatched t, action_PreDispatchRequestReceived t,
      action_ResendPreDispatchResponse t, action_NonceAssigned t, action_Submitted t, action_QueueFinalizeEvent t]"

lemmas otActionDefs = action_ResolveVerifiers_def action_VerifiersResolved_def action_ScheduleResolveRetry_def
  action_CancelResolveRetry_def action_Delegated_def action_ResetDelegationState_def action_SendPreDispatchResponse_def
  action_SendPreDispatchRejectionNotCurrentDelegate_def action_AssembleRequestReceived_def
  o_action_AssembleSuccess_def o_action_AssembleRevert_def action_AssemblePark_def o_action_AssembleError_def
  action_CancelCurrentAssembly_def action_Assemble_def action_SendAssembleRevertResponse_def
  action_SendAssembleParkResponse_def action_SendAssembleSuccessResponse_def action_ResendAssembleSuccessResponse_def
  action_ResendAssembleRevertResponse_def action_ResendAssembleParkResponse_def action_SendAssembleError_def
  o_tx_action_RefreshBlockHeight_def action_RejectAssemblyPrivateStateDataPending_def
  action_SendAssembleBlockHeightRejection_def action_SendAssembleRejectionNotCurrentDelegate_def
  action_FulfilSignAttestations_def o_action_SignSuccess_def action_SendSignResponse_def action_SendSignError_def
  action_CancelCurrentSign_def o_action_Dispatched_def action_PreDispatchRequestReceived_def
  action_ResendPreDispatchResponse_def action_NonceAssigned_def action_Submitted_def action_QueueFinalizeEvent_def
  sendAssembleResponse_def scheduleResolveRetry_def clearResolveRetrySchedule_def updateLastDelegatedTime_def
  fulfilled_def

lemma otActions_touch:
  assumes "touches t k s"
  shows "\<forall>a \<in> set (otActions t). returns (touches t k) (a ev s)"
  unfolding otActions_def list.set ball_simps
  using assms
  by (intro conjI TrueI;
      simp add: otActionDefs touches_send touches_sendSigns touches_refresh Let_def
        split: OriginatorTransactionEvent.split option.split)

lemmas otTable = def_o_Initial_def def_o_Resolving_def def_o_Pending_def def_o_Delegated_def def_o_Assembling_def
  def_o_Signing_def def_o_Endorsement_Gathering_def def_o_Prepared_def def_o_Dispatched_def def_o_Sequenced_def
  def_o_Submitted_def def_o_Parked_def def_o_Confirmed_def def_o_Reverted_def def_o_Final_def onConfirmedSuccess_def
  onRevertedBeforeDispatch_def onRevertedAfterDispatch_def onRedelegated_def onAssembleRequest_def
  onAssembleRequestAgain_def onAssembleRequestRecorded_def onSubmitted_def resendTo_def refuseAssembly_def
  refreshHeight_def

definition otEventTypes :: "OriginatorTransactionEventType list" where
  "otEventTypes = [OTEvent_Created, OTEvent_ConfirmedSuccess, OTEvent_ConfirmedReverted, OTEvent_Delegated,
     OTEvent_AssembleRequestReceived, OTEvent_AssembleSuccess, OTEvent_SignSuccess, OTEvent_SignError,
     OTEvent_AssembleRevert, OTEvent_AssemblePark, OTEvent_AssembleError, OTEvent_Dispatched,
     OTEvent_PreDispatchRequestReceived, OTEvent_Resumed, OTEvent_NonceAssigned, OTEvent_Submitted,
     OTEvent_Finalize, OTEvent_VerifiersResolved, OTEvent_VerifierResolutionFailed, OTEvent_VerifierResolutionRetry]"

lemma otEventTypes_all: "et \<in> set otEventTypes"
  by (cases et) (simp_all add: otEventTypes_def)

lemma otRules_listed:
  "\<forall>r \<in> set (definition_rules (otStateDefinitionsMap t st) otEventTypes). act r \<in> set (otActions t)"
  by (cases st; simp add: otTable definition_rules_def otEventTypes_def handler_rules_def; simp add: otActions_def)

lemma otMachine_simps [simp]:
  "definitions (otMachine t) st = Some (otStateDefinitionsMap t st)"
  "GetCurrentState (otMachine t) s = ot_currentState (otxn t s)"
  "SetCurrentState (otMachine t) st s = updOTxn t (\<lambda>x. x\<lparr>ot_currentState := st\<rparr>) s"
  "sm_mark (otMachine t) ev s = s"
  "callback (otMachine t) from to ev s = ot_onTransition t from to ev s"
  "eventType (otMachine t) = OriginatorTransactionEvent_Type"
  "sm_locked (otMachine t) s = ot_locked (otxn t s)"
  "sm_setLock (otMachine t) b s = updOTxn t (\<lambda>x. x\<lparr>ot_locked := b\<rparr>) s"
  by (simp_all add: otMachine_def callback_def)

lemma ot_rule_actions: "machine_rule (otMachine t) r \<Longrightarrow> act r \<in> set (otActions t)"
  by (erule machine_rule_listed [where ets = otEventTypes]) (use otEventTypes_all otRules_listed in auto)

lemma ot_rule_touches: "machine_rule (otMachine t) r \<Longrightarrow> touches t k s \<Longrightarrow> returns (touches t k) (act r ev s)"
  using ot_rule_actions otActions_touch by blast

section \<open>The contracts of the machine\<close>

interpretation otBeyond: machine_invariant "otMachine t" "beyond t k" ev for t k ev
proof (unfold_locales, goal_cases)
  case (4 r s)
  from ot_rule_touches [OF 4(1), of s s ev] show ?case
    by (simp, elim returns_mono) (use 4(2) beyond_trans touches_def in blast)
qed (simp_all add: ot_onTransition_def)

lemma ownState_known: "ownState t s = ownState t k \<Longrightarrow> go_get (o_transactionsByID k) t \<noteq> None \<Longrightarrow>
  go_get (o_transactionsByID s) t \<noteq> None \<and> ot_locked (otxn t s) = ot_locked (otxn t k)
  \<and> ot_currentState (otxn t s) = ot_currentState (otxn t k)"
  by (auto simp: ownState_def otxn_def)

interpretation otOwned: owned_state "otMachine t" ev "\<lambda>s. go_get (o_transactionsByID s) t \<noteq> None" for t ev
proof (unfold_locales, goal_cases)
  case (13 r s)
  then have "returns (touches t s) (act r ev s)" by (simp add: ot_rule_touches)
  then show ?case 
    by (rule returns_mono) (use 13(2,3) in \<open>auto simp: touches_def dest!: ownState_known [where k = s]\<close>)
qed (auto simp: otxn_updOTxn ot_onTransition_def go_get_updOTxn o_queueEventInternal_def otxn_def)

lemma HandleEvent_beyond: "returns (beyond t s) (ot_HandleEvent t ev s)"
  unfolding ot_HandleEvent_def by (rule otBeyond.ProcessEvent_inv) simp

end
