(* ===== verification/OriginatorInvariant.thy ===== *)
theory OriginatorInvariant
  imports OriginatorFrame
begin

text \<open>
  The invariant of the originator: the map of transactions and their order of creation agree, no lock is
  left held, the failover index points into the list of candidates, and the originator is in the state
  \<open>Sending\<close>, with its delegation loop running, exactly while it has transactions. Every event of its own
  machine keeps it, on the paths that end in an error as well.
\<close>

section \<open>The invariant\<close>

definition orig_core :: "originatorNode \<Rightarrow> bool" where
  "orig_core s \<longleftrightarrow> go_distinct (o_transactionsByID s) \<and> distinct (o_transactionsOrdered s)
     \<and> set (o_transactionsOrdered s) = set (go_keys (o_transactionsByID s))
     \<and> (\<forall>t x. go_get (o_transactionsByID s) t = Some x \<longrightarrow> \<not> ot_locked x \<and> pt_ID (ot_pt x) = t)
     \<and> failover_ok s \<and> o_started s"

text \<open>
  What an action sees beside that: the state, whether there are transactions, and whether the two channels
  of the delegation loop exist.
\<close>

definition orig_view :: "originatorNode \<Rightarrow> OriginatorState \<times> bool \<times> bool \<times> bool" where
  "orig_view s = (o_state s, o_transactionsByID s \<noteq> [], o_notifyFullDelegation s \<noteq> None, o_notifyPartialDelegation s \<noteq> None)"

definition linked :: "OriginatorState \<Rightarrow> OriginatorState \<times> bool \<times> bool \<times> bool" where
  "linked st = (let sending = (st = OriginatorState_Sending) in (st, sending, sending, sending))"

definition orig_settled :: "OriginatorState \<times> bool \<times> bool \<times> bool \<Rightarrow> originatorNode \<Rightarrow> bool" where
  "orig_settled v s \<longleftrightarrow> orig_core s \<and> orig_view s = v"

abbreviation orig_ok :: "originatorNode \<Rightarrow> bool" where
  "orig_ok s \<equiv> orig_settled (linked (o_state s)) s"

lemma orig_settled_ok: "orig_settled (linked st) s \<Longrightarrow> orig_ok s"
  by (auto simp: orig_settled_def orig_view_def linked_def Let_def)

lemma orig_settled_simps [simp]:
  "orig_settled v (s\<lparr>o_locked := b\<rparr>) = orig_settled v s" "orig_settled v (s\<lparr>o_now := u\<rparr>) = orig_settled v s"
  "orig_settled v (s\<lparr>o_eventsInternal := es\<rparr>) = orig_settled v s"
  "orig_settled v (s\<lparr>o_resolves := rs\<rparr>) = orig_settled v s"
  "orig_settled v (s\<lparr>o_assemblies := as\<rparr>) = orig_settled v s" "orig_settled v (s\<lparr>o_signs := sg\<rparr>) = orig_settled v s"
  "orig_settled v (s\<lparr>o_sendsTried := n\<rparr>) = orig_settled v s" "orig_settled v (s\<lparr>o_outbox := ms\<rparr>) = orig_settled v s"
  "orig_settled v (s\<lparr>o_heartbeatIntervalsSinceLastReceive := i\<rparr>) = orig_settled v s"
  "orig_settled v (s\<lparr>o_endorserCandidates := cs\<rparr>) = orig_settled v s"
  "orig_settled v (s\<lparr>o_currentActiveCoordinator := c\<rparr>) = orig_settled v s"
  "orig_settled v (o_queueEventInternal ev s) = orig_settled v s"
  by (simp_all add: orig_settled_def orig_core_def orig_view_def failover_ok_def o_queueEventInternal_def)

lemma outer_fields:
  assumes "outer s = outer k"
  shows "o_state s = o_state k" "o_started s = o_started k" "o_transactionsOrdered s = o_transactionsOrdered k"
    "o_notifyFullDelegation s = o_notifyFullDelegation k" "o_notifyPartialDelegation s = o_notifyPartialDelegation k"
  using arg_cong [OF assms, where f = o_state] arg_cong [OF assms, where f = o_started]
    arg_cong [OF assms, where f = o_transactionsOrdered] arg_cong [OF assms, where f = o_notifyFullDelegation]
    arg_cong [OF assms, where f = o_notifyPartialDelegation]
  by (simp_all add: outer_def)

lemma orig_settled_outer:
  assumes "orig_settled v k" and "outer s = outer k" and "o_transactionsByID s = o_transactionsByID k" and "failover_ok s"
  shows "orig_settled v s"
  using assms outer_fields [OF assms(2)] by (simp add: orig_settled_def orig_core_def orig_view_def)

section \<open>Events of the transactions\<close>

lemma ot_HandleEvent_unlocked:
  "go_get (o_transactionsByID s) t \<noteq> None \<Longrightarrow> returns (\<lambda>s'. \<not> ot_locked (otxn t s')) (ot_HandleEvent t ev s)"
  unfolding ot_HandleEvent_def using otOwned.ProcessEvent_declared [of s t ev] by (auto elim: returns_mono)

lemma beyond_settled:
  assumes "beyond t k s" and "orig_settled v k" and "go_get (o_transactionsByID k) t \<noteq> None \<Longrightarrow> \<not> ot_locked (otxn t s)"
  shows "orig_settled v s"
proof -
  have keys: "go_keys (o_transactionsByID s) = go_keys (o_transactionsByID k)" and o: "outer s = outer k"
    using assms(1) by (auto simp: beyond_def)
  then have same: "o_transactionsByID s = [] \<longleftrightarrow> o_transactionsByID k = []" by (metis map_is_Nil_conv)
  have "\<not> ot_locked x \<and> pt_ID (ot_pt x) = u" if u: "go_get (o_transactionsByID s) u = Some x" for u x
  proof (cases "u = t")
    case True
    have "map_option (\<lambda>x. pt_ID (ot_pt x)) (go_get (o_transactionsByID k) t) = Some (pt_ID (ot_pt x))"
      using assms(1) u True by (simp add: beyond_def)
    then obtain y where "go_get (o_transactionsByID k) t = Some y" "pt_ID (ot_pt x) = pt_ID (ot_pt y)"
      by auto
    then show ?thesis using assms(2,3) u True by (simp add: orig_settled_def orig_core_def otxn_def)
  next
    case False
    then show ?thesis using assms(1,2) u by (auto simp: beyond_def orig_settled_def orig_core_def)
  qed
  moreover have "failover_ok s" using assms(1,2) by (simp add: beyond_def orig_settled_def orig_core_def)
  ultimately show ?thesis
    using assms(2) outer_fields [OF o] keys same by (simp add: orig_settled_def orig_core_def orig_view_def go_distinct_def)
qed

lemma HandleEvent_settled:
  assumes "orig_settled v s"
  shows "returns (orig_settled v) (ot_HandleEvent t ev s)"
  using HandleEvent_beyond [of t s ev] ot_HandleEvent_unlocked [of s t ev] beyond_settled [OF _ assms]
  by (cases "ot_HandleEvent t ev s") auto

lemma send_settled: "orig_settled v s \<Longrightarrow> returns (orig_settled v) (o_send node msg s)"
  by (simp add: o_send_def)

lemma propagate_settled: "orig_settled v s \<Longrightarrow> returns (orig_settled v) (o_propagateEventToTransaction t ev s)"
  unfolding o_propagateEventToTransaction_def
  by (auto intro: HandleEvent_settled send_settled split: OriginatorTransactionEvent.split)

lemma notifyKnown_settled: "orig_settled v s \<Longrightarrow> returns (orig_settled v) (notifyKnown message evs s)"
proof (induction message evs s rule: notifyKnown.induct)
  case (2 message t ev rest s)
  then show ?case using HandleEvent_settled [of v s t ev] by (auto split: outcome.splits)
qed simp

lemma delegationScan_settled: "orig_settled v s \<Longrightarrow> returns (orig_settled v) (snd (delegationScan full ts s))"
proof (induction ts arbitrary: s)
  case (Cons t ts)
  let ?ev = "OTDelegatedEvent (o_currentActiveCoordinator s)"
  show ?case
    using HandleEvent_settled [OF Cons.prems, of t ?ev] Cons
    by (cases "ot_HandleEvent t ?ev s") (auto simp: Let_def split_beta)
qed simp

lemma sendDelegation_settled: "orig_settled v s \<Longrightarrow> returns (orig_settled v) (sendDelegationRequest full s)"
  unfolding sendDelegationRequest_def using delegationScan_settled [of v s full "o_transactionsOrdered s"]
  by (auto split: prod.split intro!: returns_and_then send_settled)

section \<open>The actions that leave the transactions and the loop as they are\<close>

definition quietActions :: "(OriginatorEvent, originatorNode, origError) Action list" where
  "quietActions = [o_action_CalculateCoordinatorPriorities, action_ResetToTopPriorityCoordinator,
     action_UpdateEndorserCandidatesFromHeartbeat, action_UpdateActiveCoordinatorFromHeartbeat,
     o_action_ResetHeartbeatIntervalsSinceLastReceive, o_action_RefreshBlockHeight, action_UpdateEndorserCandidates,
     action_FinalizeTransaction, action_IncrementHeartbeatIntervalCounts, action_NotifyFullDelegation,
     action_NotifyPartialDelegation, action_SendDelegation, o_action_ProcessConfirmedTransactions,
     action_ProcessRevertedTransactions, action_SwitchActiveCoordinator, action_ProcessCurrentCoordinatorHeartbeat,
     action_FailoverToNextCoordinator, action_LogDelegationBlockHeightRejection, action_HandleDelegationRejected]"

lemma settled_failover: "orig_settled v s \<Longrightarrow> failover_ok s"
  by (simp add: orig_settled_def orig_core_def)

lemma priorities_settled: "orig_settled v s \<Longrightarrow> orig_settled v (o_calculateCoordinatorPriorities s)"
  using priorities_failover [OF settled_failover] by (blast intro: orig_settled_outer priorities_fields)

lemma refresh_settled: "orig_settled v s \<Longrightarrow> orig_settled v (o_refreshBlockHeight s)"
  using refresh_failover [OF settled_failover] by (blast intro: orig_settled_outer refresh_fields)

lemma resetFailover_settled [intro]: "orig_settled v s \<Longrightarrow> orig_settled v (resetFailoverIndex s)"
  by (erule orig_settled_outer) (simp_all add: resetFailoverIndex_ok)

lemma candidates_settled:
  assumes "orig_settled v s"
  shows "orig_settled v (resetFailoverIndex (s\<lparr>o_endorserCandidates := pool, o_coordinatorPriorityList := l\<rparr>))"
proof -
  have "orig_settled v (s\<lparr>o_endorserCandidates := pool\<rparr>)" using assms by simp
  then show ?thesis
    by (rule orig_settled_outer) (simp_all add: resetFailoverIndex_ok, simp add: outer_def)
qed

lemma notify_settled [simp]:
  "orig_settled v (requestFullDelegation s) = orig_settled v s"
  "orig_settled v (requestPartialDelegation s) = orig_settled v s"
  by (simp_all add: requestFullDelegation_def requestPartialDelegation_def orig_settled_def orig_core_def orig_view_def
    failover_ok_def)

lemma failoverIndex_settled:
  assumes "orig_settled v s" and "i < length (o_coordinatorPriorityList s)"
  shows "orig_settled v (s\<lparr>o_currentActiveCoordinator := c, o_failoverIndex := i\<rparr>)"
  using assms(1) by (rule orig_settled_outer) (use assms(2) in \<open>simp_all add: failover_ok_def outer_def\<close>)

lemma failover_settled: "orig_settled v s \<Longrightarrow> returns (orig_settled v) (action_FailoverToNextCoordinator ev s)"
  by (auto simp: action_FailoverToNextCoordinator_def Let_def intro!: failoverIndex_settled mod_less_divisor)

lemma resetTop_settled: "orig_settled v s \<Longrightarrow> returns (orig_settled v) (action_ResetToTopPriorityCoordinator ev s)"
  by (auto simp: action_ResetToTopPriorityCoordinator_def intro!: failoverIndex_settled)

lemma quietActions_settled:
  assumes "orig_settled v s"
  shows "\<forall>a \<in> set quietActions. returns (orig_settled v) (a ev s)"
  unfolding quietActions_def list.set ball_simps
  using assms
  by (intro conjI TrueI)
     (auto simp: o_action_CalculateCoordinatorPriorities_def action_UpdateEndorserCandidatesFromHeartbeat_def
      action_UpdateActiveCoordinatorFromHeartbeat_def o_action_ResetHeartbeatIntervalsSinceLastReceive_def
      o_action_RefreshBlockHeight_def action_UpdateEndorserCandidates_def action_FinalizeTransaction_def
      action_IncrementHeartbeatIntervalCounts_def action_NotifyFullDelegation_def action_NotifyPartialDelegation_def
      action_SendDelegation_def o_action_ProcessConfirmedTransactions_def action_ProcessRevertedTransactions_def
      action_SwitchActiveCoordinator_def action_ProcessCurrentCoordinatorHeartbeat_def
      action_LogDelegationBlockHeightRejection_def action_HandleDelegationRejected_def processConfirmedTransactions_def
      processRevertedTransactions_def processDispatchedTransactions_def Let_def
      intro: priorities_settled refresh_settled failover_settled resetTop_settled candidates_settled
      notifyKnown_settled sendDelegation_settled resetFailover_settled
      split: OriginatorEvent.split option.split)


section \<open>Creation and removal\<close>

lemma Created_ok:
  assumes "go_get (o_transactionsByID s) t = Some x" "\<not> ot_locked x" "ot_currentState x = OriginatorTransactionState_Initial"
  obtains s' where "ot_HandleEvent t OTCreatedEvent s = Ok s'"
proof -
  have "\<exists>s'. ot_HandleEvent t OTCreatedEvent s = Ok s'"
    using assms
    by (simp add: ot_HandleEvent_def ProcessEvent_def handleLocked_def otxn_def go_get_updOTxn def_o_Initial_def
        onConfirmedSuccess_def takeTransition_def Let_def entryActions_def exitActions_def matchesHandler_def
        def_o_Resolving_def def_o_Pending_def action_ResolveVerifiers_def guard_passes_def ot_onTransition_def
        o_queueEventInternal_def guard_HasRequiredVerifiers_def)
  then show thesis using that by blast
qed

definition withTransaction :: "OriginatorState \<times> bool \<times> bool \<times> bool \<Rightarrow> OriginatorState \<times> bool \<times> bool \<times> bool" where
  "withTransaction v = (case v of (st, _, loop) \<Rightarrow> (st, True, loop))"

lemma TransactionCreated_settled:
  assumes "orig_settled v s" and "validator_TransactionDoesNotExist ev s = Inr True"
  shows "case action_TransactionCreated ev s of
           Ok s1 \<Rightarrow> orig_settled (withTransaction v) s1 | Fail e s1 \<Rightarrow> orig_settled v s1 | Stuck \<Rightarrow> True"
proof (cases "\<exists>ptx needed. ev = TransactionCreatedEvent (Some (ptx, needed))")
  case True
  then obtain ptx needed where ev: "ev = TransactionCreatedEvent (Some (ptx, needed))" by blast
  let ?t = "pt_ID ptx" and ?x = "newOriginatorTransaction ptx needed s"
  define s1 where "s1 = s\<lparr>o_transactionsByID := go_set ?t ?x (o_transactionsByID s),
    o_transactionsOrdered := o_transactionsOrdered s @ [?t]\<rparr>"
  have new: "go_get (o_transactionsByID s) ?t = None" using assms(2) ev by (simp add: validator_TransactionDoesNotExist_def)
  then have fresh: "?t \<notin> set (o_transactionsOrdered s)"
    using assms(1) by (simp add: orig_settled_def orig_core_def map_of_eq_None_iff)
  have "orig_settled (withTransaction v) s1"
    using assms(1) fresh new
    by (auto simp: s1_def orig_settled_def orig_core_def orig_view_def failover_ok_def go_get_set withTransaction_def
        newOriginatorTransaction_def dom_update)
  then have "returns (orig_settled (withTransaction v)) (ot_HandleEvent ?t OTCreatedEvent s1)"
    by (rule HandleEvent_settled)
  moreover obtain s2 where "ot_HandleEvent ?t OTCreatedEvent s1 = Ok s2"
    by (rule Created_ok [of s1 ?t ?x]) (simp_all add: s1_def go_get_set newOriginatorTransaction_def)
  ultimately show ?thesis by (simp add: ev action_TransactionCreated_def addToTransactions_def s1_def)
next
  case False
  then show ?thesis
    using assms(1) by (auto simp: action_TransactionCreated_def addToTransactions_def split: OriginatorEvent.split option.split)
qed

lemma removeTransaction_core: "orig_core s \<Longrightarrow> orig_core (o_removeTransaction t s)"
  by (auto simp: orig_core_def o_removeTransaction_def go_get_del failover_ok_def set_remove1_eq delete_keys
      split: if_splits)

section \<open>The handlers of the table\<close>

lemmas origTable = def_orig_Initial_def def_orig_Idle_def def_orig_Observing_def def_orig_Sending_def cleanUpFinal_def
  finalizeEnded_def learnFromHeartbeat_def

lemma origMachine_simps [simp]:
  "definitions origMachine st = Some (origStateDefinitionsMap st)" "GetCurrentState origMachine = o_state"
  "SetCurrentState origMachine st s = s\<lparr>o_state := st\<rparr>" "sm_mark origMachine ev s = s"
  "callback origMachine st st' ev s = s" "eventType origMachine = OriginatorEvent_Type"
  "sm_locked origMachine = o_locked" "sm_setLock origMachine b s = s\<lparr>o_locked := b\<rparr>"
  by (simp_all add: origMachine_def callback_def)

lemma executeActionRules_quiet:
  "act ` set rs \<subseteq> set quietActions \<Longrightarrow> orig_settled v s \<Longrightarrow> returns (orig_settled v) (executeActionRules ev rs s)"
  by (rule executeActionRules_keep) (unfold rules_keep_def, use quietActions_settled in blast)

lemma quiet_leads:
  assumes "act ` set (eh_Actions h) \<subseteq> set quietActions" and "eh_Transitions h = []"
  shows "handler_leads origMachine ev (orig_settled (linked st)) orig_ok h"
  unfolding handler_leads_def
proof (intro allI impI)
  fix s assume "orig_settled (linked st) s"
  from executeActionRules_quiet [OF assms(1) this, of ev]
  show "case executeActionRules ev (eh_Actions h) s of
          Ok s1 \<Rightarrow> (case evaluateTransitions origMachine ev (eh_Transitions h) s1 of
                     (transitioned, r) \<Rightarrow> if transitioned then returns orig_ok r else orig_settled (linked st) s1)
        | Fail e s1 \<Rightarrow> orig_ok s1 | Stuck \<Rightarrow> True"
    by (cases "executeActionRules ev (eh_Actions h) s") (auto simp: assms(2) dest: orig_settled_ok)
qed

lemma settled_state: "orig_settled v s \<Longrightarrow> o_state s = fst v"
  by (auto simp: orig_settled_def orig_view_def)

lemma linked_state [simp]: "fst (linked st) = st"
  by (simp add: linked_def Let_def)

lemma orig_move:
  assumes "orig_settled (linked st) s" and "st \<noteq> OriginatorState_Sending" and "tr_To rule \<noteq> OriginatorState_Sending"
    and "tr_Actions rule = []"
  shows "returns orig_ok (takeTransition origMachine ev rule s)"
proof -
  have s: "orig_settled (linked (tr_To rule)) (s\<lparr>o_state := tr_To rule\<rparr>)"
    using assms by (auto simp: orig_settled_def orig_core_def orig_view_def linked_def failover_ok_def)
  have exit: "exitActions origMachine st = []"
    using assms(2) by (cases st) (simp_all add: exitActions_def origTable)
  have "act ` set (entryActions origMachine (tr_To rule)) \<subseteq> set quietActions"
    using assms(3) by (cases "tr_To rule") (auto simp: entryActions_def origTable quietActions_def)
  from executeActionRules_quiet [OF this s, of ev]
  have "returns orig_ok (executeActionRules ev (entryActions origMachine (tr_To rule)) (s\<lparr>o_state := tr_To rule\<rparr>))"
    by (rule returns_mono) (rule orig_settled_ok)
  with exit settled_state [OF assms(1)] assms(4) show ?thesis by (simp add: takeTransition_def Let_def)
qed

lemma start_sending:
  assumes "orig_settled (withTransaction (linked st)) s" and "st \<noteq> OriginatorState_Sending"
  shows "returns orig_ok (takeTransition origMachine ev (goTo OriginatorState_Sending []) s)"
proof -
  have "exitActions origMachine st = []"
    using assms(2) by (cases st) (simp_all add: exitActions_def origTable)
  moreover have "o_state s = st" using settled_state [OF assms(1)] by (simp add: withTransaction_def linked_def Let_def)
  ultimately show ?thesis
    using assms
    by (auto simp: takeTransition_def Let_def entryActions_def origTable guard_passes_def action_StartDelegationLoop_def
        action_NotifyFullDelegation_def startDelegationLoop_def requestFullDelegation_def orig_settled_def orig_core_def
        orig_view_def withTransaction_def linked_def failover_ok_def)
qed

lemma stop_sending:
  assumes "orig_core s" and "o_state s = OriginatorState_Sending" and "o_transactionsByID s = []"
  shows "returns orig_ok (takeTransition origMachine ev (goToIf OriginatorState_Observing g []) s)"
  using assms
  by (auto simp: takeTransition_def Let_def entryActions_def exitActions_def origTable guard_passes_def
      action_StopDelegationLoop_def stopDelegationLoop_def orig_settled_def orig_core_def orig_view_def linked_def
      failover_ok_def)

lemma created_leads:
  assumes quiet: "act ` set rs \<subseteq> set quietActions" and total: "\<And>s. \<exists>s1. executeActionRules ev rs s = Ok s1"
    and ts: "ts = (if st = OriginatorState_Sending then [] else [goTo OriginatorState_Sending []])"
  shows "handler_leads origMachine ev (orig_settled (linked st)) orig_ok
    (handlerFor validator_TransactionDoesNotExist (always action_TransactionCreated # rs) ts)"
  unfolding handler_leads_def
proof (intro allI impI)
  let ?h = "handlerFor validator_TransactionDoesNotExist (always action_TransactionCreated # rs) ts"
  fix s assume s: "orig_settled (linked st) s" and "matchesHandler ev ?h s = Inr True"
  then have v: "validator_TransactionDoesNotExist ev s = Inr True" by (simp add: matchesHandler_def)
  have here: "withTransaction (linked st) = linked st" if "st = OriginatorState_Sending"
    using that by (simp add: withTransaction_def linked_def)
  show "case executeActionRules ev (eh_Actions ?h) s of
          Ok s1 \<Rightarrow> (case evaluateTransitions origMachine ev (eh_Transitions ?h) s1 of
                     (transitioned, r) \<Rightarrow> if transitioned then returns orig_ok r else orig_settled (linked st) s1)
        | Fail e s1 \<Rightarrow> orig_ok s1 | Stuck \<Rightarrow> True"
  proof (cases "action_TransactionCreated ev s")
    case (Ok s1)
    then have s1: "orig_settled (withTransaction (linked st)) s1" using TransactionCreated_settled [OF s v] by simp
    obtain s2 where s2: "executeActionRules ev rs s1 = Ok s2" using total by blast
    then have "orig_settled (withTransaction (linked st)) s2" using executeActionRules_quiet [OF quiet s1, of ev] by simp
    then show ?thesis
      using Ok s2 start_sending [of st s2 ev] here
      by (cases "st = OriginatorState_Sending") (simp_all add: guard_passes_def ts)
  next
    case (Fail e s1)
    then show ?thesis
      using TransactionCreated_settled [OF s v] orig_settled_ok by (auto simp: guard_passes_def)
  next
    case Stuck
    then show ?thesis by (simp add: guard_passes_def)
  qed
qed

lemma cleanUp_leads:
  assumes ts: "ts = (if st = OriginatorState_Sending
                     then [goToIf OriginatorState_Observing (GuardNot guard_HasTransactions) []] else [])"
  shows "handler_leads origMachine ev (orig_settled (linked st)) orig_ok (cleanUpFinal ts)"
  unfolding handler_leads_def
proof (intro allI impI)
  fix s assume s: "orig_settled (linked st) s"
  show "case executeActionRules ev (eh_Actions (cleanUpFinal ts)) s of
          Ok s1 \<Rightarrow> (case evaluateTransitions origMachine ev (eh_Transitions (cleanUpFinal ts)) s1 of
                     (transitioned, r) \<Rightarrow> if transitioned then returns orig_ok r else orig_settled (linked st) s1)
        | Fail e s1 \<Rightarrow> orig_ok s1 | Stuck \<Rightarrow> True"
  proof (cases "\<exists>t from to. ev = OTransactionStateTransitionEvent t from to")
    case True
    then obtain t where act: "executeActionRules ev (eh_Actions (cleanUpFinal ts)) s = Ok (o_removeTransaction t s)"
      by (auto simp: cleanUpFinal_def guard_passes_def o_action_CleanUpTransaction_def)
    let ?s1 = "o_removeTransaction t s"
    have core: "orig_core ?s1" using s removeTransaction_core by (simp add: orig_settled_def)
    have same: "o_state ?s1 = st" "o_notifyFullDelegation ?s1 = o_notifyFullDelegation s"
      "o_notifyPartialDelegation ?s1 = o_notifyPartialDelegation s"
      using settled_state [OF s] by (simp_all add: o_removeTransaction_def)
    show ?thesis
    proof (cases "st = OriginatorState_Sending \<and> o_transactionsByID ?s1 = []")
      case True
      then show ?thesis
        using stop_sending [OF core, of ev "GuardNot guard_HasTransactions"] act same
        by (simp add: cleanUpFinal_def ts guard_passes_def guard_HasTransactions_def)
    next
      case False
      then have "orig_settled (linked st) ?s1"
        using s core same by (auto simp: orig_settled_def orig_view_def linked_def Let_def o_removeTransaction_def)
      then show ?thesis
        using act False
        by (cases "st = OriginatorState_Sending")
           (simp_all add: cleanUpFinal_def ts guard_passes_def guard_HasTransactions_def)
    qed
  next
    case False
    then show ?thesis
      by (auto simp: cleanUpFinal_def guard_passes_def o_action_CleanUpTransaction_def split: OriginatorEvent.split)
  qed
qed

lemma moving_leads:
  assumes "act ` set (eh_Actions h) \<subseteq> set quietActions" and "st \<noteq> OriginatorState_Sending"
    and "\<forall>rule \<in> set (eh_Transitions h). tr_To rule \<noteq> OriginatorState_Sending \<and> tr_Actions rule = []"
  shows "handler_leads origMachine ev (orig_settled (linked st)) orig_ok h"
  unfolding handler_leads_def
proof (intro allI impI)
  fix s assume "orig_settled (linked st) s"
  from executeActionRules_quiet [OF assms(1) this, of ev]
  have r: "returns (orig_settled (linked st)) (executeActionRules ev (eh_Actions h) s)" .
  have "case evaluateTransitions origMachine ev rules s1 of
          (transitioned, r) \<Rightarrow> if transitioned then returns orig_ok r else orig_settled (linked st) s1"
    if "orig_settled (linked st) s1" "set rules \<subseteq> set (eh_Transitions h)" for s1 rules
    using that
  proof (induction rules)
    case (Cons rule rules)
    then show ?case using orig_move [OF Cons.prems(1) assms(2), of rule ev] assms(3) by simp
  qed simp
  with r show "case executeActionRules ev (eh_Actions h) s of
          Ok s1 \<Rightarrow> (case evaluateTransitions origMachine ev (eh_Transitions h) s1 of
                     (transitioned, r) \<Rightarrow> if transitioned then returns orig_ok r else orig_settled (linked st) s1)
        | Fail e s1 \<Rightarrow> orig_ok s1 | Stuck \<Rightarrow> True"
    by (cases "executeActionRules ev (eh_Actions h) s") (auto dest: orig_settled_ok)
qed

lemma created_handlers:
  "handler_leads origMachine ev (orig_settled (linked OriginatorState_Idle)) orig_ok
     (handlerFor validator_TransactionDoesNotExist [always action_TransactionCreated, always o_action_RefreshBlockHeight,
        always action_ResetToTopPriorityCoordinator] [goTo OriginatorState_Sending []])"
  "handler_leads origMachine ev (orig_settled (linked OriginatorState_Observing)) orig_ok
     (handlerFor validator_TransactionDoesNotExist [always action_TransactionCreated] [goTo OriginatorState_Sending []])"
  "handler_leads origMachine ev (orig_settled (linked OriginatorState_Sending)) orig_ok
     (handlerFor validator_TransactionDoesNotExist [always action_TransactionCreated, always action_NotifyPartialDelegation] [])"
  by (rule created_leads; simp add: guard_passes_def o_action_RefreshBlockHeight_def
      action_ResetToTopPriorityCoordinator_def action_NotifyPartialDelegation_def; simp add: quietActions_def)+

lemma orig_handlers_lead:
  "\<forall>h \<in> set (handlers_for origMachine st ev). handler_leads origMachine ev (orig_settled (linked st)) orig_ok h"
  by (cases st; cases ev)
     (simp_all add: handlers_for_def def_orig_Initial_def def_orig_Idle_def def_orig_Observing_def def_orig_Sending_def
       quiet_leads moving_leads cleanUp_leads created_handlers quietActions_def learnFromHeartbeat_def
       finalizeEnded_def)

lemma ProcessEvent_orig_ok:
  assumes "orig_ok s"
  shows "returns (\<lambda>s'. orig_ok s' \<and> \<not> o_locked s') (ProcessEvent origMachine ev s)"
proof -
  have "returns orig_ok (handleLocked origMachine ev (s\<lparr>o_locked := True\<rparr>))"
    by (rule handleLocked_leads [where P = "orig_settled (linked (o_state s))"])
       (use orig_handlers_lead [of "o_state s" ev] assms orig_settled_ok in auto)
  then show ?thesis by (auto simp: ProcessEvent_def elim: returns_mono)
qed

section \<open>Runs\<close>

lemma orig_processEvent_ok:
  assumes "orig_ok s"
  shows "returns (\<lambda>s'. orig_ok s' \<and> \<not> o_locked s') (orig_processEvent ev s)"
proof -
  have own: "returns (\<lambda>s'. orig_ok s' \<and> \<not> o_locked s') (ProcessEvent origMachine ev (s\<lparr>o_locked := False\<rparr>))"
    by (rule ProcessEvent_orig_ok) (use assms in simp)
  have "returns (\<lambda>s'. orig_ok s' \<and> \<not> o_locked s')
      (outcome_map (\<lambda>s1. s1\<lparr>o_locked := False\<rparr>) (o_propagateEventToTransaction t e (s\<lparr>o_locked := True\<rparr>)))" for t e
    using propagate_settled [of "linked (o_state s)" "s\<lparr>o_locked := True\<rparr>" t e] assms
    by (auto elim: returns_mono dest: orig_settled_ok)
  with own show ?thesis
    by (cases ev) (auto simp: orig_processEvent_def orig_preProcessEvent_def)
qed

lemma orig_started: "orig_ok (o_Start (NewOriginator pd cfg sel n e chk u)) \<and> \<not> o_locked (o_Start (NewOriginator pd cfg sel n e chk u))"
  by (simp add: o_Start_def NewOriginator_def orig_settled_def orig_core_def orig_view_def linked_def failover_ok_def
      go_distinct_def)

lemma fireResolveRetry_ok:
  assumes "fireResolveRetry t s = Some s'" and "orig_ok s"
  shows "orig_ok s' \<and> o_locked s' = o_locked s"
proof -
  obtain f where s': "s' = o_queueEventInternal (OTxEvent t OTVerifierResolutionRetryEvent) (updOTxn t f s)"
    and f: "\<And>x. pt_ID (ot_pt (f x)) = pt_ID (ot_pt x)" "\<And>x. ot_locked (f x) = ot_locked x"
    using assms(1) by (auto simp: fireResolveRetry_def split: option.splits if_splits)
  have b: "beyond t s (updOTxn t f s)" using f by simp
  have "orig_settled (linked (o_state s)) (updOTxn t f s)"
    by (rule beyond_settled [OF b assms(2)])
       (use assms(2) f in \<open>auto simp: go_get_updOTxn orig_settled_def orig_core_def otxn_def\<close>)
  then show ?thesis by (simp add: s' updOTxn_def o_queueEventInternal_def orig_settled_def orig_core_def orig_view_def failover_ok_def)
qed

lemma orig_step_ok: "orig_step s s' \<Longrightarrow> orig_ok s \<Longrightarrow> \<not> o_locked s \<Longrightarrow> orig_ok s' \<and> \<not> o_locked s'"
proof (induction rule: orig_step.induct)
  case (event_ok ev s s')
  then show ?case using orig_processEvent_ok [of s ev] by simp
next
  case (event_error ev s e s')
  then show ?case using orig_processEvent_ok [of s ev] by simp
next
  case (loop_tick s s')
  then obtain a b where ch: "o_notifyFullDelegation s = Some a" "o_notifyPartialDelegation s = Some b"
    by (auto simp: delegationTick_def split: option.splits)
  with loop_tick(2) have "orig_ok (s\<lparr>o_notifyFullDelegation := Some False, o_notifyPartialDelegation := Some False\<rparr>)"
    by (simp add: orig_settled_def orig_core_def orig_view_def failover_ok_def)
  with loop_tick ch show ?case
    by (auto simp: delegationTick_def Let_def o_queueEventInternal_def split: if_splits)
next
  case (retry_due t s s')
  then show ?case using fireResolveRetry_ok by simp
qed (simp_all add: handleResolveVerifiers_def finishAssembly_def finishSign_def o_queueEventInternal_def orig_settled_def
     orig_core_def orig_view_def failover_ok_def)

lemma orig_reachable_ok: "orig_reachable s \<Longrightarrow> orig_ok s \<and> \<not> o_locked s"
  by (induction rule: orig_reachable.induct) (use orig_started orig_step_ok in auto)

end
