(* ===== verification/OriginatorSamples.thy ===== *)
theory OriginatorSamples
  imports OriginatorInvariant CoordinatorSamples TransactionProperties
begin

text \<open>
  Concrete originators and runs, on which the general statements are evaluated.
\<close>

definition sampleOriginator :: "environment \<Rightarrow> originatorNode" where
  "sampleOriginator e = o_Start (NewOriginator (\<lambda>_. Some second) emptyConfig
     \<lparr>csc_Mode = COORDINATOR_STATIC, csc_StaticCoordinator = ''node1'', csc_Endorsers = []\<rparr>
     ''node0'' e (\<lambda>_. Inr True) 0)"

definition endorserOriginator :: originatorNode where
  "endorserOriginator = o_Start (NewOriginator (\<lambda>_. Some second) emptyConfig
     \<lparr>csc_Mode = COORDINATOR_ENDORSER, csc_StaticCoordinator = [], csc_Endorsers = [''node0'', ''node1'', ''node2'']\<rparr>
     ''node0'' sampleEnv (\<lambda>_. Inr True) 0)"

definition createTx :: "uuid \<Rightarrow> OriginatorEvent" where
  "createTx i = TransactionCreatedEvent (Some (delegatedTx i, []))"

definition assembleFor :: "uuid \<Rightarrow> string \<Rightarrow> AssembleRequestReceived" where
  "assembleFor r coordinator = \<lparr>aq_RequestID = r, aq_Coordinator = coordinator, aq_CoordinatorBlockHeight = 0,
     aq_BlockHeightTolerance = 10, aq_Expiry = None\<rparr>"

fun runOrig :: "OriginatorEvent list \<Rightarrow> originatorNode \<Rightarrow> originatorNode" where
  "runOrig [] s = s"
| "runOrig (ev # evs) s = runOrig evs (case orig_processEvent ev s of Ok s1 \<Rightarrow> s1 | Fail e s1 \<Rightarrow> s1 | Stuck \<Rightarrow> s)"

lemma runOrig_reachable: "orig_reachable s \<Longrightarrow> orig_reachable (runOrig evs s)"
proof (induction evs arbitrary: s)
  case (Cons ev evs)
  have "orig_reachable (case orig_processEvent ev s of Ok s1 \<Rightarrow> s1 | Fail e s1 \<Rightarrow> s1 | Stuck \<Rightarrow> s)"
    using Cons.prems
    by (cases "orig_processEvent ev s") (auto intro: orig_reachable.step orig_step.event_ok orig_step.event_error)
  then show ?case using Cons.IH by simp
qed simp

lemma sampleOriginator_reachable: "orig_reachable (runOrig evs (sampleOriginator e))"
  unfolding sampleOriginator_def by (rule runOrig_reachable) (rule orig_reachable.start)

end
