(* ===== verification/OriginatorProperties.thy ===== *)
theory OriginatorProperties
  imports OriginatorSamples
begin

text \<open>
  What the originator promises: the life cycle of its transactions, the invariant of its runs, that only the
  coordinator a transaction is delegated to has its requests answered, what a delegation request holds,
  and the order of failover.
\<close>

section \<open>The life cycle of a transaction\<close>

fun nextOTStates :: "OriginatorTransactionState \<Rightarrow> OriginatorTransactionState list" where
  "nextOTStates OriginatorTransactionState_Initial = [OriginatorTransactionState_Resolving,
     OriginatorTransactionState_Pending, OriginatorTransactionState_Confirmed]"
| "nextOTStates OriginatorTransactionState_Resolving = [OriginatorTransactionState_Pending, OriginatorTransactionState_Confirmed]"
| "nextOTStates OriginatorTransactionState_Pending = [OriginatorTransactionState_Delegated, OriginatorTransactionState_Confirmed]"
| "nextOTStates OriginatorTransactionState_Delegated = [OriginatorTransactionState_Assembling,
     OriginatorTransactionState_Dispatched, OriginatorTransactionState_Confirmed]"
| "nextOTStates OriginatorTransactionState_Assembling = [OriginatorTransactionState_Signing,
     OriginatorTransactionState_Endorsement_Gathering, OriginatorTransactionState_Reverted,
     OriginatorTransactionState_Parked, OriginatorTransactionState_Delegated, OriginatorTransactionState_Confirmed]"
| "nextOTStates OriginatorTransactionState_Signing = [OriginatorTransactionState_Endorsement_Gathering,
     OriginatorTransactionState_Assembling, OriginatorTransactionState_Delegated, OriginatorTransactionState_Confirmed]"
| "nextOTStates OriginatorTransactionState_Endorsement_Gathering = [OriginatorTransactionState_Prepared,
     OriginatorTransactionState_Assembling, OriginatorTransactionState_Delegated, OriginatorTransactionState_Confirmed]"
| "nextOTStates OriginatorTransactionState_Prepared = [OriginatorTransactionState_Dispatched,
     OriginatorTransactionState_Assembling, OriginatorTransactionState_Delegated, OriginatorTransactionState_Confirmed]"
| "nextOTStates OriginatorTransactionState_Dispatched = [OriginatorTransactionState_Sequenced,
     OriginatorTransactionState_Submitted, OriginatorTransactionState_Assembling, OriginatorTransactionState_Delegated,
     OriginatorTransactionState_Confirmed]"
| "nextOTStates OriginatorTransactionState_Sequenced = [OriginatorTransactionState_Submitted,
     OriginatorTransactionState_Assembling, OriginatorTransactionState_Delegated, OriginatorTransactionState_Confirmed]"
| "nextOTStates OriginatorTransactionState_Submitted = [OriginatorTransactionState_Assembling,
     OriginatorTransactionState_Delegated, OriginatorTransactionState_Confirmed]"
| "nextOTStates OriginatorTransactionState_Parked = [OriginatorTransactionState_Pending,
     OriginatorTransactionState_Delegated, OriginatorTransactionState_Confirmed]"
| "nextOTStates OriginatorTransactionState_Confirmed = [OriginatorTransactionState_Final]"
| "nextOTStates OriginatorTransactionState_Reverted = [OriginatorTransactionState_Final]"
| "nextOTStates OriginatorTransactionState_Final = []"

lemma declared_nextOTStates: "set (declared_targets (otMachine t) st ev) \<subseteq> set (nextOTStates st)"
  by (cases st; cases "OriginatorTransactionEvent_Type ev";
      simp add: declared_targets_def handlers_for_def otTable)

text \<open>C28. Whatever event a transaction of the originator processes, it moves one step of its life cycle at
  most, also when an action fails half way, every other transaction keeps its struct, and its lock is free
  afterwards.\<close>

theorem originator_transaction_life_cycle:
  assumes "go_get (o_transactionsByID s) t \<noteq> None"
  shows "returns (\<lambda>s'. \<not> ot_locked (otxn t s')
      \<and> ot_currentState (otxn t s') \<in> insert (ot_currentState (otxn t s)) (set (nextOTStates (ot_currentState (otxn t s))))
      \<and> go_keys (o_transactionsByID s') = go_keys (o_transactionsByID s)
      \<and> (\<forall>u. u \<noteq> t \<longrightarrow> go_get (o_transactionsByID s') u = go_get (o_transactionsByID s) u))
    (ot_HandleEvent t ev s)"
proof -
  have "returns (\<lambda>s'. \<not> ot_locked (otxn t s') \<and> ot_currentState (otxn t s')
      \<in> insert (ot_currentState (otxn t s)) (set (declared_targets (otMachine t) (ot_currentState (otxn t s)) ev)))
    (ot_HandleEvent t ev s)"
    unfolding ot_HandleEvent_def using otOwned.ProcessEvent_declared [where w = s and t = t and ev = ev] assms by simp
  with HandleEvent_beyond [of t s ev] declared_nextOTStates [of t "ot_currentState (otxn t s)" ev] show ?thesis
    by (cases "ot_HandleEvent t ev s") (auto simp: beyond_def)
qed

section \<open>The invariant of a run\<close>

text \<open>C2. In every state an originator can reach, its map of transactions and their order of creation hold the
  same transactions, each once, under their own identifier and unlocked; the failover index points into the
  list of candidates; the originator is in the state \<open>Sending\<close>, and its delegation loop runs, exactly
  while it has a transaction.\<close>

theorem originator_always_well_formed:
  assumes "orig_reachable s"
  shows "distinct (go_keys (o_transactionsByID s)) \<and> distinct (o_transactionsOrdered s)
    \<and> set (o_transactionsOrdered s) = set (go_keys (o_transactionsByID s))
    \<and> (\<forall>t x. go_get (o_transactionsByID s) t = Some x \<longrightarrow> \<not> ot_locked x \<and> pt_ID (ot_pt x) = t)
    \<and> (length (o_coordinatorPriorityList s) > 1 \<longrightarrow> o_failoverIndex s < length (o_coordinatorPriorityList s))
    \<and> (o_state s = OriginatorState_Sending \<longleftrightarrow> o_transactionsByID s \<noteq> [])
    \<and> (o_notifyFullDelegation s \<noteq> None \<longleftrightarrow> o_state s = OriginatorState_Sending)
    \<and> (o_notifyPartialDelegation s \<noteq> None \<longleftrightarrow> o_state s = OriginatorState_Sending)
    \<and> \<not> o_locked s"
  using orig_reachable_ok [OF assms]
  by (auto simp: orig_settled_def orig_core_def orig_view_def linked_def Let_def failover_ok_def go_distinct_def)


text \<open>The property applied to a transaction that is created, delegated and asked to assemble.\<close>

lemma originator_transaction_life_cycle_witness:
  "\<exists>s. go_get (o_transactionsByID s) 1 \<noteq> None \<and> returns (\<lambda>s'. ot_currentState (otxn 1 s')
     \<in> {OriginatorTransactionState_Delegated, OriginatorTransactionState_Assembling,
        OriginatorTransactionState_Dispatched, OriginatorTransactionState_Confirmed}) (ot_HandleEvent 1 (OTAssembleErrorEvent 7) s)"
proof -
  let ?s = "runOrig [OriginatorCreatedEvent, createTx 1, DelegateSendBatchEvent True] (sampleOriginator sampleEnv)"
  have k: "map_option ot_currentState (go_get (o_transactionsByID ?s) 1) = Some OriginatorTransactionState_Delegated"
    by code_simp
  then have "go_get (o_transactionsByID ?s) 1 \<noteq> None" "ot_currentState (otxn 1 ?s) = OriginatorTransactionState_Delegated"
    by (auto simp: otxn_def)
  with originator_transaction_life_cycle [of ?s 1 "OTAssembleErrorEvent 7"] show ?thesis
    by (intro exI [of _ ?s] conjI) (auto elim!: returns_mono)
qed

lemma originator_always_well_formed_witness:
  "\<exists>s. orig_reachable s \<and> o_transactionsByID s \<noteq> [] \<and> o_state s = OriginatorState_Sending \<and> o_transactionsOrdered s = [1]"
proof -
  let ?s = "runOrig [OriginatorCreatedEvent, createTx 1] (sampleOriginator sampleEnv)"
  have "o_transactionsOrdered ?s = [1]" by code_simp
  moreover have "orig_reachable ?s" by (rule sampleOriginator_reachable)
  ultimately show ?thesis
    using originator_always_well_formed [of ?s] by (intro exI [of _ ?s]) auto
qed


section \<open>Requests of others than the current delegate\<close>

text \<open>The states whose table has an entry for assemble requests.\<close>

definition answersAssembleRequests :: "OriginatorTransactionState \<Rightarrow> bool" where
  "answersAssembleRequests st \<longleftrightarrow> st \<notin> {OriginatorTransactionState_Initial, OriginatorTransactionState_Resolving,
     OriginatorTransactionState_Pending, OriginatorTransactionState_Confirmed, OriginatorTransactionState_Final}"

text \<open>
  From \<open>k\<close> to \<open>s\<close> the request \<open>e\<close> was refused: struct \<open>x\<close> and assemblies are as before, only rejections
  went out, among them, if \<open>must\<close>, that the sender is not the current delegate.
\<close>

definition refusal :: "uuid \<Rightarrow> AssembleRequestReceived \<Rightarrow> originatorTransaction \<Rightarrow> bool \<Rightarrow> originatorNode \<Rightarrow> originatorNode \<Rightarrow> bool" where
  "refusal t e x must k s \<longleftrightarrow> go_get (o_transactionsByID s) t = Some x \<and> o_assemblies s = o_assemblies k
     \<and> (\<exists>ms. o_outbox s = o_outbox k @ ms
          \<and> (\<forall>(node, m) \<in> set ms. node = aq_Coordinator e \<and> (\<exists>reason h h'. m = AssembleRejection t (aq_RequestID e) reason h h'))
          \<and> (must \<and> aq_Coordinator e \<noteq> [] \<and> \<not> env_sendFails (o_env k) (o_sendsTried k) \<longrightarrow>
               (aq_Coordinator e, AssembleRejection t (aq_RequestID e) NOT_CURRENT_DELEGATE 0 0) \<in> set ms))"

lemma refresh_rest [simp]:
  "o_assemblies (o_refreshBlockHeight s) = o_assemblies s" "o_outbox (o_refreshBlockHeight s) = o_outbox s"
  "o_env (o_refreshBlockHeight s) = o_env s" "o_sendsTried (o_refreshBlockHeight s) = o_sendsTried s"
  by (simp_all add: o_refreshBlockHeight_def o_calculateCoordinatorPriorities_def resetFailoverIndex_def Let_def)

lemma refusal_sendsTried [simp]: "refusal t e x must k (s\<lparr>o_sendsTried := n\<rparr>) = refusal t e x must k s"
  by (simp add: refusal_def)

lemma refusal_send:
  assumes "refusal t e x must k s" and "m = AssembleRejection t (aq_RequestID e) reason h h'"
  shows "returns (refusal t e x must k) (o_send (aq_Coordinator e) m s)"
proof -
  from assms(1) obtain ms where ms: "o_outbox s = o_outbox k @ ms"
    "\<forall>(node, m) \<in> set ms. node = aq_Coordinator e \<and> (\<exists>reason h h'. m = AssembleRejection t (aq_RequestID e) reason h h')"
    "must \<and> aq_Coordinator e \<noteq> [] \<and> \<not> env_sendFails (o_env k) (o_sendsTried k) \<longrightarrow>
       (aq_Coordinator e, AssembleRejection t (aq_RequestID e) NOT_CURRENT_DELEGATE 0 0) \<in> set ms"
    by (auto simp: refusal_def)
  have "refusal t e x must k (s\<lparr>o_sendsTried := n, o_outbox := o_outbox s @ [(aq_Coordinator e, m)]\<rparr>)" for n
    using assms ms unfolding refusal_def by (intro conjI exI [of _ "ms @ [(aq_Coordinator e, m)]"]) auto
  with assms(1) show ?thesis by (simp add: o_send_def)
qed

lemma refusal_first:
  assumes "go_get (o_transactionsByID s) t = Some x" and "s' = o_refreshBlockHeight s"
  shows "returns (refusal t e x True s) (action_SendAssembleRejectionNotCurrentDelegate t (OTAssembleRequestReceivedEvent e) s')"
  using assms by (auto simp: action_SendAssembleRejectionNotCurrentDelegate_def o_send_def refusal_def)

text \<open>The last three handlers of an entry, none of which admits a request of another coordinator.\<close>

lemma refusal_rest:
  assumes "refusal t e x must k s" and "aq_Coordinator e \<noteq> ot_currentDelegate x"
  shows "returns (refusal t e x must k) (processMatchAll (otMachine t) (OTAssembleRequestReceivedEvent e)
    [handlerFor (validator_AssembleBlockHeightToleranceExceeded t) [always (action_SendAssembleBlockHeightRejection t)] [],
     handlerFor (validator_IsPrivateStateDataPendingForAssembly t) [always (action_RejectAssemblyPrivateStateDataPending t)] [],
     handlerFor (assemblyAdmitted t) as ts] s)"
proof -
  let ?ev = "OTAssembleRequestReceivedEvent e"
  have "returns (refusal t e x must k) (action_SendAssembleBlockHeightRejection t ?ev u)"
    "returns (refusal t e x must k) (action_RejectAssemblyPrivateStateDataPending t ?ev u)"
    if "refusal t e x must k u" for u
    by (simp_all add: action_SendAssembleBlockHeightRejection_def action_RejectAssemblyPrivateStateDataPending_def
        refusal_send [OF that])
  moreover have "matchesHandler ?ev (handlerFor (assemblyAdmitted t) as ts) u = Inr False" if "refusal t e x must k u" for u
    using that assms(2) by (simp add: matchesHandler_def assemblyAdmitted_def validator_AssembleRequestFromCurrentDelegate_def
        refusal_def otxn_def)
  ultimately show ?thesis
    using assms(1)
    by (auto simp: matchesHandler_def validator_AssembleBlockHeightToleranceExceeded_def guard_passes_def Let_def
        intro!: returns_and_then split: sum.split)
qed


lemma notCurrent:
  "go_get (o_transactionsByID s) t = Some x \<Longrightarrow> aq_Coordinator e \<noteq> ot_currentDelegate x \<Longrightarrow>
   validator_AssembleRequestFromCurrentDelegate t (OTAssembleRequestReceivedEvent e) s = Inr False"
  by (simp add: validator_AssembleRequestFromCurrentDelegate_def otxn_def)

lemma resend_skipped:
  assumes "go_get (o_transactionsByID s) t = Some x" and "aq_Coordinator e \<noteq> ot_currentDelegate x"
  shows "processMatchAll sm (OTAssembleRequestReceivedEvent e) (resendTo t resend # hs) s
    = processMatchAll sm (OTAssembleRequestReceivedEvent e) hs s"
  using notCurrent [OF assms]
  by (simp add: resendTo_def matchesHandler_def validator_AssembleRequestMatchesPreviousResponse_def)

lemma executeActionRules_no_rules [simp]: "executeActionRules ev [] = Ok"
  by (rule ext) simp

lemma processMatchAll_through:
  assumes "matchesHandler ev h s = Inr True" and "eh_Actions h = [always a]" and "eh_Transitions h = []" and "\<not> eh_Stop h"
  shows "processMatchAll sm ev (h # hs) s = and_then (a ev s) (processMatchAll sm ev hs)"
  using assms by (cases "a ev s") (simp_all add: guard_passes_def)

lemma refused_stopping:
  assumes "go_get (o_transactionsByID s) t = Some x" and "aq_Coordinator e \<noteq> ot_currentDelegate x"
  shows "returns (refusal t e x True s) (processMatchAll (otMachine t) (OTAssembleRequestReceivedEvent e)
     (refreshHeight t # map (\<lambda>h. h\<lparr>eh_Stop := True\<rparr>) (refuseAssembly t) @ hs) s)"
  using refusal_first [OF assms(1) refl, of e] notCurrent [of "o_refreshBlockHeight s" t x e] assms
  by (auto simp: refreshHeight_def refuseAssembly_def matchesHandler_def guard_passes_def o_tx_action_RefreshBlockHeight_def
      ValidatorNot_def)

lemma refused_going_on:
  assumes "go_get (o_transactionsByID s) t = Some x" and "aq_Coordinator e \<noteq> ot_currentDelegate x"
  shows "returns (refusal t e x True s) (processMatchAll (otMachine t) (OTAssembleRequestReceivedEvent e)
     (refreshHeight t # refuseAssembly t @ [handlerFor (assemblyAdmitted t) as ts]) s)"
proof -
  let ?ev = "OTAssembleRequestReceivedEvent e" and ?s1 = "o_refreshBlockHeight s"
  have "processMatchAll (otMachine t) ?ev (refreshHeight t # hs) s = processMatchAll (otMachine t) ?ev hs ?s1" for hs
    by (subst processMatchAll_through [where a = "o_tx_action_RefreshBlockHeight t"]) (simp_all add: refreshHeight_def matchesHandler_def o_tx_action_RefreshBlockHeight_def)
  moreover have "validator_AssembleRequestFromCurrentDelegate t ?ev ?s1 = Inr False"
    using notCurrent [of ?s1 t x e] assms by simp
  ultimately show ?thesis
    using refusal_first [OF assms(1) refl, of e]
    by (simp add: refuseAssembly_def processMatchAll_through [where a = "action_SendAssembleRejectionNotCurrentDelegate t"]
        matchesHandler_def ValidatorNot_def returns_and_then refusal_rest [OF _ assms(2)] del: processMatchAll.simps)
qed

lemma refused_locked:
  assumes x: "go_get (o_transactionsByID s) t = Some x" and "aq_Coordinator e \<noteq> ot_currentDelegate x"
  shows "returns (refusal t e x (answersAssembleRequests (ot_currentState x)) s)
    (handleLocked (otMachine t) (OTAssembleRequestReceivedEvent e) s)"
proof -
  have none: "refusal t e x False s s" using x by (simp add: refusal_def)
  note rs = refused_stopping [OF assms] refused_going_on [OF assms] resend_skipped [OF assms]
  show ?thesis
    by (cases "ot_currentState x")
       (simp_all add: handleLocked_def otxn_def x def_o_Initial_def def_o_Resolving_def def_o_Pending_def def_o_Delegated_def
         def_o_Assembling_def def_o_Signing_def def_o_Endorsement_Gathering_def def_o_Prepared_def def_o_Dispatched_def
         def_o_Sequenced_def def_o_Submitted_def def_o_Parked_def def_o_Confirmed_def def_o_Reverted_def def_o_Final_def
         onConfirmedSuccess_def onRevertedBeforeDispatch_def onRevertedAfterDispatch_def onRedelegated_def
         onAssembleRequest_def onAssembleRequestAgain_def onAssembleRequestRecorded_def onSubmitted_def
         answersAssembleRequests_def none rs del: processMatchAll.simps)
qed


text \<open>C14. An assemble request of a coordinator other than the one the transaction is delegated to, in whatever
  state: the struct of the transaction stays as it is, no assembly is started, and nothing but rejections
  goes out, to the sender alone. In every state that answers such requests the rejection
  says that the sender is not the current delegate, unless it cannot be sent.\<close>

theorem stale_delegate_request_refused:
  assumes "go_get (o_transactionsByID s) t = Some x" and "\<not> ot_locked x" and "aq_Coordinator e \<noteq> ot_currentDelegate x"
  shows "returns (\<lambda>s'. go_get (o_transactionsByID s') t = Some x \<and> o_assemblies s' = o_assemblies s
     \<and> (\<exists>ms. o_outbox s' = o_outbox s @ ms
          \<and> (\<forall>(node, m) \<in> set ms. node = aq_Coordinator e \<and> (\<exists>reason h h'. m = AssembleRejection t (aq_RequestID e) reason h h'))
          \<and> (answersAssembleRequests (ot_currentState x) \<and> aq_Coordinator e \<noteq> []
               \<and> \<not> env_sendFails (o_env s) (o_sendsTried s) \<longrightarrow>
               (aq_Coordinator e, AssembleRejection t (aq_RequestID e) NOT_CURRENT_DELEGATE 0 0) \<in> set ms)))
    (ot_HandleEvent t (OTAssembleRequestReceivedEvent e) s)"
proof -
  let ?y = "x\<lparr>ot_locked := True\<rparr>" and ?s = "updOTxn t (\<lambda>x. x\<lparr>ot_locked := True\<rparr>) s"
  have "go_get (o_transactionsByID ?s) t = Some ?y" using assms(1) by (simp add: go_get_updOTxn)
  from refused_locked [OF this, of e]
  have "returns (refusal t e ?y (answersAssembleRequests (ot_currentState x)) ?s)
      (handleLocked (otMachine t) (OTAssembleRequestReceivedEvent e) ?s)" using assms(3) by simp
  moreover have "x\<lparr>ot_locked := False\<rparr> = x" using assms(2) by (cases x) simp
  ultimately show ?thesis
    using assms(1,2)
    by (auto simp: ot_HandleEvent_def ProcessEvent_def otxn_def refusal_def map_of_map_entry updOTxn_def elim!: returns_mono)
qed

lemma stale_delegate_request_refused_witness:
  "\<exists>s x. orig_reachable s \<and> go_get (o_transactionsByID s) 1 = Some x \<and> ot_currentDelegate x = ''node1''
     \<and> returns (\<lambda>s'. go_get (o_transactionsByID s') 1 = Some x)
         (ot_HandleEvent 1 (OTAssembleRequestReceivedEvent (assembleFor 7 ''node2'')) s)"
proof -
  let ?s = "runOrig [OriginatorCreatedEvent, createTx 1, DelegateSendBatchEvent True] (sampleOriginator sampleEnv)"
  have "map_option (\<lambda>x. (ot_currentDelegate x, ot_locked x)) (go_get (o_transactionsByID ?s) 1) = Some (''node1'', False)"
    by code_simp
  then obtain x where x: "go_get (o_transactionsByID ?s) 1 = Some x" "ot_currentDelegate x = ''node1''" "\<not> ot_locked x"
    by auto
  moreover have "aq_Coordinator (assembleFor 7 ''node2'') \<noteq> ot_currentDelegate x"
    using x(2) by (simp add: assembleFor_def)
  ultimately have "returns (\<lambda>s'. go_get (o_transactionsByID s') 1 = Some x)
      (ot_HandleEvent 1 (OTAssembleRequestReceivedEvent (assembleFor 7 ''node2'')) ?s)"
    using stale_delegate_request_refused [of ?s 1 x "assembleFor 7 ''node2''"] by (auto elim!: returns_mono)
  with x sampleOriginator_reachable show ?thesis by blast
qed


text \<open>C27. A request to approve a dispatch is approved only if the current delegate asks and names the hash of the
  signatures the originator holds: any other request leaves the transaction as it is, and sends nothing but
  a rejection to the one who asked.\<close>

theorem forged_predispatch_refused:
  assumes "go_get (o_transactionsByID s) t = Some x" and "\<not> ot_locked x"
    and "coordinator \<noteq> ot_currentDelegate x \<or> hashInternal t s \<noteq> Inr hash"
  shows "returns (\<lambda>s'. go_get (o_transactionsByID s') t = Some x
     \<and> (\<exists>ms. o_outbox s' = o_outbox s @ ms \<and> set ms \<subseteq> {(coordinator, PreDispatchRejection t request NOT_CURRENT_DELEGATE)}))
    (ot_HandleEvent t (OTPreDispatchRequestReceivedEvent request coordinator hash) s)"
proof -
  let ?ev = "OTPreDispatchRequestReceivedEvent request coordinator hash" and ?s = "updOTxn t (\<lambda>x. x\<lparr>ot_locked := True\<rparr>) s"
  define good where "good s' \<longleftrightarrow> go_get (o_transactionsByID s') t = Some (x\<lparr>ot_locked := True\<rparr>)
    \<and> (\<exists>ms. o_outbox s' = o_outbox s @ ms \<and> set ms \<subseteq> {(coordinator, PreDispatchRejection t request NOT_CURRENT_DELEGATE)})"
    for s' :: originatorNode
  have y: "otxn t ?s = x\<lparr>ot_locked := True\<rparr>" using assms(1) by (simp add: otxn_def go_get_updOTxn)
  have here: "good ?s" using assms(1) by (simp add: good_def go_get_updOTxn) (simp add: updOTxn_def)
  have "hashInternal t ?s = hashInternal t s"
    using assms(1) y by (simp add: hashInternal_def otxn_def updOTxn_def split: option.split)
  then have no: "validator_PreDispatchRequestFromCurrentDelegate t ?ev ?s \<noteq> Inr True"
    using assms(3) y by (auto simp: validator_PreDispatchRequestFromCurrentDelegate_def split: sum.split)
  have send: "returns good (action_SendPreDispatchRejectionNotCurrentDelegate t ?ev ?s)"
    using here by (auto simp: action_SendPreDispatchRejectionNotCurrentDelegate_def o_send_def good_def)
  have "returns good (handleLocked (otMachine t) ?ev ?s)"
    using here no send
    by (cases "ot_currentState x")
       (auto simp: handleLocked_def y otTable matchesHandler_def ValidatorNot_def guard_passes_def split: sum.split)
  moreover have "x\<lparr>ot_locked := False\<rparr> = x" using assms(2) by (cases x) simp
  ultimately show ?thesis
    using assms(1,2)
    by (auto simp: ot_HandleEvent_def ProcessEvent_def otxn_def good_def map_of_map_entry updOTxn_def elim!: returns_mono)
qed

lemma forged_predispatch_refused_witness:
  "\<exists>s x. orig_reachable s \<and> go_get (o_transactionsByID s) 1 = Some x \<and> returns (\<lambda>s'. go_get (o_transactionsByID s') 1 = Some x)
     (ot_HandleEvent 1 (OTPreDispatchRequestReceivedEvent 9 ''node2'' []) s)"
proof -
  let ?s = "runOrig [OriginatorCreatedEvent, createTx 1, DelegateSendBatchEvent True] (sampleOriginator sampleEnv)"
  have "map_option (\<lambda>x. (ot_currentDelegate x, ot_locked x)) (go_get (o_transactionsByID ?s) 1) = Some (''node1'', False)"
    by code_simp
  then obtain x where x: "go_get (o_transactionsByID ?s) 1 = Some x" "ot_currentDelegate x = ''node1''" "\<not> ot_locked x"
    by auto
  then have "returns (\<lambda>s'. go_get (o_transactionsByID s') 1 = Some x)
      (ot_HandleEvent 1 (OTPreDispatchRequestReceivedEvent 9 ''node2'' []) ?s)"
    using forged_predispatch_refused [of ?s 1 x "''node2''" "[]" 9] by (auto elim!: returns_mono)
  with x sampleOriginator_reachable show ?thesis by blast
qed

section \<open>Failover\<close>

text \<open>A failover that does not panic.\<close>

definition failedOver :: "originatorNode \<Rightarrow> originatorNode" where
  "failedOver s = (case action_FailoverToNextCoordinator OHeartbeatIntervalEvent s of Ok s' \<Rightarrow> s' | Fail e s' \<Rightarrow> s' | Stuck \<Rightarrow> s)"

lemma failedOver_step:
  assumes "length (o_coordinatorPriorityList s) = n" "1 < n" "o_failoverIndex s < n"
  shows "action_FailoverToNextCoordinator ev s = Ok (failedOver s)"
    "o_currentActiveCoordinator (failedOver s) = o_coordinatorPriorityList s ! o_failoverIndex s"
    "o_failoverIndex (failedOver s) = Suc (o_failoverIndex s) mod n"
    "o_coordinatorPriorityList (failedOver s) = o_coordinatorPriorityList s"
  using assms by (simp_all add: failedOver_def action_FailoverToNextCoordinator_def Let_def requestFullDelegation_def)

lemma failedOver_index:
  assumes "length (o_coordinatorPriorityList s) = n" "1 < n" "o_failoverIndex s < n"
  shows "o_coordinatorPriorityList ((failedOver ^^ k) s) = o_coordinatorPriorityList s
    \<and> o_failoverIndex ((failedOver ^^ k) s) = (o_failoverIndex s + k) mod n"
proof (induction k)
  case (Suc k)
  then show ?case
    using failedOver_step [of "(failedOver ^^ k) s" n] assms by (simp add: mod_Suc_eq)
qed (use assms in simp)

text \<open>C30. Failover visits the candidates in the order of their priority and starts over at the end: the k-th
  failover never panics and makes the candidate k places after the failover index the active one, so that
  within as many failovers as there are candidates every candidate has been tried.\<close>

theorem failover_tries_every_candidate:
  assumes "orig_reachable s" and "1 < length (o_coordinatorPriorityList s)" and "c \<in> set (o_coordinatorPriorityList s)"
  shows "\<exists>k < length (o_coordinatorPriorityList s).
     action_FailoverToNextCoordinator ev ((failedOver ^^ k) s) = Ok ((failedOver ^^ Suc k) s)
     \<and> o_currentActiveCoordinator ((failedOver ^^ Suc k) s) = c"
proof -
  let ?l = "o_coordinatorPriorityList s" and ?i = "o_failoverIndex s"
  let ?n = "length ?l"
  have i: "?i < ?n" using settled_failover orig_reachable_ok [OF assms(1)] assms(2) failover_ok_def by blast
  obtain j where j: "j < ?n" "?l ! j = c" using assms(3) by (auto simp: in_set_conv_nth)
  define k where "k = (if ?i \<le> j then j - ?i else ?n - ?i + j)"
  have k: "k < ?n" "(?i + k) mod ?n = j" using i j by (auto simp: k_def)
  note ix = failedOver_index [OF refl assms(2) i, of k]
  then have "length (o_coordinatorPriorityList ((failedOver ^^ k) s)) = ?n" "o_failoverIndex ((failedOver ^^ k) s) < ?n"
    using k j by auto
  note st = failedOver_step [OF this(1) assms(2) this(2)]
  show ?thesis by (intro exI [of _ k] conjI k(1)) (use st ix k j in simp_all)
qed


lemma failover_tries_every_candidate_witness:
  "\<exists>s. orig_reachable s \<and> (\<exists>k < 3. o_currentActiveCoordinator ((failedOver ^^ Suc k) s) = ''node2'')"
proof -
  let ?s = "runOrig [OriginatorCreatedEvent] endorserOriginator"
  have "\<exists>h. o_coordinatorPriorityList ?s = ComputeCoordinatorPriorityList [''node0'', ''node1'', ''node2''] h"
    by (simp add: endorserOriginator_def o_Start_def NewOriginator_def orig_processEvent_def orig_preProcessEvent_def
        ProcessEvent_def handleLocked_def def_orig_Initial_def matchesHandler_def guard_passes_def takeTransition_def Let_def
        entryActions_def exitActions_def def_orig_Idle_def o_action_CalculateCoordinatorPriorities_def
        o_calculateCoordinatorPriorities_def resetFailoverIndex_def action_ResetToTopPriorityCoordinator_def) blast
  then obtain p where "o_coordinatorPriorityList ?s = rotate p [''node0'', ''node1'', ''node2'']"
    using ComputeCoordinatorPriorityList_rotate by metis
  then have "length (o_coordinatorPriorityList ?s) = 3" "''node2'' \<in> set (o_coordinatorPriorityList ?s)" by simp_all
  moreover have "orig_reachable ?s"
    unfolding endorserOriginator_def by (rule runOrig_reachable) (rule orig_reachable.start)
  ultimately show ?thesis using failover_tries_every_candidate [of ?s "''node2''"] by fastforce
qed

section \<open>Delegation requests\<close>

text \<open>The states in which a delegation to another coordinator is taken up.\<close>

definition followsDelegation :: "OriginatorTransactionState \<Rightarrow> bool" where
  "followsDelegation st \<longleftrightarrow> st \<notin> {OriginatorTransactionState_Initial, OriginatorTransactionState_Resolving,
     OriginatorTransactionState_Confirmed, OriginatorTransactionState_Reverted, OriginatorTransactionState_Final}"

definition sending :: "originatorNode \<Rightarrow> environment \<times> nat \<times> (string \<times> OriginatorMessage) list \<times> string \<times> int" where
  "sending s = (o_env s, o_sendsTried s, o_outbox s, o_currentActiveCoordinator s, o_currentBlockHeight s)"

lemma sending_simps [simp]:
  "sending (updOTxn t f s) = sending s" "sending (o_queueEventInternal ev s) = sending s"
  "sending (cancelAssembly r s) = sending s" "sending (cancelSign r' s) = sending s"
  by (simp_all add: sending_def updOTxn_def o_queueEventInternal_def cancelAssembly_def cancelSign_def split: option.split)

lemma go_get_same [simp]:
  "o_transactionsByID (o_queueEventInternal ev s) = o_transactionsByID s"
  "o_transactionsByID (cancelAssembly r s) = o_transactionsByID s"
  "o_transactionsByID (cancelSign r' s) = o_transactionsByID s"
  by (simp_all add: o_queueEventInternal_def cancelAssembly_def cancelSign_def split: option.split)

lemma eventsInternal_simps:
  "o_eventsInternal (updOTxn t f s) = o_eventsInternal s" "o_eventsInternal (cancelAssembly r s) = o_eventsInternal s"
  "o_eventsInternal (cancelSign r' s) = o_eventsInternal s"
  "o_eventsInternal (o_queueEventInternal ev s) = o_eventsInternal s @ [ev]"
  by (simp_all add: updOTxn_def cancelAssembly_def cancelSign_def o_queueEventInternal_def split: option.split)

lemma Delegated_handled:
  assumes "go_get (o_transactionsByID s) t = Some x" and "c \<noteq> []"
  shows "\<exists>s' y. handleLocked (otMachine t) (OTDelegatedEvent c) s = Ok s' \<and> sending s' = sending s
     \<and> go_get (o_transactionsByID s') t = Some y \<and> delegationEntry y = delegationEntry x
     \<and> (followsDelegation (ot_currentState x) \<longrightarrow> ot_currentDelegate y = c)
     \<and> length (o_eventsInternal s') \<ge> length (o_eventsInternal s) + (if ot_currentState x = OriginatorTransactionState_Pending then 1 else 0)"
  using assms
  by (cases "ot_currentState x"; cases "ot_currentDelegate x = c")
     (auto simp: handleLocked_def otTable otxn_def go_get_updOTxn matchesHandler_def ValidatorNot_def
       validator_CoordinatorIsCurrentDelegate_def guard_passes_def action_Delegated_def updateLastDelegatedTime_def
       action_ResetDelegationState_def takeTransition_def Let_def entryActions_def exitActions_def
       ot_onTransition_def action_CancelCurrentAssembly_def action_CancelCurrentSign_def
       delegationEntry_def followsDelegation_def eventsInternal_simps)


lemma Delegated_ok:
  assumes "go_get (o_transactionsByID s) t = Some x" and "\<not> ot_locked x" and "c \<noteq> []"
  obtains s' y where "ot_HandleEvent t (OTDelegatedEvent c) s = Ok s'" "sending s' = sending s" "beyond t s s'"
    "go_get (o_transactionsByID s') t = Some y" "delegationEntry y = delegationEntry x"
    "followsDelegation (ot_currentState x) \<longrightarrow> ot_currentDelegate y = c"
    "length (o_eventsInternal s') \<ge> length (o_eventsInternal s) + (if ot_currentState x = OriginatorTransactionState_Pending then 1 else 0)"
proof -
  let ?s = "updOTxn t (\<lambda>x. x\<lparr>ot_locked := True\<rparr>) s"
  have "go_get (o_transactionsByID ?s) t = Some (x\<lparr>ot_locked := True\<rparr>)" using assms(1) by (simp add: go_get_updOTxn)
  from Delegated_handled [OF this assms(3)] obtain s1 y where s1: "handleLocked (otMachine t) (OTDelegatedEvent c) ?s = Ok s1"
    "sending s1 = sending s" "go_get (o_transactionsByID s1) t = Some y" "delegationEntry y = delegationEntry x"
    "followsDelegation (ot_currentState x) \<longrightarrow> ot_currentDelegate y = c"
    "length (o_eventsInternal s1) \<ge> length (o_eventsInternal s) + (if ot_currentState x = OriginatorTransactionState_Pending then 1 else 0)"
    by (auto simp: delegationEntry_def eventsInternal_simps)
  let ?s' = "updOTxn t (\<lambda>x. x\<lparr>ot_locked := False\<rparr>) s1"
  have "ot_HandleEvent t (OTDelegatedEvent c) s = Ok ?s'"
    using s1(1) assms(1,2) by (simp add: ot_HandleEvent_def ProcessEvent_def otxn_def)
  moreover from this have "beyond t s ?s'" using HandleEvent_beyond [of t s "OTDelegatedEvent c"] by simp
  moreover have "go_get (o_transactionsByID ?s') t = Some (y\<lparr>ot_locked := False\<rparr>)" using s1(3) by (simp add: go_get_updOTxn)
  ultimately show thesis using that [of ?s' "y\<lparr>ot_locked := False\<rparr>"] s1
    by (simp add: delegationEntry_def eventsInternal_simps)
qed

text \<open>The transactions a delegation request is for: in the order of creation, up to the first that is not resolved.\<close>

definition delegable :: "bool \<Rightarrow> uuid list \<Rightarrow> originatorNode \<Rightarrow> uuid list" where
  "delegable full ts s =
     filter (\<lambda>t. full \<or> ot_currentState (otxn t s) \<in> {OriginatorTransactionState_Pending, OriginatorTransactionState_Delegated})
       (takeWhile (\<lambda>t. ot_currentState (otxn t s) \<notin> {OriginatorTransactionState_Initial, OriginatorTransactionState_Resolving}) ts)"

lemma takeWhile_filter_cong:
  "(\<And>t. t \<in> set ts \<Longrightarrow> P t = P' t \<and> Q t = Q' t) \<Longrightarrow> filter Q (takeWhile P ts) = filter Q' (takeWhile P' ts)"
  by (induction ts) auto

lemma delegable_cong:
  "(\<And>t. t \<in> set ts \<Longrightarrow> ot_currentState (otxn t s) = ot_currentState (otxn t s')) \<Longrightarrow> delegable full ts s = delegable full ts s'"
  unfolding delegable_def by (rule takeWhile_filter_cong) simp

text \<open>What the loop has done when it ends: nothing is sent, the transactions it took follow the active
  coordinator, and every one of them that was pending has queued an event.\<close>

definition pendingOf :: "uuid list \<Rightarrow> originatorNode \<Rightarrow> uuid list" where
  "pendingOf ts s = filter (\<lambda>t. ot_currentState (otxn t s) = OriginatorTransactionState_Pending) ts"

definition delegatedAll :: "bool \<Rightarrow> uuid list \<Rightarrow> originatorNode \<Rightarrow> originatorNode \<Rightarrow> bool" where
  "delegatedAll full ts s s' \<longleftrightarrow> sending s' = sending s
    \<and> (\<forall>u. map_option delegationEntry (go_get (o_transactionsByID s') u) = map_option delegationEntry (go_get (o_transactionsByID s) u))
    \<and> (\<forall>u. u \<notin> set ts \<longrightarrow> go_get (o_transactionsByID s') u = go_get (o_transactionsByID s) u)
    \<and> (\<forall>u \<in> set (delegable full ts s). followsDelegation (ot_currentState (otxn u s)) \<longrightarrow>
          ot_currentDelegate (otxn u s') = o_currentActiveCoordinator s)
    \<and> length (o_eventsInternal s') \<ge> length (o_eventsInternal s) + length (pendingOf (delegable full ts s) s)"

lemma delegatedAll_Cons:
  assumes t: "go_get (o_transactionsByID s) t = Some x" "go_get (o_transactionsByID s1) t = Some y" "t \<notin> set ts"
    and y: "delegationEntry y = delegationEntry x" "followsDelegation (ot_currentState x) \<longrightarrow> ot_currentDelegate y = o_currentActiveCoordinator s"
    and e: "length (o_eventsInternal s1) \<ge> length (o_eventsInternal s) + (if ot_currentState x = OriginatorTransactionState_Pending then 1 else 0)"
    and s1: "beyond t s s1" "sending s1 = sending s" and s': "delegatedAll full ts s1 s'"
    and d: "delegable full (t # ts) s = t # delegable full ts s"
  shows "delegable full (t # ts) s = t # delegable full ts s1 \<and> delegatedAll full (t # ts) s s'"
proof -
  have others: "go_get (o_transactionsByID s1) u = go_get (o_transactionsByID s) u" if "u \<noteq> t" for u
    using s1(1) that by (simp add: beyond_def)
  have same: "ot_currentState (otxn u s1) = ot_currentState (otxn u s)" if "u \<in> set ts" for u
    using that t(3) others [of u] by (cases "u = t") (simp_all add: otxn_def)
  have d1: "delegable full ts s = delegable full ts s1" using delegable_cong [of ts s s1 full] same by simp
  have sub: "set (delegable full ts s1) \<subseteq> set ts" by (auto simp: delegable_def dest: set_takeWhileD)
  have last: "otxn t s' = y" "otxn t s = x" using s' t by (simp_all add: delegatedAll_def otxn_def)
  have "ot_currentDelegate (otxn u s') = o_currentActiveCoordinator s"
    if "u \<in> set (t # delegable full ts s1)" "followsDelegation (ot_currentState (otxn u s))" for u
  proof (cases "u = t")
    case True
    then show ?thesis using that(2) y(2) last by simp
  next
    case False
    then show ?thesis using that s' s1(2) same [of u] sub by (auto simp: delegatedAll_def sending_def)
  qed
  moreover have "map_option delegationEntry (go_get (o_transactionsByID s') u)
      = map_option delegationEntry (go_get (o_transactionsByID s) u)" for u
    using s' others [of u] t y(1) by (cases "u = t") (auto simp: delegatedAll_def)
  moreover have "pendingOf (delegable full ts s1) s1 = pendingOf (delegable full ts s1) s"
    unfolding pendingOf_def by (rule filter_cong) (use same sub in auto)
  then have "length (o_eventsInternal s') \<ge> length (o_eventsInternal s) + length (pendingOf (t # delegable full ts s1) s)"
    using s' e last(2) by (auto simp: delegatedAll_def pendingOf_def)
  ultimately show ?thesis using s' s1(2) others d d1 by (simp add: delegatedAll_def)
qed

lemma delegationScan_result:
  assumes "orig_settled v s" and "set ts \<subseteq> set (go_keys (o_transactionsByID s))" and "distinct ts"
    and "o_currentActiveCoordinator s \<noteq> []"
  shows "\<exists>s'. delegationScan full ts s = (delegable full ts s, Ok s') \<and> delegatedAll full ts s s'"
  using assms
proof (induction ts arbitrary: s)
  case Nil
  then show ?case by (simp add: delegable_def delegatedAll_def pendingOf_def)
next
  case (Cons t ts)
  let ?c = "o_currentActiveCoordinator s" and ?st = "ot_currentState (otxn t s)"
  let ?unresolved = "?st \<in> {OriginatorTransactionState_Initial, OriginatorTransactionState_Resolving}"
  let ?due = "full \<or> ?st \<in> {OriginatorTransactionState_Pending, OriginatorTransactionState_Delegated}"
  obtain x where x: "go_get (o_transactionsByID s) t = Some x"
    using Cons.prems(2) by (auto simp: map_of_eq_None_iff dest: weak_map_of_SomeI)
  then have free: "\<not> ot_locked x" using Cons.prems(1) by (auto simp: orig_settled_def orig_core_def)
  consider "?unresolved" | "\<not> ?unresolved" "\<not> ?due" | "\<not> ?unresolved" "?due" by blast
  then show ?case
  proof cases
    case 1
    then show ?thesis by (auto simp: delegable_def delegatedAll_def pendingOf_def Let_def)
  next
    case 2
    then have "delegationScan full (t # ts) s = delegationScan full ts s" "delegable full (t # ts) s = delegable full ts s"
      by (auto simp: delegable_def Let_def)
    then show ?thesis
      using Cons.IH [OF Cons.prems(1) _ _ Cons.prems(4)] Cons.prems(2,3) by (auto simp: delegatedAll_def)
  next
    case 3
    obtain s1 y where s1: "ot_HandleEvent t (OTDelegatedEvent ?c) s = Ok s1" "sending s1 = sending s" "beyond t s s1"
      "go_get (o_transactionsByID s1) t = Some y" "delegationEntry y = delegationEntry x"
      "followsDelegation (ot_currentState x) \<longrightarrow> ot_currentDelegate y = ?c"
      "length (o_eventsInternal s1) \<ge> length (o_eventsInternal s) + (if ot_currentState x = OriginatorTransactionState_Pending then 1 else 0)"
      by (rule Delegated_ok [OF x free Cons.prems(4)])
    have "orig_settled v s1" using HandleEvent_settled [OF Cons.prems(1), of t "OTDelegatedEvent ?c"] s1(1) by simp
    moreover have "set ts \<subseteq> set (go_keys (o_transactionsByID s1))" using s1(3) Cons.prems(2) by (simp add: beyond_def)
    moreover have "o_currentActiveCoordinator s1 = ?c" using s1(2) by (simp add: sending_def)
    ultimately obtain s' where s': "delegationScan full ts s1 = (delegable full ts s1, Ok s')" "delegatedAll full ts s1 s'"
      using Cons.IH [of s1] Cons.prems(3,4) by auto
    have "delegable full (t # ts) s = t # delegable full ts s" using 3 by (auto simp: delegable_def)
    from delegatedAll_Cons [OF x s1(4) _ s1(5,6,7,3,2) s'(2) this] Cons.prems(3)
    have "delegable full (t # ts) s = t # delegable full ts s1" "delegatedAll full (t # ts) s s'" by auto
    moreover have "delegationScan full (t # ts) s = (t # delegable full ts s1, Ok s')"
      using 3 s1(1) s'(1) by (auto simp: Let_def)
    ultimately show ?thesis by simp
  qed
qed

text \<open>C13. A delegation request that can be sent goes to the active coordinator and lists, in the order of their
  creation, the transactions before the first that is not resolved yet: all of them in a full request,
  those that wait for delegation or for their coordinator in a partial one. Every listed
  transaction that has not ended is then delegated to that coordinator.\<close>

theorem delegation_request_in_creation_order:
  assumes "orig_reachable s" and "o_currentActiveCoordinator s \<noteq> []" and "\<not> env_sendFails (o_env s) (o_sendsTried s)"
  shows "\<exists>s'. sendDelegationRequest full s = Ok s'
    \<and> (let listed = delegable full (o_transactionsOrdered s) s in
       o_outbox s' = o_outbox s @ (if listed = [] then []
          else [(o_currentActiveCoordinator s, DelegationRequest (o_currentActiveCoordinator s) (o_currentBlockHeight s)
                   (map (\<lambda>t. delegationEntry (otxn t s)) listed))])
       \<and> (\<forall>t \<in> set listed. followsDelegation (ot_currentState (otxn t s)) \<longrightarrow>
            ot_currentDelegate (otxn t s') = o_currentActiveCoordinator s))"
proof -
  let ?ts = "delegable full (o_transactionsOrdered s) s"
  have ok: "orig_ok s" using orig_reachable_ok [OF assms(1)] by simp
  then have keys: "set (o_transactionsOrdered s) = set (go_keys (o_transactionsByID s))" "distinct (o_transactionsOrdered s)"
    by (auto simp: orig_settled_def orig_core_def)
  from delegationScan_result [OF ok _ keys(2) assms(2)] keys(1)
  obtain s1 where s1: "delegationScan full (o_transactionsOrdered s) s = (?ts, Ok s1)"
    "delegatedAll full (o_transactionsOrdered s) s s1" by blast
  have "delegationEntry (otxn t s1) = delegationEntry (otxn t s)" if "t \<in> set ?ts" for t
  proof -
    have "t \<in> set (go_keys (o_transactionsByID s))" using that keys(1) by (auto simp: delegable_def dest: set_takeWhileD)
    then obtain x where x: "go_get (o_transactionsByID s) t = Some x" by (metis map_of_eq_None_iff not_None_eq set_map)
    have "map_option delegationEntry (go_get (o_transactionsByID s1) t) = Some (delegationEntry x)"
      using s1(2) x by (simp add: delegatedAll_def)
    then show ?thesis using x by (auto simp: otxn_def)
  qed
  then have "map (\<lambda>t. delegationEntry (otxn t s1)) ?ts = map (\<lambda>t. delegationEntry (otxn t s)) ?ts" by simp
  then show ?thesis
    using s1 assms(2,3) by (auto simp: sendDelegationRequest_def delegatedAll_def sending_def o_send_def otxn_def)
qed


lemma delegation_request_in_creation_order_witness:
  "\<exists>s s'. orig_reachable s \<and> delegable False (o_transactionsOrdered s) s = [1, 2]
     \<and> sendDelegationRequest False s = Ok s' \<and> ot_currentDelegate (otxn 2 s') = ''node1''"
proof -
  let ?s = "runOrig [OriginatorCreatedEvent, createTx 1, createTx 2] (sampleOriginator sampleEnv)"
  have h: "o_currentActiveCoordinator ?s = ''node1''" "\<not> env_sendFails (o_env ?s) (o_sendsTried ?s)"
    "delegable False (o_transactionsOrdered ?s) ?s = [1, 2]" "followsDelegation (ot_currentState (otxn 2 ?s))"
    by code_simp+
  moreover have "orig_reachable ?s" by (rule sampleOriginator_reachable)
  ultimately show ?thesis
    using delegation_request_in_creation_order [of ?s False] by (auto simp: Let_def)
qed

end
