(* ===== verification/OriginatorFindings.thy ===== *)
theory OriginatorFindings
  imports OriginatorProperties
begin

text \<open>
  Where the originator does not do what it means to: answers of an assembly that was given up, an answer that
  cannot be sent, and a repeated request after an assembly that failed.
\<close>

section \<open>Answers of an assembly that was given up\<close>

text \<open>Only a successful answer is compared with the request under way. While the transaction assembles for
  one request, the revert of any other request, say of an assembly that was cancelled when the transaction
  was delegated anew, ends the transaction and is sent as the answer to that other request.\<close>

theorem stale_revert_ends_transaction:
  assumes "go_get (o_transactionsByID s) t = Some x" and "\<not> ot_locked x"
    and "ot_currentState x = OriginatorTransactionState_Assembling" and "ot_currentDelegate x \<noteq> []"
    and "\<not> env_sendFails (o_env s) (o_sendsTried s)"
  shows "\<exists>s'. ot_HandleEvent t (OTAssembleRevertEvent pa other) s = Ok s'
     \<and> ot_currentState (otxn t s') = OriginatorTransactionState_Reverted
     \<and> last (o_outbox s') = (ot_currentDelegate x, AssembleResponseMsg t other (AssembleResponse pa))"
  using assms
  by (auto simp: ot_HandleEvent_def ProcessEvent_def handleLocked_def otTable otxn_def go_get_updOTxn matchesHandler_def
      guard_passes_def o_action_AssembleRevert_def fulfilled_def takeTransition_def Let_def entryActions_def exitActions_def
      action_SendAssembleRevertResponse_def sendAssembleResponse_def o_send_def updOTxn_def ot_onTransition_def
      action_CancelCurrentAssembly_def cancelAssembly_def action_QueueFinalizeEvent_def o_queueEventInternal_def
      map_of_map_entry split: option.split)


definition revertAnswer :: PostAssembly where
  "revertAnswer = \<lparr>AssembleResponse = \<lparr>pa_AssemblyResult = ASSEMBLE_REVERT, pa_OutputStatesPotential = [],
     pa_InputStates = [], pa_ReadStates = [], pa_AttestationPlan = [], pa_Signatures = [], pa_Endorsements = [],
     pa_RevertReason = Some ''no funds'', pa_ResolvedVerifiers = []\<rparr>, OutputStates = [], OutputStatesWithLabels = [], InfoStates = [], CollectedEndorsements = []\<rparr>"

definition assemblingRun :: "OriginatorEvent list" where
  "assemblingRun = [OriginatorCreatedEvent, createTx 1, DelegateSendBatchEvent True,
     OTxEvent 1 (OTAssembleRequestReceivedEvent (assembleFor 7 ''node1''))]"

lemma assembling_sample:
  obtains x where "go_get (o_transactionsByID (runOrig assemblingRun (sampleOriginator sampleEnv))) 1 = Some x"
    "\<not> ot_locked x" "ot_currentState x = OriginatorTransactionState_Assembling" "ot_currentDelegate x = ''node1''"
proof -
  have "map_option (\<lambda>x. (ot_locked x, ot_currentState x, ot_currentDelegate x))
      (go_get (o_transactionsByID (runOrig assemblingRun (sampleOriginator sampleEnv))) 1)
    = Some (False, OriginatorTransactionState_Assembling, ''node1'')" by code_simp
  then show thesis using that by auto
qed

lemma stale_revert_ends_transaction_witness:
  "\<exists>s s'. orig_reachable s \<and> ot_HandleEvent 1 (OTAssembleRevertEvent revertAnswer 6) s = Ok s'
     \<and> ot_currentState (otxn 1 s') = OriginatorTransactionState_Reverted"
proof -
  let ?s = "runOrig assemblingRun (sampleOriginator sampleEnv)"
  obtain x where x: "go_get (o_transactionsByID ?s) 1 = Some x" "\<not> ot_locked x"
    "ot_currentState x = OriginatorTransactionState_Assembling" "ot_currentDelegate x = ''node1''" by (rule assembling_sample)
  have "\<not> env_sendFails (o_env ?s) (o_sendsTried ?s)" by code_simp
  with stale_revert_ends_transaction [OF x(1-3), of revertAnswer 6] x(4) sampleOriginator_reachable show ?thesis by auto
qed

section \<open>An answer that cannot be sent\<close>



section \<open>A repeated request after a failed assembly\<close>

text \<open>A failed assembly is recorded as the last request answered, though there is no assembly to answer with.
  If the coordinator repeats that request and the repetition is delivered twice, the second one is taken
  for a request already answered, and the code that builds the answer dereferences the assembly that is
  not there: the originator panics.\<close>

theorem duplicate_request_after_error_panics:
  "\<exists>s. orig_reachable s \<and> o_outbox s = [(''node1'', DelegationRequest ''node1'' 0 [delegationEntry (otxn 1 s)]),
       (''node1'', AssembleErrorMsg 1 7)]
     \<and> orig_processEvent (OTxEvent 1 (OTAssembleRequestReceivedEvent (assembleFor 7 ''node1''))) s = Stuck"
proof -
  let ?request = "OTxEvent 1 (OTAssembleRequestReceivedEvent (assembleFor 7 ''node1''))"
  let ?s = "runOrig (assemblingRun @ [OTxEvent 1 (OTAssembleErrorEvent 7), ?request]) (sampleOriginator sampleEnv)"
  have out: "o_outbox ?s = [(''node1'', DelegationRequest ''node1'' 0 [delegationEntry (otxn 1 ?s)]),
       (''node1'', AssembleErrorMsg 1 7)]" by code_simp
  have "case orig_processEvent ?request ?s of Stuck \<Rightarrow> True | _ \<Rightarrow> False" by code_simp
  then have "orig_processEvent ?request ?s = Stuck" by (cases "orig_processEvent ?request ?s") simp_all
  with out sampleOriginator_reachable show ?thesis by blast
qed

end
