(* ===== verification/EventLoop.thy ===== *)
theory EventLoop
  imports StateMachine "HOL-Library.Sublist"
begin

text \<open>
  The event loop of \<^verbatim>\<open>sequencer/statemachine\<close>: two bounded queues, the operations that put events on them, and
  the goroutine that takes them off and hands them to the machine. The priority queue is drained before an
  event of the other queue is taken.

  \<open>process ev w\<close> is \<^verbatim>\<open>processEvent\<close> on an entity in state \<open>w\<close>: the new state and the events that the handling
  puts on the priority queue of the same loop, or \<open>None\<close> if it does not return. The error it may return
  is only logged. The loop queues those events one by one from its own goroutine, while it is not reading
  from the queues.

  Other goroutines queue events at any time; where the code selects between several channels that are
  ready, each of them may be chosen. A labelled step relation gives all interleavings.
\<close>

section \<open>The loop\<close>

text \<open>A sync event carries the channel it closes, here a number.\<close>

datatype 'ev loopEvent = MachineEvent 'ev | SyncEvent nat

text \<open>
  Where the goroutine is: in the inner loop over the priority queue, at the select over both queues, queueing
  the events of a handler, stopped, or dead after a call that did not return.
\<close>

datatype 'ev loopPhase = Draining | Selecting | Posting "'ev list" | LoopStopped | LoopDead

record ('ev, 'w) StateMachineEventLoop =
  el_entity :: 'w
  el_events :: "'ev loopEvent list"
  el_eventsPriority :: "'ev loopEvent list"
  el_EventQueueSize :: nat
  el_PriorityEventQueueSize :: nat
  el_phase :: "'ev loopPhase"
  el_closed :: "nat list"
  el_cancelled :: bool

type_synonym ('ev, 'w) processEvent = "'ev \<Rightarrow> 'w \<Rightarrow> ('w \<times> 'ev list) option"

definition NewStateMachineEventLoop :: "'w \<Rightarrow> nat \<Rightarrow> nat \<Rightarrow> ('ev, 'w) StateMachineEventLoop" where
  "NewStateMachineEventLoop w queueSize prioritySize =
     \<lparr>el_entity = w, el_events = [], el_eventsPriority = [], el_EventQueueSize = queueSize,
      el_PriorityEventQueueSize = prioritySize, el_phase = Draining, el_closed = [], el_cancelled = False\<rparr>"

section \<open>Queueing\<close>

text \<open>
  A send on a channel needs room in its buffer. \<open>None\<close>: the call waits. With a context that is cancelled it
  returns without queueing when there is no room.
\<close>

definition QueueEvent :: "'ev loopEvent \<Rightarrow> ('ev, 'w) StateMachineEventLoop \<Rightarrow> ('ev, 'w) StateMachineEventLoop option" where
  "QueueEvent e l =
     (if length (el_events l) < el_EventQueueSize l then Some (l\<lparr>el_events := el_events l @ [e]\<rparr>)
      else if el_cancelled l then Some l else None)"

definition TryQueueEvent :: "'ev loopEvent \<Rightarrow> ('ev, 'w) StateMachineEventLoop \<Rightarrow> bool \<times> ('ev, 'w) StateMachineEventLoop" where
  "TryQueueEvent e l =
     (if length (el_events l) < el_EventQueueSize l then (True, l\<lparr>el_events := el_events l @ [e]\<rparr>) else (False, l))"

definition QueuePriorityEvent ::
  "'ev loopEvent \<Rightarrow> ('ev, 'w) StateMachineEventLoop \<Rightarrow> ('ev, 'w) StateMachineEventLoop option" where
  "QueuePriorityEvent e l =
     (if length (el_eventsPriority l) < el_PriorityEventQueueSize l
      then Some (l\<lparr>el_eventsPriority := el_eventsPriority l @ [e]\<rparr>)
      else if el_cancelled l then Some l else None)"

definition TryQueuePriorityEvent ::
  "'ev loopEvent \<Rightarrow> ('ev, 'w) StateMachineEventLoop \<Rightarrow> bool \<times> ('ev, 'w) StateMachineEventLoop" where
  "TryQueuePriorityEvent e l =
     (if length (el_eventsPriority l) < el_PriorityEventQueueSize l
      then (True, l\<lparr>el_eventsPriority := el_eventsPriority l @ [e]\<rparr>) else (False, l))"

section \<open>The goroutine\<close>

text \<open>Running one event that was taken off a queue. Closing a channel twice is a panic.\<close>

definition runEvent :: "('ev, 'w) processEvent \<Rightarrow> 'ev loopEvent \<Rightarrow> ('ev, 'w) StateMachineEventLoop
    \<Rightarrow> ('ev, 'w) StateMachineEventLoop" where
  "runEvent process e l =
     (case e of
        SyncEvent done \<Rightarrow>
          if done \<in> set (el_closed l) then l\<lparr>el_phase := LoopDead\<rparr>
          else l\<lparr>el_closed := done # el_closed l, el_phase := Draining\<rparr>
      | MachineEvent ev \<Rightarrow>
          (case process ev (el_entity l) of
             None \<Rightarrow> l\<lparr>el_phase := LoopDead\<rparr>
           | Some (w, posts) \<Rightarrow> l\<lparr>el_entity := w, el_phase := Posting posts\<rparr>))"

datatype 'ev loopLabel = Queued bool "'ev loopEvent" | Handled bool "'ev loopEvent" | Internal | Cancelled

inductive loop_step :: "('ev, 'w) processEvent \<Rightarrow> ('ev, 'w) StateMachineEventLoop \<Rightarrow> 'ev loopLabel
    \<Rightarrow> ('ev, 'w) StateMachineEventLoop \<Rightarrow> bool" for process where
  drain: "el_phase l = Draining \<Longrightarrow> el_eventsPriority l = e # es \<Longrightarrow>
    loop_step process l (Handled True e) (runEvent process e (l\<lparr>el_eventsPriority := es\<rparr>))"
| drained: "el_phase l = Draining \<Longrightarrow> el_eventsPriority l = [] \<Longrightarrow>
    loop_step process l Internal (l\<lparr>el_phase := Selecting\<rparr>)"
| select_priority: "el_phase l = Selecting \<Longrightarrow> el_eventsPriority l = e # es \<Longrightarrow>
    loop_step process l (Handled True e) (runEvent process e (l\<lparr>el_eventsPriority := es\<rparr>))"
| select_event: "el_phase l = Selecting \<Longrightarrow> el_events l = e # es \<Longrightarrow>
    loop_step process l (Handled False e) (runEvent process e (l\<lparr>el_events := es\<rparr>))"
| select_done: "el_phase l = Selecting \<Longrightarrow> el_cancelled l \<Longrightarrow>
    loop_step process l Internal (l\<lparr>el_phase := LoopStopped\<rparr>)"
| post: "el_phase l = Posting (ev # evs) \<Longrightarrow> length (el_eventsPriority l) < el_PriorityEventQueueSize l \<Longrightarrow>
    loop_step process l (Queued True (MachineEvent ev))
      (l\<lparr>el_eventsPriority := el_eventsPriority l @ [MachineEvent ev], el_phase := Posting evs\<rparr>)"
| post_dropped: "el_phase l = Posting (ev # evs) \<Longrightarrow> el_cancelled l \<Longrightarrow>
    loop_step process l Internal (l\<lparr>el_phase := Posting evs\<rparr>)"
| posted: "el_phase l = Posting [] \<Longrightarrow> loop_step process l Internal (l\<lparr>el_phase := Draining\<rparr>)"
| queue_event: "length (el_events l) < el_EventQueueSize l \<Longrightarrow>
    loop_step process l (Queued False e) (l\<lparr>el_events := el_events l @ [e]\<rparr>)"
| queue_priority: "length (el_eventsPriority l) < el_PriorityEventQueueSize l \<Longrightarrow>
    loop_step process l (Queued True e) (l\<lparr>el_eventsPriority := el_eventsPriority l @ [e]\<rparr>)"
| cancel: "loop_step process l Cancelled (l\<lparr>el_cancelled := True\<rparr>)"

inductive loop_run :: "('ev, 'w) processEvent \<Rightarrow> ('ev, 'w) StateMachineEventLoop \<Rightarrow> 'ev loopLabel list
    \<Rightarrow> ('ev, 'w) StateMachineEventLoop \<Rightarrow> bool" for process where
  run_nil: "loop_run process l [] l"
| run_snoc: "loop_run process l tr l1 \<Longrightarrow> loop_step process l1 a l2 \<Longrightarrow> loop_run process l (tr @ [a]) l2"

inductive_cases loop_stepE: "loop_step process l a l'"

text \<open>The events queued on and handled from one of the queues, in order.\<close>

fun queuedOn :: "bool \<Rightarrow> 'ev loopLabel list \<Rightarrow> 'ev loopEvent list" where
  "queuedOn q [] = []"
| "queuedOn q (Queued b e # tr) = (if b = q then e # queuedOn q tr else queuedOn q tr)"
| "queuedOn q (_ # tr) = queuedOn q tr"

fun handledFrom :: "bool \<Rightarrow> 'ev loopLabel list \<Rightarrow> 'ev loopEvent list" where
  "handledFrom q [] = []"
| "handledFrom q (Handled b e # tr) = (if b = q then e # handledFrom q tr else handledFrom q tr)"
| "handledFrom q (_ # tr) = handledFrom q tr"

definition IsStopped :: "('ev, 'w) StateMachineEventLoop \<Rightarrow> bool" where
  "IsStopped l \<longleftrightarrow> el_phase l = LoopStopped"

lemma queuedOn_append [simp]: "queuedOn q (tr @ tr') = queuedOn q tr @ queuedOn q tr'"
  by (induction q tr rule: queuedOn.induct) auto

lemma handledFrom_append [simp]: "handledFrom q (tr @ tr') = handledFrom q tr @ handledFrom q tr'"
  by (induction q tr rule: handledFrom.induct) auto

lemma runEvent_fields [simp]:
  "el_events (runEvent process e l) = el_events l" "el_eventsPriority (runEvent process e l) = el_eventsPriority l"
  "el_EventQueueSize (runEvent process e l) = el_EventQueueSize l"
  "el_PriorityEventQueueSize (runEvent process e l) = el_PriorityEventQueueSize l"
  "el_cancelled (runEvent process e l) = el_cancelled l"
  "el_phase (runEvent process e l) \<noteq> Selecting"
  by (auto simp: runEvent_def split: loopEvent.split option.split)

text \<open>What the calls of other goroutines do is a step of the relation, or nothing.\<close>

lemma queueing_is_step:
  "QueueEvent e l = Some l' \<Longrightarrow> l' = l \<or> loop_step process l (Queued False e) l'"
  "TryQueueEvent e l = (b, l') \<Longrightarrow> l' = l \<or> loop_step process l (Queued False e) l'"
  "QueuePriorityEvent e l = Some l' \<Longrightarrow> l' = l \<or> loop_step process l (Queued True e) l'"
  "TryQueuePriorityEvent e l = (b, l') \<Longrightarrow> l' = l \<or> loop_step process l (Queued True e) l'"
  by (auto simp: QueueEvent_def TryQueueEvent_def QueuePriorityEvent_def TryQueuePriorityEvent_def
      split: if_splits intro: loop_step.intros)

section \<open>Order and bounds\<close>

definition loop_accounts :: "('ev, 'w) StateMachineEventLoop \<Rightarrow> 'ev loopLabel list \<Rightarrow> ('ev, 'w) StateMachineEventLoop \<Rightarrow> bool" where
  "loop_accounts l tr l' \<longleftrightarrow>
     el_eventsPriority l @ queuedOn True tr = handledFrom True tr @ el_eventsPriority l'
     \<and> el_events l @ queuedOn False tr = handledFrom False tr @ el_events l'"

lemma loop_step_accounts: "loop_step process l a l' \<Longrightarrow> loop_accounts l [a] l'"
  by (induction rule: loop_step.induct) (auto simp: loop_accounts_def)

lemma loop_run_accounts: "loop_run process l tr l' \<Longrightarrow> loop_accounts l tr l'"
proof (induction rule: loop_run.induct)
  case (run_snoc l tr l1 a l2)
  then show ?case using loop_step_accounts [OF run_snoc(2)] by (simp add: loop_accounts_def) (metis append_assoc)
qed (simp add: loop_accounts_def)

definition loop_bounded :: "('ev, 'w) StateMachineEventLoop \<Rightarrow> bool" where
  "loop_bounded l \<longleftrightarrow> length (el_events l) \<le> el_EventQueueSize l
     \<and> length (el_eventsPriority l) \<le> el_PriorityEventQueueSize l"

lemma loop_step_bounded: "loop_step process l a l' \<Longrightarrow> loop_bounded l \<Longrightarrow> loop_bounded l'"
  by (induction rule: loop_step.induct) (auto simp: loop_bounded_def)

lemma loop_run_bounded: "loop_run process l tr l' \<Longrightarrow> loop_bounded l \<Longrightarrow> loop_bounded l'"
  by (induction rule: loop_run.induct) (auto dest: loop_step_bounded)



text \<open>A loop that handles one event of each queue.\<close>

definition countEvents :: "(nat, nat) processEvent" where
  "countEvents ev w = Some (w + ev, [])"


text \<open>
  The goroutine is at its select only after it has seen the priority queue empty: what was queued there
  before has been handled.
\<close>

lemma drained_before_select:
  assumes "loop_run process l tr l'" and "el_phase l \<noteq> Selecting" and "el_phase l' = Selecting"
  shows "prefix (el_eventsPriority l) (handledFrom True tr)"
  using assms
proof (induction rule: loop_run.induct)
  case (run_snoc l tr l1 a l2)
  from run_snoc(2) show ?case
  proof cases
    case drained
    then have "handledFrom True tr = el_eventsPriority l @ queuedOn True tr"
      using loop_run_accounts [OF run_snoc(1)] by (simp add: loop_accounts_def)
    then show ?thesis using drained by (simp add: prefix_def)
  qed (use run_snoc in auto)
qed simp

text \<open>Priority events go first: when the goroutine takes an event off the main queue, every event that was on
  the priority queue at any earlier point where it was not at its select has been handled.\<close>

theorem priority_events_first:
  assumes "loop_run process l tr l1" and "el_phase l \<noteq> Selecting" and "loop_step process l1 (Handled False e) l2"
  shows "prefix (el_eventsPriority l) (handledFrom True tr)"
proof -
  from assms(3) have "el_phase l1 = Selecting" by cases auto
  with drained_before_select [OF assms(1,2)] show ?thesis .
qed

lemma priority_events_first_witness:
  "\<exists>tr l1 l2. loop_run countEvents
       ((NewStateMachineEventLoop 0 1 1)\<lparr>el_events := [MachineEvent 5], el_eventsPriority := [MachineEvent 3]\<rparr>) tr l1
     \<and> loop_step countEvents l1 (Handled False (MachineEvent 5)) l2 \<and> prefix [MachineEvent 3] (handledFrom True tr)"
proof -
  let ?e = "MachineEvent (3::nat)" and ?n = "MachineEvent (5::nat)"
  let ?l = "(NewStateMachineEventLoop (0::nat) 1 1)\<lparr>el_events := [?n], el_eventsPriority := [?e]\<rparr>"
  let ?l1 = "?l\<lparr>el_eventsPriority := [], el_entity := 3, el_phase := Posting []\<rparr>"
  have "loop_step countEvents ?l (Handled True ?e) ?l1"
    using drain [of ?l ?e "[]" countEvents] by (simp add: NewStateMachineEventLoop_def runEvent_def countEvents_def)
  then have "loop_run countEvents ?l ([] @ [Handled True ?e]) ?l1" by (rule run_snoc [OF run_nil])
  moreover have "loop_step countEvents ?l1 Internal (?l1\<lparr>el_phase := Draining\<rparr>)" by (rule posted) simp
  ultimately have "loop_run countEvents ?l (([] @ [Handled True ?e]) @ [Internal]) (?l1\<lparr>el_phase := Draining\<rparr>)" by (rule run_snoc)
  moreover have "loop_step countEvents (?l1\<lparr>el_phase := Draining\<rparr>) Internal (?l1\<lparr>el_phase := Selecting\<rparr>)"
    using drained [of "?l1\<lparr>el_phase := Draining\<rparr>" countEvents] by simp
  ultimately have run: "loop_run countEvents ?l ((([] @ [Handled True ?e]) @ [Internal]) @ [Internal]) (?l1\<lparr>el_phase := Selecting\<rparr>)"
    by (rule run_snoc)
  have "loop_step countEvents (?l1\<lparr>el_phase := Selecting\<rparr>) (Handled False ?n)
      (runEvent countEvents ?n ((?l1\<lparr>el_phase := Selecting\<rparr>)\<lparr>el_events := []\<rparr>))"
    by (rule select_event) (simp_all add: NewStateMachineEventLoop_def)
  with run priority_events_first [OF run _ this] show ?thesis
    by (fastforce simp: NewStateMachineEventLoop_def)
qed

section \<open>Queueing from the goroutine itself\<close>

text \<open>
  A goroutine that queues more events than its priority queue has room for waits for a reader, and it is
  the only reader: it handles no event again until the loop is stopped, whatever else happens.
\<close>

definition loop_overfull :: "('ev, 'w) StateMachineEventLoop \<Rightarrow> bool" where
  "loop_overfull l \<longleftrightarrow> (\<exists>evs. el_phase l = Posting evs
     \<and> el_PriorityEventQueueSize l < length (el_eventsPriority l) + length evs) \<and> \<not> el_cancelled l"

lemma loop_step_overfull:
  assumes "loop_step process l a l'" and "loop_overfull l" and "a \<noteq> Cancelled" and "loop_bounded l"
  shows "loop_overfull l' \<and> handledFrom q [a] = []"
  using assms by (cases rule: loop_step.cases) (auto simp: loop_overfull_def loop_bounded_def)

lemma loop_run_overfull:
  assumes "loop_run process l tr l'" and "loop_overfull l" and "Cancelled \<notin> set tr" and "loop_bounded l"
  shows "loop_overfull l' \<and> handledFrom q tr = []"
  using assms
proof (induction rule: loop_run.induct)
  case (run_snoc l tr l1 a l2)
  then show ?case using loop_step_overfull [OF run_snoc(2), of q] loop_run_bounded [OF run_snoc(1)] by auto
qed simp

end
