(* ===== verification/OriginatorLoop.thy ===== *)
theory OriginatorLoop
  imports OriginatorProperties EventLoop
begin

text \<open>
  The originator in its event loop. Its transactions queue their events on the priority queue of the loop that
  is handling them, one for every transition: a delegation of more pending transactions than the queue
  has room for blocks the loop for good.
\<close>

definition orig_process :: "(OriginatorEvent, originatorNode) processEvent" where
  "orig_process ev s =
     (case orig_processEvent ev (s\<lparr>o_eventsInternal := []\<rparr>) of
        Ok s' \<Rightarrow> Some (s'\<lparr>o_eventsInternal := []\<rparr>, o_eventsInternal s')
      | Fail e s' \<Rightarrow> Some (s'\<lparr>o_eventsInternal := []\<rparr>, o_eventsInternal s')
      | Stuck \<Rightarrow> None)"

lemma SendBatch_processed:
  assumes "o_state s = OriginatorState_Sending" and "\<not> o_locked s"
  shows "orig_processEvent (DelegateSendBatchEvent full) s
    = outcome_map (\<lambda>s. s\<lparr>o_locked := False\<rparr>) (sendDelegationRequest full (o_refreshBlockHeight (s\<lparr>o_locked := True\<rparr>)))"
  using assms
  by (cases "sendDelegationRequest full (o_refreshBlockHeight (s\<lparr>o_locked := True\<rparr>))")
     (simp_all add: orig_processEvent_def orig_preProcessEvent_def ProcessEvent_def handleLocked_def def_orig_Sending_def
       matchesHandler_def guard_passes_def action_SendDelegation_def)

lemma otxn_fields [simp]:
  "otxn t (s\<lparr>o_locked := b\<rparr>) = otxn t s" "otxn t (s\<lparr>o_eventsInternal := es\<rparr>) = otxn t s"
  "otxn t (o_refreshBlockHeight s) = otxn t s"
  by (simp_all add: otxn_def)

lemma delegable_fields [simp]:
  "delegable full ts (s\<lparr>o_locked := b\<rparr>) = delegable full ts s"
  "delegable full ts (s\<lparr>o_eventsInternal := es\<rparr>) = delegable full ts s"
  "delegable full ts (o_refreshBlockHeight s) = delegable full ts s" "pendingOf ts (o_refreshBlockHeight s) = pendingOf ts s"
  "pendingOf ts (s\<lparr>o_locked := b\<rparr>) = pendingOf ts s" "pendingOf ts (s\<lparr>o_eventsInternal := es\<rparr>) = pendingOf ts s"
  by (simp_all add: delegable_def pendingOf_def)

text \<open>Every pending transaction of a delegation queues an event, whether or not the request can be sent.\<close>

lemma sendDelegation_posts:
  assumes "orig_settled v s" and "o_currentActiveCoordinator s \<noteq> []"
  obtains s' where "sendDelegationRequest full s = Ok s' \<or> (\<exists>e. sendDelegationRequest full s = Fail e s')"
    "length (o_eventsInternal s') \<ge> length (pendingOf (delegable full (o_transactionsOrdered s) s) s)"
proof -
  have keys: "set (o_transactionsOrdered s) = set (go_keys (o_transactionsByID s))" "distinct (o_transactionsOrdered s)"
    using assms(1) by (auto simp: orig_settled_def orig_core_def)
  from delegationScan_result [OF assms(1) _ keys(2) assms(2)] keys(1)
  obtain s1 where s1: "delegationScan full (o_transactionsOrdered s) s = (delegable full (o_transactionsOrdered s) s, Ok s1)"
    "delegatedAll full (o_transactionsOrdered s) s s1" by blast
  then have posts: "length (o_eventsInternal s1) \<ge> length (pendingOf (delegable full (o_transactionsOrdered s) s) s)"
    by (simp add: delegatedAll_def)
  have "\<exists>s'. (sendDelegationRequest full s = Ok s' \<or> (\<exists>e. sendDelegationRequest full s = Fail e s'))
      \<and> o_eventsInternal s' = o_eventsInternal s1"
    using s1(1) by (auto simp: sendDelegationRequest_def o_send_def)
  then show thesis using posts that by metis
qed

lemma backlog_posts:
  assumes "orig_reachable s" and "o_currentActiveCoordinator s \<noteq> []"
    and "n < length (pendingOf (delegable full (o_transactionsOrdered s) s) s)"
  obtains s' posts where "orig_process (DelegateSendBatchEvent full) s = Some (s', posts)" "n < length posts"
proof -
  have ok: "orig_ok s" "\<not> o_locked s" using orig_reachable_ok [OF assms(1)] by auto
  have "o_transactionsOrdered s \<noteq> []" using assms(3) by (auto simp: delegable_def pendingOf_def)
  then have sending: "o_state s = OriginatorState_Sending"
    using ok(1) by (auto simp: orig_settled_def orig_core_def orig_view_def linked_def Let_def)
  let ?s = "o_refreshBlockHeight (s\<lparr>o_eventsInternal := [], o_locked := True\<rparr>)"
  have "orig_settled (linked (o_state s)) ?s" by (rule refresh_settled) (use ok(1) in simp)
  then obtain s' where s': "sendDelegationRequest full ?s = Ok s' \<or> (\<exists>e. sendDelegationRequest full ?s = Fail e s')"
    "n < length (o_eventsInternal s')"
    by (rule sendDelegation_posts [where full = full]) (use assms(2,3) outer_fields(3) [OF refresh_fields(2)] in auto)
  have "orig_processEvent (DelegateSendBatchEvent full) (s\<lparr>o_eventsInternal := []\<rparr>)
      = outcome_map (\<lambda>s. s\<lparr>o_locked := False\<rparr>) (sendDelegationRequest full ?s)"
    using SendBatch_processed [of "s\<lparr>o_eventsInternal := []\<rparr>" full] sending ok(2) by simp
  with s' that show thesis by (auto simp: orig_process_def)
qed




end
