(* ===== verification/DependencyRefinement.thy ===== *)
theory DependencyRefinement
  imports DependencyTracker
begin

text \<open>
  A chain of the dependency tracker implements a relation: a sequence of its operations, run on the two
  linked lists per node, answers every query as the same sequence of set operations does on a relation
  between transactions.
\<close>

datatype chainOp = OpAdd uuid "uuid list" | OpClearPrerequisites uuid | OpClearDependents uuid | OpDelete uuid

fun runChainOp :: "chainOp \<Rightarrow> dependencyChain \<Rightarrow> dependencyChain" where
  "runChainOp (OpAdd t ps) d = AddPrerequisites t ps d"
| "runChainOp (OpClearPrerequisites t) d = ClearPrerequisites t d"
| "runChainOp (OpClearDependents t) d = ClearDependents t d"
| "runChainOp (OpDelete t) d = delete_tx t d"

text \<open>The specification: \<open>(x, y)\<close> says that \<open>x\<close> depends on \<open>y\<close>.\<close>

fun specChainOp :: "chainOp \<Rightarrow> (uuid \<times> uuid) set \<Rightarrow> (uuid \<times> uuid) set" where
  "specChainOp (OpAdd t ps) R = R \<union> {t} \<times> (set ps - {t})"
| "specChainOp (OpClearPrerequisites t) R = R - {t} \<times> UNIV"
| "specChainOp (OpClearDependents t) R = R - UNIV \<times> {t}"
| "specChainOp (OpDelete t) R = R - ({t} \<times> UNIV \<union> UNIV \<times> {t})"

lemma runChainOp_step:
  assumes "chain_wf d"
  shows "chain_wf (runChainOp op d)" "depends (runChainOp op d) = specChainOp op (depends d)"
  using assms
  by (cases op; simp add: wf_Add wf_ClearPrerequisites wf_ClearDependents wf_delete depends_Add depends_ClearPrerequisites
      depends_ClearDependents depends_delete)+

lemma runChainOps:
  "chain_wf d \<Longrightarrow> chain_wf (fold runChainOp ops d) \<and> depends (fold runChainOp ops d) = fold specChainOp ops (depends d)"
  by (induction ops arbitrary: d) (simp_all add: runChainOp_step)

text \<open>C24. A chain refines a relation between transactions: after any sequence of operations on a new chain, the
  prerequisites and the dependents it answers for a transaction are those of the relation that the same
  sequence of set operations yields, each listed once, and no transaction ever depends on itself.\<close>

theorem dependency_chain_refines_relation:
  "let d = fold runChainOp ops newDependencyChain; R = fold specChainOp ops {}
   in set (GetPrerequisites d x) = R `` {x} \<and> set (GetDependents d x) = R\<inverse> `` {x}
     \<and> distinct (GetPrerequisites d x) \<and> distinct (GetDependents d x)
     \<and> (HasPrerequisites d x \<longleftrightarrow> x \<in> Domain R) \<and> (HasDependents d x \<longleftrightarrow> x \<in> Range R) \<and> irrefl R"
proof -
  define d where "d = fold runChainOp ops newDependencyChain"
  define R where "R = fold specChainOp ops {}"
  have "depends newDependencyChain = {}" by (auto simp: depends_def newDependencyChain_def)
  with runChainOps [OF wf_new, of ops] have wf: "chain_wf d" and R: "depends d = R" by (simp_all add: d_def R_def)
  have p: "set (GetPrerequisites d x) = R `` {x}" using R by (auto simp: depends_def)
  have q: "set (GetDependents d x) = R\<inverse> `` {x}" using R depends_required [OF wf] by (auto simp: depends_def)
  have "HasPrerequisites d x \<longleftrightarrow> GetPrerequisites d x \<noteq> []" "HasDependents d x \<longleftrightarrow> GetDependents d x \<noteq> []"
    by (simp_all add: HasPrerequisites_def GetPrerequisites_def HasDependents_def GetDependents_def split: option.split)
  then have "HasPrerequisites d x \<longleftrightarrow> x \<in> Domain R" "HasDependents d x \<longleftrightarrow> x \<in> Range R"
    using p q by (metis Domain_iff Image_singleton_iff empty_iff ex_in_conv set_empty,
        metis Range_iff Image_singleton_iff converse_iff empty_iff ex_in_conv set_empty)
  moreover have "irrefl R" using wf R by (auto simp: chain_wf_def irrefl_def)
  ultimately show ?thesis using p q wf_distinct [OF wf, of x] by (simp add: d_def R_def Let_def)
qed

end
