(* ===== verification/Bytes32.thy ===== *)
theory Bytes32
  imports PldTypes
begin

text \<open>
  The 32 byte values of \<^verbatim>\<open>pldtypes/bytes32.go\<close>, in which state identifiers, hashes and transaction identifiers
  are written: parsing, printing, the database form, and the embedding of UUIDs. A Go array \<^verbatim>\<open>[32]byte\<close> is a list
  of bytes; that every operation returns 32 of them is a theorem. A UUID is the 16 byte array of
  \<^verbatim>\<open>github.com/google/uuid\<close> here, not the number it stands for.
\<close>

type_synonym Bytes32 = HexBytes
type_synonym uuidBytes = HexBytes

datatype bytes32Error =
    MsgTypesInvalidHex
  | MsgTypesValueInvalidHexBytes32 nat
  | MsgTypesScanFail

section \<open>Operations\<close>

text \<open>\<^verbatim>\<open>copy\<close> into a fresh array: what does not fit is left out, what is missing is zero.\<close>

definition NewBytes32FromSlice :: "HexBytes \<Rightarrow> Bytes32" where
  "NewBytes32FromSlice bytes = take 32 bytes @ replicate (32 - length bytes) 0"

definition ParseBytes32Ctx :: "string \<Rightarrow> bytes32Error + Bytes32" where
  "ParseBytes32Ctx s =
     (case hexDecodeString (trimPrefix0x s) of
        None \<Rightarrow> Inl MsgTypesInvalidHex
      | Some h \<Rightarrow> if length h \<noteq> 32 then Inl (MsgTypesValueInvalidHexBytes32 (length h)) else Inr (NewBytes32FromSlice h))"

definition ParseBytes32 :: "string \<Rightarrow> bytes32Error + Bytes32" where
  "ParseBytes32 s = (case ParseBytes32Ctx s of Inl e \<Rightarrow> Inl e | Inr pB32 \<Rightarrow> Inr pB32)"

definition Bytes32_HexString :: "Bytes32 \<Rightarrow> string" where
  "Bytes32_HexString i = HexString i"

definition Bytes32_HexString0xPrefix :: "Bytes32 \<Rightarrow> string" where
  "Bytes32_HexString0xPrefix i = ''0x'' @ HexString i"

definition Bytes32_String :: "Bytes32 \<Rightarrow> string" where
  "Bytes32_String i = Bytes32_HexString0xPrefix i"

definition MarshalText :: "Bytes32 \<Rightarrow> string" where
  "MarshalText i = Bytes32_HexString0xPrefix i"

text \<open>On an error the receiver keeps its value.\<close>

definition UnmarshalText :: "string \<Rightarrow> Bytes32 \<Rightarrow> bytes32Error option \<times> Bytes32" where
  "UnmarshalText txt i = (case ParseBytes32Ctx txt of Inl e \<Rightarrow> (Some e, i) | Inr p \<Rightarrow> (None, p))"

definition Bytes32_Equals :: "Bytes32 option \<Rightarrow> Bytes32 option \<Rightarrow> bool" where
  "Bytes32_Equals a b = (case (a, b) of (None, None) \<Rightarrow> True | (Some x, Some y) \<Rightarrow> x = y | _ \<Rightarrow> False)"

definition Bytes32_IsZero :: "Bytes32 \<Rightarrow> bool" where
  "Bytes32_IsZero i \<longleftrightarrow> i = replicate 32 0"

definition UUIDFirst16 :: "Bytes32 \<Rightarrow> uuidBytes" where
  "UUIDFirst16 i = take 16 i"

definition Bytes32UUIDFirst16 :: "uuidBytes \<Rightarrow> Bytes32" where
  "Bytes32UUIDFirst16 u = u @ replicate 16 0"

text \<open>What a database driver hands to \<open>Scan\<close>. Bytes that hold text are the characters of it.\<close>

datatype scanSource = ScanString string | ScanBytes HexBytes | ScanOther

definition Bytes32_Value :: "Bytes32 \<Rightarrow> scanSource" where
  "Bytes32_Value i = ScanString (Bytes32_HexString i)"

definition Bytes32_Scan :: "scanSource \<Rightarrow> Bytes32 \<Rightarrow> bytes32Error option \<times> Bytes32" where
  "Bytes32_Scan src i =
     (case src of
        ScanString v \<Rightarrow> (case ParseBytes32Ctx v of Inl e \<Rightarrow> (Some e, i) | Inr b \<Rightarrow> (None, b))
      | ScanBytes v \<Rightarrow>
          if length v = 32 then (None, NewBytes32FromSlice v)
          else if length v = 64 \<or> length v = 66
          then (case ParseBytes32Ctx (map (char_of \<circ> unat) v) of Inl e \<Rightarrow> (Some e, i) | Inr b \<Rightarrow> (None, b))
          else (Some (MsgTypesValueInvalidHexBytes32 (length v)), i)
      | ScanOther \<Rightarrow> (Some MsgTypesScanFail, i))"

section \<open>Lemmas\<close>

lemma length_NewBytes32 [simp]: "length (NewBytes32FromSlice b) = 32"
  by (simp add: NewBytes32FromSlice_def)

lemma NewBytes32_same [simp]: "length b = 32 \<Longrightarrow> NewBytes32FromSlice b = b"
  by (simp add: NewBytes32FromSlice_def)

lemma length_HexString [simp]: "length (HexString bs) = 2 * length bs"
  by (induction bs) (simp_all add: HexString_def)

lemma hexChar_not_x: "n < 16 \<Longrightarrow> hexChar n \<noteq> CHR ''x''"
  using hexDigit_hexChar [of n] by (auto simp: hexDigit_def)

lemma trim_HexString [simp]: "trimPrefix0x (HexString bs) = HexString bs"
proof (cases bs)
  case (Cons b bs')
  have "unat b < 2 ^ LENGTH(8)" by (rule unsigned_less)
  then have "hexChar (unat b mod 16) \<noteq> CHR ''x''" by (intro hexChar_not_x) simp
  with Cons show ?thesis by (simp add: trimPrefix0x_def HexString_def)
qed (simp add: trimPrefix0x_def HexString_def)

lemma trim_prefixed [simp]: "trimPrefix0x (''0x'' @ s) = s" "trimPrefix0x (CHR ''0'' # CHR ''x'' # s) = s"
  by (simp_all add: trimPrefix0x_def)

lemma hexDecode_length: "hexDecodeString s = Some bs \<Longrightarrow> length s = 2 * length bs"
  by (induction s arbitrary: bs rule: hexDecodeString.induct) (auto split: option.splits)

lemma Parse_forms:
  assumes "length i = 32"
  shows "ParseBytes32Ctx (HexString i) = Inr i" "ParseBytes32Ctx (''0x'' @ HexString i) = Inr i"
    "ParseBytes32Ctx (CHR ''0'' # CHR ''x'' # HexString i) = Inr i"
  using assms by (simp_all add: ParseBytes32Ctx_def)

lemma Parse_typed:
  assumes "ParseBytes32Ctx s = Inr i"
  shows "length i = 32 \<and> length (trimPrefix0x s) = 64 \<and> hexDecodeString (trimPrefix0x s) = Some i"
  using assms hexDecode_length [of "trimPrefix0x s"] by (auto simp: ParseBytes32Ctx_def split: option.splits if_splits)

text \<open>The characters of a text as bytes, and back.\<close>

definition textBytes :: "string \<Rightarrow> HexBytes" where
  "textBytes s = map (word_of_nat \<circ> of_char) s"

lemma textBytes_back [simp]: "map (char_of \<circ> unat) (textBytes s) = s"
proof -
  have "char_of (unat (word_of_nat (of_char c) :: 8 word)) = c" for c
    by (simp add: unat_of_nat take_bit_eq_mod)
  then show ?thesis by (simp add: textBytes_def comp_def)
qed

section \<open>Properties\<close>

text \<open>C33. Whatever is printed is read back: the text form with and without the prefix, the form written to a
  database in whichever way the driver hands it over, the raw bytes, and a UUID put into 32 bytes.\<close>

theorem bytes32_roundtrip:
  assumes "length i = 32" and "length u = 16"
  shows "ParseBytes32 (Bytes32_String i) = Inr i \<and> ParseBytes32 (Bytes32_HexString i) = Inr i
    \<and> UnmarshalText (MarshalText i) old = (None, i) \<and> Bytes32_Scan (Bytes32_Value i) old = (None, i)
    \<and> Bytes32_Scan (ScanBytes (textBytes (Bytes32_HexString i))) old = (None, i)
    \<and> Bytes32_Scan (ScanBytes (textBytes (Bytes32_String i))) old = (None, i)
    \<and> Bytes32_Scan (ScanBytes i) old = (None, i)
    \<and> length (Bytes32UUIDFirst16 u) = 32 \<and> UUIDFirst16 (Bytes32UUIDFirst16 u) = u"
proof -
  have "length (textBytes s) = length s" for s by (simp add: textBytes_def)
  then show ?thesis
    using assms
    by (simp add: ParseBytes32_def Bytes32_String_def Bytes32_HexString_def Bytes32_HexString0xPrefix_def UnmarshalText_def
        MarshalText_def Bytes32_Scan_def Bytes32_Value_def Parse_forms Bytes32UUIDFirst16_def UUIDFirst16_def)
qed

lemma bytes32_roundtrip_witness:
  "ParseBytes32 (Bytes32_String (replicate 32 171)) = Inr (replicate 32 171)
   \<and> take 4 (Bytes32_String (replicate 32 171)) = ''0xab'' \<and> UUIDFirst16 (Bytes32UUIDFirst16 (replicate 16 9)) = replicate 16 9"
proof -
  have "length (replicate 32 (171 :: 8 word)) = 32" "length (replicate 16 (9 :: 8 word)) = 16" by simp_all
  note r = bytes32_roundtrip [OF this, of "[]"]
  have "take 4 (Bytes32_String (replicate 32 171)) = ''0xab''" by code_simp
  with r show ?thesis by simp
qed

text \<open>C34. Every value that parsing or scanning accepts has 32 bytes, and parsing accepts exactly 64 hexadecimal
  digits behind an optional prefix; anything else is an error that leaves the receiver as it was.\<close>

theorem bytes32_typed:
  assumes "length old = 32"
  shows "(ParseBytes32 s = Inr i \<longleftrightarrow> hexDecodeString (trimPrefix0x s) = Some i \<and> length (trimPrefix0x s) = 64)
    \<and> length (snd (UnmarshalText s old)) = 32 \<and> length (snd (Bytes32_Scan src old)) = 32
    \<and> (fst (UnmarshalText s old) \<noteq> None \<longrightarrow> snd (UnmarshalText s old) = old)
    \<and> (fst (Bytes32_Scan src old) \<noteq> None \<longrightarrow> snd (Bytes32_Scan src old) = old)"
proof -
  have parse: "ParseBytes32 s = Inr i \<longleftrightarrow> hexDecodeString (trimPrefix0x s) = Some i \<and> length (trimPrefix0x s) = 64"
  proof
    assume "ParseBytes32 s = Inr i"
    then have "ParseBytes32Ctx s = Inr i" by (simp add: ParseBytes32_def split: sum.splits)
    from Parse_typed [OF this] show "hexDecodeString (trimPrefix0x s) = Some i \<and> length (trimPrefix0x s) = 64" by simp
  next
    assume h: "hexDecodeString (trimPrefix0x s) = Some i \<and> length (trimPrefix0x s) = 64"
    then have "length i = 32" using hexDecode_length [of "trimPrefix0x s" i] by simp
    with h show "ParseBytes32 s = Inr i" by (simp add: ParseBytes32_def ParseBytes32Ctx_def)
  qed
  have scanned: "length b = 32" if "ParseBytes32Ctx v = Inr b" for v b using Parse_typed [OF that] by simp
  have unmarshalled: "length (snd (UnmarshalText s old)) = 32" "fst (UnmarshalText s old) \<noteq> None \<longrightarrow> snd (UnmarshalText s old) = old"
    using assms scanned [of s] by (cases "ParseBytes32Ctx s"; simp add: UnmarshalText_def)+
  have "length (snd (Bytes32_Scan src old)) = 32 \<and> (fst (Bytes32_Scan src old) \<noteq> None \<longrightarrow> snd (Bytes32_Scan src old) = old)"
  proof (cases src)
    case (ScanString v)
    then show ?thesis using assms scanned [of v] by (cases "ParseBytes32Ctx v") (simp_all add: Bytes32_Scan_def)
  next
    case (ScanBytes v)
    let ?p = "ParseBytes32Ctx (map (char_of \<circ> unat) v)"
    show ?thesis using ScanBytes assms scanned by (cases ?p) (simp_all add: Bytes32_Scan_def)
  qed (simp add: Bytes32_Scan_def assms)
  with parse unmarshalled show ?thesis by blast
qed

lemma bytes32_typed_witness:
  "length (snd (UnmarshalText ''0x12'' (replicate 32 7))) = 32 \<and> fst (UnmarshalText ''0x12'' (replicate 32 7)) = Some (MsgTypesValueInvalidHexBytes32 1)"
proof -
  have "length (replicate 32 (7 :: 8 word)) = 32" by simp
  from bytes32_typed [OF this, of "''0x12''" "[]" ScanOther] have "length (snd (UnmarshalText ''0x12'' (replicate 32 7))) = 32" by blast
  moreover have "fst (UnmarshalText ''0x12'' (replicate 32 7)) = Some (MsgTypesValueInvalidHexBytes32 1)"
    by (simp add: UnmarshalText_def ParseBytes32Ctx_def hexDigit_def)
  ultimately show ?thesis by simp
qed

end
