(* ===== verification/BlockListener.thy ===== *)
theory BlockListener
  imports PldTypes
begin

text \<open>
  The block listener of the block indexer (\<^verbatim>\<open>core/go/pkg/blockindexer/block_listener.go\<close>): its view of the head of the
  base ledger, how a new block is reconciled with that view, how the view is rebuilt from the node, and
  the poll that reports changed blocks to the indexer.

  \<^item> The view is a \<^verbatim>\<open>container/list\<close>. Its elements have an identity, because the poll holds on to an
    element while the list changes: an element that has been removed has no successor, and one that the
    list forgot by \<^verbatim>\<open>Init\<close> keeps the successors it had (\<open>bl_forgotten\<close>).
  \<^item> The node is a parameter: \<open>node n k\<close> is the answer to the \<open>n\<close>-th query by number, for number \<open>k\<close>, after all
    retries; the retry only gives up when the context is cancelled. The chain may change between queries.
  \<^item> A loop that may go on forever has the value \<open>None\<close> when it does.
\<close>

section \<open>Blocks\<close>

record PartialTransactionInfo =
  pt_hash :: HexBytes
  pt_nonce :: uint64

record BlockInfoJSONRPC =
  b_number :: uint64
  b_hash :: HexBytes
  b_parentHash :: HexBytes
  b_timestamp :: uint64
  b_transactions :: "PartialTransactionInfo list"

datatype blockReply = Found BlockInfoJSONRPC | NotFound | QueryFailed

type_synonym blockNode = "nat \<Rightarrow> uint64 \<Rightarrow> blockReply"

section \<open>State\<close>

type_synonym elem = "nat \<times> BlockInfoJSONRPC"

record blockListener =
  bl_highestBlock :: uint64
  bl_unstableHeadLength :: nat
  bl_canonicalChain :: "elem list"
  bl_elems :: nat
  bl_forgotten :: "(nat \<times> elem list) list"
  bl_queries :: nat
  bl_filter :: string
  bl_failCount :: nat
  bl_newBlocks :: "BlockInfoJSONRPC list"

definition newBlockListener :: "nat \<Rightarrow> blockListener" where
  "newBlockListener chainHeadCacheLen =
     \<lparr>bl_highestBlock = 0, bl_unstableHeadLength = max 1 chainHeadCacheLen, bl_canonicalChain = [], bl_elems = 0,
      bl_forgotten = [], bl_queries = 0, bl_filter = [], bl_failCount = 0, bl_newBlocks = []\<rparr>"

abbreviation chainBlocks :: "blockListener \<Rightarrow> BlockInfoJSONRPC list" where
  "chainBlocks s \<equiv> map snd (bl_canonicalChain s)"

section \<open>The list\<close>

text \<open>The elements behind an element of the list.\<close>

fun elemsAfter :: "nat \<Rightarrow> elem list \<Rightarrow> elem list" where
  "elemsAfter i [] = []"
| "elemsAfter i (e # es) = (if fst e = i then es else elemsAfter i es)"

fun elemsUpto :: "nat \<Rightarrow> elem list \<Rightarrow> elem list" where
  "elemsUpto i [] = []"
| "elemsUpto i (e # es) = (if fst e = i then [e] else e # elemsUpto i es)"

definition listRemove :: "nat \<Rightarrow> elem list \<Rightarrow> elem list" where
  "listRemove i es = filter (\<lambda>e. fst e \<noteq> i) es"

fun forgetAll :: "elem list \<Rightarrow> (nat \<times> elem list) list" where
  "forgetAll [] = []"
| "forgetAll (e # es) = (fst e, es) # forgetAll es"

definition listInit :: "blockListener \<Rightarrow> blockListener" where
  "listInit s = s\<lparr>bl_canonicalChain := [], bl_forgotten := forgetAll (bl_canonicalChain s) @ bl_forgotten s\<rparr>"

definition newElem :: "BlockInfoJSONRPC \<Rightarrow> blockListener \<Rightarrow> elem \<times> blockListener" where
  "newElem b s = ((bl_elems s, b), s\<lparr>bl_elems := Suc (bl_elems s)\<rparr>)"

definition listPushBack :: "BlockInfoJSONRPC \<Rightarrow> blockListener \<Rightarrow> elem \<times> blockListener" where
  "listPushBack b s =
     (let (e, s1) = newElem b s in (e, s1\<lparr>bl_canonicalChain := bl_canonicalChain s1 @ [e]\<rparr>))"

text \<open>What \<^verbatim>\<open>Next\<close> leads through from an element, in the list or not.\<close>

definition elemsFrom :: "elem \<Rightarrow> blockListener \<Rightarrow> elem list" where
  "elemsFrom e s =
     (if e \<in> set (bl_canonicalChain s) then e # elemsAfter (fst e) (bl_canonicalChain s)
      else case map_of (bl_forgotten s) (fst e) of Some es \<Rightarrow> e # es | None \<Rightarrow> [e])"

section \<open>Reconciling a block\<close>

definition raiseHighest :: "BlockInfoJSONRPC \<Rightarrow> blockListener \<Rightarrow> blockListener" where
  "raiseHighest bi s = (if b_number bi > bl_highestBlock s then s\<lparr>bl_highestBlock := b_number bi\<rparr> else s)"

definition askNode :: "blockNode \<Rightarrow> uint64 \<Rightarrow> blockListener \<Rightarrow> blockReply \<times> blockListener" where
  "askNode node k s = (node (bl_queries s) k, s\<lparr>bl_queries := Suc (bl_queries s)\<rparr>)"

text \<open>From the last element of the view back to the first that the node still has. The loop that trims the
  elements behind it removes, once per element behind, \<^verbatim>\<open>lastElem\<close>.\<close>

definition trimBehind :: "elem \<Rightarrow> elem list \<Rightarrow> elem list" where
  "trimBehind lastElem chain = fold (\<lambda>_. listRemove (fst lastElem)) (elemsAfter (fst lastElem) chain) chain"

fun trimLoop :: "blockNode \<Rightarrow> elem list \<Rightarrow> blockListener \<Rightarrow> BlockInfoJSONRPC option \<times> blockListener" where
  "trimLoop node [] s = (None, s)"
| "trimLoop node (lastElem # before) s =
     (case askNode node (b_number (snd lastElem)) s of
        (QueryFailed, s1) \<Rightarrow> (None, s1)
      | (Found fresh, s1) \<Rightarrow>
          if b_hash fresh = b_hash (snd lastElem)
          then (Some (snd lastElem), s1\<lparr>bl_canonicalChain := trimBehind lastElem (bl_canonicalChain s1)\<rparr>)
          else trimLoop node before s1
      | (NotFound, s1) \<Rightarrow> trimLoop node before s1)"

definition trimToLastValidBlock :: "blockNode \<Rightarrow> blockListener \<Rightarrow> BlockInfoJSONRPC option \<times> blockListener" where
  "trimToLastValidBlock node s = trimLoop node (rev (bl_canonicalChain s)) s"

partial_function (option) rebuildLoop ::
  "blockNode \<Rightarrow> uint64 \<Rightarrow> HexBytes option \<Rightarrow> elem option \<Rightarrow> blockListener \<Rightarrow> (elem option \<times> blockListener) option" where
  "rebuildLoop node nextBlockNumber expectedParentHash notifyPos s =
     (case askNode node nextBlockNumber s of
        (QueryFailed, s1) \<Rightarrow> Some (None, s1)
      | (NotFound, s1) \<Rightarrow> Some (notifyPos, s1)
      | (Found bi, s1) \<Rightarrow>
          if expectedParentHash \<noteq> None \<and> Some (b_parentHash bi) \<noteq> expectedParentHash then Some (notifyPos, s1)
          else
            (let (e, s2) = listPushBack bi s1
             in rebuildLoop node (nextBlockNumber + 1) (Some (b_hash bi))
                  (case notifyPos of None \<Rightarrow> Some e | Some p \<Rightarrow> Some p) (raiseHighest bi s2)))"

declare rebuildLoop.simps [code]

definition rebuildCanonicalChain :: "blockNode \<Rightarrow> blockListener \<Rightarrow> (elem option \<times> blockListener) option" where
  "rebuildCanonicalChain node s =
     (case trimToLastValidBlock node s of
        (Some lastValidBlock, s1) \<Rightarrow>
          rebuildLoop node (b_number lastValidBlock + 1) (Some (b_hash lastValidBlock)) None s1
      | (None, s1) \<Rightarrow>
          (case bl_canonicalChain s1 of
             [] \<Rightarrow> Some (None, s1)
           | firstBlock # _ \<Rightarrow> rebuildLoop node (b_number (snd firstBlock)) None None (listInit s1)))"

definition trimFront :: "nat \<Rightarrow> elem list \<Rightarrow> elem list" where
  "trimFront n es = drop (length es - n) es"

definition handleNewBlock ::
  "blockNode \<Rightarrow> BlockInfoJSONRPC \<Rightarrow> elem option \<Rightarrow> blockListener \<Rightarrow> (elem option \<times> blockListener) option" where
  "handleNewBlock node bi addAfter s =
     (case addAfter of
        None \<Rightarrow>
          (let (e, s1) = listPushBack bi (listInit s)
           in Some (Some e, s1\<lparr>bl_canonicalChain := trimFront (bl_unstableHeadLength s1) (bl_canonicalChain s1)\<rparr>))
      | Some prev \<Rightarrow>
          if b_number (snd prev) \<noteq> b_number bi - 1 \<or> b_hash (snd prev) \<noteq> b_parentHash bi
          then rebuildCanonicalChain node s
          else
            (let (e, s1) = newElem bi s;
                 chain = elemsUpto (fst prev) (bl_canonicalChain s1) @ [e]
             in Some (Some e, s1\<lparr>bl_canonicalChain := trimFront (bl_unstableHeadLength s1) chain\<rparr>)))"

text \<open>The walk back through the view, given as the elements from the last to the first.\<close>

fun reconcileLoop ::
  "blockNode \<Rightarrow> BlockInfoJSONRPC \<Rightarrow> elem list \<Rightarrow> blockListener \<Rightarrow> (elem option \<times> blockListener) option" where
  "reconcileLoop node bi [] s = handleNewBlock node bi None s"
| "reconcileLoop node bi (pos # prevs) s =
     (let posBlock = snd pos in
      if b_number posBlock = b_number bi \<and> b_hash posBlock = b_hash bi \<and> b_parentHash posBlock = b_parentHash bi
      then Some (None, s)
      else if b_number posBlock = b_number bi
      then handleNewBlock node bi (case prevs of [] \<Rightarrow> None | p # _ \<Rightarrow> Some p) s
      else if b_number posBlock < b_number bi then handleNewBlock node bi (Some pos) s
      else reconcileLoop node bi prevs s)"

definition reconcileCanonicalChain ::
  "blockNode \<Rightarrow> BlockInfoJSONRPC \<Rightarrow> blockListener \<Rightarrow> (elem option \<times> blockListener) option" where
  "reconcileCanonicalChain node bi s =
     (let s1 = raiseHighest bi s in reconcileLoop node bi (rev (bl_canonicalChain s1)) s1)"

section \<open>The poll\<close>

datatype changesReply = Changes "HexBytes list" | FilterNotFound | ChangesFailed

text \<open>The hashes of one poll. \<open>byHash\<close> is what the node answers for a hash.\<close>

fun pollHashes ::
  "blockNode \<Rightarrow> (HexBytes \<Rightarrow> blockReply) \<Rightarrow> HexBytes list \<Rightarrow> elem option \<Rightarrow> blockListener \<Rightarrow> (elem option \<times> blockListener) option" where
  "pollHashes node byHash [] notifyPos s = Some (notifyPos, s)"
| "pollHashes node byHash (h # hs) notifyPos s =
     (case byHash h of
        Found bi \<Rightarrow>
          (case reconcileCanonicalChain node bi s of
             None \<Rightarrow> None
           | Some (candidate, s1) \<Rightarrow>
               pollHashes node byHash hs
                 (case (candidate, notifyPos) of
                    (None, _) \<Rightarrow> notifyPos
                  | (Some c, None) \<Rightarrow> Some c
                  | (Some c, Some p) \<Rightarrow> if b_number (snd c) \<le> b_number (snd p) then Some c else Some p) s1)
      | _ \<Rightarrow> pollHashes node byHash hs notifyPos s)"

definition notifyFrom :: "elem option \<Rightarrow> blockListener \<Rightarrow> blockListener" where
  "notifyFrom notifyPos s =
     (case notifyPos of
        None \<Rightarrow> s
      | Some e \<Rightarrow> s\<lparr>bl_newBlocks := bl_newBlocks s @ map snd (elemsFrom e s)\<rparr>)"

definition listenIteration ::
  "blockNode \<Rightarrow> string option \<Rightarrow> changesReply \<Rightarrow> (HexBytes \<Rightarrow> blockReply) \<Rightarrow> blockListener \<Rightarrow> blockListener option" where
  "listenIteration node newBlockFilter changes byHash s =
     (let failed = (\<lambda>s. Some (s\<lparr>bl_failCount := Suc (bl_failCount s)\<rparr>));
          poll = (\<lambda>s. case changes of
             FilterNotFound \<Rightarrow> failed (s\<lparr>bl_filter := []\<rparr>)
           | ChangesFailed \<Rightarrow> failed s
           | Changes blockHashes \<Rightarrow>
               (case pollHashes node byHash blockHashes None s of
                  None \<Rightarrow> None
                | Some (notifyPos, s1) \<Rightarrow> Some ((notifyFrom notifyPos s1)\<lparr>bl_failCount := 0\<rparr>)))
      in if bl_filter s = [] then
           (case newBlockFilter of None \<Rightarrow> failed s | Some flt \<Rightarrow> poll (s\<lparr>bl_filter := flt\<rparr>))
         else poll s)"

text \<open>The start: one attempt to connect, subscribe and read the height; \<open>None\<close> is a failed call, which is
  retried. The flags say what earlier attempts have done already.\<close>

definition establishBlockHeight ::
  "bool \<Rightarrow> bool \<Rightarrow> bool \<Rightarrow> bool \<Rightarrow> uint64 option \<Rightarrow> blockListener \<Rightarrow> bool \<times> bool \<times> bool \<times> blockListener" where
  "establishBlockHeight wsConnected subscribed connects subscribes height s =
     (if \<not> wsConnected \<and> \<not> connects then (False, wsConnected, subscribed, s)
      else if \<not> subscribed \<and> \<not> subscribes then (False, True, subscribed, s)
      else case height of
             None \<Rightarrow> (False, True, True, s)
           | Some h \<Rightarrow> (True, True, True, s\<lparr>bl_highestBlock := h\<rparr>))"

end
