(* ===== verification/BlockListenerProperties.thy ===== *)
theory BlockListenerProperties
  imports BlockListener
begin

text \<open>
  What holds of the block listener: a block that follows one of the view takes its place behind it, polls
  return as long as the chain of the node is finite, and a poll reports the new blocks exactly as far as the view holds them. The
  trimming of the view before a rebuild removes the last valid block and keeps the invalid ones.
\<close>

section \<open>Well-formed views\<close>

definition view_wf :: "blockListener \<Rightarrow> bool" where
  "view_wf s \<longleftrightarrow> distinct (map fst (bl_canonicalChain s)) \<and> bl_unstableHeadLength s \<ge> 1
     \<and> (\<forall>e \<in> set (bl_canonicalChain s). fst e < bl_elems s) \<and> (\<forall>f \<in> set (bl_forgotten s). fst f < bl_elems s)"

definition follows :: "BlockInfoJSONRPC \<Rightarrow> BlockInfoJSONRPC \<Rightarrow> bool" where
  "follows p b \<longleftrightarrow> b_number b = b_number p + 1 \<and> b_number p < b_number b \<and> b_parentHash b = b_hash p"

abbreviation linkedBlocks :: "BlockInfoJSONRPC list \<Rightarrow> bool" where
  "linkedBlocks bs \<equiv> successively follows bs"

lemma elemsUpto_append [simp]: "fst p \<notin> fst ` set pre \<Longrightarrow> elemsUpto (fst p) (pre @ p # rest) = pre @ [p]"
  by (induction pre) auto

lemma elemsAfter_append [simp]: "fst p \<notin> fst ` set pre \<Longrightarrow> elemsAfter (fst p) (pre @ p # rest) = rest"
  by (induction pre) auto

lemma follows_between:
  assumes "follows p b" and "b_number p < x"
  shows "b_number b \<le> x"
  using assms unfolding follows_def by (simp add: inc_le)

lemma linked_last: "linkedBlocks (bs @ [b]) \<longleftrightarrow> linkedBlocks bs \<and> (bs = [] \<or> follows (last bs) b)"
  by (auto simp: successively_append_iff)

lemma linked_drop: "linkedBlocks bs \<Longrightarrow> linkedBlocks (drop n bs)"
  by (induction bs arbitrary: n) (auto simp: drop_Cons' successively_Cons)

lemma trimFront_map: "map snd (trimFront n es) = drop (length es - n) (map snd es)"
  by (simp add: trimFront_def drop_map)

lemma trimFront_length: "length (trimFront n es) = min n (length es)"
  by (simp add: trimFront_def)

lemma trimFront_end: "n \<ge> 1 \<Longrightarrow> trimFront n (es @ [e]) = trimFront (n - 1) es @ [e]"
  by (cases n) (simp_all add: trimFront_def)

lemma trimFront_twice: "trimFront n (trimFront m es) = trimFront (min n m) es"
proof -
  have "length es - m + (length es - (length es - m) - n) = length es - min n m" by arith
  then show ?thesis by (simp add: trimFront_def add.commute)
qed

lemma trimFront_distinct: "distinct (map f es) \<Longrightarrow> distinct (map f (trimFront n es))"
  unfolding trimFront_def by (subst drop_map [symmetric]) (rule distinct_drop)

lemma trimFront_snoc: "n \<ge> 1 \<Longrightarrow> trimFront n (trimFront n es @ [e]) = trimFront n (es @ [e])"
  by (simp add: trimFront_end trimFront_twice min_def)

lemma trimFront_subset: "set (trimFront n es) \<subseteq> set es"
  by (simp add: trimFront_def set_drop_subset)

lemma view_wf_fields [simp]:
  "view_wf (raiseHighest bi s) = view_wf s" "bl_canonicalChain (raiseHighest bi s) = bl_canonicalChain s"
  "bl_unstableHeadLength (raiseHighest bi s) = bl_unstableHeadLength s" "bl_elems (raiseHighest bi s) = bl_elems s"
  "bl_forgotten (raiseHighest bi s) = bl_forgotten s" "bl_newBlocks (raiseHighest bi s) = bl_newBlocks s"
  by (simp_all add: raiseHighest_def view_wf_def)

section \<open>A block that follows a block of the view\<close>

lemma reconcileLoop_behind:
  assumes "sorted_wrt (\<lambda>a b. b_number a < b_number b) (map snd (p # rest))" and "follows (snd p) bi"
    and "\<forall>e \<in> set rest. \<not> (b_number (snd e) = b_number bi \<and> b_hash (snd e) = b_hash bi \<and> b_parentHash (snd e) = b_parentHash bi)"
  shows "reconcileLoop node bi (rev rest @ p # prevs) s = handleNewBlock node bi (Some p) s"
  using assms
proof (induction rest rule: rev_induct)
  case Nil
  then show ?case by (auto simp: follows_def)
next
  case (snoc x xs)
  have above: "b_number bi \<le> b_number (snd e)" if "e \<in> set (xs @ [x])" for e
    using that snoc.prems follows_between by (auto simp: sorted_wrt_append)
  show ?case
  proof (cases "b_number (snd x) = b_number bi")
    case True
    have "xs = []"
    proof (rule ccontr)
      assume "xs \<noteq> []"
      then obtain y where "y \<in> set xs" by (cases xs) auto
      with snoc.prems(1) have "b_number (snd y) < b_number (snd x)" by (auto simp: sorted_wrt_append)
      moreover have "b_number bi \<le> b_number (snd y)" using \<open>y \<in> set xs\<close> above by simp
      ultimately show False using True by simp
    qed
    with True snoc.prems(3) show ?thesis by (auto simp: Let_def)
  next
    case False
    with above [of x] have "\<not> b_number (snd x) < b_number bi" by auto
    with False snoc show ?thesis by (simp add: sorted_wrt_append)
  qed
qed

lemma handleNewBlock_follows:
  assumes "view_wf s" and "bl_canonicalChain s = pre @ p # rest" and "follows (snd p) bi"
  shows "handleNewBlock node bi (Some p) s = Some (Some (bl_elems s, bi),
    s\<lparr>bl_elems := Suc (bl_elems s),
      bl_canonicalChain := trimFront (bl_unstableHeadLength s) (pre @ [p, (bl_elems s, bi)])\<rparr>)"
proof -
  have "fst p \<notin> fst ` set pre" using assms(1,2) by (auto simp: view_wf_def)
  then show ?thesis using assms(2,3) by (auto simp: handleNewBlock_def newElem_def follows_def Let_def)
qed


section \<open>Trimming\<close>

lemma fold_listRemove: "xs \<noteq> [] \<Longrightarrow> fold (\<lambda>_. listRemove i) xs es = listRemove i es"
proof (induction xs arbitrary: es)
  case (Cons x xs)
  then show ?case by (cases "xs = []") (simp_all add: listRemove_def)
qed simp

definition gone :: "blockReply \<Rightarrow> BlockInfoJSONRPC \<Rightarrow> bool" where
  "gone r b \<longleftrightarrow> (case r of Found f \<Rightarrow> b_hash f \<noteq> b_hash b | NotFound \<Rightarrow> True | QueryFailed \<Rightarrow> False)"

lemma trimLoop_gone:
  assumes "\<forall>i < length es. gone (node (bl_queries s + i) (b_number (snd (es ! i)))) (snd (es ! i))"
  shows "trimLoop node (es @ before) s = trimLoop node before (s\<lparr>bl_queries := bl_queries s + length es\<rparr>)"
  using assms
proof (induction es arbitrary: s)
  case (Cons e es)
  let ?s = "s\<lparr>bl_queries := Suc (bl_queries s)\<rparr>"
  have "gone (node (bl_queries s) (b_number (snd e))) (snd e)" using Cons.prems [rule_format, of 0] by simp
  then have "trimLoop node (e # es @ before) s = trimLoop node (es @ before) ?s"
    by (auto simp: askNode_def gone_def split: blockReply.splits)
  also have "\<dots> = trimLoop node before (?s\<lparr>bl_queries := bl_queries ?s + length es\<rparr>)"
    using Cons.prems [rule_format, of "Suc _"] by (intro Cons.IH) simp
  finally show ?case by simp
qed simp

text \<open>C38. When the node no longer has the last blocks of the view, the trimming finds the last block the node
  still has, but removes that block from the view and keeps the blocks the node has dropped.\<close>

theorem trim_keeps_dropped_blocks:
  assumes "view_wf s" and "bl_canonicalChain s = pre @ v # dropped" and "dropped \<noteq> []"
    and "\<forall>i < length dropped. gone (node (bl_queries s + i) (b_number (snd (rev dropped ! i)))) (snd (rev dropped ! i))"
    and "node (bl_queries s + length dropped) (b_number (snd v)) = Found f" and "b_hash f = b_hash (snd v)"
  shows "\<exists>s'. trimToLastValidBlock node s = (Some (snd v), s') \<and> chainBlocks s' = map snd pre @ map snd dropped"
proof -
  have ids: "fst v \<notin> fst ` set pre" "fst v \<notin> fst ` set dropped" using assms(1,2) by (auto simp: view_wf_def)
  then have keep: "listRemove (fst v) pre = pre" "listRemove (fst v) dropped = dropped"
    by (auto simp: listRemove_def filter_id_conv image_iff)
  have "trimBehind v (pre @ v # dropped) = listRemove (fst v) (pre @ v # dropped)"
    using ids(1) assms(3) by (simp add: trimBehind_def fold_listRemove)
  also have "\<dots> = pre @ dropped" using keep by (simp add: listRemove_def)
  finally have "trimBehind v (pre @ v # dropped) = pre @ dropped" .
  then show ?thesis
    using trimLoop_gone [of "rev dropped" node s "v # rev pre"] assms(2,4-6)
    by (simp add: trimToLastValidBlock_def askNode_def)
qed

section \<open>Polls that extend the view\<close>

lemma trimFront_append: "trimFront n (trimFront n es @ fs) = trimFront n (es @ fs)"
proof (cases "length es \<le> n")
  case False
  then have "length es - n + (n + length fs - n) = length es + length fs - n" by arith
  moreover have "drop (length es - n) (es @ fs) = drop (length es - n) es @ fs" by simp
  ultimately show ?thesis using False
    by (simp add: trimFront_def) (metis add.commute drop_append drop_drop length_drop diff_diff_cancel nat_le_linear)
qed (simp add: trimFront_def)

lemma trimFront_cut:
  "trimFront n (c @ e # es) = (if length es < n then trimFront (n - Suc (length es)) c @ e # es else trimFront n es)"
  by (auto simp: trimFront_def not_less Suc_diff_le drop_Cons')

fun numbered :: "nat \<Rightarrow> BlockInfoJSONRPC list \<Rightarrow> elem list" where
  "numbered n [] = []"
| "numbered n (b # bs) = (n, b) # numbered (Suc n) bs"

lemma numbered_blocks [simp]: "length (numbered n bs) = length bs" "map snd (numbered n bs) = bs"
  by (induction bs arbitrary: n) auto

lemma numbered_above: "e \<in> set (numbered n bs) \<Longrightarrow> n \<le> fst e"
  by (induction bs arbitrary: n) (auto dest: Suc_leD)

text \<open>One block on top of the view, which may be empty.\<close>

definition extended :: "BlockInfoJSONRPC \<Rightarrow> blockListener \<Rightarrow> blockListener" where
  "extended bi s = (raiseHighest bi s)\<lparr>bl_elems := Suc (bl_elems s),
     bl_canonicalChain := trimFront (bl_unstableHeadLength s) (bl_canonicalChain s @ [(bl_elems s, bi)])\<rparr>"

lemma extended_fields [simp]:
  "bl_elems (extended bi s) = Suc (bl_elems s)" "bl_unstableHeadLength (extended bi s) = bl_unstableHeadLength s"
  "bl_forgotten (extended bi s) = bl_forgotten s" "bl_newBlocks (extended bi s) = bl_newBlocks s"
  "bl_canonicalChain (extended bi s) = trimFront (bl_unstableHeadLength s) (bl_canonicalChain s @ [(bl_elems s, bi)])"
  by (simp_all add: extended_def)

lemma fresh_elem: "view_wf s \<Longrightarrow> bl_elems s \<notin> fst ` set (bl_canonicalChain s)"
  unfolding view_wf_def by (metis imageE less_irrefl)

lemma extended_wf:
  assumes "view_wf s"
  shows "view_wf (extended bi s)"
proof -
  have "e \<in> set (bl_canonicalChain s) \<or> e = (bl_elems s, bi)"
    if "e \<in> set (trimFront (bl_unstableHeadLength s) (bl_canonicalChain s @ [(bl_elems s, bi)]))" for e
    using that trimFront_subset by fastforce
  moreover have "distinct (map fst (bl_canonicalChain s @ [(bl_elems s, bi)]))"
    using assms fresh_elem [OF assms] by (simp add: view_wf_def)
  ultimately show ?thesis
    using assms trimFront_distinct unfolding view_wf_def extended_fields by (metis fst_conv less_Suc_eq)
qed

lemma reconcile_extends:
  assumes "view_wf s" and "bl_canonicalChain s \<noteq> [] \<Longrightarrow> follows (last (chainBlocks s)) bi"
  shows "reconcileCanonicalChain node bi s = Some (Some (bl_elems s, bi), extended bi s)"
proof (cases "bl_canonicalChain s" rule: rev_cases)
  case Nil
  then show ?thesis
    by (simp add: reconcileCanonicalChain_def handleNewBlock_def listPushBack_def newElem_def listInit_def extended_def raiseHighest_def)
next
  case (snoc pre p)
  have "reconcileCanonicalChain node bi s = handleNewBlock node bi (Some p) (raiseHighest bi s)"
    using snoc assms(2) by (auto simp: reconcileCanonicalChain_def follows_def)
  then show ?thesis
    using handleNewBlock_follows [of "raiseHighest bi s" pre p "[]" bi node] snoc assms by (simp add: extended_def)
qed

lemma last_extended: "view_wf s \<Longrightarrow> last (chainBlocks (extended bi s)) = bi \<and> bl_canonicalChain (extended bi s) \<noteq> []"
  by (simp add: view_wf_def trimFront_end)

lemma pollHashes_extends:
  assumes "view_wf s" and "bl_canonicalChain s \<noteq> []" and "length (bl_canonicalChain s) \<le> bl_unstableHeadLength s"
    and "linkedBlocks (last (chainBlocks s) # bs)" and "\<forall>b \<in> set bs. byHash (b_hash b) = Found b \<and> b_number (snd p) < b_number b"
  shows "\<exists>s'. pollHashes node byHash (map b_hash bs) (Some p) s = Some (Some p, s')
    \<and> bl_canonicalChain s' = trimFront (bl_unstableHeadLength s) (bl_canonicalChain s @ numbered (bl_elems s) bs)
    \<and> bl_forgotten s' = bl_forgotten s \<and> bl_newBlocks s' = bl_newBlocks s"
  using assms
proof (induction bs arbitrary: s)
  case Nil
  then show ?case by (simp add: trimFront_def)
next
  case (Cons b bs)
  let ?s = "extended b s"
  have "\<exists>s'. pollHashes node byHash (map b_hash bs) (Some p) ?s = Some (Some p, s')
    \<and> bl_canonicalChain s' = trimFront (bl_unstableHeadLength ?s) (bl_canonicalChain ?s @ numbered (bl_elems ?s) bs)
    \<and> bl_forgotten s' = bl_forgotten ?s \<and> bl_newBlocks s' = bl_newBlocks ?s"
    using Cons.prems last_extended [of s b] extended_wf [of s b]
    by (intro Cons.IH) (auto simp: trimFront_length)
  moreover have "reconcileCanonicalChain node b s = Some (Some (bl_elems s, b), ?s)"
    using Cons.prems by (intro reconcile_extends) auto
  ultimately show ?case using Cons.prems(5)
    by (auto simp: trimFront_append split: if_splits)
qed

text \<open>A poll that finds new blocks on top of the view reports all of them, in order, if they are at most as many as
  the view holds; if they are more, it reports the first of them only.\<close>

theorem poll_reports_new_blocks:
  assumes "view_wf s" and "bl_filter s \<noteq> []" and "linkedBlocks (b # bs)"
    and "bl_canonicalChain s \<noteq> [] \<longrightarrow> follows (last (chainBlocks s)) b"
    and "\<forall>x \<in> set (b # bs). byHash (b_hash x) = Found x"
    and "sorted_wrt (\<lambda>a b. b_number a < b_number b) (b # bs)"
  shows "\<exists>s'. listenIteration node newBlockFilter (Changes (map b_hash (b # bs))) byHash s = Some s'
    \<and> bl_newBlocks s' = bl_newBlocks s @ (if Suc (length bs) \<le> bl_unstableHeadLength s then b # bs else [b])"
proof -
  let ?e = "(bl_elems s, b)" and ?s = "extended b s" and ?u = "bl_unstableHeadLength s"
  let ?es = "numbered (Suc (bl_elems s)) bs"
  have wf: "view_wf ?s" by (rule extended_wf [OF assms(1)])
  from pollHashes_extends [OF wf, of bs byHash ?e node] assms(3,5,6) last_extended [OF assms(1), of b]
  obtain s' where s': "pollHashes node byHash (map b_hash bs) (Some ?e) ?s = Some (Some ?e, s')"
    "bl_canonicalChain s' = trimFront ?u (bl_canonicalChain s @ ?e # ?es)"
    "bl_forgotten s' = bl_forgotten s" "bl_newBlocks s' = bl_newBlocks s"
    by (auto simp: trimFront_length trimFront_append)
  have "pollHashes node byHash (map b_hash (b # bs)) None s = Some (Some ?e, s')"
    using s'(1) reconcile_extends [OF assms(1), of b node] assms(4,5) by simp
  then have run: "listenIteration node newBlockFilter (Changes (map b_hash (b # bs))) byHash s
      = Some ((notifyFrom (Some ?e) s')\<lparr>bl_failCount := 0\<rparr>)"
    using assms(2) by (simp add: listenIteration_def)
  have "map snd (elemsFrom ?e s') = (if Suc (length bs) \<le> ?u then b # bs else [b])"
  proof (cases "Suc (length bs) \<le> ?u")
    case True
    have "bl_elems s \<notin> fst ` set (trimFront (?u - Suc (length bs)) (bl_canonicalChain s))"
      using fresh_elem [OF assms(1)] trimFront_subset by blast
    with True s'(2) show ?thesis by (simp add: trimFront_cut elemsFrom_def elemsAfter_append [of ?e, simplified])
  next
    case False
    have "?e \<notin> set ?es" by (auto dest: numbered_above)
    then have "?e \<notin> set (bl_canonicalChain s')" using False s'(2) trimFront_subset [of ?u ?es] by (auto simp: trimFront_cut)
    moreover have "map_of (bl_forgotten s') (bl_elems s) = None"
      using assms(1) s'(3) unfolding view_wf_def by (auto simp: map_of_eq_None_iff)
    ultimately show ?thesis using False by (simp add: elemsFrom_def)
  qed
  then show ?thesis using run s'(4) by (simp add: notifyFrom_def)
qed

section \<open>Polls return\<close>

lemma rebuildLoop_returns:
  assumes "\<forall>q n b. H < n \<longrightarrow> node q n \<noteq> Found b" and "H \<noteq> - 1"
  shows "\<exists>r. rebuildLoop node n expected pos s = Some r"
proof (induction "Suc (unat H) - unat n" arbitrary: n expected pos s rule: less_induct)
  case less
  show ?case
  proof (cases "H < n")
    case True
    then have "\<And>b. node (bl_queries s) n \<noteq> Found b" using assms(1) by blast
    then show ?thesis by (subst rebuildLoop.simps) (auto simp: askNode_def split: blockReply.splits)
  next
    case False
    with assms(2) have "n \<noteq> - 1" using word_order.not_eq_extremum by auto
    then have "1 + n \<noteq> 0" by (metis add_eq_0_iff)
    then have "unat (n + 1) = Suc (unat n)" by (simp add: unatSuc add.commute)
    moreover have "unat n \<le> unat H" using False by (simp add: word_le_nat_alt [symmetric])
    ultimately have "\<exists>r. rebuildLoop node (n + 1) expected' pos' s' = Some r" for expected' pos' s'
      by (intro less) simp
    then show ?thesis
      by (subst rebuildLoop.simps) (auto simp: askNode_def Let_def split: blockReply.splits prod.splits)
  qed
qed

lemma reconcile_returns:
  assumes "\<forall>q n b. H < n \<longrightarrow> node q n \<noteq> Found b" and "H \<noteq> - 1"
  shows "\<exists>r. reconcileCanonicalChain node bi s = Some r"
proof -
  have "\<exists>r. rebuildCanonicalChain node s = Some r" for s
    using rebuildLoop_returns [OF assms]
    by (auto simp: rebuildCanonicalChain_def split: prod.splits option.splits list.splits)
  then have handle: "\<exists>r. handleNewBlock node bi after s = Some r" for after s
    by (auto simp: handleNewBlock_def Let_def split: option.splits prod.splits)
  have "\<exists>r. reconcileLoop node bi es s = Some r" for es s
    by (induction es) (simp_all add: handle [simplified] Let_def)
  then show ?thesis by (simp add: reconcileCanonicalChain_def Let_def)
qed


section \<open>Samples\<close>

definition blk :: "nat \<Rightarrow> nat \<Rightarrow> nat \<Rightarrow> BlockInfoJSONRPC" where
  "blk n h p = \<lparr>b_number = of_nat n, b_hash = [of_nat h], b_parentHash = [of_nat p], b_timestamp = 0, b_transactions = []\<rparr>"

definition viewOf :: "nat \<Rightarrow> BlockInfoJSONRPC list \<Rightarrow> blockListener" where
  "viewOf u bs = (newBlockListener u)\<lparr>bl_canonicalChain := numbered 0 bs, bl_elems := length bs, bl_filter := ''f''\<rparr>"

definition nodeOf :: "BlockInfoJSONRPC list \<Rightarrow> blockNode" where
  "nodeOf bs q n = (case find (\<lambda>b. b_number b = n) bs of Some b \<Rightarrow> Found b | None \<Rightarrow> NotFound)"

definition hashesOf :: "BlockInfoJSONRPC list \<Rightarrow> HexBytes \<Rightarrow> blockReply" where
  "hashesOf bs h = (case find (\<lambda>b. b_hash b = h) bs of Some b \<Rightarrow> Found b | None \<Rightarrow> NotFound)"

lemmas sample_simps = blk_def viewOf_def nodeOf_def hashesOf_def newBlockListener_def view_wf_def follows_def gone_def


theorem trim_keeps_dropped_blocks_witness:
  "\<exists>s'. trimToLastValidBlock (nodeOf [blk 1 1 0, blk 2 2 1, blk 3 13 2]) (viewOf 5 [blk 1 1 0, blk 2 2 1, blk 3 3 2])
     = (Some (blk 2 2 1), s') \<and> chainBlocks s' = [blk 1 1 0, blk 3 3 2]"
  using trim_keeps_dropped_blocks [of "viewOf 5 [blk 1 1 0, blk 2 2 1, blk 3 3 2]" "[(0, blk 1 1 0)]" "(1, blk 2 2 1)"
      "[(2, blk 3 3 2)]" "nodeOf [blk 1 1 0, blk 2 2 1, blk 3 13 2]" "blk 2 2 1"]
  by (simp add: sample_simps)

theorem poll_reports_new_blocks_witness:
  "\<exists>s'. listenIteration (nodeOf []) None (Changes [[2], [3]]) (hashesOf [blk 2 2 1, blk 3 3 2]) (viewOf 1 [blk 1 1 0]) = Some s'
     \<and> bl_newBlocks s' = [blk 2 2 1]"
  using poll_reports_new_blocks [of "viewOf 1 [blk 1 1 0]" "blk 2 2 1" "[blk 3 3 2]" "hashesOf [blk 2 2 1, blk 3 3 2]" "nodeOf []" None]
  by (simp add: sample_simps)


text \<open>What the trimming leads to: the chain forks from block 3 to another block 3, and back. After the fork back the
  original block 3 is not reported again, although the last block reported with its number is the other
  one: the report goes on with the children of a block that the receiver has replaced.\<close>

definition afterForkBack :: "blockListener option" where
  "afterForkBack =
     (let b1 = blk 1 1 0; b2 = blk 2 2 1; b3 = blk 3 3 2; b4 = blk 4 4 3; b5 = blk 5 5 4; c3 = blk 3 13 2; c4 = blk 4 14 13
      in case listenIteration (nodeOf [b1, b2, c3, c4]) None (Changes [b_hash c4]) (hashesOf [c4]) (viewOf 5 [b1, b2, b3]) of
           None \<Rightarrow> None
         | Some s \<Rightarrow> listenIteration (nodeOf [b1, b2, b3, b4, b5]) None (Changes [b_hash b5]) (hashesOf [b5]) s)"

theorem fork_back_unreported:
  "map_option bl_newBlocks afterForkBack = Some [blk 3 13 2, blk 4 14 13, blk 4 4 3, blk 5 5 4]"
  by code_simp

end
