(* ===== verification/BlockIndexer.thy ===== *)
theory BlockIndexer
  imports BlockListener Bytes32
begin

text \<open>
  The block indexer (\<^verbatim>\<open>core/go/pkg/blockindexer/block_indexer.go\<close>): from the notifications of the block listener and its
  own queries to the tables of indexed blocks, transactions and events.

  \<^item> Two goroutines share the state under a lock: the notification processor, whose step is a whole
    \<open>processBlockNotification\<close>, and the dispatcher, which releases the lock while it queries the node. The dispatcher is
    therefore a sequence of phases (\<open>dispatcherPhase\<close>), and \<open>indexer_step\<close> interleaves both in every way.
  \<^item> What the node reports is any block of a set \<open>R\<close>: forks, blocks reported twice, late or never are all in the
    runs. A query by number returns a block with that number.
  \<^item> The tables are lists in the order of insertion. A database transaction is retried until it commits or
    the context is cancelled; handlers that run inside it can only delay it.
  \<^item> A nil dereference is the result \<open>None\<close>. The pointer \<^verbatim>\<open>nextBlock\<close> is the only one that the code does not check.
\<close>

section \<open>Receipts\<close>

record LogJSONRPC =
  l_logIndex :: uint64
  l_transactionIndex :: uint64
  l_blockNumber :: uint64
  l_transactionHash :: HexBytes
  l_address :: "HexBytes option"
  l_data :: HexBytes
  l_topics :: "HexBytes list"

text \<open>The status and type fields are the values of their \<^verbatim>\<open>Int64()\<close>.\<close>

record TXReceiptJSONRPC =
  r_blockHash :: HexBytes
  r_blockNumber :: uint64
  r_contractAddress :: "HexBytes option"
  r_from :: "HexBytes option"
  r_to :: "HexBytes option"
  r_logs :: "LogJSONRPC list"
  r_status :: int
  r_transactionHash :: HexBytes
  r_revertReason :: HexBytes
  r_type :: int

datatype receiptsError =
    MsgBlockIndexerConfirmedBlockNotFound
  | MsgBlockIndexerReceiptCountMismatch nat nat
  | MsgBlockIndexerReceiptIntegrityNilReceipt
  | MsgBlockIndexerReceiptBlockMismatch HexBytes uint64
  | MsgBlockIndexerReceiptMissingTxHash HexBytes

fun receiptsLoop ::
  "BlockInfoJSONRPC \<Rightarrow> TXReceiptJSONRPC option list \<Rightarrow> HexBytes set \<Rightarrow> receiptsError + HexBytes set" where
  "receiptsLoop block [] seen = Inr seen"
| "receiptsLoop block (None # rs) seen = Inl MsgBlockIndexerReceiptIntegrityNilReceipt"
| "receiptsLoop block (Some r # rs) seen =
     (if r_blockHash r \<noteq> b_hash block \<or> r_blockNumber r \<noteq> b_number block
      then Inl (MsgBlockIndexerReceiptBlockMismatch (r_blockHash r) (r_blockNumber r))
      else receiptsLoop block rs (insert (r_transactionHash r) seen))"

fun missingTx :: "PartialTransactionInfo list \<Rightarrow> HexBytes set \<Rightarrow> HexBytes option" where
  "missingTx [] seen = None"
| "missingTx (tx # txs) seen = (if pt_hash tx \<notin> seen then Some (pt_hash tx) else missingTx txs seen)"

definition validateBlockReceipts :: "BlockInfoJSONRPC \<Rightarrow> TXReceiptJSONRPC option list \<Rightarrow> receiptsError option" where
  "validateBlockReceipts block receipts =
     (if length receipts \<noteq> length (b_transactions block)
      then Some (MsgBlockIndexerReceiptCountMismatch (length (b_transactions block)) (length receipts))
      else case receiptsLoop block receipts {} of
             Inl e \<Rightarrow> Some e
           | Inr seen \<Rightarrow> map_option MsgBlockIndexerReceiptMissingTxHash (missingTx (b_transactions block) seen))"

datatype receiptsReply = Receipts "TXReceiptJSONRPC option list" | ReceiptsNotFound

text \<open>The answer that ends the retries, for a block with transactions; an empty block is not asked for.\<close>

definition hydrateBlock :: "BlockInfoJSONRPC \<Rightarrow> receiptsReply \<Rightarrow> receiptsError + TXReceiptJSONRPC list" where
  "hydrateBlock block reply =
     (case reply of
        ReceiptsNotFound \<Rightarrow> Inl MsgBlockIndexerConfirmedBlockNotFound
      | Receipts rs \<Rightarrow>
          (case validateBlockReceipts block rs of Some e \<Rightarrow> Inl e | None \<Rightarrow> Inr (List.map_filter id rs)))"

definition dispatchEnrich :: "BlockInfoJSONRPC \<Rightarrow> receiptsReply \<Rightarrow> receiptsError + TXReceiptJSONRPC list" where
  "dispatchEnrich block reply = (if b_transactions block = [] then Inr [] else hydrateBlock block reply)"

section \<open>Tables\<close>

record IndexedBlock =
  ib_number :: int
  ib_hash :: Bytes32
  ib_timestamp :: uint64

datatype TXResult = TXResult_SUCCESS | TXResult_FAILURE

record IndexedTransaction =
  it_hash :: Bytes32
  it_blockNumber :: int
  it_transactionIndex :: int
  it_from :: "HexBytes option"
  it_to :: "HexBytes option"
  it_nonce :: uint64
  it_contractAddress :: "HexBytes option"
  it_result :: TXResult

record IndexedEvent =
  ie_blockNumber :: int
  ie_transactionIndex :: int
  ie_logIndex :: int
  ie_transactionHash :: Bytes32
  ie_signature :: Bytes32

record ConfirmedBlockMetadata =
  cb_number :: int
  cb_timestamp :: int

definition logToIndexedEvent :: "LogJSONRPC \<Rightarrow> IndexedEvent" where
  "logToIndexedEvent l =
     \<lparr>ie_blockNumber = sint (l_blockNumber l), ie_transactionIndex = sint (l_transactionIndex l),
      ie_logIndex = sint (l_logIndex l), ie_transactionHash = NewBytes32FromSlice (l_transactionHash l),
      ie_signature = (case l_topics l of [] \<Rightarrow> replicate 32 0 | t # _ \<Rightarrow> NewBytes32FromSlice t)\<rparr>"

definition blockInfoToIndexedBlock :: "BlockInfoJSONRPC \<Rightarrow> IndexedBlock" where
  "blockInfoToIndexedBlock block =
     \<lparr>ib_number = sint (b_number block), ib_hash = NewBytes32FromSlice (b_hash block), ib_timestamp = b_timestamp block\<rparr>"

section \<open>State\<close>

datatype dispatcherPhase =
    ReadNext
  | Querying uint64
  | Attaching BlockInfoJSONRPC
  | Confirming bool
  | Flushing bool
  | Waiting
  | Stopped

record blockIndexer =
  bi_fromBlock :: "uint64 option"
  bi_nextBlock :: "uint64 option"
  bi_highestConfirmedBlock :: ConfirmedBlockMetadata
  bi_blocksSinceCheckpoint :: "BlockInfoJSONRPC list"
  bi_newHeadToAdd :: "BlockInfoJSONRPC list"
  bi_requiredConfirmations :: nat
  bi_batchSize :: nat
  bi_ignoredTransactionTypes :: "int list"
  bi_dispatcherTap :: bool
  bi_cancelled :: bool
  bi_phase :: dispatcherPhase
  bi_lastFromNotification :: bool
  bi_timedOut :: bool
  bi_batch :: "BlockInfoJSONRPC list option"
  bi_indexedBlocks :: "IndexedBlock list"
  bi_indexedTransactions :: "IndexedTransaction list"
  bi_indexedEvents :: "IndexedEvent list"
  bi_dispatched :: "(BlockInfoJSONRPC \<times> TXReceiptJSONRPC list) list"

definition newBlockIndexer :: "uint64 option \<Rightarrow> nat \<Rightarrow> nat \<Rightarrow> int list \<Rightarrow> blockIndexer" where
  "newBlockIndexer from confirmations commitBatchSize ignored =
     \<lparr>bi_fromBlock = from, bi_nextBlock = None,
      bi_highestConfirmedBlock = \<lparr>cb_number = -1, cb_timestamp = -1\<rparr>,
      bi_blocksSinceCheckpoint = [], bi_newHeadToAdd = [],
      bi_requiredConfirmations = confirmations, bi_batchSize = max 1 commitBatchSize, bi_ignoredTransactionTypes = ignored,
      bi_dispatcherTap = False, bi_cancelled = False, bi_phase = Stopped, bi_lastFromNotification = False,
      bi_timedOut = False, bi_batch = None, bi_indexedBlocks = [], bi_indexedTransactions = [], bi_indexedEvents = [],
      bi_dispatched = []\<rparr>"

section \<open>Start\<close>

text \<open>A block carries its time in seconds. It is stored as that number; the scanner of the column scales a number that
  can only be seconds or milliseconds up to nanoseconds, and the restored time is scaled down again.\<close>

definition TimestampFromUnix :: "uint64 \<Rightarrow> uint64" where
  "TimestampFromUnix unixTime =
     (let t = (if sint unixTime < 10 ^ 10 then unixTime * 1000 else unixTime)
      in if sint t < 10 ^ 15 then t * 1000000 else t)"

definition unixSeconds :: "uint64 \<Rightarrow> int" where
  "unixSeconds ts = sint ts div 10 ^ 9"

text \<open>The row with the highest number.\<close>

fun highestRow :: "IndexedBlock list \<Rightarrow> IndexedBlock option" where
  "highestRow [] = None"
| "highestRow (b # bs) =
     (case highestRow bs of None \<Rightarrow> Some b | Some h \<Rightarrow> Some (if ib_number h > ib_number b then h else b))"

definition restoreCheckpoint :: "blockIndexer \<Rightarrow> blockIndexer" where
  "restoreCheckpoint s =
     (case highestRow (bi_indexedBlocks s) of
        Some b \<Rightarrow> s\<lparr>bi_nextBlock := Some (word_of_int (ib_number b + 1)),
                   bi_highestConfirmedBlock := \<lparr>cb_number = ib_number b, cb_timestamp = unixSeconds (TimestampFromUnix (ib_timestamp b))\<rparr>\<rparr>
      | None \<Rightarrow> s\<lparr>bi_nextBlock := bi_fromBlock s\<rparr>)"

text \<open>Restore the checkpoint, clear the volatile state, and start both goroutines; \<open>height\<close> is the head of the
  chain that the listener knows, for a start from the latest block.\<close>

definition startup :: "uint64 \<Rightarrow> blockIndexer \<Rightarrow> blockIndexer" where
  "startup height s = (case bi_nextBlock s of None \<Rightarrow> s\<lparr>bi_nextBlock := Some height\<rparr> | Some _ \<Rightarrow> s)"

definition startOrReset :: "uint64 \<Rightarrow> blockIndexer \<Rightarrow> blockIndexer" where
  "startOrReset height s =
     startup height ((restoreCheckpoint s)\<lparr>bi_blocksSinceCheckpoint := [], bi_newHeadToAdd := [], bi_cancelled := False,
       bi_phase := ReadNext, bi_lastFromNotification := False, bi_timedOut := False, bi_batch := None\<rparr>)"

section \<open>The notification processor\<close>

definition tapDispatcher :: "blockIndexer \<Rightarrow> blockIndexer" where
  "tapDispatcher s = s\<lparr>bi_dispatcherTap := True\<rparr>"

text \<open>The loop over the blocks since the checkpoint: at a block with the same number everything from there is
  discarded, and the block takes its place if it fits. \<open>None\<close> when there is no such block.\<close>

fun slotFork :: "BlockInfoJSONRPC \<Rightarrow> BlockInfoJSONRPC list \<Rightarrow> BlockInfoJSONRPC list \<Rightarrow> BlockInfoJSONRPC list option" where
  "slotFork block before [] = None"
| "slotFork block before (existing # rest) =
     (if b_number existing = b_number block
      then Some (if before = [] \<or> b_parentHash block = b_hash (last before) then before @ [block] else before)
      else slotFork block (before @ [existing]) rest)"

definition dispatchHead :: "blockIndexer \<Rightarrow> BlockInfoJSONRPC option" where
  "dispatchHead s =
     (if bi_newHeadToAdd s \<noteq> [] then Some (last (bi_newHeadToAdd s))
      else if bi_blocksSinceCheckpoint s \<noteq> [] then Some (last (bi_blocksSinceCheckpoint s)) else None)"

definition processBlockNotification :: "BlockInfoJSONRPC \<Rightarrow> blockIndexer \<Rightarrow> blockIndexer option" where
  "processBlockNotification block s =
     (case bi_nextBlock s of
        None \<Rightarrow> None
      | Some next \<Rightarrow>
          if b_number block < next then Some s
          else
            (let s1 = (if length (bi_newHeadToAdd s) > 10 then s\<lparr>bi_newHeadToAdd := []\<rparr> else s);
                 append = s1\<lparr>bi_newHeadToAdd := bi_newHeadToAdd s1 @ [block]\<rparr>;
                 conflict = (case slotFork block [] (bi_blocksSinceCheckpoint s1) of
                    None \<Rightarrow> s1
                  | Some kept \<Rightarrow> s1\<lparr>bi_blocksSinceCheckpoint := kept, bi_newHeadToAdd := []\<rparr>)
             in Some (tapDispatcher
                  (case dispatchHead s1 of
                     Some h \<Rightarrow>
                       if b_number block = b_number h + 1 \<and> b_parentHash block = b_hash h then append else conflict
                   | None \<Rightarrow> if b_number block = next then append else conflict))))"

section \<open>The dispatcher\<close>

text \<open>\<open>Inl\<close>: a notified block was taken over; \<open>Inr n\<close>: number \<open>n\<close> has to be fetched.\<close>

definition popDispatchedIfAvailable :: "blockIndexer \<Rightarrow> (unit + uint64) option \<times> blockIndexer" where
  "popDispatchedIfAvailable s =
     (case bi_newHeadToAdd s of
        b # rest \<Rightarrow>
          (Some (Inl ()), s\<lparr>bi_newHeadToAdd := rest, bi_blocksSinceCheckpoint := bi_blocksSinceCheckpoint s @ [b],
                          bi_lastFromNotification := True\<rparr>)
      | [] \<Rightarrow>
          (case bi_nextBlock s of
             None \<Rightarrow> (None, s)
           | Some next \<Rightarrow>
               (Some (Inr (if bi_blocksSinceCheckpoint s \<noteq> [] then b_number (last (bi_blocksSinceCheckpoint s)) + 1 else next)), s)))"

text \<open>The first section of \<^verbatim>\<open>readNextBlock\<close>, up to the query.\<close>

definition readNextBlock :: "blockIndexer \<Rightarrow> blockIndexer option" where
  "readNextBlock s =
     (case popDispatchedIfAvailable s of
        (None, _) \<Rightarrow> None
      | (Some (Inl _), s1) \<Rightarrow> Some (s1\<lparr>bi_phase := Confirming True\<rparr>)
      | (Some (Inr n), s1) \<Rightarrow>
          if bi_lastFromNotification s1 then Some (s1\<lparr>bi_phase := Confirming False\<rparr>)
          else Some (s1\<lparr>bi_phase := Querying n\<rparr>))"

text \<open>The second section, with the block the query found.\<close>

definition attachBlock :: "BlockInfoJSONRPC \<Rightarrow> blockIndexer \<Rightarrow> blockIndexer option" where
  "attachBlock nextBlock s =
     (case popDispatchedIfAvailable s of
        (None, _) \<Rightarrow> None
      | (Some (Inl _), s1) \<Rightarrow> Some (s1\<lparr>bi_phase := Confirming True\<rparr>)
      | (Some (Inr _), s1) \<Rightarrow>
          if bi_blocksSinceCheckpoint s1 \<noteq> [] \<and> b_hash (last (bi_blocksSinceCheckpoint s1)) \<noteq> b_parentHash nextBlock
          then Some (s1\<lparr>bi_blocksSinceCheckpoint := butlast (bi_blocksSinceCheckpoint s1), bi_phase := Confirming True\<rparr>)
          else Some (s1\<lparr>bi_blocksSinceCheckpoint := bi_blocksSinceCheckpoint s1 @ [nextBlock], bi_phase := Confirming True\<rparr>))"

definition getNextConfirmed :: "blockIndexer \<Rightarrow> BlockInfoJSONRPC option \<times> blockIndexer" where
  "getNextConfirmed s =
     (case bi_blocksSinceCheckpoint s of
        b # rest \<Rightarrow>
          if Suc (length rest) > bi_requiredConfirmations s
          then (Some b, s\<lparr>bi_blocksSinceCheckpoint := rest, bi_nextBlock := Some (b_number b + 1)\<rparr>)
          else (None, s)
      | [] \<Rightarrow> (None, s))"

text \<open>The end of a round of the loop.\<close>

definition roundEnd :: "bool \<Rightarrow> blockIndexer \<Rightarrow> blockIndexer" where
  "roundEnd found s =
     (if found then s\<lparr>bi_timedOut := False, bi_phase := ReadNext\<rparr>
      else s\<lparr>bi_timedOut := False, bi_lastFromNotification := False, bi_phase := Waiting\<rparr>)"

definition addToBatch :: "BlockInfoJSONRPC option \<Rightarrow> blockIndexer \<Rightarrow> blockIndexer" where
  "addToBatch pendingDispatch s =
     (case pendingDispatch of
        None \<Rightarrow> s
      | Some b \<Rightarrow> s\<lparr>bi_batch := Some ((case bi_batch s of None \<Rightarrow> [] | Some bs \<Rightarrow> bs) @ [b])\<rparr>)"

definition confirmRound :: "bool \<Rightarrow> blockIndexer \<Rightarrow> blockIndexer" where
  "confirmRound found s =
     (let (pendingDispatch, s1) = (if found then getNextConfirmed s else (None, s));
          s2 = addToBatch pendingDispatch s1
      in case bi_batch s2 of
           None \<Rightarrow> roundEnd found s2
         | Some bs \<Rightarrow>
             if bi_timedOut s2 \<or> length bs \<ge> bi_batchSize s2 then s2\<lparr>bi_phase := Flushing found\<rparr> else roundEnd found s2)"

section \<open>Writing a batch\<close>

text \<open>The row of a receipt. Receipts are written only if their block has as many transactions, so the index is in range.\<close>

definition indexedTransaction :: "BlockInfoJSONRPC \<Rightarrow> nat \<Rightarrow> TXReceiptJSONRPC \<Rightarrow> IndexedTransaction" where
  "indexedTransaction block txIndex r =
     \<lparr>it_hash = NewBytes32FromSlice (r_transactionHash r), it_blockNumber = sint (r_blockNumber r),
      it_transactionIndex = int txIndex, it_from = r_from r, it_to = r_to r,
      it_nonce = pt_nonce (b_transactions block ! txIndex), it_contractAddress = r_contractAddress r,
      it_result = (if r_status r = 1 then TXResult_SUCCESS else TXResult_FAILURE)\<rparr>"

fun receiptRows ::
  "int list \<Rightarrow> BlockInfoJSONRPC \<Rightarrow> nat \<Rightarrow> TXReceiptJSONRPC list \<Rightarrow> IndexedTransaction list \<times> IndexedEvent list" where
  "receiptRows ignored block txIndex [] = ([], [])"
| "receiptRows ignored block txIndex (r # rs) =
     (let (txs, evs) = receiptRows ignored block (Suc txIndex) rs
      in if r_type r \<in> set ignored then (txs, evs)
         else (indexedTransaction block txIndex r # txs, map logToIndexedEvent (r_logs r) @ evs))"

definition batchRows ::
  "int list \<Rightarrow> (BlockInfoJSONRPC \<times> TXReceiptJSONRPC list) list \<Rightarrow> IndexedTransaction list \<times> IndexedEvent list" where
  "batchRows ignored batch =
     (concat (map (\<lambda>(b, rs). fst (receiptRows ignored b 0 rs)) batch),
      concat (map (\<lambda>(b, rs). snd (receiptRows ignored b 0 rs)) batch))"

definition newHighest :: "BlockInfoJSONRPC list \<Rightarrow> ConfirmedBlockMetadata \<Rightarrow> ConfirmedBlockMetadata" where
  "newHighest bs old =
     (if bs = [] then old
      else let m = \<lparr>cb_number = sint (b_number (last bs)), cb_timestamp = sint (b_timestamp (last bs))\<rparr>
           in if cb_number m \<ge> 0 then m else old)"

text \<open>\<open>committed\<close> says whether the database transaction went through; if not, the context was cancelled.\<close>

definition writeBatch :: "bool \<Rightarrow> (BlockInfoJSONRPC \<times> TXReceiptJSONRPC list) list \<Rightarrow> blockIndexer \<Rightarrow> blockIndexer" where
  "writeBatch committed batch s =
     (let (txs, evs) = batchRows (bi_ignoredTransactionTypes s) batch;
          s1 = (if committed
                then s\<lparr>bi_indexedBlocks := bi_indexedBlocks s @ map (blockInfoToIndexedBlock \<circ> fst) batch,
                       bi_indexedTransactions := bi_indexedTransactions s @ txs,
                       bi_indexedEvents := bi_indexedEvents s @ evs,
                       bi_dispatched := bi_dispatched s @ batch\<rparr>
                else s)
      in s1\<lparr>bi_highestConfirmedBlock := newHighest (map fst batch) (bi_highestConfirmedBlock s1), bi_batch := None\<rparr>)"

definition GetConfirmedBlockHeight :: "blockIndexer \<Rightarrow> uint64 option" where
  "GetConfirmedBlockHeight s =
     (if cb_number (bi_highestConfirmedBlock s) < 0 then None
      else Some (word_of_int (cb_number (bi_highestConfirmedBlock s))))"

section \<open>Runs\<close>

text \<open>What an Ethereum node guarantees of the blocks it reports: a block names as its parent a block of the number
  before, and numbers fit the signed column they are stored in.\<close>

definition ledger :: "BlockInfoJSONRPC set \<Rightarrow> bool" where
  "ledger R \<longleftrightarrow> (\<forall>p \<in> R. \<forall>b \<in> R. b_parentHash b = b_hash p \<longrightarrow> b_number b = b_number p + 1)
     \<and> (\<forall>b \<in> R. b_number b < 2 ^ 63 - 1)"

definition hydrated :: "BlockInfoJSONRPC list \<Rightarrow> (BlockInfoJSONRPC \<times> TXReceiptJSONRPC list) list \<Rightarrow> bool" where
  "hydrated bs batch \<longleftrightarrow> map fst batch = bs \<and> (\<forall>(b, rs) \<in> set batch. \<exists>reply. dispatchEnrich b reply = Inr rs)"

inductive indexer_step :: "BlockInfoJSONRPC set \<Rightarrow> blockIndexer \<Rightarrow> blockIndexer \<Rightarrow> bool" for R where
  notification: "b \<in> R \<Longrightarrow> bi_nextBlock s \<noteq> None \<Longrightarrow> processBlockNotification b s = Some s' \<Longrightarrow> indexer_step R s s'"
| read_next: "bi_phase s = ReadNext \<Longrightarrow> readNextBlock s = Some s' \<Longrightarrow> indexer_step R s s'"
| query_found: "bi_phase s = Querying n \<Longrightarrow> b \<in> R \<Longrightarrow> b_number b = n \<Longrightarrow> indexer_step R s (s\<lparr>bi_phase := Attaching b\<rparr>)"
| query_not_found: "bi_phase s = Querying n \<Longrightarrow> indexer_step R s (s\<lparr>bi_phase := Confirming False\<rparr>)"
| query_retried: "bi_phase s = Querying n \<Longrightarrow> indexer_step R s (s\<lparr>bi_phase := ReadNext\<rparr>)"
| attach: "bi_phase s = Attaching b \<Longrightarrow> attachBlock b s = Some s' \<Longrightarrow> indexer_step R s s'"
| confirm: "bi_phase s = Confirming found \<Longrightarrow> indexer_step R s (confirmRound found s)"
| flush_commit: "bi_phase s = Flushing found \<Longrightarrow> bi_batch s = Some bs \<Longrightarrow> hydrated bs batch \<Longrightarrow> \<not> bi_cancelled s
    \<Longrightarrow> indexer_step R s (roundEnd found (writeBatch True batch s))"
| flush_cancelled: "bi_phase s = Flushing found \<Longrightarrow> bi_batch s = Some bs \<Longrightarrow> hydrated bs batch \<Longrightarrow> bi_cancelled s
    \<Longrightarrow> indexer_step R s (roundEnd found (writeBatch False batch s))"
| flush_reset: "bi_phase s = Flushing found \<Longrightarrow> bi_batch s = Some bs \<Longrightarrow> b \<in> set bs \<Longrightarrow> dispatchEnrich b reply = Inl e
    \<Longrightarrow> indexer_step R s (s\<lparr>bi_phase := Stopped\<rparr>)"
| tapped: "bi_phase s = Waiting \<Longrightarrow> bi_dispatcherTap s
    \<Longrightarrow> indexer_step R s (s\<lparr>bi_dispatcherTap := False, bi_phase := ReadNext\<rparr>)"
| timed_out: "bi_phase s = Waiting \<Longrightarrow> indexer_step R s (s\<lparr>bi_timedOut := True, bi_phase := ReadNext\<rparr>)"
| cancelled: "indexer_step R s (s\<lparr>bi_cancelled := True\<rparr>)"
| stopped: "bi_phase s = Waiting \<Longrightarrow> bi_cancelled s \<Longrightarrow> indexer_step R s (s\<lparr>bi_phase := Stopped\<rparr>)"
| restarted: "bi_phase s = Stopped \<Longrightarrow> indexer_step R s (startOrReset height s)"
| crashed: "indexer_step R s ((newBlockIndexer (bi_fromBlock s) (bi_requiredConfirmations s) (bi_batchSize s)
      (bi_ignoredTransactionTypes s))\<lparr>bi_indexedBlocks := bi_indexedBlocks s,
      bi_indexedTransactions := bi_indexedTransactions s, bi_indexedEvents := bi_indexedEvents s, bi_dispatched := bi_dispatched s\<rparr>)"

inductive indexer_run :: "BlockInfoJSONRPC set \<Rightarrow> blockIndexer \<Rightarrow> bool" for R where
  run_start: "indexer_run R (newBlockIndexer from confirmations commitBatchSize ignored)"
| run_step: "indexer_run R s \<Longrightarrow> indexer_step R s s' \<Longrightarrow> indexer_run R s'"

section \<open>Rounds without notifications\<close>

text \<open>A round of the dispatcher in which the node answers at once, by \<open>node\<close> and \<open>receipts\<close>.\<close>

definition flushRound :: "(BlockInfoJSONRPC \<Rightarrow> receiptsReply) \<Rightarrow> blockIndexer \<Rightarrow> blockIndexer" where
  "flushRound receipts s =
     (case (bi_phase s, bi_batch s) of
        (Flushing found, Some bs) \<Rightarrow>
          (let results = map (\<lambda>b. dispatchEnrich b (receipts b)) bs
           in if \<forall>r \<in> set results. \<not> isl r then roundEnd found (writeBatch True (zip bs (map projr results)) s)
              else s\<lparr>bi_phase := Stopped\<rparr>)
      | _ \<Rightarrow> s)"

definition dispatcherRound ::
  "(uint64 \<Rightarrow> BlockInfoJSONRPC option) \<Rightarrow> (BlockInfoJSONRPC \<Rightarrow> receiptsReply) \<Rightarrow> blockIndexer \<Rightarrow> blockIndexer option" where
  "dispatcherRound node receipts s =
     (case readNextBlock s of
        None \<Rightarrow> None
      | Some s1 \<Rightarrow>
          (case (case bi_phase s1 of
                   Querying n \<Rightarrow> (case node n of None \<Rightarrow> Some (s1\<lparr>bi_phase := Confirming False\<rparr>) | Some b \<Rightarrow> attachBlock b s1)
                 | _ \<Rightarrow> Some s1) of
             None \<Rightarrow> None
           | Some s2 \<Rightarrow>
               (case bi_phase s2 of
                  Confirming found \<Rightarrow> Some (flushRound receipts (confirmRound found s2))
                | _ \<Rightarrow> None)))"

fun dispatcherRounds ::
  "(uint64 \<Rightarrow> BlockInfoJSONRPC option) \<Rightarrow> (BlockInfoJSONRPC \<Rightarrow> receiptsReply) \<Rightarrow> nat \<Rightarrow> blockIndexer \<Rightarrow> blockIndexer option" where
  "dispatcherRounds node receipts 0 s = Some s"
| "dispatcherRounds node receipts (Suc k) s =
     (case dispatcherRound node receipts s of None \<Rightarrow> None | Some s' \<Rightarrow> dispatcherRounds node receipts k s')"

end
