(* ===== verification/BlockIndexerProperties.thy ===== *)
theory BlockIndexerProperties
  imports BlockIndexer
begin

text \<open>
  What holds of the block indexer in every run, whatever the order of notifications, queries, forks, failed
  batches, restarts and crashes: the indexed blocks are consecutive, and each of them had the required number of
  blocks on top of it.
\<close>

section \<open>Consecutive and linked blocks\<close>

fun consecutive :: "uint64 \<Rightarrow> BlockInfoJSONRPC list \<Rightarrow> bool" where
  "consecutive n [] = True"
| "consecutive n (b # bs) = (b_number b = n \<and> consecutive (n + 1) bs)"

abbreviation hashLinked :: "BlockInfoJSONRPC list \<Rightarrow> bool" where
  "hashLinked bs \<equiv> successively (\<lambda>p b. b_parentHash b = b_hash p) bs"

lemma consecutive_append [simp]:
  "consecutive n (xs @ ys) \<longleftrightarrow> consecutive n xs \<and> consecutive (n + of_nat (length xs)) ys"
  by (induction xs arbitrary: n) (auto simp: ac_simps)

lemma consecutive_last: "consecutive n xs \<Longrightarrow> xs \<noteq> [] \<Longrightarrow> b_number (last xs) + 1 = n + of_nat (length xs)"
  by (cases xs rule: rev_cases) (auto simp: ac_simps)

definition pending :: "blockIndexer \<Rightarrow> BlockInfoJSONRPC list" where
  "pending s = bi_blocksSinceCheckpoint s @ bi_newHeadToAdd s"

text \<open>The blocks behind the checkpoint \<open>n\<close>: a chain of consecutive, linked blocks that the node has reported.\<close>

definition pendingOk :: "BlockInfoJSONRPC set \<Rightarrow> uint64 \<Rightarrow> BlockInfoJSONRPC list \<Rightarrow> bool" where
  "pendingOk R n bs \<longleftrightarrow> consecutive n bs \<and> hashLinked bs \<and> set bs \<subseteq> R"

lemma pendingOk_snoc:
  "pendingOk R n (bs @ [b]) \<longleftrightarrow> pendingOk R n bs \<and> b \<in> R \<and> b_number b = n + of_nat (length bs)
     \<and> (bs \<noteq> [] \<longrightarrow> b_parentHash b = b_hash (last bs))"
  by (auto simp: pendingOk_def successively_append_iff)

lemma pendingOk_Nil [simp]: "pendingOk R n []"
  by (simp add: pendingOk_def)

lemma pendingOk_single [simp]: "pendingOk R n [b] \<longleftrightarrow> b \<in> R \<and> b_number b = n"
  by (auto simp: pendingOk_def)

lemma pendingOk_prefix: "pendingOk R n (bs @ cs) \<Longrightarrow> pendingOk R n bs"
  by (auto simp: pendingOk_def successively_append_iff)

lemma pendingOk_tail: "pendingOk R n (b # bs) \<Longrightarrow> b_number b = n \<and> pendingOk R (n + 1) bs \<and> b \<in> R"
  by (auto simp: pendingOk_def successively_Cons)

text \<open>A block that names the last block as its parent has the next number.\<close>

lemma pendingOk_attach:
  assumes "ledger R" and "pendingOk R n bs" and "b \<in> R" and "bs \<noteq> []" and "b_parentHash b = b_hash (last bs)"
  shows "pendingOk R n (bs @ [b])"
proof -
  have "last bs \<in> R" using assms(2,4) by (auto simp: pendingOk_def)
  with assms(1,3,5) have "b_number b = b_number (last bs) + 1" by (auto simp: ledger_def)
  moreover have "b_number (last bs) + 1 = n + of_nat (length bs)"
    using assms(2,4) by (intro consecutive_last) (simp_all add: pendingOk_def)
  ultimately show ?thesis using assms by (simp add: pendingOk_snoc)
qed

lemma slotFork_ok:
  assumes "pendingOk R n (before @ bs)" and "b \<in> R" and "slotFork b before bs = Some kept"
  shows "pendingOk R n kept \<and> kept \<noteq> []"
  using assms
proof (induction bs arbitrary: before)
  case (Cons x xs)
  show ?case
  proof (cases "b_number x = b_number b")
    case True
    have "pendingOk R n before" "b_number x = n + of_nat (length before)"
      using Cons.prems(1) by (auto simp: pendingOk_def successively_append_iff)
    with True Cons.prems show ?thesis by (auto simp: pendingOk_snoc split: if_splits)
  next
    case False
    with Cons.prems show ?thesis using Cons.IH [of "before @ [x]"] by simp
  qed
qed simp

section \<open>The invariant\<close>

text \<open>A block is settled if a chain of the required number of reported blocks follows it.\<close>

definition settled :: "BlockInfoJSONRPC set \<Rightarrow> nat \<Rightarrow> BlockInfoJSONRPC \<Rightarrow> bool" where
  "settled R k b \<longleftrightarrow> (\<exists>ds. length ds = k \<and> hashLinked (b # ds) \<and> set (b # ds) \<subseteq> R)"

definition batchBlocks :: "blockIndexer \<Rightarrow> BlockInfoJSONRPC list" where
  "batchBlocks s = (case bi_batch s of None \<Rightarrow> [] | Some bs \<Rightarrow> bs)"

text \<open>The blocks on their way from the checkpoint of the database to the one in memory.\<close>

definition tablesOk :: "BlockInfoJSONRPC set \<Rightarrow> blockIndexer \<Rightarrow> bool" where
  "tablesOk R s \<longleftrightarrow>
     (\<exists>start. consecutive start (map fst (bi_dispatched s))
        \<and> bi_indexedBlocks s = map (blockInfoToIndexedBlock \<circ> fst) (bi_dispatched s)
        \<and> (\<forall>b \<in> set (map fst (bi_dispatched s)). settled R (bi_requiredConfirmations s) b))"

definition flowOk :: "BlockInfoJSONRPC set \<Rightarrow> uint64 \<Rightarrow> blockIndexer \<Rightarrow> bool" where
  "flowOk R n s \<longleftrightarrow>
     (\<exists>start. consecutive start (map fst (bi_dispatched s) @ batchBlocks s)
        \<and> n = start + of_nat (length (bi_dispatched s) + length (batchBlocks s)))
     \<and> (\<forall>b \<in> set (batchBlocks s). settled R (bi_requiredConfirmations s) b)"

fun phaseOk :: "BlockInfoJSONRPC set \<Rightarrow> uint64 \<Rightarrow> BlockInfoJSONRPC list \<Rightarrow> dispatcherPhase \<Rightarrow> bool" where
  "phaseOk R n since (Querying m) = (since = [] \<longrightarrow> m = n)"
| "phaseOk R n since (Attaching b) = (b \<in> R \<and> (since = [] \<longrightarrow> b_number b = n))"
| "phaseOk R n since _ = True"

definition runningOk :: "BlockInfoJSONRPC set \<Rightarrow> blockIndexer \<Rightarrow> bool" where
  "runningOk R s \<longleftrightarrow>
     (\<exists>n. bi_nextBlock s = Some n \<and> pendingOk R n (pending s) \<and> flowOk R n s
        \<and> phaseOk R n (bi_blocksSinceCheckpoint s) (bi_phase s))"

definition indexerOk :: "BlockInfoJSONRPC set \<Rightarrow> blockIndexer \<Rightarrow> bool" where
  "indexerOk R s \<longleftrightarrow> tablesOk R s \<and> (bi_nextBlock s = None \<longrightarrow> bi_phase s = Stopped)
     \<and> (bi_nextBlock s \<noteq> None \<longrightarrow> bi_cancelled s \<or> runningOk R s)"

text \<open>What the steps before the flush leave alone.\<close>

definition sameTables :: "blockIndexer \<Rightarrow> blockIndexer \<Rightarrow> bool" where
  "sameTables s s' \<longleftrightarrow> bi_dispatched s' = bi_dispatched s \<and> bi_indexedBlocks s' = bi_indexedBlocks s
     \<and> bi_requiredConfirmations s' = bi_requiredConfirmations s"

lemma sameTables_ok: "sameTables s s' \<Longrightarrow> tablesOk R s' = tablesOk R s"
  by (simp add: sameTables_def tablesOk_def)

lemma flowOk_same: "sameTables s s' \<Longrightarrow> bi_batch s' = bi_batch s \<Longrightarrow> flowOk R n s' = flowOk R n s"
  by (simp add: sameTables_def flowOk_def batchBlocks_def)

section \<open>The steps keep the invariant\<close>

lemma dispatchHead_last: "dispatchHead s = (if pending s = [] then None else Some (last (pending s)))"
  by (auto simp: dispatchHead_def pending_def)

lemma runningOk_moved:
  assumes "runningOk R s" and "bi_nextBlock s = Some n" and "sameTables s s'" and "bi_nextBlock s' = Some n"
    and "bi_batch s' = bi_batch s" and "pendingOk R n (pending s')" and "phaseOk R n (bi_blocksSinceCheckpoint s') (bi_phase s')"
  shows "runningOk R s'"
  using assms flowOk_same [OF assms(3,5)] by (auto simp: runningOk_def)

lemma notification_ok:
  assumes "runningOk R s" and "b \<in> R" and "processBlockNotification b s = Some s'"
  shows "runningOk R s' \<and> sameTables s s'"
proof -
  obtain n where n: "bi_nextBlock s = Some n" "pendingOk R n (pending s)"
    "phaseOk R n (bi_blocksSinceCheckpoint s) (bi_phase s)"
    using assms(1) by (auto simp: runningOk_def)
  define t where "t = (if length (bi_newHeadToAdd s) > 10 then s\<lparr>bi_newHeadToAdd := []\<rparr> else s)"
  have t: "pendingOk R n (pending t)" "bi_blocksSinceCheckpoint t = bi_blocksSinceCheckpoint s"
    using n(2) by (auto simp: t_def pending_def intro: pendingOk_prefix)
  have same: "bi_nextBlock s' = Some n" "sameTables s s'" "bi_batch s' = bi_batch s" "bi_phase s' = bi_phase s"
    using assms(3) n(1)
    by (auto simp: processBlockNotification_def tapDispatcher_def sameTables_def Let_def split: if_splits option.splits)
  have append: "pendingOk R n (pending (t\<lparr>bi_newHeadToAdd := bi_newHeadToAdd t @ [b]\<rparr>))"
    if "pending t = [] \<Longrightarrow> b_number b = n" "pending t \<noteq> [] \<Longrightarrow> b_number b = b_number (last (pending t)) + 1 \<and> b_parentHash b = b_hash (last (pending t))"
  proof -
    have "b_number b = n + of_nat (length (pending t))"
      using that t(1) consecutive_last [of n "pending t"] by (cases "pending t = []") (auto simp: pendingOk_def)
    then have "pendingOk R n (pending t @ [b])" using that t(1) assms(2) by (simp add: pendingOk_snoc)
    then show ?thesis by (simp add: pending_def)
  qed
  have fork: "pendingOk R n kept \<and> kept \<noteq> []" if "slotFork b [] (bi_blocksSinceCheckpoint t) = Some kept" for kept
    using slotFork_ok [of R n "[]" "bi_blocksSinceCheckpoint t" b kept] that t(1) assms(2)
    by (auto simp: pending_def intro: pendingOk_prefix)
  have "pendingOk R n (pending s') \<and> (bi_blocksSinceCheckpoint s' = [] \<longrightarrow> bi_blocksSinceCheckpoint s = [])"
    using assms(3) n(1,2) t append fork unfolding processBlockNotification_def t_def [symmetric] Let_def dispatchHead_last
    by (auto simp: tapDispatcher_def pending_def split: if_splits option.splits)
  then have "phaseOk R n (bi_blocksSinceCheckpoint s') (bi_phase s')" using n(3) same(4) by (cases "bi_phase s") auto
  then show ?thesis using runningOk_moved [OF assms(1) n(1) same(2,1,3)] same(2) \<open>pendingOk R n (pending s') \<and> _\<close> by blast
qed

lemma pop_ok:
  assumes "popDispatchedIfAvailable s = (Some r, s')"
  shows "pending s' = pending s" "sameTables s s'" "bi_nextBlock s' = bi_nextBlock s" "bi_batch s' = bi_batch s"
    "r = Inr m \<Longrightarrow> s' = s \<and> bi_newHeadToAdd s = [] \<and> (bi_blocksSinceCheckpoint s = [] \<longrightarrow> bi_nextBlock s = Some m)"
  using assms by (auto simp: popDispatchedIfAvailable_def pending_def sameTables_def split: list.splits option.splits)

lemma read_ok:
  assumes "runningOk R s" and "readNextBlock s = Some s'"
  shows "runningOk R s' \<and> sameTables s s'"
proof -
  obtain n where n: "bi_nextBlock s = Some n" "pendingOk R n (pending s)" using assms(1) by (auto simp: runningOk_def)
  obtain r s1 where pop: "popDispatchedIfAvailable s = (Some r, s1)"
    using assms(2) by (auto simp: readNextBlock_def split: prod.splits option.splits)
  have "sameTables s s' \<and> bi_nextBlock s' = Some n \<and> bi_batch s' = bi_batch s \<and> pending s' = pending s"
    using assms(2) pop_ok [OF pop] pop n(1)
    by (auto simp: readNextBlock_def sameTables_def pending_def split: sum.splits if_splits)
  moreover have "phaseOk R n (bi_blocksSinceCheckpoint s') (bi_phase s')"
    using assms(2) pop pop_ok(5) [OF pop] n(1) by (auto simp: readNextBlock_def split: sum.splits if_splits)
  ultimately show ?thesis using runningOk_moved [OF assms(1) n(1)] n(2) by metis
qed

lemma attach_ok:
  assumes "ledger R" and "runningOk R s" and "bi_phase s = Attaching b" and "attachBlock b s = Some s'"
  shows "runningOk R s' \<and> sameTables s s'"
proof -
  obtain n where n: "bi_nextBlock s = Some n" "pendingOk R n (pending s)" and b: "b \<in> R" "bi_blocksSinceCheckpoint s = [] \<Longrightarrow> b_number b = n"
    using assms(2,3) by (auto simp: runningOk_def)
  obtain r s1 where pop: "popDispatchedIfAvailable s = (Some r, s1)"
    using assms(4) by (auto simp: attachBlock_def split: prod.splits option.splits)
  have same: "sameTables s s' \<and> bi_nextBlock s' = Some n \<and> bi_batch s' = bi_batch s \<and> bi_phase s' = Confirming True"
    using assms(4) pop_ok [OF pop] pop n(1) by (auto simp: attachBlock_def sameTables_def split: sum.splits if_splits)
  have "pendingOk R n (pending s')"
  proof (cases r)
    case (Inl u)
    then show ?thesis using assms(4) pop pop_ok(1) [OF pop] n(2) by (auto simp: attachBlock_def pending_def)
  next
    case (Inr m)
    let ?since = "bi_blocksSinceCheckpoint s"
    have s1: "s1 = s" "bi_newHeadToAdd s = []" using pop_ok(5) [OF pop Inr] by auto
    have since: "pendingOk R n ?since" using n(2) s1(2) by (simp add: pending_def)
    have "pendingOk R n (butlast ?since)"
      using since by (cases ?since rule: rev_cases) (auto intro: pendingOk_prefix)
    moreover have "pendingOk R n (?since @ [b])" if "?since \<noteq> [] \<longrightarrow> b_hash (last ?since) = b_parentHash b"
      using that pendingOk_attach [OF assms(1) since b(1)] b by (cases "?since = []") auto
    ultimately show ?thesis
      using assms(4) pop Inr s1 by (auto simp: attachBlock_def pending_def split: if_splits)
  qed
  then show ?thesis using runningOk_moved [OF assms(2) n(1)] same by (metis phaseOk.simps(4))
qed

lemma phase_free [simp]: "phaseOk R n since (if f then ReadNext else Waiting)"
  by simp

lemma roundEnd_ok: "runningOk R s \<Longrightarrow> runningOk R (roundEnd found s)"
  by (auto simp: roundEnd_def runningOk_def pending_def flowOk_def batchBlocks_def)

lemma roundEnd_same [simp]: "tablesOk R (roundEnd found s) = tablesOk R s"
  by (simp add: roundEnd_def tablesOk_def)

lemma getNextConfirmed_ok:
  assumes "runningOk R s" and "bi_phase s = Confirming found" and "getNextConfirmed s = (pd, s')"
  shows "runningOk R (addToBatch pd s') \<and> sameTables s (addToBatch pd s')"
proof (cases pd)
  case None
  then show ?thesis using assms
    by (auto simp: getNextConfirmed_def addToBatch_def sameTables_def split: list.splits if_splits)
next
  case (Some b)
  obtain rest where since: "bi_blocksSinceCheckpoint s = b # rest" "length rest \<ge> bi_requiredConfirmations s"
    "s' = s\<lparr>bi_blocksSinceCheckpoint := rest, bi_nextBlock := Some (b_number b + 1)\<rparr>"
    using assms(3) Some by (auto simp: getNextConfirmed_def split: list.splits if_splits)
  obtain n where n: "bi_nextBlock s = Some n" "pendingOk R n (pending s)" "flowOk R n s" using assms(1) by (auto simp: runningOk_def)
  let ?s = "addToBatch pd s'"
  have p: "pendingOk R n (b # rest @ bi_newHeadToAdd s)" using n(2) since(1) by (simp add: pending_def)
  have "hashLinked (b # take (bi_requiredConfirmations s) rest) \<and> set (b # take (bi_requiredConfirmations s) rest) \<subseteq> R"
  proof -
    have "b # rest @ bi_newHeadToAdd s = (b # take (bi_requiredConfirmations s) rest) @ drop (bi_requiredConfirmations s) rest @ bi_newHeadToAdd s"
      by simp
    with p have "pendingOk R n (b # take (bi_requiredConfirmations s) rest)" using pendingOk_prefix by metis
    then show ?thesis by (simp add: pendingOk_def)
  qed
  then have set: "settled R (bi_requiredConfirmations s) b"
    unfolding settled_def using since(2) by (intro exI [of _ "take (bi_requiredConfirmations s) rest"]) simp
  have batch: "batchBlocks ?s = batchBlocks s @ [b]" "bi_dispatched ?s = bi_dispatched s"
    "bi_requiredConfirmations ?s = bi_requiredConfirmations s"
    using Some since(3) by (auto simp: batchBlocks_def addToBatch_def split: option.splits)
  have "flowOk R (n + 1) ?s"
    using n(3) set pendingOk_tail [OF p] batch unfolding flowOk_def by (auto simp: ac_simps)
  moreover have "pendingOk R (n + 1) (pending ?s) \<and> bi_nextBlock ?s = Some (n + 1) \<and> bi_phase ?s = Confirming found"
    using pendingOk_tail [OF p] since(3) Some assms(2) by (auto simp: pending_def addToBatch_def)
  ultimately show ?thesis using Some since(3) by (auto simp: runningOk_def sameTables_def addToBatch_def)
qed

lemma confirm_ok:
  assumes "runningOk R s" and "bi_phase s = Confirming found"
  shows "runningOk R (confirmRound found s) \<and> tablesOk R (confirmRound found s) = tablesOk R s"
proof -
  obtain pd s1 where s1: "(if found then getNextConfirmed s else (None, s)) = (pd, s1)" by fastforce
  have ok: "runningOk R (addToBatch pd s1)" "sameTables s (addToBatch pd s1)"
    using getNextConfirmed_ok [OF assms] s1 assms(1) by (auto simp: addToBatch_def sameTables_def split: if_splits)
  have "runningOk R ((addToBatch pd s1)\<lparr>bi_phase := Flushing found\<rparr>)"
    using ok(1) by (auto simp: runningOk_def pending_def flowOk_def batchBlocks_def)
  moreover have "tablesOk R ((addToBatch pd s1)\<lparr>bi_phase := Flushing found\<rparr>) = tablesOk R (addToBatch pd s1)"
    by (simp add: tablesOk_def)
  ultimately show ?thesis
    using s1 roundEnd_ok [OF ok(1), of found] sameTables_ok [OF ok(2), of R]
    by (auto simp: confirmRound_def Let_def split: option.splits if_splits)
qed

lemma writeBatch_fields:
  assumes "hydrated bs batch"
  shows "bi_dispatched (writeBatch c batch s) = (if c then bi_dispatched s @ batch else bi_dispatched s)"
    "bi_indexedBlocks (writeBatch c batch s) = (if c then bi_indexedBlocks s @ map blockInfoToIndexedBlock bs else bi_indexedBlocks s)"
    "bi_requiredConfirmations (writeBatch c batch s) = bi_requiredConfirmations s"
    "batchBlocks (writeBatch c batch s) = []" "pending (writeBatch c batch s) = pending s"
    "bi_nextBlock (writeBatch c batch s) = bi_nextBlock s" "bi_blocksSinceCheckpoint (writeBatch c batch s) = bi_blocksSinceCheckpoint s"
    "bi_phase (writeBatch c batch s) = bi_phase s"
  using assms by (auto simp: writeBatch_def batchRows_def pending_def batchBlocks_def hydrated_def)

lemma commit_ok:
  assumes "runningOk R s" and "tablesOk R s" and "bi_batch s = Some bs" and "hydrated bs batch"
  shows "runningOk R (writeBatch True batch s) \<and> tablesOk R (writeBatch True batch s)"
proof -
  obtain n start where n: "bi_nextBlock s = Some n" "pendingOk R n (pending s)" "flowOk R n s"
    "phaseOk R n (bi_blocksSinceCheckpoint s) (bi_phase s)"
    "consecutive start (map fst (bi_dispatched s) @ batchBlocks s)"
    "n = start + of_nat (length (bi_dispatched s) + length (batchBlocks s))"
    using assms(1) by (auto simp: runningOk_def flowOk_def)
  have b: "batchBlocks s = map fst batch" "bs = map fst batch" using assms(3,4) by (auto simp: batchBlocks_def hydrated_def)
  have "flowOk R n (writeBatch True batch s)"
    using n(5,6) unfolding flowOk_def writeBatch_fields [OF assms(4)] b by (auto intro!: exI [of _ start])
  moreover have "tablesOk R (writeBatch True batch s)"
    using assms(2) n(3,5) b(1) unfolding tablesOk_def writeBatch_fields [OF assms(4)]
    by (auto simp: flowOk_def b(2) intro!: exI [of _ start])
  ultimately show ?thesis
    using n(1,2,4) by (simp add: runningOk_def writeBatch_fields [OF assms(4)])
qed

section \<open>Cancelled writes and restarts\<close>

lemma tables_in_ledger: "tablesOk R s \<Longrightarrow> set (map fst (bi_dispatched s)) \<subseteq> R"
  by (auto simp: tablesOk_def settled_def)

lemma sint_small:
  fixes n :: uint64
  assumes "n < 2 ^ 63"
  shows "sint n = uint n"
proof -
  have "uint n < 2 ^ 63" using assms by (simp add: word_less_def)
  then show ?thesis unfolding sint_uint by (intro signed_take_bit_int_eq_self) (auto intro: order_trans [OF _ uint_ge_0])
qed

lemma sint_next:
  fixes n :: uint64
  assumes "n < 2 ^ 63 - 1"
  shows "sint (n + 1) = sint n + 1"
proof -
  have "uint n < 2 ^ 63 - 1" using assms by (simp add: word_less_def)
  then have "uint (n + 1) = uint n + 1" by (simp add: uint_word_ariths)
  moreover from this \<open>uint n < 2 ^ 63 - 1\<close> have "n + 1 < 2 ^ 63" "n < 2 ^ 63" by (simp_all add: word_less_def)
  ultimately show ?thesis by (simp add: sint_small)
qed

lemma ib_number_of [simp]: "ib_number (blockInfoToIndexedBlock b) = sint (b_number b)"
  by (simp add: blockInfoToIndexedBlock_def)

lemma highestRow_last:
  assumes "consecutive n bs" and "\<forall>b \<in> set bs. b_number b < 2 ^ 63 - 1" and "bs \<noteq> []"
  shows "highestRow (map blockInfoToIndexedBlock bs) = Some (blockInfoToIndexedBlock (last bs)) \<and> sint n \<le> sint (b_number (last bs))"
  using assms
proof (induction bs arbitrary: n)
  case (Cons b bs)
  show ?case
  proof (cases "bs = []")
    case False
    then have "highestRow (map blockInfoToIndexedBlock bs) = Some (blockInfoToIndexedBlock (last bs))
        \<and> sint (n + 1) \<le> sint (b_number (last bs))"
      using Cons.prems by (intro Cons.IH) auto
    moreover have "sint (n + 1) = sint n + 1" using Cons.prems sint_next by auto
    ultimately show ?thesis using False Cons.prems(1) by simp
  qed (use Cons.prems in simp)
qed simp

lemma next_number: "(word_of_int (sint n + 1) :: uint64) = n + 1"
  by simp

lemma restart_ok:
  assumes "ledger R" and "tablesOk R s"
  shows "indexerOk R (startOrReset height s)"
proof -
  obtain start where start: "consecutive start (map fst (bi_dispatched s))"
    "bi_indexedBlocks s = map blockInfoToIndexedBlock (map fst (bi_dispatched s))"
    using assms(2) by (auto simp: tablesOk_def)
  let ?ds = "map fst (bi_dispatched s)" and ?s = "startOrReset height s"
  have same: "tablesOk R ?s" "bi_dispatched ?s = bi_dispatched s" "batchBlocks ?s = []" "pending ?s = []"
    "bi_phase ?s = ReadNext" "bi_requiredConfirmations ?s = bi_requiredConfirmations s"
    using assms(2)
    by (auto simp: startOrReset_def startup_def restoreCheckpoint_def tablesOk_def batchBlocks_def pending_def split: option.splits)
  have "bi_nextBlock ?s \<noteq> None" by (auto simp: startOrReset_def startup_def split: option.splits)
  then obtain n where n: "bi_nextBlock ?s = Some n" by blast
  have "\<exists>st. consecutive st ?ds \<and> n = st + of_nat (length ?ds)"
  proof (cases "?ds = []")
    case False
    have "highestRow (bi_indexedBlocks s) = Some (blockInfoToIndexedBlock (last ?ds))"
      using highestRow_last [OF start(1) _ False] tables_in_ledger [OF assms(2)] assms(1) start(2)
      by (auto simp: ledger_def)
    then have "n = b_number (last ?ds) + 1"
      using n by (auto simp: startOrReset_def startup_def restoreCheckpoint_def)
    then show ?thesis using start(1) consecutive_last [OF start(1) False] by auto
  qed simp
  then have "flowOk R n ?s" by (simp add: flowOk_def same)
  then show ?thesis using same n by (auto simp: indexerOk_def runningOk_def)
qed

section \<open>The theorems\<close>

text \<open>What the steps of a cancelled indexer leave alone: it runs on, but commits nothing.\<close>

definition tablesKept :: "blockIndexer \<Rightarrow> blockIndexer \<Rightarrow> bool" where
  "tablesKept s s' \<longleftrightarrow> sameTables s s' \<and> bi_cancelled s' = bi_cancelled s \<and> (bi_nextBlock s \<noteq> None \<longrightarrow> bi_nextBlock s' \<noteq> None)"

lemma kept_ops:
  "processBlockNotification b s = Some s' \<Longrightarrow> tablesKept s s'"
  "readNextBlock s = Some s' \<Longrightarrow> tablesKept s s'"
  "attachBlock b s = Some s' \<Longrightarrow> tablesKept s s'"
  "tablesKept s (confirmRound found s)"
  "hydrated bs batch \<Longrightarrow> tablesKept s (roundEnd found (writeBatch False batch s))"
  by (auto simp: tablesKept_def sameTables_def processBlockNotification_def tapDispatcher_def readNextBlock_def attachBlock_def
      popDispatchedIfAvailable_def confirmRound_def getNextConfirmed_def addToBatch_def roundEnd_def writeBatch_def batchRows_def Let_def
      split: if_splits option.splits list.splits prod.splits sum.splits)

lemma kept_ok: "tablesKept s s' \<Longrightarrow> indexerOk R s \<Longrightarrow> bi_nextBlock s \<noteq> None \<Longrightarrow> bi_cancelled s \<or> runningOk R s' \<Longrightarrow> indexerOk R s'"
  by (auto simp: tablesKept_def indexerOk_def sameTables_ok)

lemma running_indexer: "runningOk R s \<Longrightarrow> tablesOk R s \<Longrightarrow> indexerOk R s"
  by (auto simp: indexerOk_def runningOk_def)

lemma step_ok:
  assumes "indexer_step R s s'" and "ledger R" and "indexerOk R s"
  shows "indexerOk R s'"
proof -
  have run: "bi_nextBlock s \<noteq> None" if "bi_phase s \<noteq> Stopped" using that assms(3) by (auto simp: indexerOk_def)
  have ok: "bi_cancelled s \<or> runningOk R s" if "bi_nextBlock s \<noteq> None" using that assms(3) by (auto simp: indexerOk_def)
  have phase: "indexerOk R (s\<lparr>bi_phase := p\<rparr>)"
    if "bi_phase s \<noteq> Stopped" "\<And>n. runningOk R s \<Longrightarrow> bi_nextBlock s = Some n \<Longrightarrow> phaseOk R n (bi_blocksSinceCheckpoint s) p" for p
    using that assms(3) run by (auto simp: indexerOk_def tablesOk_def runningOk_def pending_def flowOk_def batchBlocks_def)
  from assms(1) show ?thesis
  proof (cases rule: indexer_step.cases)
    case (notification b)
    then show ?thesis using kept_ok [OF kept_ops(1) assms(3)] ok notification_ok [of R s b s'] by blast
  next
    case read_next
    then show ?thesis using kept_ok [OF kept_ops(2) assms(3)] ok run read_ok [of R s s'] by auto
  next
    case (query_found n b)
    then show ?thesis using phase [of "Attaching b"] by (auto simp: runningOk_def)
  next
    case (query_not_found n)
    then show ?thesis using phase by simp
  next
    case (query_retried n)
    then show ?thesis using phase by simp
  next
    case (attach b)
    then show ?thesis using kept_ok [OF kept_ops(3) assms(3)] ok run attach_ok [OF assms(2)] by fastforce
  next
    case (confirm found)
    then show ?thesis using kept_ok [OF kept_ops(4) assms(3)] ok run confirm_ok by fastforce
  next
    case (flush_commit found bs batch)
    then have "runningOk R s" "tablesOk R s" using ok run assms(3) by (auto simp: indexerOk_def)
    from commit_ok [OF this flush_commit(3,4)] show ?thesis
      unfolding flush_commit(1) by (intro running_indexer) (auto intro: roundEnd_ok)
  next
    case (flush_cancelled found bs batch)
    then show ?thesis using kept_ok [OF kept_ops(5) assms(3)] run by auto
  next
    case (flush_reset found bs b reply e)
    then show ?thesis using phase by simp
  next
    case restarted
    then show ?thesis using restart_ok [OF assms(2)] assms(3) by (simp add: indexerOk_def)
  next
    case crashed
    then show ?thesis using assms(3) by (auto simp: indexerOk_def tablesOk_def newBlockIndexer_def)
  qed (use assms(3) phase in \<open>auto simp: indexerOk_def tablesOk_def runningOk_def pending_def flowOk_def batchBlocks_def\<close>)
qed

lemma run_ok: "indexer_run R s \<Longrightarrow> ledger R \<Longrightarrow> indexerOk R s"
proof (induction rule: indexer_run.induct)
  case run_start
  then show ?case by (auto simp: indexerOk_def tablesOk_def newBlockIndexer_def)
qed (use step_ok in blast)

lemma consecutive_nth: "consecutive n bs \<Longrightarrow> i < length bs \<Longrightarrow> b_number (bs ! i) = n + of_nat i"
  by (induction bs arbitrary: n i) (auto simp: nth_Cons ac_simps split: nat.splits)

text \<open>C10. In every run, whatever forks the node reports and however often the indexer loses a batch, restarts or
  crashes, the numbers of the indexed blocks are consecutive in the order of indexing: no block is missing
  between two that are indexed, and none is indexed twice.\<close>

theorem indexed_blocks_consecutive:
  assumes "ledger R" and "indexer_run R s" and "Suc i < length (bi_indexedBlocks s)"
  shows "ib_number (bi_indexedBlocks s ! Suc i) = ib_number (bi_indexedBlocks s ! i) + 1"
proof -
  let ?ds = "map fst (bi_dispatched s)"
  have t: "tablesOk R s" using run_ok [OF assms(2,1)] by (simp add: indexerOk_def)
  then obtain start where start: "consecutive start ?ds" "bi_indexedBlocks s = map blockInfoToIndexedBlock ?ds"
    by (auto simp: tablesOk_def)
  have i: "Suc i < length ?ds" using assms(3) start(2) by simp
  have "b_number (?ds ! Suc i) = b_number (?ds ! i) + 1"
    using consecutive_nth [OF start(1)] i by (simp add: ac_simps)
  moreover have "?ds ! i \<in> R" using tables_in_ledger [OF t] i by (metis nth_mem Suc_lessD subsetD)
  then have "b_number (?ds ! i) < 2 ^ 63 - 1" using assms(1) by (simp add: ledger_def)
  ultimately show ?thesis using i start(2) sint_next by simp
qed

text \<open>C11. Every indexed block is one the node has reported, and so are at least the required number of
  confirmations: blocks that follow it and each other by their parent hashes.\<close>

theorem indexed_block_has_confirmations:
  assumes "ledger R" and "indexer_run R s" and "ib \<in> set (bi_indexedBlocks s)"
  shows "\<exists>b ds. ib = blockInfoToIndexedBlock b \<and> length ds = bi_requiredConfirmations s \<and> hashLinked (b # ds) \<and> set (b # ds) \<subseteq> R"
proof -
  have "tablesOk R s" using run_ok [OF assms(2,1)] by (simp add: indexerOk_def)
  then show ?thesis using assms(3) unfolding tablesOk_def settled_def by fastforce
qed

end
