(* ===== verification/BlockIndexerProgress.thy ===== *)
theory BlockIndexerProgress
  imports BlockIndexerProperties "HOL-Library.Multiset"
begin

text \<open>
  What the block indexer gets done: every transaction of an indexed block has its row, the height it reports is
  that of the last indexed block, a restart resumes behind it, and on a chain that stands still all blocks with
  enough confirmations are indexed after as many rounds as there are blocks.
\<close>

section \<open>Receipts\<close>

lemma receiptsLoop_Inr:
  "receiptsLoop block rs seen = Inr seen' \<Longrightarrow>
     (\<forall>r \<in> set rs. \<exists>x. r = Some x \<and> r_blockHash x = b_hash block \<and> r_blockNumber x = b_number block)
     \<and> seen' = seen \<union> r_transactionHash ` set (List.map_filter id rs)"
proof (induction rs arbitrary: seen)
  case (Cons r rs)
  then show ?case by (cases r) (auto simp: map_filter_simps split: if_splits)
qed (simp add: map_filter_simps)

lemma missingTx_None: "missingTx txs seen = None \<longleftrightarrow> pt_hash ` set txs \<subseteq> seen"
  by (induction txs) auto

lemma map_filter_all_Some: "\<forall>r \<in> set rs. \<exists>x. r = Some x \<Longrightarrow> length (List.map_filter id rs) = length rs \<and> map Some (List.map_filter id rs) = rs"
  by (induction rs) (auto simp: map_filter_simps)

lemma validated:
  assumes "dispatchEnrich b reply = Inr rs"
  shows "length rs = length (b_transactions b)" "\<forall>r \<in> set rs. r_blockHash r = b_hash b \<and> r_blockNumber r = b_number b"
    "pt_hash ` set (b_transactions b) \<subseteq> r_transactionHash ` set rs"
proof -
  have "length rs = length (b_transactions b) \<and> (\<forall>r \<in> set rs. r_blockHash r = b_hash b \<and> r_blockNumber r = b_number b)
      \<and> pt_hash ` set (b_transactions b) \<subseteq> r_transactionHash ` set rs"
  proof (cases "b_transactions b = []")
    case False
    then obtain ors where ors: "reply = Receipts ors" "validateBlockReceipts b ors = None" "rs = List.map_filter id ors"
      using assms by (auto simp: dispatchEnrich_def hydrateBlock_def split: receiptsReply.splits option.splits)
    then obtain seen where seen: "receiptsLoop b ors {} = Inr seen" "missingTx (b_transactions b) seen = None"
      "length ors = length (b_transactions b)"
      by (auto simp: validateBlockReceipts_def split: if_splits sum.splits)
    from receiptsLoop_Inr [OF seen(1)] have all: "\<forall>r \<in> set ors. \<exists>x. r = Some x \<and> r_blockHash x = b_hash b \<and> r_blockNumber x = b_number b"
      "seen = r_transactionHash ` set rs" using ors(3) by auto
    then have "\<forall>r \<in> set ors. \<exists>x. r = Some x" by blast
    then have "length rs = length ors" "ors = map Some rs" using map_filter_all_Some [of ors] ors(3) by simp_all
    then show ?thesis using all seen(2,3) by (auto simp: missingTx_None)
  qed (use assms in \<open>simp add: dispatchEnrich_def\<close>)
  then show "length rs = length (b_transactions b)" "\<forall>r \<in> set rs. r_blockHash r = b_hash b \<and> r_blockNumber r = b_number b"
    "pt_hash ` set (b_transactions b) \<subseteq> r_transactionHash ` set rs" by auto
qed

lemma receiptRows_fst [simp]:
  "fst (receiptRows ignored b i (r # rs))
     = (if r_type r \<in> set ignored then fst (receiptRows ignored b (Suc i) rs)
        else indexedTransaction b i r # fst (receiptRows ignored b (Suc i) rs))"
  by (simp add: Let_def split: prod.splits)

declare receiptRows.simps(2) [simp del]

lemma receiptRows_hashes:
  "map it_hash (fst (receiptRows ignored b i rs))
     = map (NewBytes32FromSlice \<circ> r_transactionHash) (filter (\<lambda>r. r_type r \<notin> set ignored) rs)"
  by (induction rs arbitrary: i) (auto simp: indexedTransaction_def)

lemma receiptRows_block: "\<forall>r \<in> set rs. r_blockNumber r = n \<Longrightarrow> tx \<in> set (fst (receiptRows ignored b i rs)) \<Longrightarrow> it_blockNumber tx = sint n"
  by (induction rs arbitrary: i) (auto simp: indexedTransaction_def split: if_splits)

lemma receiptRows_index:
  "tx \<in> set (fst (receiptRows ignored b i rs)) \<Longrightarrow> int i \<le> it_transactionIndex tx \<and> it_transactionIndex tx < int (i + length rs)"
proof (induction rs arbitrary: i)
  case (Cons r rs)
  then show ?case using Cons.IH [of "Suc i"] by (auto simp: indexedTransaction_def split: if_splits)
qed simp

text \<open>C17. Once the receipts of a block have passed validation, the transactions of the block and the receipts
  correspond one to one, and the rows written for the block are one per transaction whose type is not ignored,
  each with the number of the block and an index below the number of its transactions.\<close>

theorem block_transactions_indexed_once:
  assumes "dispatchEnrich b reply = Inr rs" and "distinct (map pt_hash (b_transactions b))"
  shows "mset (map r_transactionHash rs) = mset (map pt_hash (b_transactions b))
    \<and> map it_hash (fst (receiptRows ignored b 0 rs))
        = map (NewBytes32FromSlice \<circ> r_transactionHash) (filter (\<lambda>r. r_type r \<notin> set ignored) rs)
    \<and> (\<forall>tx \<in> set (fst (receiptRows ignored b 0 rs)). it_blockNumber tx = sint (b_number b)
         \<and> 0 \<le> it_transactionIndex tx \<and> it_transactionIndex tx < int (length (b_transactions b)))"
proof -
  note v = validated [OF assms(1)]
  have sub: "set (map pt_hash (b_transactions b)) \<subseteq> set (map r_transactionHash rs)" using v(3) by simp
  have "card (set (map pt_hash (b_transactions b))) = length rs" using distinct_card [OF assms(2)] v(1) by simp
  then have "card (set (map r_transactionHash rs)) \<le> card (set (map pt_hash (b_transactions b)))"
    using card_length [of "map r_transactionHash rs"] by simp
  with sub have eq: "set (map pt_hash (b_transactions b)) = set (map r_transactionHash rs)" by (intro card_seteq) auto
  then have "distinct (map r_transactionHash rs)"
    using \<open>card (set (map pt_hash (b_transactions b))) = length rs\<close> by (intro card_distinct) simp
  with assms(2) eq have "mset (map r_transactionHash rs) = mset (map pt_hash (b_transactions b))"
    by (metis set_eq_iff_mset_eq_distinct)
  moreover have "\<forall>tx \<in> set (fst (receiptRows ignored b 0 rs)). it_blockNumber tx = sint (b_number b)"
    using receiptRows_block [of rs "b_number b"] v(2) by blast
  ultimately show ?thesis using receiptRows_hashes receiptRows_index [of _ ignored b 0 rs] v(1) by auto
qed

section \<open>The reported height\<close>

definition heightOk :: "blockIndexer \<Rightarrow> bool" where
  "heightOk s \<longleftrightarrow> (\<not> bi_cancelled s \<and> bi_nextBlock s \<noteq> None \<and> bi_indexedBlocks s \<noteq> [] \<longrightarrow>
     cb_number (bi_highestConfirmedBlock s) = ib_number (last (bi_indexedBlocks s)))"

lemma restart_last:
  assumes "ledger R" and "tablesOk R s" and "bi_indexedBlocks s \<noteq> []"
  shows "highestRow (bi_indexedBlocks s) = Some (last (bi_indexedBlocks s))"
proof -
  let ?ds = "map fst (bi_dispatched s)"
  obtain start where start: "consecutive start ?ds" "bi_indexedBlocks s = map blockInfoToIndexedBlock ?ds"
    using assms(2) by (auto simp: tablesOk_def)
  have ne: "?ds \<noteq> []" using assms(3) start(2) by auto
  have "\<forall>b \<in> set ?ds. b_number b < 2 ^ 63 - 1" using tables_in_ledger [OF assms(2)] assms(1) by (auto simp: ledger_def)
  then show ?thesis using highestRow_last [OF start(1) _ ne] start(2) ne by (simp add: last_map)
qed

lemma height_kept:
  "tablesKept s s' \<Longrightarrow> bi_highestConfirmedBlock s' = bi_highestConfirmedBlock s \<Longrightarrow> bi_nextBlock s \<noteq> None \<Longrightarrow> heightOk s \<Longrightarrow> heightOk s'"
  by (auto simp: tablesKept_def heightOk_def sameTables_def)

lemma same_height:
  "processBlockNotification b s = Some s' \<Longrightarrow> bi_highestConfirmedBlock s' = bi_highestConfirmedBlock s"
  "readNextBlock s = Some s' \<Longrightarrow> bi_highestConfirmedBlock s' = bi_highestConfirmedBlock s"
  "attachBlock b s = Some s' \<Longrightarrow> bi_highestConfirmedBlock s' = bi_highestConfirmedBlock s"
  "bi_highestConfirmedBlock (confirmRound found s) = bi_highestConfirmedBlock s"
  by (auto simp: processBlockNotification_def tapDispatcher_def readNextBlock_def attachBlock_def
      popDispatchedIfAvailable_def confirmRound_def getNextConfirmed_def addToBatch_def roundEnd_def Let_def
      split: if_splits option.splits list.splits prod.splits sum.splits)

lemma commit_height:
  assumes "ledger R" and "runningOk R s" and "bi_batch s = Some bs" and "hydrated bs batch" and "heightOk s" and "\<not> bi_cancelled s"
  shows "heightOk (roundEnd found (writeBatch True batch s))"
proof (cases "bs = []")
  case True
  then have "batch = []" using assms(4) by (simp add: hydrated_def)
  then show ?thesis using assms(5) by (auto simp: heightOk_def roundEnd_def writeBatch_def batchRows_def newHighest_def)
next
  case False
  have bs: "bs = map fst batch" using assms(4) by (simp add: hydrated_def)
  have "last bs \<in> set (batchBlocks s)" using assms(3) False by (simp add: batchBlocks_def)
  then have "last bs \<in> R" using assms(2) by (auto simp: runningOk_def flowOk_def settled_def)
  then have "b_number (last bs) < 2 ^ 63 - 1" using assms(1) by (simp add: ledger_def)
  then have "b_number (last bs) < 2 ^ 63" by (rule less_trans) simp
  then have "0 \<le> sint (b_number (last bs))" by (simp add: sint_small)
  then show ?thesis using False bs
    by (simp add: heightOk_def roundEnd_def writeBatch_def batchRows_def newHighest_def last_map)
qed

lemma step_height:
  assumes "indexer_step R s s'" and "ledger R" and "indexerOk R s" and "heightOk s"
  shows "heightOk s'"
proof -
  have run: "bi_nextBlock s \<noteq> None" if "bi_phase s \<noteq> Stopped" using that assms(3) by (auto simp: indexerOk_def)
  from assms(1) show ?thesis
  proof (cases rule: indexer_step.cases)
    case (notification b)
    then show ?thesis using height_kept [OF kept_ops(1) same_height(1) _ assms(4)] by blast
  next
    case read_next
    then show ?thesis using height_kept [OF kept_ops(2) same_height(2) _ assms(4)] run by auto
  next
    case (attach b)
    then show ?thesis using height_kept [OF kept_ops(3) same_height(3) _ assms(4)] run by auto
  next
    case (confirm found)
    then show ?thesis using height_kept [OF kept_ops(4) same_height(4) _ assms(4)] run by auto
  next
    case (flush_commit found bs batch)
    then show ?thesis using commit_height [OF assms(2) _ _ _ assms(4)] assms(3) run by (auto simp: indexerOk_def)
  next
    case (restarted height)
    have "highestRow (bi_indexedBlocks s) = Some (last (bi_indexedBlocks s))" if "bi_indexedBlocks s \<noteq> []"
      using restart_last [OF assms(2)] that assms(3) by (simp add: indexerOk_def)
    then show ?thesis unfolding restarted
      by (auto simp: heightOk_def startOrReset_def startup_def restoreCheckpoint_def split: option.splits)
  qed (use assms(4) in \<open>auto simp: heightOk_def roundEnd_def writeBatch_def batchRows_def newBlockIndexer_def\<close>)
qed

text \<open>While the indexer is started and not cancelled, the confirmed height it reports is the number of the last
  indexed block, after restarts and crashes too.\<close>

theorem confirmed_height_is_indexed:
  assumes "ledger R" and "indexer_run R s" and "\<not> bi_cancelled s" and "bi_phase s \<noteq> Stopped" and "bi_indexedBlocks s \<noteq> []"
  shows "GetConfirmedBlockHeight s = Some (word_of_int (ib_number (last (bi_indexedBlocks s))))
    \<and> 0 \<le> ib_number (last (bi_indexedBlocks s))"
proof -
  have "heightOk s \<and> indexerOk R s" using assms(2)
  proof (induction rule: indexer_run.induct)
    case run_start
    then show ?case by (auto simp: heightOk_def indexerOk_def tablesOk_def newBlockIndexer_def)
  qed (use step_height [OF _ assms(1)] step_ok [OF _ assms(1)] in blast)
  then have ok: "heightOk s" "tablesOk R s" "bi_nextBlock s \<noteq> None" using assms(4) by (auto simp: indexerOk_def)
  let ?b = "last (map fst (bi_dispatched s))"
  have b: "last (bi_indexedBlocks s) = blockInfoToIndexedBlock ?b" "?b \<in> R"
    using ok(2) assms(5) tables_in_ledger [OF ok(2)] last_in_set [of "map fst (bi_dispatched s)"]
    by (auto simp: tablesOk_def last_map)
  then have "b_number ?b < 2 ^ 63 - 1" using assms(1) by (simp add: ledger_def)
  then have "b_number ?b < 2 ^ 63" by (rule less_trans) simp
  then have "0 \<le> ib_number (last (bi_indexedBlocks s))" using b by (simp add: sint_small)
  then show ?thesis using ok(1,3) assms(3,5) by (simp add: heightOk_def GetConfirmedBlockHeight_def)
qed

section \<open>Catching up\<close>

text \<open>The dispatcher after \<open>i\<close> rounds on the chain \<open>cs\<close> from number \<open>n\<close>, with \<open>ds\<close> dispatched before.\<close>

definition caughtUp :: "uint64 \<Rightarrow> BlockInfoJSONRPC list \<Rightarrow> BlockInfoJSONRPC list \<Rightarrow> nat \<Rightarrow> nat \<Rightarrow> nat \<Rightarrow> blockIndexer \<Rightarrow> bool" where
  "caughtUp n cs ds k sz i s \<longleftrightarrow>
     bi_phase s = ReadNext \<and> \<not> bi_lastFromNotification s \<and> \<not> bi_timedOut s \<and> bi_newHeadToAdd s = []
     \<and> bi_requiredConfirmations s = k \<and> bi_batchSize s = sz \<and> bi_nextBlock s = Some (n + of_nat (i - k))
     \<and> bi_blocksSinceCheckpoint s = drop (i - k) (take i cs)
     \<and> map fst (bi_dispatched s) @ batchBlocks s = ds @ take (i - k) cs \<and> set (batchBlocks s) \<subseteq> set cs
     \<and> length (batchBlocks s) < sz"

lemma hydrated_zip:
  "\<forall>b \<in> set bs. \<exists>rs. dispatchEnrich b (receipts b) = Inr rs
     \<Longrightarrow> hydrated bs (zip bs (map projr (map (\<lambda>b. dispatchEnrich b (receipts b)) bs)))"
  by (force simp: hydrated_def set_zip in_set_conv_nth)

lemma flushRound_commits:
  assumes "bi_phase s = Flushing found" and "bi_batch s = Some bs" and "\<forall>b \<in> set bs. \<exists>rs. dispatchEnrich b (receipts b) = Inr rs"
  shows "flushRound receipts s = roundEnd found
    (writeBatch True (zip bs (map projr (map (\<lambda>b. dispatchEnrich b (receipts b)) bs))) s)"
proof -
  have "\<forall>r \<in> set (map (\<lambda>b. dispatchEnrich b (receipts b)) bs). \<not> isl r" using assms(3) by force
  then show ?thesis using assms(1,2) by (simp add: flushRound_def Let_def)
qed

lemma round_reads:
  assumes "caughtUp n cs ds k sz i s" and "i < length cs" and "consecutive n cs" and "hashLinked cs" and "node (n + of_nat i) = Some (cs ! i)"
  shows "dispatcherRound node receipts s
    = Some (flushRound receipts (confirmRound True
        (s\<lparr>bi_blocksSinceCheckpoint := drop (i - k) (take (Suc i) cs), bi_phase := Confirming True\<rparr>)))"
proof -
  let ?since = "drop (i - k) (take i cs)"
  have s: "bi_newHeadToAdd s = []" "bi_nextBlock s = Some (n + of_nat (i - k))" "bi_blocksSinceCheckpoint s = ?since"
    "\<not> bi_lastFromNotification s" using assms(1) by (auto simp: caughtUp_def)
  have split: "cs = take (i - k) cs @ ?since @ drop i cs"
    by (metis append_assoc append_take_drop_id take_take min.absorb1 diff_le_self)
  have num: "b_number (last ?since) + 1 = n + of_nat i" if "?since \<noteq> []"
  proof -
    have "consecutive (n + of_nat (length (take (i - k) cs))) ?since"
      using assms(3) split by (metis consecutive_append)
    from consecutive_last [OF this that] show ?thesis using assms(2) by (simp add: min_def split: if_splits)
  qed
  have empty: "i - k = i" if "?since = []" using that assms(2) by auto
  have link: "b_parentHash (cs ! i) = b_hash (last ?since)" if "?since \<noteq> []"
  proof -
    have "i > 0" using that by (cases i) auto
    then have "last ?since = cs ! (i - 1)" using that assms(2) by (simp add: last_conv_nth min_def split: if_splits)
    moreover have "b_parentHash (cs ! Suc (i - 1)) = b_hash (cs ! (i - 1))"
      using successively_nth [OF assms(4), of "i - 1"] assms(2) \<open>i > 0\<close> by simp
    ultimately show ?thesis using \<open>i > 0\<close> by simp
  qed
  have "?since @ [cs ! i] = drop (i - k) (take (Suc i) cs)" using assms(2) by (simp add: take_Suc_conv_app_nth)
  then show ?thesis
    using s num empty link assms(5)
    by (cases "?since = []") (auto simp: dispatcherRound_def readNextBlock_def popDispatchedIfAvailable_def attachBlock_def)
qed

lemma getNextConfirmed_alt:
  "getNextConfirmed s =
     (let since = bi_blocksSinceCheckpoint s in
      if bi_requiredConfirmations s < length since
      then (Some (hd since), s\<lparr>bi_blocksSinceCheckpoint := tl since, bi_nextBlock := Some (b_number (hd since) + 1)\<rparr>)
      else (None, s))"
  by (cases "bi_blocksSinceCheckpoint s") (auto simp: getNextConfirmed_def)

lemma round_advances:
  assumes "caughtUp n cs ds k sz i s" and "i < length cs" and "consecutive n cs" and "hashLinked cs" and "node (n + of_nat i) = Some (cs ! i)"
    and "\<forall>b \<in> set cs. \<exists>rs. dispatchEnrich b (receipts b) = Inr rs"
  obtains s' where "dispatcherRound node receipts s = Some s'" "caughtUp n cs ds k sz (Suc i) s'"
proof -
  let ?since = "drop (i - k) (take (Suc i) cs)"
  let ?s1 = "s\<lparr>bi_blocksSinceCheckpoint := ?since, bi_phase := Confirming True\<rparr>"
  obtain pd s2 where s2: "getNextConfirmed ?s1 = (pd, s2)" by fastforce
  define t where "t = addToBatch pd s2"
  note c = assms(1) [unfolded caughtUp_def]
  have ts: "bi_timedOut t = False" "bi_batchSize t = sz" "bi_requiredConfirmations t = k" "bi_newHeadToAdd t = []"
    "bi_dispatched t = bi_dispatched s" "\<not> bi_lastFromNotification t"
    using s2 c by (auto simp: t_def addToBatch_def getNextConfirmed_def split: list.splits if_splits option.splits)
  have flow: "bi_nextBlock t = Some (n + of_nat (Suc i - k)) \<and> bi_blocksSinceCheckpoint t = drop (Suc i - k) (take (Suc i) cs)
      \<and> batchBlocks t = batchBlocks s @ (if k \<le> i then [cs ! (i - k)] else [])"
  proof (cases "k \<le> i")
    case True
    have h: "?since = cs ! (i - k) # drop (Suc (i - k)) (take (Suc i) cs)"
      using assms(2) by (subst Cons_nth_drop_Suc [symmetric]) (auto simp: nth_take)
    have "b_number (cs ! (i - k)) = n + of_nat (i - k)" using consecutive_nth [OF assms(3)] assms(2) by simp
    then show ?thesis
      using s2 c True h assms(2)
      by (auto simp: t_def addToBatch_def getNextConfirmed_def batchBlocks_def Suc_diff_le ac_simps split: option.splits)
  next
    case False
    then have "t = ?s1" using s2 c assms(2) by (simp add: t_def addToBatch_def getNextConfirmed_alt)
    then show ?thesis using c False by (simp add: batchBlocks_def)
  qed
  have disp: "map fst (bi_dispatched t) @ batchBlocks t = ds @ take (Suc i - k) cs"
    using c flow ts(5) assms(2) by (auto simp: Suc_diff_le take_Suc_conv_app_nth not_le)
  have sub: "set (batchBlocks t) \<subseteq> set cs" using c flow assms(2) by (auto intro: nth_mem)
  have len: "length (batchBlocks t) \<le> sz" using c flow by auto
  have round: "dispatcherRound node receipts s = Some (flushRound receipts (confirmRound True ?s1))"
    by (rule round_reads [where node = node, OF assms(1-5)])
  have confirm: "confirmRound True ?s1 = (if bi_batch t \<noteq> None \<and> sz \<le> length (batchBlocks t) then t\<lparr>bi_phase := Flushing True\<rparr> else roundEnd True t)"
    using s2 ts(1,2) by (auto simp: confirmRound_def t_def Let_def batchBlocks_def split: option.splits)
  show thesis
  proof (cases "bi_batch t \<noteq> None \<and> sz \<le> length (batchBlocks t)")
    case True
    then obtain bs where bs: "bi_batch t = Some bs" by blast
    have enriched: "\<forall>b \<in> set bs. \<exists>rs. dispatchEnrich b (receipts b) = Inr rs" using bs sub assms(6) by (auto simp: batchBlocks_def)
    obtain batch where b: "flushRound receipts (t\<lparr>bi_phase := Flushing True\<rparr>) = roundEnd True (writeBatch True batch (t\<lparr>bi_phase := Flushing True\<rparr>))"
      "hydrated bs batch"
      using flushRound_commits [OF _ _ enriched, of "t\<lparr>bi_phase := Flushing True\<rparr>" True] hydrated_zip [OF enriched] bs by simp
    show thesis
    proof (rule that)
      show "dispatcherRound node receipts s = Some (roundEnd True (writeBatch True batch (t\<lparr>bi_phase := Flushing True\<rparr>)))"
        using round confirm True b(1) by simp
      show "caughtUp n cs ds k sz (Suc i) (roundEnd True (writeBatch True batch (t\<lparr>bi_phase := Flushing True\<rparr>)))"
        using ts flow disp b(2) c bs
        by (auto simp: caughtUp_def roundEnd_def writeBatch_def batchRows_def batchBlocks_def hydrated_def)
    qed
  next
    case False
    then have "confirmRound True ?s1 = roundEnd True t" using confirm by argo
    then have "flushRound receipts (confirmRound True ?s1) = roundEnd True t" by (simp add: flushRound_def roundEnd_def)
    moreover have "length (batchBlocks t) < sz" using False c by (auto simp: batchBlocks_def)
    then have "caughtUp n cs ds k sz (Suc i) (roundEnd True t)"
      using ts flow disp sub by (auto simp: caughtUp_def roundEnd_def batchBlocks_def)
    ultimately show thesis using that round by simp
  qed
qed

text \<open>C16. Started on a chain that stands still, the indexer has, after as many rounds as there are blocks, handed on all
  blocks but the last ones that still miss confirmations, in order and once each; all but less than a batch of
  them are committed.\<close>

theorem indexer_catches_up:
  assumes "bi_nextBlock (startOrReset height s) = Some n" and "bi_batchSize s \<ge> 1"
    and "consecutive n cs" and "hashLinked cs" and "\<forall>i < length cs. node (n + of_nat i) = Some (cs ! i)"
    and "\<forall>b \<in> set cs. \<exists>rs. dispatchEnrich b (receipts b) = Inr rs"
  shows "\<exists>s'. dispatcherRounds node receipts (length cs) (startOrReset height s) = Some s'
    \<and> map fst (bi_dispatched s') @ batchBlocks s' = map fst (bi_dispatched s) @ take (length cs - bi_requiredConfirmations s) cs
    \<and> length (batchBlocks s') < bi_batchSize s"
proof -
  let ?c = "caughtUp n cs (map fst (bi_dispatched s)) (bi_requiredConfirmations s) (bi_batchSize s)"
  have start: "?c 0 (startOrReset height s)"
    using assms(1,2) by (auto simp: caughtUp_def startOrReset_def startup_def restoreCheckpoint_def batchBlocks_def split: option.splits)
  have rounds: "\<exists>s'. dispatcherRounds node receipts j t = Some s' \<and> ?c (i + j) s'" if "?c i t" "i + j \<le> length cs" for i j t
    using that
  proof (induction j arbitrary: i t)
    case (Suc j)
    then have "i < length cs" "node (n + of_nat i) = Some (cs ! i)" using assms(5) by auto
    from round_advances [where node = node and receipts = receipts, OF Suc.prems(1) this(1) assms(3,4) this(2) assms(6)]
    obtain t' where "dispatcherRound node receipts t = Some t'" "?c (Suc i) t'" by blast
    then show ?case using Suc.IH [of "Suc i" t'] Suc.prems(2) by simp
  qed simp
  from rounds [OF start, of "length cs"] show ?thesis by (auto simp: caughtUp_def)
qed

section \<open>Rounds are runs\<close>

lemma flush_is_run:
  assumes "indexer_run R s" and "\<not> bi_cancelled s" and "\<forall>b. \<exists>rs. dispatchEnrich b (receipts b) = Inr rs"
  shows "indexer_run R (flushRound receipts s)"
proof (cases "\<exists>found bs. bi_phase s = Flushing found \<and> bi_batch s = Some bs")
  case True
  then obtain found bs where f: "bi_phase s = Flushing found" "bi_batch s = Some bs" by blast
  then show ?thesis
    using run_step [OF assms(1) flush_commit [OF f hydrated_zip assms(2)]] flushRound_commits [OF f] assms(3) by simp
next
  case False
  then have "flushRound receipts s = s" by (auto simp: flushRound_def split: dispatcherPhase.splits option.splits)
  then show ?thesis using assms(1) by simp
qed

lemma round_is_run:
  assumes "indexer_run R s" and "bi_phase s = ReadNext" and "\<not> bi_cancelled s"
    and "\<forall>n b. node n = Some b \<longrightarrow> b \<in> R \<and> b_number b = n" and "\<forall>b. \<exists>rs. dispatchEnrich b (receipts b) = Inr rs"
    and "dispatcherRound node receipts s = Some s'"
  shows "indexer_run R s'"
proof -
  obtain s1 where s1: "readNextBlock s = Some s1" using assms(6) by (auto simp: dispatcherRound_def split: option.splits)
  then have r1: "indexer_run R s1" "\<not> bi_cancelled s1"
    using run_step [OF assms(1) read_next [OF assms(2)]] kept_ops(2) [OF s1] assms(3) by (auto simp: tablesKept_def)
  let ?q = "case bi_phase s1 of Querying n \<Rightarrow> (case node n of None \<Rightarrow> Some (s1\<lparr>bi_phase := Confirming False\<rparr>) | Some b \<Rightarrow> attachBlock b s1)
                 | _ \<Rightarrow> Some s1"
  obtain s2 found where s2: "?q = Some s2" "bi_phase s2 = Confirming found" "s' = flushRound receipts (confirmRound found s2)"
    using assms(6) s1 by (auto simp: dispatcherRound_def split: option.splits dispatcherPhase.splits)
  have r2: "indexer_run R s2 \<and> \<not> bi_cancelled s2"
  proof (cases "\<exists>n b. bi_phase s1 = Querying n \<and> node n = Some b")
    case True
    then obtain n b where nb: "bi_phase s1 = Querying n" "node n = Some b" by blast
    let ?a = "s1\<lparr>bi_phase := Attaching b\<rparr>"
    have "attachBlock b ?a = Some s2"
      using s2(1) nb by (auto simp: attachBlock_def popDispatchedIfAvailable_def split: list.splits option.splits if_splits)
    moreover have "indexer_run R ?a" using run_step [OF r1(1) query_found [OF nb(1)]] assms(4) nb(2) by blast
    ultimately show ?thesis using run_step [OF _ attach, of R ?a b s2] kept_ops(3) [of b ?a s2] r1(2) by (auto simp: tablesKept_def)
  next
    case False
    then show ?thesis using s2(1) r1 run_step [OF r1(1) query_not_found] by (auto split: dispatcherPhase.splits option.splits)
  qed
  then have "indexer_run R (confirmRound found s2)" "\<not> bi_cancelled (confirmRound found s2)"
    using run_step [OF _ confirm [OF s2(2)]] kept_ops(4) [of s2 found] by (auto simp: tablesKept_def)
  then show ?thesis using flush_is_run assms(5) s2(3) by blast
qed

section \<open>A sample chain\<close>

definition sampleChain :: "BlockInfoJSONRPC list" where
  "sampleChain = map (\<lambda>i. \<lparr>b_number = of_nat i, b_hash = [of_nat i + 1], b_parentHash = [of_nat i], b_timestamp = 0,
     b_transactions = [\<lparr>pt_hash = [100 + of_nat i], pt_nonce = of_nat i\<rparr>]\<rparr>) [0, 1, 2]"

definition sampleLookup :: "uint64 \<Rightarrow> BlockInfoJSONRPC option" where
  "sampleLookup n = find (\<lambda>b. b_number b = n) sampleChain"

definition sampleReceipt :: "BlockInfoJSONRPC \<Rightarrow> PartialTransactionInfo \<Rightarrow> TXReceiptJSONRPC" where
  "sampleReceipt b tx = \<lparr>r_blockHash = b_hash b, r_blockNumber = b_number b, r_contractAddress = None, r_from = None, r_to = None,
     r_logs = [], r_status = 1, r_transactionHash = pt_hash tx, r_revertReason = [], r_type = 2\<rparr>"

definition sampleReceipts :: "BlockInfoJSONRPC \<Rightarrow> receiptsReply" where
  "sampleReceipts b = Receipts (map (Some \<circ> sampleReceipt b) (b_transactions b))"

definition sampleStart :: blockIndexer where
  "sampleStart = startOrReset 0 (newBlockIndexer (Some 0) 1 1 [])"

definition sampleRound :: "blockIndexer \<Rightarrow> blockIndexer" where
  "sampleRound s = the (dispatcherRound sampleLookup sampleReceipts s)"

lemma sample_ledger: "ledger (set sampleChain)"
  by (simp add: ledger_def sampleChain_def)

lemma sample_lookup: "sampleLookup n = Some b \<Longrightarrow> b \<in> set sampleChain \<and> b_number b = n"
  by (auto simp: sampleLookup_def find_Some_iff)

lemma sample_loop:
  "receiptsLoop b (map (Some \<circ> sampleReceipt b) txs) seen = Inr (seen \<union> pt_hash ` set txs)"
  by (induction txs arbitrary: seen) (auto simp: sampleReceipt_def)

lemma sample_enriched: "\<exists>rs. dispatchEnrich b (sampleReceipts b) = Inr rs"
proof -
  have "missingTx (b_transactions b) (pt_hash ` set (b_transactions b)) = None" by (simp add: missingTx_None)
  then show ?thesis
    by (simp add: dispatchEnrich_def hydrateBlock_def sampleReceipts_def validateBlockReceipts_def sample_loop)
qed

lemma sampleRound_run:
  assumes "indexer_run (set sampleChain) s" and "bi_phase s = ReadNext" and "\<not> bi_cancelled s"
    and "dispatcherRound sampleLookup sampleReceipts s \<noteq> None"
  shows "indexer_run (set sampleChain) (sampleRound s)"
  using round_is_run [OF assms(1-3), of sampleLookup sampleReceipts "sampleRound s"] sample_lookup sample_enriched assms(4)
  by (auto simp: sampleRound_def)

text \<open>The state after three rounds: two blocks are indexed, the third waits for its confirmation.\<close>

definition sampleIndexed :: blockIndexer where
  "sampleIndexed = sampleRound (sampleRound (sampleRound sampleStart))"

lemma sample_run: "indexer_run (set sampleChain) sampleIndexed"
proof -
  have r0: "indexer_run (set sampleChain) sampleStart"
    unfolding sampleStart_def by (rule run_step [OF run_start restarted]) (simp add: newBlockIndexer_def)
  have r1: "indexer_run (set sampleChain) (sampleRound sampleStart)" by (rule sampleRound_run [OF r0]; code_simp)
  have r2: "indexer_run (set sampleChain) (sampleRound (sampleRound sampleStart))" by (rule sampleRound_run [OF r1]; code_simp)
  show ?thesis unfolding sampleIndexed_def by (rule sampleRound_run [OF r2]; code_simp)
qed

lemma sample_state:
  "map ib_number (bi_indexedBlocks sampleIndexed) = [0, 1]" "\<not> bi_cancelled sampleIndexed" "bi_phase sampleIndexed = ReadNext"
  "bi_requiredConfirmations sampleIndexed = 1"
  by code_simp+

theorem indexed_blocks_consecutive_witness:
  "indexer_run (set sampleChain) sampleIndexed
    \<and> ib_number (bi_indexedBlocks sampleIndexed ! Suc 0) = ib_number (bi_indexedBlocks sampleIndexed ! 0) + 1"
proof -
  have "length (map ib_number (bi_indexedBlocks sampleIndexed)) = 2" unfolding sample_state by simp
  then show ?thesis using indexed_blocks_consecutive [OF sample_ledger sample_run, of 0] sample_run by simp
qed

theorem indexed_block_has_confirmations_witness:
  "\<exists>b ds. blockInfoToIndexedBlock b = bi_indexedBlocks sampleIndexed ! 1 \<and> length ds = 1 \<and> hashLinked (b # ds) \<and> set (b # ds) \<subseteq> set sampleChain"
proof -
  have "length (map ib_number (bi_indexedBlocks sampleIndexed)) = 2" unfolding sample_state by simp
  then have "bi_indexedBlocks sampleIndexed ! 1 \<in> set (bi_indexedBlocks sampleIndexed)" by simp
  from indexed_block_has_confirmations [OF sample_ledger sample_run this] show ?thesis
    unfolding sample_state by metis
qed

theorem block_transactions_indexed_once_witness:
  "mset (map r_transactionHash [sampleReceipt (sampleChain ! 1) (hd (b_transactions (sampleChain ! 1)))])
     = mset (map pt_hash (b_transactions (sampleChain ! 1)))"
proof -
  let ?b = "sampleChain ! 1"
  have "dispatchEnrich ?b (sampleReceipts ?b) = Inr [sampleReceipt ?b (hd (b_transactions ?b))]" by code_simp
  moreover have "distinct (map pt_hash (b_transactions ?b))" by code_simp
  ultimately show ?thesis using block_transactions_indexed_once by blast
qed

theorem confirmed_height_is_indexed_witness:
  "GetConfirmedBlockHeight sampleIndexed = Some (word_of_int (ib_number (last (bi_indexedBlocks sampleIndexed))))"
proof -
  have "bi_indexedBlocks sampleIndexed \<noteq> []" using sample_state(1) by auto
  then show ?thesis using confirmed_height_is_indexed [OF sample_ledger sample_run sample_state(2)] sample_state(3) by simp
qed

theorem indexer_catches_up_witness:
  "\<exists>s'. dispatcherRounds sampleLookup sampleReceipts 3 sampleStart = Some s' \<and> map fst (bi_dispatched s') = take 2 sampleChain"
proof -
  let ?s = "newBlockIndexer (Some 0) 1 1 []"
  have n: "bi_nextBlock (startOrReset 0 ?s) = Some 0" "bi_batchSize ?s = 1" "bi_requiredConfirmations ?s = 1" "bi_dispatched ?s = []"
    by (simp_all add: startOrReset_def startup_def restoreCheckpoint_def newBlockIndexer_def)
  have c: "consecutive 0 sampleChain" "hashLinked sampleChain" "length sampleChain = 3" by (simp_all add: sampleChain_def)
  have l: "\<forall>i < length sampleChain. sampleLookup (0 + of_nat i) = Some (sampleChain ! i)"
    by (auto simp: sampleLookup_def sampleChain_def less_Suc_eq numeral_3_eq_3)
  from indexer_catches_up [OF n(1) _ c(1,2) l, of sampleReceipts] n(2-4) c(3) sample_enriched
  obtain s' where "dispatcherRounds sampleLookup sampleReceipts 3 sampleStart = Some s'"
    "map fst (bi_dispatched s') @ batchBlocks s' = take 2 sampleChain" "length (batchBlocks s') < 1"
    by (auto simp: sampleStart_def)
  then show ?thesis by auto
qed

end
