(* ===== verification/EthAddress.thy ===== *)
theory EthAddress
  imports PldTypes
begin

text \<open>
  Addresses of the base ledger (\<^verbatim>\<open>sdk/go/pkg/pldtypes/eth_address.go\<close>). A Go pointer to an array of 20 bytes is an optional
  list of bytes; parsing and printing are done by \<^verbatim>\<open>ethtypes\<close>, which is a parameter where it is used.
\<close>

definition EthAddress_IsZero :: "HexBytes option \<Rightarrow> bool" where
  "EthAddress_IsZero a \<longleftrightarrow> (case a of None \<Rightarrow> True | Some x \<Rightarrow> x = replicate 20 0)"

definition EthAddress_Equals :: "HexBytes option \<Rightarrow> HexBytes option \<Rightarrow> bool" where
  "EthAddress_Equals a b \<longleftrightarrow> (case (a, b) of (None, None) \<Rightarrow> True | (Some x, Some y) \<Rightarrow> x = y | _ \<Rightarrow> False)"

lemma EthAddress_Equals_eq [simp]: "EthAddress_Equals a b \<longleftrightarrow> a = b"
  by (auto simp: EthAddress_Equals_def split: option.splits)

end
