(* ===== verification/EventStreams.thy ===== *)
theory EventStreams
  imports BlockIndexer EthAddress "HOL-Library.Product_Lexorder"
begin

text \<open>
  An event stream of the block indexer (\<^verbatim>\<open>core/go/pkg/blockindexer/event_streams.go\<close>): the detector, which turns confirmed
  blocks into events, from the notifications of the indexer or, when it has fallen behind, from pages of the
  table of events; and the dispatcher, which collects events into batches for the handler and moves the
  checkpoint.

  \<^item> The decoder of ABI entries is a parameter \<open>dec\<close>: what an entry makes of a log, if it fits.
  \<^item> The receipt of a confirmed transaction is a parameter \<open>logOf\<close>: the log the node returns for an event of the table.
  \<^item> Detector and dispatcher only share the channel between them, so a detector step may queue all messages of
    a block or page at once.
  \<^item> \<open>es_delivered\<close> is what the handler has accepted since the stream was started; a crash loses everything but the
    tables and the persisted checkpoint.
\<close>

section \<open>Sources and logs\<close>

record 'a EventStreamSource =
  src_ABI :: "'a list"
  src_Address :: "HexBytes option"

type_synonym 'd EventWithData = "IndexedEvent \<times> 'd"

record eventStreamBlock =
  eb_block :: BlockInfoJSONRPC
  eb_events :: "LogJSONRPC list"

datatype 'd detectorMsg = EventMsg "'d EventWithData" bool | ConfirmedMsg int

text \<open>The first entry of the ABI that decodes the log.\<close>

fun firstDecoded :: "('a \<Rightarrow> LogJSONRPC \<Rightarrow> 'd option) \<Rightarrow> 'a list \<Rightarrow> LogJSONRPC \<Rightarrow> 'd option" where
  "firstDecoded dec [] l = None"
| "firstDecoded dec (entry # abi) l = (case dec entry l of Some d \<Rightarrow> Some d | None \<Rightarrow> firstDecoded dec abi l)"

definition matchLog :: "('a \<Rightarrow> LogJSONRPC \<Rightarrow> 'd option) \<Rightarrow> 'a EventStreamSource \<Rightarrow> LogJSONRPC \<Rightarrow> 'd option" where
  "matchLog dec source l =
     (if \<not> EthAddress_IsZero (src_Address source) \<and> \<not> EthAddress_Equals (src_Address source) (l_address l) then None
      else firstDecoded dec (src_ABI source) l)"

fun firstSource :: "('a \<Rightarrow> LogJSONRPC \<Rightarrow> 'd option) \<Rightarrow> 'a EventStreamSource list \<Rightarrow> LogJSONRPC \<Rightarrow> 'd option" where
  "firstSource dec [] l = None"
| "firstSource dec (source # sources) l = (case matchLog dec source l of Some d \<Rightarrow> Some d | None \<Rightarrow> firstSource dec sources l)"

text \<open>Catching up, the sources run as goroutines of their own over the same events: the one that ends last decides.
  \<open>order\<close> is the order in which they end, for each transaction.\<close>

definition enrichEvent :: "('a \<Rightarrow> LogJSONRPC \<Rightarrow> 'd option) \<Rightarrow> 'a EventStreamSource list \<Rightarrow> LogJSONRPC \<Rightarrow> 'd option" where
  "enrichEvent dec order l = fold (\<lambda>source d. case matchLog dec source l of Some x \<Rightarrow> Some x | None \<Rightarrow> d) order None"

section \<open>Notification\<close>

definition notifiedLogs :: "Bytes32 list \<Rightarrow> TXReceiptJSONRPC list \<Rightarrow> LogJSONRPC list" where
  "notifiedLogs signatures receipts =
     filter (\<lambda>l. case l_topics l of [] \<Rightarrow> False | t # _ \<Rightarrow> t \<in> set signatures) (concat (map r_logs receipts))"

text \<open>Best effort: a stream whose channel is full misses the block.\<close>

definition notifyEventStream ::
  "nat \<Rightarrow> Bytes32 list \<Rightarrow> BlockInfoJSONRPC \<times> TXReceiptJSONRPC list \<Rightarrow> eventStreamBlock list \<Rightarrow> eventStreamBlock list" where
  "notifyEventStream queueLength signatures entry blocks =
     (if length blocks < queueLength
      then blocks @ [\<lparr>eb_block = fst entry, eb_events = notifiedLogs signatures (snd entry)\<rparr>] else blocks)"

section \<open>State\<close>

datatype detectorPhase = DetectorStopped | FirstBlock | DetectorLoop

record 'd eventBatch =
  ev_events :: "'d EventWithData list"
  ev_checkpointAfterBatch :: int

record ('a, 'd) eventStream =
  es_sources :: "'a EventStreamSource list"
  es_signatureList :: "Bytes32 list"
  es_fromBlock :: "uint64 option"
  es_batchSize :: nat
  es_pageSize :: nat
  es_queueLength :: nat
  es_blocks :: "eventStreamBlock list"
  es_dispatch :: "'d detectorMsg list"
  es_phase :: detectorPhase
  es_checkpointBlock :: int
  es_startupBlock :: "int option"
  es_catchUpToBlock :: "eventStreamBlock option"
  es_lastCatchupEvent :: "IndexedEvent option"
  es_catchup :: bool
  es_batch :: "'d eventBatch option"
  es_checkpoint :: int
  es_dbCheckpoint :: "int option"
  es_rows :: "IndexedEvent list"
  es_highestIndexed :: "int option"
  es_delivered :: "'d EventWithData list"
  es_base :: int

definition initEventStream ::
  "'a EventStreamSource list \<Rightarrow> Bytes32 list \<Rightarrow> uint64 option \<Rightarrow> nat \<Rightarrow> nat \<Rightarrow> nat \<Rightarrow> ('a, 'd) eventStream" where
  "initEventStream sources signatures fb batchSize pageSize queueLength =
     \<lparr>es_sources = sources, es_signatureList = signatures, es_fromBlock = fb, es_batchSize = max 1 batchSize,
      es_pageSize = pageSize, es_queueLength = queueLength, es_blocks = [], es_dispatch = [], es_phase = DetectorStopped,
      es_checkpointBlock = 0, es_startupBlock = None, es_catchUpToBlock = None, es_lastCatchupEvent = None, es_catchup = True,
      es_batch = None, es_checkpoint = -1, es_dbCheckpoint = None, es_rows = [], es_highestIndexed = None,
      es_delivered = [], es_base = 0\<rparr>"

section \<open>The detector\<close>

text \<open>The checkpoint to start from: the persisted one, the block before the configured one, or none for a start
  from the latest block.\<close>

definition readDBCheckpoint :: "('a, 'd) eventStream \<Rightarrow> int option \<times> ('a, 'd) eventStream" where
  "readDBCheckpoint s =
     (case es_dbCheckpoint s of
        None \<Rightarrow> (map_option (\<lambda>b. sint (b - 1)) (es_fromBlock s), s)
      | Some baseBlock \<Rightarrow> (Some baseBlock, s\<lparr>es_checkpoint := baseBlock\<rparr>))"

definition detectorStart :: "('a, 'd) eventStream \<Rightarrow> ('a, 'd) eventStream" where
  "detectorStart s =
     (case readDBCheckpoint s of
        (None, s1) \<Rightarrow> s1\<lparr>es_catchup := False, es_phase := FirstBlock\<rparr>
      | (Some checkpointBlock, s1) \<Rightarrow>
          s1\<lparr>es_checkpointBlock := checkpointBlock, es_startupBlock := es_highestIndexed s1, es_phase := DetectorLoop,
             es_base := (case es_highestIndexed s1 of None \<Rightarrow> checkpointBlock | Some h \<Rightarrow> min h checkpointBlock)\<rparr>)"

text \<open>The messages of the events of a block from position \<open>i\<close> on, of \<open>n\<close> in all.\<close>

fun blockMsgs ::
  "('a \<Rightarrow> LogJSONRPC \<Rightarrow> 'd option) \<Rightarrow> 'a EventStreamSource list \<Rightarrow> nat \<Rightarrow> nat \<Rightarrow> LogJSONRPC list \<Rightarrow> 'd detectorMsg list" where
  "blockMsgs dec sources n i [] = []"
| "blockMsgs dec sources n i (l # ls) =
     (case firstSource dec sources l of
        None \<Rightarrow> blockMsgs dec sources n (Suc i) ls
      | Some d \<Rightarrow> EventMsg (logToIndexedEvent l, d) (Suc i = n) # blockMsgs dec sources n (Suc i) ls)"

definition processNotifiedBlock ::
  "('a \<Rightarrow> LogJSONRPC \<Rightarrow> 'd option) \<Rightarrow> eventStreamBlock \<Rightarrow> ('a, 'd) eventStream \<Rightarrow> ('a, 'd) eventStream" where
  "processNotifiedBlock dec block s =
     (let msgs = blockMsgs dec (es_sources s) (length (eb_events block)) 0 (eb_events block)
      in s\<lparr>es_dispatch := es_dispatch s @
           (if msgs = [] then [ConfirmedMsg (sint (b_number (eb_block block)))] else msgs)\<rparr>)"

text \<open>The first block of a stream that starts from the latest.\<close>

definition detectorFirst ::
  "('a \<Rightarrow> LogJSONRPC \<Rightarrow> 'd option) \<Rightarrow> eventStreamBlock \<Rightarrow> ('a, 'd) eventStream \<Rightarrow> ('a, 'd) eventStream" where
  "detectorFirst dec block s =
     processNotifiedBlock dec block
       (s\<lparr>es_checkpointBlock := sint (b_number (eb_block block)), es_startupBlock := None, es_phase := DetectorLoop,
          es_base := sint (b_number (eb_block block)) - 1\<rparr>)"

definition detectorBlock ::
  "('a \<Rightarrow> LogJSONRPC \<Rightarrow> 'd option) \<Rightarrow> eventStreamBlock \<Rightarrow> ('a, 'd) eventStream \<Rightarrow> ('a, 'd) eventStream" where
  "detectorBlock dec block s =
     (let n = sint (b_number (eb_block block))
      in if n \<le> es_checkpointBlock s then s
         else if b_number (eb_block block) = word_of_int (es_checkpointBlock s + 1)
         then processNotifiedBlock dec block (s\<lparr>es_checkpointBlock := n\<rparr>)
         else s\<lparr>es_catchUpToBlock := Some block\<rparr>)"

definition ie_key :: "IndexedEvent \<Rightarrow> int \<times> int \<times> int" where
  "ie_key e = (ie_blockNumber e, ie_transactionIndex e, ie_logIndex e)"

definition catchupQuery :: "Bytes32 list \<Rightarrow> IndexedEvent option \<Rightarrow> int \<Rightarrow> int \<Rightarrow> nat \<Rightarrow> IndexedEvent list \<Rightarrow> IndexedEvent list" where
  "catchupQuery signatures lastEvent checkpointBlock upTo pageSize rows =
     take pageSize (sort_key ie_key (filter (\<lambda>e. ie_signature e \<in> set signatures \<and> ie_blockNumber e < upTo
       \<and> (case lastEvent of None \<Rightarrow> ie_blockNumber e > checkpointBlock | Some l \<Rightarrow> ie_key e > ie_key l)) rows))"

text \<open>The messages of a page, in its order, for the events whose data was found. The checkpoint may move to the
  block itself only with the last event of the last page, if it is the last of its transaction in the page.\<close>

fun pageMsgs ::
  "('a \<Rightarrow> LogJSONRPC \<Rightarrow> 'd option) \<Rightarrow> (Bytes32 \<Rightarrow> 'a EventStreamSource list) \<Rightarrow> (IndexedEvent \<Rightarrow> LogJSONRPC option) \<Rightarrow> bool \<Rightarrow> IndexedEvent list
     \<Rightarrow> 'd detectorMsg list" where
  "pageMsgs dec order logOf caughtUp [] = []"
| "pageMsgs dec order logOf caughtUp (e # es) =
     (case Option.bind (logOf e) (enrichEvent dec (order (ie_transactionHash e))) of
        None \<Rightarrow> pageMsgs dec order logOf caughtUp es
      | Some d \<Rightarrow> EventMsg (e, d) (caughtUp \<and> es = []) # pageMsgs dec order logOf caughtUp es)"

definition processCatchupEventPage ::
  "('a \<Rightarrow> LogJSONRPC \<Rightarrow> 'd option) \<Rightarrow> (Bytes32 \<Rightarrow> 'a EventStreamSource list) \<Rightarrow> (IndexedEvent \<Rightarrow> LogJSONRPC option) \<Rightarrow> int \<Rightarrow> ('a, 'd) eventStream
     \<Rightarrow> bool \<times> ('a, 'd) eventStream" where
  "processCatchupEventPage dec order logOf upTo s =
     (let page = catchupQuery (es_signatureList s) (es_lastCatchupEvent s) (es_checkpointBlock s) upTo (es_pageSize s) (es_rows s);
          caughtUp = (length page < es_pageSize s)
      in if page = [] then (True, s\<lparr>es_lastCatchupEvent := None\<rparr>)
         else (caughtUp, s\<lparr>es_lastCatchupEvent := Some (last page),
                          es_dispatch := es_dispatch s @ pageMsgs dec order logOf caughtUp page\<rparr>))"

text \<open>A round of the loop while there is something to catch up with.\<close>

definition detectorCatchup ::
  "('a \<Rightarrow> LogJSONRPC \<Rightarrow> 'd option) \<Rightarrow> (Bytes32 \<Rightarrow> 'a EventStreamSource list) \<Rightarrow> (IndexedEvent \<Rightarrow> LogJSONRPC option) \<Rightarrow> ('a, 'd) eventStream
     \<Rightarrow> ('a, 'd) eventStream" where
  "detectorCatchup dec order logOf s0 =
     (let s = s0\<lparr>es_catchup := True\<rparr> in
      case (es_startupBlock s, es_catchUpToBlock s) of
        (Some startupBlock, _) \<Rightarrow>
          (case processCatchupEventPage dec order logOf (startupBlock + 1) s of
             (False, s1) \<Rightarrow> s1
           | (True, s1) \<Rightarrow>
               s1\<lparr>es_catchup := False, es_lastCatchupEvent := None, es_dispatch := es_dispatch s1 @ [ConfirmedMsg startupBlock],
                  es_checkpointBlock := startupBlock, es_startupBlock := None\<rparr>)
      | (None, Some block) \<Rightarrow>
          (case processCatchupEventPage dec order logOf (sint (b_number (eb_block block))) s of
             (False, s1) \<Rightarrow> s1
           | (True, s1) \<Rightarrow>
               (processNotifiedBlock dec block (s1\<lparr>es_catchup := False, es_lastCatchupEvent := None\<rparr>))
                 \<lparr>es_checkpointBlock := sint (b_number (eb_block block)), es_catchUpToBlock := None\<rparr>)
      | (None, None) \<Rightarrow> s0)"

section \<open>The dispatcher\<close>

definition updateCheckpoint :: "int \<Rightarrow> ('a, 'd) eventStream \<Rightarrow> ('a, 'd) eventStream" where
  "updateCheckpoint blockNumber s = s\<lparr>es_dbCheckpoint := Some blockNumber, es_checkpoint := blockNumber\<rparr>"

text \<open>The handler has accepted the batch and the checkpoint is written; failures before that are retried.\<close>

definition runBatch :: "'d eventBatch \<Rightarrow> ('a, 'd) eventStream \<Rightarrow> ('a, 'd) eventStream" where
  "runBatch batch s =
     (updateCheckpoint (ev_checkpointAfterBatch batch) s)\<lparr>es_delivered := es_delivered s @ ev_events batch, es_batch := None\<rparr>"

definition addEvent :: "'d EventWithData \<Rightarrow> bool \<Rightarrow> 'd eventBatch option \<Rightarrow> 'd eventBatch" where
  "addEvent ev lastInBlock batch =
     (let b = (case batch of None \<Rightarrow> \<lparr>ev_events = [], ev_checkpointAfterBatch = 0\<rparr> | Some b \<Rightarrow> b);
          n = ie_blockNumber (fst ev)
      in b\<lparr>ev_events := ev_events b @ [ev],
           ev_checkpointAfterBatch := (if lastInBlock then n else if n > 0 then n - 1 else ev_checkpointAfterBatch b)\<rparr>)"

definition dispatcherMsg :: "'d detectorMsg \<Rightarrow> ('a, 'd) eventStream \<Rightarrow> ('a, 'd) eventStream" where
  "dispatcherMsg msg s =
     (case msg of
        ConfirmedMsg n \<Rightarrow> if n > es_checkpoint s then updateCheckpoint n s else s
      | EventMsg ev lastInBlock \<Rightarrow>
          (let batch = addEvent ev lastInBlock (es_batch s); s1 = s\<lparr>es_batch := Some batch\<rparr>
           in if length (ev_events batch) \<ge> es_batchSize s then runBatch batch s1 else s1))"

section \<open>Runs\<close>

text \<open>A block the indexer commits: its rows of events and its receipts. The rows have the number of the block and are
  in the order of the table; topics are 32 bytes; the node returns for each row the log it was made of.\<close>

definition committable ::
  "(IndexedEvent \<Rightarrow> LogJSONRPC option) \<Rightarrow> int list \<Rightarrow> ('a, 'd) eventStream \<Rightarrow> BlockInfoJSONRPC \<Rightarrow> TXReceiptJSONRPC list \<Rightarrow> bool" where
  "committable logOf ignored s b rs \<longleftrightarrow>
     b_number b < 2 ^ 63 - 1
     \<and> (case es_highestIndexed s of None \<Rightarrow> True | Some h \<Rightarrow> sint (b_number b) = h + 1)
     \<and> (\<forall>r \<in> set rs. r_type r \<notin> set ignored)
     \<and> sorted_wrt (\<lambda>x y. ie_key x < ie_key y) (map logToIndexedEvent (concat (map r_logs rs)))
     \<and> (\<forall>l \<in> set (concat (map r_logs rs)). l_blockNumber l = b_number b \<and> logOf (logToIndexedEvent l) = Some l
          \<and> (case l_topics l of [] \<Rightarrow> replicate 32 0 \<notin> set (es_signatureList s) | t # _ \<Rightarrow> length t = 32))"

definition commitBlock ::
  "int list \<Rightarrow> BlockInfoJSONRPC \<Rightarrow> TXReceiptJSONRPC list \<Rightarrow> ('a, 'd) eventStream \<Rightarrow> ('a, 'd) eventStream" where
  "commitBlock ignored b rs s =
     s\<lparr>es_rows := es_rows s @ snd (receiptRows ignored b 0 rs), es_highestIndexed := Some (sint (b_number b)),
       es_blocks := notifyEventStream (es_queueLength s) (es_signatureList s) (b, rs) (es_blocks s)\<rparr>"

inductive stream_step ::
  "('a \<Rightarrow> LogJSONRPC \<Rightarrow> 'd option) \<Rightarrow> (IndexedEvent \<Rightarrow> LogJSONRPC option) \<Rightarrow> int list \<Rightarrow> ('a, 'd) eventStream \<Rightarrow> ('a, 'd) eventStream \<Rightarrow> bool"
  for dec logOf ignored where
  committed: "committable logOf ignored s b rs \<Longrightarrow> stream_step dec logOf ignored s (commitBlock ignored b rs s)"
| started: "es_phase s = DetectorStopped \<Longrightarrow> stream_step dec logOf ignored s (detectorStart s)"
| first_block: "es_phase s = FirstBlock \<Longrightarrow> es_blocks s = block # rest
    \<Longrightarrow> stream_step dec logOf ignored s (detectorFirst dec block (s\<lparr>es_blocks := rest\<rparr>))"
| notified: "es_phase s = DetectorLoop \<Longrightarrow> es_startupBlock s = None \<Longrightarrow> es_catchUpToBlock s = None \<Longrightarrow> es_blocks s = block # rest
    \<Longrightarrow> stream_step dec logOf ignored s (detectorBlock dec block (s\<lparr>es_blocks := rest\<rparr>))"
| page: "es_phase s = DetectorLoop \<Longrightarrow> es_startupBlock s \<noteq> None \<or> es_catchUpToBlock s \<noteq> None \<Longrightarrow> (\<forall>tx. set (order tx) = set (es_sources s))
    \<Longrightarrow> stream_step dec logOf ignored s (detectorCatchup dec order logOf s)"
| message: "es_dispatch s = msg # rest \<Longrightarrow> stream_step dec logOf ignored s (dispatcherMsg msg (s\<lparr>es_dispatch := rest\<rparr>))"
| batch_timeout: "es_batch s = Some batch \<Longrightarrow> stream_step dec logOf ignored s (runBatch batch s)"
| stream_crashed: "stream_step dec logOf ignored s
    ((initEventStream (es_sources s) (es_signatureList s) (es_fromBlock s) (es_batchSize s) (es_pageSize s) (es_queueLength s))
       \<lparr>es_dbCheckpoint := es_dbCheckpoint s, es_rows := es_rows s, es_highestIndexed := es_highestIndexed s\<rparr>)"

inductive stream_run ::
  "('a \<Rightarrow> LogJSONRPC \<Rightarrow> 'd option) \<Rightarrow> (IndexedEvent \<Rightarrow> LogJSONRPC option) \<Rightarrow> int list \<Rightarrow> ('a, 'd) eventStream \<Rightarrow> bool"
  for dec logOf ignored where
  stream_init: "pageSize \<ge> 1 \<Longrightarrow> stream_run dec logOf ignored (initEventStream sources signatures fb batchSize pageSize queueLength)"
| stream_next: "stream_run dec logOf ignored s \<Longrightarrow> stream_step dec logOf ignored s s' \<Longrightarrow> stream_run dec logOf ignored s'"

end
