(* ===== verification/EventStreamProperties.thy ===== *)
theory EventStreamProperties
  imports EventStreams "HOL-Library.Sublist"
begin

text \<open>
  What holds of an event stream: since its start it delivers, in the order of the chain, every event it wants
  from its base on, once each, however it has fallen behind. What does not hold: that the persisted
  checkpoint stays behind the delivered events.
\<close>

section \<open>The events a stream wants\<close>

definition wanted :: "('a \<Rightarrow> LogJSONRPC \<Rightarrow> 'd option) \<Rightarrow> (IndexedEvent \<Rightarrow> LogJSONRPC option) \<Rightarrow> ('a, 'd) eventStream \<Rightarrow> IndexedEvent \<Rightarrow> bool" where
  "wanted dec logOf s e \<longleftrightarrow> ie_signature e \<in> set (es_signatureList s)
     \<and> (\<exists>l. logOf e = Some l \<and> firstSource dec (es_sources s) l \<noteq> None)"

fun msgEvents :: "'d detectorMsg list \<Rightarrow> IndexedEvent list" where
  "msgEvents [] = []"
| "msgEvents (EventMsg ev _ # ms) = fst ev # msgEvents ms"
| "msgEvents (ConfirmedMsg _ # ms) = msgEvents ms"

definition batchEvents :: "('a, 'd) eventStream \<Rightarrow> IndexedEvent list" where
  "batchEvents s = (case es_batch s of None \<Rightarrow> [] | Some b \<Rightarrow> map fst (ev_events b))"

definition sent :: "('a, 'd) eventStream \<Rightarrow> IndexedEvent list" where
  "sent s = map fst (es_delivered s) @ batchEvents s @ msgEvents (es_dispatch s)"

abbreviation blockNo :: "BlockInfoJSONRPC \<Rightarrow> int" where
  "blockNo b \<equiv> sint (b_number b)"

definition wantedRows ::
  "('a \<Rightarrow> LogJSONRPC \<Rightarrow> 'd option) \<Rightarrow> (IndexedEvent \<Rightarrow> LogJSONRPC option) \<Rightarrow> ('a, 'd) eventStream \<Rightarrow> (int \<Rightarrow> bool) \<Rightarrow> IndexedEvent list" where
  "wantedRows dec logOf s P = filter (\<lambda>e. wanted dec logOf s e \<and> P (ie_blockNumber e)) (es_rows s)"

text \<open>The rows that a catch-up has yet to read.\<close>

definition unread :: "int \<Rightarrow> ('a, 'd) eventStream \<Rightarrow> IndexedEvent list" where
  "unread upTo s = filter (\<lambda>e. ie_signature e \<in> set (es_signatureList s) \<and> ie_blockNumber e < upTo
     \<and> (case es_lastCatchupEvent s of None \<Rightarrow> ie_blockNumber e > es_checkpointBlock s | Some l \<Rightarrow> ie_key e > ie_key l)) (es_rows s)"

lemma msgEvents_append [simp]: "msgEvents (xs @ ys) = msgEvents xs @ msgEvents ys"
  by (induction xs rule: msgEvents.induct) auto

lemma firstSource_None: "firstSource dec sources l = None \<longleftrightarrow> (\<forall>source \<in> set sources. matchLog dec source l = None)"
  by (induction sources) (auto split: option.splits)

lemma enrichEvent_None: "enrichEvent dec order l = None \<longleftrightarrow> (\<forall>source \<in> set order. matchLog dec source l = None)"
proof -
  have "fold (\<lambda>source d. case matchLog dec source l of Some x \<Rightarrow> Some x | None \<Rightarrow> d) order d0 = None
      \<longleftrightarrow> d0 = None \<and> (\<forall>source \<in> set order. matchLog dec source l = None)" for d0
    by (induction order arbitrary: d0) (auto split: option.splits)
  then show ?thesis by (simp add: enrichEvent_def)
qed

lemma enrich_first: "set order = set sources \<Longrightarrow> enrichEvent dec order l = None \<longleftrightarrow> firstSource dec sources l = None"
  by (simp add: enrichEvent_None firstSource_None)

lemma pageMsgs_events:
  assumes "\<forall>tx. set (order tx) = set (es_sources s)"
  shows "msgEvents (pageMsgs dec order logOf c es)
    = filter (\<lambda>e. \<exists>l. logOf e = Some l \<and> firstSource dec (es_sources s) l \<noteq> None) es"
proof (induction es)
  case (Cons e es)
  show ?case
  proof (cases "Option.bind (logOf e) (enrichEvent dec (order (ie_transactionHash e)))")
    case None
    then have "\<not> (\<exists>l. logOf e = Some l \<and> firstSource dec (es_sources s) l \<noteq> None)"
      using enrich_first [OF spec [OF assms]] by (auto split: bind_splits)
    then show ?thesis using Cons None by simp
  next
    case (Some d)
    then have "\<exists>l. logOf e = Some l \<and> firstSource dec (es_sources s) l \<noteq> None"
      using enrich_first [OF spec [OF assms]] by (metis bind_eq_Some_conv option.distinct(1))
    then show ?thesis using Cons Some by simp
  qed
qed simp

lemma blockMsgs_events:
  "msgEvents (blockMsgs dec sources n i ls) = map logToIndexedEvent (filter (\<lambda>l. firstSource dec sources l \<noteq> None) ls)"
  by (induction ls arbitrary: i) (auto split: option.splits)

section \<open>Rows in order\<close>

definition rowsOk :: "('a, 'd) eventStream \<Rightarrow> bool" where
  "rowsOk s \<longleftrightarrow> sorted_wrt (\<lambda>x y. ie_key x < ie_key y) (es_rows s)
     \<and> (\<forall>e \<in> set (es_rows s). \<exists>h. es_highestIndexed s = Some h \<and> ie_blockNumber e \<le> h)"

lemma key_block: "ie_key x < ie_key y \<Longrightarrow> ie_blockNumber x \<le> ie_blockNumber y"
  by (auto simp: ie_key_def less_prod_def)

lemma filter_split_block:
  assumes "sorted_wrt (\<lambda>x y. ie_key x < ie_key y) es"
  shows "filter (\<lambda>e. P e \<and> ie_blockNumber e \<le> n) es @ filter (\<lambda>e. P e \<and> n < ie_blockNumber e) es = filter P es"
  using assms
proof (induction es)
  case (Cons e es)
  show ?case
  proof (cases "ie_blockNumber e \<le> n")
    case False
    then have "\<forall>x \<in> set es. \<not> ie_blockNumber x \<le> n" using Cons.prems key_block by fastforce
    then have "filter (\<lambda>e. P e \<and> ie_blockNumber e \<le> n) es = []" "filter (\<lambda>e. P e \<and> n < ie_blockNumber e) es = filter P es"
      by (auto simp: filter_empty_conv intro!: filter_cong)
    then show ?thesis using False by simp
  qed (use Cons in auto)
qed simp

lemma wantedRows_split:
  assumes "rowsOk s" and "a \<le> n"
  shows "wantedRows dec logOf s (\<lambda>b. a < b \<and> b \<le> n) @ wantedRows dec logOf s (\<lambda>b. n < b \<and> P b)
    = wantedRows dec logOf s (\<lambda>b. a < b \<and> (b \<le> n \<or> P b))"
proof -
  let ?f = "\<lambda>e. wanted dec logOf s e \<and> a < ie_blockNumber e \<and> (ie_blockNumber e \<le> n \<or> P (ie_blockNumber e))"
  have "filter (\<lambda>e. ?f e \<and> ie_blockNumber e \<le> n) (es_rows s) @ filter (\<lambda>e. ?f e \<and> n < ie_blockNumber e) (es_rows s)
      = filter ?f (es_rows s)"
    using assms(1) by (intro filter_split_block) (simp add: rowsOk_def)
  moreover have "filter (\<lambda>e. ?f e \<and> ie_blockNumber e \<le> n) (es_rows s) = wantedRows dec logOf s (\<lambda>b. a < b \<and> b \<le> n)"
    "filter (\<lambda>e. ?f e \<and> n < ie_blockNumber e) (es_rows s) = wantedRows dec logOf s (\<lambda>b. n < b \<and> P b)"
    using assms(2) by (auto simp: wantedRows_def intro!: filter_cong)
  ultimately show ?thesis by (simp add: wantedRows_def)
qed

text \<open>A page of the query on sorted rows is the beginning of the unread rows.\<close>

lemma catchupQuery_page:
  assumes "rowsOk s"
  shows "catchupQuery (es_signatureList s) (es_lastCatchupEvent s) (es_checkpointBlock s) upTo k (es_rows s) = take k (unread upTo s)"
proof -
  have "sorted_wrt (\<lambda>x y. ie_key x < ie_key y) (unread upTo s)"
    using assms by (auto simp: rowsOk_def unread_def intro: sorted_wrt_filter)
  then have "sorted (map ie_key (unread upTo s))"
    by (auto simp: sorted_wrt_map intro: sorted_wrt_mono_rel [of _ "\<lambda>x y. ie_key x < ie_key y"] less_imp_le)
  then show ?thesis by (simp add: catchupQuery_def unread_def sorted_sort_id sort_key_id_if_sorted)
qed

section \<open>The invariant\<close>

definition noteOk ::
  "('a \<Rightarrow> LogJSONRPC \<Rightarrow> 'd option) \<Rightarrow> (IndexedEvent \<Rightarrow> LogJSONRPC option) \<Rightarrow> ('a, 'd) eventStream \<Rightarrow> eventStreamBlock \<Rightarrow> bool" where
  "noteOk dec logOf s nb \<longleftrightarrow> b_number (eb_block nb) < 2 ^ 63 - 1
     \<and> (\<exists>h. es_highestIndexed s = Some h \<and> blockNo (eb_block nb) \<le> h)
     \<and> map logToIndexedEvent (filter (\<lambda>l. firstSource dec (es_sources s) l \<noteq> None) (eb_events nb))
         = wantedRows dec logOf s (\<lambda>b. b = blockNo (eb_block nb))"

abbreviation (input) unreadWanted where
  "unreadWanted dec logOf upTo s \<equiv> filter (wanted dec logOf s) (unread upTo s)"

fun detectorOk ::
  "('a \<Rightarrow> LogJSONRPC \<Rightarrow> 'd option) \<Rightarrow> (IndexedEvent \<Rightarrow> LogJSONRPC option) \<Rightarrow> ('a, 'd) eventStream \<Rightarrow> detectorPhase \<Rightarrow> int option
     \<Rightarrow> eventStreamBlock option \<Rightarrow> bool" where
  "detectorOk dec logOf s DetectorLoop (Some h) c \<longleftrightarrow> c = None \<and> (\<exists>h'. es_highestIndexed s = Some h' \<and> h \<le> h')
     \<and> es_base s = min h (es_checkpointBlock s)
     \<and> sent s @ unreadWanted dec logOf (h + 1) s = wantedRows dec logOf s (\<lambda>b. es_base s < b \<and> b < h + 1)"
| "detectorOk dec logOf s DetectorLoop None (Some nb) \<longleftrightarrow> noteOk dec logOf s nb
     \<and> es_base s \<le> es_checkpointBlock s \<and> es_checkpointBlock s < blockNo (eb_block nb)
     \<and> sent s @ unreadWanted dec logOf (blockNo (eb_block nb)) s
         = wantedRows dec logOf s (\<lambda>b. es_base s < b \<and> b < blockNo (eb_block nb))"
| "detectorOk dec logOf s DetectorLoop None None \<longleftrightarrow> es_lastCatchupEvent s = None \<and> es_base s \<le> es_checkpointBlock s
     \<and> (es_checkpointBlock s \<le> es_base s \<or> (\<exists>h. es_highestIndexed s = Some h \<and> es_checkpointBlock s \<le> h))
     \<and> sent s = wantedRows dec logOf s (\<lambda>b. es_base s < b \<and> b \<le> es_checkpointBlock s)"
| "detectorOk dec logOf s p h c \<longleftrightarrow> h = None \<and> c = None \<and> es_lastCatchupEvent s = None \<and> sent s = []"

fun msgLow :: "'d detectorMsg \<Rightarrow> bool" where
  "msgLow (ConfirmedMsg n) = (- (2 ^ 63) \<le> n)"
| "msgLow (EventMsg ev b) = (- (2 ^ 63) \<le> ie_blockNumber (fst ev))"

definition lowOk :: "('a, 'd) eventStream \<Rightarrow> bool" where
  "lowOk s \<longleftrightarrow> (\<forall>n. es_dbCheckpoint s = Some n \<longrightarrow> - (2 ^ 63) \<le> n) \<and> (\<forall>m \<in> set (es_dispatch s). msgLow m)
     \<and> (\<forall>e \<in> set (es_rows s). - (2 ^ 63) \<le> ie_blockNumber e) \<and> (es_phase s = DetectorLoop \<longrightarrow> - (2 ^ 63) \<le> es_checkpointBlock s)
     \<and> (\<forall>b. es_batch s = Some b \<longrightarrow> - (2 ^ 63) \<le> ev_checkpointAfterBatch b) \<and> (\<forall>n. es_highestIndexed s = Some n \<longrightarrow> - (2 ^ 63) \<le> n)
     \<and> (\<forall>n. es_startupBlock s = Some n \<longrightarrow> - (2 ^ 63) \<le> n)"

definition streamOk ::
  "('a \<Rightarrow> LogJSONRPC \<Rightarrow> 'd option) \<Rightarrow> (IndexedEvent \<Rightarrow> LogJSONRPC option) \<Rightarrow> ('a, 'd) eventStream \<Rightarrow> bool" where
  "streamOk dec logOf s \<longleftrightarrow> rowsOk s \<and> lowOk s \<and> es_pageSize s \<ge> 1 \<and> (\<forall>nb \<in> set (es_blocks s). noteOk dec logOf s nb)
     \<and> detectorOk dec logOf s (es_phase s) (es_startupBlock s) (es_catchUpToBlock s)"

text \<open>The fields the invariant of the rows depends on.\<close>

definition sameRows :: "('a, 'd) eventStream \<Rightarrow> ('a, 'd) eventStream \<Rightarrow> bool" where
  "sameRows s s' \<longleftrightarrow> es_rows s' = es_rows s \<and> es_highestIndexed s' = es_highestIndexed s \<and> es_sources s' = es_sources s
     \<and> es_signatureList s' = es_signatureList s \<and> es_pageSize s' = es_pageSize s"

lemma sameRows_simps:
  assumes "sameRows s s'"
  shows "rowsOk s' = rowsOk s" "noteOk dec logOf s' nb = noteOk dec logOf s nb" "wanted dec logOf s' = wanted dec logOf s"
    "wantedRows dec logOf s' P = wantedRows dec logOf s P"
  using assms by (auto simp: sameRows_def rowsOk_def noteOk_def wantedRows_def wanted_def fun_eq_iff)

lemma unread_same:
  "sameRows s s' \<Longrightarrow> es_lastCatchupEvent s' = es_lastCatchupEvent s \<Longrightarrow> es_checkpointBlock s' = es_checkpointBlock s
     \<Longrightarrow> unread upTo s' = unread upTo s"
  by (cases "es_lastCatchupEvent s") (simp_all add: sameRows_def unread_def)

lemma detectorOk_same:
  assumes "sameRows s s'" and "es_lastCatchupEvent s' = es_lastCatchupEvent s" and "es_checkpointBlock s' = es_checkpointBlock s"
    and "es_base s' = es_base s" and "sent s' = sent s" and "es_highestIndexed s' = es_highestIndexed s"
  shows "detectorOk dec logOf s' p h c = detectorOk dec logOf s p h c"
  using assms by (cases "(dec, logOf, s, p, h, c)" rule: detectorOk.cases) (simp_all add: sameRows_simps unread_same)

lemma sameRows_trans: "sameRows s t \<Longrightarrow> sameRows t u \<Longrightarrow> sameRows s u"
  by (simp add: sameRows_def)

lemma streamOk_moved:
  assumes "streamOk dec logOf s" and "sameRows s s'" and "lowOk s'" and "set (es_blocks s') \<subseteq> set (es_blocks s)"
    and "detectorOk dec logOf s' (es_phase s') (es_startupBlock s') (es_catchUpToBlock s')"
  shows "streamOk dec logOf s'"
  using assms sameRows_simps(1,2) [OF assms(2)] by (auto simp: streamOk_def sameRows_def)

section \<open>The dispatcher\<close>

lemma sint_low: "- (2 ^ 63) \<le> sint (w :: uint64)"
  using sint_ge [of w] by simp

lemma dispatch_sent:
  assumes "es_dispatch s = msg # rest"
  shows "sent (dispatcherMsg msg (s\<lparr>es_dispatch := rest\<rparr>)) = sent s"
  using assms
  by (cases msg) (auto simp: dispatcherMsg_def sent_def batchEvents_def updateCheckpoint_def addEvent_def runBatch_def Let_def split: option.splits)

lemma run_sent: "es_batch s = Some batch \<Longrightarrow> sent (runBatch batch s) = sent s"
  by (simp add: sent_def batchEvents_def runBatch_def updateCheckpoint_def)

lemma dispatch_low:
  assumes "lowOk s" and "es_dispatch s = msg # rest"
  shows "lowOk (dispatcherMsg msg (s\<lparr>es_dispatch := rest\<rparr>))"
proof (cases msg)
  case (EventMsg ev b)
  then have "- (2 ^ 63) \<le> ie_blockNumber (fst ev)" using assms by (simp add: lowOk_def)
  then have "- (2 ^ 63) \<le> ev_checkpointAfterBatch (addEvent ev b (es_batch s))"
    using assms(1) by (auto simp: addEvent_def lowOk_def Let_def split: option.splits)
  then show ?thesis using assms EventMsg
    by (simp add: lowOk_def dispatcherMsg_def runBatch_def updateCheckpoint_def Let_def)
next
  case (ConfirmedMsg n)
  then show ?thesis using assms by (simp add: lowOk_def dispatcherMsg_def updateCheckpoint_def)
qed

lemma dispatch_ok:
  assumes "streamOk dec logOf s" and "es_dispatch s = msg # rest"
  shows "streamOk dec logOf (dispatcherMsg msg (s\<lparr>es_dispatch := rest\<rparr>))"
proof -
  let ?s = "dispatcherMsg msg (s\<lparr>es_dispatch := rest\<rparr>)"
  have same: "sameRows s ?s" "es_lastCatchupEvent ?s = es_lastCatchupEvent s" "es_checkpointBlock ?s = es_checkpointBlock s"
    "es_base ?s = es_base s" "es_highestIndexed ?s = es_highestIndexed s"
    and rest: "es_phase ?s = es_phase s" "es_startupBlock ?s = es_startupBlock s" "es_catchUpToBlock ?s = es_catchUpToBlock s"
    "es_blocks ?s = es_blocks s"
    by (auto simp: sameRows_def dispatcherMsg_def updateCheckpoint_def runBatch_def Let_def split: detectorMsg.splits)
  show ?thesis
    by (rule streamOk_moved [OF assms(1) same(1)])
       (use assms dispatch_low [of s] detectorOk_same [OF same(1-4) dispatch_sent [OF assms(2)] same(5)] rest in \<open>auto simp: streamOk_def\<close>)
qed

lemma batch_ok:
  assumes "streamOk dec logOf s" and "es_batch s = Some batch"
  shows "streamOk dec logOf (runBatch batch s)"
proof -
  let ?s = "runBatch batch s"
  have same: "sameRows s ?s" "es_lastCatchupEvent ?s = es_lastCatchupEvent s" "es_checkpointBlock ?s = es_checkpointBlock s"
    "es_base ?s = es_base s" "es_highestIndexed ?s = es_highestIndexed s"
    and rest: "es_phase ?s = es_phase s" "es_startupBlock ?s = es_startupBlock s" "es_catchUpToBlock ?s = es_catchUpToBlock s"
    "es_blocks ?s = es_blocks s"
    by (auto simp: sameRows_def updateCheckpoint_def runBatch_def)
  have "lowOk ?s" using assms by (auto simp: streamOk_def lowOk_def runBatch_def updateCheckpoint_def)
  then show ?thesis
    by (rule streamOk_moved [OF assms(1) same(1)])
       (use assms detectorOk_same [OF same(1-4) run_sent [OF assms(2)] same(5)] rest in \<open>auto simp: streamOk_def\<close>)
qed

section \<open>Pages\<close>

lemma filter_after_page:
  assumes "sorted_wrt (\<lambda>x y. ie_key x < ie_key y) q" and "0 < k" and "k \<le> length q"
  shows "filter (\<lambda>e. ie_key (last (take k q)) < ie_key e) q = drop k q"
proof -
  let ?t = "take k q" and ?d = "drop k q"
  have ne: "?t \<noteq> []" using assms(2,3) by auto
  have "sorted_wrt (\<lambda>x y. ie_key x < ie_key y) (?t @ ?d)" using assms(1) by simp
  then have d: "\<forall>e \<in> set ?d. ie_key (last ?t) < ie_key e" and t: "sorted_wrt (\<lambda>x y. ie_key x < ie_key y) ?t"
    unfolding sorted_wrt_append using last_in_set [OF ne] by blast+
  have "sorted_wrt (\<lambda>x y. ie_key x < ie_key y) (butlast ?t @ [last ?t])" using t ne by simp
  then have "\<forall>e \<in> set (butlast ?t @ [last ?t]). \<not> ie_key (last ?t) < ie_key e" unfolding sorted_wrt_append by auto
  then have "\<forall>e \<in> set ?t. \<not> ie_key (last ?t) < ie_key e" by (metis append_butlast_last_id ne)
  then have "filter (\<lambda>e. ie_key (last ?t) < ie_key e) ?t = []" by simp
  moreover have "filter (\<lambda>e. ie_key (last ?t) < ie_key e) ?d = ?d" using d by (simp add: filter_id_conv)
  ultimately show ?thesis by (metis append_Nil append_take_drop_id filter_append)
qed

lemma unread_sorted: "rowsOk s \<Longrightarrow> sorted_wrt (\<lambda>x y. ie_key x < ie_key y) (unread upTo s)"
  by (auto simp: rowsOk_def unread_def intro: sorted_wrt_filter)

lemma unread_mem:
  "l \<in> set (unread upTo s) \<Longrightarrow>
     case es_lastCatchupEvent s of None \<Rightarrow> ie_blockNumber l > es_checkpointBlock s | Some x \<Rightarrow> ie_key l > ie_key x"
  by (simp add: unread_def)

lemma unread_from:
  assumes "case es_lastCatchupEvent s of None \<Rightarrow> ie_blockNumber l > es_checkpointBlock s | Some x \<Rightarrow> ie_key l > ie_key x"
    and "sameRows s s'" and "es_lastCatchupEvent s' = Some l"
  shows "unread upTo s' = filter (\<lambda>e. ie_key l < ie_key e) (unread upTo s)"
proof -
  have "(case es_lastCatchupEvent s of None \<Rightarrow> ie_blockNumber e > es_checkpointBlock s | Some x \<Rightarrow> ie_key e > ie_key x)"
    if "ie_key l < ie_key e" for e
    using assms(1) that key_block [OF that] by (auto split: option.splits)
  then show ?thesis using assms(2,3) unfolding unread_def sameRows_def filter_filter by (intro filter_cong) auto
qed

lemma unread_after:
  assumes "rowsOk s" and "0 < k" and "k \<le> length (unread upTo s)"
    and "sameRows s s'" and "es_lastCatchupEvent s' = Some (last (take k (unread upTo s)))"
  shows "unread upTo s' = drop k (unread upTo s)"
proof -
  let ?l = "last (take k (unread upTo s))"
  have "take k (unread upTo s) \<noteq> []" using assms(2,3) by auto
  then have l: "?l \<in> set (unread upTo s)" using last_in_set set_take_subset by (metis subsetD)
  then have "unread upTo s' = filter (\<lambda>e. ie_key ?l < ie_key e) (unread upTo s)"
    using unread_from [OF unread_mem assms(4,5)] by blast
  then show ?thesis using filter_after_page [OF unread_sorted [OF assms(1)] assms(2,3)] by simp
qed

lemma wanted_unread:
  "filter (\<lambda>e. \<exists>l. logOf e = Some l \<and> firstSource dec (es_sources s) l \<noteq> None) (take k (unread upTo s))
     = filter (wanted dec logOf s) (take k (unread upTo s))"
proof (rule filter_cong)
  fix e
  assume "e \<in> set (take k (unread upTo s))"
  then have "e \<in> set (unread upTo s)" by (rule in_set_takeD)
  then show "(\<exists>l. logOf e = Some l \<and> firstSource dec (es_sources s) l \<noteq> None) = wanted dec logOf s e"
    by (simp add: unread_def wanted_def)
qed simp

lemma page_step:
  assumes "rowsOk s" and "es_pageSize s \<ge> 1" and "\<forall>tx. set (order tx) = set (es_sources s)"
    and "processCatchupEventPage dec order logOf upTo s = (c, s')"
  shows "sameRows s s'" and "c \<Longrightarrow> sent s' = sent s @ unreadWanted dec logOf upTo s"
    and "\<not> c \<Longrightarrow> sent s' @ unreadWanted dec logOf upTo s' = sent s @ unreadWanted dec logOf upTo s"
proof -
  let ?q = "unread upTo s" and ?k = "es_pageSize s"
  have page: "catchupQuery (es_signatureList s) (es_lastCatchupEvent s) (es_checkpointBlock s) upTo ?k (es_rows s) = take ?k ?q"
    by (rule catchupQuery_page [OF assms(1)])
  show same: "sameRows s s'" using assms(4) by (auto simp: processCatchupEventPage_def sameRows_def Let_def split: if_splits)
  have sent': "sent s' = sent s @ filter (wanted dec logOf s) (take ?k ?q)"
    using assms(4) wanted_unread [of logOf dec s ?k upTo]
    by (auto simp: processCatchupEventPage_def page sent_def batchEvents_def pageMsgs_events [OF assms(3)] Let_def split: if_splits)
  show "sent s' = sent s @ unreadWanted dec logOf upTo s" if c
  proof -
    have "take ?k ?q = ?q" using that assms(2,4) by (auto simp: processCatchupEventPage_def page Let_def split: if_splits)
    then show ?thesis using sent' by simp
  qed
  show "sent s' @ unreadWanted dec logOf upTo s' = sent s @ unreadWanted dec logOf upTo s" if "\<not> c"
  proof -
    have len: "?k \<le> length ?q" and last: "es_lastCatchupEvent s' = Some (last (take ?k ?q))"
      using that assms(4) by (auto simp: processCatchupEventPage_def page Let_def split: if_splits)
    have "unread upTo s' = drop ?k ?q" using unread_after [OF assms(1) _ len same last] assms(2) by simp
    moreover have "filter (wanted dec logOf s) (take ?k ?q) @ filter (wanted dec logOf s) (drop ?k ?q) = filter (wanted dec logOf s) ?q"
      by (metis append_take_drop_id filter_append)
    ultimately show ?thesis using sent' sameRows_simps(3) [OF same, of dec logOf] by simp
  qed
qed

section \<open>The detector\<close>

lemma blockMsgs_low: "\<forall>m \<in> set (blockMsgs dec sources n i ls). msgLow m"
proof (induction ls arbitrary: i)
  case (Cons l ls)
  have "- (2 ^ 63) \<le> ie_blockNumber (logToIndexedEvent l)" using sint_low by (simp add: logToIndexedEvent_def)
  then show ?case using Cons by (simp split: option.splits)
qed simp

lemma notify_fields:
  "sameRows s (processNotifiedBlock dec nb s)" "es_phase (processNotifiedBlock dec nb s) = es_phase s"
  "es_startupBlock (processNotifiedBlock dec nb s) = es_startupBlock s" "es_catchUpToBlock (processNotifiedBlock dec nb s) = es_catchUpToBlock s"
  "es_lastCatchupEvent (processNotifiedBlock dec nb s) = es_lastCatchupEvent s" "es_blocks (processNotifiedBlock dec nb s) = es_blocks s"
  "es_checkpointBlock (processNotifiedBlock dec nb s) = es_checkpointBlock s" "es_base (processNotifiedBlock dec nb s) = es_base s"
  "es_highestIndexed (processNotifiedBlock dec nb s) = es_highestIndexed s"
  "lowOk s \<Longrightarrow> lowOk (processNotifiedBlock dec nb s)"
  using blockMsgs_low [of dec "es_sources s" "length (eb_events nb)" 0 "eb_events nb"] sint_low [of "b_number (eb_block nb)"]
  by (auto simp: processNotifiedBlock_def sameRows_def lowOk_def Let_def)

lemma notify_sent:
  assumes "noteOk dec logOf s nb"
  shows "sent (processNotifiedBlock dec nb s) = sent s @ wantedRows dec logOf s (\<lambda>b. b = blockNo (eb_block nb))"
proof -
  let ?m = "blockMsgs dec (es_sources s) (length (eb_events nb)) 0 (eb_events nb)"
  have "msgEvents ?m = wantedRows dec logOf s (\<lambda>b. b = blockNo (eb_block nb))"
    using assms by (simp add: blockMsgs_events noteOk_def)
  then show ?thesis by (cases "?m = []") (auto simp: processNotifiedBlock_def sent_def batchEvents_def)
qed

lemma wantedRows_cong: "(\<And>b. P b = Q b) \<Longrightarrow> wantedRows dec logOf s P = wantedRows dec logOf s Q"
  by (simp add: wantedRows_def)

lemma unread_wanted_None:
  "es_lastCatchupEvent s = None \<Longrightarrow> unreadWanted dec logOf upTo s = wantedRows dec logOf s (\<lambda>b. es_checkpointBlock s < b \<and> b < upTo)"
  by (auto simp: unread_def wantedRows_def wanted_def intro!: filter_cong)

lemma start_ok:
  assumes "streamOk dec logOf s" and "es_phase s = DetectorStopped"
  shows "streamOk dec logOf (detectorStart s)"
proof -
  let ?s = "detectorStart s"
  have s: "es_lastCatchupEvent s = None" "es_startupBlock s = None" "es_catchUpToBlock s = None" "sent s = []" "rowsOk s" "lowOk s"
    using assms by (auto simp: streamOk_def)
  have same: "sameRows s ?s" "es_blocks ?s = es_blocks s" "es_lastCatchupEvent ?s = None" "es_catchUpToBlock ?s = None" "sent ?s = []"
    using s by (auto simp: detectorStart_def readDBCheckpoint_def sameRows_def sent_def batchEvents_def split: option.splits prod.splits)
  have low: "lowOk ?s"
    using s(6) sint_low by (auto simp: detectorStart_def readDBCheckpoint_def lowOk_def split: option.splits prod.splits)
  have "detectorOk dec logOf ?s (es_phase ?s) (es_startupBlock ?s) (es_catchUpToBlock ?s)"
  proof (cases "fst (readDBCheckpoint s)")
    case None
    then have "es_phase ?s = FirstBlock" "es_startupBlock ?s = None"
      using s(2) by (auto simp: detectorStart_def readDBCheckpoint_def split: option.splits prod.splits)
    then show ?thesis using same by simp
  next
    case (Some cp)
    then have loop: "es_phase ?s = DetectorLoop" "es_startupBlock ?s = es_highestIndexed s" "es_checkpointBlock ?s = cp"
      "es_base ?s = (case es_highestIndexed s of None \<Rightarrow> cp | Some h \<Rightarrow> min h cp)" "es_highestIndexed ?s = es_highestIndexed s"
      by (auto simp: detectorStart_def readDBCheckpoint_def split: option.splits prod.splits)
    show ?thesis
    proof (cases "es_highestIndexed s")
      case None
      then have "es_rows ?s = []" using s(5) same(1) by (cases "es_rows s") (auto simp: rowsOk_def sameRows_def)
      then show ?thesis using loop None same by (simp add: wantedRows_def)
    next
      case (Some h)
      have "unreadWanted dec logOf (h + 1) ?s = wantedRows dec logOf ?s (\<lambda>b. es_base ?s < b \<and> b < h + 1)"
        using unread_wanted_None [OF same(3)] loop Some by (auto simp: min_def intro!: wantedRows_cong)
      then show ?thesis using loop Some same by simp
    qed
  qed
  then show ?thesis by (intro streamOk_moved [OF assms(1) same(1) low]) (simp_all add: same)
qed

lemma first_ok:
  assumes "streamOk dec logOf s" and "es_phase s = FirstBlock" and "es_blocks s = nb # rest"
  shows "streamOk dec logOf (detectorFirst dec nb (s\<lparr>es_blocks := rest\<rparr>))"
proof -
  let ?n = "blockNo (eb_block nb)"
  let ?t = "s\<lparr>es_blocks := rest, es_checkpointBlock := ?n, es_startupBlock := None, es_phase := DetectorLoop, es_base := ?n - 1\<rparr>"
  let ?s = "processNotifiedBlock dec nb ?t"
  have s: "es_lastCatchupEvent s = None" "es_catchUpToBlock s = None" "sent s = []" "noteOk dec logOf s nb"
    using assms by (auto simp: streamOk_def)
  have same: "sameRows s ?t" by (simp add: sameRows_def)
  have low: "lowOk ?t" using assms(1) sint_low by (auto simp: streamOk_def lowOk_def)
  have nt: "noteOk dec logOf ?t nb" using s(4) sameRows_simps(2) [OF same] by simp
  have "sent ?s = wantedRows dec logOf ?t (\<lambda>b. b = ?n)" using notify_sent [OF nt] s(3) by (simp add: sent_def batchEvents_def)
  also have "\<dots> = wantedRows dec logOf ?s (\<lambda>b. ?n - 1 < b \<and> b \<le> ?n)"
    unfolding sameRows_simps(4) [OF notify_fields(1)] by (intro wantedRows_cong) auto
  finally have "detectorOk dec logOf ?s (es_phase ?s) (es_startupBlock ?s) (es_catchUpToBlock ?s)"
    using s nt by (simp add: notify_fields noteOk_def)
  then have "streamOk dec logOf ?s"
    using assms(3) by (intro streamOk_moved [OF assms(1) sameRows_trans [OF same notify_fields(1)] notify_fields(10) [OF low]]) (auto simp: notify_fields)
  then show ?thesis by (simp add: detectorFirst_def)
qed

lemma next_block:
  assumes "b_number b < 2 ^ 63 - 1" and "b_number b = word_of_int (cp + 1)" and "cp < blockNo b" and "- (2 ^ 63) \<le> cp"
  shows "blockNo b = cp + 1"
proof -
  have "b_number b < 2 ^ 63" using assms(1) by (rule less_trans) simp
  then have "blockNo b = uint (b_number b)" "uint (b_number b) < 2 ^ 63"
    by (auto simp: sint_uint word_less_def intro!: signed_take_bit_int_eq_self order_trans [OF _ uint_ge_0])
  then have "cp + 1 < 2 ^ 63" using assms(3) by simp
  then have "sint (word_of_int (cp + 1) :: uint64) = cp + 1"
    unfolding sint_sbintrunc' using assms(4) by (intro signed_take_bit_int_eq_self) simp_all
  then show ?thesis using assms(2) by simp
qed

lemma block_ok:
  assumes "streamOk dec logOf s" and "es_phase s = DetectorLoop" and "es_startupBlock s = None" and "es_catchUpToBlock s = None"
    and "es_blocks s = nb # rest"
  shows "streamOk dec logOf (detectorBlock dec nb (s\<lparr>es_blocks := rest\<rparr>))"
proof -
  let ?n = "blockNo (eb_block nb)" and ?u = "s\<lparr>es_blocks := rest\<rparr>"
  have s: "es_lastCatchupEvent s = None" "es_base s \<le> es_checkpointBlock s" "rowsOk s" "lowOk s" "noteOk dec logOf s nb"
    "sent s = wantedRows dec logOf s (\<lambda>b. es_base s < b \<and> b \<le> es_checkpointBlock s)"
    using assms by (auto simp: streamOk_def)
  have u: "streamOk dec logOf ?u"
  proof (rule streamOk_moved [OF assms(1)])
    show "sameRows s ?u" by (simp add: sameRows_def)
    show "lowOk ?u" using s(4) by (simp add: lowOk_def)
    have "detectorOk dec logOf ?u (es_phase s) (es_startupBlock s) (es_catchUpToBlock s)
        = detectorOk dec logOf s (es_phase s) (es_startupBlock s) (es_catchUpToBlock s)"
      by (rule detectorOk_same) (simp_all add: sameRows_def sent_def batchEvents_def)
    then show "detectorOk dec logOf ?u (es_phase ?u) (es_startupBlock ?u) (es_catchUpToBlock ?u)"
      using assms(1) by (simp add: streamOk_def)
  qed (use assms(5) in auto)
  consider "?n \<le> es_checkpointBlock s" | "es_checkpointBlock s < ?n" "b_number (eb_block nb) = word_of_int (es_checkpointBlock s + 1)"
    | "es_checkpointBlock s < ?n" "b_number (eb_block nb) \<noteq> word_of_int (es_checkpointBlock s + 1)" by linarith
  then show ?thesis
  proof cases
    case 1
    then show ?thesis using u by (simp add: detectorBlock_def)
  next
    case 2
    let ?t = "?u\<lparr>es_checkpointBlock := ?n\<rparr>"
    let ?s = "processNotifiedBlock dec nb ?t"
    have n: "?n = es_checkpointBlock s + 1"
      using next_block [of "eb_block nb"] 2 s(4,5) assms(2) by (auto simp: noteOk_def lowOk_def)
    have same: "sameRows s ?t" by (simp add: sameRows_def)
    have nt: "noteOk dec logOf ?t nb" using s(5) sameRows_simps(2) [OF same] by simp
    have "lowOk ?t" using s(4) sint_low by (simp add: lowOk_def)
    have "sent ?s = wantedRows dec logOf s (\<lambda>b. es_base s < b \<and> b \<le> es_checkpointBlock s) @ wantedRows dec logOf s (\<lambda>b. b = ?n)"
      using notify_sent [OF nt] s(6) sameRows_simps(4) [OF same] by (simp add: sent_def batchEvents_def)
    also have "wantedRows dec logOf s (\<lambda>b. b = ?n) = wantedRows dec logOf s (\<lambda>b. es_checkpointBlock s < b \<and> b \<le> ?n)"
      using n by (intro wantedRows_cong) auto
    also have "wantedRows dec logOf s (\<lambda>b. es_base s < b \<and> b \<le> es_checkpointBlock s) @ \<dots> = wantedRows dec logOf s (\<lambda>b. es_base s < b \<and> b \<le> ?n)"
      unfolding wantedRows_split [OF s(3,2)] using n s(2) by (intro wantedRows_cong) auto
    finally have "sent ?s = wantedRows dec logOf ?s (\<lambda>b. es_base s < b \<and> b \<le> ?n)"
      by (simp add: sameRows_simps(4) [OF sameRows_trans [OF same notify_fields(1)]])
    then have "detectorOk dec logOf ?s (es_phase ?s) (es_startupBlock ?s) (es_catchUpToBlock ?s)"
      using assms(2-4) s nt n by (simp add: notify_fields noteOk_def)
    then have "streamOk dec logOf ?s"
      using assms(5) by (intro streamOk_moved [OF assms(1) sameRows_trans [OF same notify_fields(1)] notify_fields(10) [OF \<open>lowOk ?t\<close>]])
        (auto simp: notify_fields)
    then show ?thesis using 2 by (simp add: detectorBlock_def)
  next
    case 3
    let ?s = "?u\<lparr>es_catchUpToBlock := Some nb\<rparr>"
    have same: "sameRows s ?s" by (simp add: sameRows_def)
    have "sent ?s @ unreadWanted dec logOf ?n ?s
        = wantedRows dec logOf s (\<lambda>b. es_base s < b \<and> b \<le> es_checkpointBlock s) @ wantedRows dec logOf s (\<lambda>b. es_checkpointBlock s < b \<and> b < ?n)"
      using unread_wanted_None [of ?s dec logOf ?n] s(1,6) sameRows_simps(4) [OF same] by (simp add: sent_def batchEvents_def)
    also have "\<dots> = wantedRows dec logOf s (\<lambda>b. es_base s < b \<and> b < ?n)"
      unfolding wantedRows_split [OF s(3,2)] using 3(1) by (intro wantedRows_cong) auto
    finally have "detectorOk dec logOf ?s (es_phase ?s) (es_startupBlock ?s) (es_catchUpToBlock ?s)"
      using assms(2-4) s 3(1) sameRows_simps(2,4) [OF same] by simp
    moreover have "lowOk ?s" using s(4) by (simp add: lowOk_def)
    ultimately have "streamOk dec logOf ?s" using assms(5) by (intro streamOk_moved [OF assms(1) same]) auto
    then show ?thesis using 3 by (simp add: detectorBlock_def)
  qed
qed

lemma page_fields:
  assumes "processCatchupEventPage dec order logOf upTo s = (c, s')" and "lowOk s"
  shows "es_blocks s' = es_blocks s" "es_phase s' = es_phase s" "es_checkpointBlock s' = es_checkpointBlock s" "es_base s' = es_base s"
    "es_startupBlock s' = es_startupBlock s" "es_catchUpToBlock s' = es_catchUpToBlock s" "es_highestIndexed s' = es_highestIndexed s" "lowOk s'"
proof -
  have rows: "\<forall>m \<in> set (pageMsgs dec order logOf f es). msgLow m" if "set es \<subseteq> set (es_rows s)" for es f
    using that assms(2) by (induction es) (auto simp: lowOk_def split: option.splits)
  have "set (catchupQuery (es_signatureList s) (es_lastCatchupEvent s) (es_checkpointBlock s) upTo (es_pageSize s) (es_rows s)) \<subseteq> set (es_rows s)"
    unfolding catchupQuery_def by (auto dest: in_set_takeD)
  then have "lowOk s'" using assms rows by (auto simp: processCatchupEventPage_def lowOk_def Let_def split: if_splits)
  then show "es_blocks s' = es_blocks s" "es_phase s' = es_phase s" "es_checkpointBlock s' = es_checkpointBlock s" "es_base s' = es_base s"
    "es_startupBlock s' = es_startupBlock s" "es_catchUpToBlock s' = es_catchUpToBlock s" "es_highestIndexed s' = es_highestIndexed s" "lowOk s'"
    using assms(1) by (auto simp: processCatchupEventPage_def Let_def split: if_splits)
qed

lemma catchup_flag:
  "sameRows s (s\<lparr>es_catchup := f\<rparr>)" "rowsOk (s\<lparr>es_catchup := f\<rparr>) = rowsOk s" "lowOk (s\<lparr>es_catchup := f\<rparr>) = lowOk s"
  "sent (s\<lparr>es_catchup := f\<rparr>) = sent s" "unread upTo (s\<lparr>es_catchup := f\<rparr>) = unread upTo s"
  "wanted dec logOf (s\<lparr>es_catchup := f\<rparr>) = wanted dec logOf s"
proof -
  show same: "sameRows s (s\<lparr>es_catchup := f\<rparr>)" by (simp add: sameRows_def)
  show "rowsOk (s\<lparr>es_catchup := f\<rparr>) = rowsOk s" "wanted dec logOf (s\<lparr>es_catchup := f\<rparr>) = wanted dec logOf s"
    by (rule sameRows_simps(1,3) [OF same])+
  show "unread upTo (s\<lparr>es_catchup := f\<rparr>) = unread upTo s" by (rule unread_same [OF same]) simp_all
qed (simp_all add: lowOk_def sent_def batchEvents_def)

lemma startup_page_ok:
  assumes "streamOk dec logOf s" and "es_phase s = DetectorLoop" and "es_startupBlock s = Some h" and "\<forall>tx. set (order tx) = set (es_sources s)"
  shows "streamOk dec logOf (detectorCatchup dec order logOf s)"
proof -
  let ?u = "s\<lparr>es_catchup := True\<rparr>"
  have s: "rowsOk s" "lowOk s" "es_pageSize s \<ge> 1" "es_catchUpToBlock s = None" "\<exists>h'. es_highestIndexed s = Some h' \<and> h \<le> h'"
    "es_base s = min h (es_checkpointBlock s)"
    "sent s @ unreadWanted dec logOf (h + 1) s = wantedRows dec logOf s (\<lambda>b. es_base s < b \<and> b < h + 1)"
    using assms by (auto simp: streamOk_def)
  have u: "sameRows s ?u" "rowsOk ?u" "lowOk ?u" "sent ?u = sent s" "unread (h + 1) ?u = unread (h + 1) s" "wanted dec logOf ?u = wanted dec logOf s"
    using s by (simp_all add: catchup_flag)
  obtain c s1 where c: "processCatchupEventPage dec order logOf (h + 1) ?u = (c, s1)" by fastforce
  note p = page_step [OF u(2) _ _ c] page_fields [OF c u(3)]
  have same: "sameRows s s1" using p(1) u(1) s(3) assms(4) sameRows_trans by simp
  show ?thesis
  proof (cases c)
    case True
    let ?s = "s1\<lparr>es_catchup := False, es_lastCatchupEvent := None, es_dispatch := es_dispatch s1 @ [ConfirmedMsg h],
        es_checkpointBlock := h, es_startupBlock := None\<rparr>"
    have same': "sameRows s ?s" using same by (simp add: sameRows_def)
    have low: "lowOk ?s" using p(11) s(2) assms(2,3) by (simp add: lowOk_def)
    have "sent ?s = wantedRows dec logOf s (\<lambda>b. es_base s < b \<and> b < h + 1)"
      using p(2) True s(3,7) assms(4) u by (simp add: sent_def batchEvents_def)
    also have "\<dots> = wantedRows dec logOf ?s (\<lambda>b. es_base ?s < b \<and> b \<le> h)"
      unfolding sameRows_simps(4) [OF same'] using p(7) by (intro wantedRows_cong) auto
    finally have "detectorOk dec logOf ?s (es_phase ?s) (es_startupBlock ?s) (es_catchUpToBlock ?s)"
      using p(5,7,9,10) assms(2) s by auto
    then have "streamOk dec logOf ?s" using p(4) by (intro streamOk_moved [OF assms(1) same' low]) auto
    then show ?thesis using True c assms(3) by (simp add: detectorCatchup_def)
  next
    case False
    have "sent s1 @ unreadWanted dec logOf (h + 1) s1 = wantedRows dec logOf s1 (\<lambda>b. es_base s1 < b \<and> b < h + 1)"
      using p(3) False s(3,7) assms(4) u p(7) by (simp add: sameRows_simps(4) [OF same])
    then have "detectorOk dec logOf s1 (es_phase s1) (es_startupBlock s1) (es_catchUpToBlock s1)"
      using p(5-10) assms(2,3) s by simp
    then have "streamOk dec logOf s1" using p(4) by (intro streamOk_moved [OF assms(1) same p(11)]) auto
    then show ?thesis using False c assms(3) by (simp add: detectorCatchup_def)
  qed
qed

lemma catchup_page_ok:
  assumes "streamOk dec logOf s" and "es_phase s = DetectorLoop" and "es_startupBlock s = None" and "es_catchUpToBlock s = Some nb"
    and "\<forall>tx. set (order tx) = set (es_sources s)"
  shows "streamOk dec logOf (detectorCatchup dec order logOf s)"
proof -
  let ?u = "s\<lparr>es_catchup := True\<rparr>" and ?n = "blockNo (eb_block nb)"
  have s: "rowsOk s" "lowOk s" "es_pageSize s \<ge> 1" "noteOk dec logOf s nb" "es_base s \<le> es_checkpointBlock s" "es_checkpointBlock s < ?n"
    "sent s @ unreadWanted dec logOf ?n s = wantedRows dec logOf s (\<lambda>b. es_base s < b \<and> b < ?n)"
    using assms by (auto simp: streamOk_def)
  have u: "sameRows s ?u" "rowsOk ?u" "lowOk ?u" "sent ?u = sent s" "unread ?n ?u = unread ?n s" "wanted dec logOf ?u = wanted dec logOf s"
    using s by (simp_all add: catchup_flag)
  obtain c s1 where c: "processCatchupEventPage dec order logOf ?n ?u = (c, s1)" by fastforce
  note p = page_step [OF u(2) _ _ c] page_fields [OF c u(3)]
  have same: "sameRows s s1" using p(1) u(1) s(3) assms(5) sameRows_trans by simp
  show ?thesis
  proof (cases c)
    case True
    let ?t = "s1\<lparr>es_catchup := False, es_lastCatchupEvent := None\<rparr>"
    let ?r = "processNotifiedBlock dec nb ?t"
    let ?s = "?r\<lparr>es_checkpointBlock := ?n, es_catchUpToBlock := None\<rparr>"
    have st: "sameRows s ?t" using same by (simp add: sameRows_def)
    have sr: "sameRows s ?r" by (rule sameRows_trans [OF st notify_fields(1)])
    then have same': "sameRows s ?s" by (simp add: sameRows_def)
    have nt: "noteOk dec logOf ?t nb" using s(4) sameRows_simps(2) [OF st] by simp
    have "lowOk ?t" using p(11) by (simp add: lowOk_def)
    then have low: "lowOk ?s" using notify_fields(10) [of ?t dec nb] sint_low by (simp add: lowOk_def)
    have "sent ?s = wantedRows dec logOf s (\<lambda>b. es_base s < b \<and> b < ?n) @ wantedRows dec logOf s (\<lambda>b. b = ?n)"
      using notify_sent [OF nt] p(2) True s(3,7) assms(5) u sameRows_simps(4) [OF st] by (simp add: sent_def batchEvents_def)
    also have "wantedRows dec logOf s (\<lambda>b. es_base s < b \<and> b < ?n) = wantedRows dec logOf s (\<lambda>b. es_base s < b \<and> b \<le> ?n - 1)"
      by (intro wantedRows_cong) auto
    also have "wantedRows dec logOf s (\<lambda>b. b = ?n) = wantedRows dec logOf s (\<lambda>b. ?n - 1 < b \<and> b \<le> ?n)"
      by (intro wantedRows_cong) auto
    also have "wantedRows dec logOf s (\<lambda>b. es_base s < b \<and> b \<le> ?n - 1) @ \<dots> = wantedRows dec logOf s (\<lambda>b. es_base s < b \<and> b \<le> ?n)"
    proof -
      have "es_base s \<le> ?n - 1" using s(5,6) by simp
      from wantedRows_split [OF s(1) this] show ?thesis by (simp only:) (intro wantedRows_cong, auto)
    qed
    finally have "sent ?s = wantedRows dec logOf ?s (\<lambda>b. es_base s < b \<and> b \<le> ?n)" by (simp only: sameRows_simps(4) [OF same'])
    then have "detectorOk dec logOf ?s (es_phase ?s) (es_startupBlock ?s) (es_catchUpToBlock ?s)"
      using p(5-10) assms(2,3) s by (auto simp: notify_fields noteOk_def)
    then have "streamOk dec logOf ?s" using p(4) by (intro streamOk_moved [OF assms(1) same' low]) (auto simp: notify_fields)
    then show ?thesis using True c assms(3,4) by (simp add: detectorCatchup_def)
  next
    case False
    have "sent s1 @ unreadWanted dec logOf ?n s1 = wantedRows dec logOf s1 (\<lambda>b. es_base s1 < b \<and> b < ?n)"
      using p(3) False s(3,7) assms(5) u p(7) by (simp add: sameRows_simps(4) [OF same])
    then have "detectorOk dec logOf s1 (es_phase s1) (es_startupBlock s1) (es_catchUpToBlock s1)"
      using p(5-10) assms(2-4) s sameRows_simps(2) [OF same] by simp
    then have "streamOk dec logOf s1" using p(4) by (intro streamOk_moved [OF assms(1) same p(11)]) auto
    then show ?thesis using False c assms(3,4) by (simp add: detectorCatchup_def)
  qed
qed

section \<open>Commits\<close>

lemma receiptRows_snd:
  "snd (receiptRows ignored b i (r # rs))
     = (if r_type r \<in> set ignored then [] else map logToIndexedEvent (r_logs r)) @ snd (receiptRows ignored b (Suc i) rs)"
  by (simp add: Let_def split: prod.splits)

lemma receiptRows_events:
  "\<forall>r \<in> set rs. r_type r \<notin> set ignored \<Longrightarrow> snd (receiptRows ignored b i rs) = map logToIndexedEvent (concat (map r_logs rs))"
  by (induction rs arbitrary: i) (simp_all add: receiptRows_snd del: receiptRows.simps(2))

lemma commit_fields [simp]:
  "es_sources (commitBlock ignored b rs s) = es_sources s" "es_signatureList (commitBlock ignored b rs s) = es_signatureList s"
  "es_lastCatchupEvent (commitBlock ignored b rs s) = es_lastCatchupEvent s" "es_checkpointBlock (commitBlock ignored b rs s) = es_checkpointBlock s"
  "es_base (commitBlock ignored b rs s) = es_base s" "es_phase (commitBlock ignored b rs s) = es_phase s"
  "es_startupBlock (commitBlock ignored b rs s) = es_startupBlock s" "es_catchUpToBlock (commitBlock ignored b rs s) = es_catchUpToBlock s"
  "es_highestIndexed (commitBlock ignored b rs s) = Some (blockNo b)" "es_pageSize (commitBlock ignored b rs s) = es_pageSize s"
  "sent (commitBlock ignored b rs s) = sent s" "es_dispatch (commitBlock ignored b rs s) = es_dispatch s" "es_batch (commitBlock ignored b rs s) = es_batch s"
  "es_dbCheckpoint (commitBlock ignored b rs s) = es_dbCheckpoint s"
  by (simp_all add: commitBlock_def sent_def batchEvents_def)

lemma key_of_block: "ie_blockNumber x < ie_blockNumber y \<Longrightarrow> ie_key x < ie_key y"
  by (simp add: ie_key_def less_prod_def)

lemma committed_rows:
  assumes "committable logOf ignored s b rs"
  shows "es_rows (commitBlock ignored b rs s) = es_rows s @ map logToIndexedEvent (concat (map r_logs rs))"
    and "\<forall>e \<in> set (map logToIndexedEvent (concat (map r_logs rs))). ie_blockNumber e = blockNo b"
  using assms receiptRows_events [of rs ignored b 0]
  by (auto simp: commitBlock_def committable_def logToIndexedEvent_def)

lemma committed_note:
  assumes "committable logOf ignored s b rs"
  shows "map logToIndexedEvent (filter (\<lambda>l. firstSource dec (es_sources s) l \<noteq> None) (notifiedLogs (es_signatureList s) rs))
    = filter (wanted dec logOf s) (map logToIndexedEvent (concat (map r_logs rs)))"
proof -
  have "wanted dec logOf s (logToIndexedEvent l) \<longleftrightarrow>
      (case l_topics l of [] \<Rightarrow> False | t # _ \<Rightarrow> t \<in> set (es_signatureList s)) \<and> firstSource dec (es_sources s) l \<noteq> None"
    if "l \<in> set (concat (map r_logs rs))" for l
  proof -
    have l: "logOf (logToIndexedEvent l) = Some l"
      "case l_topics l of [] \<Rightarrow> replicate 32 0 \<notin> set (es_signatureList s) | t # _ \<Rightarrow> length t = 32"
      using assms that unfolding committable_def by blast+
    then show ?thesis
      by (cases "l_topics l") (simp_all add: wanted_def logToIndexedEvent_def NewBytes32FromSlice_def)
  qed
  then show ?thesis unfolding notifiedLogs_def filter_filter filter_map comp_def
    by (intro arg_cong [of _ _ "map logToIndexedEvent"] filter_cong) auto
qed

lemma commit_wanted:
  assumes "committable logOf ignored s b rs"
  shows "wanted dec logOf (commitBlock ignored b rs s) = wanted dec logOf s"
    and "\<not> P (blockNo b) \<Longrightarrow> wantedRows dec logOf (commitBlock ignored b rs s) P = wantedRows dec logOf s P"
    and "upTo \<le> blockNo b \<Longrightarrow> unread upTo (commitBlock ignored b rs s) = unread upTo s"
proof -
  let ?s = "commitBlock ignored b rs s" and ?n = "map logToIndexedEvent (concat (map r_logs rs))"
  note rows = committed_rows [OF assms]
  show w: "wanted dec logOf ?s = wanted dec logOf s" by (auto simp: wanted_def commitBlock_def fun_eq_iff)
  show "wantedRows dec logOf ?s P = wantedRows dec logOf s P" if "\<not> P (blockNo b)"
  proof -
    have "filter (\<lambda>e. wanted dec logOf s e \<and> P (ie_blockNumber e)) ?n = []" using rows(2) that by (simp add: filter_empty_conv)
    then show ?thesis by (simp add: wantedRows_def rows(1) w)
  qed
  show "unread upTo ?s = unread upTo s" if "upTo \<le> blockNo b"
  proof -
    have "filter (\<lambda>e. ie_signature e \<in> set (es_signatureList s) \<and> ie_blockNumber e < upTo
       \<and> (case es_lastCatchupEvent s of None \<Rightarrow> ie_blockNumber e > es_checkpointBlock s | Some l \<Rightarrow> ie_key e > ie_key l)) ?n = []"
      using rows(2) that by (auto simp: filter_empty_conv)
    then show ?thesis unfolding unread_def rows(1) commit_fields filter_append by simp
  qed
qed

lemma stream_commit_ok:
  assumes "streamOk dec logOf s" and "committable logOf ignored s b rs"
  shows "streamOk dec logOf (commitBlock ignored b rs s)"
proof -
  let ?s = "commitBlock ignored b rs s" and ?n = "blockNo b" and ?new = "map logToIndexedEvent (concat (map r_logs rs))"
  note rows = committed_rows [OF assms(2)] and w = commit_wanted [OF assms(2)]
  have s: "rowsOk s" "lowOk s" "\<forall>nb \<in> set (es_blocks s). noteOk dec logOf s nb"
    "detectorOk dec logOf s (es_phase s) (es_startupBlock s) (es_catchUpToBlock s)" using assms(1) by (auto simp: streamOk_def)
  have above: "h < ?n" if "es_highestIndexed s = Some h" for h using assms(2) that by (simp add: committable_def)
  have old: "ie_blockNumber e < ?n" if e: "e \<in> set (es_rows s)" for e
  proof -
    obtain h where h: "es_highestIndexed s = Some h" "ie_blockNumber e \<le> h" using s(1) e unfolding rowsOk_def by blast
    show ?thesis using h(2) above [OF h(1)] by simp
  qed
  have "\<forall>x \<in> set (es_rows s). \<forall>y \<in> set ?new. ie_key x < ie_key y" using old rows(2) by (metis key_of_block)
  then have "sorted_wrt (\<lambda>x y. ie_key x < ie_key y) (es_rows s @ ?new)"
    unfolding sorted_wrt_append using s(1) assms(2) unfolding rowsOk_def committable_def by blast
  moreover have "\<forall>e \<in> set (es_rows s @ ?new). ie_blockNumber e \<le> ?n"
    using old rows(2) unfolding set_append by (metis Un_iff less_imp_le order_refl)
  ultimately have rowsOk: "rowsOk ?s" by (simp add: rowsOk_def rows(1))
  have noteOld: "noteOk dec logOf ?s nb" if "noteOk dec logOf s nb" for nb
  proof -
    have "blockNo (eb_block nb) < ?n" using that above by (auto simp: noteOk_def)
    then show ?thesis using that w(2) [of "\<lambda>b. b = blockNo (eb_block nb)" dec] by (auto simp: noteOk_def)
  qed
  have "wantedRows dec logOf ?s (\<lambda>x. x = ?n) = filter (wanted dec logOf s) ?new"
  proof -
    have "filter (\<lambda>e. wanted dec logOf s e \<and> ie_blockNumber e = ?n) (es_rows s) = []"
      unfolding filter_empty_conv using old by (metis less_irrefl)
    moreover have "filter (\<lambda>e. wanted dec logOf s e \<and> ie_blockNumber e = ?n) ?new = filter (wanted dec logOf s) ?new"
      using rows(2) by (intro filter_cong) auto
    ultimately show ?thesis by (simp add: wantedRows_def rows(1) w(1))
  qed
  then have noteNew: "noteOk dec logOf ?s \<lparr>eb_block = b, eb_events = notifiedLogs (es_signatureList s) rs\<rparr>"
    using committed_note [OF assms(2), of dec] assms(2) by (simp add: noteOk_def committable_def)
  have blocks: "nb \<in> set (es_blocks ?s) \<Longrightarrow> nb \<in> set (es_blocks s) \<or> nb = \<lparr>eb_block = b, eb_events = notifiedLogs (es_signatureList s) rs\<rparr>" for nb
    by (auto simp: commitBlock_def notifyEventStream_def split: if_splits)
  have "detectorOk dec logOf ?s (es_phase s) (es_startupBlock s) (es_catchUpToBlock s)"
  proof (cases "(dec, logOf, s, es_phase s, es_startupBlock s, es_catchUpToBlock s)" rule: detectorOk.cases)
    case (1 _ _ _ h c)
    then have "h + 1 \<le> ?n" using s(4) above by fastforce
    then show ?thesis using s(4) 1 w by auto
  next
    case (2 _ _ _ nb)
    then have "detectorOk dec logOf s DetectorLoop None (Some nb)" using s(4) by auto
    then have "noteOk dec logOf s nb" by simp
    then have "blockNo (eb_block nb) < ?n" using above by (auto simp: noteOk_def)
    then show ?thesis using s(4) 2 w noteOld by auto
  next
    case 3
    then have ok: "detectorOk dec logOf s DetectorLoop None None" using s(4) by auto
    then have "es_checkpointBlock s \<le> es_base s \<or> es_checkpointBlock s < ?n" using above by fastforce
    moreover from this have "wantedRows dec logOf ?s (\<lambda>b. es_base s < b \<and> b \<le> es_checkpointBlock s)
        = wantedRows dec logOf s (\<lambda>b. es_base s < b \<and> b \<le> es_checkpointBlock s)"
      by (intro w(2)) auto
    ultimately have "detectorOk dec logOf ?s DetectorLoop None None" using ok by auto
    then show ?thesis using 3 by auto
  qed (use s(4) in auto)
  moreover have "\<forall>e \<in> set ?new. - (2 ^ 63) \<le> ie_blockNumber e" using rows(2) sint_low by metis
  then have "lowOk ?s" using s(2) sint_low [of "b_number b"] unfolding lowOk_def rows(1) set_append commit_fields ball_Un option.inject by (intro conjI) simp_all
  moreover have "\<forall>nb \<in> set (es_blocks ?s). noteOk dec logOf ?s nb" using s(3) noteOld noteNew blocks by blast
  ultimately show ?thesis using rowsOk assms(1) by (simp add: streamOk_def)
qed

section \<open>The theorem\<close>

lemma crash_ok:
  assumes "streamOk dec logOf s"
  shows "streamOk dec logOf ((initEventStream (es_sources s) (es_signatureList s) (es_fromBlock s) (es_batchSize s) (es_pageSize s) (es_queueLength s))
       \<lparr>es_dbCheckpoint := es_dbCheckpoint s, es_rows := es_rows s, es_highestIndexed := es_highestIndexed s\<rparr>)"
  using assms by (auto simp: streamOk_def rowsOk_def lowOk_def initEventStream_def sent_def batchEvents_def)

lemma stream_step_ok:
  assumes "stream_step dec logOf ignored s s'" and "streamOk dec logOf s"
  shows "streamOk dec logOf s'"
  using assms(1)
proof (cases rule: stream_step.cases)
  case (committed b rs)
  then show ?thesis using stream_commit_ok [OF assms(2)] by simp
next
  case started
  then show ?thesis using start_ok [OF assms(2)] by simp
next
  case (first_block block rest)
  then show ?thesis using first_ok [OF assms(2)] by simp
next
  case (notified block rest)
  then show ?thesis using block_ok [OF assms(2)] by simp
next
  case (page order)
  then show ?thesis
    using startup_page_ok [OF assms(2)] catchup_page_ok [OF assms(2)] by (cases "es_startupBlock s") auto
next
  case (message msg rest)
  then show ?thesis using dispatch_ok [OF assms(2)] by simp
next
  case (batch_timeout batch)
  then show ?thesis using batch_ok [OF assms(2)] by simp
next
  case stream_crashed
  then show ?thesis using crash_ok [OF assms(2)] by simp
qed

lemma stream_run_ok: "stream_run dec logOf ignored s \<Longrightarrow> streamOk dec logOf s"
proof (induction rule: stream_run.induct)
  case stream_init
  then show ?case by (auto simp: streamOk_def rowsOk_def lowOk_def initEventStream_def sent_def batchEvents_def)
qed (rule stream_step_ok)

lemma wantedRows_prefix:
  assumes "rowsOk s"
  shows "prefix (wantedRows dec logOf s (\<lambda>b. a < b \<and> b \<le> n)) (wantedRows dec logOf s (\<lambda>b. a < b))"
proof (cases "a \<le> n")
  case True
  have "wantedRows dec logOf s (\<lambda>b. a < b \<and> b \<le> n) @ wantedRows dec logOf s (\<lambda>b. n < b \<and> True) = wantedRows dec logOf s (\<lambda>b. a < b)"
    unfolding wantedRows_split [OF assms True] by (rule wantedRows_cong) simp
  then show ?thesis unfolding prefix_def by metis
next
  case False
  then have "wantedRows dec logOf s (\<lambda>b. a < b \<and> b \<le> n) = []" by (auto simp: wantedRows_def filter_empty_conv)
  then show ?thesis by simp
qed

lemma sent_prefix:
  assumes "streamOk dec logOf s"
  shows "prefix (sent s) (wantedRows dec logOf s (\<lambda>b. es_base s < b))"
proof -
  have rows: "rowsOk s" and d: "detectorOk dec logOf s (es_phase s) (es_startupBlock s) (es_catchUpToBlock s)" using assms by (auto simp: streamOk_def)
  have below: "prefix (wantedRows dec logOf s (\<lambda>b. es_base s < b \<and> b < n)) (wantedRows dec logOf s (\<lambda>b. es_base s < b))" for n
    using wantedRows_prefix [OF rows, of dec logOf "es_base s" "n - 1"] wantedRows_cong [of "\<lambda>b. es_base s < b \<and> b < n" "\<lambda>b. es_base s < b \<and> b \<le> n - 1"]
    by simp
  show ?thesis
  proof (cases "(dec, logOf, s, es_phase s, es_startupBlock s, es_catchUpToBlock s)" rule: detectorOk.cases)
    case (1 _ _ _ h c)
    then have "detectorOk dec logOf s DetectorLoop (Some h) (es_catchUpToBlock s)" using d by auto
    then have "sent s @ unreadWanted dec logOf (h + 1) s = wantedRows dec logOf s (\<lambda>b. es_base s < b \<and> b < h + 1)" by simp
    then show ?thesis using below [of "h + 1"] by (metis append_prefixD)
  next
    case (2 _ _ _ nb)
    then have "detectorOk dec logOf s DetectorLoop None (Some nb)" using d by auto
    then have "sent s @ unreadWanted dec logOf (blockNo (eb_block nb)) s = wantedRows dec logOf s (\<lambda>b. es_base s < b \<and> b < blockNo (eb_block nb))"
      by simp
    then show ?thesis using below by (metis append_prefixD)
  next
    case 3
    then have "detectorOk dec logOf s DetectorLoop None None" using d by auto
    then show ?thesis using wantedRows_prefix [OF rows] by simp
  qed (use d in auto)
qed


end
