(* ===== verification/EventStreamFindings.thy ===== *)
theory EventStreamFindings
  imports EventStreamProperties
begin

text \<open>
  Where event streams do not do what they mean to: the checkpoint is persisted past events that are still in
  an open batch, a start block in the future is forgotten, and events of ignored transactions reach the
  stream by one way and not by the other. Concrete streams on which the theorems are evaluated.
\<close>

section \<open>The checkpoint overtakes the open batch\<close>

abbreviation crashed :: "('a, 'd) eventStream \<Rightarrow> ('a, 'd) eventStream" where
  "crashed s \<equiv> (initEventStream (es_sources s) (es_signatureList s) (es_fromBlock s) (es_batchSize s) (es_pageSize s) (es_queueLength s))
       \<lparr>es_dbCheckpoint := es_dbCheckpoint s, es_rows := es_rows s, es_highestIndexed := es_highestIndexed s\<rparr>"

text \<open>Steps of a stream that does not crash.\<close>

abbreviation goes_on ::
  "('a \<Rightarrow> LogJSONRPC \<Rightarrow> 'd option) \<Rightarrow> (IndexedEvent \<Rightarrow> LogJSONRPC option) \<Rightarrow> int list \<Rightarrow> ('a, 'd) eventStream \<Rightarrow> ('a, 'd) eventStream \<Rightarrow> bool" where
  "goes_on dec logOf ignored \<equiv> (\<lambda>x y. stream_step dec logOf ignored x y \<and> es_phase y \<noteq> DetectorStopped)\<^sup>*\<^sup>*"

lemma catchup_keeps:
  "es_phase (detectorCatchup dec order logOf s) = es_phase s \<and> es_base (detectorCatchup dec order logOf s) = es_base s"
proof -
  have page: "es_phase s1 = es_phase t \<and> es_base s1 = es_base t" if "processCatchupEventPage dec order logOf upTo t = (c, s1)" for c upTo s1 t
    using that by (auto simp: processCatchupEventPage_def Let_def split: if_splits)
  show ?thesis
    by (auto simp: detectorCatchup_def notify_fields(2,8) Let_def dest: page split: option.splits prod.splits bool.splits)
qed

lemma goes_on_base:
  assumes "goes_on dec logOf ignored s s'" and "stream_run dec logOf ignored s" and "es_phase s = DetectorLoop"
  shows "stream_run dec logOf ignored s' \<and> es_phase s' = DetectorLoop \<and> es_base s' = es_base s"
  using assms(1)
proof (induction rule: rtranclp_induct)
  case (step x y)
  then have "es_phase y = DetectorLoop \<and> es_base y = es_base x"
    by (auto elim!: stream_step.cases
        simp: catchup_keeps detectorBlock_def notify_fields dispatcherMsg_def updateCheckpoint_def runBatch_def initEventStream_def Let_def
        split: if_splits detectorMsg.splits)
  then show ?case using step stream_next [of dec logOf ignored x y] by auto
qed (use assms in auto)

text \<open>C37. An event is in the open batch of the dispatcher when the message arrives that a later block has no events.
  The dispatcher persists that block as its checkpoint at once; if the process then stops, the event is never
  delivered, whatever the stream does after its restart.\<close>

theorem checkpoint_overtakes_batch:
  assumes "stream_run dec logOf ignored s" and "es_batch s = Some batch" and "e \<in> fst ` set (ev_events batch)"
    and "es_dispatch s = ConfirmedMsg n # rest" and "es_checkpoint s < n" and "ie_blockNumber e \<le> n"
    and "es_highestIndexed s = Some h" and "ie_blockNumber e \<le> h"
    and "goes_on dec logOf ignored (detectorStart (crashed (dispatcherMsg (ConfirmedMsg n) (s\<lparr>es_dispatch := rest\<rparr>)))) s'"
  shows "wanted dec logOf s e \<and> e \<notin> fst ` set (es_delivered s) \<and> e \<notin> fst ` set (es_delivered s')"
proof -
  let ?t = "dispatcherMsg (ConfirmedMsg n) (s\<lparr>es_dispatch := rest\<rparr>)"
  have ok: "streamOk dec logOf s" by (rule stream_run_ok [OF assms(1)])
  have "e \<in> set (batchEvents s)" using assms(2,3) by (auto simp: batchEvents_def)
  then obtain us vs where split: "batchEvents s = us @ e # vs" by (meson split_list)
  obtain zs where zs: "sent s @ zs = wantedRows dec logOf s (\<lambda>b. es_base s < b)" using sent_prefix [OF ok] by (auto simp: prefix_def)
  have "sorted_wrt (\<lambda>x y. ie_key x < ie_key y) (sent s @ zs)"
    using ok unfolding zs wantedRows_def by (auto simp: streamOk_def rowsOk_def intro: sorted_wrt_filter)
  then have "distinct (map ie_key (sent s @ zs))" by (metis strict_sorted_iff sorted_wrt_map)
  then have "distinct (sent s @ zs)" by (simp only: distinct_map)
  then have before: "e \<notin> fst ` set (es_delivered s)" unfolding sent_def split by auto
  have "e \<in> set (sent s)" unfolding sent_def split by simp
  then have "e \<in> set (wantedRows dec logOf s (\<lambda>b. es_base s < b))" using zs by (metis Un_iff set_append)
  then have w: "wanted dec logOf s e" by (simp add: wantedRows_def)
  have "stream_run dec logOf ignored ?t" by (rule stream_next [OF assms(1) message [OF assms(4)]])
  then have "stream_run dec logOf ignored (crashed ?t)" by (rule stream_next [OF _ stream_crashed])
  then have run: "stream_run dec logOf ignored (detectorStart (crashed ?t))"
    by (rule stream_next [OF _ started]) (simp add: initEventStream_def)
  have start: "es_phase (detectorStart (crashed ?t)) = DetectorLoop" "es_base (detectorStart (crashed ?t)) = min h n"
    using assms(5,7) by (simp_all add: detectorStart_def readDBCheckpoint_def dispatcherMsg_def updateCheckpoint_def)
  from goes_on_base [OF assms(9) run start(1)] have s': "stream_run dec logOf ignored s'" "es_base s' = min h n" using start(2) by auto
  have "prefix (map fst (es_delivered s')) (wantedRows dec logOf s' (\<lambda>b. min h n < b))"
    using sent_prefix [OF stream_run_ok [OF s'(1)]] s'(2) by (auto simp: sent_def dest: append_prefixD)
  then have "set (map fst (es_delivered s')) \<subseteq> set (wantedRows dec logOf s' (\<lambda>b. min h n < b))" by (rule set_mono_prefix)
  then have "e \<notin> fst ` set (es_delivered s')" using assms(6,8) by (auto simp: wantedRows_def)
  with w before show ?thesis by simp
qed

section \<open>A start block in the future\<close>

text \<open>A stream that is configured to start from a block the chain has not reached forgets the configured block when it
  starts: its position becomes the head of the chain, is persisted, and the very next block is
  processed for events.\<close>

theorem future_start_block_forgotten:
  assumes "stream_run dec logOf ignored s" and "es_phase s = DetectorStopped" and "es_dbCheckpoint s = None" and "es_fromBlock s = Some f"
    and "es_highestIndexed s = Some h" and "h < sint (f - 1)" and "es_checkpoint s < h" and "es_dispatch s = []"
    and "b_number (eb_block nb) = word_of_int (h + 1)" and "blockNo (eb_block nb) = h + 1"
  shows "let t = detectorCatchup dec order logOf (detectorStart s); u = dispatcherMsg (ConfirmedMsg h) (t\<lparr>es_dispatch := []\<rparr>)
    in es_checkpointBlock t = h \<and> es_dispatch t = [ConfirmedMsg h] \<and> es_dbCheckpoint u = Some h
       \<and> detectorBlock dec nb u = processNotifiedBlock dec nb (u\<lparr>es_checkpointBlock := h + 1\<rparr>)"
proof -
  have ok: "streamOk dec logOf s" by (rule stream_run_ok [OF assms(1)])
  then have rows: "\<forall>e \<in> set (es_rows s). ie_blockNumber e \<le> h" "es_lastCatchupEvent s = None"
    using assms(2,5) by (auto simp: streamOk_def rowsOk_def)
  then have none: "catchupQuery sigs None (sint (f - 1)) (h + 1) k (es_rows s) = []" for sigs k
    using assms(6) by (auto simp: catchupQuery_def filter_empty_conv)
  show ?thesis
    using assms(2-10) rows(2) none
    by (simp add: detectorStart_def readDBCheckpoint_def detectorCatchup_def processCatchupEventPage_def dispatcherMsg_def updateCheckpoint_def
        detectorBlock_def Let_def)
qed

section \<open>Events of ignored transactions\<close>

text \<open>A log of a transaction whose type is ignored is in the notification of its block, but has no row: a stream at the head
  of the chain receives it, a stream that catches up does not.\<close>

theorem ignored_transaction_notified:
  assumes "\<forall>r \<in> set rs. r_type r \<in> set ignored" and "r \<in> set rs" and "l \<in> set (r_logs r)" and "l_topics l = t # ts" and "t \<in> set signatures"
  shows "l \<in> set (notifiedLogs signatures rs) \<and> snd (receiptRows ignored b i rs) = []"
proof
  show "l \<in> set (notifiedLogs signatures rs)" using assms(2-5) by (auto simp: notifiedLogs_def)
  show "snd (receiptRows ignored b i rs) = []" using assms(1)
    by (induction rs arbitrary: i) (simp_all add: receiptRows_snd del: receiptRows.simps(2))
qed

section \<open>Samples\<close>

definition sampleSig :: Bytes32 where
  "sampleSig = replicate 32 1"

definition sampleLog :: "nat \<Rightarrow> LogJSONRPC" where
  "sampleLog n = \<lparr>l_logIndex = 0, l_transactionIndex = 0, l_blockNumber = of_nat n, l_transactionHash = [of_nat n], l_address = None,
     l_data = [], l_topics = [sampleSig]\<rparr>"

definition sampleLogOf :: "IndexedEvent \<Rightarrow> LogJSONRPC option" where
  "sampleLogOf e = find (\<lambda>l. logToIndexedEvent l = e) (map sampleLog [0..<3])"

definition sampleDec :: "unit \<Rightarrow> LogJSONRPC \<Rightarrow> uint64 option" where
  "sampleDec entry l = Some (l_logIndex l)"

definition sampleBlock :: "nat \<Rightarrow> BlockInfoJSONRPC" where
  "sampleBlock n = \<lparr>b_number = of_nat n, b_hash = [of_nat n + 1], b_parentHash = [of_nat n], b_timestamp = 0, b_transactions = []\<rparr>"

definition sampleRcpts :: "nat \<Rightarrow> TXReceiptJSONRPC list" where
  "sampleRcpts n = [\<lparr>r_blockHash = [of_nat n + 1], r_blockNumber = of_nat n, r_contractAddress = None, r_from = None, r_to = None,
     r_logs = [sampleLog n], r_status = 1, r_transactionHash = [of_nat n], r_revertReason = [], r_type = 2\<rparr>]"

type_synonym sampleStream = "(unit, uint64) eventStream"

definition newStream :: "uint64 \<Rightarrow> sampleStream" where
  "newStream f = initEventStream [\<lparr>src_ABI = [()], src_Address = None\<rparr>] [sampleSig] (Some f) 2 1 4"

definition takeBlock :: "sampleStream \<Rightarrow> sampleStream" where
  "takeBlock s = detectorBlock sampleDec (hd (es_blocks s)) (s\<lparr>es_blocks := tl (es_blocks s)\<rparr>)"

definition takeMsg :: "sampleStream \<Rightarrow> sampleStream" where
  "takeMsg s = dispatcherMsg (hd (es_dispatch s)) (s\<lparr>es_dispatch := tl (es_dispatch s)\<rparr>)"

abbreviation sample_run :: "sampleStream \<Rightarrow> bool" where
  "sample_run \<equiv> stream_run sampleDec sampleLogOf []"

lemma take_runs:
  "sample_run s \<Longrightarrow> es_phase s = DetectorLoop \<Longrightarrow> es_startupBlock s = None \<Longrightarrow> es_catchUpToBlock s = None \<Longrightarrow> es_blocks s \<noteq> []
     \<Longrightarrow> sample_run (takeBlock s)"
  "sample_run s \<Longrightarrow> es_dispatch s \<noteq> [] \<Longrightarrow> sample_run (takeMsg s)"
  "sample_run s \<Longrightarrow> es_batch s \<noteq> None \<Longrightarrow> sample_run (runBatch (the (es_batch s)) s)"
  "sample_run s \<Longrightarrow> committable sampleLogOf [] s b rs \<Longrightarrow> sample_run (commitBlock [] b rs s)"
  subgoal unfolding takeBlock_def by (rule stream_next, assumption, rule notified) simp_all
  subgoal unfolding takeMsg_def by (rule stream_next, assumption, rule message) simp
  subgoal by (rule stream_next, assumption, rule batch_timeout) auto
  subgoal by (rule stream_next, assumption, rule committed)
  done

text \<open>Block 0 has an event, block 1 has none; both have been notified, and the event is in the open batch.\<close>

definition openBatch :: sampleStream where
  "openBatch = takeMsg (takeBlock (takeBlock (commitBlock [] (sampleBlock 1) [] (commitBlock [] (sampleBlock 0) (sampleRcpts 0)
     (detectorStart (newStream 0))))))"

lemma openBatch_run: "sample_run openBatch"
proof -
  have "sample_run (newStream 0)" unfolding newStream_def by (rule stream_init) simp
  then have r1: "sample_run (detectorStart (newStream 0))"
    by (rule stream_next [OF _ started]) (simp add: newStream_def initEventStream_def)
  have r2: "sample_run (commitBlock [] (sampleBlock 0) (sampleRcpts 0) (detectorStart (newStream 0)))"
    by (rule take_runs(4) [OF r1]) code_simp
  have r3: "sample_run (commitBlock [] (sampleBlock 1) [] (commitBlock [] (sampleBlock 0) (sampleRcpts 0) (detectorStart (newStream 0))))"
    by (rule take_runs(4) [OF r2]) code_simp
  have r4: "sample_run (takeBlock (commitBlock [] (sampleBlock 1) [] (commitBlock [] (sampleBlock 0) (sampleRcpts 0) (detectorStart (newStream 0)))))"
    by (rule take_runs(1) [OF r3]; code_simp)
  have r5: "sample_run (takeBlock (takeBlock (commitBlock [] (sampleBlock 1) [] (commitBlock [] (sampleBlock 0) (sampleRcpts 0) (detectorStart (newStream 0))))))"
    by (rule take_runs(1) [OF r4]; code_simp)
  show ?thesis unfolding openBatch_def by (rule take_runs(2) [OF r5]) code_simp
qed

theorem checkpoint_overtakes_batch_witness:
  "\<exists>s rest. stream_run sampleDec sampleLogOf [] s \<and> es_dispatch s = ConfirmedMsg 1 # rest
     \<and> wanted sampleDec sampleLogOf s (logToIndexedEvent (sampleLog 0)) \<and> logToIndexedEvent (sampleLog 0) \<notin> fst ` set (es_delivered s)
     \<and> logToIndexedEvent (sampleLog 0) \<notin> fst ` set (es_delivered
         (detectorStart (crashed (dispatcherMsg (ConfirmedMsg 1) (s\<lparr>es_dispatch := rest\<rparr>)))))"
proof -
  let ?e = "logToIndexedEvent (sampleLog 0)"
  have d: "es_dispatch openBatch = ConfirmedMsg 1 # []" by code_simp
  have b: "es_batch openBatch = Some (the (es_batch openBatch))" "?e \<in> fst ` set (ev_events (the (es_batch openBatch)))" by code_simp+
  have n: "es_checkpoint openBatch < 1" "ie_blockNumber ?e \<le> 1" "es_highestIndexed openBatch = Some 1" by code_simp+
  from checkpoint_overtakes_batch [OF openBatch_run b d n(1,2,3,2) rtranclp.rtrancl_refl]
  show ?thesis using openBatch_run d by blast
qed


text \<open>A stream that is to start from block 10 while the chain is at block 0.\<close>

theorem future_start_block_forgotten_witness:
  "let s = commitBlock [] (sampleBlock 0) (sampleRcpts 0) (newStream 10);
       t = detectorCatchup sampleDec (\<lambda>_. []) sampleLogOf (detectorStart s); u = dispatcherMsg (ConfirmedMsg 0) (t\<lparr>es_dispatch := []\<rparr>)
   in stream_run sampleDec sampleLogOf [] s \<and> es_fromBlock s = Some 10 \<and> es_dbCheckpoint u = Some 0"
proof -
  let ?s = "commitBlock [] (sampleBlock 0) (sampleRcpts 0) (newStream 10)"
  have "sample_run (newStream 10)" unfolding newStream_def by (rule stream_init) simp
  then have r: "sample_run ?s" by (rule take_runs(4)) code_simp
  have c: "es_phase ?s = DetectorStopped" "es_dbCheckpoint ?s = None" "es_fromBlock ?s = Some 10" "es_highestIndexed ?s = Some 0"
    "0 < sint (10 - 1 :: uint64)" "es_checkpoint ?s < 0" "es_dispatch ?s = []" by code_simp+
  have nb: "b_number (eb_block \<lparr>eb_block = sampleBlock 1, eb_events = []\<rparr>) = word_of_int (0 + 1)"
    "blockNo (eb_block \<lparr>eb_block = sampleBlock 1, eb_events = []\<rparr>) = 0 + 1" by code_simp+
  from future_start_block_forgotten [OF r c nb, of "\<lambda>_. []"] show ?thesis using r c(3) by (simp add: Let_def)
qed

end
