(* ===== verification/NotoTypes.thy ===== *)
theory NotoTypes
  imports EthAddress Bytes32
begin

text \<open>
  Data of the Noto token domain (\<^verbatim>\<open>domains/noto\<close>): its configuration, coins and locks, the states of a proposal, and
  the categories of failure.

  \<^item> The JSON text of a state is the record of its fields. A field may be absent, or hold a value that its type does
    not accept; unmarshalling reads the fields it knows and ignores the others, as \<^verbatim>\<open>encoding/json\<close> does.
  \<^item> Amounts are \<^verbatim>\<open>big.Int\<close>s, so numbers without bounds, and as in the code nothing keeps them from being negative.
  \<^item> A pointer that may be nil is an option. Dereferencing nil is the result \<open>Panics\<close>.
\<close>

section \<open>Results\<close>

datatype notoError =
    callbackFailedError
  | encodeFailedError
  | invalidStoredStateError string
  | invalidAssembledStateError
  | invalidParamsError
  | unknownFunctionError
  | invalidAmountsError
  | invalidVerifierError string
  | invalidTransactionSpecError
  | invalidTransactionDataError
  | operationNotAllowedError
  | invalidStateListError
  | invalidSignatureError
  | wrongOwnerError string
  | invalidLockTransitionError
  | lockNotFoundError
  | insufficientFundsError int

text \<open>\<open>None\<close> where the category has no such predicate, because no path of that stage reaches it.\<close>

definition IsAssembleRevert :: "notoError \<Rightarrow> bool option" where
  "IsAssembleRevert e =
     (case e of
        callbackFailedError \<Rightarrow> Some False
      | encodeFailedError \<Rightarrow> Some False
      | invalidStoredStateError _ \<Rightarrow> Some False
      | invalidAssembledStateError \<Rightarrow> Some False
      | invalidParamsError \<Rightarrow> Some True
      | unknownFunctionError \<Rightarrow> Some True
      | invalidAmountsError \<Rightarrow> Some True
      | invalidVerifierError _ \<Rightarrow> Some False
      | invalidTransactionSpecError \<Rightarrow> Some False
      | invalidTransactionDataError \<Rightarrow> Some False
      | lockNotFoundError \<Rightarrow> Some True
      | insufficientFundsError _ \<Rightarrow> Some True
      | _ \<Rightarrow> None)"

definition IsEndorseRevert :: "notoError \<Rightarrow> bool option" where
  "IsEndorseRevert e =
     (case e of
        callbackFailedError \<Rightarrow> Some False
      | encodeFailedError \<Rightarrow> Some False
      | invalidParamsError \<Rightarrow> Some True
      | unknownFunctionError \<Rightarrow> Some True
      | invalidAmountsError \<Rightarrow> Some True
      | invalidVerifierError _ \<Rightarrow> Some True
      | invalidTransactionSpecError \<Rightarrow> Some True
      | invalidTransactionDataError \<Rightarrow> Some True
      | operationNotAllowedError \<Rightarrow> Some True
      | invalidStateListError \<Rightarrow> Some True
      | invalidSignatureError \<Rightarrow> Some True
      | wrongOwnerError _ \<Rightarrow> Some True
      | invalidLockTransitionError \<Rightarrow> Some True
      | _ \<Rightarrow> None)"

datatype 'a attempt = Done 'a | Refused notoError | Panics

fun tryThen :: "'a attempt \<Rightarrow> ('a \<Rightarrow> 'b attempt) \<Rightarrow> 'b attempt" where
  "tryThen (Done x) f = f x"
| "tryThen (Refused e) f = Refused e"
| "tryThen Panics f = Panics"

definition require :: "bool \<Rightarrow> notoError \<Rightarrow> unit attempt" where
  "require b e = (if b then Done () else Refused e)"

definition deref :: "'a option \<Rightarrow> 'a attempt" where
  "deref p = (case p of None \<Rightarrow> Panics | Some x \<Rightarrow> Done x)"

definition valueOr :: "notoError \<Rightarrow> 'a option \<Rightarrow> 'a attempt" where
  "valueOr e p = (case p of None \<Rightarrow> Refused e | Some x \<Rightarrow> Done x)"

lemma tryThen_Done [simp]: "tryThen m f = Done y \<longleftrightarrow> (\<exists>x. m = Done x \<and> f x = Done y)"
  by (cases m) auto

lemma require_Done [simp]: "require b e = Done u \<longleftrightarrow> b"
  by (simp add: require_def)

lemma deref_Done [simp]: "deref p = Done x \<longleftrightarrow> p = Some x"
  by (simp add: deref_def split: option.splits)

lemma valueOr_Done [simp]: "valueOr e p = Done x \<longleftrightarrow> p = Some x"
  by (simp add: valueOr_def split: option.splits)

section \<open>Coins and locks\<close>

type_synonym address = HexBytes

record NotoCoin =
  coin_Salt :: Bytes32
  coin_Owner :: "address option"
  coin_Amount :: "int option"

record NotoLockedCoin =
  lc_Salt :: Bytes32
  lc_LockID :: Bytes32
  lc_Owner :: "address option"
  lc_Amount :: "int option"

record NotoLockInfo_V1 =
  li_Salt :: Bytes32
  li_LockID :: Bytes32
  li_Owner :: "address option"
  li_Spender :: "address option"
  li_Replaces :: Bytes32
  li_SpendTxId :: Bytes32
  li_SpendOutputs :: "Bytes32 list"
  li_SpendData :: HexBytes
  li_CancelOutputs :: "Bytes32 list"
  li_CancelData :: HexBytes

datatype 'a jsonField = Absent | Malformed | Field 'a

record stateJSON =
  sj_object :: bool
  sj_salt :: "Bytes32 jsonField"
  sj_owner :: "address jsonField"
  sj_amount :: "int jsonField"
  sj_lockId :: "Bytes32 jsonField"
  sj_spender :: "address jsonField"
  sj_replaces :: "Bytes32 jsonField"
  sj_spendTxId :: "Bytes32 jsonField"
  sj_spendOutputs :: "Bytes32 list jsonField"
  sj_spendData :: "HexBytes jsonField"
  sj_cancelOutputs :: "Bytes32 list jsonField"
  sj_cancelData :: "HexBytes jsonField"
  sj_delegate :: "address jsonField"
  sj_data :: "HexBytes jsonField"
  sj_variant :: "uint64 jsonField"
  sj_from :: "address jsonField"
  sj_states :: "(Bytes32 \<times> address list) list jsonField"

definition fieldPtr :: "'a jsonField \<Rightarrow> 'a option" where
  "fieldPtr f = (case f of Field x \<Rightarrow> Some x | _ \<Rightarrow> None)"

definition fieldOr :: "'a \<Rightarrow> 'a jsonField \<Rightarrow> 'a" where
  "fieldOr d f = (case f of Field x \<Rightarrow> x | _ \<Rightarrow> d)"

abbreviation zero32 :: Bytes32 where
  "zero32 \<equiv> replicate 32 0"

definition unmarshalCoin :: "stateJSON \<Rightarrow> NotoCoin option" where
  "unmarshalCoin j =
     (if \<not> sj_object j \<or> sj_salt j = Malformed \<or> sj_owner j = Malformed \<or> sj_amount j = Malformed then None
      else Some \<lparr>coin_Salt = fieldOr zero32 (sj_salt j), coin_Owner = fieldPtr (sj_owner j), coin_Amount = fieldPtr (sj_amount j)\<rparr>)"

definition unmarshalLockedCoin :: "stateJSON \<Rightarrow> NotoLockedCoin option" where
  "unmarshalLockedCoin j =
     (if \<not> sj_object j \<or> sj_salt j = Malformed \<or> sj_lockId j = Malformed \<or> sj_owner j = Malformed \<or> sj_amount j = Malformed then None
      else Some \<lparr>lc_Salt = fieldOr zero32 (sj_salt j), lc_LockID = fieldOr zero32 (sj_lockId j), lc_Owner = fieldPtr (sj_owner j),
                 lc_Amount = fieldPtr (sj_amount j)\<rparr>)"

text \<open>Unknown fields are an error here; of the fields of the record, those are all that a coin does not have.\<close>

definition unmarshalCoinStrict :: "stateJSON \<Rightarrow> NotoCoin option" where
  "unmarshalCoinStrict j =
     (if sj_lockId j \<noteq> Absent \<or> sj_spender j \<noteq> Absent \<or> sj_replaces j \<noteq> Absent \<or> sj_spendTxId j \<noteq> Absent \<or> sj_spendOutputs j \<noteq> Absent
         \<or> sj_spendData j \<noteq> Absent \<or> sj_cancelOutputs j \<noteq> Absent \<or> sj_cancelData j \<noteq> Absent \<or> sj_delegate j \<noteq> Absent
         \<or> sj_data j \<noteq> Absent \<or> sj_variant j \<noteq> Absent \<or> sj_from j \<noteq> Absent \<or> sj_states j \<noteq> Absent
      then None else unmarshalCoin j)"

definition unmarshalLockV1 :: "stateJSON \<Rightarrow> NotoLockInfo_V1 option" where
  "unmarshalLockV1 j =
     (if \<not> sj_object j \<or> sj_salt j = Malformed \<or> sj_lockId j = Malformed \<or> sj_owner j = Malformed \<or> sj_spender j = Malformed
         \<or> sj_replaces j = Malformed \<or> sj_spendTxId j = Malformed \<or> sj_spendOutputs j = Malformed \<or> sj_spendData j = Malformed
         \<or> sj_cancelOutputs j = Malformed \<or> sj_cancelData j = Malformed
      then None
      else Some \<lparr>li_Salt = fieldOr zero32 (sj_salt j), li_LockID = fieldOr zero32 (sj_lockId j), li_Owner = fieldPtr (sj_owner j),
                 li_Spender = fieldPtr (sj_spender j), li_Replaces = fieldOr zero32 (sj_replaces j),
                 li_SpendTxId = fieldOr zero32 (sj_spendTxId j), li_SpendOutputs = fieldOr [] (sj_spendOutputs j),
                 li_SpendData = fieldOr [] (sj_spendData j), li_CancelOutputs = fieldOr [] (sj_cancelOutputs j),
                 li_CancelData = fieldOr [] (sj_cancelData j)\<rparr>)"

text \<open>The text \<^verbatim>\<open>json.Marshal\<close> makes of a coin or lock. A nil pointer is written as null, which is read as an absent field.\<close>

definition emptyJSON :: stateJSON where
  "emptyJSON = \<lparr>sj_object = True, sj_salt = Absent, sj_owner = Absent, sj_amount = Absent, sj_lockId = Absent, sj_spender = Absent,
     sj_replaces = Absent, sj_spendTxId = Absent, sj_spendOutputs = Absent, sj_spendData = Absent, sj_cancelOutputs = Absent,
     sj_cancelData = Absent, sj_delegate = Absent, sj_data = Absent, sj_variant = Absent, sj_from = Absent, sj_states = Absent\<rparr>"

definition ptrField :: "'a option \<Rightarrow> 'a jsonField" where
  "ptrField p = (case p of None \<Rightarrow> Absent | Some x \<Rightarrow> Field x)"

text \<open>An amount is written by its absolute value.\<close>

definition marshalCoin :: "NotoCoin \<Rightarrow> stateJSON" where
  "marshalCoin c = emptyJSON\<lparr>sj_salt := Field (coin_Salt c), sj_owner := ptrField (coin_Owner c), sj_amount := ptrField (map_option abs (coin_Amount c))\<rparr>"

definition marshalLockedCoin :: "NotoLockedCoin \<Rightarrow> stateJSON" where
  "marshalLockedCoin c = emptyJSON\<lparr>sj_salt := Field (lc_Salt c), sj_lockId := Field (lc_LockID c), sj_owner := ptrField (lc_Owner c),
     sj_amount := ptrField (map_option abs (lc_Amount c))\<rparr>"

definition marshalLockV1 :: "NotoLockInfo_V1 \<Rightarrow> stateJSON" where
  "marshalLockV1 l = emptyJSON\<lparr>sj_salt := Field (li_Salt l), sj_lockId := Field (li_LockID l), sj_owner := ptrField (li_Owner l),
     sj_spender := ptrField (li_Spender l), sj_replaces := Field (li_Replaces l), sj_spendTxId := Field (li_SpendTxId l),
     sj_spendOutputs := Field (li_SpendOutputs l), sj_spendData := Field (li_SpendData l), sj_cancelOutputs := Field (li_CancelOutputs l),
     sj_cancelData := Field (li_CancelData l)\<rparr>"

text \<open>The data of a transaction, the lock of the first version, and the manifest are only written.\<close>

record TransactionData =
  td_Salt :: Bytes32
  td_Data :: HexBytes
  td_Variant :: uint64
  td_From :: "address option"

definition marshalInfo :: "TransactionData \<Rightarrow> stateJSON" where
  "marshalInfo d = emptyJSON\<lparr>sj_salt := Field (td_Salt d), sj_data := Field (td_Data d), sj_variant := Field (td_Variant d),
     sj_from := ptrField (td_From d)\<rparr>"

record NotoLockInfo_V0 =
  l0_Salt :: Bytes32
  l0_LockID :: Bytes32
  l0_Owner :: "address option"
  l0_Delegate :: "address option"

definition marshalLockV0 :: "NotoLockInfo_V0 \<Rightarrow> stateJSON" where
  "marshalLockV0 l = emptyJSON\<lparr>sj_salt := Field (l0_Salt l), sj_lockId := Field (l0_LockID l), sj_owner := ptrField (l0_Owner l),
     sj_delegate := ptrField (l0_Delegate l)\<rparr>"

record NotoManifest =
  mf_Salt :: Bytes32
  mf_States :: "(Bytes32 \<times> address list) list"

definition marshalManifest :: "NotoManifest \<Rightarrow> stateJSON" where
  "marshalManifest m = emptyJSON\<lparr>sj_salt := Field (mf_Salt m), sj_states := Field (mf_States m)\<rparr>"

section \<open>Proposals\<close>

record notoState =
  st_Id :: string
  st_SchemaId :: string
  st_Data :: stateJSON

record notoVerifier =
  nv_Lookup :: string
  nv_Algorithm :: string
  nv_VerifierType :: string
  nv_Verifier :: string

record notoAttestation =
  na_Name :: string
  na_Verifier :: "notoVerifier option"
  na_Payload :: HexBytes

datatype NotaryMode = NotaryModeBasic | NotaryModeHooks

record NotoBasicOptions =
  bo_RestrictMint :: "bool option"
  bo_AllowBurn :: "bool option"
  bo_AllowLock :: "bool option"

record NotoHooksOptions =
  ho_PublicAddress :: "address option"

record NotoParsedConfig =
  cfg_NotaryLookup :: string
  cfg_NotaryMode :: NotaryMode
  cfg_Variant :: uint64
  cfg_Basic :: "NotoBasicOptions option"
  cfg_Hooks :: "NotoHooksOptions option"

definition IsV0 :: "NotoParsedConfig \<Rightarrow> bool" where
  "IsV0 c \<longleftrightarrow> cfg_Variant c = 0x0000"

definition IsV1 :: "NotoParsedConfig \<Rightarrow> bool" where
  "IsV1 c \<longleftrightarrow> cfg_Variant c = 0x0001"

definition IsV2 :: "NotoParsedConfig \<Rightarrow> bool" where
  "IsV2 c \<longleftrightarrow> cfg_Variant c = 0x0002 \<or> cfg_Variant c = 0x0102"

definition IsNullifierVariant :: "NotoParsedConfig \<Rightarrow> bool" where
  "IsNullifierVariant c \<longleftrightarrow> cfg_Variant c = 0x0102"

type_synonym UnlockRecipient = "string \<times> int option"

record UnlockParams =
  up_LockID :: Bytes32
  up_From :: string
  up_Recipients :: "UnlockRecipient list"

text \<open>The parameters of a call, by its function; the free data of a call is left out where nothing depends on it.\<close>

datatype notoParams =
    MintParams string "int option"
  | TransferParams string "int option"
  | TransferFromParams string string "int option"
  | BurnParams "int option"
  | BurnFromParams string "int option"
  | LockParams "int option"
  | UnlockCall UnlockParams
  | PrepareUnlockCall UnlockParams
  | CreateTransferLockParams string "UnlockRecipient list"
  | CreateMintLockParams "UnlockRecipient list"
  | CreateBurnLockParams string "int option"
  | PrepareMintUnlockParams Bytes32 "UnlockRecipient list"
  | PrepareBurnUnlockParams Bytes32 string "int option"
  | DelegateLockParams Bytes32 "address option" HexBytes bool

record ParsedTransaction =
  ptx_From :: string
  ptx_TransactionId :: string
  ptx_ContractAddress :: address
  ptx_DomainConfig :: NotoParsedConfig
  ptx_Params :: notoParams

record EndorseTransactionRequest =
  er_ResolvedVerifiers :: "notoVerifier list"
  er_Inputs :: "notoState list"
  er_Reads :: "notoState list"
  er_Outputs :: "notoState list"
  er_Info :: "notoState list"
  er_Signatures :: "notoAttestation list"

text \<open>The name of the domain and the identifiers of the schemas it was given when it was set up.\<close>

record Noto =
  noto_name :: string
  noto_coinSchema :: string
  noto_lockedCoinSchema :: string
  noto_lockInfoSchemaV0 :: string
  noto_lockInfoSchemaV1 :: string
  noto_dataSchemaV0 :: string
  noto_dataSchemaV2 :: string
  noto_manifestSchema :: string

text \<open>The libraries and callbacks the domain calls: parsing and printing of addresses, EIP-712 encoding, recovery of the
  address that made a signature, the hashes of lock identifiers and nullifiers, the name of the local node.\<close>

type_synonym encodedCoin = "Bytes32 \<times> address option \<times> int"
type_synonym encodedLockedCoin = "Bytes32 \<times> Bytes32 \<times> address option \<times> int"

record notoEnv =
  env_NewAddress :: "string \<Rightarrow> address option"
  env_AddressString :: "address \<Rightarrow> string"
  env_EncodeTransfer :: "address \<Rightarrow> encodedCoin list \<Rightarrow> encodedCoin list \<Rightarrow> HexBytes option"
  env_EncodeLock :: "address \<Rightarrow> encodedCoin list \<Rightarrow> encodedCoin list \<Rightarrow> encodedLockedCoin list \<Rightarrow> HexBytes option"
  env_EncodeUnlock :: "address \<Rightarrow> encodedLockedCoin list \<Rightarrow> encodedLockedCoin list \<Rightarrow> encodedCoin list \<Rightarrow> HexBytes option"
  env_EncodeDelegateLock :: "address \<Rightarrow> Bytes32 \<Rightarrow> address option \<Rightarrow> HexBytes \<Rightarrow> HexBytes option"
  env_Recover :: "HexBytes \<Rightarrow> HexBytes \<Rightarrow> address option"
  env_LockId :: "address \<Rightarrow> address \<Rightarrow> string \<Rightarrow> Bytes32 option"
  env_NullifierHash :: "address \<Rightarrow> Bytes32 \<Rightarrow> address \<Rightarrow> int \<Rightarrow> Bytes32 option"
  env_LocalNodeName :: "string option"

end
