(* ===== verification/NotoStates.thy ===== *)
theory NotoStates
  imports NotoTypes
begin

text \<open>
  What the handlers of Noto share (\<^verbatim>\<open>noto.go\<close>, \<^verbatim>\<open>handlers.go\<close>, \<^verbatim>\<open>locks.go\<close>, \<^verbatim>\<open>states.go\<close>): looking up verifiers and
  signatures, parsing the coins of a proposal, the checks of amounts, owners, signatures and nullifiers, lock transitions,
  and the selection of coins to spend.
\<close>

section \<open>Verifiers and signatures\<close>

definition ECDSA_SECP256K1 :: string where
  "ECDSA_SECP256K1 = ''ecdsa:secp256k1''"

definition ETH_ADDRESS :: string where
  "ETH_ADDRESS = ''eth_address''"

definition FindVerifier :: "string \<Rightarrow> string \<Rightarrow> string \<Rightarrow> notoVerifier list \<Rightarrow> notoVerifier option" where
  "FindVerifier lookup algorithm verifierType vs =
     find (\<lambda>v. nv_Lookup v = lookup \<and> nv_Algorithm v = algorithm \<and> nv_VerifierType v = verifierType) vs"

definition FindAttestation :: "string \<Rightarrow> notoAttestation list \<Rightarrow> notoAttestation option" where
  "FindAttestation name attestations = find (\<lambda>a. na_Name a = name) attestations"

record identityPair =
  id_identifier :: string
  id_address :: address

definition findEthAddressVerifier :: "notoEnv \<Rightarrow> string \<Rightarrow> string \<Rightarrow> notoVerifier list \<Rightarrow> identityPair attempt" where
  "findEthAddressVerifier env description lookup vs =
     (case FindVerifier lookup ECDSA_SECP256K1 ETH_ADDRESS vs of
        None \<Rightarrow> Refused (invalidVerifierError description)
      | Some v \<Rightarrow>
          (case env_NewAddress env (nv_Verifier v) of
             None \<Rightarrow> Refused (invalidVerifierError description)
           | Some a \<Rightarrow> Done \<lparr>id_identifier = lookup, id_address = a\<rparr>))"

definition validateSignature :: "notoEnv \<Rightarrow> string \<Rightarrow> notoAttestation list \<Rightarrow> HexBytes \<Rightarrow> unit attempt" where
  "validateSignature env name attestations encodedMessage =
     (case FindAttestation name attestations of
        None \<Rightarrow> Refused invalidSignatureError
      | Some signature \<Rightarrow>
          (case env_Recover env encodedMessage (na_Payload signature) of
             None \<Rightarrow> Refused invalidSignatureError
           | Some recovered \<Rightarrow>
               tryThen (deref (na_Verifier signature)) (\<lambda>v.
                 require (env_AddressString env recovered = nv_Verifier v) invalidSignatureError)))"

section \<open>Coins of a proposal\<close>

record parsedCoins =
  pcs_coins :: "NotoCoin list"
  pcs_states :: "string list"
  pcs_total :: int
  pcs_lockedCoins :: "NotoLockedCoin list"
  pcs_lockedStates :: "string list"
  pcs_lockedTotal :: int

definition noCoins :: parsedCoins where
  "noCoins = \<lparr>pcs_coins = [], pcs_states = [], pcs_total = 0, pcs_lockedCoins = [], pcs_lockedStates = [], pcs_lockedTotal = 0\<rparr>"

fun parseCoinLoop :: "Noto \<Rightarrow> string set \<Rightarrow> notoState list \<Rightarrow> parsedCoins \<Rightarrow> parsedCoins attempt" where
  "parseCoinLoop n used [] acc = Done acc"
| "parseCoinLoop n used (st # sts) acc =
     (if st_Id st \<in> used then Refused invalidStateListError
      else if st_SchemaId st = noto_coinSchema n then
        tryThen (valueOr invalidStateListError (unmarshalCoin (st_Data st))) (\<lambda>coin.
        tryThen (deref (coin_Amount coin)) (\<lambda>amount.
          parseCoinLoop n (insert (st_Id st) used) sts
            (acc\<lparr>pcs_coins := pcs_coins acc @ [coin], pcs_total := pcs_total acc + amount, pcs_states := pcs_states acc @ [st_Id st]\<rparr>)))
      else if st_SchemaId st = noto_lockedCoinSchema n then
        tryThen (valueOr invalidStateListError (unmarshalLockedCoin (st_Data st))) (\<lambda>coin.
        tryThen (deref (lc_Amount coin)) (\<lambda>amount.
          parseCoinLoop n (insert (st_Id st) used) sts
            (acc\<lparr>pcs_lockedCoins := pcs_lockedCoins acc @ [coin], pcs_lockedTotal := pcs_lockedTotal acc + amount,
                 pcs_lockedStates := pcs_lockedStates acc @ [st_Id st]\<rparr>)))
      else if st_SchemaId st = noto_lockInfoSchemaV1 n then parseCoinLoop n (insert (st_Id st) used) sts acc
      else Refused invalidStateListError)"

definition parseCoinList :: "Noto \<Rightarrow> notoState list \<Rightarrow> parsedCoins attempt" where
  "parseCoinList n states = parseCoinLoop n {} states noCoins"

definition filterSchema :: "notoState list \<Rightarrow> string list \<Rightarrow> notoState list" where
  "filterSchema states schemas = filter (\<lambda>st. st_SchemaId st \<in> set schemas) states"

section \<open>Checks\<close>

definition validateMintAmounts :: "int option \<Rightarrow> parsedCoins \<Rightarrow> parsedCoins \<Rightarrow> unit attempt" where
  "validateMintAmounts amount inputs outputs =
     (if pcs_coins inputs \<noteq> [] then Refused invalidAmountsError
      else tryThen (deref amount) (\<lambda>a. require (pcs_total outputs = a) invalidAmountsError))"

definition validateTransferAmounts :: "parsedCoins \<Rightarrow> parsedCoins \<Rightarrow> unit attempt" where
  "validateTransferAmounts inputs outputs =
     (if pcs_coins inputs = [] then Refused invalidAmountsError
      else require (pcs_total inputs = pcs_total outputs) invalidAmountsError)"

definition validateBurnAmounts :: "int option \<Rightarrow> parsedCoins \<Rightarrow> parsedCoins \<Rightarrow> unit attempt" where
  "validateBurnAmounts amount inputs outputs =
     (if pcs_coins inputs = [] then Refused invalidAmountsError
      else tryThen (deref amount) (\<lambda>a. require (pcs_total inputs - pcs_total outputs = a) invalidAmountsError))"

definition validateLockAmounts :: "NotoParsedConfig \<Rightarrow> parsedCoins \<Rightarrow> parsedCoins \<Rightarrow> unit attempt" where
  "validateLockAmounts cfg inputs outputs =
     (if IsV0 cfg \<and> pcs_coins inputs = [] then Refused invalidAmountsError
      else require (pcs_total inputs - pcs_total outputs = pcs_lockedTotal outputs) invalidAmountsError)"

definition validateUnlockAmounts :: "NotoParsedConfig \<Rightarrow> parsedCoins \<Rightarrow> parsedCoins \<Rightarrow> unit attempt" where
  "validateUnlockAmounts cfg inputs outputs =
     (if IsV0 cfg \<and> pcs_lockedCoins inputs = [] then Refused invalidAmountsError
      else require (pcs_lockedTotal inputs - pcs_lockedTotal outputs = pcs_total outputs) invalidAmountsError)"

text \<open>The owners of the coins, each with the identifier of its state.\<close>

fun ownersLoop :: "address \<Rightarrow> address option list \<Rightarrow> string list \<Rightarrow> unit attempt" where
  "ownersLoop a [] ids = Done ()"
| "ownersLoop a (owner # owners) ids =
     (if EthAddress_Equals owner (Some a) then ownersLoop a owners (tl ids) else Refused (wrongOwnerError (hd ids)))"

definition validateOwners :: "notoEnv \<Rightarrow> string \<Rightarrow> notoVerifier list \<Rightarrow> NotoCoin list \<Rightarrow> string list \<Rightarrow> unit attempt" where
  "validateOwners env owner vs coins ids =
     tryThen (findEthAddressVerifier env ''from'' owner vs) (\<lambda>i. ownersLoop (id_address i) (map coin_Owner coins) ids)"

definition validateLockOwners :: "notoEnv \<Rightarrow> string \<Rightarrow> notoVerifier list \<Rightarrow> NotoLockedCoin list \<Rightarrow> string list \<Rightarrow> unit attempt" where
  "validateLockOwners env owner vs coins ids =
     tryThen (findEthAddressVerifier env ''from'' owner vs) (\<lambda>i. ownersLoop (id_address i) (map lc_Owner coins) ids)"

text \<open>What is signed names an amount by its absolute value.\<close>

definition encodeNotoCoins :: "NotoCoin list \<Rightarrow> encodedCoin list attempt" where
  "encodeNotoCoins coins =
     (if \<exists>c \<in> set coins. coin_Amount c = None then Panics
      else Done (map (\<lambda>c. (coin_Salt c, coin_Owner c, \<bar>the (coin_Amount c)\<bar>)) coins))"

definition encodeNotoLockedCoins :: "NotoLockedCoin list \<Rightarrow> encodedLockedCoin list attempt" where
  "encodeNotoLockedCoins coins =
     (if \<exists>c \<in> set coins. lc_Amount c = None then Panics
      else Done (map (\<lambda>c. (lc_Salt c, lc_LockID c, lc_Owner c, \<bar>the (lc_Amount c)\<bar>)) coins))"

definition encodeTransferUnmasked :: "notoEnv \<Rightarrow> address \<Rightarrow> NotoCoin list \<Rightarrow> NotoCoin list \<Rightarrow> HexBytes attempt" where
  "encodeTransferUnmasked env contract inputs outputs =
     tryThen (encodeNotoCoins inputs) (\<lambda>i. tryThen (encodeNotoCoins outputs) (\<lambda>out.
       valueOr encodeFailedError (env_EncodeTransfer env contract i out)))"

definition encodeLock :: "notoEnv \<Rightarrow> address \<Rightarrow> NotoCoin list \<Rightarrow> NotoCoin list \<Rightarrow> NotoLockedCoin list \<Rightarrow> HexBytes attempt" where
  "encodeLock env contract inputs outputs lockedOutputs =
     tryThen (encodeNotoCoins inputs) (\<lambda>i. tryThen (encodeNotoCoins outputs) (\<lambda>out. tryThen (encodeNotoLockedCoins lockedOutputs) (\<lambda>lo.
       valueOr encodeFailedError (env_EncodeLock env contract i out lo))))"

definition encodeUnlock :: "notoEnv \<Rightarrow> address \<Rightarrow> NotoLockedCoin list \<Rightarrow> NotoLockedCoin list \<Rightarrow> NotoCoin list \<Rightarrow> HexBytes attempt" where
  "encodeUnlock env contract lockedInputs lockedOutputs outputs =
     tryThen (encodeNotoLockedCoins lockedInputs) (\<lambda>li. tryThen (encodeNotoLockedCoins lockedOutputs) (\<lambda>lo. tryThen (encodeNotoCoins outputs) (\<lambda>out.
       valueOr encodeFailedError (env_EncodeUnlock env contract li lo out))))"

definition encodeDelegateLock :: "notoEnv \<Rightarrow> address \<Rightarrow> Bytes32 \<Rightarrow> address option \<Rightarrow> HexBytes \<Rightarrow> HexBytes attempt" where
  "encodeDelegateLock env contract lockID delegate data = valueOr encodeFailedError (env_EncodeDelegateLock env contract lockID delegate data)"

section \<open>Nullifiers\<close>

definition calculateNullifier :: "notoEnv \<Rightarrow> address \<Rightarrow> NotoCoin \<Rightarrow> Bytes32 option" where
  "calculateNullifier env contract coin =
     (case (coin_Owner coin, coin_Amount coin) of
        (Some owner, Some amount) \<Rightarrow> env_NullifierHash env contract (coin_Salt coin) owner amount
      | _ \<Rightarrow> None)"

text \<open>\<open>Some None\<close>: the state has no nullifier; \<open>None\<close>: an error.\<close>

definition stateNullifier :: "notoEnv \<Rightarrow> Noto \<Rightarrow> address \<Rightarrow> notoState \<Rightarrow> string option option" where
  "stateNullifier env n contract st =
     (if st_SchemaId st \<noteq> noto_coinSchema n then Some None
      else case unmarshalCoinStrict (st_Data st) of
             None \<Rightarrow> None
           | Some coin \<Rightarrow> map_option (\<lambda>h. Some (Bytes32_HexString h)) (calculateNullifier env contract coin))"

fun nullifierLoop :: "notoEnv \<Rightarrow> Noto \<Rightarrow> address \<Rightarrow> string set \<Rightarrow> string set \<Rightarrow> notoState list \<Rightarrow> unit attempt" where
  "nullifierLoop env n contract seen nullifiers [] = Done ()"
| "nullifierLoop env n contract seen nullifiers (st # sts) =
     (if st_Id st \<in> seen then nullifierLoop env n contract seen nullifiers sts
      else case stateNullifier env n contract st of
             None \<Rightarrow> Refused invalidStateListError
           | Some None \<Rightarrow> nullifierLoop env n contract (insert (st_Id st) seen) nullifiers sts
           | Some (Some h) \<Rightarrow>
               if h \<in> nullifiers then Refused invalidStateListError
               else nullifierLoop env n contract (insert (st_Id st) seen) (insert h nullifiers) sts)"

definition validateDistinctNullifiers :: "notoEnv \<Rightarrow> Noto \<Rightarrow> address \<Rightarrow> notoState list list \<Rightarrow> unit attempt" where
  "validateDistinctNullifiers env n contract stateLists = nullifierLoop env n contract {} {} (concat stateLists)"

end
