(* ===== verification/NotoLocks.thy ===== *)
theory NotoLocks
  imports NotoStates
begin

text \<open>
  Locks of Noto (\<^verbatim>\<open>locks.go\<close>), the rules who may do what (\<^verbatim>\<open>checkAllowed\<close> of the handlers), and the selection of coins to
  spend (\<^verbatim>\<open>states.go\<close>). The state store is a parameter: \<open>query\<close> is what \<^verbatim>\<open>FindAvailableStates\<close> returns, or \<open>None\<close> if the
  call fails. A loop that pages through the store for ever has the value \<open>None\<close>.
\<close>

section \<open>Lock transitions\<close>

datatype lockTransitionType = LOCK_DECODE_ANY | LOCK_CREATE | LOCK_UPDATE | LOCK_SPEND

record lockTransition =
  lt_prevLockState :: "notoState option"
  lt_prevLockStateID :: Bytes32
  lt_prevLockInfo :: NotoLockInfo_V1
  lt_newLockState :: "notoState option"
  lt_newLockStateID :: Bytes32
  lt_newLockInfo :: NotoLockInfo_V1

definition zeroLockInfo :: NotoLockInfo_V1 where
  "zeroLockInfo = \<lparr>li_Salt = zero32, li_LockID = zero32, li_Owner = None, li_Spender = None, li_Replaces = zero32, li_SpendTxId = zero32,
     li_SpendOutputs = [], li_SpendData = [], li_CancelOutputs = [], li_CancelData = []\<rparr>"

definition decodeLock :: "notoState \<Rightarrow> (NotoLockInfo_V1 \<times> Bytes32) attempt" where
  "decodeLock st =
     (case (unmarshalLockV1 (st_Data st), ParseBytes32Ctx (st_Id st)) of
        (Some l, Inr i) \<Rightarrow> Done (l, i)
      | _ \<Rightarrow> Refused invalidLockTransitionError)"

definition transitionShape :: "lockTransitionType \<Rightarrow> nat \<Rightarrow> nat \<Rightarrow> bool" where
  "transitionShape t ins outs =
     (case t of
        LOCK_CREATE \<Rightarrow> ins = 0 \<and> outs = 1
      | LOCK_SPEND \<Rightarrow> ins = 1 \<and> outs = 0
      | LOCK_UPDATE \<Rightarrow> ins = 1 \<and> outs = 1
      | LOCK_DECODE_ANY \<Rightarrow> True)"

definition prevLock :: "identityPair option \<Rightarrow> notoState list \<Rightarrow> lockTransition \<Rightarrow> lockTransition attempt" where
  "prevLock senderID ins lt =
     (case ins of
        [st] \<Rightarrow>
          tryThen (decodeLock st) (\<lambda>(l, i).
          tryThen (require (case senderID of None \<Rightarrow> True | Some s \<Rightarrow> EthAddress_Equals (li_Owner l) (Some (id_address s))) (wrongOwnerError (st_Id st))) (\<lambda>_.
            Done (lt\<lparr>lt_prevLockState := Some st, lt_prevLockStateID := i, lt_prevLockInfo := l\<rparr>)))
      | _ \<Rightarrow> Done lt)"

definition validLockState :: "NotoLockInfo_V1 \<Rightarrow> bool" where
  "validLockState l \<longleftrightarrow> \<not> Bytes32_IsZero (li_Salt l) \<and> li_Owner l \<noteq> None \<and> li_Spender l \<noteq> None
     \<and> \<not> (li_SpendOutputs l \<noteq> [] \<and> Bytes32_IsZero (li_SpendTxId l))"

definition succeedsLock :: "NotoLockInfo_V1 \<Rightarrow> notoState \<Rightarrow> NotoLockInfo_V1 \<Rightarrow> bool" where
  "succeedsLock prev prevState new \<longleftrightarrow> EthAddress_Equals (li_Owner new) (li_Owner prev) \<and> li_LockID new = li_LockID prev
     \<and> Bytes32_String (li_Replaces new) = st_Id prevState \<and> li_Salt new \<noteq> li_Salt prev"

definition newLock :: "Bytes32 option \<Rightarrow> notoState list \<Rightarrow> lockTransition \<Rightarrow> lockTransition attempt" where
  "newLock lockID outs lt =
     (case outs of
        [st] \<Rightarrow>
          tryThen (decodeLock st) (\<lambda>(l, i).
          tryThen (require (validLockState l) invalidLockTransitionError) (\<lambda>_.
          tryThen (require (case lockID of None \<Rightarrow> True | Some x \<Rightarrow> li_LockID l = x) invalidLockTransitionError) (\<lambda>_.
          tryThen (require (case lt_prevLockState lt of None \<Rightarrow> True | Some p \<Rightarrow> succeedsLock (lt_prevLockInfo lt) p l) invalidLockTransitionError) (\<lambda>_.
            Done (lt\<lparr>lt_newLockState := Some st, lt_newLockStateID := i, lt_newLockInfo := l\<rparr>)))))
      | _ \<Rightarrow> Done lt)"

definition validateV1LockTransition ::
  "Noto \<Rightarrow> lockTransitionType \<Rightarrow> identityPair option \<Rightarrow> Bytes32 option \<Rightarrow> notoState list \<Rightarrow> notoState list \<Rightarrow> lockTransition attempt" where
  "validateV1LockTransition n t senderID lockID inputs outputs =
     (let ins = filterSchema inputs [noto_lockInfoSchemaV1 n]; outs = filterSchema outputs [noto_lockInfoSchemaV1 n] in
      tryThen (require (transitionShape t (length ins) (length outs)) invalidLockTransitionError) (\<lambda>_.
      tryThen (prevLock senderID ins \<lparr>lt_prevLockState = None, lt_prevLockStateID = zero32, lt_prevLockInfo = zeroLockInfo,
                 lt_newLockState = None, lt_newLockStateID = zero32, lt_newLockInfo = zeroLockInfo\<rparr>) (\<lambda>lt.
        newLock lockID outs lt)))"

text \<open>Each info state that is a coin, once for every identifier of the list it has.\<close>

definition outputsNamed :: "Noto \<Rightarrow> Bytes32 list \<Rightarrow> notoState list \<Rightarrow> notoState list" where
  "outputsNamed n ids infoStates =
     concat (map (\<lambda>st. map (\<lambda>_. st) (filter (\<lambda>i. st_Id st = Bytes32_String i) ids)) (filterSchema infoStates [noto_coinSchema n]))"

definition splitOutputs :: "Noto \<Rightarrow> lockTransition \<Rightarrow> notoState list \<Rightarrow> (notoState list \<times> notoState list) attempt" where
  "splitOutputs n lt infoStates =
     (let spendOutputs = outputsNamed n (li_SpendOutputs (lt_newLockInfo lt)) infoStates;
          cancelOutputs = outputsNamed n (li_CancelOutputs (lt_newLockInfo lt)) infoStates in
      tryThen (require (length spendOutputs = length (li_SpendOutputs (lt_newLockInfo lt)) \<and>
                        length cancelOutputs = length (li_CancelOutputs (lt_newLockInfo lt))) invalidLockTransitionError) (\<lambda>_.
        Done (spendOutputs, cancelOutputs)))"

definition decodeV1LockTransitionWithOutputs ::
  "Noto \<Rightarrow> lockTransitionType \<Rightarrow> identityPair option \<Rightarrow> Bytes32 option \<Rightarrow> notoState list \<Rightarrow> notoState list \<Rightarrow> notoState list
     \<Rightarrow> (lockTransition \<times> notoState list \<times> notoState list) attempt" where
  "decodeV1LockTransitionWithOutputs n t senderID lockID inputs outputs infoStates =
     tryThen (validateV1LockTransition n t senderID lockID inputs outputs) (\<lambda>lt.
     tryThen (splitOutputs n lt infoStates) (\<lambda>(spendOutputs, cancelOutputs). Done (lt, spendOutputs, cancelOutputs)))"

definition computeLockIDForLockTX :: "notoEnv \<Rightarrow> ParsedTransaction \<Rightarrow> identityPair \<Rightarrow> Bytes32 attempt" where
  "computeLockIDForLockTX env tx notaryID =
     (let cfg = ptx_DomainConfig tx;
          sender = (case (cfg_NotaryMode cfg, cfg_Hooks cfg) of
             (NotaryModeHooks, Some h) \<Rightarrow> (case ho_PublicAddress h of Some a \<Rightarrow> a | None \<Rightarrow> id_address notaryID)
           | _ \<Rightarrow> id_address notaryID)
      in valueOr invalidTransactionDataError (env_LockId env (ptx_ContractAddress tx) sender (ptx_TransactionId tx)))"

section \<open>Who may do what\<close>

definition mint_checkAllowed :: "ParsedTransaction \<Rightarrow> string \<Rightarrow> unit attempt" where
  "mint_checkAllowed tx from =
     (let cfg = ptx_DomainConfig tx in
      if cfg_NotaryMode cfg \<noteq> NotaryModeBasic then Done ()
      else tryThen (deref (cfg_Basic cfg)) (\<lambda>b. tryThen (deref (bo_RestrictMint b)) (\<lambda>restrict.
        require (\<not> restrict \<or> from = cfg_NotaryLookup cfg) operationNotAllowedError)))"

definition checkBurnAllowed :: "ParsedTransaction \<Rightarrow> unit attempt" where
  "checkBurnAllowed tx =
     (let cfg = ptx_DomainConfig tx in
      if cfg_NotaryMode cfg \<noteq> NotaryModeBasic then Done ()
      else tryThen (deref (cfg_Basic cfg)) (\<lambda>b. tryThen (deref (bo_AllowBurn b)) (\<lambda>allow. require allow operationNotAllowedError)))"

definition lock_checkAllowed :: "ParsedTransaction \<Rightarrow> unit attempt" where
  "lock_checkAllowed tx =
     (let cfg = ptx_DomainConfig tx in
      if cfg_NotaryMode cfg \<noteq> NotaryModeBasic then Done ()
      else tryThen (deref (cfg_Basic cfg)) (\<lambda>b. tryThen (deref (bo_AllowLock b)) (\<lambda>allow. require allow operationNotAllowedError)))"

text \<open>Only the creator of a lock: the name in the parameters is qualified with the node on which the check runs.\<close>

definition lockCommon_checkAllowed :: "notoEnv \<Rightarrow> ParsedTransaction \<Rightarrow> string \<Rightarrow> unit attempt" where
  "lockCommon_checkAllowed env tx from =
     (if cfg_NotaryMode (ptx_DomainConfig tx) \<noteq> NotaryModeBasic then Done ()
      else tryThen (valueOr callbackFailedError (env_LocalNodeName env)) (\<lambda>node.
        case FullyQualified from node of
          Inl _ \<Rightarrow> Refused invalidParamsError
        | Inr q \<Rightarrow> require (ptx_From tx = q) operationNotAllowedError))"

section \<open>Selecting coins\<close>

record stateQuery =
  q_SchemaId :: string
  q_Limit :: nat
  q_NewestFirst :: bool
  q_LockId :: "Bytes32 option"
  q_Owner :: "string option"
  q_CreatedAfter :: "int option"

record StoredState =
  ss_Id :: string
  ss_SchemaId :: string
  ss_CreatedAt :: int
  ss_DataJson :: stateJSON

type_synonym stateStore = "stateQuery \<Rightarrow> StoredState list option"

record preparedInputs =
  pi_coins :: "NotoCoin list"
  pi_states :: "(string \<times> string) list"
  pi_total :: int

fun selectCoins :: "StoredState list \<Rightarrow> int \<Rightarrow> preparedInputs \<Rightarrow> (int \<times> preparedInputs) attempt" where
  "selectCoins [] lastStateTimestamp acc = Done (lastStateTimestamp, acc)"
| "selectCoins (st # sts) lastStateTimestamp acc =
     tryThen (valueOr (invalidStoredStateError (ss_Id st)) (unmarshalCoin (ss_DataJson st))) (\<lambda>coin.
     tryThen (deref (coin_Amount coin)) (\<lambda>amount.
       selectCoins sts (ss_CreatedAt st)
         (acc\<lparr>pi_total := pi_total acc + amount, pi_states := pi_states acc @ [(ss_SchemaId st, ss_Id st)], pi_coins := pi_coins acc @ [coin]\<rparr>)))"

partial_function (option) prepareInputsLoop ::
  "stateStore \<Rightarrow> Noto \<Rightarrow> string \<Rightarrow> int \<Rightarrow> int \<Rightarrow> preparedInputs \<Rightarrow> preparedInputs attempt option" where
  "prepareInputsLoop query n owner amount lastStateTimestamp acc =
     (if pi_total acc < amount then
        (case query \<lparr>q_SchemaId = noto_coinSchema n, q_Limit = 10, q_NewestFirst = False, q_LockId = None, q_Owner = Some owner,
                     q_CreatedAfter = (if lastStateTimestamp > 0 then Some lastStateTimestamp else None)\<rparr> of
           None \<Rightarrow> Some (Refused callbackFailedError)
         | Some states \<Rightarrow>
             if states = [] then Some (Refused (insufficientFundsError (pi_total acc)))
             else (case selectCoins states lastStateTimestamp acc of
                     Done (lastTS, acc1) \<Rightarrow> prepareInputsLoop query n owner amount lastTS acc1
                   | Refused e \<Rightarrow> Some (Refused e)
                   | Panics \<Rightarrow> Some Panics))
      else Some (Done acc))"

declare prepareInputsLoop.simps [code]

definition prepareInputs :: "notoEnv \<Rightarrow> stateStore \<Rightarrow> Noto \<Rightarrow> identityPair \<Rightarrow> int \<Rightarrow> preparedInputs attempt option" where
  "prepareInputs env query n owner amount =
     prepareInputsLoop query n (env_AddressString env (id_address owner)) amount 0 \<lparr>pi_coins = [], pi_states = [], pi_total = 0\<rparr>"

record preparedLockedInputs =
  pli_coins :: "NotoLockedCoin list"
  pli_states :: "(string \<times> string) list"
  pli_total :: int

text \<open>The loop over a page; it is left when the total is reached, unless all states are to be selected.\<close>

fun selectLockedCoins :: "bool \<Rightarrow> int \<Rightarrow> StoredState list \<Rightarrow> int \<Rightarrow> preparedLockedInputs \<Rightarrow> (int \<times> preparedLockedInputs) attempt" where
  "selectLockedCoins selectAll amount [] lastStateTimestamp acc = Done (lastStateTimestamp, acc)"
| "selectLockedCoins selectAll amount (st # sts) lastStateTimestamp acc =
     tryThen (valueOr (invalidStoredStateError (ss_Id st)) (unmarshalLockedCoin (ss_DataJson st))) (\<lambda>coin.
     tryThen (deref (lc_Amount coin)) (\<lambda>a.
       let acc1 = acc\<lparr>pli_total := pli_total acc + a, pli_states := pli_states acc @ [(ss_SchemaId st, ss_Id st)], pli_coins := pli_coins acc @ [coin]\<rparr>
       in if pli_total acc1 \<ge> amount \<and> \<not> selectAll then Done (ss_CreatedAt st, acc1)
          else selectLockedCoins selectAll amount sts (ss_CreatedAt st) acc1))"

partial_function (option) prepareLockedInputsLoop ::
  "stateStore \<Rightarrow> Noto \<Rightarrow> Bytes32 \<Rightarrow> string \<Rightarrow> int \<Rightarrow> bool \<Rightarrow> int \<Rightarrow> preparedLockedInputs \<Rightarrow> preparedLockedInputs attempt option" where
  "prepareLockedInputsLoop query n lockID owner amount selectAll lastStateTimestamp acc =
     (case query \<lparr>q_SchemaId = noto_lockedCoinSchema n, q_Limit = 10, q_NewestFirst = False, q_LockId = Some lockID, q_Owner = Some owner,
                  q_CreatedAfter = (if lastStateTimestamp > 0 then Some lastStateTimestamp else None)\<rparr> of
        None \<Rightarrow> Some (Refused callbackFailedError)
      | Some states \<Rightarrow>
          (case selectLockedCoins selectAll amount states lastStateTimestamp acc of
             Done (lastTS, acc1) \<Rightarrow>
               if length states < 10 then Some (if pli_total acc1 \<ge> amount then Done acc1 else Refused (insufficientFundsError (pli_total acc1)))
               else prepareLockedInputsLoop query n lockID owner amount selectAll lastTS acc1
           | Refused e \<Rightarrow> Some (Refused e)
           | Panics \<Rightarrow> Some Panics))"

declare prepareLockedInputsLoop.simps [code]

definition prepareLockedInputs ::
  "notoEnv \<Rightarrow> stateStore \<Rightarrow> Noto \<Rightarrow> Bytes32 \<Rightarrow> address \<Rightarrow> int \<Rightarrow> bool \<Rightarrow> preparedLockedInputs attempt option" where
  "prepareLockedInputs env query n lockID owner amount selectAll =
     prepareLockedInputsLoop query n lockID (env_AddressString env owner) amount selectAll 0 \<lparr>pli_coins = [], pli_states = [], pli_total = 0\<rparr>"

record loadedLockInfo =
  ll_id :: Bytes32
  ll_stateRef :: "string \<times> string"
  ll_lockInfo :: NotoLockInfo_V1

definition loadLockInfoV1 :: "stateStore \<Rightarrow> Noto \<Rightarrow> Bytes32 \<Rightarrow> loadedLockInfo attempt" where
  "loadLockInfoV1 query n lockID =
     (case query \<lparr>q_SchemaId = noto_lockInfoSchemaV1 n, q_Limit = 1, q_NewestFirst = True, q_LockId = Some lockID, q_Owner = None, q_CreatedAfter = None\<rparr> of
        None \<Rightarrow> Refused callbackFailedError
      | Some [] \<Rightarrow> Refused lockNotFoundError
      | Some (st # _) \<Rightarrow>
          (case (ParseBytes32 (ss_Id st), unmarshalLockV1 (ss_DataJson st)) of
             (Inr i, Some l) \<Rightarrow> Done \<lparr>ll_id = i, ll_stateRef = (ss_SchemaId st, ss_Id st), ll_lockInfo = l\<rparr>
           | _ \<Rightarrow> Refused (invalidStoredStateError (ss_Id st))))"

end
