(* ===== verification/NotoHandlers.thy ===== *)
theory NotoHandlers
  imports NotoLocks
begin

text \<open>
  The handlers of the functions of Noto: parsing and checking their parameters (\<^verbatim>\<open>ValidateParams\<close>), the verifiers they ask for
  (\<^verbatim>\<open>Init\<close>) and what the notary checks before it submits a transaction (\<^verbatim>\<open>Endorse\<close>), with the entry points of \<^verbatim>\<open>noto.go\<close>.
  The result \<open>Done ()\<close> of an \<^verbatim>\<open>Endorse\<close> is the response \<^verbatim>\<open>ENDORSER_SUBMIT\<close>.
\<close>

section \<open>Functions and their parameters\<close>

datatype notoHandler =
    mintHandler | transferHandler | transferFromHandler | burnHandler | burnFromHandler | lockHandler | unlockHandler
  | createTransferLockHandler | createMintLockHandler | createBurnLockHandler | prepareUnlockHandler | prepareMintUnlockHandler
  | prepareBurnUnlockHandler | delegateLockHandler

definition GetHandler :: "string \<Rightarrow> notoHandler option" where
  "GetHandler method =
     map_of [(''mint'', mintHandler), (''transfer'', transferHandler), (''transferFrom'', transferFromHandler), (''burn'', burnHandler),
             (''burnFrom'', burnFromHandler), (''lock'', lockHandler), (''createLock'', lockHandler), (''unlock'', unlockHandler),
             (''createTransferLock'', createTransferLockHandler), (''createMintLock'', createMintLockHandler),
             (''createBurnLock'', createBurnLockHandler), (''prepareUnlock'', prepareUnlockHandler),
             (''prepareMintUnlock'', prepareMintUnlockHandler), (''prepareBurnUnlock'', prepareBurnUnlockHandler),
             (''delegateLock'', delegateLockHandler)] method"

text \<open>The fields of the JSON text of the parameters.\<close>

record paramsJSON =
  pj_object :: bool
  pj_to :: "string jsonField"
  pj_from :: "string jsonField"
  pj_amount :: "int jsonField"
  pj_lockId :: "Bytes32 jsonField"
  pj_recipients :: "UnlockRecipient list jsonField"
  pj_delegate :: "address jsonField"
  pj_unlock :: "unit jsonField"
  pj_data :: "HexBytes jsonField"
  pj_unlockData :: "HexBytes jsonField"

text \<open>Which fields the parameters of each function have: a malformed value in any of them is an error.\<close>

definition usesTo :: "notoHandler \<Rightarrow> bool" where
  "usesTo h \<longleftrightarrow> h \<in> {mintHandler, transferHandler, transferFromHandler}"

definition usesFrom :: "notoHandler \<Rightarrow> bool" where
  "usesFrom h \<longleftrightarrow> h \<in> {transferFromHandler, burnFromHandler, unlockHandler, prepareUnlockHandler, createTransferLockHandler,
     createBurnLockHandler, prepareBurnUnlockHandler}"

definition usesAmount :: "notoHandler \<Rightarrow> bool" where
  "usesAmount h \<longleftrightarrow> h \<in> {mintHandler, transferHandler, transferFromHandler, burnHandler, burnFromHandler, lockHandler,
     createBurnLockHandler, prepareBurnUnlockHandler}"

definition usesLockId :: "notoHandler \<Rightarrow> bool" where
  "usesLockId h \<longleftrightarrow> h \<in> {unlockHandler, prepareUnlockHandler, prepareMintUnlockHandler, prepareBurnUnlockHandler, delegateLockHandler}"

definition usesRecipients :: "notoHandler \<Rightarrow> bool" where
  "usesRecipients h \<longleftrightarrow> h \<in> {unlockHandler, prepareUnlockHandler, createTransferLockHandler, createMintLockHandler, prepareMintUnlockHandler}"

definition usesUnlockData :: "notoHandler \<Rightarrow> bool" where
  "usesUnlockData h \<longleftrightarrow> h \<in> {prepareUnlockHandler, createTransferLockHandler, createMintLockHandler, createBurnLockHandler,
     prepareMintUnlockHandler, prepareBurnUnlockHandler}"

definition unmarshalParams :: "notoHandler \<Rightarrow> paramsJSON \<Rightarrow> notoParams option" where
  "unmarshalParams h j =
     (if \<not> pj_object j \<or> pj_data j = Malformed \<or> usesTo h \<and> pj_to j = Malformed \<or> usesFrom h \<and> pj_from j = Malformed
         \<or> usesAmount h \<and> pj_amount j = Malformed \<or> usesLockId h \<and> pj_lockId j = Malformed \<or> usesRecipients h \<and> pj_recipients j = Malformed
         \<or> usesUnlockData h \<and> pj_unlockData j = Malformed
         \<or> h = delegateLockHandler \<and> (pj_delegate j = Malformed \<or> pj_unlock j = Malformed)
      then None
      else
        let to = fieldOr [] (pj_to j); from = fieldOr [] (pj_from j); amount = fieldPtr (pj_amount j);
            lockId = fieldOr zero32 (pj_lockId j); recipients = fieldOr [] (pj_recipients j)
        in Some (case h of
             mintHandler \<Rightarrow> MintParams to amount
           | transferHandler \<Rightarrow> TransferParams to amount
           | transferFromHandler \<Rightarrow> TransferFromParams from to amount
           | burnHandler \<Rightarrow> BurnParams amount
           | burnFromHandler \<Rightarrow> BurnFromParams from amount
           | lockHandler \<Rightarrow> LockParams amount
           | unlockHandler \<Rightarrow> UnlockCall \<lparr>up_LockID = lockId, up_From = from, up_Recipients = recipients\<rparr>
           | prepareUnlockHandler \<Rightarrow> PrepareUnlockCall \<lparr>up_LockID = lockId, up_From = from, up_Recipients = recipients\<rparr>
           | createTransferLockHandler \<Rightarrow> CreateTransferLockParams from recipients
           | createMintLockHandler \<Rightarrow> CreateMintLockParams recipients
           | createBurnLockHandler \<Rightarrow> CreateBurnLockParams from amount
           | prepareMintUnlockHandler \<Rightarrow> PrepareMintUnlockParams lockId recipients
           | prepareBurnUnlockHandler \<Rightarrow> PrepareBurnUnlockParams lockId from amount
           | delegateLockHandler \<Rightarrow> DelegateLockParams lockId (fieldPtr (pj_delegate j)) (fieldOr [] (pj_data j)) (fieldPtr (pj_unlock j) \<noteq> None)))"

definition positive :: "int option \<Rightarrow> bool" where
  "positive amount \<longleftrightarrow> (case amount of None \<Rightarrow> False | Some a \<Rightarrow> a > 0)"

definition validateTransferParams :: "string \<Rightarrow> int option \<Rightarrow> unit attempt" where
  "validateTransferParams to amount =
     tryThen (require (to \<noteq> []) invalidParamsError) (\<lambda>_. require (positive amount) invalidParamsError)"

definition validateBurnParams :: "int option \<Rightarrow> unit attempt" where
  "validateBurnParams amount = require (positive amount) invalidParamsError"

definition validateRecipients :: "UnlockRecipient list \<Rightarrow> unit attempt" where
  "validateRecipients recipients =
     tryThen (require (recipients \<noteq> []) invalidParamsError) (\<lambda>_.
       require (\<forall>entry \<in> set recipients. positive (snd entry)) invalidParamsError)"

definition unlockCommon_validateParams :: "UnlockParams \<Rightarrow> unit attempt" where
  "unlockCommon_validateParams p =
     tryThen (require (\<not> Bytes32_IsZero (up_LockID p)) invalidParamsError) (\<lambda>_.
     tryThen (require (up_From p \<noteq> []) invalidParamsError) (\<lambda>_. validateRecipients (up_Recipients p)))"

text \<open>The checks of each function on its parameters.\<close>

definition mint_checkParams :: "string \<Rightarrow> int option \<Rightarrow> unit attempt" where
  "mint_checkParams to amount =
     tryThen (require (to \<noteq> []) invalidParamsError) (\<lambda>_. require (positive amount) invalidParamsError)"

definition transferFrom_checkParams :: "string \<Rightarrow> string \<Rightarrow> int option \<Rightarrow> unit attempt" where
  "transferFrom_checkParams from to amount =
     tryThen (validateTransferParams to amount) (\<lambda>_. require (from \<noteq> []) invalidParamsError)"

definition burnFrom_checkParams :: "string \<Rightarrow> int option \<Rightarrow> unit attempt" where
  "burnFrom_checkParams from amount = tryThen (validateBurnParams amount) (\<lambda>_. require (from \<noteq> []) invalidParamsError)"

definition lock_checkParams :: "NotoParsedConfig \<Rightarrow> int option \<Rightarrow> unit attempt" where
  "lock_checkParams config amount = (if IsV0 config then require (positive amount) invalidParamsError else Done ())"

definition createTransferLock_checkParams :: "string \<Rightarrow> UnlockRecipient list \<Rightarrow> unit attempt" where
  "createTransferLock_checkParams from recipients =
     tryThen (require (from \<noteq> []) invalidParamsError) (\<lambda>_. validateRecipients recipients)"

definition createBurnLock_checkParams :: "int option \<Rightarrow> unit attempt" where
  "createBurnLock_checkParams amount = require (positive amount) invalidParamsError"

definition prepareBurnUnlock_checkParams :: "Bytes32 \<Rightarrow> string \<Rightarrow> int option \<Rightarrow> unit attempt" where
  "prepareBurnUnlock_checkParams lockId from amount =
     tryThen (require (\<not> Bytes32_IsZero lockId) invalidParamsError) (\<lambda>_.
     tryThen (require (from \<noteq> []) invalidParamsError) (\<lambda>_. require (positive amount) invalidParamsError))"

definition delegateLock_checkParams :: "NotoParsedConfig \<Rightarrow> Bytes32 \<Rightarrow> address option \<Rightarrow> bool \<Rightarrow> unit attempt" where
  "delegateLock_checkParams config lockId delegate unlock =
     tryThen (require (\<not> Bytes32_IsZero lockId) invalidParamsError) (\<lambda>_.
     tryThen (require (\<not> (IsV0 config \<and> \<not> unlock)) invalidParamsError) (\<lambda>_.
       require (\<not> EthAddress_IsZero delegate) invalidParamsError))"

definition checkParams :: "NotoParsedConfig \<Rightarrow> notoParams \<Rightarrow> unit attempt" where
  "checkParams config params =
     (case params of
        MintParams to amount \<Rightarrow> mint_checkParams to amount
      | TransferParams to amount \<Rightarrow> validateTransferParams to amount
      | TransferFromParams from to amount \<Rightarrow> transferFrom_checkParams from to amount
      | BurnParams amount \<Rightarrow> validateBurnParams amount
      | BurnFromParams from amount \<Rightarrow> burnFrom_checkParams from amount
      | LockParams amount \<Rightarrow> lock_checkParams config amount
      | UnlockCall p \<Rightarrow> unlockCommon_validateParams p
      | PrepareUnlockCall p \<Rightarrow> unlockCommon_validateParams p
      | CreateTransferLockParams from recipients \<Rightarrow> createTransferLock_checkParams from recipients
      | CreateMintLockParams recipients \<Rightarrow> validateRecipients recipients
      | CreateBurnLockParams from amount \<Rightarrow> createBurnLock_checkParams amount
      | PrepareMintUnlockParams lockId recipients \<Rightarrow> validateRecipients recipients
      | PrepareBurnUnlockParams lockId from amount \<Rightarrow> prepareBurnUnlock_checkParams lockId from amount
      | DelegateLockParams lockId delegate data unlock \<Rightarrow> delegateLock_checkParams config lockId delegate unlock)"

text \<open>Functions of later versions are refused before their parameters are read.\<close>

definition ValidateParams :: "NotoParsedConfig \<Rightarrow> notoHandler \<Rightarrow> paramsJSON \<Rightarrow> notoParams attempt" where
  "ValidateParams config h j =
     (if IsV0 config \<and> h \<in> {createTransferLockHandler, createMintLockHandler, createBurnLockHandler, prepareMintUnlockHandler, prepareBurnUnlockHandler}
      then Refused invalidParamsError
      else tryThen (valueOr invalidParamsError (unmarshalParams h j)) (\<lambda>params.
           tryThen (checkParams config params) (\<lambda>_. Done params)))"

record TransactionSpecification =
  ts_From :: string
  ts_TransactionId :: string
  ts_FunctionName :: "string option"
  ts_FunctionSignature :: string
  ts_ContractConfig :: "NotoParsedConfig option"
  ts_FunctionParams :: paramsJSON
  ts_ContractAddress :: string

text \<open>The ABI of Noto is generated by the build: \<open>knownSignature\<close> and \<open>knownName\<close> say which signatures and names it has.\<close>

definition validateTransaction ::
  "notoEnv \<Rightarrow> (string \<Rightarrow> bool) \<Rightarrow> (string \<Rightarrow> bool) \<Rightarrow> TransactionSpecification \<Rightarrow> ParsedTransaction attempt" where
  "validateTransaction env knownSignature knownName tx =
     tryThen (valueOr invalidTransactionSpecError (ts_FunctionName tx)) (\<lambda>name.
     tryThen (valueOr invalidTransactionSpecError (ts_ContractConfig tx)) (\<lambda>config.
     let exactSignatureMatch = knownSignature (ts_FunctionSignature tx) in
     tryThen (require (exactSignatureMatch \<or> knownName name) unknownFunctionError) (\<lambda>_.
     tryThen (valueOr unknownFunctionError (GetHandler name)) (\<lambda>handler.
     tryThen (ValidateParams config handler (ts_FunctionParams tx)) (\<lambda>params.
     tryThen (require exactSignatureMatch unknownFunctionError) (\<lambda>_.
     tryThen (valueOr invalidTransactionSpecError (env_NewAddress env (ts_ContractAddress tx))) (\<lambda>contractAddress.
       Done \<lparr>ptx_From = ts_From tx, ptx_TransactionId = ts_TransactionId tx, ptx_ContractAddress = contractAddress,
             ptx_DomainConfig = config, ptx_Params = params\<rparr>)))))))"

section \<open>Verifiers to resolve\<close>

record ResolveVerifierRequest =
  rv_Lookup :: string
  rv_Algorithm :: string
  rv_VerifierType :: string

fun firstOccurrences :: "'a set \<Rightarrow> 'a list \<Rightarrow> 'a list" where
  "firstOccurrences seen [] = []"
| "firstOccurrences seen (x # xs) = (if x \<in> seen then firstOccurrences seen xs else x # firstOccurrences (insert x seen) xs)"

definition ethAddressVerifiers :: "string list \<Rightarrow> ResolveVerifierRequest list" where
  "ethAddressVerifiers lookups =
     map (\<lambda>l. \<lparr>rv_Lookup = l, rv_Algorithm = ECDSA_SECP256K1, rv_VerifierType = ETH_ADDRESS\<rparr>) (firstOccurrences {} lookups)"

definition prepareMintUnlock_checkAllowed :: "ParsedTransaction \<Rightarrow> string \<Rightarrow> unit attempt" where
  "prepareMintUnlock_checkAllowed tx from =
     (let cfg = ptx_DomainConfig tx in
      if cfg_NotaryMode cfg \<noteq> NotaryModeBasic then Done ()
      else tryThen (deref (cfg_Basic cfg)) (\<lambda>b.
           tryThen (deref (bo_RestrictMint b)) (\<lambda>restrict.
           tryThen (require (\<not> (restrict \<and> from \<noteq> cfg_NotaryLookup cfg)) operationNotAllowedError) (\<lambda>_.
           tryThen (deref (bo_AllowLock b)) (\<lambda>allow. require allow operationNotAllowedError)))))"

definition VERIFIER_DOMAIN_NOTO_NULLIFIER :: string where
  "VERIFIER_DOMAIN_NOTO_NULLIFIER = ''domain:noto:nullifier:verifier''"

definition AlgoDomainNullifier :: "string \<Rightarrow> string" where
  "AlgoDomainNullifier name = ''domain:'' @ name @ '':nullifier''"

definition initTransfer :: "ParsedTransaction \<Rightarrow> string \<Rightarrow> string \<Rightarrow> ResolveVerifierRequest list attempt" where
  "initTransfer tx from to = Done (ethAddressVerifiers [cfg_NotaryLookup (ptx_DomainConfig tx), ptx_From tx, from, to])"

definition initBurn :: "ParsedTransaction \<Rightarrow> string \<Rightarrow> ResolveVerifierRequest list attempt" where
  "initBurn tx from =
     tryThen (checkBurnAllowed tx) (\<lambda>_. Done (ethAddressVerifiers [cfg_NotaryLookup (ptx_DomainConfig tx), ptx_From tx, from]))"

definition lock_Init :: "Noto \<Rightarrow> ParsedTransaction \<Rightarrow> ResolveVerifierRequest list attempt" where
  "lock_Init n tx =
     (let algoNullifier = AlgoDomainNullifier (noto_name n); cfg = ptx_DomainConfig tx; notary = cfg_NotaryLookup cfg in
      tryThen (lock_checkAllowed tx) (\<lambda>_.
        Done (ethAddressVerifiers [notary, ptx_From tx] @
              (if IsNullifierVariant cfg then
                 [\<lparr>rv_Lookup = ptx_From tx, rv_Algorithm = algoNullifier, rv_VerifierType = VERIFIER_DOMAIN_NOTO_NULLIFIER\<rparr>,
                  \<lparr>rv_Lookup = notary, rv_Algorithm = algoNullifier, rv_VerifierType = VERIFIER_DOMAIN_NOTO_NULLIFIER\<rparr>]
               else []))))"

definition unlockCommon_init :: "notoEnv \<Rightarrow> ParsedTransaction \<Rightarrow> UnlockParams \<Rightarrow> ResolveVerifierRequest list attempt" where
  "unlockCommon_init env tx p =
     tryThen (lockCommon_checkAllowed env tx (up_From p)) (\<lambda>_.
       Done (ethAddressVerifiers ([cfg_NotaryLookup (ptx_DomainConfig tx), ptx_From tx, up_From p] @ map fst (up_Recipients p))))"

text \<open>The plain errors of \<^verbatim>\<open>Init\<close>, which has no revert, are those of the checks, without their category; \<^verbatim>\<open>transferFrom\<close> and
  \<^verbatim>\<open>burnFrom\<close> are refused here in basic mode.\<close>

definition mint_Init :: "ParsedTransaction \<Rightarrow> string \<Rightarrow> ResolveVerifierRequest list attempt" where
  "mint_Init tx to =
     tryThen (mint_checkAllowed tx (ptx_From tx)) (\<lambda>_.
       Done (ethAddressVerifiers [cfg_NotaryLookup (ptx_DomainConfig tx), ptx_From tx, to]))"

definition transferFrom_Init :: "ParsedTransaction \<Rightarrow> string \<Rightarrow> string \<Rightarrow> ResolveVerifierRequest list attempt" where
  "transferFrom_Init tx from to =
     (if cfg_NotaryMode (ptx_DomainConfig tx) = NotaryModeBasic then Refused operationNotAllowedError else initTransfer tx from to)"

definition burnFrom_Init :: "ParsedTransaction \<Rightarrow> string \<Rightarrow> ResolveVerifierRequest list attempt" where
  "burnFrom_Init tx from =
     (if cfg_NotaryMode (ptx_DomainConfig tx) = NotaryModeBasic then Refused operationNotAllowedError else initBurn tx from)"

definition createTransferLock_Init :: "notoEnv \<Rightarrow> ParsedTransaction \<Rightarrow> string \<Rightarrow> UnlockRecipient list \<Rightarrow> ResolveVerifierRequest list attempt" where
  "createTransferLock_Init env tx from recipients =
     tryThen (lockCommon_checkAllowed env tx from) (\<lambda>_.
       Done (ethAddressVerifiers ([cfg_NotaryLookup (ptx_DomainConfig tx), ptx_From tx, from] @ map fst recipients)))"

definition createMintLock_Init :: "ParsedTransaction \<Rightarrow> UnlockRecipient list \<Rightarrow> ResolveVerifierRequest list attempt" where
  "createMintLock_Init tx recipients =
     tryThen (mint_checkAllowed tx (ptx_From tx)) (\<lambda>_.
       Done (ethAddressVerifiers ([cfg_NotaryLookup (ptx_DomainConfig tx), ptx_From tx] @ map fst recipients)))"

definition createBurnLock_Init :: "ParsedTransaction \<Rightarrow> string \<Rightarrow> ResolveVerifierRequest list attempt" where
  "createBurnLock_Init tx from =
     tryThen (checkBurnAllowed tx) (\<lambda>_. Done (ethAddressVerifiers [cfg_NotaryLookup (ptx_DomainConfig tx), ptx_From tx, from]))"

definition prepareMintUnlock_Init :: "ParsedTransaction \<Rightarrow> UnlockRecipient list \<Rightarrow> ResolveVerifierRequest list attempt" where
  "prepareMintUnlock_Init tx recipients =
     tryThen (prepareMintUnlock_checkAllowed tx (ptx_From tx)) (\<lambda>_.
       Done (ethAddressVerifiers ([cfg_NotaryLookup (ptx_DomainConfig tx), ptx_From tx] @ map fst recipients)))"

definition prepareBurnUnlock_Init :: "notoEnv \<Rightarrow> ParsedTransaction \<Rightarrow> string \<Rightarrow> ResolveVerifierRequest list attempt" where
  "prepareBurnUnlock_Init env tx from =
     tryThen (checkBurnAllowed tx) (\<lambda>_. tryThen (lockCommon_checkAllowed env tx from) (\<lambda>_.
       Done (ethAddressVerifiers [cfg_NotaryLookup (ptx_DomainConfig tx), ptx_From tx, from])))"

definition delegateLock_Init :: "ParsedTransaction \<Rightarrow> ResolveVerifierRequest list attempt" where
  "delegateLock_Init tx = Done (ethAddressVerifiers [cfg_NotaryLookup (ptx_DomainConfig tx), ptx_From tx])"

definition Init :: "notoEnv \<Rightarrow> Noto \<Rightarrow> ParsedTransaction \<Rightarrow> ResolveVerifierRequest list attempt" where
  "Init env n tx =
     (case ptx_Params tx of
        MintParams to _ \<Rightarrow> mint_Init tx to
      | TransferParams to _ \<Rightarrow> initTransfer tx (ptx_From tx) to
      | TransferFromParams from to _ \<Rightarrow> transferFrom_Init tx from to
      | BurnParams _ \<Rightarrow> initBurn tx (ptx_From tx)
      | BurnFromParams from _ \<Rightarrow> burnFrom_Init tx from
      | LockParams _ \<Rightarrow> lock_Init n tx
      | UnlockCall p \<Rightarrow> unlockCommon_init env tx p
      | PrepareUnlockCall p \<Rightarrow> unlockCommon_init env tx p
      | CreateTransferLockParams from recipients \<Rightarrow> createTransferLock_Init env tx from recipients
      | CreateMintLockParams recipients \<Rightarrow> createMintLock_Init tx recipients
      | CreateBurnLockParams from _ \<Rightarrow> createBurnLock_Init tx from
      | PrepareMintUnlockParams _ recipients \<Rightarrow> prepareMintUnlock_Init tx recipients
      | PrepareBurnUnlockParams _ from _ \<Rightarrow> prepareBurnUnlock_Init env tx from
      | DelegateLockParams _ _ _ _ \<Rightarrow> delegateLock_Init tx)"

lemmas initHandlers = Init_def mint_Init_def initTransfer_def transferFrom_Init_def initBurn_def burnFrom_Init_def lock_Init_def unlockCommon_init_def
  createTransferLock_Init_def createMintLock_Init_def createBurnLock_Init_def prepareMintUnlock_Init_def prepareBurnUnlock_Init_def delegateLock_Init_def

lemmas paramChecks = checkParams_def mint_checkParams_def validateTransferParams_def transferFrom_checkParams_def validateBurnParams_def burnFrom_checkParams_def
  lock_checkParams_def unlockCommon_validateParams_def validateRecipients_def createTransferLock_checkParams_def createBurnLock_checkParams_def
  prepareBurnUnlock_checkParams_def delegateLock_checkParams_def

end
