(* ===== verification/NotoEndorse.thy ===== *)
theory NotoEndorse
  imports NotoHandlers
begin

text \<open>
  Endorsement by the notary: \<^verbatim>\<open>Endorse\<close> of each handler, and \<^verbatim>\<open>EndorseTransaction\<close>. Each is the sequence of checks of the
  code, in its order; \<open>Done ()\<close> means that the notary submits the transaction.
\<close>

section \<open>Coins\<close>

definition mint_Endorse :: "notoEnv \<Rightarrow> Noto \<Rightarrow> ParsedTransaction \<Rightarrow> EndorseTransactionRequest \<Rightarrow> int option \<Rightarrow> unit attempt" where
  "mint_Endorse env n tx req amount =
     tryThen (mint_checkAllowed tx (ptx_From tx)) (\<lambda>_.
     tryThen (parseCoinList n (er_Inputs req)) (\<lambda>inputs.
     tryThen (parseCoinList n (er_Outputs req)) (\<lambda>outputs.
     tryThen (validateMintAmounts amount inputs outputs) (\<lambda>_.
     tryThen (encodeTransferUnmasked env (ptx_ContractAddress tx) [] (pcs_coins outputs)) (\<lambda>encodedTransfer.
       validateSignature env ''sender'' (er_Signatures req) encodedTransfer)))))"

definition endorseTransfer :: "notoEnv \<Rightarrow> Noto \<Rightarrow> ParsedTransaction \<Rightarrow> EndorseTransactionRequest \<Rightarrow> string \<Rightarrow> unit attempt" where
  "endorseTransfer env n tx req from =
     tryThen (parseCoinList n (er_Inputs req)) (\<lambda>inputs.
     tryThen (parseCoinList n (er_Outputs req)) (\<lambda>outputs.
     tryThen (validateTransferAmounts inputs outputs) (\<lambda>_.
     tryThen (validateOwners env from (er_ResolvedVerifiers req) (pcs_coins inputs) (pcs_states inputs)) (\<lambda>_.
     tryThen (encodeTransferUnmasked env (ptx_ContractAddress tx) (pcs_coins inputs) (pcs_coins outputs)) (\<lambda>encodedTransfer.
       validateSignature env ''sender'' (er_Signatures req) encodedTransfer)))))"

definition endorseBurn ::
  "notoEnv \<Rightarrow> Noto \<Rightarrow> ParsedTransaction \<Rightarrow> EndorseTransactionRequest \<Rightarrow> string \<Rightarrow> int option \<Rightarrow> unit attempt" where
  "endorseBurn env n tx req from amount =
     tryThen (checkBurnAllowed tx) (\<lambda>_.
     tryThen (parseCoinList n (er_Inputs req)) (\<lambda>inputs.
     tryThen (parseCoinList n (er_Outputs req)) (\<lambda>outputs.
     tryThen (validateBurnAmounts amount inputs outputs) (\<lambda>_.
     tryThen (validateOwners env from (er_ResolvedVerifiers req) (pcs_coins inputs) (pcs_states inputs)) (\<lambda>_.
     tryThen (encodeTransferUnmasked env (ptx_ContractAddress tx) (pcs_coins inputs) (pcs_coins outputs)) (\<lambda>encodedTransfer.
       validateSignature env ''sender'' (er_Signatures req) encodedTransfer))))))"

section \<open>Locks\<close>

definition lock_transition :: "notoEnv \<Rightarrow> Noto \<Rightarrow> ParsedTransaction \<Rightarrow> EndorseTransactionRequest \<Rightarrow> identityPair \<Rightarrow> identityPair \<Rightarrow> unit attempt" where
  "lock_transition env n tx req notaryID senderID =
     (if IsV0 (ptx_DomainConfig tx) then Done ()
      else tryThen (computeLockIDForLockTX env tx notaryID) (\<lambda>lockID.
           tryThen (decodeV1LockTransitionWithOutputs n LOCK_CREATE (Some senderID) (Some lockID) (er_Inputs req) (er_Outputs req) (er_Info req)) (\<lambda>_.
             Done ())))"

definition lock_Endorse :: "notoEnv \<Rightarrow> Noto \<Rightarrow> ParsedTransaction \<Rightarrow> EndorseTransactionRequest \<Rightarrow> unit attempt" where
  "lock_Endorse env n tx req =
     tryThen (lock_checkAllowed tx) (\<lambda>_.
     tryThen (findEthAddressVerifier env ''notary'' (cfg_NotaryLookup (ptx_DomainConfig tx)) (er_ResolvedVerifiers req)) (\<lambda>notaryID.
     tryThen (findEthAddressVerifier env ''sender'' (ptx_From tx) (er_ResolvedVerifiers req)) (\<lambda>senderID.
     tryThen (parseCoinList n (er_Inputs req)) (\<lambda>inputs.
     tryThen (parseCoinList n (er_Outputs req)) (\<lambda>outputs.
     tryThen (lock_transition env n tx req notaryID senderID) (\<lambda>_.
     tryThen (validateLockAmounts (ptx_DomainConfig tx) inputs outputs) (\<lambda>_.
     tryThen (validateOwners env (ptx_From tx) (er_ResolvedVerifiers req) (pcs_coins inputs) (pcs_states inputs)) (\<lambda>_.
     tryThen (validateLockOwners env (ptx_From tx) (er_ResolvedVerifiers req) (pcs_lockedCoins outputs) (pcs_lockedStates outputs)) (\<lambda>_.
     tryThen (encodeLock env (ptx_ContractAddress tx) (pcs_coins inputs) (pcs_coins outputs) (pcs_lockedCoins outputs)) (\<lambda>encodedLock.
       validateSignature env ''sender'' (er_Signatures req) encodedLock))))))))))"

definition cancelChecks ::
  "notoEnv \<Rightarrow> ParsedTransaction \<Rightarrow> UnlockParams \<Rightarrow> EndorseTransactionRequest \<Rightarrow> parsedCoins \<Rightarrow> parsedCoins option \<Rightarrow> unit attempt" where
  "cancelChecks env tx params req inputs cancelOutputs =
     (case cancelOutputs of
        None \<Rightarrow> Done ()
      | Some c \<Rightarrow>
          tryThen (validateUnlockAmounts (ptx_DomainConfig tx) inputs c) (\<lambda>_.
          tryThen (validateLockOwners env (up_From params) (er_ResolvedVerifiers req) (pcs_lockedCoins c) (pcs_lockedStates c)) (\<lambda>_.
            validateOwners env (up_From params) (er_ResolvedVerifiers req) (pcs_coins c) (pcs_states c))))"

definition unlockCommon_endorse ::
  "notoEnv \<Rightarrow> ParsedTransaction \<Rightarrow> UnlockParams \<Rightarrow> EndorseTransactionRequest \<Rightarrow> parsedCoins \<Rightarrow> parsedCoins \<Rightarrow> parsedCoins option \<Rightarrow> unit attempt" where
  "unlockCommon_endorse env tx params req inputs spendOutputs cancelOutputs =
     tryThen (lockCommon_checkAllowed env tx (up_From params)) (\<lambda>_.
     tryThen (validateUnlockAmounts (ptx_DomainConfig tx) inputs spendOutputs) (\<lambda>_.
     tryThen (validateLockOwners env (up_From params) (er_ResolvedVerifiers req) (pcs_lockedCoins inputs) (pcs_lockedStates inputs)) (\<lambda>_.
     tryThen (validateLockOwners env (up_From params) (er_ResolvedVerifiers req) (pcs_lockedCoins spendOutputs) (pcs_lockedStates spendOutputs)) (\<lambda>_.
     tryThen (cancelChecks env tx params req inputs cancelOutputs) (\<lambda>_.
     tryThen (encodeUnlock env (ptx_ContractAddress tx) (pcs_lockedCoins inputs) (pcs_lockedCoins spendOutputs) (pcs_coins spendOutputs)) (\<lambda>encodedUnlock.
       validateSignature env ''sender'' (er_Signatures req) encodedUnlock))))))"

definition unlock_Endorse :: "notoEnv \<Rightarrow> Noto \<Rightarrow> ParsedTransaction \<Rightarrow> EndorseTransactionRequest \<Rightarrow> UnlockParams \<Rightarrow> unit attempt" where
  "unlock_Endorse env n tx req params =
     tryThen (parseCoinList n (er_Inputs req)) (\<lambda>inputs.
     tryThen (parseCoinList n (er_Outputs req)) (\<lambda>outputs.
     tryThen (if IsV0 (ptx_DomainConfig tx) then Done ()
              else tryThen (findEthAddressVerifier env ''sender'' (ptx_From tx) (er_ResolvedVerifiers req)) (\<lambda>senderID.
                   tryThen (validateV1LockTransition n LOCK_SPEND (Some senderID) (Some (up_LockID params)) (er_Inputs req) (er_Outputs req)) (\<lambda>_.
                     Done ()))) (\<lambda>_.
       unlockCommon_endorse env tx params req inputs outputs None)))"

definition prepareUnlock_endorse_V0 :: "notoEnv \<Rightarrow> Noto \<Rightarrow> ParsedTransaction \<Rightarrow> EndorseTransactionRequest \<Rightarrow> UnlockParams \<Rightarrow> unit attempt" where
  "prepareUnlock_endorse_V0 env n tx req params =
     (let allOutputs = filterSchema (er_Info req) [noto_coinSchema n, noto_lockedCoinSchema n] in
      tryThen (parseCoinList n (er_Reads req)) (\<lambda>inputs.
      tryThen (parseCoinList n allOutputs) (\<lambda>outputs.
        unlockCommon_endorse env tx params req inputs outputs None)))"

definition prepareUnlock_Endorse :: "notoEnv \<Rightarrow> Noto \<Rightarrow> ParsedTransaction \<Rightarrow> EndorseTransactionRequest \<Rightarrow> UnlockParams \<Rightarrow> unit attempt" where
  "prepareUnlock_Endorse env n tx req params =
     (if IsV0 (ptx_DomainConfig tx) then prepareUnlock_endorse_V0 env n tx req params
      else
        tryThen (findEthAddressVerifier env ''sender'' (ptx_From tx) (er_ResolvedVerifiers req)) (\<lambda>senderID.
        tryThen (decodeV1LockTransitionWithOutputs n LOCK_UPDATE (Some senderID) (Some (up_LockID params)) (er_Inputs req) (er_Outputs req) (er_Info req))
          (\<lambda>(_, spendOutputs, cancelOutputs).
        tryThen (parseCoinList n (er_Reads req)) (\<lambda>parsedInputs.
        tryThen (parseCoinList n spendOutputs) (\<lambda>parsedSpendOutputs.
        tryThen (parseCoinList n cancelOutputs) (\<lambda>parsedCancelOutputs.
          unlockCommon_endorse env tx params req parsedInputs parsedSpendOutputs (Some parsedCancelOutputs)))))))"

text \<open>The four lists of coins of a proposal that creates a lock.\<close>

definition parseLockProposal ::
  "Noto \<Rightarrow> EndorseTransactionRequest \<Rightarrow> notoState list \<Rightarrow> notoState list \<Rightarrow> (parsedCoins \<times> parsedCoins \<times> parsedCoins \<times> parsedCoins) attempt" where
  "parseLockProposal n req spendOutputs cancelOutputs =
     tryThen (parseCoinList n (er_Inputs req)) (\<lambda>inputs.
     tryThen (parseCoinList n (er_Outputs req)) (\<lambda>outputs.
     tryThen (parseCoinList n spendOutputs) (\<lambda>parsedSpendOutputs.
     tryThen (parseCoinList n cancelOutputs) (\<lambda>parsedCancelOutputs.
       Done (inputs, outputs, parsedSpendOutputs, parsedCancelOutputs)))))"

definition createTransferLock_Endorse :: "notoEnv \<Rightarrow> Noto \<Rightarrow> ParsedTransaction \<Rightarrow> EndorseTransactionRequest \<Rightarrow> string \<Rightarrow> unit attempt" where
  "createTransferLock_Endorse env n tx req from =
     tryThen (lockCommon_checkAllowed env tx from) (\<lambda>_.
     tryThen (findEthAddressVerifier env ''from'' from (er_ResolvedVerifiers req)) (\<lambda>fromID.
     tryThen (decodeV1LockTransitionWithOutputs n LOCK_CREATE (Some fromID) None (er_Inputs req) (er_Outputs req) (er_Info req))
       (\<lambda>(_, spendOutputs, cancelOutputs).
     tryThen (parseLockProposal n req spendOutputs cancelOutputs) (\<lambda>(inputs, outputs, parsedSpendOutputs, parsedCancelOutputs).
     tryThen (require (pcs_total inputs = pcs_lockedTotal outputs + pcs_total outputs) invalidAmountsError) (\<lambda>_.
     tryThen (require (pcs_lockedTotal outputs = pcs_total parsedSpendOutputs) invalidAmountsError) (\<lambda>_.
     tryThen (require (pcs_lockedTotal outputs = pcs_total parsedCancelOutputs) invalidAmountsError) (\<lambda>_.
     tryThen (validateOwners env (id_identifier fromID) (er_ResolvedVerifiers req) (pcs_coins inputs) (pcs_states inputs)) (\<lambda>_.
     tryThen (encodeUnlock env (ptx_ContractAddress tx) (pcs_lockedCoins outputs) [] (pcs_coins parsedSpendOutputs)) (\<lambda>encodedTransfer.
       validateSignature env ''sender'' (er_Signatures req) encodedTransfer)))))))))"

definition recipientsTotal :: "UnlockRecipient list \<Rightarrow> int attempt" where
  "recipientsTotal recipients =
     (if \<exists>entry \<in> set recipients. snd entry = None then Panics else Done (sum_list (map (\<lambda>entry. the (snd entry)) recipients)))"

definition createMintLock_Endorse :: "notoEnv \<Rightarrow> Noto \<Rightarrow> ParsedTransaction \<Rightarrow> EndorseTransactionRequest \<Rightarrow> UnlockRecipient list \<Rightarrow> unit attempt" where
  "createMintLock_Endorse env n tx req recipients =
     tryThen (mint_checkAllowed tx (ptx_From tx)) (\<lambda>_.
     tryThen (decodeV1LockTransitionWithOutputs n LOCK_CREATE None None (er_Inputs req) (er_Outputs req) (er_Info req)) (\<lambda>(_, spendOutputs, cancelOutputs).
     tryThen (parseLockProposal n req spendOutputs cancelOutputs) (\<lambda>(inputs, outputs, parsedSpendOutputs, parsedCancelOutputs).
     tryThen (recipientsTotal recipients) (\<lambda>requiredTotal.
     tryThen (require (\<not> (pcs_coins inputs \<noteq> [] \<or> pcs_lockedCoins outputs \<noteq> [] \<or> pcs_coins outputs \<noteq> [] \<or> pcs_coins parsedCancelOutputs \<noteq> []))
                invalidAmountsError) (\<lambda>_.
     tryThen (require (requiredTotal = pcs_total parsedSpendOutputs) invalidAmountsError) (\<lambda>_.
     tryThen (encodeUnlock env (ptx_ContractAddress tx) [] [] (pcs_coins parsedSpendOutputs)) (\<lambda>encodedTransfer.
       validateSignature env ''sender'' (er_Signatures req) encodedTransfer)))))))"

definition createBurnLock_Endorse :: "notoEnv \<Rightarrow> Noto \<Rightarrow> ParsedTransaction \<Rightarrow> EndorseTransactionRequest \<Rightarrow> unit attempt" where
  "createBurnLock_Endorse env n tx req =
     tryThen (checkBurnAllowed tx) (\<lambda>_.
     tryThen (findEthAddressVerifier env ''sender'' (ptx_From tx) (er_ResolvedVerifiers req)) (\<lambda>senderID.
     tryThen (decodeV1LockTransitionWithOutputs n LOCK_CREATE (Some senderID) None (er_Inputs req) (er_Outputs req) (er_Info req))
       (\<lambda>(_, spendOutputs, cancelOutputs).
     tryThen (parseLockProposal n req spendOutputs cancelOutputs) (\<lambda>(inputs, outputs, parsedSpendOutputs, parsedCancelOutputs).
     tryThen (require (pcs_total inputs = pcs_lockedTotal outputs + pcs_total outputs) invalidAmountsError) (\<lambda>_.
     tryThen (require (pcs_total parsedSpendOutputs = 0) invalidAmountsError) (\<lambda>_.
     tryThen (require (pcs_lockedTotal outputs = pcs_total parsedCancelOutputs) invalidAmountsError) (\<lambda>_.
     tryThen (validateOwners env (id_identifier senderID) (er_ResolvedVerifiers req) (pcs_coins inputs) (pcs_states inputs)) (\<lambda>_.
     tryThen (encodeUnlock env (ptx_ContractAddress tx) (pcs_lockedCoins outputs) [] (pcs_coins parsedSpendOutputs)) (\<lambda>encodedTransfer.
       validateSignature env ''sender'' (er_Signatures req) encodedTransfer)))))))))"

definition prepareMintUnlock_Endorse :: "notoEnv \<Rightarrow> Noto \<Rightarrow> ParsedTransaction \<Rightarrow> EndorseTransactionRequest \<Rightarrow> Bytes32 \<Rightarrow> unit attempt" where
  "prepareMintUnlock_Endorse env n tx req lockID =
     tryThen (findEthAddressVerifier env ''sender'' (ptx_From tx) (er_ResolvedVerifiers req)) (\<lambda>senderID.
     tryThen (prepareMintUnlock_checkAllowed tx (ptx_From tx)) (\<lambda>_.
     tryThen (decodeV1LockTransitionWithOutputs n LOCK_UPDATE (Some senderID) (Some lockID) (er_Inputs req) (er_Outputs req) (er_Info req))
       (\<lambda>(_, spendOutputs, _).
     tryThen (parseCoinList n spendOutputs) (\<lambda>parsedSpendOutputs.
     tryThen (encodeUnlock env (ptx_ContractAddress tx) [] [] (pcs_coins parsedSpendOutputs)) (\<lambda>encodedUnlock.
       validateSignature env ''sender'' (er_Signatures req) encodedUnlock)))))"

definition prepareBurnUnlock_Endorse ::
  "notoEnv \<Rightarrow> Noto \<Rightarrow> ParsedTransaction \<Rightarrow> EndorseTransactionRequest \<Rightarrow> Bytes32 \<Rightarrow> string \<Rightarrow> int option \<Rightarrow> unit attempt" where
  "prepareBurnUnlock_Endorse env n tx req lockID from amount =
     tryThen (checkBurnAllowed tx) (\<lambda>_.
     tryThen (lockCommon_checkAllowed env tx from) (\<lambda>_.
     tryThen (parseCoinList n (er_Reads req)) (\<lambda>inputs.
     tryThen (deref amount) (\<lambda>a.
     tryThen (require (pcs_lockedTotal inputs = a) invalidAmountsError) (\<lambda>_.
     tryThen (if IsV0 (ptx_DomainConfig tx)
              then validateLockOwners env from (er_ResolvedVerifiers req) (pcs_lockedCoins inputs) (pcs_lockedStates inputs)
              else tryThen (findEthAddressVerifier env ''sender'' (ptx_From tx) (er_ResolvedVerifiers req)) (\<lambda>senderID.
                   tryThen (decodeV1LockTransitionWithOutputs n LOCK_UPDATE (Some senderID) (Some lockID) (er_Inputs req) (er_Outputs req) (er_Info req)) (\<lambda>_.
                     Done ()))) (\<lambda>_.
     tryThen (encodeUnlock env (ptx_ContractAddress tx) (pcs_lockedCoins inputs) [] []) (\<lambda>encodedUnlock.
       validateSignature env ''sender'' (er_Signatures req) encodedUnlock)))))))"

definition delegateLock_Endorse ::
  "notoEnv \<Rightarrow> Noto \<Rightarrow> ParsedTransaction \<Rightarrow> EndorseTransactionRequest \<Rightarrow> Bytes32 \<Rightarrow> address option \<Rightarrow> HexBytes \<Rightarrow> unit attempt" where
  "delegateLock_Endorse env n tx req lockID delegate data =
     tryThen (parseCoinList n (er_Reads req)) (\<lambda>inputs.
     tryThen (if IsV0 (ptx_DomainConfig tx) then require (pcs_lockedCoins inputs \<noteq> []) invalidStateListError
              else tryThen (findEthAddressVerifier env ''sender'' (ptx_From tx) (er_ResolvedVerifiers req)) (\<lambda>senderID.
                   tryThen (validateV1LockTransition n LOCK_UPDATE (Some senderID) (Some lockID) (er_Inputs req) (er_Outputs req)) (\<lambda>_.
                     Done ()))) (\<lambda>_.
     tryThen (validateLockOwners env (ptx_From tx) (er_ResolvedVerifiers req) (pcs_lockedCoins inputs) (pcs_lockedStates inputs)) (\<lambda>_.
     tryThen (encodeDelegateLock env (ptx_ContractAddress tx) lockID delegate data) (\<lambda>encodedApproval.
       validateSignature env ''sender'' (er_Signatures req) encodedApproval))))"

section \<open>The entry point\<close>

definition Endorse :: "notoEnv \<Rightarrow> Noto \<Rightarrow> ParsedTransaction \<Rightarrow> EndorseTransactionRequest \<Rightarrow> unit attempt" where
  "Endorse env n tx req =
     (case ptx_Params tx of
        MintParams _ amount \<Rightarrow> mint_Endorse env n tx req amount
      | TransferParams _ _ \<Rightarrow> endorseTransfer env n tx req (ptx_From tx)
      | TransferFromParams from _ _ \<Rightarrow> endorseTransfer env n tx req from
      | BurnParams amount \<Rightarrow> endorseBurn env n tx req (ptx_From tx) amount
      | BurnFromParams from amount \<Rightarrow> endorseBurn env n tx req from amount
      | LockParams _ \<Rightarrow> lock_Endorse env n tx req
      | UnlockCall params \<Rightarrow> unlock_Endorse env n tx req params
      | PrepareUnlockCall params \<Rightarrow> prepareUnlock_Endorse env n tx req params
      | CreateTransferLockParams from _ \<Rightarrow> createTransferLock_Endorse env n tx req from
      | CreateMintLockParams recipients \<Rightarrow> createMintLock_Endorse env n tx req recipients
      | CreateBurnLockParams _ _ \<Rightarrow> createBurnLock_Endorse env n tx req
      | PrepareMintUnlockParams lockID _ \<Rightarrow> prepareMintUnlock_Endorse env n tx req lockID
      | PrepareBurnUnlockParams lockID from amount \<Rightarrow> prepareBurnUnlock_Endorse env n tx req lockID from amount
      | DelegateLockParams lockID delegate data _ \<Rightarrow> delegateLock_Endorse env n tx req lockID delegate data)"

datatype endorseResponse = ENDORSER_SUBMIT | ENDORSE_REVERT notoError | ENDORSE_ERROR notoError | ENDORSE_PANIC

definition endorseRevertOrError :: "notoError \<Rightarrow> endorseResponse" where
  "endorseRevertOrError e = (if IsEndorseRevert e = Some True then ENDORSE_REVERT e else ENDORSE_ERROR e)"

definition endorseResponseOf :: "unit attempt \<Rightarrow> endorseResponse" where
  "endorseResponseOf r = (case r of Done _ \<Rightarrow> ENDORSER_SUBMIT | Refused e \<Rightarrow> endorseRevertOrError e | Panics \<Rightarrow> ENDORSE_PANIC)"

definition endorseParsed :: "notoEnv \<Rightarrow> Noto \<Rightarrow> ParsedTransaction \<Rightarrow> EndorseTransactionRequest \<Rightarrow> unit attempt" where
  "endorseParsed env n tx req =
     tryThen (if IsNullifierVariant (ptx_DomainConfig tx)
              then validateDistinctNullifiers env n (ptx_ContractAddress tx) [er_Inputs req, er_Outputs req] else Done ()) (\<lambda>_.
       Endorse env n tx req)"

definition EndorseTransaction ::
  "notoEnv \<Rightarrow> (string \<Rightarrow> bool) \<Rightarrow> (string \<Rightarrow> bool) \<Rightarrow> Noto \<Rightarrow> TransactionSpecification \<Rightarrow> EndorseTransactionRequest \<Rightarrow> endorseResponse" where
  "EndorseTransaction env knownSignature knownName n spec req =
     endorseResponseOf (tryThen (validateTransaction env knownSignature knownName spec) (\<lambda>tx. endorseParsed env n tx req))"

end
