(* ===== verification/NotoLedger.thy ===== *)
theory NotoLedger
  imports NotoEndorse
begin

text \<open>
  From an endorsed proposal to the base ledger: how the states of a proposal are named in the call of the contract
  (\<^verbatim>\<open>endorsableStateIDs\<close>), and the part of the contract \<^verbatim>\<open>Noto.sol\<close> that a mint, transfer or burn runs. A sequence of proposals
  is run by \<open>ledgerRun\<close>: a proposal that is not endorsed, or that the contract reverts, changes nothing.
\<close>

section \<open>Names on the base ledger\<close>

text \<open>\<open>None\<close>: the nullifier cannot be computed.\<close>

definition endorsableStateID :: "notoEnv \<Rightarrow> Noto \<Rightarrow> address \<Rightarrow> notoState \<Rightarrow> bool \<Rightarrow> string option" where
  "endorsableStateID env n contract st useNullifier =
     (if \<not> useNullifier then Some (st_Id st)
      else case stateNullifier env n contract st of
             None \<Rightarrow> None
           | Some None \<Rightarrow> Some (st_Id st)
           | Some (Some nullifier) \<Rightarrow> Some nullifier)"

text \<open>An error is logged and the list is empty.\<close>

definition endorsableStateIDs :: "notoEnv \<Rightarrow> Noto \<Rightarrow> address \<Rightarrow> notoState list \<Rightarrow> bool \<Rightarrow> string list" where
  "endorsableStateIDs env n contract states useNullifier =
     (let ids = map (\<lambda>st. endorsableStateID env n contract st useNullifier) states
      in if None \<in> set ids then [] else map the ids)"

text \<open>The inputs and outputs of the call of the contract that a mint, transfer or burn makes; \<open>None\<close> for the other functions, and
  for a variant that is not known.\<close>

definition baseLedgerInvoke :: "notoEnv \<Rightarrow> Noto \<Rightarrow> ParsedTransaction \<Rightarrow> notoState list \<Rightarrow> notoState list \<Rightarrow> (string list \<times> string list) option" where
  "baseLedgerInvoke env n tx inputStates outputStates =
     (let cfg = ptx_DomainConfig tx; contract = ptx_ContractAddress tx; useNullifiers = IsNullifierVariant cfg \<and> \<not> IsV0 cfg;
          transfer = Some (endorsableStateIDs env n contract inputStates useNullifiers, endorsableStateIDs env n contract outputStates False) in
      if \<not> (IsV0 cfg \<or> IsV1 cfg \<or> IsV2 cfg) then None
      else case ptx_Params tx of
             MintParams _ _ \<Rightarrow> Some ([], endorsableStateIDs env n contract outputStates False)
           | TransferParams _ _ \<Rightarrow> transfer
           | TransferFromParams _ _ _ \<Rightarrow> transfer
           | BurnParams _ \<Rightarrow> transfer
           | BurnFromParams _ _ \<Rightarrow> transfer
           | _ \<Rightarrow> None)"

section \<open>The contract\<close>

record notoLedger =
  led_unspent :: "string set"
  led_locked :: "string \<rightharpoonup> Bytes32"

fun processInputs :: "string list \<Rightarrow> notoLedger \<Rightarrow> notoLedger option" where
  "processInputs [] l = Some l"
| "processInputs (i # is) l = (if i \<in> led_unspent l then processInputs is (l\<lparr>led_unspent := led_unspent l - {i}\<rparr>) else None)"

fun processOutputs :: "string list \<Rightarrow> notoLedger \<Rightarrow> notoLedger option" where
  "processOutputs [] l = Some l"
| "processOutputs (i # is) l =
     (if i \<in> led_unspent l \<or> led_locked l i \<noteq> None then None else processOutputs is (l\<lparr>led_unspent := insert i (led_unspent l)\<rparr>))"

definition contract_transfer :: "string list \<Rightarrow> string list \<Rightarrow> notoLedger \<Rightarrow> notoLedger option" where
  "contract_transfer inputs outputs l = (case processInputs inputs l of None \<Rightarrow> None | Some l1 \<Rightarrow> processOutputs outputs l1)"

section \<open>Sequences of proposals\<close>

definition issued :: "notoParams \<Rightarrow> int" where
  "issued params =
     (case params of
        MintParams _ (Some a) \<Rightarrow> a
      | BurnParams (Some a) \<Rightarrow> - a
      | BurnFromParams _ (Some a) \<Rightarrow> - a
      | _ \<Rightarrow> 0)"

definition ledgerStep :: "notoEnv \<Rightarrow> Noto \<Rightarrow> ParsedTransaction \<times> EndorseTransactionRequest \<Rightarrow> notoLedger \<times> int \<Rightarrow> notoLedger \<times> int" where
  "ledgerStep env n proposal s =
     (case (proposal, s) of ((tx, req), (l, supply)) \<Rightarrow>
        if endorseParsed env n tx req = Done () then
          (case baseLedgerInvoke env n tx (er_Inputs req) (er_Outputs req) of
             None \<Rightarrow> s
           | Some (inputs, outputs) \<Rightarrow>
               (case contract_transfer inputs outputs l of None \<Rightarrow> s | Some l1 \<Rightarrow> (l1, supply + issued (ptx_Params tx))))
        else s)"

definition emptyLedger :: notoLedger where
  "emptyLedger = \<lparr>led_unspent = {}, led_locked = Map.empty\<rparr>"

definition ledgerRun :: "notoEnv \<Rightarrow> Noto \<Rightarrow> (ParsedTransaction \<times> EndorseTransactionRequest) list \<Rightarrow> notoLedger \<times> int" where
  "ledgerRun env n proposals = fold (ledgerStep env n) proposals (emptyLedger, 0)"

section \<open>Values of states\<close>

definition coinValue :: "Noto \<Rightarrow> notoState \<Rightarrow> int" where
  "coinValue n st =
     (if st_SchemaId st = noto_coinSchema n then
        (case unmarshalCoin (st_Data st) of Some c \<Rightarrow> (case coin_Amount c of Some a \<Rightarrow> a | None \<Rightarrow> 0) | None \<Rightarrow> 0)
      else 0)"

definition lockedValue :: "Noto \<Rightarrow> notoState \<Rightarrow> int" where
  "lockedValue n st =
     (if st_SchemaId st \<noteq> noto_coinSchema n \<and> st_SchemaId st = noto_lockedCoinSchema n then
        (case unmarshalLockedCoin (st_Data st) of Some c \<Rightarrow> (case lc_Amount c of Some a \<Rightarrow> a | None \<Rightarrow> 0) | None \<Rightarrow> 0)
      else 0)"

abbreviation coins_value :: "Noto \<Rightarrow> notoState list \<Rightarrow> int" where
  "coins_value n sts \<equiv> sum_list (map (coinValue n) sts)"

abbreviation locked_value :: "Noto \<Rightarrow> notoState list \<Rightarrow> int" where
  "locked_value n sts \<equiv> sum_list (map (lockedValue n) sts)"

text \<open>The unlocked coins of a list of states, with the state of each.\<close>

definition coinStates :: "Noto \<Rightarrow> notoState list \<Rightarrow> notoState list" where
  "coinStates n sts = filter (\<lambda>st. st_SchemaId st = noto_coinSchema n) sts"

definition lockedCoinStates :: "Noto \<Rightarrow> notoState list \<Rightarrow> notoState list" where
  "lockedCoinStates n sts = filter (\<lambda>st. st_SchemaId st \<noteq> noto_coinSchema n \<and> st_SchemaId st = noto_lockedCoinSchema n) sts"

text \<open>All unlocked coins of the list belong to the address a name was resolved to.\<close>

definition ownedBy :: "notoEnv \<Rightarrow> Noto \<Rightarrow> notoVerifier list \<Rightarrow> string \<Rightarrow> notoState list \<Rightarrow> bool" where
  "ownedBy env n vs party sts \<longleftrightarrow>
     (\<exists>v a. FindVerifier party ECDSA_SECP256K1 ETH_ADDRESS vs = Some v \<and> env_NewAddress env (nv_Verifier v) = Some a \<and>
        (\<forall>st \<in> set (coinStates n sts). map_option coin_Owner (unmarshalCoin (st_Data st)) = Some (Some a)))"

text \<open>The identifier of a state determines it (it is the hash of its data): \<open>book\<close> gives the state of each identifier.\<close>

definition booked :: "(string \<Rightarrow> notoState) \<Rightarrow> ParsedTransaction \<times> EndorseTransactionRequest \<Rightarrow> bool" where
  "booked book proposal \<longleftrightarrow> (\<forall>st \<in> set (er_Inputs (snd proposal)) \<union> set (er_Outputs (snd proposal)). book (st_Id st) = st)"

definition nullifierOf :: "notoEnv \<Rightarrow> Noto \<Rightarrow> address \<Rightarrow> notoState \<Rightarrow> string" where
  "nullifierOf env n contract st = the (the (stateNullifier env n contract st))"

text \<open>What an endorsed proposal of each function keeps equal.\<close>

definition balanced :: "Noto \<Rightarrow> notoParams \<Rightarrow> EndorseTransactionRequest \<Rightarrow> bool" where
  "balanced n params req =
     (let ins = coins_value n (er_Inputs req); outs = coins_value n (er_Outputs req);
          lockedIns = locked_value n (er_Inputs req); lockedOuts = locked_value n (er_Outputs req);
          burns = (\<lambda>amount. amount = Some (ins - outs) \<and> ins > outs) in
      case params of
        MintParams _ amount \<Rightarrow> coinStates n (er_Inputs req) = [] \<and> amount = Some outs \<and> outs > 0
      | TransferParams _ _ \<Rightarrow> ins = outs
      | TransferFromParams _ _ _ \<Rightarrow> ins = outs
      | BurnParams amount \<Rightarrow> burns amount
      | BurnFromParams _ amount \<Rightarrow> burns amount
      | LockParams _ \<Rightarrow> ins = outs + lockedOuts
      | UnlockCall _ \<Rightarrow> lockedIns = lockedOuts + outs
      | CreateTransferLockParams _ _ \<Rightarrow> ins = outs + lockedOuts
      | CreateBurnLockParams _ _ \<Rightarrow> ins = outs + lockedOuts
      | CreateMintLockParams _ \<Rightarrow> coinStates n (er_Inputs req) = [] \<and> coinStates n (er_Outputs req) = [] \<and> lockedCoinStates n (er_Outputs req) = []
      | PrepareBurnUnlockParams _ _ amount \<Rightarrow> amount = Some (locked_value n (er_Reads req)) \<and> locked_value n (er_Reads req) > 0
      | _ \<Rightarrow> True)"

text \<open>The party whose coins a proposal spends.\<close>

definition spender :: "ParsedTransaction \<Rightarrow> string option" where
  "spender tx =
     (case ptx_Params tx of
        TransferParams _ _ \<Rightarrow> Some (ptx_From tx)
      | TransferFromParams owner _ _ \<Rightarrow> Some owner
      | BurnParams _ \<Rightarrow> Some (ptx_From tx)
      | BurnFromParams owner _ \<Rightarrow> Some owner
      | LockParams _ \<Rightarrow> Some (ptx_From tx)
      | CreateTransferLockParams owner _ \<Rightarrow> Some owner
      | CreateBurnLockParams _ _ \<Rightarrow> Some (ptx_From tx)
      | _ \<Rightarrow> None)"

text \<open>The lock info a proposal puts in place, and the coins its two outcomes create.\<close>

definition newLockInfo :: "Noto \<Rightarrow> EndorseTransactionRequest \<Rightarrow> NotoLockInfo_V1 option" where
  "newLockInfo n req = (case filterSchema (er_Outputs req) [noto_lockInfoSchemaV1 n] of [st] \<Rightarrow> unmarshalLockV1 (st_Data st) | _ \<Rightarrow> None)"

definition spendCoins :: "Noto \<Rightarrow> EndorseTransactionRequest \<Rightarrow> NotoLockInfo_V1 \<Rightarrow> notoState list" where
  "spendCoins n req l = outputsNamed n (li_SpendOutputs l) (er_Info req)"

definition cancelCoins :: "Noto \<Rightarrow> EndorseTransactionRequest \<Rightarrow> NotoLockInfo_V1 \<Rightarrow> notoState list" where
  "cancelCoins n req l = outputsNamed n (li_CancelOutputs l) (er_Info req)"

end
