(* ===== verification/NotoSupply.thy ===== *)
theory NotoSupply
  imports NotoLedger
begin

text \<open>
  What an endorsed proposal does to the supply of the token. The value of a list of states is read off the states
  themselves; the sums the endorser computes are shown to be these values, and from that each kind of endorsed proposal
  balances. The contract on the base ledger (\<^verbatim>\<open>Noto.sol\<close>) removes the inputs and adds the outputs: with it, the value of all
  unspent coins is what was minted less what was burned, after every sequence of proposals.
\<close>

section \<open>What parsing computes\<close>

lemma parseCoinLoop_total: "parseCoinLoop n used sts acc = Done p \<Longrightarrow> pcs_total p = pcs_total acc + coins_value n sts"
  by (induction n used sts acc rule: parseCoinLoop.induct) (auto simp: coinValue_def split: if_splits)

lemma parseCoinLoop_lockedTotal: "parseCoinLoop n used sts acc = Done p \<Longrightarrow> pcs_lockedTotal p = pcs_lockedTotal acc + locked_value n sts"
  by (induction n used sts acc rule: parseCoinLoop.induct) (auto simp: lockedValue_def split: if_splits)

lemma parseCoinLoop_step:
  "parseCoinLoop n used (st # sts) acc = Done p \<Longrightarrow>
     st_Id st \<notin> used \<and> (\<exists>acc1. parseCoinLoop n (insert (st_Id st) used) sts acc1 = Done p)"
  by (auto split: if_splits)

lemma parseCoinLoop_distinct:
  "parseCoinLoop n used sts acc = Done p \<Longrightarrow> distinct (map st_Id sts) \<and> (\<forall>st \<in> set sts. st_Id st \<notin> used)"
proof (induction sts arbitrary: used acc)
  case (Cons st sts)
  from parseCoinLoop_step [OF Cons.prems] obtain acc1 where
    "st_Id st \<notin> used" and *: "parseCoinLoop n (insert (st_Id st) used) sts acc1 = Done p" by blast
  with Cons.IH [OF *] show ?case by auto
qed simp

lemma parseCoinLoop_coins:
  "parseCoinLoop n used sts acc = Done p \<Longrightarrow>
     pcs_coins p = pcs_coins acc @ map (\<lambda>st. the (unmarshalCoin (st_Data st))) (coinStates n sts) \<and>
     pcs_states p = pcs_states acc @ map st_Id (coinStates n sts)"
  by (induction n used sts acc rule: parseCoinLoop.induct) (auto simp: coinStates_def split: if_splits)

lemma parseCoinLoop_lockedCoins:
  "parseCoinLoop n used sts acc = Done p \<Longrightarrow>
     pcs_lockedCoins p = pcs_lockedCoins acc @ map (\<lambda>st. the (unmarshalLockedCoin (st_Data st))) (lockedCoinStates n sts)"
  by (induction n used sts acc rule: parseCoinLoop.induct) (auto simp: lockedCoinStates_def split: if_splits)

lemma parseCoinLoop_readable:
  "parseCoinLoop n used sts acc = Done p \<Longrightarrow> st \<in> set (coinStates n sts) \<Longrightarrow>
     \<exists>c a. unmarshalCoin (st_Data st) = Some c \<and> coin_Amount c = Some a"
  by (induction n used sts acc rule: parseCoinLoop.induct) (auto simp: coinStates_def split: if_splits)

lemma parseCoinList_Done:
  assumes "parseCoinList n sts = Done p"
  shows "pcs_total p = coins_value n sts"
    and "pcs_lockedTotal p = locked_value n sts"
    and "distinct (map st_Id sts)"
    and "pcs_coins p = map (\<lambda>st. the (unmarshalCoin (st_Data st))) (coinStates n sts)"
    and "pcs_states p = map st_Id (coinStates n sts)"
    and "pcs_lockedCoins p = map (\<lambda>st. the (unmarshalLockedCoin (st_Data st))) (lockedCoinStates n sts)"
  using parseCoinLoop_total [OF assms [unfolded parseCoinList_def]] parseCoinLoop_lockedTotal [OF assms [unfolded parseCoinList_def]]
    parseCoinLoop_distinct [OF assms [unfolded parseCoinList_def]] parseCoinLoop_coins [OF assms [unfolded parseCoinList_def]]
    parseCoinLoop_lockedCoins [OF assms [unfolded parseCoinList_def]]
  by (simp_all add: noCoins_def)

lemma parseCoinList_readable:
  "parseCoinList n sts = Done p \<Longrightarrow> st \<in> set (coinStates n sts) \<Longrightarrow> \<exists>c a. unmarshalCoin (st_Data st) = Some c \<and> coin_Amount c = Some a"
  unfolding parseCoinList_def by (rule parseCoinLoop_readable)

lemma no_coins_no_value: "coinStates n sts = [] \<Longrightarrow> coins_value n sts = 0"
  by (induction sts) (auto simp: coinStates_def coinValue_def split: if_splits)

section \<open>Balance of endorsed proposals\<close>

lemmas amountChecks =
  validateMintAmounts_def validateTransferAmounts_def validateBurnAmounts_def validateLockAmounts_def validateUnlockAmounts_def

lemma mint_Endorse_balance:
  assumes "mint_Endorse env n tx req amount = Done ()"
  shows "coinStates n (er_Inputs req) = [] \<and> amount = Some (coins_value n (er_Outputs req))"
    and "distinct (map st_Id (er_Outputs req))" and "distinct (map st_Id (er_Inputs req))"
  using assms by (auto simp: mint_Endorse_def amountChecks parseCoinList_Done split: if_splits)

lemma endorseTransfer_balance:
  assumes "endorseTransfer env n tx req from = Done ()"
  shows "coinStates n (er_Inputs req) \<noteq> []" and "coins_value n (er_Inputs req) = coins_value n (er_Outputs req)"
    and "distinct (map st_Id (er_Inputs req))" and "distinct (map st_Id (er_Outputs req))"
  using assms by (auto simp: endorseTransfer_def amountChecks parseCoinList_Done split: if_splits)

lemma endorseBurn_balance:
  assumes "endorseBurn env n tx req from amount = Done ()"
  shows "coinStates n (er_Inputs req) \<noteq> []" and "amount = Some (coins_value n (er_Inputs req) - coins_value n (er_Outputs req))"
    and "distinct (map st_Id (er_Inputs req))" and "distinct (map st_Id (er_Outputs req))"
  using assms by (auto simp: endorseBurn_def amountChecks parseCoinList_Done split: if_splits)

lemma lock_Endorse_balance:
  assumes "lock_Endorse env n tx req = Done ()"
  shows "coins_value n (er_Inputs req) = coins_value n (er_Outputs req) + locked_value n (er_Outputs req)"
  using assms by (auto simp: lock_Endorse_def amountChecks parseCoinList_Done split: if_splits)

lemma unlock_Endorse_balance:
  assumes "unlock_Endorse env n tx req params = Done ()"
  shows "locked_value n (er_Inputs req) = locked_value n (er_Outputs req) + coins_value n (er_Outputs req)"
  using assms by (auto simp: unlock_Endorse_def unlockCommon_endorse_def amountChecks parseCoinList_Done split: if_splits)

section \<open>Who spends\<close>

lemma ownersLoop_Done: "ownersLoop a owners ids = Done () \<longleftrightarrow> (\<forall>owner \<in> set owners. owner = Some a)"
  by (induction a owners ids rule: ownersLoop.induct) auto

lemma validateOwners_ownedBy:
  assumes "parseCoinList n sts = Done p" "validateOwners env party vs (pcs_coins p) (pcs_states p) = Done ()"
  shows "ownedBy env n vs party sts"
  using assms parseCoinList_readable [OF assms(1)]
  by (auto simp: ownedBy_def validateOwners_def findEthAddressVerifier_def ownersLoop_Done parseCoinList_Done split: option.splits) force

section \<open>The supply\<close>

lemma endorsableStateIDs_plain [simp]: "endorsableStateIDs env n contract states False = map st_Id states"
  by (auto simp: endorsableStateIDs_def endorsableStateID_def Let_def image_iff)

lemma processInputs_sum:
  fixes f :: "string \<Rightarrow> int"
  assumes "processInputs ids l = Some l1" "finite (led_unspent l)"
  shows "finite (led_unspent l1)" "sum f (led_unspent l1) = sum f (led_unspent l) - sum_list (map f ids)"
  using assms by (induction ids l rule: processInputs.induct) (auto simp: sum_diff1 split: if_splits)

lemma processOutputs_sum:
  fixes f :: "string \<Rightarrow> int"
  assumes "processOutputs ids l = Some l1" "finite (led_unspent l)"
  shows "finite (led_unspent l1)" "sum f (led_unspent l1) = sum f (led_unspent l) + sum_list (map f ids)"
  using assms by (induction ids l rule: processOutputs.induct) (auto split: if_splits)

lemma Endorse_net:
  assumes "endorseParsed env n tx req = Done ()" "\<not> IsNullifierVariant (ptx_DomainConfig tx)"
    and "baseLedgerInvoke env n tx (er_Inputs req) (er_Outputs req) = Some (inputs, outputs)"
  shows "\<exists>ins. inputs = map st_Id ins \<and> set ins \<subseteq> set (er_Inputs req) \<and> outputs = map st_Id (er_Outputs req) \<and>
           coins_value n (er_Outputs req) - coins_value n ins = issued (ptx_Params tx)"
proof -
  from assms(1,2) have e: "Endorse env n tx req = Done ()" by (simp add: endorseParsed_def)
  show ?thesis
  proof (cases "ptx_Params tx")
    case (MintParams to amount)
    with e have "amount = Some (coins_value n (er_Outputs req))" by (auto simp: Endorse_def dest: mint_Endorse_balance(1))
    with MintParams assms(3) show ?thesis
      by (intro exI [of _ "[]"]) (auto simp: baseLedgerInvoke_def issued_def Let_def split: if_splits)
  next
    case (TransferParams to amount)
    with e assms(2,3) show ?thesis
      by (intro exI [of _ "er_Inputs req"])
        (auto simp: Endorse_def baseLedgerInvoke_def issued_def Let_def dest: endorseTransfer_balance(2) split: if_splits)
  next
    case (TransferFromParams payer to amount)
    with e assms(2,3) show ?thesis
      by (intro exI [of _ "er_Inputs req"])
        (auto simp: Endorse_def baseLedgerInvoke_def issued_def Let_def dest: endorseTransfer_balance(2) split: if_splits)
  next
    case (BurnParams amount)
    with e assms(2,3) show ?thesis
      by (intro exI [of _ "er_Inputs req"])
        (auto simp: Endorse_def baseLedgerInvoke_def issued_def Let_def dest: endorseBurn_balance(2) split: if_splits)
  next
    case (BurnFromParams payer amount)
    with e assms(2,3) show ?thesis
      by (intro exI [of _ "er_Inputs req"])
        (auto simp: Endorse_def baseLedgerInvoke_def issued_def Let_def dest: endorseBurn_balance(2) split: if_splits)
  qed (use assms(3) in \<open>auto simp: baseLedgerInvoke_def Let_def split: if_splits\<close>)
qed

lemma contract_transfer_sum:
  fixes f :: "string \<Rightarrow> int"
  assumes "contract_transfer inputs outputs l = Some l1" "finite (led_unspent l)"
  shows "finite (led_unspent l1)" "sum f (led_unspent l1) = sum f (led_unspent l) - sum_list (map f inputs) + sum_list (map f outputs)"
  using assms processInputs_sum(1) processInputs_sum(2) [where f = f] processOutputs_sum(1) processOutputs_sum(2) [where f = f]
  by (auto simp: contract_transfer_def split: option.splits)

lemma booked_value:
  "(\<And>st. st \<in> set sts \<Longrightarrow> book (st_Id st) = st) \<Longrightarrow> sum_list (map (\<lambda>i. coinValue n (book i)) (map st_Id sts)) = coins_value n sts"
  by (induction sts) auto

lemma ledgerStep_supply:
  assumes "\<not> IsNullifierVariant (ptx_DomainConfig (fst proposal))" "booked book proposal" "finite (led_unspent l)"
    and "(\<Sum>i \<in> led_unspent l. coinValue n (book i)) = tot" and "ledgerStep env n proposal (l, tot) = (l1, tot1)"
  shows "finite (led_unspent l1) \<and> (\<Sum>i \<in> led_unspent l1. coinValue n (book i)) = tot1"
proof (cases "l1 = l \<and> tot1 = tot")
  case True
  with assms show ?thesis by simp
next
  case False
  obtain tx req where p: "proposal = (tx, req)" by (cases proposal)
  from False assms(5) obtain inputs outputs where e: "endorseParsed env n tx req = Done ()"
    and i: "baseLedgerInvoke env n tx (er_Inputs req) (er_Outputs req) = Some (inputs, outputs)"
    and c: "contract_transfer inputs outputs l = Some l1" and tot1: "tot1 = tot + issued (ptx_Params tx)"
    by (auto simp: ledgerStep_def p split: if_splits option.splits)
  from Endorse_net [OF e _ i] assms(1) obtain ins where ins: "inputs = map st_Id ins" "set ins \<subseteq> set (er_Inputs req)"
    and outs: "outputs = map st_Id (er_Outputs req)" and net: "coins_value n (er_Outputs req) - coins_value n ins = issued (ptx_Params tx)"
    by (auto simp: p)
  have "sum_list (map (\<lambda>i. coinValue n (book i)) inputs) = coins_value n ins"
    unfolding ins(1) using assms(2) ins(2) by (intro booked_value) (auto simp: booked_def p)
  moreover have "sum_list (map (\<lambda>i. coinValue n (book i)) outputs) = coins_value n (er_Outputs req)"
    unfolding outs using assms(2) by (intro booked_value) (auto simp: booked_def p)
  ultimately show ?thesis
    using contract_transfer_sum(1) [OF c assms(3)] contract_transfer_sum(2) [OF c assms(3), of "\<lambda>i. coinValue n (book i)"] assms(4) net tot1 by simp
qed

lemma ledgerRun_supply:
  "\<forall>proposal \<in> set proposals. \<not> IsNullifierVariant (ptx_DomainConfig (fst proposal)) \<and> booked book proposal \<Longrightarrow>
     finite (led_unspent l) \<Longrightarrow> (\<Sum>i \<in> led_unspent l. coinValue n (book i)) = tot \<Longrightarrow>
     fold (ledgerStep env n) proposals (l, tot) = (l1, tot1) \<Longrightarrow>
     finite (led_unspent l1) \<and> (\<Sum>i \<in> led_unspent l1. coinValue n (book i)) = tot1"
proof (induction proposals arbitrary: l tot)
  case (Cons proposal proposals)
  obtain l2 tot2 where s: "ledgerStep env n proposal (l, tot) = (l2, tot2)" by fastforce
  from ledgerStep_supply [OF _ _ Cons.prems(2,3) s] Cons.prems(1)
  have "finite (led_unspent l2) \<and> (\<Sum>i \<in> led_unspent l2. coinValue n (book i)) = tot2" by simp
  with Cons.IH [of l2 tot2] Cons.prems(1,4) s show ?case by simp
qed simp

section \<open>Nullifiers\<close>

lemma nullifierLoop_prefix:
  "nullifierLoop env n contract seen nullifiers (sts @ rest) = Done () \<Longrightarrow> nullifierLoop env n contract seen nullifiers sts = Done ()"
  by (induction sts arbitrary: seen nullifiers) (auto split: option.splits if_splits)

lemma stateNullifier_coin:
  "st_SchemaId st = noto_coinSchema n \<Longrightarrow> stateNullifier env n contract st \<noteq> Some None"
  by (auto simp: stateNullifier_def split: option.splits)

lemma fresh_tail: "distinct (map st_Id (st # sts)) \<Longrightarrow> \<forall>s \<in> set (st # sts). st_Id s \<notin> seen \<Longrightarrow>
    distinct (map st_Id sts) \<and> (\<forall>s \<in> set sts. st_Id s \<notin> insert (st_Id st) seen)"
  by (auto simp: image_iff)

lemma nullifierLoop_step:
  "nullifierLoop env n contract seen nullifiers (st # sts) = Done () \<Longrightarrow> st_Id st \<notin> seen \<Longrightarrow>
     stateNullifier env n contract st \<noteq> None \<and> (\<exists>ns. nullifierLoop env n contract (insert (st_Id st) seen) ns sts = Done ())"
  by (auto split: option.splits if_splits)

lemma nullifierLoop_computable:
  "nullifierLoop env n contract seen nullifiers sts = Done () \<Longrightarrow> distinct (map st_Id sts) \<Longrightarrow> \<forall>st \<in> set sts. st_Id st \<notin> seen \<Longrightarrow>
     \<forall>st \<in> set sts. stateNullifier env n contract st \<noteq> None"
proof (induction sts arbitrary: seen nullifiers)
  case (Cons st sts)
  from nullifierLoop_step [OF Cons.prems(1)] Cons.prems(3) obtain ns where "stateNullifier env n contract st \<noteq> None"
    and *: "nullifierLoop env n contract (insert (st_Id st) seen) ns sts = Done ()" by auto
  with Cons.IH [OF *] fresh_tail [OF Cons.prems(2,3)] show ?case by simp
qed simp

lemma nullifierLoop_new:
  "nullifierLoop env n contract seen nullifiers sts = Done () \<Longrightarrow> distinct (map st_Id sts) \<Longrightarrow> \<forall>st \<in> set sts. st_Id st \<notin> seen \<Longrightarrow>
     distinct (map (nullifierOf env n contract) (coinStates n sts)) \<and> nullifierOf env n contract ` set (coinStates n sts) \<inter> nullifiers = {}"
proof (induction sts arbitrary: seen nullifiers)
  case (Cons st sts)
  from Cons.prems obtain r where r: "stateNullifier env n contract st = Some r" by (auto split: option.splits)
  show ?case
  proof (cases "st_SchemaId st = noto_coinSchema n")
    case True
    with r stateNullifier_coin [of st n env contract] obtain h where h: "r = Some h" by (cases r) auto
    with r Cons.prems have "h \<notin> nullifiers"
      and *: "nullifierLoop env n contract (insert (st_Id st) seen) (insert h nullifiers) sts = Done ()" by (auto split: if_splits)
    moreover from Cons.IH [OF *] fresh_tail [OF Cons.prems(2,3)]
    have "distinct (map (nullifierOf env n contract) (coinStates n sts)) \<and>
      nullifierOf env n contract ` set (coinStates n sts) \<inter> insert h nullifiers = {}" by blast
    moreover have "nullifierOf env n contract st = h" by (simp add: nullifierOf_def r h)
    ultimately show ?thesis using True by (auto simp: coinStates_def)
  next
    case False
    with r have "r = None" by (simp add: stateNullifier_def)
    with r Cons.prems have *: "nullifierLoop env n contract (insert (st_Id st) seen) nullifiers sts = Done ()" by auto
    from Cons.IH [OF *] fresh_tail [OF Cons.prems(2,3)] False show ?thesis by (simp add: coinStates_def)
  qed
qed (simp add: coinStates_def)

section \<open>Locks\<close>

lemma createTransferLock_balance:
  assumes "createTransferLock_Endorse env n tx req party = Done ()"
  shows "coins_value n (er_Inputs req) = coins_value n (er_Outputs req) + locked_value n (er_Outputs req)"
  using assms by (auto simp: createTransferLock_Endorse_def parseLockProposal_def parseCoinList_Done split: prod.splits)

lemma createBurnLock_balance:
  assumes "createBurnLock_Endorse env n tx req = Done ()"
  shows "coins_value n (er_Inputs req) = coins_value n (er_Outputs req) + locked_value n (er_Outputs req)"
  using assms by (auto simp: createBurnLock_Endorse_def parseLockProposal_def parseCoinList_Done split: prod.splits)

lemma createMintLock_balance:
  assumes "createMintLock_Endorse env n tx req recipients = Done ()"
  shows "coinStates n (er_Inputs req) = [] \<and> coinStates n (er_Outputs req) = [] \<and> lockedCoinStates n (er_Outputs req) = []"
  using assms by (auto simp: createMintLock_Endorse_def parseLockProposal_def parseCoinList_Done split: prod.splits)

lemma prepareBurnUnlock_balance:
  assumes "prepareBurnUnlock_Endorse env n tx req lockID party amount = Done ()"
  shows "amount = Some (locked_value n (er_Reads req))"
  using assms by (auto simp: prepareBurnUnlock_Endorse_def parseCoinList_Done split: if_splits)

lemma newLock_Done:
  assumes "newLock lockID outs lt = Done lt1" "length outs = 1"
  obtains st where "outs = [st]" "unmarshalLockV1 (st_Data st) = Some (lt_newLockInfo lt1)"
proof -
  from assms(2) obtain st where st: "outs = [st]" by (auto simp: length_Suc_conv)
  from assms(1) obtain l i where d: "decodeLock st = Done (l, i)"
    and "lt1 = lt\<lparr>lt_newLockState := Some st, lt_newLockStateID := i, lt_newLockInfo := l\<rparr>" by (auto simp: newLock_def st)
  moreover from d have "unmarshalLockV1 (st_Data st) = Some l" by (auto simp: decodeLock_def split: option.splits sum.splits)
  ultimately show thesis using st that by simp
qed

lemma lock_outputs:
  assumes "decodeV1LockTransitionWithOutputs n t senderID lockID (er_Inputs req) (er_Outputs req) (er_Info req) = Done (lt, spendOutputs, cancelOutputs)"
    and "t = LOCK_CREATE \<or> t = LOCK_UPDATE"
  shows "\<exists>l. newLockInfo n req = Some l \<and> spendOutputs = spendCoins n req l \<and> cancelOutputs = cancelCoins n req l"
proof -
  let ?outs = "filterSchema (er_Outputs req) [noto_lockInfoSchemaV1 n]"
  from assms obtain lt0 where "newLock lockID ?outs lt0 = Done lt" "length ?outs = 1"
    and s: "splitOutputs n lt (er_Info req) = Done (spendOutputs, cancelOutputs)"
    by (auto simp: decodeV1LockTransitionWithOutputs_def validateV1LockTransition_def transitionShape_def Let_def)
  then obtain st where "?outs = [st]" "unmarshalLockV1 (st_Data st) = Some (lt_newLockInfo lt)" by (elim newLock_Done)
  with s show ?thesis by (auto simp: splitOutputs_def Let_def newLockInfo_def spendCoins_def cancelCoins_def)
qed

lemma no_locked_value: "(\<And>st. st \<in> set sts \<Longrightarrow> lockedValue n st = 0) \<Longrightarrow> locked_value n sts = 0"
  by (induction sts) auto

lemma outputsNamed_unlocked: "locked_value n (outputsNamed n ids sts) = 0"
  by (rule no_locked_value) (auto simp: outputsNamed_def filterSchema_def lockedValue_def)

end
