(* ===== verification/NotoSamples.thy ===== *)
theory NotoSamples
  imports NotoLedger
begin

text \<open>
  A small instance of the Noto domain for the witnesses: three parties with their addresses, a signature that is the name
  of its key, hashes that are read off their input, and the states and proposals of a mint, a transfer and a burn.
\<close>

definition sampleNoto :: Noto where
  "sampleNoto = \<lparr>noto_name = ''noto'', noto_coinSchema = ''coin'', noto_lockedCoinSchema = ''locked'', noto_lockInfoSchemaV0 = ''lock0'',
     noto_lockInfoSchemaV1 = ''lock1'', noto_dataSchemaV0 = ''data0'', noto_dataSchemaV2 = ''data2'', noto_manifestSchema = ''manifest''\<rparr>"

definition aliceAddress :: address where "aliceAddress = replicate 20 0xA1"
definition bobAddress :: address where "bobAddress = replicate 20 0xB0"
definition notaryAddress :: address where "notaryAddress = replicate 20 0x0F"
definition tokenAddress :: address where "tokenAddress = replicate 20 0x77"

definition sampleBook :: "(string \<times> address) list" where
  "sampleBook = [(''0xalice'', aliceAddress), (''0xbob'', bobAddress), (''0xnotary'', notaryAddress), (''0xtoken'', tokenAddress)]"

definition sampleEnv :: notoEnv where
  "sampleEnv = \<lparr>env_NewAddress = map_of sampleBook,
     env_AddressString = (\<lambda>a. the (map_of (map prod.swap sampleBook) a)),
     env_EncodeTransfer = (\<lambda>_ _ _. Some [1]), env_EncodeLock = (\<lambda>_ _ _ _. Some [2]), env_EncodeUnlock = (\<lambda>_ _ _ _. Some [3]),
     env_EncodeDelegateLock = (\<lambda>_ _ _ _. Some [4]), env_Recover = (\<lambda>_ signature. Some signature),
     env_LockId = (\<lambda>_ _ _. Some (replicate 32 7)), env_NullifierHash = (\<lambda>_ salt _ _. Some salt), env_LocalNodeName = Some ''node1''\<rparr>"

definition sampleVerifier :: "string \<Rightarrow> string \<Rightarrow> notoVerifier" where
  "sampleVerifier party addr = \<lparr>nv_Lookup = party, nv_Algorithm = ECDSA_SECP256K1, nv_VerifierType = ETH_ADDRESS, nv_Verifier = addr\<rparr>"

definition sampleVerifiers :: "notoVerifier list" where
  "sampleVerifiers = [sampleVerifier ''alice@node1'' ''0xalice'', sampleVerifier ''bob@node1'' ''0xbob'', sampleVerifier ''notary@node1'' ''0xnotary'']"

text \<open>A signature by the holder of an address.\<close>

definition signedBy :: "string \<Rightarrow> address \<Rightarrow> notoAttestation list" where
  "signedBy addr key = [\<lparr>na_Name = ''sender'', na_Verifier = Some (sampleVerifier [] addr), na_Payload = key\<rparr>]"

definition coinState :: "string \<Rightarrow> Bytes32 \<Rightarrow> address \<Rightarrow> int \<Rightarrow> notoState" where
  "coinState i salt owner amount =
     \<lparr>st_Id = i, st_SchemaId = ''coin'', st_Data = marshalCoin \<lparr>coin_Salt = salt, coin_Owner = Some owner, coin_Amount = Some amount\<rparr>\<rparr>"

definition lockedCoinState :: "string \<Rightarrow> Bytes32 \<Rightarrow> address \<Rightarrow> int \<Rightarrow> notoState" where
  "lockedCoinState i lockId owner amount =
     \<lparr>st_Id = i, st_SchemaId = ''locked'',
      st_Data = marshalLockedCoin \<lparr>lc_Salt = replicate 32 5, lc_LockID = lockId, lc_Owner = Some owner, lc_Amount = Some amount\<rparr>\<rparr>"

definition sampleConfig :: "uint64 \<Rightarrow> NotoParsedConfig" where
  "sampleConfig variant = \<lparr>cfg_NotaryLookup = ''notary@node1'', cfg_NotaryMode = NotaryModeBasic, cfg_Variant = variant,
     cfg_Basic = Some \<lparr>bo_RestrictMint = Some True, bo_AllowBurn = Some True, bo_AllowLock = Some True\<rparr>, cfg_Hooks = None\<rparr>"

definition sampleTx :: "uint64 \<Rightarrow> string \<Rightarrow> notoParams \<Rightarrow> ParsedTransaction" where
  "sampleTx variant party params = \<lparr>ptx_From = party, ptx_TransactionId = ''tx'', ptx_ContractAddress = tokenAddress,
     ptx_DomainConfig = sampleConfig variant, ptx_Params = params\<rparr>"

definition sampleRequest :: "notoState list \<Rightarrow> notoState list \<Rightarrow> notoAttestation list \<Rightarrow> EndorseTransactionRequest" where
  "sampleRequest inputs outputs signatures = \<lparr>er_ResolvedVerifiers = sampleVerifiers, er_Inputs = inputs, er_Reads = [], er_Outputs = outputs,
     er_Info = [], er_Signatures = signatures\<rparr>"

definition minted :: notoState where "minted = coinState ''c1'' (replicate 32 1) aliceAddress 100"
definition paid :: notoState where "paid = coinState ''c2'' (replicate 32 2) bobAddress 60"
definition change :: notoState where "change = coinState ''c3'' (replicate 32 3) aliceAddress 40"

definition sampleMint :: "uint64 \<Rightarrow> ParsedTransaction \<times> EndorseTransactionRequest" where
  "sampleMint variant = (sampleTx variant ''notary@node1'' (MintParams ''alice@node1'' (Some 100)), sampleRequest [] [minted] (signedBy ''0xnotary'' notaryAddress))"

definition sampleTransfer :: "uint64 \<Rightarrow> ParsedTransaction \<times> EndorseTransactionRequest" where
  "sampleTransfer variant =
     (sampleTx variant ''alice@node1'' (TransferParams ''bob@node1'' (Some 60)), sampleRequest [minted] [paid, change] (signedBy ''0xalice'' aliceAddress))"

definition sampleBurn :: "uint64 \<Rightarrow> ParsedTransaction \<times> EndorseTransactionRequest" where
  "sampleBurn variant = (sampleTx variant ''bob@node1'' (BurnParams (Some 60)), sampleRequest [paid] [] (signedBy ''0xbob'' bobAddress))"

text \<open>A mint, a transfer, the same transfer again and a burn.\<close>

definition sampleProposals :: "(ParsedTransaction \<times> EndorseTransactionRequest) list" where
  "sampleProposals = [sampleMint 1, sampleTransfer 1, sampleTransfer 1, sampleBurn 1]"

definition sampleStates :: "string \<Rightarrow> notoState" where
  "sampleStates i = (if i = ''c1'' then minted else if i = ''c2'' then paid else change)"

text \<open>The transfer as the platform hands it over, with its parameters as JSON.\<close>

definition noParams :: paramsJSON where
  "noParams = \<lparr>pj_object = True, pj_to = Absent, pj_from = Absent, pj_amount = Absent, pj_lockId = Absent, pj_recipients = Absent,
     pj_delegate = Absent, pj_unlock = Absent, pj_data = Absent, pj_unlockData = Absent\<rparr>"

definition sampleSpec :: "uint64 \<Rightarrow> string \<Rightarrow> string \<Rightarrow> paramsJSON \<Rightarrow> TransactionSpecification" where
  "sampleSpec variant party name params = \<lparr>ts_From = party, ts_TransactionId = ''tx'', ts_FunctionName = Some name, ts_FunctionSignature = name,
     ts_ContractConfig = Some (sampleConfig variant), ts_FunctionParams = params, ts_ContractAddress = ''0xtoken''\<rparr>"

definition transferSpec :: "uint64 \<Rightarrow> TransactionSpecification" where
  "transferSpec variant = sampleSpec variant ''alice@node1'' ''transfer'' (noParams\<lparr>pj_to := Field ''bob@node1'', pj_amount := Field 60\<rparr>)"

text \<open>A lock of forty, and the proposal that prepares its unlock: the lock's states and the coins of the two outcomes.\<close>

definition lockInfoOf :: "Bytes32 \<Rightarrow> Bytes32 \<Rightarrow> Bytes32 list \<Rightarrow> Bytes32 list \<Rightarrow> NotoLockInfo_V1" where
  "lockInfoOf salt replaced spend cancel = \<lparr>li_Salt = salt, li_LockID = replicate 32 7, li_Owner = Some aliceAddress, li_Spender = Some aliceAddress,
     li_Replaces = replaced, li_SpendTxId = replicate 32 9, li_SpendOutputs = spend, li_SpendData = [], li_CancelOutputs = cancel, li_CancelData = []\<rparr>"

definition stateId :: "8 word \<Rightarrow> Bytes32" where
  "stateId b = replicate 32 b"

definition lockState :: "8 word \<Rightarrow> NotoLockInfo_V1 \<Rightarrow> notoState" where
  "lockState b l = \<lparr>st_Id = Bytes32_String (stateId b), st_SchemaId = ''lock1'', st_Data = marshalLockV1 l\<rparr>"

definition outcomeCoin :: "8 word \<Rightarrow> address \<Rightarrow> int \<Rightarrow> notoState" where
  "outcomeCoin b owner amount = coinState (Bytes32_String (stateId b)) (stateId b) owner amount"

definition prepareRequest :: "int \<Rightarrow> EndorseTransactionRequest" where
  "prepareRequest spendAmount = \<lparr>er_ResolvedVerifiers = sampleVerifiers,
     er_Inputs = [lockState 0x21 (lockInfoOf (stateId 1) (stateId 0) [] [])],
     er_Reads = [lockedCoinState ''l1'' (replicate 32 7) aliceAddress 40],
     er_Outputs = [lockState 0x22 (lockInfoOf (stateId 2) (stateId 0x21) [stateId 0x31] [stateId 0x32])],
     er_Info = [outcomeCoin 0x31 bobAddress spendAmount, outcomeCoin 0x32 aliceAddress 40],
     er_Signatures = signedBy ''0xalice'' aliceAddress\<rparr>"

definition prepareUnlockTx :: "ParsedTransaction" where
  "prepareUnlockTx = sampleTx 1 ''alice@node1''
     (PrepareUnlockCall \<lparr>up_LockID = replicate 32 7, up_From = ''alice@node1'', up_Recipients = [(''bob@node1'', Some 40)]\<rparr>)"

end
