(* ===== verification/NotoProperties.thy ===== *)
theory NotoProperties
  imports NotoSupply NotoSamples
begin

text \<open>The properties of endorsement in Noto: what an endorsed proposal keeps equal, whose coins it spends, what backs the
  outcomes of a lock, how nullifiers reach the base ledger, and the supply over every sequence of proposals.\<close>

lemma submit_iff:
  "EndorseTransaction env ks kn n spec req = ENDORSER_SUBMIT \<longleftrightarrow>
     (\<exists>tx. validateTransaction env ks kn spec = Done tx \<and> endorseParsed env n tx req = Done ())"
  by (auto simp: EndorseTransaction_def endorseResponseOf_def endorseRevertOrError_def split: attempt.splits if_splits)

lemma validated_params:
  "validateTransaction env ks kn spec = Done tx \<Longrightarrow> \<exists>config. checkParams config (ptx_Params tx) = Done ()"
  by (auto simp: validateTransaction_def ValidateParams_def Let_def split: if_splits)

lemma positive_Some [simp]: "positive (Some a) \<longleftrightarrow> a > 0" "\<not> positive None"
  by (simp_all add: positive_def)

lemma Endorse_balanced:
  assumes "Endorse env n tx req = Done ()" "checkParams config (ptx_Params tx) = Done ()"
  shows "balanced n (ptx_Params tx) req"
  using assms
  by (cases "ptx_Params tx")
    (auto simp: Endorse_def balanced_def Let_def paramChecks dest!: mint_Endorse_balance(1) endorseTransfer_balance(2) endorseBurn_balance(2)
       lock_Endorse_balance unlock_Endorse_balance createTransferLock_balance createBurnLock_balance createMintLock_balance prepareBurnUnlock_balance)



lemma Endorse_spender:
  assumes "Endorse env n tx req = Done ()" "spender tx = Some party"
  shows "ownedBy env n (er_ResolvedVerifiers req) party (er_Inputs req) \<and> distinct (map st_Id (er_Inputs req))"
proof -
  have "\<exists>p. parseCoinList n (er_Inputs req) = Done p \<and>
          validateOwners env party (er_ResolvedVerifiers req) (pcs_coins p) (pcs_states p) = Done ()"
    using assms
    by (cases "ptx_Params tx")
      (auto simp: Endorse_def spender_def endorseTransfer_def endorseBurn_def lock_Endorse_def createTransferLock_Endorse_def
         createBurnLock_Endorse_def parseLockProposal_def findEthAddressVerifier_def split: prod.splits option.splits)
  then show ?thesis by (auto dest: validateOwners_ownedBy parseCoinList_Done(3))
qed





lemma prepareUnlock_backed:
  assumes "prepareUnlock_Endorse env n tx req params = Done ()" "\<not> IsV0 (ptx_DomainConfig tx)"
  shows "\<exists>l. newLockInfo n req = Some l \<and> coins_value n (spendCoins n req l) = locked_value n (er_Reads req) \<and>
           coins_value n (cancelCoins n req l) = locked_value n (er_Reads req) \<and>
           ownedBy env n (er_ResolvedVerifiers req) (up_From params) (cancelCoins n req l)"
proof -
  from assms obtain senderID lt spendOutputs cancelOutputs inputs spends cancels
    where d: "decodeV1LockTransitionWithOutputs n LOCK_UPDATE (Some senderID) (Some (up_LockID params)) (er_Inputs req) (er_Outputs req) (er_Info req)
                = Done (lt, spendOutputs, cancelOutputs)"
      and p: "parseCoinList n (er_Reads req) = Done inputs" "parseCoinList n spendOutputs = Done spends" "parseCoinList n cancelOutputs = Done cancels"
      and e: "unlockCommon_endorse env tx params req inputs spends (Some cancels) = Done ()"
    by (auto simp: prepareUnlock_Endorse_def split: prod.splits)
  from lock_outputs [OF d] obtain l where l: "newLockInfo n req = Some l" "spendOutputs = spendCoins n req l" "cancelOutputs = cancelCoins n req l"
    by auto
  from e have "validateOwners env (up_From params) (er_ResolvedVerifiers req) (pcs_coins cancels) (pcs_states cancels) = Done ()"
    and "pcs_lockedTotal inputs - pcs_lockedTotal spends = pcs_total spends" "pcs_lockedTotal inputs - pcs_lockedTotal cancels = pcs_total cancels"
    by (auto simp: unlockCommon_endorse_def cancelChecks_def amountChecks split: if_splits)
  with p l validateOwners_ownedBy [OF p(3)] show ?thesis
    by (auto simp: parseCoinList_Done spendCoins_def cancelCoins_def outputsNamed_unlocked)
qed

lemma createTransferLock_backed:
  assumes "createTransferLock_Endorse env n tx req party = Done ()"
  shows "\<exists>l. newLockInfo n req = Some l \<and> coins_value n (spendCoins n req l) = locked_value n (er_Outputs req) \<and>
           coins_value n (cancelCoins n req l) = locked_value n (er_Outputs req)"
proof -
  from assms obtain fromID lt spendOutputs cancelOutputs outputs spends cancels
    where d: "decodeV1LockTransitionWithOutputs n LOCK_CREATE (Some fromID) None (er_Inputs req) (er_Outputs req) (er_Info req)
                = Done (lt, spendOutputs, cancelOutputs)"
      and p: "parseCoinList n (er_Outputs req) = Done outputs" "parseCoinList n spendOutputs = Done spends" "parseCoinList n cancelOutputs = Done cancels"
      and "pcs_lockedTotal outputs = pcs_total spends" "pcs_lockedTotal outputs = pcs_total cancels"
    by (auto simp: createTransferLock_Endorse_def parseLockProposal_def split: prod.splits)
  with lock_outputs [OF d] show ?thesis by (auto simp: parseCoinList_Done)
qed

text \<open>C18. Both outcomes of a lock are backed. When the notary submits a proposal that prepares the unlock of a lock, or creates a
  lock for a transfer, the coins its spend outcome creates and the coins its cancel outcome creates are each worth exactly the
  locked coins, and cancelling a prepared unlock pays its coins back to the party that owns the lock.\<close>

theorem lock_outcomes_are_backed:
  assumes "endorseParsed env n tx req = Done ()" "\<not> IsV0 (ptx_DomainConfig tx)"
    and "(\<exists>params. ptx_Params tx = PrepareUnlockCall params \<and> lockedStates = er_Reads req \<and> party = up_From params) \<or>
         (\<exists>owner recipients. ptx_Params tx = CreateTransferLockParams owner recipients \<and> lockedStates = er_Outputs req)"
  shows "\<exists>l. newLockInfo n req = Some l \<and> coins_value n (spendCoins n req l) = locked_value n lockedStates \<and>
           coins_value n (cancelCoins n req l) = locked_value n lockedStates \<and>
           ((\<exists>params. ptx_Params tx = PrepareUnlockCall params) \<longrightarrow> ownedBy env n (er_ResolvedVerifiers req) party (cancelCoins n req l))"
proof -
  from assms(1) have "Endorse env n tx req = Done ()" by (simp add: endorseParsed_def split: if_splits)
  with assms(2,3) show ?thesis
    by (auto simp: Endorse_def dest: prepareUnlock_backed createTransferLock_backed)
qed

lemma lock_outcomes_are_backed_witness:
  "\<exists>l. newLockInfo sampleNoto (prepareRequest 40) = Some l \<and> coins_value sampleNoto (spendCoins sampleNoto (prepareRequest 40) l) = 40"
proof -
  have "endorseParsed sampleEnv sampleNoto prepareUnlockTx (prepareRequest 40) = Done ()" by code_simp
  moreover have "\<not> IsV0 (ptx_DomainConfig prepareUnlockTx)" by code_simp
  moreover have "locked_value sampleNoto (er_Reads (prepareRequest 40)) = 40" by code_simp
  ultimately show ?thesis
    using lock_outcomes_are_backed [of sampleEnv sampleNoto prepareUnlockTx "prepareRequest 40" "er_Reads (prepareRequest 40)" "''alice@node1''"]
    by (auto simp: prepareUnlockTx_def sampleTx_def)
qed

text \<open>C20. No input is lost on the way to the base ledger. An input whose nullifier cannot be computed makes the whole list of
  inputs of the call empty, which would create the outputs for nothing; but for an endorsed transfer, burn or lock of a contract
  with nullifiers every input has its name on the base ledger, and no two coins share a nullifier.\<close>

theorem endorsed_inputs_reach_ledger:
  assumes "endorseParsed env n tx req = Done ()" "IsNullifierVariant (ptx_DomainConfig tx)" "spender tx = Some party"
  shows "length (endorsableStateIDs env n (ptx_ContractAddress tx) (er_Inputs req) True) = length (er_Inputs req) \<and>
         distinct (map (nullifierOf env n (ptx_ContractAddress tx)) (coinStates n (er_Inputs req)))"
proof -
  let ?c = "ptx_ContractAddress tx"
  from assms(1,2) have "nullifierLoop env n ?c {} {} (er_Inputs req @ er_Outputs req) = Done ()" and "Endorse env n tx req = Done ()"
    by (auto simp: endorseParsed_def validateDistinctNullifiers_def)
  with assms(3) have l: "nullifierLoop env n ?c {} {} (er_Inputs req) = Done ()" and d: "distinct (map st_Id (er_Inputs req))"
    by (auto dest: nullifierLoop_prefix Endorse_spender)
  from nullifierLoop_computable [OF l d] have "None \<notin> set (map (\<lambda>st. endorsableStateID env n ?c st True) (er_Inputs req))"
    by (auto simp: endorsableStateID_def split: option.splits)
  with nullifierLoop_new [OF l d] show ?thesis by (simp add: endorsableStateIDs_def Let_def)
qed

lemma endorsed_inputs_reach_ledger_witness:
  "length (endorsableStateIDs sampleEnv sampleNoto tokenAddress [minted] True) = 1"
proof -
  have "endorseParsed sampleEnv sampleNoto (fst (sampleTransfer 0x0102)) (snd (sampleTransfer 0x0102)) = Done ()" by code_simp
  moreover have "IsNullifierVariant (ptx_DomainConfig (fst (sampleTransfer 0x0102)))" by code_simp
  moreover have "spender (fst (sampleTransfer 0x0102)) = Some ''alice@node1''" by code_simp
  ultimately have "length (endorsableStateIDs sampleEnv sampleNoto (ptx_ContractAddress (fst (sampleTransfer 0x0102)))
      (er_Inputs (snd (sampleTransfer 0x0102))) True) = length (er_Inputs (snd (sampleTransfer 0x0102)))"
    using endorsed_inputs_reach_ledger by blast
  then show ?thesis by (simp add: sampleTransfer_def sampleRequest_def sampleTx_def)
qed

end
