(* ===== verification/NotoVerifiers.thy ===== *)
theory NotoVerifiers
  imports NotoSamples
begin

text \<open>
  The verifiers that \<^verbatim>\<open>Init\<close> asks the platform to resolve are enough for endorsement: once they are resolved to addresses, no handler
  refuses a proposal for want of one. The proof goes through all checks of all handlers and shows that none of the others fails in this way.
\<close>

definition resolvesTo :: "notoEnv \<Rightarrow> notoVerifier list \<Rightarrow> ResolveVerifierRequest \<Rightarrow> bool" where
  "resolvesTo env vs r \<longleftrightarrow>
     (case FindVerifier (rv_Lookup r) (rv_Algorithm r) (rv_VerifierType r) vs of
        None \<Rightarrow> False
      | Some v \<Rightarrow> rv_Algorithm r = ECDSA_SECP256K1 \<longrightarrow> env_NewAddress env (nv_Verifier v) \<noteq> None)"

definition missingVerifier :: "'a attempt \<Rightarrow> bool" where
  "missingVerifier r \<longleftrightarrow> (case r of Refused (invalidVerifierError _) \<Rightarrow> True | _ \<Rightarrow> False)"

text \<open>The parties whose addresses endorsement looks up.\<close>

definition namedParties :: "ParsedTransaction \<Rightarrow> string set" where
  "namedParties tx = {cfg_NotaryLookup (ptx_DomainConfig tx), ptx_From tx} \<union>
     (case ptx_Params tx of
        TransferFromParams owner _ _ \<Rightarrow> {owner}
      | BurnFromParams owner _ \<Rightarrow> {owner}
      | UnlockCall p \<Rightarrow> {up_From p}
      | PrepareUnlockCall p \<Rightarrow> {up_From p}
      | CreateTransferLockParams owner _ \<Rightarrow> {owner}
      | PrepareBurnUnlockParams _ owner _ \<Rightarrow> {owner}
      | _ \<Rightarrow> {})"

named_theorems keeps_verifiers "checks that never ask for a verifier"

lemma missingVerifier_tryThen: "missingVerifier (tryThen m f) \<longleftrightarrow> missingVerifier m \<or> (\<exists>x. m = Done x \<and> missingVerifier (f x))"
  by (cases m) (auto simp: missingVerifier_def split: notoError.splits)

lemma missing_basic [simp]:
  "\<not> missingVerifier (Done x)" "\<not> missingVerifier Panics" "missingVerifier (Refused e) \<longleftrightarrow> (\<exists>d. e = invalidVerifierError d)"
  by (auto simp: missingVerifier_def split: notoError.splits)

lemma missing_require [simp]: "missingVerifier (require b e) \<longleftrightarrow> \<not> b \<and> (\<exists>d. e = invalidVerifierError d)"
  by (simp add: require_def)

lemma missing_deref [simp]: "\<not> missingVerifier (deref p)"
  by (simp add: deref_def split: option.splits)

lemma missing_valueOr [simp]: "missingVerifier (valueOr e p) \<longleftrightarrow> p = None \<and> (\<exists>d. e = invalidVerifierError d)"
  by (simp add: valueOr_def split: option.splits)

lemma missing_parseCoinLoop: "\<not> missingVerifier (parseCoinLoop n used sts acc)"
  by (induction n used sts acc rule: parseCoinLoop.induct) (simp_all add: missingVerifier_tryThen)

lemma missing_parseCoinList [keeps_verifiers]: "\<not> missingVerifier (parseCoinList n sts)"
  by (simp add: parseCoinList_def missing_parseCoinLoop)

lemma missing_ownersLoop [keeps_verifiers]: "\<not> missingVerifier (ownersLoop a owners ids)"
  by (induction a owners ids rule: ownersLoop.induct) simp_all

lemma missing_encoders [keeps_verifiers]:
  "\<not> missingVerifier (encodeTransferUnmasked env c ins outs)" "\<not> missingVerifier (encodeLock env c ins outs locked)"
  "\<not> missingVerifier (encodeUnlock env c lockedIns lockedOuts outs)" "\<not> missingVerifier (encodeDelegateLock env c lockID delegate data)"
  by (simp_all add: encodeTransferUnmasked_def encodeLock_def encodeUnlock_def encodeDelegateLock_def encodeNotoCoins_def encodeNotoLockedCoins_def missingVerifier_tryThen)

lemma missing_amounts [keeps_verifiers]:
  "\<not> missingVerifier (validateMintAmounts a i u)" "\<not> missingVerifier (validateTransferAmounts i u)" "\<not> missingVerifier (validateBurnAmounts a i u)"
  "\<not> missingVerifier (validateLockAmounts cfg i u)" "\<not> missingVerifier (validateUnlockAmounts cfg i u)" "\<not> missingVerifier (recipientsTotal rs)"
  by (simp_all add: validateMintAmounts_def validateTransferAmounts_def validateBurnAmounts_def validateLockAmounts_def validateUnlockAmounts_def
      recipientsTotal_def missingVerifier_tryThen)

lemma missing_signature [keeps_verifiers]: "\<not> missingVerifier (validateSignature env name sigs message)"
  by (simp add: validateSignature_def missingVerifier_tryThen split: option.splits)

lemma missing_allowed [keeps_verifiers]:
  "\<not> missingVerifier (mint_checkAllowed tx party)" "\<not> missingVerifier (checkBurnAllowed tx)" "\<not> missingVerifier (lock_checkAllowed tx)"
  "\<not> missingVerifier (lockCommon_checkAllowed env tx party)" "\<not> missingVerifier (prepareMintUnlock_checkAllowed tx party)"
  by (simp_all add: mint_checkAllowed_def checkBurnAllowed_def lock_checkAllowed_def lockCommon_checkAllowed_def prepareMintUnlock_checkAllowed_def
      missingVerifier_tryThen Let_def split: sum.splits)

lemma missing_decodeLock: "\<not> missingVerifier (decodeLock st)"
  by (simp add: decodeLock_def split: option.splits sum.splits)

lemma missing_transition [keeps_verifiers]: "\<not> missingVerifier (validateV1LockTransition n t senderID lockID ins outs)"
  by (simp add: validateV1LockTransition_def prevLock_def newLock_def missingVerifier_tryThen missing_decodeLock Let_def split: list.splits prod.splits)

lemma missing_transitionWithOutputs [keeps_verifiers]: "\<not> missingVerifier (decodeV1LockTransitionWithOutputs n t senderID lockID ins outs infos)"
  by (simp add: decodeV1LockTransitionWithOutputs_def splitOutputs_def missing_transition missingVerifier_tryThen Let_def split: prod.splits)

lemma missing_lockId [keeps_verifiers]: "\<not> missingVerifier (computeLockIDForLockTX env tx notaryID)"
  by (simp add: computeLockIDForLockTX_def Let_def)

lemma firstOccurrences_set: "set (firstOccurrences seen xs) = set xs - seen"
  by (induction seen xs rule: firstOccurrences.induct) auto

text \<open>A name among those that are asked for.\<close>

lemma asked_found:
  assumes "\<forall>r \<in> set (ethAddressVerifiers lookups). resolvesTo env vs r" "lookup \<in> set lookups"
  shows "\<not> missingVerifier (findEthAddressVerifier env description lookup vs)"
proof -
  from assms have "resolvesTo env vs \<lparr>rv_Lookup = lookup, rv_Algorithm = ECDSA_SECP256K1, rv_VerifierType = ETH_ADDRESS\<rparr>"
    by (auto simp: ethAddressVerifiers_def firstOccurrences_set)
  then show ?thesis by (auto simp: resolvesTo_def findEthAddressVerifier_def split: option.splits)
qed

lemmas handlers = mint_Endorse_def endorseTransfer_def endorseBurn_def lock_Endorse_def lock_transition_def unlock_Endorse_def unlockCommon_endorse_def
  cancelChecks_def prepareUnlock_Endorse_def prepareUnlock_endorse_V0_def createTransferLock_Endorse_def createMintLock_Endorse_def
  createBurnLock_Endorse_def parseLockProposal_def prepareMintUnlock_Endorse_def prepareBurnUnlock_Endorse_def delegateLock_Endorse_def

lemma identifier_kept: "findEthAddressVerifier env description lookup vs = Done i \<Longrightarrow> id_identifier i = lookup"
  by (auto simp: findEthAddressVerifier_def split: option.splits)

lemma Endorse_finds:
  assumes "\<And>lookup description. lookup \<in> namedParties tx \<Longrightarrow> \<not> missingVerifier (findEthAddressVerifier env description lookup (er_ResolvedVerifiers req))"
  shows "\<not> missingVerifier (Endorse env n tx req)"
  using assms
  by (cases "ptx_Params tx")
    (auto simp: Endorse_def namedParties_def handlers validateOwners_def validateLockOwners_def missingVerifier_tryThen keeps_verifiers identifier_kept Let_def
      split: if_splits prod.splits option.splits)

lemma Init_asks:
  assumes "Init env n tx = Done reqs" "lookup \<in> namedParties tx"
  shows "\<exists>lookups. set (ethAddressVerifiers lookups) \<subseteq> set reqs \<and> lookup \<in> set lookups"
proof (cases "ptx_Params tx")
  case (LockParams amount)
  with assms show ?thesis
    by (intro exI [of _ "[cfg_NotaryLookup (ptx_DomainConfig tx), ptx_From tx]"]) (auto simp: initHandlers namedParties_def Let_def)
qed (use assms in \<open>fastforce simp: initHandlers namedParties_def Let_def split: if_splits\<close>)+

text \<open>C21. \<^verbatim>\<open>Init\<close> asks for all verifiers endorsement needs. If every verifier it asks for was resolved, the Ethereum ones to
  addresses that parse, then no handler refuses the proposal because a verifier is missing or is not an address.\<close>

theorem init_verifiers_suffice:
  assumes "Init env n tx = Done reqs" "\<forall>r \<in> set reqs. resolvesTo env (er_ResolvedVerifiers req) r"
  shows "Endorse env n tx req \<noteq> Refused (invalidVerifierError d)"
proof -
  have "\<not> missingVerifier (findEthAddressVerifier env description lookup (er_ResolvedVerifiers req))" if "lookup \<in> namedParties tx" for lookup description
    using Init_asks [OF assms(1) that] assms(2) asked_found by blast
  then have "\<not> missingVerifier (Endorse env n tx req)" by (rule Endorse_finds)
  then show ?thesis by (auto simp: missingVerifier_def)
qed

lemma init_verifiers_suffice_witness:
  "Endorse sampleEnv sampleNoto (fst (sampleTransfer 1)) (snd (sampleTransfer 1)) \<noteq> Refused (invalidVerifierError ''from'')"
proof -
  let ?reqs = "ethAddressVerifiers [''notary@node1'', ''alice@node1'', ''alice@node1'', ''bob@node1'']"
  have "Init sampleEnv sampleNoto (fst (sampleTransfer 1)) = Done ?reqs"
    by (simp add: initHandlers sampleTransfer_def sampleTx_def sampleConfig_def)
  moreover have "\<forall>r \<in> set ?reqs. resolvesTo sampleEnv (er_ResolvedVerifiers (snd (sampleTransfer 1))) r" by code_simp
  ultimately show ?thesis by (rule init_verifiers_suffice)
qed

end
