(* ===== verification/NotoAssemble.thy ===== *)
theory NotoAssemble
  imports NotoEndorse
begin

text \<open>
  Assembly of a mint, a transfer and a burn by the node of the sender: selecting coins, preparing the new coins and the info states, and
  the manifest that names them. What is not a function of the state is a parameter: the random salts, the store that is
  queried (\<open>query\<close>), and the callback of the platform that validates new states and gives them their identifiers (\<open>validate\<close>). The
  result is \<open>None\<close> only if the selection of coins runs for ever. The identifiers the manifest builder writes into the states through
  shared pointers are returned as new versions of the states.
\<close>

section \<open>New states\<close>

record NullifierSpec =
  ns_Party :: string
  ns_Algorithm :: string
  ns_VerifierType :: string
  ns_PayloadType :: string

record NewState =
  nw_Id :: "string option"
  nw_SchemaId :: string
  nw_Data :: stateJSON
  nw_DistributionList :: "string list"
  nw_NullifierSpecs :: "NullifierSpec list"

type_synonym identityList = "identityPair list"

definition identities :: "identityList \<Rightarrow> string list" where
  "identities idl = firstOccurrences {} (map id_identifier idl)"

definition addresses :: "identityList \<Rightarrow> address list" where
  "addresses idl = firstOccurrences {} (map id_address idl)"

definition makeNewState :: "string \<Rightarrow> stateJSON \<Rightarrow> string list \<Rightarrow> NewState" where
  "makeNewState schema data distributionList =
     \<lparr>nw_Id = None, nw_SchemaId = schema, nw_Data = data, nw_DistributionList = distributionList, nw_NullifierSpecs = []\<rparr>"

definition makeNewCoinState :: "Noto \<Rightarrow> NotoCoin \<Rightarrow> string list \<Rightarrow> NewState" where
  "makeNewCoinState n coin dist = makeNewState (noto_coinSchema n) (marshalCoin coin) dist"

definition makeNewInfoState :: "Noto \<Rightarrow> TransactionData \<Rightarrow> uint64 \<Rightarrow> string list \<Rightarrow> NewState" where
  "makeNewInfoState n info variant dist =
     makeNewState (if variant = 0x0000 then noto_dataSchemaV0 n else noto_dataSchemaV2 n) (marshalInfo info) dist"

definition makeNewManifestInfoState :: "Noto \<Rightarrow> NotoManifest \<Rightarrow> string list \<Rightarrow> NewState" where
  "makeNewManifestInfoState n m dist = makeNewState (noto_manifestSchema n) (marshalManifest m) dist"

record preparedOutputs =
  po_distributions :: "identityList list"
  po_coins :: "NotoCoin list"
  po_states :: "NewState list"

definition prepareOutputs :: "Noto \<Rightarrow> Bytes32 \<Rightarrow> identityPair \<Rightarrow> int \<Rightarrow> identityList \<Rightarrow> preparedOutputs" where
  "prepareOutputs n salt owner amount distributionList =
     (let newCoin = \<lparr>coin_Salt = salt, coin_Owner = Some (id_address owner), coin_Amount = Some amount\<rparr> in
      \<lparr>po_distributions = [distributionList], po_coins = [newCoin],
       po_states = [makeNewCoinState n newCoin (identities distributionList)]\<rparr>)"

definition appendOutputs :: "preparedOutputs \<Rightarrow> preparedOutputs \<Rightarrow> preparedOutputs" where
  "appendOutputs a b = \<lparr>po_distributions = po_distributions a @ po_distributions b, po_coins = po_coins a @ po_coins b, po_states = po_states a @ po_states b\<rparr>"

definition NullifierPayloadType :: "notoEnv \<Rightarrow> address \<Rightarrow> string" where
  "NullifierPayloadType env contract = ''domain:noto:nullifier:'' @ env_AddressString env contract"

definition nullifierSpec :: "notoEnv \<Rightarrow> Noto \<Rightarrow> string \<Rightarrow> address \<Rightarrow> NullifierSpec" where
  "nullifierSpec env n party contract = \<lparr>ns_Party = party, ns_Algorithm = AlgoDomainNullifier (noto_name n),
     ns_VerifierType = VERIFIER_DOMAIN_NOTO_NULLIFIER, ns_PayloadType = NullifierPayloadType env contract\<rparr>"

definition addNullifierSpecs :: "notoEnv \<Rightarrow> Noto \<Rightarrow> string \<Rightarrow> address \<Rightarrow> NewState list \<Rightarrow> NewState list" where
  "addNullifierSpecs env n party contract states = map (\<lambda>s. s\<lparr>nw_NullifierSpecs := [nullifierSpec env n party contract]\<rparr>) states"

definition prepareDataInfo ::
  "notoEnv \<Rightarrow> Noto \<Rightarrow> Bytes32 \<Rightarrow> HexBytes \<Rightarrow> uint64 \<Rightarrow> string list \<Rightarrow> string \<Rightarrow> notoVerifier list \<Rightarrow> NewState list attempt" where
  "prepareDataInfo env n salt data variant distributionList transactionFrom vs =
     tryThen (findEthAddressVerifier env ''from'' transactionFrom vs) (\<lambda>fromAddr.
       Done [makeNewInfoState n \<lparr>td_Salt = salt, td_Data = data, td_Variant = variant, td_From = Some (id_address fromAddr)\<rparr> variant distributionList])"

section \<open>Identifiers and the manifest\<close>

type_synonym validator = "NewState list \<Rightarrow> string list option"

definition allocateStateIDs :: "validator \<Rightarrow> NewState list \<Rightarrow> NewState list attempt" where
  "allocateStateIDs validate allStates =
     (case validate allStates of
        None \<Rightarrow> Refused callbackFailedError
      | Some ids \<Rightarrow>
          if length ids > length allStates then Panics
          else Done (map (\<lambda>(s, i). s\<lparr>nw_Id := Some i\<rparr>) (zip allStates ids) @ drop (length ids) allStates))"

text \<open>The states of a list, those without identifier replaced in order.\<close>

fun putBack :: "NewState list \<Rightarrow> NewState list \<Rightarrow> NewState list" where
  "putBack [] allocated = []"
| "putBack (s # ss) allocated =
     (if nw_Id s \<noteq> None then s # putBack ss allocated
      else case allocated of [] \<Rightarrow> s # putBack ss [] | a # as \<Rightarrow> a # putBack ss as)"

fun finalizeNewStates :: "(NewState \<times> identityList) list \<Rightarrow> (Bytes32 \<times> address list) list attempt" where
  "finalizeNewStates [] = Done []"
| "finalizeNewStates ((s, dist) # rest) =
     tryThen (deref (nw_Id s)) (\<lambda>i.
       case ParseBytes32 i of
         Inl _ \<Rightarrow> Refused invalidAssembledStateError
       | Inr stateID \<Rightarrow> tryThen (finalizeNewStates rest) (\<lambda>entries. Done ((stateID, addresses dist) # entries)))"

text \<open>The states in the order in which the builder goes through them, info states first, each with its distribution.\<close>

definition buildManifest :: "validator \<Rightarrow> Noto \<Rightarrow> Bytes32 \<Rightarrow> (NewState \<times> identityList) list \<Rightarrow> (NewState list \<times> NewState) attempt" where
  "buildManifest validate n salt entries =
     tryThen (allocateStateIDs validate (filter (\<lambda>s. nw_Id s = None) (map fst entries))) (\<lambda>allocated.
       let states = putBack (map fst entries) allocated in
       tryThen (finalizeNewStates (zip states (map snd entries))) (\<lambda>manifestStates.
         Done (states, makeNewManifestInfoState n \<lparr>mf_Salt = salt, mf_States = manifestStates\<rparr> (identities (concat (map snd entries))))))"

section \<open>Assembling\<close>

record resolvedIdentities =
  ri_notary :: identityPair
  ri_sender :: identityPair
  ri_from :: "identityPair option"
  ri_to :: "identityPair option"

definition optionalIdentity :: "notoEnv \<Rightarrow> string \<Rightarrow> string \<Rightarrow> notoVerifier list \<Rightarrow> identityPair option attempt" where
  "optionalIdentity env description lookup vs =
     (if lookup = [] then Done None else tryThen (findEthAddressVerifier env description lookup vs) (\<lambda>i. Done (Some i)))"

definition resolveIdentities :: "notoEnv \<Rightarrow> ParsedTransaction \<Rightarrow> notoVerifier list \<Rightarrow> string \<Rightarrow> string \<Rightarrow> resolvedIdentities attempt" where
  "resolveIdentities env tx vs fromLookup toLookup =
     tryThen (findEthAddressVerifier env ''notary'' (cfg_NotaryLookup (ptx_DomainConfig tx)) vs) (\<lambda>notaryID.
     tryThen (findEthAddressVerifier env ''sender'' (ptx_From tx) vs) (\<lambda>senderID.
     tryThen (optionalIdentity env ''from'' fromLookup vs) (\<lambda>fromID.
     tryThen (optionalIdentity env ''to'' toLookup vs) (\<lambda>toID.
       Done \<lparr>ri_notary = notaryID, ri_sender = senderID, ri_from = fromID, ri_to = toID\<rparr>))))"

datatype AttestationType = SIGN | ENDORSE

record AttestationRequest =
  ar_Name :: string
  ar_AttestationType :: AttestationType
  ar_Payload :: HexBytes
  ar_Parties :: "string list"

definition buildEndorsePlan :: "string \<Rightarrow> string \<Rightarrow> HexBytes \<Rightarrow> AttestationRequest list" where
  "buildEndorsePlan notaryParty senderParty signPayload =
     [\<lparr>ar_Name = ''sender'', ar_AttestationType = SIGN, ar_Payload = signPayload, ar_Parties = [senderParty]\<rparr>,
      \<lparr>ar_Name = ''notary'', ar_AttestationType = ENDORSE, ar_Payload = [], ar_Parties = [notaryParty]\<rparr>]"

record AssembledTransaction =
  asm_InputStates :: "(string \<times> string) list"
  asm_OutputStates :: "NewState list"
  asm_InfoStates :: "NewState list"
  asm_AttestationPlan :: "AttestationRequest list"

record assembleSalts =
  as_output :: Bytes32
  as_data :: Bytes32
  as_remainder :: Bytes32
  as_manifest :: Bytes32

text \<open>From version 1 on the manifest is the first info state; building it gives the states of the proposal their identifiers.\<close>

definition withManifest ::
  "validator \<Rightarrow> Noto \<Rightarrow> NotoParsedConfig \<Rightarrow> Bytes32 \<Rightarrow> preparedOutputs \<Rightarrow> identityList \<Rightarrow> NewState list \<Rightarrow> (NewState list \<times> NewState list) attempt" where
  "withManifest validate n cfg salt outputs infoDistribution infoStates =
     (if IsV0 cfg then Done (po_states outputs, infoStates)
      else tryThen (buildManifest validate n salt
                      (map (\<lambda>s. (s, infoDistribution)) infoStates @ zip (po_states outputs) (po_distributions outputs))) (\<lambda>(states, manifest).
           Done (drop (length infoStates) states, manifest # take (length infoStates) states)))"

definition finishAssembly ::
  "notoEnv \<Rightarrow> validator \<Rightarrow> Noto \<Rightarrow> ParsedTransaction \<Rightarrow> Bytes32 \<Rightarrow> (string \<times> string) list \<Rightarrow> NotoCoin list \<Rightarrow> preparedOutputs \<Rightarrow> identityList
     \<Rightarrow> NewState list \<Rightarrow> AssembledTransaction attempt" where
  "finishAssembly env validate n tx salt inputStates inputCoins outputs infoDistribution infoStates =
     tryThen (encodeTransferUnmasked env (ptx_ContractAddress tx) inputCoins (po_coins outputs)) (\<lambda>encodedTransfer.
     tryThen (withManifest validate n (ptx_DomainConfig tx) salt outputs infoDistribution infoStates) (\<lambda>(outputStates, infos).
       Done \<lparr>asm_InputStates = inputStates, asm_OutputStates = outputStates, asm_InfoStates = infos,
             asm_AttestationPlan = buildEndorsePlan (cfg_NotaryLookup (ptx_DomainConfig tx)) (ptx_From tx) encodedTransfer\<rparr>))"

definition specified :: "notoEnv \<Rightarrow> Noto \<Rightarrow> ParsedTransaction \<Rightarrow> string \<Rightarrow> preparedOutputs \<Rightarrow> preparedOutputs" where
  "specified env n tx party outputs =
     (if IsNullifierVariant (ptx_DomainConfig tx)
      then outputs\<lparr>po_states := addNullifierSpecs env n party (ptx_ContractAddress tx) (po_states outputs)\<rparr> else outputs)"

definition assembleTransferOutputs ::
  "notoEnv \<Rightarrow> validator \<Rightarrow> Noto \<Rightarrow> assembleSalts \<Rightarrow> ParsedTransaction \<Rightarrow> notoVerifier list \<Rightarrow> string \<Rightarrow> string \<Rightarrow> int \<Rightarrow> HexBytes \<Rightarrow> resolvedIdentities
     \<Rightarrow> identityPair \<Rightarrow> preparedInputs \<Rightarrow> AssembledTransaction attempt" where
  "assembleTransferOutputs env validate n salts tx vs from to amount data ids fromID inputStates =
     tryThen (deref (ri_to ids)) (\<lambda>toID.
     let parties = [ri_notary ids, ri_sender ids, fromID, toID];
         outputs = specified env n tx to (prepareOutputs n (as_output salts) toID amount parties) in
     tryThen (prepareDataInfo env n (as_data salts) data (cfg_Variant (ptx_DomainConfig tx)) (identities parties) (ptx_From tx) vs) (\<lambda>infoStates.
     let remainder = pi_total inputStates - amount;
         returned = specified env n tx from (prepareOutputs n (as_remainder salts) fromID remainder [ri_notary ids, ri_sender ids, fromID]);
         outputStates = (if pi_total inputStates > amount then appendOutputs outputs returned else outputs) in
     finishAssembly env validate n tx (as_manifest salts) (pi_states inputStates) (pi_coins inputStates) outputStates parties infoStates))"

text \<open>Runs the selection of coins and goes on with what it selected.\<close>

definition withInputs ::
  "notoEnv \<Rightarrow> stateStore \<Rightarrow> Noto \<Rightarrow> identityPair \<Rightarrow> int \<Rightarrow> (preparedInputs \<Rightarrow> 'a attempt) \<Rightarrow> 'a attempt option" where
  "withInputs env query n owner amount k = map_option (\<lambda>r. tryThen r k) (prepareInputs env query n owner amount)"

definition attemptOption :: "'a attempt \<Rightarrow> ('a \<Rightarrow> 'b attempt option) \<Rightarrow> 'b attempt option" where
  "attemptOption m k = (case m of Done x \<Rightarrow> k x | Refused e \<Rightarrow> Some (Refused e) | Panics \<Rightarrow> Some Panics)"

definition assembleTransfer ::
  "notoEnv \<Rightarrow> stateStore \<Rightarrow> validator \<Rightarrow> Noto \<Rightarrow> assembleSalts \<Rightarrow> ParsedTransaction \<Rightarrow> notoVerifier list \<Rightarrow> string \<Rightarrow> string \<Rightarrow> int option \<Rightarrow> HexBytes
     \<Rightarrow> AssembledTransaction attempt option" where
  "assembleTransfer env query validate n salts tx vs from to amount data =
     attemptOption (tryThen (resolveIdentities env tx vs from to) (\<lambda>ids. tryThen (deref (ri_from ids)) (\<lambda>fromID.
                    tryThen (deref amount) (\<lambda>a. Done (ids, fromID, a))))) (\<lambda>(ids, fromID, a).
       withInputs env query n fromID a (assembleTransferOutputs env validate n salts tx vs from to a data ids fromID))"

definition assembleBurnOutputs ::
  "notoEnv \<Rightarrow> validator \<Rightarrow> Noto \<Rightarrow> assembleSalts \<Rightarrow> ParsedTransaction \<Rightarrow> notoVerifier list \<Rightarrow> string \<Rightarrow> int \<Rightarrow> HexBytes \<Rightarrow> resolvedIdentities
     \<Rightarrow> identityPair \<Rightarrow> preparedInputs \<Rightarrow> AssembledTransaction attempt" where
  "assembleBurnOutputs env validate n salts tx vs from amount data ids fromID inputStates =
     (let parties = [ri_notary ids, ri_sender ids, fromID] in
     tryThen (prepareDataInfo env n (as_data salts) data (cfg_Variant (ptx_DomainConfig tx)) (identities parties) (ptx_From tx) vs) (\<lambda>infoStates.
     let outputs = (if pi_total inputStates > amount
                    then specified env n tx from (prepareOutputs n (as_remainder salts) fromID (pi_total inputStates - amount) parties)
                    else \<lparr>po_distributions = [], po_coins = [], po_states = []\<rparr>) in
     finishAssembly env validate n tx (as_manifest salts) (pi_states inputStates) (pi_coins inputStates) outputs parties infoStates))"

definition assembleBurn ::
  "notoEnv \<Rightarrow> stateStore \<Rightarrow> validator \<Rightarrow> Noto \<Rightarrow> assembleSalts \<Rightarrow> ParsedTransaction \<Rightarrow> notoVerifier list \<Rightarrow> string \<Rightarrow> int option \<Rightarrow> HexBytes
     \<Rightarrow> AssembledTransaction attempt option" where
  "assembleBurn env query validate n salts tx vs from amount data =
     attemptOption (tryThen (resolveIdentities env tx vs from []) (\<lambda>ids. tryThen (deref (ri_from ids)) (\<lambda>fromID.
                    tryThen (deref amount) (\<lambda>a. Done (ids, fromID, a))))) (\<lambda>(ids, fromID, a).
       withInputs env query n fromID a (assembleBurnOutputs env validate n salts tx vs from a data ids fromID))"

definition mintSpecs :: "notoEnv \<Rightarrow> Noto \<Rightarrow> ParsedTransaction \<Rightarrow> identityPair \<Rightarrow> identityPair \<Rightarrow> preparedOutputs \<Rightarrow> preparedOutputs" where
  "mintSpecs env n tx notaryID toID outputs =
     (if IsNullifierVariant (ptx_DomainConfig tx) then
        outputs\<lparr>po_states := map (\<lambda>s. s\<lparr>nw_NullifierSpecs :=
          nullifierSpec env n (id_identifier notaryID) (ptx_ContractAddress tx) #
          (if id_identifier toID \<noteq> id_identifier notaryID then [nullifierSpec env n (id_identifier toID) (ptx_ContractAddress tx)] else [])\<rparr>) (po_states outputs)\<rparr>
      else outputs)"

definition mint_Assemble ::
  "notoEnv \<Rightarrow> validator \<Rightarrow> Noto \<Rightarrow> assembleSalts \<Rightarrow> ParsedTransaction \<Rightarrow> notoVerifier list \<Rightarrow> string \<Rightarrow> int option \<Rightarrow> HexBytes \<Rightarrow> AssembledTransaction attempt" where
  "mint_Assemble env validate n salts tx vs to amount data =
     tryThen (resolveIdentities env tx vs [] to) (\<lambda>ids.
     tryThen (deref (ri_to ids)) (\<lambda>toID.
     tryThen (deref amount) (\<lambda>a.
     let outputs = mintSpecs env n tx (ri_notary ids) toID (prepareOutputs n (as_output salts) toID a [ri_notary ids, toID]);
         parties = [ri_notary ids, ri_sender ids, toID] in
     tryThen (prepareDataInfo env n (as_data salts) data (cfg_Variant (ptx_DomainConfig tx)) (identities parties) (ptx_From tx) vs) (\<lambda>infoStates.
       finishAssembly env validate n tx (as_manifest salts) [] [] outputs parties infoStates))))"

text \<open>In a contract with nullifiers every new unlocked coin must carry a specification that names the contract.\<close>

definition validateNullifierSpecs :: "notoEnv \<Rightarrow> Noto \<Rightarrow> address \<Rightarrow> AssembledTransaction \<Rightarrow> unit attempt" where
  "validateNullifierSpecs env n contract assembled =
     require (\<forall>s \<in> set (asm_OutputStates assembled @ asm_InfoStates assembled). nw_SchemaId s = noto_coinSchema n \<longrightarrow>
         nw_NullifierSpecs s \<noteq> [] \<and> (\<forall>spec \<in> set (nw_NullifierSpecs s). ns_PayloadType spec = NullifierPayloadType env contract))
       invalidAssembledStateError"

text \<open>The functions whose assembly is modelled here; \<open>None\<close> for the others, and if the selection of coins does not end.\<close>

definition Assemble ::
  "notoEnv \<Rightarrow> stateStore \<Rightarrow> validator \<Rightarrow> Noto \<Rightarrow> assembleSalts \<Rightarrow> ParsedTransaction \<Rightarrow> notoVerifier list \<Rightarrow> HexBytes \<Rightarrow> AssembledTransaction attempt option" where
  "Assemble env query validate n salts tx vs data =
     (case ptx_Params tx of
        MintParams to amount \<Rightarrow> Some (mint_Assemble env validate n salts tx vs to amount data)
      | TransferParams to amount \<Rightarrow> assembleTransfer env query validate n salts tx vs (ptx_From tx) to amount data
      | TransferFromParams from to amount \<Rightarrow> assembleTransfer env query validate n salts tx vs from to amount data
      | BurnParams amount \<Rightarrow> assembleBurn env query validate n salts tx vs (ptx_From tx) amount data
      | BurnFromParams from amount \<Rightarrow> assembleBurn env query validate n salts tx vs from amount data
      | _ \<Rightarrow> None)"

datatype assembleResponse = ASSEMBLE_OK AssembledTransaction | ASSEMBLE_REVERT notoError | ASSEMBLE_ERROR notoError | ASSEMBLE_PANIC

definition assembleRevertOrError :: "notoError \<Rightarrow> assembleResponse" where
  "assembleRevertOrError e = (if IsAssembleRevert e = Some True then ASSEMBLE_REVERT e else ASSEMBLE_ERROR e)"

definition assembleResponseOf :: "AssembledTransaction attempt \<Rightarrow> assembleResponse" where
  "assembleResponseOf r = (case r of Done a \<Rightarrow> ASSEMBLE_OK a | Refused e \<Rightarrow> assembleRevertOrError e | Panics \<Rightarrow> ASSEMBLE_PANIC)"

definition AssembleTransaction ::
  "notoEnv \<Rightarrow> stateStore \<Rightarrow> validator \<Rightarrow> Noto \<Rightarrow> assembleSalts \<Rightarrow> ParsedTransaction \<Rightarrow> notoVerifier list \<Rightarrow> HexBytes \<Rightarrow> assembleResponse option" where
  "AssembleTransaction env query validate n salts tx vs data =
     map_option (\<lambda>r. assembleResponseOf (tryThen r (\<lambda>a.
         if IsNullifierVariant (ptx_DomainConfig tx) then tryThen (validateNullifierSpecs env n (ptx_ContractAddress tx) a) (\<lambda>_. Done a) else Done a)))
       (Assemble env query validate n salts tx vs data)"

end
