(* ===== verification/NotoSelection.thy ===== *)
theory NotoSelection
  imports NotoSamples "HOL-Library.Sublist"
begin

text \<open>
  Selection of the coins to spend. The state store is a parameter: it is assumed to answer a query as its documentation says, with the
  first states that match, oldest first. Then the loops of \<^verbatim>\<open>prepareInputs\<close> and \<^verbatim>\<open>prepareLockedInputs\<close> end, and select enough
  coins whenever the owner has enough. Where two states may have the same time of creation this fails, as a finding shows.
\<close>

section \<open>A store that serves its states by pages\<close>

definition createdAfter :: "int option \<Rightarrow> StoredState \<Rightarrow> bool" where
  "createdAfter after st \<longleftrightarrow> (case after of None \<Rightarrow> True | Some t \<Rightarrow> ss_CreatedAt st > t)"

definition coinQuery :: "Noto \<Rightarrow> string \<Rightarrow> int option \<Rightarrow> stateQuery" where
  "coinQuery n owner after = \<lparr>q_SchemaId = noto_coinSchema n, q_Limit = 10, q_NewestFirst = False, q_LockId = None, q_Owner = Some owner,
     q_CreatedAfter = after\<rparr>"

definition lockedCoinQuery :: "Noto \<Rightarrow> Bytes32 \<Rightarrow> string \<Rightarrow> int option \<Rightarrow> stateQuery" where
  "lockedCoinQuery n lockID owner after = \<lparr>q_SchemaId = noto_lockedCoinSchema n, q_Limit = 10, q_NewestFirst = False, q_LockId = Some lockID,
     q_Owner = Some owner, q_CreatedAfter = after\<rparr>"

text \<open>The states that match, oldest first, one page at a time; each was created at a time of its own.\<close>

definition servesPages :: "(int option \<Rightarrow> StoredState list option) \<Rightarrow> StoredState list \<Rightarrow> bool" where
  "servesPages page sts \<longleftrightarrow> (\<forall>after. page after = Some (take 10 (filter (createdAfter after) sts)))"

definition orderedByCreation :: "StoredState list \<Rightarrow> bool" where
  "orderedByCreation sts \<longleftrightarrow> sorted_wrt (<) (map ss_CreatedAt sts) \<and> (\<forall>st \<in> set sts. ss_CreatedAt st > 0)"

definition storedAmount :: "StoredState \<Rightarrow> int" where
  "storedAmount st = (case unmarshalCoin (ss_DataJson st) of Some c \<Rightarrow> (case coin_Amount c of Some a \<Rightarrow> a | None \<Rightarrow> 0) | None \<Rightarrow> 0)"

definition readableCoin :: "StoredState \<Rightarrow> bool" where
  "readableCoin st \<longleftrightarrow> (case unmarshalCoin (ss_DataJson st) of Some c \<Rightarrow> coin_Amount c \<noteq> None \<and> storedAmount st \<ge> 0 | None \<Rightarrow> False)"

definition storedLockedAmount :: "StoredState \<Rightarrow> int" where
  "storedLockedAmount st = (case unmarshalLockedCoin (ss_DataJson st) of Some c \<Rightarrow> (case lc_Amount c of Some a \<Rightarrow> a | None \<Rightarrow> 0) | None \<Rightarrow> 0)"

definition readableLockedCoin :: "StoredState \<Rightarrow> bool" where
  "readableLockedCoin st \<longleftrightarrow> (case unmarshalLockedCoin (ss_DataJson st) of Some c \<Rightarrow> lc_Amount c \<noteq> None | None \<Rightarrow> False)"

abbreviation stored_total :: "StoredState list \<Rightarrow> int" where
  "stored_total sts \<equiv> sum_list (map storedAmount sts)"

definition selected :: "StoredState list \<Rightarrow> preparedInputs" where
  "selected sts = \<lparr>pi_coins = map (\<lambda>st. the (unmarshalCoin (ss_DataJson st))) sts, pi_states = map (\<lambda>st. (ss_SchemaId st, ss_Id st)) sts,
     pi_total = stored_total sts\<rparr>"

definition selectedLocked :: "StoredState list \<Rightarrow> preparedLockedInputs" where
  "selectedLocked sts = \<lparr>pli_coins = map (\<lambda>st. the (unmarshalLockedCoin (ss_DataJson st))) sts,
     pli_states = map (\<lambda>st. (ss_SchemaId st, ss_Id st)) sts, pli_total = sum_list (map storedLockedAmount sts)\<rparr>"

text \<open>The time the loops remember after the first states of the list.\<close>

definition lastCreated :: "StoredState list \<Rightarrow> int" where
  "lastCreated sts = (if sts = [] then 0 else ss_CreatedAt (last sts))"

definition afterOf :: "int \<Rightarrow> int option" where
  "afterOf t = (if t > 0 then Some t else None)"

text \<open>A store for the witnesses: coins of one each, the given number of them, created at the given times.\<close>

definition oneCoin :: "(nat \<Rightarrow> int) \<Rightarrow> nat \<Rightarrow> StoredState" where
  "oneCoin created i = \<lparr>ss_Id = replicate i (CHR ''c''), ss_SchemaId = ''coin'', ss_CreatedAt = created i,
     ss_DataJson = marshalCoin \<lparr>coin_Salt = stateId (of_nat i), coin_Owner = Some aliceAddress, coin_Amount = Some 1\<rparr>\<rparr>"

definition oneLockedCoin :: "(nat \<Rightarrow> int) \<Rightarrow> nat \<Rightarrow> StoredState" where
  "oneLockedCoin created i = \<lparr>ss_Id = replicate i (CHR ''l''), ss_SchemaId = ''locked'', ss_CreatedAt = created i,
     ss_DataJson = marshalLockedCoin \<lparr>lc_Salt = stateId (of_nat i), lc_LockID = replicate 32 7, lc_Owner = Some aliceAddress, lc_Amount = Some 1\<rparr>\<rparr>"

definition storeOf :: "StoredState list \<Rightarrow> stateStore" where
  "storeOf sts q = Some (take (q_Limit q) (filter (createdAfter (q_CreatedAfter q)) sts))"

section \<open>Paging\<close>

lemma page_rest:
  assumes "orderedByCreation (seen @ rest)" "servesPages page (seen @ rest)"
  shows "page (afterOf (lastCreated seen)) = Some (take 10 rest)"
proof (cases seen rule: rev_cases)
  case Nil
  with assms(2) show ?thesis by (simp add: servesPages_def afterOf_def lastCreated_def createdAfter_def)
next
  case (snoc front st)
  with assms(1) have "ss_CreatedAt st > 0" and "\<forall>x \<in> set seen. \<not> createdAfter (Some (ss_CreatedAt st)) x"
    and "\<forall>x \<in> set rest. createdAfter (Some (ss_CreatedAt st)) x"
    by (auto simp: orderedByCreation_def createdAfter_def sorted_wrt_append)
  with snoc assms(2) show ?thesis by (simp add: servesPages_def afterOf_def lastCreated_def)
qed

lemma lastCreated_append [simp]: "sts \<noteq> [] \<Longrightarrow> lastCreated (seen @ sts) = ss_CreatedAt (last sts)"
  by (simp add: lastCreated_def)

lemma selectCoins_all:
  "\<forall>st \<in> set sts. readableCoin st \<Longrightarrow> selectCoins sts (lastCreated seen) (selected seen) = Done (lastCreated (seen @ sts), selected (seen @ sts))"
proof (induction sts arbitrary: seen)
  case (Cons st sts)
  from Cons.prems obtain c a where c: "unmarshalCoin (ss_DataJson st) = Some c" "coin_Amount c = Some a"
    by (auto simp: readableCoin_def split: option.splits)
  from Cons.IH [of "seen @ [st]"] Cons.prems c show ?case by (simp add: selected_def storedAmount_def)
qed simp

lemma stored_total_split: "stored_total sts = stored_total (take k sts) + stored_total (drop k sts)"
  by (metis append_take_drop_id map_append sum_list_append)

lemma stored_total_nonneg: "\<forall>st \<in> set sts. readableCoin st \<Longrightarrow> stored_total sts \<ge> 0"
  by (rule sum_list_nonneg) (auto simp: readableCoin_def split: option.splits)

lemma prepareInputsLoop_returns:
  assumes "orderedByCreation (seen @ rest)" "servesPages (\<lambda>after. query (coinQuery n owner after)) (seen @ rest)"
    and "\<forall>st \<in> set (seen @ rest). readableCoin st"
  shows "\<exists>more. prefix more rest \<and> prepareInputsLoop query n owner amount (lastCreated seen) (selected seen) =
           Some (if stored_total (seen @ rest) \<ge> amount then Done (selected (seen @ more)) else Refused (insufficientFundsError (stored_total (seen @ rest)))) \<and>
           (stored_total (seen @ rest) \<ge> amount \<longrightarrow> stored_total (seen @ more) \<ge> amount)"
  using assms
proof (induction "length rest" arbitrary: seen rest rule: less_induct)
  case less
  note loop = prepareInputsLoop.simps [of query n owner amount "lastCreated seen" "selected seen"]
  have page: "query (coinQuery n owner (afterOf (lastCreated seen))) = Some (take 10 rest)"
    using page_rest [OF less.prems(1,2)] by simp
  show ?case
  proof (cases "stored_total seen < amount")
    case False
    moreover have "stored_total (seen @ rest) \<ge> stored_total seen" using stored_total_nonneg [of rest] less.prems(3) by simp
    ultimately show ?thesis by (intro exI [of _ "[]"]) (simp add: loop, simp add: selected_def)
  next
    case True
    show ?thesis
    proof (cases "rest = []")
      case [simp]: True
      from page \<open>stored_total seen < amount\<close> show ?thesis
        by (intro exI [of _ "[]"]) (simp add: loop coinQuery_def afterOf_def, simp add: selected_def)
    next
      case False
      let ?seen = "seen @ take 10 rest" and ?rest = "drop 10 rest"
      have same: "?seen @ ?rest = seen @ rest" by simp
      have "length ?rest < length rest" using False by simp
      from less.hyps [OF this, of ?seen] less.prems obtain rest2 where
        rest2: "prefix rest2 ?rest" "stored_total (seen @ rest) \<ge> amount \<longrightarrow> stored_total (?seen @ rest2) \<ge> amount"
        "prepareInputsLoop query n owner amount (lastCreated ?seen) (selected ?seen) =
           Some (if stored_total (seen @ rest) \<ge> amount then Done (selected (?seen @ rest2)) else Refused (insufficientFundsError (stored_total (seen @ rest))))"
        unfolding same by blast
      have "prefix (take 10 rest @ rest2) rest" using rest2(1) by (metis append_take_drop_id same_prefix_prefix)
      moreover have "selectCoins (take 10 rest) (lastCreated seen) (selected seen) = Done (lastCreated ?seen, selected ?seen)"
        by (rule selectCoins_all) (use less.prems(3) in \<open>auto dest: in_set_takeD\<close>)
      then have "prepareInputsLoop query n owner amount (lastCreated seen) (selected seen) =
          prepareInputsLoop query n owner amount (lastCreated ?seen) (selected ?seen)"
        using page True False by (subst loop) (simp add: coinQuery_def afterOf_def selected_def)
      ultimately show ?thesis using rest2(2,3) by (intro exI [of _ "take 10 rest @ rest2"]) simp
    qed
  qed
qed

section \<open>Selecting enough\<close>

lemma prepareInputs_returns:
  assumes "servesPages (\<lambda>after. query (coinQuery n (env_AddressString env (id_address owner)) after)) coins"
    and "orderedByCreation coins" "\<forall>st \<in> set coins. readableCoin st"
  shows "\<exists>chosen. prefix chosen coins \<and> (stored_total coins \<ge> amount \<longrightarrow> stored_total chosen \<ge> amount) \<and>
           prepareInputs env query n owner amount =
             Some (if stored_total coins \<ge> amount then Done (selected chosen) else Refused (insufficientFundsError (stored_total coins)))"
  using prepareInputsLoop_returns [of "[]" coins query n "env_AddressString env (id_address owner)" amount] assms
  by (auto simp: prepareInputs_def lastCreated_def selected_def)



lemma selectLockedCoins_all:
  "\<forall>st \<in> set sts. readableLockedCoin st \<Longrightarrow>
     selectLockedCoins True amount sts (lastCreated seen) (selectedLocked seen) = Done (lastCreated (seen @ sts), selectedLocked (seen @ sts))"
proof (induction sts arbitrary: seen)
  case (Cons st sts)
  from Cons.prems obtain c a where c: "unmarshalLockedCoin (ss_DataJson st) = Some c" "lc_Amount c = Some a"
    by (auto simp: readableLockedCoin_def split: option.splits)
  from Cons.IH [of "seen @ [st]"] Cons.prems c show ?case by (simp add: selectedLocked_def storedLockedAmount_def Let_def)
qed simp

lemma prepareLockedInputsLoop_all:
  assumes "orderedByCreation (seen @ rest)" "servesPages (\<lambda>after. query (lockedCoinQuery n lockID owner after)) (seen @ rest)"
    and "\<forall>st \<in> set (seen @ rest). readableLockedCoin st"
  shows "prepareLockedInputsLoop query n lockID owner amount True (lastCreated seen) (selectedLocked seen) =
           Some (if pli_total (selectedLocked (seen @ rest)) \<ge> amount then Done (selectedLocked (seen @ rest))
                 else Refused (insufficientFundsError (pli_total (selectedLocked (seen @ rest)))))"
  using assms
proof (induction "length rest" arbitrary: seen rest rule: less_induct)
  case less
  have page: "query (lockedCoinQuery n lockID owner (afterOf (lastCreated seen))) = Some (take 10 rest)"
    using page_rest [OF less.prems(1,2)] by simp
  have sel: "selectLockedCoins True amount (take 10 rest) (lastCreated seen) (selectedLocked seen) =
      Done (lastCreated (seen @ take 10 rest), selectedLocked (seen @ take 10 rest))"
    by (rule selectLockedCoins_all) (use less.prems(3) in \<open>auto dest: in_set_takeD\<close>)
  show ?case
  proof (cases "length rest < 10")
    case True
    with page sel show ?thesis
      by (subst prepareLockedInputsLoop.simps) (simp add: lockedCoinQuery_def afterOf_def)
  next
    case False
    then have "length (drop 10 rest) < length rest" by simp
    from less.hyps [OF this, of "seen @ take 10 rest"] less.prems False page sel show ?thesis
      by (subst prepareLockedInputsLoop.simps) (simp add: lockedCoinQuery_def afterOf_def)
  qed
qed

text \<open>An unlock takes all coins of the lock. Against such a store, selecting all locked coins of an owner under a lock returns every
  one of them, and fails only if together they are worth less than the amount.\<close>

theorem locked_selection_takes_all:
  assumes "servesPages (\<lambda>after. query (lockedCoinQuery n lockID (env_AddressString env owner) after)) coins"
    and "orderedByCreation coins" "\<forall>st \<in> set coins. readableLockedCoin st"
  shows "prepareLockedInputs env query n lockID owner amount True =
           Some (if pli_total (selectedLocked coins) \<ge> amount then Done (selectedLocked coins)
                 else Refused (insufficientFundsError (pli_total (selectedLocked coins))))"
  using prepareLockedInputsLoop_all [of "[]" coins query n lockID "env_AddressString env owner" amount] assms
  by (simp add: prepareLockedInputs_def lastCreated_def selectedLocked_def)

lemma locked_selection_takes_all_witness:
  "prepareLockedInputs sampleEnv (storeOf (map (oneLockedCoin int) [1..<14])) sampleNoto (replicate 32 7) aliceAddress 5 True =
     Some (Done (selectedLocked (map (oneLockedCoin int) [1..<14])))"
proof -
  let ?coins = "map (oneLockedCoin int) [1..<14]"
  have "servesPages (\<lambda>after. storeOf ?coins (lockedCoinQuery sampleNoto (replicate 32 7) owner after)) ?coins" for owner
    by (simp add: servesPages_def storeOf_def lockedCoinQuery_def)
  moreover have "orderedByCreation ?coins" by code_simp
  moreover have "\<forall>st \<in> set ?coins. readableLockedCoin st" by code_simp
  moreover have "pli_total (selectedLocked ?coins) \<ge> 5" by code_simp
  ultimately show ?thesis
    using locked_selection_takes_all [of "storeOf ?coins" sampleNoto "replicate 32 7" sampleEnv aliceAddress ?coins 5] by auto
qed

section \<open>Findings\<close>

text \<open>Coins created at the same time are skipped. The next page starts after the time of the last coin of a page, so of more
  than ten coins with one time of creation only ten are ever selected: an owner of eleven such coins of one each cannot spend eleven.\<close>

theorem coins_of_same_time_skipped:
  "prepareInputs sampleEnv (storeOf (map (oneCoin (\<lambda>_. 1)) [1..<12])) sampleNoto \<lparr>id_identifier = ''alice@node1'', id_address = aliceAddress\<rparr> 11 =
     Some (Refused (insufficientFundsError 10)) \<and>
   stored_total (map (oneCoin (\<lambda>_. 1)) [1..<12]) = 11"
  by code_simp

text \<open>Reaching the total does not stop the selection. Leaving the loop over a full page only goes on to the next page, so for a
  lock of ten coins of one each two coins are selected for an amount of one.\<close>

theorem locked_selection_exceeds_total:
  "map_option (\<lambda>r. case r of Done p \<Rightarrow> Some (pli_total p) | _ \<Rightarrow> None)
     (prepareLockedInputs sampleEnv (storeOf (map (oneLockedCoin int) [1..<11])) sampleNoto (replicate 32 7) aliceAddress 1 False) = Some (Some 2)"
  by code_simp

end
