(* ===== verification/NotoAssembleProperties.thy ===== *)
theory NotoAssembleProperties
  imports NotoAssemble NotoSelection NotoSupply
begin

text \<open>
  The two ends of a transfer fit together: what the sender's node assembles, the notary endorses. The platform in between is described by
  what it hands over: the inputs as the store has them, the outputs with the data that was assembled and the identifiers it gave them, and
  a signature over the payload of the attestation plan.
\<close>

section \<open>What is handed over\<close>

definition stateOf :: "StoredState \<Rightarrow> notoState" where
  "stateOf s = \<lparr>st_Id = ss_Id s, st_SchemaId = ss_SchemaId s, st_Data = ss_DataJson s\<rparr>"

definition fetchStates :: "StoredState list \<Rightarrow> (string \<times> string) list \<Rightarrow> notoState list" where
  "fetchStates store refs = map (\<lambda>(_, i). stateOf (the (find (\<lambda>s. ss_Id s = i) store))) refs"

definition handedOver :: "NewState list \<Rightarrow> notoState list \<Rightarrow> bool" where
  "handedOver news sts \<longleftrightarrow> map (\<lambda>s. (nw_SchemaId s, nw_Data s)) news = map (\<lambda>st. (st_SchemaId st, st_Data st)) sts \<and> distinct (map st_Id sts)"

definition signsPlan :: "notoEnv \<Rightarrow> AttestationRequest list \<Rightarrow> notoAttestation list \<Rightarrow> bool" where
  "signsPlan env plan signatures \<longleftrightarrow>
     (case (find (\<lambda>r. ar_Name r = ''sender'') plan, FindAttestation ''sender'' signatures) of
        (Some r, Some s) \<Rightarrow>
          (case (env_Recover env (ar_Payload r) (na_Payload s), na_Verifier s) of
             (Some a, Some v) \<Rightarrow> env_AddressString env a = nv_Verifier v
           | _ \<Rightarrow> False)
      | _ \<Rightarrow> False)"

text \<open>The coins of an owner in the store: each is a coin of the owner's, with an identifier of its own.\<close>

definition coinsOf :: "Noto \<Rightarrow> address \<Rightarrow> StoredState list \<Rightarrow> bool" where
  "coinsOf n owner coins \<longleftrightarrow> orderedByCreation coins \<and> distinct (map ss_Id coins) \<and>
     (\<forall>s \<in> set coins. ss_SchemaId s = noto_coinSchema n \<and> readableCoin s \<and> map_option coin_Owner (unmarshalCoin (ss_DataJson s)) = Some (Some owner))"

definition plainCoin :: "Noto \<Rightarrow> notoState \<Rightarrow> bool" where
  "plainCoin n st \<longleftrightarrow> st_SchemaId st = noto_coinSchema n \<and> (\<exists>c a. unmarshalCoin (st_Data st) = Some c \<and> coin_Amount c = Some a)"

text \<open>The coins a transfer creates: the payment, and the change if there is any.\<close>

definition transferOutputs :: "assembleSalts \<Rightarrow> identityPair \<Rightarrow> identityPair \<Rightarrow> int \<Rightarrow> int \<Rightarrow> NotoCoin list" where
  "transferOutputs salts fromID toID inputTotal amount =
     \<lparr>coin_Salt = as_output salts, coin_Owner = Some (id_address toID), coin_Amount = Some amount\<rparr> #
     (if inputTotal > amount then [\<lparr>coin_Salt = as_remainder salts, coin_Owner = Some (id_address fromID), coin_Amount = Some (inputTotal - amount)\<rparr>] else [])"

text \<open>A transfer of two by Alice, who has three coins of one, for the witness: assembled, and handed over to the notary.\<close>

definition sampleCoins :: "StoredState list" where
  "sampleCoins = map (oneCoin int) [1..<4]"

definition sampleSalts :: assembleSalts where
  "sampleSalts = \<lparr>as_output = stateId 0x51, as_data = stateId 0x52, as_remainder = stateId 0x53, as_manifest = stateId 0x54\<rparr>"

definition sampleAssembly :: "assembleResponse option" where
  "sampleAssembly = AssembleTransaction sampleEnv (storeOf sampleCoins) (\<lambda>_. None) sampleNoto sampleSalts
     (sampleTx 0 ''alice@node1'' (TransferParams ''bob@node1'' (Some 2))) sampleVerifiers []"

definition sampleAssembled :: AssembledTransaction where
  "sampleAssembled = (case sampleAssembly of Some (ASSEMBLE_OK a) \<Rightarrow> a
     | _ \<Rightarrow> \<lparr>asm_InputStates = [], asm_OutputStates = [], asm_InfoStates = [], asm_AttestationPlan = []\<rparr>)"

fun named :: "nat \<Rightarrow> NewState list \<Rightarrow> notoState list" where
  "named k [] = []"
| "named k (s # ss) = \<lparr>st_Id = replicate k (CHR ''o''), st_SchemaId = nw_SchemaId s, st_Data = nw_Data s\<rparr> # named (Suc k) ss"

definition sampleHandover :: EndorseTransactionRequest where
  "sampleHandover = \<lparr>er_ResolvedVerifiers = sampleVerifiers, er_Inputs = fetchStates sampleCoins (asm_InputStates sampleAssembled), er_Reads = [],
     er_Outputs = named 1 (asm_OutputStates sampleAssembled),
     er_Info = [], er_Signatures = signedBy ''0xalice'' aliceAddress\<rparr>"

section \<open>Reading back\<close>

lemma unmarshal_marshal_coin: "coin_Amount c = Some a \<Longrightarrow> a \<ge> 0 \<Longrightarrow> unmarshalCoin (marshalCoin c) = Some c"
  by (cases c) (simp add: unmarshalCoin_def marshalCoin_def emptyJSON_def ptrField_def fieldOr_def fieldPtr_def split: option.splits)

lemma parseCoinLoop_plain:
  "\<forall>st \<in> set sts. plainCoin n st \<and> st_Id st \<notin> used \<Longrightarrow> distinct (map st_Id sts) \<Longrightarrow>
     parseCoinLoop n used sts acc = Done (acc\<lparr>pcs_coins := pcs_coins acc @ map (\<lambda>st. the (unmarshalCoin (st_Data st))) sts,
       pcs_total := pcs_total acc + coins_value n sts, pcs_states := pcs_states acc @ map st_Id sts\<rparr>)"
proof (induction sts arbitrary: used acc)
  case (Cons st sts)
  from Cons.prems(1) obtain c a where c: "st_SchemaId st = noto_coinSchema n" "unmarshalCoin (st_Data st) = Some c" "coin_Amount c = Some a"
    by (auto simp: plainCoin_def)
  have "\<forall>s \<in> set sts. plainCoin n s \<and> st_Id s \<notin> insert (st_Id st) used" using Cons.prems by (auto simp: image_iff)
  from Cons.IH [OF this] Cons.prems c show ?case by (simp add: coinValue_def)
qed simp

lemma parseCoinList_plain:
  assumes "\<forall>st \<in> set sts. plainCoin n st" "distinct (map st_Id sts)"
  shows "parseCoinList n sts = Done (noCoins\<lparr>pcs_coins := map (\<lambda>st. the (unmarshalCoin (st_Data st))) sts,
           pcs_total := coins_value n sts, pcs_states := map st_Id sts\<rparr>)"
  using parseCoinLoop_plain [of sts n "{}" noCoins] assms by (simp add: parseCoinList_def noCoins_def)

lemma fetch_chosen:
  assumes "distinct (map ss_Id coins)" "set chosen \<subseteq> set coins"
  shows "fetchStates coins (pi_states (selected chosen)) = map stateOf chosen"
proof -
  have "find (\<lambda>s. ss_Id s = ss_Id c) coins = Some c" if "c \<in> set coins" for c
    using assms(1) that by (induction coins) (auto simp: image_iff)
  with assms(2) show ?thesis by (auto simp: fetchStates_def selected_def)
qed

section \<open>Assembly keeps the data\<close>

abbreviation content :: "NewState \<Rightarrow> string \<times> stateJSON" where
  "content s \<equiv> (nw_SchemaId s, nw_Data s)"

lemma numbered_content:
  "length ids \<le> length sts \<Longrightarrow> map content (map (\<lambda>(s, i). s\<lparr>nw_Id := Some i\<rparr>) (zip sts ids)) = map content (take (length ids) sts)"
  by (auto intro!: nth_equalityI)

lemma allocateStateIDs_content:
  assumes "allocateStateIDs validate sts = Done sts1"
  shows "map content sts1 = map content sts"
proof -
  from assms obtain ids where "length ids \<le> length sts"
    and sts1: "sts1 = map (\<lambda>(s, i). s\<lparr>nw_Id := Some i\<rparr>) (zip sts ids) @ drop (length ids) sts"
    by (force simp: allocateStateIDs_def not_less split: option.splits if_splits)
  with numbered_content show ?thesis by (metis (no_types, lifting) append_take_drop_id map_append)
qed

lemma putBack_content: "map content allocated = map content (filter (\<lambda>s. nw_Id s = None) sts) \<Longrightarrow> map content (putBack sts allocated) = map content sts"
  by (induction sts allocated rule: putBack.induct) (auto split: list.splits if_splits)

lemma withManifest_content:
  assumes "withManifest validate n cfg salt outputs infoDistribution infos = Done (outs, infos1)" "length (po_states outputs) = length (po_distributions outputs)"
  shows "map content outs = map content (po_states outputs)"
proof (cases "IsV0 cfg")
  case True
  with assms(1) show ?thesis by (simp add: withManifest_def)
next
  case False
  let ?entries = "map (\<lambda>s. (s, infoDistribution)) infos @ zip (po_states outputs) (po_distributions outputs)"
  from False assms(1) obtain sts manifest where "buildManifest validate n salt ?entries = Done (sts, manifest)" and outs: "outs = drop (length infos) sts"
    by (auto simp: withManifest_def)
  then obtain allocated where a: "allocateStateIDs validate (filter (\<lambda>s. nw_Id s = None) (map fst ?entries)) = Done allocated"
    and sts: "sts = putBack (map fst ?entries) allocated"
    by (auto simp: buildManifest_def Let_def)
  have fst_entries: "map fst ?entries = infos @ po_states outputs" using assms(2) by (simp add: comp_def)
  have "map content sts = map content (infos @ po_states outputs)"
    unfolding sts fst_entries by (rule putBack_content) (use allocateStateIDs_content [OF a] in \<open>simp only: fst_entries\<close>)
  then show ?thesis unfolding outs by (metis (no_types, lifting) append_eq_conv_conj drop_map length_map map_append)
qed

lemma finishAssembly_Done:
  assumes "finishAssembly env validate n tx salt inputStates inputCoins outputs dist infos = Done asm"
    and "length (po_states outputs) = length (po_distributions outputs)"
  obtains encoded where "encodeTransferUnmasked env (ptx_ContractAddress tx) inputCoins (po_coins outputs) = Done encoded"
    and "asm_InputStates asm = inputStates" "map content (asm_OutputStates asm) = map content (po_states outputs)"
    and "asm_AttestationPlan asm = buildEndorsePlan (cfg_NotaryLookup (ptx_DomainConfig tx)) (ptx_From tx) encoded"
  using assms withManifest_content by (auto simp: finishAssembly_def split: prod.splits)

section \<open>A transfer from assembly to endorsement\<close>

lemma specified_simps [simp]:
  "po_coins (specified env n tx party outputs) = po_coins outputs"
  "po_distributions (specified env n tx party outputs) = po_distributions outputs"
  "map content (po_states (specified env n tx party outputs)) = map content (po_states outputs)"
  by (simp_all add: specified_def addNullifierSpecs_def comp_def)

lemma specified_length [simp]: "length (po_states (specified env n tx party outputs)) = length (po_states outputs)"
  by (simp add: specified_def addNullifierSpecs_def)

lemma assembleTransferOutputs_Done:
  assumes "assembleTransferOutputs env validate n salts tx vs owner to amount data ids fromID inputs = Done asm"
  obtains toID encoded where "ri_to ids = Some toID"
    and "encodeTransferUnmasked env (ptx_ContractAddress tx) (pi_coins inputs) (transferOutputs salts fromID toID (pi_total inputs) amount) = Done encoded"
    and "asm_InputStates asm = pi_states inputs"
    and "map content (asm_OutputStates asm) =
           map (\<lambda>c. (noto_coinSchema n, marshalCoin c)) (transferOutputs salts fromID toID (pi_total inputs) amount)"
    and "asm_AttestationPlan asm = buildEndorsePlan (cfg_NotaryLookup (ptx_DomainConfig tx)) (ptx_From tx) encoded"
proof -
  from assms obtain toID infos where to: "ri_to ids = Some toID"
    and fin: "finishAssembly env validate n tx (as_manifest salts) (pi_states inputs) (pi_coins inputs)
      (let outputs = specified env n tx to (prepareOutputs n (as_output salts) toID amount [ri_notary ids, ri_sender ids, fromID, toID]);
           returned = specified env n tx owner (prepareOutputs n (as_remainder salts) fromID (pi_total inputs - amount) [ri_notary ids, ri_sender ids, fromID])
       in if pi_total inputs > amount then appendOutputs outputs returned else outputs) [ri_notary ids, ri_sender ids, fromID, toID] infos = Done asm"
    by (auto simp: assembleTransferOutputs_def Let_def)
  show thesis
    by (rule finishAssembly_Done [OF fin])
      (auto simp: Let_def appendOutputs_def prepareOutputs_def transferOutputs_def makeNewCoinState_def makeNewState_def intro!: that [OF to] split: if_splits)
qed

lemma assembleTransfer_Done:
  assumes "assembleTransfer env query validate n salts tx vs owner to amount data = Some (Done asm)"
  obtains ids fromID a inputs where "resolveIdentities env tx vs owner to = Done ids" "findEthAddressVerifier env ''from'' owner vs = Done fromID"
    and "amount = Some a" "prepareInputs env query n fromID a = Some (Done inputs)"
    and "assembleTransferOutputs env validate n salts tx vs owner to a data ids fromID inputs = Done asm"
  using assms
  by (auto simp: assembleTransfer_def attemptOption_def withInputs_def resolveIdentities_def optionalIdentity_def split: attempt.splits if_splits)

lemma outputs_read_back:
  "map (\<lambda>st. (st_SchemaId st, st_Data st)) outs = map (\<lambda>c. (noto_coinSchema n, marshalCoin c)) cs \<Longrightarrow>
   \<forall>c \<in> set cs. \<exists>a. coin_Amount c = Some a \<and> a \<ge> 0 \<Longrightarrow>
     (\<forall>st \<in> set outs. plainCoin n st) \<and> map (\<lambda>st. the (unmarshalCoin (st_Data st))) outs = cs \<and>
     coins_value n outs = sum_list (map (\<lambda>c. the (coin_Amount c)) cs)"
proof (induction cs arbitrary: outs)
  case (Cons c cs)
  then obtain st sts a where outs: "outs = st # sts" and st: "st_SchemaId st = noto_coinSchema n" "st_Data st = marshalCoin c"
    and a: "coin_Amount c = Some a" "a \<ge> 0" by auto
  from Cons.IH [of sts] Cons.prems outs st a unmarshal_marshal_coin [OF a] show ?case
    by (simp add: plainCoin_def coinValue_def)
qed simp

lemma inputs_read_back:
  assumes "coinsOf n owner coins" "prefix chosen coins"
  shows "\<forall>st \<in> set (map stateOf chosen). plainCoin n st" "distinct (map st_Id (map stateOf chosen))"
    and "coins_value n (map stateOf chosen) = stored_total chosen" "\<forall>c \<in> set (pi_coins (selected chosen)). coin_Owner c = Some owner"
    and "fetchStates coins (pi_states (selected chosen)) = map stateOf chosen"
proof -
  from assms(2) have sub: "set chosen \<subseteq> set coins" by (rule set_mono_prefix)
  with assms(1) have c: "\<forall>s \<in> set chosen. ss_SchemaId s = noto_coinSchema n \<and> readableCoin s \<and>
      map_option coin_Owner (unmarshalCoin (ss_DataJson s)) = Some (Some owner)" by (auto simp: coinsOf_def)
  then show "\<forall>st \<in> set (map stateOf chosen). plainCoin n st"
    by (auto simp: plainCoin_def stateOf_def readableCoin_def split: option.splits)
  from assms show "distinct (map st_Id (map stateOf chosen))"
    by (auto simp: coinsOf_def stateOf_def comp_def prefix_def)
  from c show "coins_value n (map stateOf chosen) = stored_total chosen"
    by (induction chosen) (auto simp: stateOf_def coinValue_def storedAmount_def)
  from c show "\<forall>c \<in> set (pi_coins (selected chosen)). coin_Owner c = Some owner" by (auto simp: selected_def)
  from assms(1) sub show "fetchStates coins (pi_states (selected chosen)) = map stateOf chosen"
    by (intro fetch_chosen) (auto simp: coinsOf_def)
qed

lemma signsPlan_validates:
  assumes "signsPlan env (buildEndorsePlan notary sender encoded) signatures"
  shows "validateSignature env ''sender'' signatures encoded = Done ()"
  using assms by (auto simp: signsPlan_def validateSignature_def buildEndorsePlan_def split: option.splits)

lemma endorseTransfer_accepts:
  assumes coins: "coinsOf n (id_address fromID) coins" "prefix chosen coins" and owner: "findEthAddressVerifier env ''from'' owner (er_ResolvedVerifiers req) = Done fromID"
    and amount: "0 < amount" "amount \<le> stored_total chosen"
    and ins: "er_Inputs req = map stateOf chosen" and outs: "handedOver news (er_Outputs req)"
    and news: "map content news = map (\<lambda>c. (noto_coinSchema n, marshalCoin c)) (transferOutputs salts fromID toID (stored_total chosen) amount)"
    and encoded: "encodeTransferUnmasked env (ptx_ContractAddress tx) (pi_coins (selected chosen)) (transferOutputs salts fromID toID (stored_total chosen) amount) = Done encoded"
    and signature: "validateSignature env ''sender'' (er_Signatures req) encoded = Done ()"
  shows "endorseTransfer env n tx req owner = Done ()"
proof -
  let ?cs = "transferOutputs salts fromID toID (stored_total chosen) amount"
  note i = inputs_read_back [OF coins]
  from outs news have "map (\<lambda>st. (st_SchemaId st, st_Data st)) (er_Outputs req) = map (\<lambda>c. (noto_coinSchema n, marshalCoin c)) ?cs"
    and d: "distinct (map st_Id (er_Outputs req))" by (auto simp: handedOver_def)
  moreover have "\<forall>c \<in> set ?cs. \<exists>a. coin_Amount c = Some a \<and> a \<ge> 0" using amount by (auto simp: transferOutputs_def)
  ultimately have o: "\<forall>st \<in> set (er_Outputs req). plainCoin n st" "map (\<lambda>st. the (unmarshalCoin (st_Data st))) (er_Outputs req) = ?cs"
    "coins_value n (er_Outputs req) = sum_list (map (\<lambda>c. the (coin_Amount c)) ?cs)"
    using outputs_read_back by blast+
  have total: "coins_value n (er_Outputs req) = stored_total chosen" using o(3) amount by (simp add: transferOutputs_def)
  have in_coins: "map (\<lambda>st. the (unmarshalCoin (st_Data st))) (map stateOf chosen) = pi_coins (selected chosen)"
    by (simp add: selected_def stateOf_def comp_def)
  have "pi_coins (selected chosen) \<noteq> []" using amount by (auto simp: selected_def)
  with i total show ?thesis
    using parseCoinList_plain [OF i(1,2)] parseCoinList_plain [OF o(1) d] o(2) in_coins owner encoded signature
    by (simp add: endorseTransfer_def ins validateTransferAmounts_def validateOwners_def ownersLoop_Done)
qed

lemma tryThen_return [simp]: "tryThen m Done = m"
  by (cases m) simp_all

lemma assembleResponse_OK [simp]: "assembleResponseOf r = ASSEMBLE_OK a \<longleftrightarrow> r = Done a"
  by (auto simp: assembleResponseOf_def assembleRevertOrError_def split: attempt.splits)


lemma named_content [simp]: "map (\<lambda>st. (st_SchemaId st, st_Data st)) (named k news) = map content news"
  by (induction k news rule: named.induct) simp_all

lemma named_ids: "distinct (map st_Id (named k news)) \<and> (\<forall>st \<in> set (named k news). length (st_Id st) \<ge> k)"
proof (induction k news rule: named.induct)
  case (2 k s ss)
  then have "replicate k (CHR ''o'') \<notin> st_Id ` set (named (Suc k) ss)" by (metis (no_types, lifting) imageE length_replicate not_less_eq_eq order_refl)
  with 2 show ?case by (auto dest: Suc_leD)
qed simp


end
