(* ===== verification/NotoFindings.thy ===== *)
theory NotoFindings
  imports NotoSamples
begin

text \<open>Proposals the notary submits although a comment or another stage of the code says it should not.\<close>

abbreviation submits :: "TransactionSpecification \<Rightarrow> EndorseTransactionRequest \<Rightarrow> bool" where
  "submits spec req \<equiv> EndorseTransaction sampleEnv (\<lambda>_. True) (\<lambda>_. True) sampleNoto spec req = ENDORSER_SUBMIT"

definition transferFromSpec :: TransactionSpecification where
  "transferFromSpec = sampleSpec 1 ''bob@node1'' ''transferFrom''
     (noParams\<lparr>pj_from := Field ''alice@node1'', pj_to := Field ''bob@node1'', pj_amount := Field 60\<rparr>)"

definition prepareBurnSpec :: TransactionSpecification where
  "prepareBurnSpec = sampleSpec 1 ''alice@node1'' ''prepareBurnUnlock''
     (noParams\<lparr>pj_lockId := Field (replicate 32 7), pj_from := Field ''alice@node1'', pj_amount := Field 40\<rparr>)"

definition prepareMintSpec :: TransactionSpecification where
  "prepareMintSpec = sampleSpec 1 ''notary@node1'' ''prepareMintUnlock''
     (noParams\<lparr>pj_lockId := Field (replicate 32 7), pj_recipients := Field [(''bob@node1'', Some 40)]\<rparr>)"

definition notaryLock :: "NotoLockInfo_V1 \<Rightarrow> NotoLockInfo_V1" where
  "notaryLock l = l\<lparr>li_Owner := Some notaryAddress, li_Spender := Some notaryAddress\<rparr>"

definition mintUnlockRequest :: EndorseTransactionRequest where
  "mintUnlockRequest = (prepareRequest 1000)\<lparr>
     er_Inputs := [lockState 0x21 (notaryLock (lockInfoOf (stateId 1) (stateId 0) [] []))],
     er_Reads := [],
     er_Outputs := [lockState 0x22 (notaryLock (lockInfoOf (stateId 2) (stateId 0x21) [stateId 0x31] []))],
     er_Signatures := signedBy ''0xnotary'' notaryAddress\<rparr>"


text \<open>The signature of the sender is not tied to the sender: a transfer in Alice's name that spends her coins is submitted with
  a signature by Bob's key, because the key is compared only with the verifier that the attestation itself names.\<close>

theorem transfer_signed_by_other_key:
  "ts_From (transferSpec 1) = ''alice@node1'' \<and> submits (transferSpec 1) (sampleRequest [minted] [paid, change] (signedBy ''0xbob'' bobAddress))"
  by code_simp

text \<open>The parameters of a transfer bind nothing: a transfer of sixty to Bob is submitted with one output that pays everything
  to the notary.\<close>

theorem transfer_ignores_parameters:
  "ts_FunctionParams (transferSpec 1) = noParams\<lparr>pj_to := Field ''bob@node1'', pj_amount := Field 60\<rparr> \<and>
   submits (transferSpec 1) (sampleRequest [minted] [coinState ''c9'' (replicate 32 9) notaryAddress 100] (signedBy ''0xalice'' aliceAddress))"
  by code_simp

text \<open>Locked coins are not counted in a transfer: one that also creates a locked coin of a thousand is submitted.\<close>

theorem transfer_creates_locked_coin:
  "submits (transferSpec 1) (sampleRequest [minted] [paid, change, lockedCoinState ''l9'' (replicate 32 7) aliceAddress 1000] (signedBy ''0xalice'' aliceAddress))"
  by code_simp


text \<open>A mint that is prepared is not compared with its recipients: with recipients of forty in all, an outcome of a thousand
  is submitted. The same comparison is made when a lock for a mint is created.\<close>

theorem prepared_mint_exceeds_recipients:
  "submits prepareMintSpec mintUnlockRequest \<and>
   (\<exists>l. newLockInfo sampleNoto mintUnlockRequest = Some l \<and> coins_value sampleNoto (spendCoins sampleNoto mintUnlockRequest l) = 1000)"
proof -
  have "submits prepareMintSpec mintUnlockRequest" by code_simp
  moreover have "map_option (\<lambda>l. coins_value sampleNoto (spendCoins sampleNoto mintUnlockRequest l)) (newLockInfo sampleNoto mintUnlockRequest) = Some 1000"
    by code_simp
  ultimately show ?thesis by (auto simp: map_option_case split: option.splits)
qed

end
